(* ===== verification/Prelude.thy ===== *)
theory Prelude
  imports Main "HOL-Library.Sublist" "HOL-Library.Multiset" "HOL-Library.Char_ord" "HOL-Library.List_Lexorder"
begin

text \<open>
  The vocabulary every component shares: identifiers, instants, Python errors and results,
  the row operations of a Django table (filter, first, update, delete, get\_or\_create) on
  lists of rows, and the interfaces (locales) under which the components rely on each other.
\<close>

section \<open>Identifiers, instants, errors\<close>

text \<open>
  A primary key (UUID or BigAuto) is a natural number; fresh keys come from a counter of the
  world, so table order is insertion order. An instant is a number of microseconds in UTC and
  a \<open>timedelta\<close> is a difference of instants, as Python's \<open>datetime\<close> has them.
\<close>

type_synonym uuid = nat
type_synonym datetime = int
type_synonym timedelta = int

definition seconds :: "int \<Rightarrow> timedelta" where
  "seconds n = n * 1000000"

definition minutes :: "int \<Rightarrow> timedelta" where
  "minutes n = seconds (60 * n)"

definition hours :: "int \<Rightarrow> timedelta" where
  "hours n = minutes (60 * n)"

definition days :: "int \<Rightarrow> timedelta" where
  "days n = hours (24 * n)"

definition total_seconds_floor :: "timedelta \<Rightarrow> int" where
  "total_seconds_floor d = d div 1000000"

named_theorems time_defs "the units of time"

lemmas time_unit_defs [time_defs] = seconds_def minutes_def hours_def days_def

text \<open>
  The exceptions the modelled code raises or lets through. \<open>ApiError status detail\<close> is a DRF
  exception with its HTTP status.
\<close>

datatype py_error =
    ValueError string
  | TypeError string
  | KeyError string
  | RuntimeError string
  | IntegrityError string
  | ProtectedError string
  | ApiError nat string

type_synonym 'a result = "py_error + 'a"

abbreviation Raise :: "py_error \<Rightarrow> 'a result" where
  "Raise \<equiv> Inl"

abbreviation Ok :: "'a \<Rightarrow> 'a result" where
  "Ok \<equiv> Inr"

text \<open>\<open>str(exc)\<close>\<close>

definition error_text :: "py_error \<Rightarrow> string" where
  "error_text x =
     (case x of ValueError s \<Rightarrow> s | TypeError s \<Rightarrow> s | KeyError s \<Rightarrow> s | RuntimeError s \<Rightarrow> s
      | IntegrityError s \<Rightarrow> s | ProtectedError s \<Rightarrow> s | ApiError _ s \<Rightarrow> s)"

text \<open>Sequencing of a computation that may raise, Python's implicit propagation.\<close>

definition bind_result :: "'a result \<Rightarrow> ('a \<Rightarrow> 'b result) \<Rightarrow> 'b result" where
  "bind_result r f = (case r of Inl e \<Rightarrow> Inl e | Inr x \<Rightarrow> f x)"

lemma bind_result_simps [simp]:
  "bind_result (Inl e) f = Inl e"
  "bind_result (Inr x) f = f x"
  by (simp_all add: bind_result_def)

lemma bind_result_Inr_iff:
  "bind_result r f = Inr y \<longleftrightarrow> (\<exists>x. r = Inr x \<and> f x = Inr y)"
  by (cases r) auto

lemma bind_result_assoc:
  "bind_result (bind_result r f) g = bind_result r (\<lambda>x. bind_result (f x) g)"
  by (cases r) auto

section \<open>Rows of a table\<close>

text \<open>
  A table is the list of its rows in insertion order. \<open>qs.filter(p)\<close> is HOL's \<open>filter\<close>,
  \<open>qs.first()\<close> is \<open>first_row\<close>, \<open>qs.exists()\<close> is \<open>exists_row\<close>,
  \<open>qs.update(f)\<close> is \<open>update_where\<close>, \<open>qs.delete()\<close> is \<open>delete_where\<close>.
\<close>

definition first_row :: "'r list \<Rightarrow> 'r option" where
  "first_row rs = (case rs of [] \<Rightarrow> None | r # _ \<Rightarrow> Some r)"

definition exists_row :: "('r \<Rightarrow> bool) \<Rightarrow> 'r list \<Rightarrow> bool" where
  "exists_row p rs = list_ex p rs"

definition update_where :: "('r \<Rightarrow> bool) \<Rightarrow> ('r \<Rightarrow> 'r) \<Rightarrow> 'r list \<Rightarrow> 'r list" where
  "update_where p f rs = map (\<lambda>r. if p r then f r else r) rs"

definition delete_where :: "('r \<Rightarrow> bool) \<Rightarrow> 'r list \<Rightarrow> 'r list" where
  "delete_where p rs = filter (\<lambda>r. \<not> p r) rs"

text \<open>\<open>order_by(k)\<close> and \<open>order_by(-k)\<close>; ties keep the insertion order.\<close>

definition order_by :: "('r \<Rightarrow> 'k::linorder) \<Rightarrow> 'r list \<Rightarrow> 'r list" where
  "order_by k rs = sort_key k rs"

definition order_by_desc :: "('r \<Rightarrow> int) \<Rightarrow> 'r list \<Rightarrow> 'r list" where
  "order_by_desc k rs = sort_key (\<lambda>r. - k r) rs"

text \<open>\<open>values_list(k).distinct()\<close>: the values, each once, in order of first occurrence.\<close>

fun distinct_values :: "'a list \<Rightarrow> 'a list" where
  "distinct_values [] = []"
| "distinct_values (x # xs) = x # filter (\<lambda>y. y \<noteq> x) (distinct_values xs)"

lemma set_distinct_values [simp]: "set (distinct_values xs) = set xs"
  by (induction xs) auto

lemma distinct_distinct_values [simp]: "distinct (distinct_values xs)"
  by (induction xs) auto

lemma first_row_simps [simp]:
  "first_row [] = None"
  "first_row (r # rs) = Some r"
  by (simp_all add: first_row_def)

lemma first_row_None_iff [simp]: "first_row rs = None \<longleftrightarrow> rs = []"
  by (cases rs) simp_all

lemma first_row_Some_iff: "first_row rs = Some r \<longleftrightarrow> (\<exists>rs'. rs = r # rs')"
  by (cases rs) auto

lemma first_row_in: "first_row rs = Some r \<Longrightarrow> r \<in> set rs"
  by (auto simp: first_row_Some_iff)

lemma first_filterD:
  "first_row (filter p rs) = Some r \<Longrightarrow> r \<in> set rs \<and> p r"
  by (auto dest: first_row_in)

lemma exists_row_iff [simp]: "exists_row p rs \<longleftrightarrow> (\<exists>r \<in> set rs. p r)"
  by (simp add: exists_row_def list_ex_iff)

lemma first_filter_None_iff:
  "first_row (filter p rs) = None \<longleftrightarrow> (\<forall>r \<in> set rs. \<not> p r)"
  by (simp add: filter_empty_conv)

lemma first_row_filter_find: "first_row (filter p rs) = find p rs"
  by (induction rs) auto

lemma find_SomeD: "find p rs = Some r \<Longrightarrow> r \<in> set rs \<and> p r"
  by (metis first_filterD first_row_filter_find)

lemma set_order_by [simp]: "set (order_by k rs) = set rs"
  by (simp add: order_by_def)

lemma set_order_by_desc [simp]: "set (order_by_desc k rs) = set rs"
  by (simp add: order_by_desc_def)

lemma order_by_Nil_iff [simp]: "order_by k rs = [] \<longleftrightarrow> rs = []"
  by (metis set_empty set_order_by)

lemma order_by_desc_Nil_iff [simp]: "order_by_desc k rs = [] \<longleftrightarrow> rs = []"
  by (metis set_empty set_order_by_desc)

lemma order_by_Nil [simp]: "order_by k [] = []" "order_by_desc k' [] = []"
  by simp_all

lemma order_by_simps:
  "order_by k [x] = [x]"
  "order_by_desc k' [x] = [x]"
  by (simp_all add: order_by_def order_by_desc_def)

lemma length_order_by [simp]: "length (order_by k rs) = length rs"
  by (simp add: order_by_def)

lemma length_order_by_desc [simp]: "length (order_by_desc k rs) = length rs"
  by (simp add: order_by_desc_def)

lemma order_by_desc_first_max:
  assumes "order_by_desc k rs = r # rest" and "x \<in> set rs"
  shows "k x \<le> k r"
proof -
  have "sorted (map (\<lambda>r. - k r) (order_by_desc k rs))"
    by (simp add: order_by_desc_def)
  moreover have "x \<in> set (order_by_desc k rs)" using assms(2) by simp
  ultimately show ?thesis using assms(1) by auto
qed

lemma order_by_first_min:
  assumes "order_by k rs = r # rest" and "x \<in> set rs"
  shows "k r \<le> k x"
proof -
  have "sorted (map k (order_by k rs))" by (simp add: order_by_def)
  moreover have "x \<in> set (order_by k rs)" using assms(2) by simp
  ultimately show ?thesis using assms(1) by auto
qed

lemma length_update_where [simp]: "length (update_where p f rs) = length rs"
  by (simp add: update_where_def)

lemma update_where_Nil [simp]: "update_where p f [] = []"
  by (simp add: update_where_def)

lemma update_where_Cons [simp]:
  "update_where p f (r # rs) = (if p r then f r else r) # update_where p f rs"
  by (simp add: update_where_def)

lemma update_where_append [simp]:
  "update_where p f (rs @ rs') = update_where p f rs @ update_where p f rs'"
  by (simp add: update_where_def)

lemma in_update_where_iff:
  "x \<in> set (update_where p f rs) \<longleftrightarrow>
     (\<exists>r \<in> set rs. x = (if p r then f r else r))"
  by (auto simp: update_where_def)

lemma map_update_where:
  assumes "\<And>r. p r \<Longrightarrow> g (f r) = g r"
  shows "map g (update_where p f rs) = map g rs"
  using assms by (induction rs) auto

text \<open>A row is found under its key when the keys are distinct.\<close>

lemma find_by_key: "distinct (map k rs) \<Longrightarrow> x \<in> set rs \<Longrightarrow> find (\<lambda>r. k r = k x) rs = Some x"
  by (induction rs) (auto simp: rev_image_eqI)

text \<open>Saving a row over the one with its key keeps the keys.\<close>

lemma map_key_save [simp]: "map k (update_where (\<lambda>r. k r = k x) (\<lambda>_. x) rs) = map k rs"
  by (induction rs) auto

lemma update_where_id:
  assumes "\<And>r. r \<in> set rs \<Longrightarrow> \<not> p r"
  shows "update_where p f rs = rs"
  using assms by (induction rs) auto

lemma set_delete_where [simp]: "set (delete_where p rs) = {r \<in> set rs. \<not> p r}"
  by (auto simp: delete_where_def)

lemma delete_where_Nil [simp]: "delete_where p [] = []"
  by (simp add: delete_where_def)

lemma delete_where_idem [simp]: "delete_where p (delete_where p rs) = delete_where p rs"
  by (simp add: delete_where_def)

end
