(* ===== verification/Json.thy ===== *)
theory Json
  imports PyStr
begin

text \<open>
  JSON values as Python's \<open>JSONField\<close>s, request bodies and webhook payloads hold them. A UUID or
  a datetime inside a payload is a leaf of its own (\<open>JUuid\<close>, \<open>JTime\<close>): the code keeps the
  object and \<open>json.dumps(default=str)\<close> renders it. An object is the list of its items in
  insertion order. JSON numbers are integers here.
\<close>

datatype json =
    JNull
  | JBool bool
  | JInt int
  | JStr string
  | JTime datetime
  | JUuid uuid
  | JList "json list"
  | JObj "(string \<times> json) list"

text \<open>Python's truth value of an object.\<close>

fun truthy :: "json \<Rightarrow> bool" where
  "truthy JNull = False"
| "truthy (JBool b) = b"
| "truthy (JInt i) = (i \<noteq> 0)"
| "truthy (JStr s) = (s \<noteq> [])"
| "truthy (JTime _) = True"
| "truthy (JUuid _) = True"
| "truthy (JList xs) = (xs \<noteq> [])"
| "truthy (JObj xs) = (xs \<noteq> [])"

text \<open>\<open>d.get(k)\<close> on the items of a dict; \<open>None\<close> is a missing key.\<close>

definition dict_get :: "(string \<times> json) list \<Rightarrow> string \<Rightarrow> json option" where
  "dict_get d k = map_of d k"

definition dict_get_or :: "(string \<times> json) list \<Rightarrow> string \<Rightarrow> json \<Rightarrow> json" where
  "dict_get_or d k dflt = (case map_of d k of None \<Rightarrow> dflt | Some v \<Rightarrow> v)"

text \<open>The items of \<open>(v or {})\<close>; a value with no \<open>get\<close> raises.\<close>

definition items_or_empty :: "json \<Rightarrow> (string \<times> json) list result" where
  "items_or_empty v =
     (if \<not> truthy v then Ok []
      else case v of JObj d \<Rightarrow> Ok d | _ \<Rightarrow> Raise (TypeError ''no attribute get''))"

text \<open>\<open>a or b\<close> on JSON values.\<close>

definition json_or :: "json \<Rightarrow> json \<Rightarrow> json" where
  "json_or a b = (if truthy a then a else b)"

text \<open>\<open>s in c\<close> for a string \<open>s\<close>: list membership, substring, or dict key.\<close>

definition str_in_json :: "string \<Rightarrow> json \<Rightarrow> bool result" where
  "str_in_json s c =
     (case c of
        JList xs \<Rightarrow> Ok (JStr s \<in> set xs)
      | JStr t \<Rightarrow> Ok (str_contains s t)
      | JObj d \<Rightarrow> Ok (s \<in> fst ` set d)
      | _ \<Rightarrow> Raise (TypeError ''argument is not iterable''))"

text \<open>\<open>int(v)\<close>\<close>

definition int_of_json :: "json \<Rightarrow> int result" where
  "int_of_json v =
     (case v of
        JInt i \<Rightarrow> Ok i
      | JBool b \<Rightarrow> Ok (if b then 1 else 0)
      | JStr s \<Rightarrow> int_of_string s
      | _ \<Rightarrow> Raise (TypeError ''int() argument''))"

text \<open>Optional keys and strings as JSON: \<open>str(x) if x else None\<close>.\<close>

definition json_opt_uuid :: "uuid option \<Rightarrow> json" where
  "json_opt_uuid x = (case x of None \<Rightarrow> JNull | Some u \<Rightarrow> JUuid u)"

definition json_opt_time :: "datetime option \<Rightarrow> json" where
  "json_opt_time x = (case x of None \<Rightarrow> JNull | Some t \<Rightarrow> JTime t)"

definition json_opt_str :: "string option \<Rightarrow> json" where
  "json_opt_str x = (case x of None \<Rightarrow> JNull | Some s \<Rightarrow> JStr s)"

definition json_opt_int :: "int option \<Rightarrow> json" where
  "json_opt_int x = (case x of None \<Rightarrow> JNull | Some i \<Rightarrow> JInt i)"

section \<open>json.dumps\<close>

definition hex_digit :: "nat \<Rightarrow> char" where
  "hex_digit n = char_of (if n < 10 then 48 + n else 87 + n)"

text \<open>
  The escape of one character, as \<open>ensure_ascii\<close> does it: a backslash and a letter for the
  characters that have such an escape, the character itself when printable, \<open>\u00XX\<close> otherwise.
\<close>

definition special_char :: "char \<Rightarrow> bool" where
  "special_char c \<longleftrightarrow> c \<in> {CHR 0x22, CHR 0x5C, CHR 0x0A, CHR 0x0D, CHR 0x09, CHR 0x08, CHR 0x0C}"

definition short_escape :: "char \<Rightarrow> char" where
  "short_escape c =
     (if c = CHR 0x0A then CHR ''n'' else if c = CHR 0x0D then CHR ''r''
      else if c = CHR 0x09 then CHR ''t'' else if c = CHR 0x08 then CHR ''b''
      else if c = CHR 0x0C then CHR ''f'' else c)"

definition printable_char :: "char \<Rightarrow> bool" where
  "printable_char c \<longleftrightarrow> (32::nat) \<le> of_char c \<and> of_char c \<le> (126::nat)"

definition escape_char :: "char \<Rightarrow> string" where
  "escape_char c =
     (if special_char c then [CHR 0x5C, short_escape c]
      else if printable_char c then [c]
      else [CHR 0x5C, CHR ''u'', CHR ''0'', CHR ''0'',
            hex_digit (of_char c div 16), hex_digit (of_char c mod 16)])"

definition quote_string :: "string \<Rightarrow> string" where
  "quote_string s = [CHR 0x22] @ concat (map escape_char s) @ [CHR 0x22]"

text \<open>
  \<open>print_json is ks\<close> renders with item separator \<open>is\<close> and key separator \<open>ks\<close>
  (\<open>", "\<close> and \<open>": "\<close> by default, \<open>","\<close> and \<open>":"\<close> for webhook bodies). The
  text of a UUID is its decimal number, that of an instant its microseconds.
\<close>

fun print_json :: "string \<Rightarrow> string \<Rightarrow> json \<Rightarrow> string" where
  "print_json is ks JNull = ''null''"
| "print_json is ks (JBool b) = (if b then ''true'' else ''false'')"
| "print_json is ks (JInt i) = string_of_int i"
| "print_json is ks (JStr s) = quote_string s"
| "print_json is ks (JTime t) = quote_string (string_of_int t)"
| "print_json is ks (JUuid u) = quote_string (string_of_nat u)"
| "print_json is ks (JList xs) = ''['' @ join_with is (map (print_json is ks) xs) @ '']''"
| "print_json is ks (JObj kvs) =
     ''{'' @ join_with is (map (\<lambda>kv. quote_string (fst kv) @ ks @ print_json is ks (snd kv)) kvs) @ ''}''"

text \<open>\<open>sort_keys=True\<close>\<close>

fun sort_keys :: "json \<Rightarrow> json" where
  "sort_keys (JList xs) = JList (map sort_keys xs)"
| "sort_keys (JObj kvs) = JObj (sort_key fst (map (\<lambda>kv. (fst kv, sort_keys (snd kv))) kvs))"
| "sort_keys j = j"

definition dumps_sorted :: "json \<Rightarrow> string" where
  "dumps_sorted j = print_json '', '' '': '' (sort_keys j)"

definition dumps_compact :: "json \<Rightarrow> string" where
  "dumps_compact j = print_json '','' '':'' j"

section \<open>str() and repr()\<close>

text \<open>\<open>repr\<close> of a string: single quotes unless it holds one and no double quote.\<close>

definition repr_char :: "char \<Rightarrow> char \<Rightarrow> string" where
  "repr_char q c =
     (let n = (of_char c :: nat) in
      if c = q \<or> c = CHR 0x5C then [CHR 0x5C, c]
      else if c = CHR 0x0A then [CHR 0x5C, CHR ''n'']
      else if c = CHR 0x0D then [CHR 0x5C, CHR ''r'']
      else if c = CHR 0x09 then [CHR 0x5C, CHR ''t'']
      else if n < 32 \<or> (127 \<le> n \<and> n \<le> 160) \<or> n = 173
      then [CHR 0x5C, CHR ''x'', hex_digit (n div 16), hex_digit (n mod 16)]
      else [c])"

definition repr_string :: "string \<Rightarrow> string" where
  "repr_string s =
     (let q = (if CHR 0x27 \<in> set s \<and> CHR 0x22 \<notin> set s then CHR 0x22 else CHR 0x27)
      in [q] @ concat (map (repr_char q) s) @ [q])"

fun py_repr :: "json \<Rightarrow> string" where
  "py_repr JNull = ''None''"
| "py_repr (JBool b) = (if b then ''True'' else ''False'')"
| "py_repr (JInt i) = string_of_int i"
| "py_repr (JStr s) = repr_string s"
| "py_repr (JTime t) = string_of_int t"
| "py_repr (JUuid u) = ''UUID('' @ repr_string (string_of_nat u) @ '')''"
| "py_repr (JList xs) = ''['' @ join_with '', '' (map py_repr xs) @ '']''"
| "py_repr (JObj kvs) =
     ''{'' @ join_with '', '' (map (\<lambda>kv. repr_string (fst kv) @ '': '' @ py_repr (snd kv)) kvs) @ ''}''"

text \<open>\<open>str(v)\<close>: the text of a string, a UUID or an instant, \<open>repr\<close> otherwise.\<close>

definition py_str :: "json \<Rightarrow> string" where
  "py_str v =
     (case v of
        JStr s \<Rightarrow> s
      | JUuid u \<Rightarrow> string_of_nat u
      | _ \<Rightarrow> py_repr v)"

end
