(* ===== verification/TenancyModels.thy ===== *)
theory TenancyModels
  imports Json
begin

text \<open>The tables of \<open>apps/tenancy\<close>: tenants and their projects.\<close>

datatype tenant_status = TenantActive | TenantSuspended | TenantDeleted

record tenant =
  tn_id :: uuid
  tn_name :: string
  tn_slug :: string
  tn_domain :: "string option"
  tn_logo_url :: "string option"
  tn_plan :: string
  tn_data_region :: string
  tn_status :: tenant_status
  tn_stripe_id :: "string option"
  tn_settings :: json
  tn_created_at :: datetime
  tn_updated_at :: datetime

record project =
  pj_id :: uuid
  pj_tenant :: uuid
  pj_name :: string
  pj_slug :: string
  pj_description :: string
  pj_is_active :: bool
  pj_created_at :: datetime
  pj_updated_at :: datetime

text \<open>\<open>slug\<close> is unique among tenants and, per tenant, among projects.\<close>

definition unique_tenant_slug :: "tenant list \<Rightarrow> bool" where
  "unique_tenant_slug ts \<longleftrightarrow> distinct (map tn_slug ts)"

definition unique_project_slug_per_tenant :: "project list \<Rightarrow> bool" where
  "unique_project_slug_per_tenant ps \<longleftrightarrow> distinct (map (\<lambda>p. (pj_tenant p, pj_slug p)) ps)"

end
