(* ===== verification/AccountsModels.thy ===== *)
theory AccountsModels
  imports Json
begin

text \<open>The tables of \<open>apps/accounts\<close>: users, tenant memberships, OTP challenges, MFA sessions.\<close>

text \<open>
  \<open>usr_password\<close> is the stored hash, \<open>None\<close> for an unusable password. The fields of
  Django's \<open>AbstractUser\<close> the code reads come first.
\<close>

record user =
  usr_id :: uuid
  usr_username :: string
  usr_first_name :: string
  usr_last_name :: string
  usr_password :: "string option"
  usr_is_staff :: bool
  usr_is_superuser :: bool
  usr_is_active :: bool
  usr_last_login :: "datetime option"
  usr_email :: string
  usr_is_email_verified :: bool
  usr_mfa_enabled :: bool
  usr_mfa_secret :: string
  usr_session_timeout_minutes :: nat
  usr_last_login_ip :: "string option"
  usr_is_erased :: bool
  usr_erased_at :: "datetime option"
  usr_created_at :: datetime
  usr_updated_at :: datetime

definition full_name :: "user \<Rightarrow> string" where
  "full_name u =
     (let n = strip (usr_first_name u @ '' '' @ usr_last_name u)
      in if n \<noteq> [] then n else usr_email u)"

record user_membership =
  um_id :: uuid
  um_user :: uuid
  um_tenant :: uuid
  um_is_owner :: bool
  um_invited_by :: "uuid option"
  um_invitation_token :: string
  um_invited_at :: datetime
  um_accepted_at :: "datetime option"
  um_created_at :: datetime
  um_updated_at :: datetime

definition unique_user_per_tenant :: "user_membership list \<Rightarrow> bool" where
  "unique_user_per_tenant ms \<longleftrightarrow> distinct (map (\<lambda>m. (um_user m, um_tenant m)) ms)"

definition membership_is_accepted :: "user_membership \<Rightarrow> bool" where
  "membership_is_accepted m \<longleftrightarrow> um_accepted_at m \<noteq> None"

datatype otp_purpose = Activation | MfaLogin | PasswordReset

record otp_challenge =
  otp_id :: uuid
  otp_user :: uuid
  otp_purpose :: otp_purpose
  otp_code_hash :: string
  otp_expires_at :: datetime
  otp_consumed_at :: "datetime option"
  otp_attempts :: nat
  otp_created_at :: datetime

definition otp_is_expired :: "datetime \<Rightarrow> otp_challenge \<Rightarrow> bool" where
  "otp_is_expired now c \<longleftrightarrow> otp_expires_at c \<le> now"

definition otp_is_consumed :: "otp_challenge \<Rightarrow> bool" where
  "otp_is_consumed c \<longleftrightarrow> otp_consumed_at c \<noteq> None"

record mfa_session =
  ms_id :: uuid
  ms_user :: uuid
  ms_token :: string
  ms_expires_at :: datetime
  ms_consumed_at :: "datetime option"
  ms_created_at :: datetime

definition mfa_is_expired :: "datetime \<Rightarrow> mfa_session \<Rightarrow> bool" where
  "mfa_is_expired now s \<longleftrightarrow> ms_expires_at s \<le> now"

definition mfa_is_consumed :: "mfa_session \<Rightarrow> bool" where
  "mfa_is_consumed s \<longleftrightarrow> ms_consumed_at s \<noteq> None"

end
