(* ===== verification/RbacModels.thy ===== *)
theory RbacModels
  imports Json
begin

text \<open>The tables of \<open>apps/rbac\<close>: roles, teams, memberships, resource policies, API keys.\<close>

record role =
  ro_id :: uuid
  ro_tenant :: uuid
  ro_project :: uuid
  ro_name :: string
  ro_description :: string
  ro_is_system :: bool
  ro_permissions :: "string list"
  ro_created_at :: datetime
  ro_updated_at :: datetime

definition unique_role_name_per_project :: "role list \<Rightarrow> bool" where
  "unique_role_name_per_project rs \<longleftrightarrow> distinct (map (\<lambda>r. (ro_project r, ro_name r)) rs)"

record team =
  tm_id :: uuid
  tm_tenant :: uuid
  tm_project :: uuid
  tm_name :: string
  tm_description :: string
  tm_created_at :: datetime
  tm_updated_at :: datetime

definition unique_team_name_per_project :: "team list \<Rightarrow> bool" where
  "unique_team_name_per_project ts \<longleftrightarrow> distinct (map (\<lambda>t. (tm_project t, tm_name t)) ts)"

record team_membership =
  mb_id :: uuid
  mb_team :: uuid
  mb_user :: uuid
  mb_role :: uuid
  mb_granted_by :: "uuid option"
  mb_created_at :: datetime

definition unique_user_per_team :: "team_membership list \<Rightarrow> bool" where
  "unique_user_per_team ms \<longleftrightarrow> distinct (map (\<lambda>m. (mb_team m, mb_user m)) ms)"

datatype policy_effect = EffectAllow | EffectDeny

record resource_policy =
  rp_id :: uuid
  rp_tenant :: uuid
  rp_project :: uuid
  rp_role :: uuid
  rp_resource_type :: string
  rp_resource_id :: "uuid option"
  rp_effect :: policy_effect
  rp_conditions :: json
  rp_created_at :: datetime
  rp_updated_at :: datetime

record api_key =
  ak_id :: uuid
  ak_tenant :: uuid
  ak_project :: uuid
  ak_name :: string
  ak_key_prefix :: string
  ak_key_hash :: string
  ak_permissions :: "string list"
  ak_created_by :: "uuid option"
  ak_last_used_at :: "datetime option"
  ak_expires_at :: "datetime option"
  ak_revoked_at :: "datetime option"
  ak_created_at :: datetime
  ak_updated_at :: datetime

text \<open>\<open>ApiKey.is_active\<close>: neither revoked nor past its expiry.\<close>

definition api_key_is_active :: "datetime \<Rightarrow> api_key \<Rightarrow> bool" where
  "api_key_is_active now k =
     (if ak_revoked_at k \<noteq> None then False
      else case ak_expires_at k of
             Some t \<Rightarrow> (if t < now then False else True)
           | None \<Rightarrow> True)"

end
