(* ===== verification/MonitoringModels.thy ===== *)
theory MonitoringModels
  imports Json
begin

text \<open>The tables of \<open>apps/monitoring\<close>: probes, monitors, groups, recorded checks.\<close>

datatype monitor_type =
    TyApi | TyWebsite | TyPing | TyTcp | TyUdp | TyDns | TySsl | TyMultiStepApi | TyJourney
  | TyHeartbeat

datatype monitor_status = Operational | Degraded | Offline | Disabled

datatype check_status = Success | Failure | Timeout | CheckError

record probe =
  pb_id :: uuid
  pb_tenant :: uuid
  pb_project :: uuid
  pb_name :: string
  pb_location :: string
  pb_probe_key :: string
  pb_last_seen_at :: "datetime option"
  pb_is_active :: bool
  pb_version :: string
  pb_created_at :: datetime
  pb_updated_at :: datetime

record monitor =
  mo_id :: uuid
  mo_tenant :: uuid
  mo_project :: uuid
  mo_team :: "uuid option"
  mo_name :: string
  mo_type :: monitor_type
  mo_url :: string
  mo_method :: string
  mo_interval_seconds :: nat
  mo_timeout_seconds :: nat
  mo_retries :: nat
  mo_probe_locations :: "string list"
  mo_criteria :: json
  mo_steps :: "json list"
  mo_headers :: "(string \<times> json) list"
  mo_body :: string
  mo_alert_on_failure :: bool
  mo_is_paused :: bool
  mo_status :: monitor_status
  mo_tags :: "string list"
  mo_current_incident :: "uuid option"
  mo_last_check_at :: "datetime option"
  mo_next_check_at :: "datetime option"
  mo_created_at :: datetime
  mo_updated_at :: datetime

record monitor_group =
  mg_id :: uuid
  mg_tenant :: uuid
  mg_project :: uuid
  mg_team :: "uuid option"
  mg_name :: string
  mg_description :: string
  mg_monitors :: "uuid list"
  mg_created_at :: datetime
  mg_updated_at :: datetime

record monitor_check =
  ck_id :: uuid
  ck_tenant :: uuid
  ck_monitor :: uuid
  ck_probe :: "uuid option"
  ck_checked_at :: datetime
  ck_status :: check_status
  ck_response_status_code :: "int option"
  ck_response_time_ms :: "int option"
  ck_error_message :: string
  ck_triggered_incident :: "uuid option"

fun monitor_status_value :: "monitor_status \<Rightarrow> string" where
  "monitor_status_value Operational = ''operational''"
| "monitor_status_value Degraded = ''degraded''"
| "monitor_status_value Offline = ''offline''"
| "monitor_status_value Disabled = ''disabled''"

fun monitor_type_value :: "monitor_type \<Rightarrow> string" where
  "monitor_type_value TyApi = ''api''"
| "monitor_type_value TyWebsite = ''website''"
| "monitor_type_value TyPing = ''ping''"
| "monitor_type_value TyTcp = ''tcp''"
| "monitor_type_value TyUdp = ''udp''"
| "monitor_type_value TyDns = ''dns''"
| "monitor_type_value TySsl = ''ssl''"
| "monitor_type_value TyMultiStepApi = ''multi_step_api''"
| "monitor_type_value TyJourney = ''journey''"
| "monitor_type_value TyHeartbeat = ''heartbeat''"

end
