(* ===== verification/IncidentModels.thy ===== *)
theory IncidentModels
  imports Json
begin

text \<open>
  The tables of \<open>apps/incidents\<close>: states, severities, incidents, notes, postmortems,
  escalation policies with their steps and per-incident progress, workflow rules.
\<close>

record incident_state =
  st_id :: uuid
  st_tenant :: uuid
  st_project :: uuid
  st_name :: string
  st_color :: string
  st_order :: nat
  st_is_resolved_state :: bool
  st_is_system :: bool
  st_created_at :: datetime
  st_updated_at :: datetime

definition unique_incident_state_per_project :: "incident_state list \<Rightarrow> bool" where
  "unique_incident_state_per_project ss \<longleftrightarrow> distinct (map (\<lambda>s. (st_project s, st_name s)) ss)"

record incident_severity =
  sv_id :: uuid
  sv_tenant :: uuid
  sv_project :: uuid
  sv_name :: string
  sv_color :: string
  sv_order :: nat
  sv_is_system :: bool
  sv_created_at :: datetime
  sv_updated_at :: datetime

definition unique_incident_severity_per_project :: "incident_severity list \<Rightarrow> bool" where
  "unique_incident_severity_per_project ss \<longleftrightarrow> distinct (map (\<lambda>s. (sv_project s, sv_name s)) ss)"

record incident =
  ic_id :: uuid
  ic_tenant :: uuid
  ic_project :: uuid
  ic_team :: "uuid option"
  ic_monitor :: "uuid option"
  ic_title :: string
  ic_description :: string
  ic_severity :: uuid
  ic_state :: uuid
  ic_assigned_to :: "uuid option"
  ic_triggered_at :: datetime
  ic_acknowledged_at :: "datetime option"
  ic_acknowledged_by :: "uuid option"
  ic_resolved_at :: "datetime option"
  ic_resolved_by :: "uuid option"
  ic_is_visible_on_status_page :: bool
  ic_created_at :: datetime
  ic_updated_at :: datetime

record incident_note =
  nt_id :: uuid
  nt_tenant :: uuid
  nt_incident :: uuid
  nt_author :: "uuid option"
  nt_content :: string
  nt_is_public :: bool
  nt_created_at :: datetime
  nt_updated_at :: datetime

record incident_postmortem =
  pm_id :: uuid
  pm_tenant :: uuid
  pm_incident :: uuid
  pm_summary :: string
  pm_impact :: string
  pm_root_cause :: string
  pm_timeline :: string
  pm_action_items :: json
  pm_published_at :: "datetime option"
  pm_created_at :: datetime
  pm_updated_at :: datetime

record escalation_policy =
  ep_id :: uuid
  ep_tenant :: uuid
  ep_project :: uuid
  ep_team :: "uuid option"
  ep_name :: string
  ep_description :: string
  ep_is_default :: bool
  ep_is_active :: bool
  ep_severity_names :: "string list"
  ep_created_at :: datetime
  ep_updated_at :: datetime

datatype step_action = NotifyWebhook | NotifyUser | IncreaseSeverity | AssignUser

record escalation_step =
  es_id :: uuid
  es_policy :: uuid
  es_order :: nat
  es_delay_minutes :: nat
  es_action :: step_action
  es_webhook :: "uuid option"
  es_user :: "uuid option"
  es_target_severity :: "uuid option"
  es_created_at :: datetime

definition unique_escalation_step_order :: "escalation_step list \<Rightarrow> bool" where
  "unique_escalation_step_order ss \<longleftrightarrow> distinct (map (\<lambda>s. (es_policy s, es_order s)) ss)"

record escalation_state =
  et_id :: uuid
  et_incident :: uuid
  et_policy :: uuid
  et_current_step_order :: nat
  et_last_escalated_at :: "datetime option"
  et_completed :: bool
  et_created_at :: datetime
  et_updated_at :: datetime

datatype rule_trigger = IncidentCreated | IncidentUnacknowledged | IncidentResolved

record workflow_rule =
  wr_id :: uuid
  wr_tenant :: uuid
  wr_project :: uuid
  wr_name :: string
  wr_trigger :: rule_trigger
  wr_conditions :: json
  wr_actions :: "json list"
  wr_is_active :: bool
  wr_created_at :: datetime
  wr_updated_at :: datetime

end
