(* ===== verification/WebhookModels.thy ===== *)
theory WebhookModels
  imports Json
begin

text \<open>The tables of \<open>apps/webhooks\<close>: outbound hooks and their deliveries.\<close>

datatype delivery_status = Pending | Delivered | Failed | Exhausted

datatype payload_format = FmtJson | FmtSlack | FmtTeams | FmtDiscord

record webhook =
  wh_id :: uuid
  wh_tenant :: uuid
  wh_project :: uuid
  wh_team :: "uuid option"
  wh_name :: string
  wh_url :: string
  wh_secret :: string
  wh_payload_format :: payload_format
  wh_event_types :: "string list"
  wh_is_active :: bool
  wh_headers :: "(string \<times> string) list"
  wh_timeout_seconds :: nat
  wh_max_retries :: nat
  wh_created_at :: datetime
  wh_updated_at :: datetime

record delivery =
  dl_id :: uuid
  dl_tenant :: uuid
  dl_webhook :: uuid
  dl_event_id :: string
  dl_event_type :: string
  dl_payload :: json
  dl_response_status :: "int option"
  dl_response_body :: string
  dl_attempt_count :: nat
  dl_status :: delivery_status
  dl_next_retry_at :: "datetime option"
  dl_delivered_at :: "datetime option"
  dl_duration_ms :: "int option"
  dl_created_at :: datetime
  dl_updated_at :: datetime

end
