(* ===== verification/MaintenanceModels.thy ===== *)
theory MaintenanceModels
  imports Json
begin

text \<open>The table of \<open>apps/maintenance\<close>: planned maintenance windows and their recurrence.\<close>

datatype maintenance_status = MScheduled | MInProgress | MCompleted | MCancelled

datatype recurrence_frequency = RecNone | RecDaily | RecWeekly | RecMonthly

text \<open>\<open>sm_monitors\<close> is the many-to-many relation; empty means the whole project.\<close>

record scheduled_maintenance =
  sm_id :: uuid
  sm_tenant :: uuid
  sm_project :: uuid
  sm_team :: "uuid option"
  sm_title :: string
  sm_description :: string
  sm_starts_at :: datetime
  sm_ends_at :: datetime
  sm_monitors :: "uuid list"
  sm_status :: maintenance_status
  sm_is_visible_on_status_page :: bool
  sm_notify_subscribers :: bool
  sm_recurrence_frequency :: recurrence_frequency
  sm_recurrence_interval :: nat
  sm_recurrence_weekdays :: "int list"
  sm_recurrence_until :: "datetime option"
  sm_series_id :: "uuid option"
  sm_created_at :: datetime
  sm_updated_at :: datetime

fun maintenance_status_value :: "maintenance_status \<Rightarrow> string" where
  "maintenance_status_value MScheduled = ''scheduled''"
| "maintenance_status_value MInProgress = ''in_progress''"
| "maintenance_status_value MCompleted = ''completed''"
| "maintenance_status_value MCancelled = ''cancelled''"

fun recurrence_frequency_value :: "recurrence_frequency \<Rightarrow> string" where
  "recurrence_frequency_value RecNone = ''none''"
| "recurrence_frequency_value RecDaily = ''daily''"
| "recurrence_frequency_value RecWeekly = ''weekly''"
| "recurrence_frequency_value RecMonthly = ''monthly''"

end
