(* ===== verification/StatusPageModels.thy ===== *)
theory StatusPageModels
  imports Json
begin

text \<open>The tables of \<open>apps/status_pages\<close>: pages, their resources, subscribers, announcements.\<close>

record status_page =
  sp_id :: uuid
  sp_tenant :: uuid
  sp_project :: uuid
  sp_team :: "uuid option"
  sp_name :: string
  sp_slug :: string
  sp_is_public :: bool
  sp_custom_domain :: "string option"
  sp_logo_url :: "string option"
  sp_primary_color :: string
  sp_custom_css :: string
  sp_description :: string
  sp_created_at :: datetime
  sp_updated_at :: datetime

definition unique_status_page_slug_per_tenant :: "status_page list \<Rightarrow> bool" where
  "unique_status_page_slug_per_tenant ps \<longleftrightarrow> distinct (map (\<lambda>p. (sp_tenant p, sp_slug p)) ps)"

record status_page_resource =
  sr_id :: uuid
  sr_tenant :: uuid
  sr_status_page :: uuid
  sr_monitor :: "uuid option"
  sr_monitor_group :: "uuid option"
  sr_display_name :: string
  sr_order :: nat
  sr_created_at :: datetime

record subscriber =
  sb_id :: uuid
  sb_tenant :: uuid
  sb_status_page :: uuid
  sb_email :: string
  sb_phone :: string
  sb_is_verified :: bool
  sb_phone_verified :: bool
  sb_verification_token :: string
  sb_phone_verification_token :: string
  sb_subscribed_at :: datetime

definition unique_subscriber_per_page :: "subscriber list \<Rightarrow> bool" where
  "unique_subscriber_per_page ss \<longleftrightarrow> distinct (map (\<lambda>s. (sb_status_page s, sb_email s)) ss)"

record announcement =
  an_id :: uuid
  an_tenant :: uuid
  an_status_page :: uuid
  an_title :: string
  an_content :: string
  an_starts_at :: datetime
  an_ends_at :: "datetime option"
  an_is_active :: bool
  an_created_at :: datetime
  an_updated_at :: datetime

end
