(* ===== verification/AuditModels.thy ===== *)
theory AuditModels
  imports Json
begin

text \<open>
  The tables of \<open>apps/audit\<close>: the hash-chained log and the retention policies, with the
  thread-local actor and request the log reads.
\<close>

datatype actor_type = ActUser | ActApiKey | ActSystem | ActScim

fun actor_type_value :: "actor_type \<Rightarrow> string" where
  "actor_type_value ActUser = ''user''"
| "actor_type_value ActApiKey = ''api_key''"
| "actor_type_value ActSystem = ''system''"
| "actor_type_value ActScim = ''scim''"

record audit_log =
  al_id :: nat
  al_tenant :: uuid
  al_project :: "uuid option"
  al_actor_id :: uuid
  al_actor_type :: actor_type
  al_action :: string
  al_resource_type :: string
  al_resource_id :: "uuid option"
  al_old_value :: json
  al_new_value :: json
  al_ip_address :: "string option"
  al_user_agent :: string
  al_prev_hash :: string
  al_record_hash :: string
  al_created_at :: datetime

datatype data_type = MonitorChecks | AuditLogs | WebhookDeliveries | IncidentsResolved

record retention_policy =
  rt_id :: uuid
  rt_tenant :: uuid
  rt_project :: uuid
  rt_data_type :: data_type
  rt_retention_days :: nat
  rt_archive_to_s3 :: bool
  rt_s3_bucket :: "string option"
  rt_created_at :: datetime
  rt_updated_at :: datetime

definition unique_retention_per_project_datatype :: "retention_policy list \<Rightarrow> bool" where
  "unique_retention_per_project_datatype ps \<longleftrightarrow>
     distinct (map (\<lambda>p. (rt_project p, rt_data_type p)) ps)"

text \<open>
  The principal a request runs as (a user, an API key, nobody) and the request headers the
  code reads from \<open>request.META\<close>.
\<close>

datatype actor = AnonymousActor | UserActor uuid | ApiKeyActor uuid

record request_meta =
  rq_xff :: "string option"
  rq_remote_addr :: "string option"
  rq_user_agent :: string

end
