(* ===== verification/SsoModels.thy ===== *)
theory SsoModels
  imports Json
begin

text \<open>The tables of \<open>apps/sso\<close>: SAML/SCIM configurations and the SCIM sync log.\<close>

datatype sso_provider = Okta | AzureAd | Google | CustomIdp

record sso_config =
  sc_id :: uuid
  sc_tenant :: uuid
  sc_project :: uuid
  sc_provider :: sso_provider
  sc_name :: string
  sc_description :: string
  sc_entity_id :: string
  sc_sso_url :: string
  sc_slo_url :: string
  sc_x509_cert :: string
  sc_attribute_map :: "(string \<times> string) list"
  sc_jit_enabled :: bool
  sc_default_role :: "uuid option"
  sc_default_teams :: "uuid list"
  sc_enforce_sso :: bool
  sc_scim_token :: string
  sc_scim_auto_provision :: bool
  sc_scim_auto_deprovision :: bool
  sc_scim_enable_push_groups :: bool
  sc_is_enabled :: bool
  sc_created_at :: datetime
  sc_updated_at :: datetime

definition unique_sso_config_name_per_project :: "sso_config list \<Rightarrow> bool" where
  "unique_sso_config_name_per_project cs \<longleftrightarrow> distinct (map (\<lambda>c. (sc_project c, sc_name c)) cs)"

datatype scim_operation = ScimCreate | ScimUpdate | ScimDelete | ScimDeactivate

datatype scim_resource = ScimUser | ScimGroup

record scim_sync_log =
  sl_id :: uuid
  sl_config :: uuid
  sl_operation :: scim_operation
  sl_resource :: scim_resource
  sl_external_id :: string
  sl_payload :: json
  sl_status :: string
  sl_error_message :: string
  sl_created_at :: datetime

end
