(* ===== verification/World.thy ===== *)
theory World
  imports TenancyModels AccountsModels RbacModels MonitoringModels IncidentModels WebhookModels
    MaintenanceModels StatusPageModels AuditModels SsoModels
begin

text \<open>
  The state the handlers run on: every table, the thread-local audit actor, the cache, the
  messages handed to the mail and SMS gateways, the tenant the database connection is set to
  (\<open>app.current_tenant\<close>), and the counter fresh keys come from. What the
  code takes from outside (clock, hashes, random tokens, password, JWT and TOTP libraries,
  Django's slugify and password validators, mail and HTTP transport, settings) is the environment \<open>env\<close>.
\<close>

datatype message = Mail string string string | Sms string string

record world =
  w_next :: nat
  w_tenants :: "tenant list"
  w_projects :: "project list"
  w_users :: "user list"
  w_user_memberships :: "user_membership list"
  w_otp_challenges :: "otp_challenge list"
  w_mfa_sessions :: "mfa_session list"
  w_roles :: "role list"
  w_teams :: "team list"
  w_team_memberships :: "team_membership list"
  w_resource_policies :: "resource_policy list"
  w_api_keys :: "api_key list"
  w_probes :: "probe list"
  w_monitors :: "monitor list"
  w_monitor_groups :: "monitor_group list"
  w_checks :: "monitor_check list"
  w_states :: "incident_state list"
  w_severities :: "incident_severity list"
  w_incidents :: "incident list"
  w_notes :: "incident_note list"
  w_postmortems :: "incident_postmortem list"
  w_esc_policies :: "escalation_policy list"
  w_esc_steps :: "escalation_step list"
  w_esc_states :: "escalation_state list"
  w_rules :: "workflow_rule list"
  w_webhooks :: "webhook list"
  w_deliveries :: "delivery list"
  w_maintenances :: "scheduled_maintenance list"
  w_status_pages :: "status_page list"
  w_page_resources :: "status_page_resource list"
  w_subscribers :: "subscriber list"
  w_announcements :: "announcement list"
  w_audit_logs :: "audit_log list"
  w_retention :: "retention_policy list"
  w_sso_configs :: "sso_config list"
  w_scim_logs :: "scim_sync_log list"
  w_actor :: "actor option"
  w_request :: "request_meta option"
  w_cache :: "(string \<times> (int \<times> datetime)) list"
  w_outbox :: "message list"
  w_rls_tenant :: "uuid option"

text \<open>An outbound HTTP request and what the \<open>requests\<close> library makes of it.\<close>

record http_request =
  hr_method :: string
  hr_url :: string
  hr_headers :: "(string \<times> string) list"
  hr_body :: "string option"
  hr_timeout :: nat

datatype http_outcome =
    HttpResponse int string
  | HttpTimeout
  | HttpConnectionError string
  | HttpOtherError string

text \<open>What a JSON web token of the server says: the user, how the login was made, for which projects.\<close>

record jwt_claims =
  jc_user :: uuid
  jc_auth_method :: "string option"
  jc_sso_projects :: "uuid list"

record env =
  e_now :: datetime
  e_sha256 :: "string \<Rightarrow> string"
  e_hmac_sha256 :: "string \<Rightarrow> string \<Rightarrow> string"
  e_token :: "nat \<Rightarrow> string"
  e_make_password :: "string \<Rightarrow> string"
  e_check_password :: "string \<Rightarrow> string \<Rightarrow> bool"
  e_totp_verify :: "string \<Rightarrow> string \<Rightarrow> bool"
  e_mail_ok :: "string \<Rightarrow> bool"
  e_sms_ok :: "string \<Rightarrow> bool"
  e_http :: "http_request \<Rightarrow> http_outcome"
  e_http_ms :: "http_request \<Rightarrow> int"
  e_random_below :: "nat \<Rightarrow> nat"
  e_secret_key :: string
  e_otp_max_attempts :: nat
  e_otp_expiry_minutes :: nat
  e_otp_length :: nat
  e_mfa_session_minutes :: nat
  e_email_host :: string
  e_email_from_name :: string
  e_frontend_url :: string
  e_webhook_default_timeout :: nat
  e_slugify :: "string \<Rightarrow> string"
  e_password_ok :: "user option \<Rightarrow> string \<Rightarrow> bool"
  e_jwt_encode :: "jwt_claims \<Rightarrow> string"
  e_jwt_decode :: "string \<Rightarrow> jwt_claims option"
  e_otp_issuer :: string
  e_provisioning_uri :: "string \<Rightarrow> string \<Rightarrow> string \<Rightarrow> string"
  e_api_base_url :: string
  e_sp_cert :: string
  e_sp_private_key :: string
  e_debug :: bool
  e_sms_configured :: bool

text \<open>The cache: \<open>get\<close> ignores expired entries, \<open>set\<close> stores a value with its expiry.\<close>

definition cache_get :: "datetime \<Rightarrow> world \<Rightarrow> string \<Rightarrow> int option" where
  "cache_get now w k =
     (case map_of (w_cache w) k of
        None \<Rightarrow> None
      | Some (v, expires) \<Rightarrow> (if now < expires then Some v else None))"

definition cache_set :: "datetime \<Rightarrow> string \<Rightarrow> int \<Rightarrow> timedelta \<Rightarrow> world \<Rightarrow> world" where
  "cache_set now k v timeout w = w\<lparr>w_cache := (k, (v, now + timeout)) # w_cache w\<rparr>"

lemma cache_get_set_same:
  "cache_get t (cache_set now k v d w) k = (if t < now + d then Some v else None)"
  by (simp add: cache_get_def cache_set_def)

lemma cache_get_set_other:
  "k' \<noteq> k \<Longrightarrow> cache_get t (cache_set now k v d w) k' = cache_get t w k'"
  by (simp add: cache_get_def cache_set_def)

text \<open>A row by its primary key, as the ORM dereferences a foreign key.\<close>

definition incident_of :: "world \<Rightarrow> uuid \<Rightarrow> incident option" where
  "incident_of w i = find (\<lambda>x. ic_id x = i) (w_incidents w)"

definition monitor_of :: "world \<Rightarrow> uuid \<Rightarrow> monitor option" where
  "monitor_of w i = find (\<lambda>x. mo_id x = i) (w_monitors w)"

definition state_of :: "world \<Rightarrow> uuid \<Rightarrow> incident_state option" where
  "state_of w i = find (\<lambda>x. st_id x = i) (w_states w)"

definition severity_of :: "world \<Rightarrow> uuid \<Rightarrow> incident_severity option" where
  "severity_of w i = find (\<lambda>x. sv_id x = i) (w_severities w)"

definition team_of :: "world \<Rightarrow> uuid \<Rightarrow> team option" where
  "team_of w i = find (\<lambda>x. tm_id x = i) (w_teams w)"

definition role_of :: "world \<Rightarrow> uuid \<Rightarrow> role option" where
  "role_of w i = find (\<lambda>x. ro_id x = i) (w_roles w)"

definition user_of :: "world \<Rightarrow> uuid \<Rightarrow> user option" where
  "user_of w i = find (\<lambda>x. usr_id x = i) (w_users w)"

definition webhook_of :: "world \<Rightarrow> uuid \<Rightarrow> webhook option" where
  "webhook_of w i = find (\<lambda>x. wh_id x = i) (w_webhooks w)"

definition project_of :: "world \<Rightarrow> uuid \<Rightarrow> project option" where
  "project_of w i = find (\<lambda>x. pj_id x = i) (w_projects w)"

definition tenant_of :: "world \<Rightarrow> uuid \<Rightarrow> tenant option" where
  "tenant_of w i = find (\<lambda>x. tn_id x = i) (w_tenants w)"

definition policy_of :: "world \<Rightarrow> uuid \<Rightarrow> escalation_policy option" where
  "policy_of w i = find (\<lambda>x. ep_id x = i) (w_esc_policies w)"

lemmas row_of_defs =
  incident_of_def monitor_of_def state_of_def severity_of_def team_of_def role_of_def user_of_def
  webhook_of_def project_of_def tenant_of_def policy_of_def

text \<open>The name behind an optional foreign key; a dangling key reads as the empty string.\<close>

definition state_name_of :: "world \<Rightarrow> uuid \<Rightarrow> string" where
  "state_name_of w i = (case state_of w i of Some s \<Rightarrow> st_name s | None \<Rightarrow> [])"

definition severity_name_of :: "world \<Rightarrow> uuid \<Rightarrow> string" where
  "severity_name_of w i = (case severity_of w i of Some s \<Rightarrow> sv_name s | None \<Rightarrow> [])"

text \<open>The state of an incident is a resolved state (\<open>state__is_resolved_state\<close>).\<close>

definition state_is_resolved :: "world \<Rightarrow> uuid \<Rightarrow> bool" where
  "state_is_resolved w i = (case state_of w i of Some s \<Rightarrow> st_is_resolved_state s | None \<Rightarrow> False)"

section \<open>A sample world and environment\<close>

text \<open>The empty database, and an environment to evaluate examples in (noon of some day).\<close>

definition empty_world :: world where
  "empty_world =
     \<lparr>w_next = 1, w_tenants = [], w_projects = [], w_users = [], w_user_memberships = [],
      w_otp_challenges = [], w_mfa_sessions = [], w_roles = [], w_teams = [],
      w_team_memberships = [], w_resource_policies = [], w_api_keys = [], w_probes = [],
      w_monitors = [], w_monitor_groups = [], w_checks = [], w_states = [], w_severities = [],
      w_incidents = [], w_notes = [], w_postmortems = [], w_esc_policies = [], w_esc_steps = [],
      w_esc_states = [], w_rules = [], w_webhooks = [], w_deliveries = [], w_maintenances = [],
      w_status_pages = [], w_page_resources = [], w_subscribers = [], w_announcements = [],
      w_audit_logs = [], w_retention = [], w_sso_configs = [], w_scim_logs = [],
      w_actor = None, w_request = None, w_cache = [], w_outbox = [], w_rls_tenant = None\<rparr>"

definition sample_env :: env where
  "sample_env =
     \<lparr>e_now = 1000000000000, e_sha256 = (\<lambda>s. s), e_hmac_sha256 = (\<lambda>k s. k @ s),
      e_token = (\<lambda>n. ''tok'' @ string_of_nat n), e_make_password = (\<lambda>p. ''hash:'' @ p),
      e_check_password = (\<lambda>p h. h = ''hash:'' @ p), e_totp_verify = (\<lambda>s c. s = c),
      e_mail_ok = (\<lambda>_. True), e_sms_ok = (\<lambda>_. True),
      e_http = (\<lambda>_. HttpResponse 200 ''ok''), e_http_ms = (\<lambda>_. 10),
      e_random_below = (\<lambda>n. 0), e_secret_key = ''key'', e_otp_max_attempts = 5,
      e_otp_expiry_minutes = 10, e_otp_length = 6, e_mfa_session_minutes = 5,
      e_email_host = ''smtp'', e_email_from_name = ''OneUptime'',
      e_frontend_url = ''https://app'', e_webhook_default_timeout = 5,
      e_slugify = (\<lambda>s. s), e_password_ok = (\<lambda>u p. 8 \<le> length p),
      e_jwt_encode = (\<lambda>c. ''jwt'' @ string_of_nat (jc_user c)),
      e_jwt_decode = (\<lambda>t. None), e_otp_issuer = ''OneUptime'',
      e_provisioning_uri = (\<lambda>secret name issuer. secret @ name @ issuer),
      e_api_base_url = ''https://api'', e_sp_cert = [], e_sp_private_key = [],
      e_debug = False, e_sms_configured = True\<rparr>"

end
