(* ===== verification/Interfaces.thy ===== *)
theory Interfaces
  imports Prelude
begin

text \<open>
  The contracts the components share, as locales: tables with a natural key that are filled by
  \<open>get_or_create\<close>, machines whose steps keep an invariant (and, when they also have a
  measure, stop), and logs linked by a hash.
\<close>

section \<open>Tables with a natural key\<close>

text \<open>
  \<open>Model.objects.get_or_create(key, defaults)\<close>: the row with the key if there is one,
  otherwise a new row made from the key and a fresh primary key; and whether it was created.
\<close>

definition get_or_create ::
  "('r \<Rightarrow> 'k) \<Rightarrow> ('k \<Rightarrow> 'r) \<Rightarrow> 'k \<Rightarrow> 'r list \<Rightarrow> 'r \<times> bool \<times> 'r list" where
  "get_or_create keyof mk k rs =
     (case find (\<lambda>r. keyof r = k) rs of
        Some r \<Rightarrow> (r, False, rs)
      | None \<Rightarrow> (mk k, True, rs @ [mk k]))"

text \<open>
  A loop of \<open>get_or_create\<close> over a table of defaults: the rows it ends up with, and the table.
\<close>

fun goc_each ::
  "('r \<Rightarrow> 'k) \<Rightarrow> ('d \<Rightarrow> 'k \<Rightarrow> 'r) \<Rightarrow> ('d \<times> 'k) list \<Rightarrow> 'r list \<Rightarrow> 'r list \<times> 'r list" where
  "goc_each keyof mk [] rs = ([], rs)"
| "goc_each keyof mk ((d, k) # dks) rs =
     (case get_or_create keyof (mk d) k rs of
        (r, _, rs1) \<Rightarrow> (case goc_each keyof mk dks rs1 of (out, rs2) \<Rightarrow> (r # out, rs2)))"

locale keyed_table =
  fixes keyof :: "'r \<Rightarrow> 'k"
    and mk :: "'d \<Rightarrow> 'k \<Rightarrow> 'r"
  assumes key_mk: "keyof (mk d k) = k"
begin

definition unique_keys :: "'r list \<Rightarrow> bool" where
  "unique_keys rs \<longleftrightarrow> distinct (map keyof rs)"

lemma goc_key: "get_or_create keyof (mk d) k rs = (r, c, rs') \<Longrightarrow> keyof r = k"
  by (auto simp: get_or_create_def key_mk find_Some_iff split: option.splits)

lemma goc_member: "get_or_create keyof (mk d) k rs = (r, c, rs') \<Longrightarrow> r \<in> set rs'"
  by (auto simp: get_or_create_def find_Some_iff split: option.splits)

lemma goc_extends:
  "get_or_create keyof (mk d) k rs = (r, c, rs') \<Longrightarrow> rs' = (if c then rs @ [mk d k] else rs)"
  by (auto simp: get_or_create_def split: option.splits)

lemma goc_keeps:
  "get_or_create keyof (mk d) k rs = (r, c, rs') \<Longrightarrow> set rs \<subseteq> set rs'"
  by (drule goc_extends) auto

lemma goc_unique:
  assumes "get_or_create keyof (mk d) k rs = (r, c, rs')" and "unique_keys rs"
  shows "unique_keys rs'"
proof (cases "find (\<lambda>r. keyof r = k) rs")
  case None
  then have "k \<notin> keyof ` set rs" by (auto simp: find_None_iff)
  with None assms show ?thesis
    by (auto simp: get_or_create_def unique_keys_def key_mk)
next
  case (Some a)
  with assms show ?thesis by (simp add: get_or_create_def)
qed

text \<open>Asking again finds the row that is there and changes nothing.\<close>

lemma goc_idem:
  assumes "get_or_create keyof (mk d) k rs = (r, c, rs')" and "unique_keys rs"
  shows "get_or_create keyof (mk d') k rs' = (r, False, rs')"
proof -
  have r: "r \<in> set rs'" "keyof r = k" using assms(1) by (auto intro: goc_member goc_key)
  have u: "unique_keys rs'" by (rule goc_unique [OF assms])
  have "find (\<lambda>r. keyof r = k) rs' = Some r"
  proof -
    obtain y where y: "find (\<lambda>r. keyof r = k) rs' = Some y"
      using r by (cases "find (\<lambda>r. keyof r = k) rs'") (auto simp: find_None_iff)
    then have "y \<in> set rs'" "keyof y = k" by (auto simp: find_Some_iff)
    with r u have "y = r" by (auto simp: unique_keys_def distinct_map inj_on_def)
    with y show ?thesis by simp
  qed
  then show ?thesis by (simp add: get_or_create_def)
qed

lemma goc_created_iff:
  "get_or_create keyof (mk d) k rs = (r, c, rs') \<Longrightarrow> c \<longleftrightarrow> k \<notin> keyof ` set rs"
  by (auto simp: get_or_create_def find_None_iff find_Some_iff split: option.splits)

lemma goc_keys:
  "get_or_create keyof (mk d) k rs = (r, c, rs') \<Longrightarrow>
     keyof ` set rs' = insert k (keyof ` set rs)"
  by (auto simp: get_or_create_def key_mk find_Some_iff split: option.splits)

text \<open>The loop yields the rows of its keys, keeps the table and the uniqueness of its keys.\<close>

lemma goc_each_spec:
  "goc_each keyof mk dks rs = (out, rs') \<Longrightarrow>
     set rs \<subseteq> set rs' \<and> set out \<subseteq> set rs' \<and> map keyof out = map snd dks \<and>
     (unique_keys rs \<longrightarrow> unique_keys rs')"
proof (induction dks arbitrary: rs out rs')
  case (Cons dk dks)
  obtain d k where dk: "dk = (d, k)" by force
  obtain r c rs1 where 1: "get_or_create keyof (mk d) k rs = (r, c, rs1)" by (metis prod_cases3)
  obtain out1 rs2 where 2: "goc_each keyof mk dks rs1 = (out1, rs2)" by force
  with Cons.prems dk 1 have out: "out = r # out1" "rs' = rs2" by auto
  from Cons.IH [OF 2] out goc_key [OF 1] goc_member [OF 1] goc_keeps [OF 1] goc_unique [OF 1] dk
  show ?case by auto
qed simp

lemma goc_each_length: "goc_each keyof mk dks rs = (out, rs') \<Longrightarrow> length out = length dks"
  by (metis goc_each_spec length_map)

text \<open>A row of the resulting table was there before or is made from one of the entries.\<close>

lemma goc_each_rows:
  "goc_each keyof mk dks rs = (out, rs') \<Longrightarrow>
     r \<in> set rs' \<Longrightarrow> r \<in> set rs \<or> (\<exists>(d, k) \<in> set dks. r = mk d k)"
proof (induction dks arbitrary: rs out rs')
  case (Cons dk dks)
  obtain d k where dk: "dk = (d, k)" by force
  obtain r1 c rs1 where 1: "get_or_create keyof (mk d) k rs = (r1, c, rs1)" by (metis prod_cases3)
  obtain out1 rs2 where 2: "goc_each keyof mk dks rs1 = (out1, rs2)" by force
  with Cons.prems dk 1 have "rs' = rs2" by auto
  with Cons.IH [OF 2] Cons.prems(2) goc_extends [OF 1] dk show ?case by (auto split: if_splits)
qed simp

text \<open>Rows already there are found again.\<close>

lemma goc_each_found:
  "unique_keys rs \<Longrightarrow> set out \<subseteq> set rs \<Longrightarrow> map keyof out = map snd dks \<Longrightarrow>
     goc_each keyof mk dks rs = (out, rs)"
proof (induction dks arbitrary: out)
  case (Cons dk dks)
  then obtain d k r out1 where dk: "dk = (d, k)" and out: "out = r # out1" "keyof r = k"
    by (cases dk; cases out) auto
  with Cons.prems have "r \<in> set rs" by simp
  from find_by_key [OF _ this, of keyof] Cons.prems(1) out
  have "find (\<lambda>r. keyof r = k) rs = Some r" by (simp add: unique_keys_def)
  moreover have "goc_each keyof mk dks rs = (out1, rs)" using Cons out dk by simp
  ultimately show ?case using out dk by (simp add: get_or_create_def)
qed auto

lemma goc_each_idem:
  assumes "goc_each keyof mk dks rs = (out, rs')" "unique_keys rs" "map snd dks' = map snd dks"
  shows "goc_each keyof mk dks' rs' = (out, rs')"
  using goc_each_spec [OF assms(1)] assms(2,3) by (intro goc_each_found) auto

end

section \<open>Machines\<close>

text \<open>A step function with an invariant; a run is a fold over the events.\<close>

locale machine =
  fixes step :: "'s \<Rightarrow> 'e \<Rightarrow> 's"
    and inv :: "'s \<Rightarrow> bool"
  assumes step_inv: "inv s \<Longrightarrow> inv (step s e)"
begin

definition run :: "'s \<Rightarrow> 'e list \<Rightarrow> 's" where
  "run s es = foldl step s es"

lemma run_simps: "run s [] = s" "run s (e # es) = run (step s e) es"
  by (simp_all add: run_def)

lemma run_append: "run s (es @ es') = run (run s es) es'"
  by (simp add: run_def)

lemma run_inv: "inv s \<Longrightarrow> inv (run s es)"
  by (induction es arbitrary: s) (auto simp: run_def step_inv)

end

text \<open>
  When every step of an active machine decreases a measure and an inactive machine stays as it
  is, the number of active steps is bounded and the machine comes to rest.
\<close>

locale measured_machine = machine +
  fixes active :: "'a \<Rightarrow> bool"
    and meas :: "'a \<Rightarrow> nat"
  assumes active_decreases: "inv s \<Longrightarrow> active s \<Longrightarrow> meas (step s e) < meas s"
    and rest: "inv s \<Longrightarrow> \<not> active s \<Longrightarrow> step s e = s"
begin

lemma run_rest: "inv s \<Longrightarrow> \<not> active s \<Longrightarrow> run s es = s"
  by (induction es) (auto simp: run_def rest)

lemma run_stops: "inv s \<Longrightarrow> meas s \<le> length es \<Longrightarrow> \<not> active (run s es)"
proof (induction es arbitrary: s)
  case Nil
  then show ?case using active_decreases [of s] by (auto simp: run_def)
next
  case (Cons e es)
  show ?case
  proof (cases "active s")
    case True
    with Cons.prems have "meas (step s e) \<le> length es"
      using active_decreases [of s e] by simp
    with Cons show ?thesis by (simp add: run_def step_inv)
  next
    case False
    with Cons.prems show ?thesis by (metis run_rest)
  qed
qed

end

section \<open>Logs linked by a hash\<close>

text \<open>
  Each record stores the hash of the one before it and its own: the hash, under a function \<open>H\<close>
  left open, of a text \<open>encode r p\<close> made of its content and the previous hash. The provider
  promises that the text determines both.
\<close>

locale hash_chain =
  fixes prev :: "'r \<Rightarrow> 'h"
    and own :: "'r \<Rightarrow> 'h"
    and encode :: "'r \<Rightarrow> 'h \<Rightarrow> 'm"
    and content :: "'r \<Rightarrow> 'c"
    and trusted :: "'r \<Rightarrow> bool"
  assumes encode_binds:
    "trusted r \<Longrightarrow> trusted r' \<Longrightarrow> encode r p = encode r' p' \<Longrightarrow> content r = content r' \<and> p = p'"
begin

fun chain :: "('m \<Rightarrow> 'h) \<Rightarrow> 'h \<Rightarrow> 'r list \<Rightarrow> bool" where
  "chain H p [] = True"
| "chain H p (r # rs) = (prev r = p \<and> own r = H (encode r p) \<and> chain H (own r) rs)"

definition tip :: "'h \<Rightarrow> 'r list \<Rightarrow> 'h" where
  "tip p rs = (if rs = [] then p else own (last rs))"

lemma tip_simps [simp]: "tip p [] = p" "tip p (r # rs) = tip (own r) rs"
  by (simp_all add: tip_def)

lemma tip_snoc [simp]: "tip p (rs @ [r]) = own r"
  by (simp add: tip_def)

lemma chain_append: "chain H p (rs @ rs') \<longleftrightarrow> chain H p rs \<and> chain H (tip p rs) rs'"
  by (induction rs arbitrary: p) auto

lemma chain_extend:
  "chain H p rs \<Longrightarrow> prev r = tip p rs \<Longrightarrow> own r = H (encode r (tip p rs)) \<Longrightarrow> chain H p (rs @ [r])"
  by (simp add: chain_append)

text \<open>
  When \<open>H\<close> has no collisions, the hash of the last record fixes the whole log: two valid logs
  of the same length that end in the same hash hold the same contents.
\<close>

lemma chain_content_unique:
  assumes "inj H"
    and "chain H p rs" "chain H p' rs'" "length rs = length rs'" "tip p rs = tip p' rs'"
    and "\<forall>r \<in> set rs. trusted r" "\<forall>r \<in> set rs'. trusted r"
  shows "map content rs = map content rs'"
  using assms(2-)
proof (induction rs arbitrary: rs' rule: rev_induct)
  case Nil
  then show ?case by simp
next
  case (snoc r rs)
  then obtain r' qs where rs': "rs' = qs @ [r']"
    by (metis append_butlast_last_id length_0_conv length_append_singleton nat.simps(3))
  with snoc.prems have own: "own r = own r'" by simp
  have "own r = H (encode r (tip p rs))" "own r' = H (encode r' (tip p' qs))"
    using snoc.prems rs' by (auto simp: chain_append)
  with own \<open>inj H\<close> have "encode r (tip p rs) = encode r' (tip p' qs)" by (simp add: inj_eq)
  then have "content r = content r' \<and> tip p rs = tip p' qs"
    by (rule encode_binds [rotated -1]) (use snoc.prems rs' in auto)
  moreover have "map content rs = map content qs"
    by (rule snoc.IH) (use snoc.prems rs' calculation in \<open>auto simp: chain_append\<close>)
  ultimately show ?case using rs' by simp
qed

text \<open>A suffix of a valid log is not a valid log: its first record does not start from \<open>p\<close>.\<close>

lemma suffix_not_chain:
  assumes "chain H p (rs @ rs')" "rs \<noteq> []" "rs' \<noteq> []" and "\<And>m. H m \<noteq> p"
  shows "prev (hd rs') \<noteq> p"
proof -
  obtain qs q where "rs = qs @ [q]" using assms(2) by (metis rev_exhaust)
  then have "own q = H (encode q (tip p qs))" "prev (hd rs') = own q"
    using assms(1,3) by (auto simp: chain_append neq_Nil_conv)
  with assms(4) show ?thesis by metis
qed

end

end
