(* ===== verification/JsonFacts.thy ===== *)
theory JsonFacts
  imports Json
begin

text \<open>
  \<open>json.dumps\<close> loses nothing: two plain JSON values (no UUID or datetime objects inside) with
  the same text are the same value, also when a delimiter follows. The audit chain rests on it.
\<close>

fun plain :: "json \<Rightarrow> bool" where
  "plain (JTime t) = False"
| "plain (JUuid u) = False"
| "plain (JList xs) = (\<forall>x \<in> set xs. plain x)"
| "plain (JObj kvs) = (\<forall>kv \<in> set kvs. plain (snd kv))"
| "plain j = True"

definition delim :: "string \<Rightarrow> bool" where
  "delim r \<longleftrightarrow> r = [] \<or> hd r \<in> {CHR '','', CHR '']'', CHR ''}''}"

lemma delim_Nil [simp]: "delim []" by (simp add: delim_def)

lemma delim_Cons [simp]:
  "delim (c # r) \<longleftrightarrow> c \<in> {CHR '','', CHR '']'', CHR ''}''}"
  by (simp add: delim_def)

section \<open>Strings\<close>

lemma hex_digit_inj: "m < 16 \<Longrightarrow> n < 16 \<Longrightarrow> hex_digit m = hex_digit n \<longleftrightarrow> m = n"
  by (auto simp: hex_digit_def char_of_eq_iff take_bit_eq_mod split: if_splits)

lemma of_char_div_mod_eq:
  "(of_char c :: nat) div 16 = of_char d div 16 \<Longrightarrow> (of_char c :: nat) mod 16 = of_char d mod 16
     \<Longrightarrow> c = d"
  by (metis div_mult_mod_eq of_char_eq_iff)

lemma of_char_div_lt: "(of_char c :: nat) div 16 < 16"
  using nat_of_char_less_256 [of c] by (simp add: div_less_iff_less_mult)

lemma short_escape_inj:
  "special_char c \<Longrightarrow> special_char d \<Longrightarrow> short_escape c = short_escape d \<Longrightarrow> c = d"
  by (auto simp: special_char_def short_escape_def)

lemma short_escape_not_u: "special_char c \<Longrightarrow> short_escape c \<noteq> CHR ''u''"
  by (auto simp: special_char_def short_escape_def)

lemma escape_cases:
  obtains (special) "special_char c" "escape_char c = [CHR 0x5C, short_escape c]"
  | (printable) "c \<noteq> CHR 0x5C" "c \<noteq> CHR 0x22" "escape_char c = [c]"
  | (other) "escape_char c = [CHR 0x5C, CHR ''u'', CHR ''0'', CHR ''0'',
       hex_digit (of_char c div 16), hex_digit (of_char c mod 16)]"
proof (cases "special_char c")
  case True
  then show ?thesis using special by (simp add: escape_char_def)
next
  case False
  then have "c \<noteq> CHR 0x5C" "c \<noteq> CHR 0x22" by (auto simp: special_char_def)
  with False show ?thesis
    using printable other by (cases "printable_char c") (simp_all add: escape_char_def)
qed

lemma escape_prefix_free:
  assumes "escape_char c @ r = escape_char d @ r'"
  shows "c = d \<and> r = r'"
proof (cases c rule: escape_cases)
  case special
  then show ?thesis
    using assms by (cases d rule: escape_cases) (auto dest: short_escape_inj short_escape_not_u)
next
  case printable
  then show ?thesis using assms by (cases d rule: escape_cases) auto
next
  case other
  have lt: "(of_char c :: nat) mod 16 < 16" "(of_char d :: nat) mod 16 < 16" by simp_all
  show ?thesis
  proof (cases d rule: escape_cases)
    case special
    with assms other have "CHR ''u'' = short_escape d" by (simp only: append_Cons list.inject)
    with special short_escape_not_u [of d] show ?thesis by simp
  next
    case printable
    with assms other show ?thesis by (simp only: append_Cons list.inject)
  next
    case o2: other
    have "hex_digit (of_char c div 16) = hex_digit (of_char d div 16)"
      and "hex_digit (of_char c mod 16) = hex_digit (of_char d mod 16)" and "r = r'"
      using assms other o2 by simp_all
    then show ?thesis
      using hex_digit_inj of_char_div_lt lt of_char_div_mod_eq by metis
  qed
qed

lemma escape_not_quote: "escape_char c @ r \<noteq> CHR 0x22 # r'"
  by (cases c rule: escape_cases) auto

lemma escaped_inj:
  "concat (map escape_char s) @ CHR 0x22 # r = concat (map escape_char t) @ CHR 0x22 # r' \<Longrightarrow>
     s = t \<and> r = r'"
proof (induction s arbitrary: t)
  case Nil
  then show ?case using escape_not_quote by (cases t) (auto simp: eq_commute [of "CHR 0x22 # r"])
next
  case (Cons c s)
  show ?case
  proof (cases t)
    case Nil
    with Cons.prems escape_not_quote show ?thesis by auto
  next
    case t: (Cons d t')
    then have "escape_char c @ (concat (map escape_char s) @ CHR 0x22 # r) =
        escape_char d @ (concat (map escape_char t') @ CHR 0x22 # r')"
      using Cons.prems by simp
    from escape_prefix_free [OF this] Cons.IH t show ?thesis by auto
  qed
qed

lemma quote_string_inj: "quote_string s @ r = quote_string t @ r' \<Longrightarrow> s = t \<and> r = r'"
  by (rule escaped_inj) (simp add: quote_string_def)

section \<open>Numbers\<close>

lemma digits_prefix:
  assumes "s @ r = t @ r'" and "\<forall>c \<in> set s. is_digit c" "\<forall>c \<in> set t. is_digit c"
    and "delim r" "delim r'"
  shows "s = t \<and> r = r'"
  using assms
proof (induction s arbitrary: t)
  case Nil
  then show ?case by (cases t) (auto simp: delim_def is_digit_def)
next
  case (Cons c s)
  then show ?case by (cases t) (auto simp: delim_def is_digit_def)
qed

lemma string_of_nat_prefix:
  "string_of_nat m @ r = string_of_nat n @ r' \<Longrightarrow> delim r \<Longrightarrow> delim r' \<Longrightarrow> m = n \<and> r = r'"
  using digits_prefix string_of_nat_digits string_of_nat_inj by metis

lemma string_of_nat_hd: "\<exists>c cs. string_of_nat n = c # cs \<and> is_digit c"
proof (cases "string_of_nat n")
  case (Cons c cs)
  then show ?thesis using string_of_nat_digits [of c n] by simp
qed simp

lemma string_of_nat_not_minus: "string_of_nat n @ r \<noteq> CHR ''-'' # r'"
  using string_of_nat_hd [of n] by (auto simp: is_digit_def)

lemma string_of_int_prefix:
  assumes "string_of_int i @ r = string_of_int j @ r'" "delim r" "delim r'"
  shows "i = j \<and> r = r'"
proof (cases "i < 0"; cases "j < 0")
  assume "i < 0" "j < 0"
  with assms have "nat (- i) = nat (- j) \<and> r = r'"
    by (intro string_of_nat_prefix) (auto simp: string_of_int_def)
  with \<open>i < 0\<close> \<open>j < 0\<close> show ?thesis by auto
next
  assume "\<not> i < 0" "\<not> j < 0"
  with assms have "nat i = nat j \<and> r = r'"
    by (intro string_of_nat_prefix) (auto simp: string_of_int_def)
  with \<open>\<not> i < 0\<close> \<open>\<not> j < 0\<close> show ?thesis by auto
next
  assume "i < 0" "\<not> j < 0"
  with assms string_of_nat_not_minus show ?thesis by (metis append_Cons string_of_int_def append_Nil)
next
  assume "\<not> i < 0" "j < 0"
  with assms string_of_nat_not_minus show ?thesis by (metis append_Cons string_of_int_def append_Nil)
qed

section \<open>Values\<close>

lemma join_with_simps [simp]:
  "join_with sep [] = []"
  "join_with sep [a] = a"
  "join_with sep (a # b # ws) = a @ sep @ join_with sep (b # ws)"
  by (simp_all add: join_with_def)

text \<open>The first character tells the kind of value.\<close>

datatype jkind = KNull | KTrue | KFalse | KNum | KStr | KList | KObj

fun kind_of :: "json \<Rightarrow> jkind" where
  "kind_of JNull = KNull"
| "kind_of (JBool b) = (if b then KTrue else KFalse)"
| "kind_of (JInt i) = KNum"
| "kind_of (JStr s) = KStr"
| "kind_of (JTime t) = KStr"
| "kind_of (JUuid u) = KStr"
| "kind_of (JList xs) = KList"
| "kind_of (JObj kvs) = KObj"

fun kind_chars :: "jkind \<Rightarrow> char \<Rightarrow> bool" where
  "kind_chars KNull c = (c = CHR ''n'')"
| "kind_chars KTrue c = (c = CHR ''t'')"
| "kind_chars KFalse c = (c = CHR ''f'')"
| "kind_chars KNum c = (c = CHR ''-'' \<or> is_digit c)"
| "kind_chars KStr c = (c = CHR 0x22)"
| "kind_chars KList c = (c = CHR ''['')"
| "kind_chars KObj c = (c = CHR ''{'')"

lemma string_of_int_hd: "\<exists>c cs. string_of_int i = c # cs \<and> kind_chars KNum c"
proof (cases "i < 0")
  case False
  then show ?thesis using string_of_nat_hd [of "nat i"] by (auto simp: string_of_int_def)
qed (simp add: string_of_int_def)

lemma print_hd: "\<exists>c cs. print_json is ks j = c # cs \<and> kind_chars (kind_of j) c"
  using string_of_int_hd by (cases j) (auto simp: quote_string_def)

lemma kind_chars_unique: "kind_chars k c \<Longrightarrow> kind_chars k' c \<Longrightarrow> k = k'"
  by (cases k; cases k') (auto simp: is_digit_def)

lemma print_kind:
  "print_json is ks j @ r = print_json is ks j' @ r' \<Longrightarrow> kind_of j = kind_of j'"
  using print_hd [of "is" ks j] print_hd [of "is" ks j'] kind_chars_unique by auto

lemma print_not_delim: "\<not> delim (print_json is ks j @ r)"
  using print_hd [of "is" ks j] by (cases "kind_of j") (auto simp: is_digit_def)

text \<open>Items one after the other: the tail of a printed list, its closing bracket included.\<close>

lemma print_items_inj:
  fixes p :: "'x \<Rightarrow> string"
  assumes item: "\<And>x y r r'. x \<in> set xs \<Longrightarrow> y \<in> set ys \<Longrightarrow> delim r \<Longrightarrow> delim r' \<Longrightarrow>
       p x @ r = p y @ r' \<Longrightarrow> x = y \<and> r = r'"
    and nd: "\<And>y r. \<not> delim (p y @ r)"
    and close: "close = CHR '']'' \<or> close = CHR ''}''"
    and sep: "sep = CHR '','' # sp"
    and eq: "join_with sep (map p xs) @ close # r = join_with sep (map p ys) @ close # r'"
  shows "xs = ys \<and> r = r'"
  using item eq
proof (induction xs arbitrary: ys)
  case Nil
  have "delim (close # r)" using close by auto
  then show ?case
  proof (cases ys)
    case (Cons y ys')
    then have "\<exists>q. join_with sep (map p ys) @ close # r' = p y @ q"
      by (cases ys') auto
    with Nil.prems(2) \<open>delim (close # r)\<close> nd show ?thesis by (metis append_Nil join_with_simps(1) list.simps(8))
  qed (use Nil.prems in auto)
next
  case (Cons x xs)
  obtain q where q: "join_with sep (map p (x # xs)) @ close # r = p x @ q"
      "q = (if xs = [] then close # r else sep @ join_with sep (map p xs) @ close # r)"
    by (cases xs) auto
  show ?case
  proof (cases ys)
    case Nil
    with Cons.prems(2) q have "p x @ q = close # r'" by simp
    with nd close show ?thesis by (metis delim_Cons insertI1 insertI2)
  next
    case ys: (Cons y ys')
    obtain q' where q': "join_with sep (map p ys) @ close # r' = p y @ q'"
        "q' = (if ys' = [] then close # r' else sep @ join_with sep (map p ys') @ close # r')"
      using ys by (cases ys') auto
    have "delim q" "delim q'" using q(2) q'(2) close sep by auto
    moreover have "p x @ q = p y @ q'" using Cons.prems(2) q(1) q'(1) by simp
    ultimately have "x = y" "q = q'" using Cons.prems(1) [of x y q q'] ys by auto
    have "xs = ys' \<and> r = r'"
    proof (cases "xs = []"; cases "ys' = []")
      assume "xs \<noteq> []" "ys' \<noteq> []"
      with \<open>q = q'\<close> q(2) q'(2)
      have "join_with sep (map p xs) @ close # r = join_with sep (map p ys') @ close # r'" by simp
      then show ?thesis by (intro Cons.IH) (use Cons.prems(1) ys in auto)
    qed (use \<open>q = q'\<close> q(2) q'(2) sep close in auto)
    with \<open>x = y\<close> ys show ?thesis by simp
  qed
qed

lemma print_json_inj_delim:
  assumes "is = CHR '','' # sp"
  shows "plain j \<Longrightarrow> plain j' \<Longrightarrow> delim r \<Longrightarrow> delim r' \<Longrightarrow>
     print_json is ks j @ r = print_json is ks j' @ r' \<Longrightarrow> j = j' \<and> r = r'"
proof (induction j arbitrary: j' r r')
  case (JList xs)
  from print_kind [OF JList.prems(5)] JList.prems(2) obtain ys where j': "j' = JList ys"
    by (cases j') (auto split: if_splits)
  have "xs = ys \<and> r = r'"
  proof (rule print_items_inj [where p = "print_json is ks" and sep = "is" and close = "CHR '']''"])
    show "join_with is (map (print_json is ks) xs) @ CHR '']'' # r =
          join_with is (map (print_json is ks) ys) @ CHR '']'' # r'"
      using JList.prems(5) j' by simp
  next
    fix x y q q' assume "x \<in> set xs" "y \<in> set ys" "delim q" "delim q'"
      and "print_json is ks x @ q = print_json is ks y @ q'"
    then show "x = y \<and> q = q'" using JList.IH [of x y q q'] JList.prems(1,2) j' by simp
  qed (use assms print_not_delim in auto)
  with j' show ?case by simp
next
  case (JObj kvs)
  from print_kind [OF JObj.prems(5)] JObj.prems(2) obtain lvs where j': "j' = JObj lvs"
    by (cases j') (auto split: if_splits)
  let ?p = "\<lambda>kv. quote_string (fst kv) @ ks @ print_json is ks (snd kv)"
  have "kvs = lvs \<and> r = r'"
  proof (rule print_items_inj [where p = ?p and sep = "is" and close = "CHR ''}''"])
    show "join_with is (map ?p kvs) @ CHR ''}'' # r = join_with is (map ?p lvs) @ CHR ''}'' # r'"
      using JObj.prems(5) j' by simp
  next
    fix x y q q' assume x: "x \<in> set kvs" and y: "y \<in> set lvs" and d: "delim q" "delim q'"
      and eq: "?p x @ q = ?p y @ q'"
    from quote_string_inj [of "fst x" "ks @ print_json is ks (snd x) @ q" "fst y"] eq
    have k: "fst x = fst y" and v: "print_json is ks (snd x) @ q = print_json is ks (snd y) @ q'"
      by auto
    have px: "plain (snd x)" "plain (snd y)" using x y JObj.prems(1,2) j' by auto
    have "snd x \<in> Basic_BNFs.snds x" by (cases x) simp
    then have "snd x = snd y \<and> q = q'"
      using JObj.IH [of x "snd x" "snd y" q q'] x px d v by blast
    with k show "x = y \<and> q = q'" by (simp add: prod_eq_iff)
  next
    fix y :: "string \<times> json" and q
    show "\<not> delim (?p y @ q)" by (simp add: quote_string_def)
  qed (use assms in auto)
  with j' show ?case by simp
next
  case (JInt i)
  from print_kind [OF JInt.prems(5)] JInt.prems(2) obtain i' where "j' = JInt i'"
    by (cases j') (auto split: if_splits)
  with JInt.prems string_of_int_prefix show ?case by auto
next
  case (JStr s)
  from print_kind [OF JStr.prems(5)] JStr.prems(2) obtain s' where j': "j' = JStr s'"
    by (cases j') (auto split: if_splits)
  then have "quote_string s @ r = quote_string s' @ r'" using JStr.prems(5) by simp
  from quote_string_inj [OF this] j' show ?case by simp
next
  case (JBool b)
  from print_kind [OF JBool.prems(5)] JBool.prems(2) have "j' = JBool b"
    by (cases j') (auto split: if_splits)
  with JBool.prems show ?case by simp
next
  case JNull
  from print_kind [OF JNull.prems(5)] JNull.prems(2) have "j' = JNull"
    by (cases j') (auto split: if_splits)
  with JNull.prems show ?case by simp
qed auto

lemma plain_sort_keys: "plain j \<Longrightarrow> plain (sort_keys j)"
  by (induction j) auto

lemma dumps_sorted_inj:
  assumes "plain j" "plain j'" "dumps_sorted j = dumps_sorted j'"
  shows "sort_keys j = sort_keys j'"
proof -
  have "print_json '', '' '': '' (sort_keys j) @ [] = print_json '', '' '': '' (sort_keys j') @ []"
    using assms(3) by (simp add: dumps_sorted_def)
  then show ?thesis
    using print_json_inj_delim [OF refl, of "sort_keys j" "sort_keys j'" "[]" "[]"]
      plain_sort_keys assms(1,2) by auto
qed

lemma dumps_compact_inj: "plain j \<Longrightarrow> plain j' \<Longrightarrow> dumps_compact j = dumps_compact j' \<Longrightarrow> j = j'"
  using print_json_inj_delim [OF refl, of j j' "[]" "[]"] by (simp add: dumps_compact_def)

end
