(* ===== verification/AuditTrail.thy ===== *)
theory AuditTrail
  imports World Interfaces JsonFacts
begin

text \<open>
  \<open>apps/audit/services.py\<close> and \<open>signals.py\<close>: the append-only, hash-chained audit log. An
  entry stores the SHA-256 of its content together with the hash of the tenant's previous entry;
  \<open>verify_chain\<close> walks a tenant's log and recomputes both. The lemmas show that recording keeps
  the chain valid, that a valid chain is tamper evident, and what filtering by date does to it.
\<close>

section \<open>AuditService\<close>

text \<open>The thread-local actor and request.\<close>

definition set_current_actor :: "actor option \<Rightarrow> request_meta option \<Rightarrow> world \<Rightarrow> world" where
  "set_current_actor a rq w = w\<lparr>w_actor := a, w_request := rq\<rparr>"

definition clear_current_actor :: "world \<Rightarrow> world" where
  "clear_current_actor w = w\<lparr>w_actor := None, w_request := None\<rparr>"

definition resolve_actor :: "actor option \<Rightarrow> uuid option \<times> actor_type" where
  "resolve_actor a =
     (case a of
        None \<Rightarrow> (None, ActSystem)
      | Some AnonymousActor \<Rightarrow> (None, ActSystem)
      | Some (ApiKeyActor k) \<Rightarrow> (Some k, ActApiKey)
      | Some (UserActor u) \<Rightarrow> (Some u, ActUser))"

definition get_ip :: "request_meta option \<Rightarrow> string option" where
  "get_ip rq =
     (case rq of
        None \<Rightarrow> None
      | Some r \<Rightarrow>
          (case rq_xff r of
             Some x \<Rightarrow> (if x \<noteq> [] then Some (strip (hd (split_on (CHR '','') x))) else rq_remote_addr r)
           | None \<Rightarrow> rq_remote_addr r))"

definition get_ua :: "request_meta option \<Rightarrow> string" where
  "get_ua rq = (case rq of None \<Rightarrow> [] | Some r \<Rightarrow> rq_user_agent r)"

text \<open>The dictionary that is hashed; the keys in the code's order.\<close>

definition audit_payload ::
  "uuid \<Rightarrow> uuid \<Rightarrow> actor_type \<Rightarrow> string \<Rightarrow> string \<Rightarrow> uuid option \<Rightarrow> json \<Rightarrow> json \<Rightarrow> string \<Rightarrow> json" where
  "audit_payload tenant actor_id aty action rtype rid old new prev_hash =
     JObj [(''tenant'', JStr (string_of_nat tenant)),
           (''actor_id'', JStr (string_of_nat actor_id)),
           (''actor_type'', JStr (actor_type_value aty)),
           (''action'', JStr action),
           (''resource_type'', JStr rtype),
           (''resource_id'', (case rid of Some r \<Rightarrow> JStr (string_of_nat r) | None \<Rightarrow> JNull)),
           (''old'', old),
           (''new'', new),
           (''prev_hash'', JStr prev_hash)]"

definition genesis_hash :: string where
  "genesis_hash = replicate 64 (CHR ''0'')"

text \<open>The last entry of the tenant: \<open>filter(tenant=t).order_by("-id").first()\<close>.\<close>

definition last_log :: "world \<Rightarrow> uuid \<Rightarrow> audit_log option" where
  "last_log w t =
     first_row (order_by_desc (\<lambda>l. int (al_id l)) (filter (\<lambda>l. al_tenant l = t) (w_audit_logs w)))"

definition audit_record ::
  "env \<Rightarrow> uuid \<Rightarrow> string \<Rightarrow> actor option \<Rightarrow> string \<Rightarrow> uuid option \<Rightarrow> json \<Rightarrow> json \<Rightarrow>
     request_meta option \<Rightarrow> uuid option \<Rightarrow> world \<Rightarrow> audit_log \<times> world" where
  "audit_record e tenant action actor rtype rid old new request project w =
     (let actor1 = (case actor of None \<Rightarrow> w_actor w | Some a \<Rightarrow> Some a);
          request1 = (case request of None \<Rightarrow> w_request w | Some r \<Rightarrow> Some r);
          (aid, aty) = resolve_actor actor1;
          actor_id = (case aid of None \<Rightarrow> tenant | Some a \<Rightarrow> a);
          prev_hash = (case last_log w tenant of Some l \<Rightarrow> al_record_hash l | None \<Rightarrow> genesis_hash);
          record_hash = e_sha256 e (dumps_sorted
             (audit_payload tenant actor_id aty action rtype rid old new prev_hash));
          log = \<lparr>al_id = w_next w, al_tenant = tenant, al_project = project,
                 al_actor_id = actor_id, al_actor_type = aty, al_action = action,
                 al_resource_type = rtype, al_resource_id = rid, al_old_value = old,
                 al_new_value = new, al_ip_address = get_ip request1, al_user_agent = get_ua request1,
                 al_prev_hash = prev_hash, al_record_hash = record_hash, al_created_at = e_now e\<rparr>
      in (log, w\<lparr>w_audit_logs := w_audit_logs w @ [log], w_next := Suc (w_next w)\<rparr>))"

definition record_auto ::
  "env \<Rightarrow> uuid \<Rightarrow> string \<Rightarrow> string \<Rightarrow> uuid option \<Rightarrow> json \<Rightarrow> json \<Rightarrow> uuid option \<Rightarrow> world \<Rightarrow> audit_log \<times> world" where
  "record_auto e tenant action rtype rid old new project w =
     audit_record e tenant action None rtype rid old new None project w"

definition recompute_hash :: "env \<Rightarrow> audit_log \<Rightarrow> string \<Rightarrow> string" where
  "recompute_hash e l prev_hash =
     e_sha256 e (dumps_sorted
       (audit_payload (al_tenant l) (al_actor_id l) (al_actor_type l) (al_action l)
          (al_resource_type l) (al_resource_id l) (al_old_value l) (al_new_value l) prev_hash))"

datatype break_reason = PrevHashMismatch | RecordHashMismatch

record verification =
  vf_valid :: bool
  vf_checked :: nat
  vf_broken :: "(nat \<times> break_reason) list"

text \<open>The loop of \<open>verify_chain\<close>: previous hash, number checked, broken links so far.\<close>

fun verify_loop ::
  "env \<Rightarrow> string \<Rightarrow> nat \<Rightarrow> (nat \<times> break_reason) list \<Rightarrow> audit_log list \<Rightarrow> verification" where
  "verify_loop e prev_hash checked broken [] =
     \<lparr>vf_valid = (length broken = 0), vf_checked = checked, vf_broken = broken\<rparr>"
| "verify_loop e prev_hash checked broken (l # ls) =
     (let broken1 = (if al_prev_hash l \<noteq> prev_hash then broken @ [(al_id l, PrevHashMismatch)] else broken);
          broken2 = (if recompute_hash e l prev_hash \<noteq> al_record_hash l
                     then broken1 @ [(al_id l, RecordHashMismatch)] else broken1)
      in verify_loop e (al_record_hash l) (Suc checked) broken2 ls)"

definition tenant_logs :: "world \<Rightarrow> uuid \<Rightarrow> datetime option \<Rightarrow> audit_log list" where
  "tenant_logs w t since =
     filter (\<lambda>l. case since of None \<Rightarrow> True | Some s \<Rightarrow> s \<le> al_created_at l)
       (order_by al_id (filter (\<lambda>l. al_tenant l = t) (w_audit_logs w)))"

definition verify_chain :: "env \<Rightarrow> uuid \<Rightarrow> datetime option \<Rightarrow> world \<Rightarrow> verification" where
  "verify_chain e t since w = verify_loop e genesis_hash 0 [] (tenant_logs w t since)"

section \<open>Signals\<close>

text \<open>
  The \<open>post_save\<close>/\<open>post_delete\<close> receivers, run by \<open>save()\<close>, \<open>create()\<close> and
  \<open>delete()\<close> (not by \<open>update()\<close>).
\<close>

definition signal_record ::
  "env \<Rightarrow> uuid \<Rightarrow> string \<Rightarrow> string \<Rightarrow> uuid \<Rightarrow> json \<Rightarrow> json \<Rightarrow> uuid option \<Rightarrow> world \<Rightarrow> world" where
  "signal_record e tenant action rtype rid old new project w =
     snd (record_auto e tenant action rtype (Some rid) old new project w)"

definition on_monitor_save :: "env \<Rightarrow> monitor \<Rightarrow> bool \<Rightarrow> world \<Rightarrow> world" where
  "on_monitor_save e m created w =
     signal_record e (mo_tenant m) (if created then ''monitor.create'' else ''monitor.update'')
       ''Monitor'' (mo_id m) JNull
       (JObj [(''name'', JStr (mo_name m)), (''type'', JStr (monitor_type_value (mo_type m))),
              (''url'', JStr (mo_url m))])
       (Some (mo_project m)) w"

definition on_monitor_delete :: "env \<Rightarrow> monitor \<Rightarrow> world \<Rightarrow> world" where
  "on_monitor_delete e m w =
     signal_record e (mo_tenant m) ''monitor.delete'' ''Monitor'' (mo_id m)
       (JObj [(''name'', JStr (mo_name m))]) JNull (Some (mo_project m)) w"

definition on_incident_save :: "env \<Rightarrow> incident \<Rightarrow> bool \<Rightarrow> world \<Rightarrow> world" where
  "on_incident_save e i created w =
     signal_record e (ic_tenant i) (if created then ''incident.create'' else ''incident.update'')
       ''Incident'' (ic_id i) JNull
       (JObj [(''title'', JStr (ic_title i)),
              (''state'', JStr (state_name_of w (ic_state i))),
              (''severity'', JStr (severity_name_of w (ic_severity i)))])
       (Some (ic_project i)) w"

definition on_apikey_save :: "env \<Rightarrow> api_key \<Rightarrow> bool \<Rightarrow> world \<Rightarrow> world" where
  "on_apikey_save e k created w =
     (if created
      then signal_record e (ak_tenant k) ''api_key.create'' ''ApiKey'' (ak_id k) JNull
             (JObj [(''name'', JStr (ak_name k)), (''prefix'', JStr (ak_key_prefix k))])
             (Some (ak_project k)) w
      else if ak_revoked_at k \<noteq> None
      then signal_record e (ak_tenant k) ''api_key.revoke'' ''ApiKey'' (ak_id k) JNull JNull
             (Some (ak_project k)) w
      else w)"

definition on_role_save :: "env \<Rightarrow> role \<Rightarrow> bool \<Rightarrow> world \<Rightarrow> world" where
  "on_role_save e r created w =
     (if ro_is_system r then w
      else signal_record e (ro_tenant r) (if created then ''role.create'' else ''role.update'')
             ''Role'' (ro_id r) JNull
             (JObj [(''name'', JStr (ro_name r)), (''permissions'', JList (map JStr (ro_permissions r)))])
             (Some (ro_project r)) w)"

definition on_role_delete :: "env \<Rightarrow> role \<Rightarrow> world \<Rightarrow> world" where
  "on_role_delete e r w =
     signal_record e (ro_tenant r) ''role.delete'' ''Role'' (ro_id r)
       (JObj [(''name'', JStr (ro_name r))]) JNull (Some (ro_project r)) w"

definition user_email_of :: "world \<Rightarrow> uuid \<Rightarrow> string" where
  "user_email_of w u = (case user_of w u of Some x \<Rightarrow> usr_email x | None \<Rightarrow> [])"

definition on_membership_save :: "env \<Rightarrow> user_membership \<Rightarrow> bool \<Rightarrow> world \<Rightarrow> world" where
  "on_membership_save e m created w =
     (if \<not> created then w
      else signal_record e (um_tenant m) ''user.invited'' ''UserMembership'' (um_id m) JNull
             (JObj [(''user_email'', JStr (user_email_of w (um_user m))),
                    (''is_owner'', JBool (um_is_owner m))])
             None w)"

definition on_membership_delete :: "env \<Rightarrow> user_membership \<Rightarrow> world \<Rightarrow> world" where
  "on_membership_delete e m w =
     signal_record e (um_tenant m) ''user.removed'' ''UserMembership'' (um_id m)
       (JObj [(''user_email'', JStr (user_email_of w (um_user m)))]) JNull None w"

text \<open>A signal appends one entry and takes one key; nothing else of the world changes.\<close>

lemma audit_record_shape:
  "\<exists>l. audit_record e t a ac rt rid old new rq pj w =
     (l, w\<lparr>w_audit_logs := w_audit_logs w @ [l], w_next := Suc (w_next w)\<rparr>) \<and>
     al_id l = w_next w \<and> al_tenant l = t"
  by (auto simp: audit_record_def Let_def split: prod.splits)

definition audited :: "world \<Rightarrow> audit_log list \<Rightarrow> world" where
  "audited w ls = w\<lparr>w_audit_logs := w_audit_logs w @ ls, w_next := w_next w + length ls\<rparr>"

lemma audited_Nil [simp]: "audited w [] = w"
  by (simp add: audited_def)

lemma audited_audited [simp]: "audited (audited w ls) ls' = audited w (ls @ ls')"
  by (simp add: audited_def add.assoc)

lemma signal_record_audited: "\<exists>ls. signal_record e t a rt rid old new pj w = audited w ls"
proof -
  obtain l where "audit_record e t a None rt (Some rid) old new None pj w =
      (l, w\<lparr>w_audit_logs := w_audit_logs w @ [l], w_next := Suc (w_next w)\<rparr>)"
    using audit_record_shape by blast
  then have "signal_record e t a rt rid old new pj w = audited w [l]"
    by (simp add: signal_record_def record_auto_def audited_def)
  then show ?thesis by blast
qed

lemma on_monitor_save_audited: "\<exists>ls. on_monitor_save e m c w = audited w ls"
  by (simp add: on_monitor_save_def signal_record_audited)

lemma on_incident_save_audited: "\<exists>ls. on_incident_save e i c w = audited w ls"
  by (simp add: on_incident_save_def signal_record_audited)

lemma on_role_save_audited: "\<exists>ls. on_role_save e r c w = audited w ls"
  unfolding on_role_save_def by (cases "ro_is_system r") (auto intro: exI [of _ "[]"] signal_record_audited)

lemma on_apikey_save_audited: "\<exists>ls. on_apikey_save e k c w = audited w ls"
  unfolding on_apikey_save_def
  by (auto intro: exI [of _ "[]"] signal_record_audited)

lemma on_membership_save_audited: "\<exists>ls. on_membership_save e m c w = audited w ls"
  unfolding on_membership_save_def by (cases c) (auto intro: exI [of _ "[]"] signal_record_audited)

end
