(* ===== verification/AuditFacts.thy ===== *)
theory AuditFacts
  imports AuditTrail
begin

text \<open>
  What the audit chain guarantees: recording keeps every tenant's chain valid, a valid chain
  whose last hash is known cannot have been altered, and a verification restricted by date
  reports a break that is not there.
\<close>

section \<open>The order of the log\<close>

text \<open>The ids of a \<open>BigAutoField\<close> grow with insertion; the counter is past all of them.\<close>

definition audit_wf :: "world \<Rightarrow> bool" where
  "audit_wf w \<longleftrightarrow> sorted_wrt (\<lambda>a b. al_id a < al_id b) (w_audit_logs w) \<and>
     (\<forall>l \<in> set (w_audit_logs w). al_id l < w_next w)"

abbreviation logs_of :: "world \<Rightarrow> uuid \<Rightarrow> audit_log list" where
  "logs_of w t \<equiv> filter (\<lambda>l. al_tenant l = t) (w_audit_logs w)"

lemma sort_key_increasing:
  fixes k :: "'r \<Rightarrow> 'k::linorder"
  shows "sorted_wrt (\<lambda>a b. k a < k b) xs \<Longrightarrow> sort_key k xs = xs"
proof (induction xs)
  case (Cons x xs)
  then show ?case by (cases xs) auto
qed simp

lemma insort_key_last:
  "\<forall>y \<in> set ys. k y < k x \<Longrightarrow> insort_key k x ys = ys @ [x]"
  by (induction ys) auto

lemma sort_key_neg_increasing:
  "sorted_wrt (\<lambda>a b. k a < (k b :: nat)) xs \<Longrightarrow> sort_key (\<lambda>r. - int (k r)) xs = rev xs"
  by (induction xs) (auto intro!: insort_key_last)

lemma sorted_wrt_filter': "sorted_wrt R xs \<Longrightarrow> sorted_wrt R (filter P xs)"
  by (induction xs) auto

lemma tenant_logs_all: "audit_wf w \<Longrightarrow> tenant_logs w t None = logs_of w t"
  by (simp add: tenant_logs_def order_by_def audit_wf_def sort_key_increasing sorted_wrt_filter')

lemma tenant_logs_since:
  "audit_wf w \<Longrightarrow> tenant_logs w t (Some s) = filter (\<lambda>l. s \<le> al_created_at l) (logs_of w t)"
  by (simp add: tenant_logs_def order_by_def audit_wf_def sort_key_increasing sorted_wrt_filter')

lemma last_log_last:
  assumes "audit_wf w"
  shows "last_log w t = (if logs_of w t = [] then None else Some (last (logs_of w t)))"
proof -
  have "sorted_wrt (\<lambda>a b. al_id a < al_id b) (logs_of w t)"
    using assms by (simp add: audit_wf_def sorted_wrt_filter')
  then have "order_by_desc (\<lambda>l. int (al_id l)) (logs_of w t) = rev (logs_of w t)"
    unfolding order_by_desc_def by (rule sort_key_neg_increasing)
  then show ?thesis
    by (simp add: last_log_def first_row_def hd_rev split: list.splits)
qed

lemma audit_record_wf:
  "audit_wf w \<Longrightarrow> audit_record e t a ac rt rid old new rq pj w = (l, w') \<Longrightarrow> audit_wf w'"
  using audit_record_shape [of e t a ac rt rid old new rq pj w]
  by (auto simp: audit_wf_def sorted_wrt_append less_Suc_eq)

section \<open>The log as a hash chain\<close>

definition log_text :: "audit_log \<Rightarrow> string \<Rightarrow> string" where
  "log_text l p = dumps_sorted
     (audit_payload (al_tenant l) (al_actor_id l) (al_actor_type l) (al_action l)
        (al_resource_type l) (al_resource_id l) (al_old_value l) (al_new_value l) p)"

lemma recompute_hash_text: "recompute_hash e l p = e_sha256 e (log_text l p)"
  by (simp add: recompute_hash_def log_text_def)

text \<open>What the hash covers; the snapshots up to the order of their keys.\<close>

definition log_content ::
  "audit_log \<Rightarrow> uuid \<times> uuid \<times> actor_type \<times> string \<times> string \<times> uuid option \<times> json \<times> json" where
  "log_content l =
     (al_tenant l, al_actor_id l, al_actor_type l, al_action l, al_resource_type l,
      al_resource_id l, sort_keys (al_old_value l), sort_keys (al_new_value l))"

definition plain_log :: "audit_log \<Rightarrow> bool" where
  "plain_log l \<longleftrightarrow> plain (al_old_value l) \<and> plain (al_new_value l)"

lemma map_of_sort_key_fst:
  assumes "distinct (map fst kvs)"
  shows "map_of (sort_key fst kvs) = map_of kvs"
proof -
  have "distinct (map fst (sort_key fst kvs))"
    using assms by (metis distinct_map distinct_sort set_sort)
  then show ?thesis
    by (subst map_of_inject_set) (use assms in auto)
qed

lemma sort_keys_obj_get:
  assumes "sort_keys (JObj xs) = sort_keys (JObj ys)"
    and "distinct (map fst xs)" "distinct (map fst ys)"
  shows "map_option sort_keys (map_of xs k) = map_option sort_keys (map_of ys k)"
proof -
  let ?s = "map (\<lambda>kv. (fst kv, sort_keys (snd kv)))"
  have d: "distinct (map fst (?s zs))" if "distinct (map fst zs)" for zs :: "(string \<times> json) list"
    using that by (simp add: comp_def)
  have m: "map_of (?s zs) k = map_option sort_keys (map_of zs k)" for zs
    by (induction zs) auto
  from assms(1) have "map_of (sort_key fst (?s xs)) = map_of (sort_key fst (?s ys))" by simp
  then have "map_of (?s xs) = map_of (?s ys)"
    by (simp only: map_of_sort_key_fst [OF d [OF assms(2)]] map_of_sort_key_fst [OF d [OF assms(3)]])
  then have "map_of (?s xs) k = map_of (?s ys) k" by simp
  then show ?thesis by (simp only: m)
qed

lemma actor_type_value_inj: "actor_type_value a = actor_type_value b \<Longrightarrow> a = b"
  by (cases a; cases b) auto

lemma audit_payload_plain:
  "plain (audit_payload t aid aty a rt rid old new p) \<longleftrightarrow> plain old \<and> plain new"
  by (auto simp: audit_payload_def split: option.splits)

lemma log_text_binds:
  assumes "plain_log l" "plain_log l'" "log_text l p = log_text l' p'"
  shows "log_content l = log_content l' \<and> p = p'"
proof -
  let ?P = "\<lambda>l p. audit_payload (al_tenant l) (al_actor_id l) (al_actor_type l) (al_action l)
        (al_resource_type l) (al_resource_id l) (al_old_value l) (al_new_value l) p"
  have s: "sort_keys (?P l p) = sort_keys (?P l' p')"
    by (rule dumps_sorted_inj)
       (use assms in \<open>simp_all add: audit_payload_plain plain_log_def log_text_def\<close>)
  note get = sort_keys_obj_get [OF s [unfolded audit_payload_def]]
  have "al_tenant l = al_tenant l'" using get [of "''tenant''"] string_of_nat_inj by simp
  moreover have "al_actor_id l = al_actor_id l'" using get [of "''actor_id''"] string_of_nat_inj by simp
  moreover have "al_actor_type l = al_actor_type l'"
    using get [of "''actor_type''"] actor_type_value_inj by simp
  moreover have "al_action l = al_action l'" using get [of "''action''"] by simp
  moreover have "al_resource_type l = al_resource_type l'" using get [of "''resource_type''"] by simp
  moreover have "al_resource_id l = al_resource_id l'"
    using get [of "''resource_id''"] string_of_nat_inj by (auto split: option.splits)
  moreover have "sort_keys (al_old_value l) = sort_keys (al_old_value l')" using get [of "''old''"] by simp
  moreover have "sort_keys (al_new_value l) = sort_keys (al_new_value l')" using get [of "''new''"] by simp
  moreover have "p = p'" using get [of "''prev_hash''"] by simp
  ultimately show ?thesis by (simp add: log_content_def)
qed

interpretation audit_chain: hash_chain al_prev_hash al_record_hash log_text log_content plain_log
  by unfold_locales (rule log_text_binds)

definition link_breaks :: "env \<Rightarrow> string \<Rightarrow> audit_log \<Rightarrow> (nat \<times> break_reason) list" where
  "link_breaks e p l =
     (if al_prev_hash l \<noteq> p then [(al_id l, PrevHashMismatch)] else []) @
     (if recompute_hash e l p \<noteq> al_record_hash l then [(al_id l, RecordHashMismatch)] else [])"

lemma verify_loop_step:
  "verify_loop e p n b (l # ls) =
     verify_loop e (al_record_hash l) (Suc n) (b @ link_breaks e p l) ls"
  by (simp add: Let_def link_breaks_def)

lemma verify_loop_broken:
  "\<exists>more. vf_broken (verify_loop e p n b ls) = b @ more \<and>
     vf_valid (verify_loop e p n b ls) = (b @ more = [])"
proof (induction ls arbitrary: p n b)
  case (Cons l ls)
  from Cons.IH [of "al_record_hash l" "Suc n" "b @ link_breaks e p l"] show ?case
    by (auto simp only: verify_loop_step append_assoc)
qed simp

lemma verify_loop_prefix: "x \<in> set b \<Longrightarrow> x \<in> set (vf_broken (verify_loop e p n b ls))"
  using verify_loop_broken [of e p n b ls] by auto

lemma verify_loop_valid_nonempty: "b \<noteq> [] \<Longrightarrow> \<not> vf_valid (verify_loop e p n b ls)"
  using verify_loop_broken [of e p n b ls] by auto

lemma verify_loop_valid_iff:
  "vf_valid (verify_loop e p n [] ls) \<longleftrightarrow> audit_chain.chain (e_sha256 e) p ls"
proof (induction ls arbitrary: p n)
  case (Cons l ls)
  then show ?case
    by (auto simp: Let_def recompute_hash_text verify_loop_valid_nonempty)
qed simp

lemma verify_loop_checked: "vf_checked (verify_loop e p n b ls) = n + length ls"
  by (induction ls arbitrary: p n b) (simp_all add: Let_def)

lemma verify_chain_valid_iff:
  "vf_valid (verify_chain e t s w) \<longleftrightarrow>
     audit_chain.chain (e_sha256 e) genesis_hash (tenant_logs w t s)"
  by (simp add: verify_chain_def verify_loop_valid_iff)

lemma audit_record_appends:
  assumes "audit_wf w" and "audit_record e t a ac rt rid old new rq pj w = (l, w')"
  shows "logs_of w' t' = logs_of w t' @ (if t' = t then [l] else [])"
    and "al_prev_hash l = audit_chain.tip genesis_hash (logs_of w t)"
    and "al_record_hash l = e_sha256 e (log_text l (al_prev_hash l))"
proof -
  show "logs_of w' t' = logs_of w t' @ (if t' = t then [l] else [])"
    using audit_record_shape [of e t a ac rt rid old new rq pj w] assms(2) by auto
  show "al_prev_hash l = audit_chain.tip genesis_hash (logs_of w t)"
    using assms by (auto simp: audit_record_def Let_def last_log_last audit_chain.tip_def split: prod.splits)
  show "al_record_hash l = e_sha256 e (log_text l (al_prev_hash l))"
    using assms(2) by (auto simp: audit_record_def Let_def log_text_def split: prod.splits)
qed

section \<open>Properties\<close>

lemma audit_record_chain_step:
  assumes "audit_wf w" and "vf_valid (verify_chain e t' None w)"
    and "audit_record e t a ac rt rid old new rq pj w = (l, w')"
  shows "vf_valid (verify_chain e t' None w')"
proof -
  have "audit_wf w'" by (rule audit_record_wf [OF assms(1,3)])
  then show ?thesis
    using assms audit_record_appends [OF assms(1,3)]
    by (auto simp: verify_chain_valid_iff tenant_logs_all audit_chain.chain_append)
qed

text \<open>
  C2. Recording an entry keeps the chain of every tenant valid: after \<open>AuditService.record\<close>
  for tenant \<open>t\<close>, \<open>verify_chain\<close> still reports valid for every tenant \<open>t'\<close> it reported
  valid for before, and it checked one entry more for \<open>t\<close> and none more for the others.
\<close>

theorem record_keeps_chain_valid:
  assumes "audit_wf w" and "vf_valid (verify_chain e t' None w)"
    and "audit_record e t action actor rtype rid old new rq pj w = (l, w')"
  shows "vf_valid (verify_chain e t' None w') \<and> vf_broken (verify_chain e t' None w') = [] \<and>
    vf_checked (verify_chain e t' None w') =
      vf_checked (verify_chain e t' None w) + (if t' = t then 1 else 0)"
proof -
  have v: "vf_valid (verify_chain e t' None w')"
    by (rule audit_record_chain_step [OF assms])
  then have "vf_broken (verify_chain e t' None w') = []"
    using verify_loop_broken [of e genesis_hash 0 "[]" "tenant_logs w' t' None"]
    by (auto simp: verify_chain_def)
  moreover have "audit_wf w'" by (rule audit_record_wf [OF assms(1,3)])
  ultimately show ?thesis
    using v audit_record_appends(1) [OF assms(1,3), of t'] assms(1)
    by (simp add: verify_chain_def verify_loop_checked tenant_logs_all)
qed

theorem record_keeps_chain_valid_witness:
  "vf_checked (verify_chain sample_env 7 None
     (snd (audit_record sample_env 7 ''monitor.create'' None ''Monitor'' None JNull JNull None None
        empty_world))) = 1"
proof -
  let ?r = "audit_record sample_env 7 ''monitor.create'' None ''Monitor'' None JNull JNull None None
        empty_world"
  have wf: "audit_wf empty_world" by (simp add: audit_wf_def empty_world_def)
  have v: "vf_valid (verify_chain sample_env 7 None empty_world)"
    by (simp add: verify_chain_def tenant_logs_def empty_world_def)
  have n: "vf_checked (verify_chain sample_env 7 None empty_world) = 0"
    by (simp add: verify_chain_def tenant_logs_def empty_world_def)
  obtain l w' where r: "?r = (l, w')" by (cases ?r) auto
  show ?thesis using record_keeps_chain_valid [OF wf v r] n r by simp
qed


text \<open>Two databases for the examples: one entry each, written at different times.\<close>

definition sample_entry :: "env \<Rightarrow> world \<Rightarrow> audit_log \<times> world" where
  "sample_entry e w =
     audit_record e 7 ''monitor.create'' None ''Monitor'' (Some 3) JNull
       (JObj [(''name'', JStr ''prod'')]) None None w"

lemma sample_entry_plain: "sample_entry e w = (l, w') \<Longrightarrow> plain_log l"
  by (auto simp: sample_entry_def audit_record_def Let_def plain_log_def split: prod.splits)

lemma sample_entry_logs:
  "sample_entry e w = (l, w') \<Longrightarrow> w_audit_logs w' = w_audit_logs w @ [l] \<and> al_tenant l = 7 \<and>
     al_created_at l = e_now e"
  by (auto simp: sample_entry_def audit_record_def Let_def split: prod.splits)

lemma empty_world_chain: "audit_wf empty_world" "vf_valid (verify_chain e t None empty_world)"
  by (simp_all add: audit_wf_def empty_world_def verify_chain_def tenant_logs_def)

lemma sample_entry_chain:
  "audit_wf w \<Longrightarrow> vf_valid (verify_chain e 7 None w) \<Longrightarrow> sample_entry e' w = (l, w') \<Longrightarrow>
     e_sha256 e' = e_sha256 e \<Longrightarrow> audit_wf w' \<and> vf_valid (verify_chain e 7 None w')"
proof -
  assume w: "audit_wf w" and v: "vf_valid (verify_chain e 7 None w)"
    and r: "sample_entry e' w = (l, w')" and h: "e_sha256 e' = e_sha256 e"
  have v': "vf_valid (verify_chain e' 7 None w)" using v h by (simp add: verify_chain_valid_iff)
  from audit_record_chain_step [OF w v' r [unfolded sample_entry_def]]
  have "vf_valid (verify_chain e 7 None w')" using h by (simp add: verify_chain_valid_iff)
  with audit_record_wf [OF w r [unfolded sample_entry_def]]
  show "audit_wf w' \<and> vf_valid (verify_chain e 7 None w')" ..
qed


text \<open>
  A verification restricted by date raises a false alarm. When the tenant's full chain is
  valid and \<open>since\<close> leaves out some entries but not all, \<open>verify_chain(tenant, since)\<close> starts
  from the all-zero hash instead of the hash of the last entry left out, so it reports the first
  entry kept as broken although nothing was altered.
\<close>

theorem verify_since_false_alarm:
  assumes "audit_wf w" and "vf_valid (verify_chain e t None w)"
    and "logs_of w t = older @ l # newer" "older \<noteq> []"
    and "\<forall>x \<in> set older. al_created_at x < s" "\<forall>x \<in> set (l # newer). s \<le> al_created_at x"
    and "\<And>m. e_sha256 e m \<noteq> genesis_hash"
  shows "\<not> vf_valid (verify_chain e t (Some s) w) \<and>
    (al_id l, PrevHashMismatch) \<in> set (vf_broken (verify_chain e t (Some s) w))"
proof -
  have keep: "filter (\<lambda>x. s \<le> al_created_at x) older = []"
    "filter (\<lambda>x. s \<le> al_created_at x) newer = newer"
    using assms(5,6) by (auto simp: filter_empty_conv)
  then have logs: "tenant_logs w t (Some s) = l # newer"
    using assms(1,3,6) by (simp add: tenant_logs_since)
  have "audit_chain.chain (e_sha256 e) genesis_hash (older @ l # newer)"
    using assms(1-3) by (simp add: verify_chain_valid_iff tenant_logs_all)
  from audit_chain.suffix_not_chain [OF this assms(4)] assms(7)
  have "al_prev_hash l \<noteq> genesis_hash" by simp
  then have "(al_id l, PrevHashMismatch) \<in> set (link_breaks e genesis_hash l)"
    by (simp add: link_breaks_def)
  then have "(al_id l, PrevHashMismatch) \<in> set (vf_broken (verify_chain e t (Some s) w))"
    by (simp only: verify_chain_def logs verify_loop_step append_Nil verify_loop_prefix)
  moreover have "vf_valid (verify_chain e t (Some s) w) = (vf_broken (verify_chain e t (Some s) w) = [])"
    using verify_loop_broken [of e genesis_hash 0 "[]" "tenant_logs w t (Some s)"]
    by (auto simp: verify_chain_def)
  ultimately show ?thesis by auto
qed

theorem verify_since_false_alarm_witness:
  "\<exists>w. vf_valid (verify_chain (sample_env\<lparr>e_sha256 := (\<lambda>m. ''h'' @ m)\<rparr>) 7 None w) \<and>
     \<not> vf_valid (verify_chain (sample_env\<lparr>e_sha256 := (\<lambda>m. ''h'' @ m)\<rparr>) 7 (Some 10) w)"
proof -
  let ?e = "sample_env\<lparr>e_sha256 := (\<lambda>m. ''h'' @ m)\<rparr>"
  obtain l w where r: "sample_entry (?e\<lparr>e_now := 5\<rparr>) empty_world = (l, w)" by fastforce
  obtain l' w' where r': "sample_entry ?e w = (l', w')" by fastforce
  have ok: "audit_wf w \<and> vf_valid (verify_chain ?e 7 None w)"
    by (rule sample_entry_chain [OF empty_world_chain r]) simp
  then have ok': "audit_wf w' \<and> vf_valid (verify_chain ?e 7 None w')"
    by (intro sample_entry_chain [OF _ _ r']) simp_all
  have logs: "logs_of w' 7 = [l] @ l' # []"
    using sample_entry_logs [OF r] sample_entry_logs [OF r'] by (auto simp: empty_world_def)
  have t: "al_created_at l < 10" "10 \<le> al_created_at l'"
    using sample_entry_logs [OF r] sample_entry_logs [OF r'] by (auto simp: sample_env_def)
  have g: "\<And>m. e_sha256 ?e m \<noteq> genesis_hash"
    by (simp add: genesis_hash_def numeral_eq_Suc)
  have "\<not> vf_valid (verify_chain ?e 7 (Some 10) w')"
    using verify_since_false_alarm [OF _ _ logs, of ?e 10] ok' t g by auto
  with ok' show ?thesis by blast
qed

end
