(* ===== verification/Effects.thy ===== *)
theory Effects
  imports World AuditTrail
begin

text \<open>
  The two side effects nearly every handler has: audit entries appended by the \<open>post_save\<close>
  signals and webhook deliveries queued by \<open>WebhookService.emit\<close>. \<open>noted\<close> is a world with
  some of both; the interface \<open>event_sink\<close> is all a component may assume about emitting an
  event.
\<close>

definition noted :: "audit_log list \<Rightarrow> delivery list \<Rightarrow> nat \<Rightarrow> world \<Rightarrow> world" where
  "noted ls ds n w =
     w\<lparr>w_audit_logs := w_audit_logs w @ ls, w_deliveries := w_deliveries w @ ds,
       w_next := w_next w + n\<rparr>"

lemma noted_noted [simp]: "noted ls' ds' n' (noted ls ds n w) = noted (ls @ ls') (ds @ ds') (n + n') w"
  by (simp add: noted_def add.assoc)

lemma noted_nothing [simp]: "noted [] [] 0 w = w"
  by (simp add: noted_def)

lemma noted_tables [simp]:
  "w_tenants (noted ls ds n w) = w_tenants w"
  "w_projects (noted ls ds n w) = w_projects w"
  "w_users (noted ls ds n w) = w_users w"
  "w_user_memberships (noted ls ds n w) = w_user_memberships w"
  "w_roles (noted ls ds n w) = w_roles w"
  "w_teams (noted ls ds n w) = w_teams w"
  "w_team_memberships (noted ls ds n w) = w_team_memberships w"
  "w_resource_policies (noted ls ds n w) = w_resource_policies w"
  "w_api_keys (noted ls ds n w) = w_api_keys w"
  "w_probes (noted ls ds n w) = w_probes w"
  "w_monitors (noted ls ds n w) = w_monitors w"
  "w_monitor_groups (noted ls ds n w) = w_monitor_groups w"
  "w_checks (noted ls ds n w) = w_checks w"
  "w_states (noted ls ds n w) = w_states w"
  "w_severities (noted ls ds n w) = w_severities w"
  "w_incidents (noted ls ds n w) = w_incidents w"
  "w_notes (noted ls ds n w) = w_notes w"
  "w_esc_policies (noted ls ds n w) = w_esc_policies w"
  "w_esc_steps (noted ls ds n w) = w_esc_steps w"
  "w_esc_states (noted ls ds n w) = w_esc_states w"
  "w_rules (noted ls ds n w) = w_rules w"
  "w_webhooks (noted ls ds n w) = w_webhooks w"
  "w_maintenances (noted ls ds n w) = w_maintenances w"
  "w_status_pages (noted ls ds n w) = w_status_pages w"
  "w_page_resources (noted ls ds n w) = w_page_resources w"
  "w_subscribers (noted ls ds n w) = w_subscribers w"
  "w_sso_configs (noted ls ds n w) = w_sso_configs w"
  "w_actor (noted ls ds n w) = w_actor w"
  "w_request (noted ls ds n w) = w_request w"
  "w_cache (noted ls ds n w) = w_cache w"
  "w_outbox (noted ls ds n w) = w_outbox w"
  by (simp_all add: noted_def)

lemma noted_effects [simp]:
  "w_audit_logs (noted ls ds n w) = w_audit_logs w @ ls"
  "w_deliveries (noted ls ds n w) = w_deliveries w @ ds"
  "w_next (noted ls ds n w) = w_next w + n"
  by (simp_all add: noted_def)

lemma row_of_noted [simp]:
  "incident_of (noted ls ds n w) = incident_of w"
  "monitor_of (noted ls ds n w) = monitor_of w"
  "state_of (noted ls ds n w) = state_of w"
  "severity_of (noted ls ds n w) = severity_of w"
  "team_of (noted ls ds n w) = team_of w"
  "role_of (noted ls ds n w) = role_of w"
  "user_of (noted ls ds n w) = user_of w"
  "webhook_of (noted ls ds n w) = webhook_of w"
  "project_of (noted ls ds n w) = project_of w"
  "tenant_of (noted ls ds n w) = tenant_of w"
  "policy_of (noted ls ds n w) = policy_of w"
  "state_name_of (noted ls ds n w) = state_name_of w"
  "severity_name_of (noted ls ds n w) = severity_name_of w"
  "state_is_resolved (noted ls ds n w) = state_is_resolved w"
  by (simp_all add: row_of_defs state_name_of_def severity_name_of_def state_is_resolved_def fun_eq_iff)

lemma audited_noted: "audited w ls = noted ls [] (length ls) w"
  by (simp add: audited_def noted_def)

text \<open>
  What the components rely on when they emit an event: nothing of the world changes except that
  new deliveries, all pending and due at once, are queued and some keys are taken.
\<close>

locale event_sink =
  fixes emit :: "env \<Rightarrow> uuid \<Rightarrow> uuid \<Rightarrow> string \<Rightarrow> json \<Rightarrow> world \<Rightarrow> world"
  assumes emit_noted: "\<exists>ds n. emit e t p ev d w = noted [] ds n w \<and>
    (\<forall>x \<in> set ds. dl_status x = Pending \<and> dl_attempt_count x = 0 \<and> dl_event_type x = ev \<and>
       dl_next_retry_at x = Some (e_now e))"
begin

lemma emit_tables [simp]:
  "w_incidents (emit e t p ev d w) = w_incidents w"
  "w_monitors (emit e t p ev d w) = w_monitors w"
  "w_states (emit e t p ev d w) = w_states w"
  "w_severities (emit e t p ev d w) = w_severities w"
  "w_esc_states (emit e t p ev d w) = w_esc_states w"
  "w_esc_steps (emit e t p ev d w) = w_esc_steps w"
  "w_esc_policies (emit e t p ev d w) = w_esc_policies w"
  "w_rules (emit e t p ev d w) = w_rules w"
  "w_users (emit e t p ev d w) = w_users w"
  "w_notes (emit e t p ev d w) = w_notes w"
  "w_checks (emit e t p ev d w) = w_checks w"
  "w_maintenances (emit e t p ev d w) = w_maintenances w"
  "w_audit_logs (emit e t p ev d w) = w_audit_logs w"
  "w_webhooks (emit e t p ev d w) = w_webhooks w"
  "w_cache (emit e t p ev d w) = w_cache w"
  using emit_noted [of e t p ev d w] by auto

lemma emit_grows:
  "\<exists>ds. w_deliveries (emit e t p ev d w) = w_deliveries w @ ds \<and> (\<forall>x \<in> set ds. dl_status x = Pending)"
  using emit_noted [of e t p ev d w] by auto

text \<open>A sequence of emissions has the same contract.\<close>

lemma emits_noted:
  "\<exists>ds n. foldl (\<lambda>w (t, p, ev, d). emit e t p ev d w) w evs = noted [] ds n w"
proof (induction evs arbitrary: w)
  case Nil
  then show ?case by (metis foldl_Nil noted_nothing)
next
  case (Cons x evs)
  obtain t p ev d where x: "x = (t, p, ev, d)" by (cases x) auto
  obtain ds n where 1: "emit e t p ev d w = noted [] ds n w" using emit_noted by blast
  obtain ds' n' where "foldl (\<lambda>w (t, p, ev, d). emit e t p ev d w) (noted [] ds n w) evs =
      noted [] ds' n' (noted [] ds n w)"
    using Cons.IH by blast
  with x 1 show ?case by auto
qed

end

end
