(* ===== verification/Webhooks.thy ===== *)
theory Webhooks
  imports Effects
begin

text \<open>
  \<open>apps/webhooks/services.py\<close>: matching an event against the subscriptions, building the
  payload in the hook's format, queueing deliveries, and delivering them with retries.
\<close>

section \<open>Subscriptions\<close>

fun event_matches :: "string list \<Rightarrow> string \<Rightarrow> bool" where
  "event_matches [] event_type = False"
| "event_matches (pattern # ps) event_type =
     (if pattern = ''*'' then True
      else if pattern = event_type then True
      else if endswith pattern ''.*'' \<and>
              (let prefix = take (length pattern - 2) pattern
               in event_type = prefix \<or> startswith event_type (prefix @ ''.''))
      then True
      else event_matches ps event_type)"

definition subscribed_webhooks :: "world \<Rightarrow> uuid \<Rightarrow> uuid \<Rightarrow> string \<Rightarrow> webhook list" where
  "subscribed_webhooks w tenant project event_type =
     filter (\<lambda>h. event_matches (wh_event_types h) event_type)
       (order_by_desc wh_created_at
          (filter (\<lambda>h. wh_tenant h = tenant \<and> wh_project h = project \<and> wh_is_active h) (w_webhooks w)))"

section \<open>Payloads\<close>

text \<open>\<open>(data or {}).get(k) or {}\<close> as items, and \<open>d.get(k)\<close> with \<open>None\<close> for a missing key.\<close>

definition sub_items :: "json \<Rightarrow> string \<Rightarrow> (string \<times> json) list result" where
  "sub_items data k =
     bind_result (items_or_empty data) (\<lambda>d. items_or_empty (dict_get_or d k JNull))"

abbreviation field :: "(string \<times> json) list \<Rightarrow> string \<Rightarrow> json" where
  "field d k \<equiv> dict_get_or d k JNull"

definition format_slack_payload :: "string \<Rightarrow> json \<Rightarrow> json result" where
  "format_slack_payload event_type data =
     bind_result (sub_items data ''incident'') (\<lambda>incident.
       let title = json_or (field incident ''title'') (JStr event_type);
           severity = json_or (json_or (field incident ''severity_name'') (field incident ''severity''))
                        (JStr ''n/a'');
           text = ''*'' @ event_type @ ''*'' @ [CHR 0x0A] @ ''*'' @ py_str title @ ''*'' @ [CHR 0x0A]
                  @ ''Severity: '' @ py_str severity;
           text1 = (if truthy (field incident ''description'')
                    then text @ [CHR 0x0A] @ py_str (field incident ''description'') else text)
       in Ok (JObj [(''text'', JStr text1)]))"

definition discord_embed :: "string \<Rightarrow> string \<Rightarrow> int \<Rightarrow> json" where
  "discord_embed event_type description color =
     JObj [(''embeds'', JList [JObj
       [(''title'', JStr (take 256 event_type)),
        (''description'', JStr (take 4096 description)),
        (''color'', JInt color)]])]"

definition optional_line :: "(string \<times> json) list \<Rightarrow> string \<Rightarrow> string \<Rightarrow> string list" where
  "optional_line d k label = (if truthy (field d k) then [label @ py_str (field d k)] else [])"

text \<open>The arrow of the code's status line (U+2192) is written \<open>->\<close>.\<close>

definition format_discord_payload :: "string \<Rightarrow> json \<Rightarrow> json result" where
  "format_discord_payload event_type data =
     bind_result (items_or_empty data) (\<lambda>top.
     bind_result (sub_items data ''incident'') (\<lambda>incident.
     bind_result (sub_items data ''monitor'') (\<lambda>monitor.
     bind_result (sub_items data ''scheduled_maintenance'') (\<lambda>maintenance.
       if incident \<noteq> [] then
         let title = json_or (field incident ''title'') (JStr event_type);
             severity = json_or (json_or (field incident ''severity_name'') (field incident ''severity''))
                          (JStr ''n/a'');
             description = ''**'' @ py_str title @ ''**'' @ [CHR 0x0A] @ ''Severity: '' @ py_str severity;
             description1 = (if truthy (field incident ''description'')
               then description @ [CHR 0x0A, CHR 0x0A] @ py_str (field incident ''description'')
               else description)
         in Ok (discord_embed event_type description1 15158332)
       else if monitor \<noteq> [] then
         let title = json_or (field monitor ''name'') (JStr event_type);
             previous = json_or (field top ''previous_status'') (JStr ''n/a'');
             current = json_or (json_or (field top ''status'') (field monitor ''status'')) (JStr ''n/a'');
             description = ''**'' @ py_str title @ ''**'' @ [CHR 0x0A] @ py_str previous @ '' -> '' @ py_str current
         in Ok (discord_embed event_type description
                  (if current = JStr ''offline'' then 16776960 else 3066993))
       else if maintenance \<noteq> [] then
         let title = json_or (field maintenance ''title'') (JStr event_type);
             lines = [''**'' @ py_str title @ ''**'']
               @ optional_line maintenance ''starts_at'' ''Start: ''
               @ optional_line maintenance ''ends_at'' ''End: ''
               @ optional_line maintenance ''status'' ''Status: ''
               @ optional_line maintenance ''description'' [CHR 0x0A];
             color = (if str_contains ''started'' event_type then 16753920
                      else if str_contains ''ended'' event_type then 3066993 else 3447003)
         in Ok (discord_embed event_type (join_with [CHR 0x0A] lines) color)
       else Ok (discord_embed event_type event_type 3447003)))))"

definition format_teams_payload :: "string \<Rightarrow> json \<Rightarrow> json result" where
  "format_teams_payload event_type data =
     bind_result (sub_items data ''incident'') (\<lambda>incident.
       let title = json_or (field incident ''title'') (JStr event_type);
           severity = json_or (json_or (field incident ''severity_name'') (field incident ''severity''))
                        (JStr ''n/a'')
       in Ok (JObj
         [(''@type'', JStr ''MessageCard''),
          (''@context'', JStr ''https://schema.org/extensions''),
          (''summary'', JStr event_type),
          (''themeColor'', JStr ''E81123''),
          (''title'', JStr event_type),
          (''sections'', JList [JObj
            [(''activityTitle'', title),
             (''facts'', JList [JObj [(''name'', JStr ''Severity''), (''value'', JStr (py_str severity))]]),
             (''text'', json_or (field incident ''description'') (JStr []))]])]))"

definition build_payload ::
  "uuid \<Rightarrow> uuid \<Rightarrow> string \<Rightarrow> string \<Rightarrow> json \<Rightarrow> datetime \<Rightarrow> webhook option \<Rightarrow> json result" where
  "build_payload tenant project event_type event_id data now hook =
     (let base = JObj
        [(''id'', JStr event_id), (''type'', JStr event_type), (''timestamp'', JTime now),
         (''projectId'', JStr (string_of_nat project)), (''tenantId'', JStr (string_of_nat tenant)),
         (''data'', data)]
      in case hook of
           None \<Rightarrow> Ok base
         | Some h \<Rightarrow>
             (case wh_payload_format h of
                FmtSlack \<Rightarrow> format_slack_payload event_type data
              | FmtTeams \<Rightarrow> format_teams_payload event_type data
              | FmtDiscord \<Rightarrow> format_discord_payload event_type data
              | FmtJson \<Rightarrow> Ok base))"

section \<open>Queueing\<close>

text \<open>One pending delivery per hook, or the first exception; keys from \<open>n\<close> on.\<close>

fun queue_deliveries ::
  "env \<Rightarrow> uuid \<Rightarrow> uuid \<Rightarrow> string \<Rightarrow> string \<Rightarrow> json \<Rightarrow> nat \<Rightarrow> webhook list \<Rightarrow> delivery list result" where
  "queue_deliveries e tenant project event_type event_id data n [] = Ok []"
| "queue_deliveries e tenant project event_type event_id data n (h # hs) =
     bind_result (build_payload tenant project event_type event_id data (e_now e) (Some h)) (\<lambda>body.
     bind_result (queue_deliveries e tenant project event_type event_id data (Suc n) hs) (\<lambda>ds.
       Ok (\<lparr>dl_id = n, dl_tenant = tenant, dl_webhook = wh_id h, dl_event_id = event_id,
             dl_event_type = event_type, dl_payload = body, dl_response_status = None,
             dl_response_body = [], dl_attempt_count = 0, dl_status = Pending,
             dl_next_retry_at = Some (e_now e), dl_delivered_at = None, dl_duration_ms = None,
             dl_created_at = e_now e, dl_updated_at = e_now e\<rparr> # ds)))"

text \<open>
  \<open>emit\<close>: any exception rolls the transaction back and is logged, so the world is unchanged.
\<close>

definition webhook_emit :: "env \<Rightarrow> uuid \<Rightarrow> uuid \<Rightarrow> string \<Rightarrow> json \<Rightarrow> world \<Rightarrow> world" where
  "webhook_emit e tenant project event_type payload w =
     (let hooks = subscribed_webhooks w tenant project event_type
      in if hooks = [] then w
         else
           (let event_id = ''evt_'' @ e_token e (w_next w)
            in case queue_deliveries e tenant project event_type event_id payload (Suc (w_next w)) hooks of
                 Inl _ \<Rightarrow> w
               | Inr ds \<Rightarrow> w\<lparr>w_deliveries := w_deliveries w @ ds,
                              w_next := Suc (w_next w) + length ds\<rparr>))"

section \<open>Delivery\<close>

definition sign :: "env \<Rightarrow> string \<Rightarrow> string \<Rightarrow> string" where
  "sign e secret body = ''sha256='' @ e_hmac_sha256 e secret body"

definition retry_delays :: "int list" where
  "retry_delays = [0, 30, 300, 1800]"

text \<open>\<open>headers.update(extra)\<close>\<close>

fun dict_put :: "string \<Rightarrow> 'v \<Rightarrow> (string \<times> 'v) list \<Rightarrow> (string \<times> 'v) list" where
  "dict_put k v [] = [(k, v)]"
| "dict_put k v ((k', v') # d) = (if k = k' then (k, v) # d else (k', v') # dict_put k v d)"

definition dict_update :: "(string \<times> 'v) list \<Rightarrow> (string \<times> 'v) list \<Rightarrow> (string \<times> 'v) list" where
  "dict_update d extra = foldl (\<lambda>d kv. dict_put (fst kv) (snd kv) d) d extra"

definition schedule_retry :: "env \<Rightarrow> nat \<Rightarrow> string \<Rightarrow> delivery \<Rightarrow> delivery" where
  "schedule_retry e max_retries error_msg d0 =
     (let d = d0\<lparr>dl_response_body := take 2000 error_msg\<rparr>
      in if max_retries \<le> dl_attempt_count d
         then d\<lparr>dl_status := Exhausted, dl_next_retry_at := None, dl_updated_at := e_now e\<rparr>
         else
           (let delay_idx = min (dl_attempt_count d) (length retry_delays - 1);
                delay = retry_delays ! delay_idx
            in d\<lparr>dl_status := Failed, dl_next_retry_at := Some (e_now e + seconds delay),
                 dl_updated_at := e_now e\<rparr>))"

datatype delivery_result = RSent | RFailed | RExhausted

definition delivery_request :: "env \<Rightarrow> webhook \<Rightarrow> delivery \<Rightarrow> http_request" where
  "delivery_request e hook d =
     (let body_str = dumps_compact (dl_payload d);
          timestamp = string_of_int (e_now e div 1000000);
          signature = sign e (wh_secret hook) body_str;
          headers =
            [(''Content-Type'', ''application/json''),
             (''X-OneUptime-Signature'', signature),
             (''X-OneUptime-Timestamp'', timestamp),
             (''X-OneUptime-Event'', dl_event_type d),
             (''X-OneUptime-Delivery'', string_of_nat (dl_id d))]
      in \<lparr>hr_method = ''POST'', hr_url = wh_url hook, hr_headers = dict_update headers (wh_headers hook),
          hr_body = Some body_str,
          hr_timeout = (if wh_timeout_seconds hook \<noteq> 0 then wh_timeout_seconds hook
                        else e_webhook_default_timeout e)\<rparr>)"

text \<open>\<open>str(exc)\<close> of a failed request.\<close>

fun outcome_error :: "http_outcome \<Rightarrow> string" where
  "outcome_error (HttpResponse c t) = []"
| "outcome_error HttpTimeout = ''Request timed out''"
| "outcome_error (HttpConnectionError m) = m"
| "outcome_error (HttpOtherError m) = m"

definition deliver_one :: "env \<Rightarrow> webhook \<Rightarrow> delivery \<Rightarrow> delivery_result \<times> delivery" where
  "deliver_one e hook d =
     (if \<not> wh_is_active hook
      then (RExhausted, d\<lparr>dl_status := Exhausted, dl_updated_at := e_now e\<rparr>)
      else
        (let rq = delivery_request e hook d;
             attempt = dl_attempt_count d + 1;
             duration_ms = e_http_ms e rq
         in case e_http e rq of
              HttpResponse code text \<Rightarrow>
                (let d1 = d\<lparr>dl_attempt_count := attempt, dl_response_status := Some code,
                           dl_response_body := take 2000 text, dl_duration_ms := Some duration_ms\<rparr>
                 in if 200 \<le> code \<and> code < 300
                    then (RSent, d1\<lparr>dl_status := Delivered, dl_delivered_at := Some (e_now e),
                                   dl_next_retry_at := None, dl_updated_at := e_now e\<rparr>)
                    else
                      (let d2 = schedule_retry e (wh_max_retries hook)
                                  (''HTTP '' @ string_of_int code) d1
                       in (if dl_status d2 = Failed then RFailed else RExhausted, d2)))
            | outcome \<Rightarrow>
                (let d1 = d\<lparr>dl_attempt_count := attempt, dl_duration_ms := Some duration_ms,
                           dl_response_body := take 2000 (outcome_error outcome)\<rparr>;
                     d2 = schedule_retry e (wh_max_retries hook) (outcome_error outcome) d1
                 in (if dl_status d2 = Failed then RFailed else RExhausted, d2))))"

text \<open>The deliveries a run takes up: due ones, earliest first (rows without a date last).\<close>

definition delivery_due :: "datetime \<Rightarrow> delivery \<Rightarrow> bool" where
  "delivery_due now d \<longleftrightarrow>
     (dl_status d = Pending \<or> dl_status d = Failed) \<and>
     (case dl_next_retry_at d of None \<Rightarrow> True | Some t \<Rightarrow> t \<le> now)"

definition by_next_retry :: "delivery list \<Rightarrow> delivery list" where
  "by_next_retry ds =
     order_by (\<lambda>d. case dl_next_retry_at d of Some t \<Rightarrow> t | None \<Rightarrow> 0)
       (filter (\<lambda>d. dl_next_retry_at d \<noteq> None) ds)
     @ filter (\<lambda>d. dl_next_retry_at d = None) ds"

definition due_deliveries :: "datetime \<Rightarrow> nat \<Rightarrow> world \<Rightarrow> delivery list" where
  "due_deliveries now batch_size w =
     take batch_size
       (by_next_retry (order_by dl_created_at (filter (delivery_due now) (w_deliveries w))))"

record delivery_stats =
  ds_sent :: nat
  ds_failed :: nat
  ds_exhausted :: nat

definition count_result :: "delivery_result \<Rightarrow> delivery_stats \<Rightarrow> delivery_stats" where
  "count_result r s =
     (case r of
        RSent \<Rightarrow> s\<lparr>ds_sent := Suc (ds_sent s)\<rparr>
      | RFailed \<Rightarrow> s\<lparr>ds_failed := Suc (ds_failed s)\<rparr>
      | RExhausted \<Rightarrow> s\<lparr>ds_exhausted := Suc (ds_exhausted s)\<rparr>)"

definition save_delivery :: "delivery \<Rightarrow> world \<Rightarrow> world" where
  "save_delivery d w =
     w\<lparr>w_deliveries := update_where (\<lambda>r. dl_id r = dl_id d) (\<lambda>_. d) (w_deliveries w)\<rparr>"

fun process_due :: "env \<Rightarrow> delivery list \<Rightarrow> delivery_stats \<Rightarrow> world \<Rightarrow> delivery_stats \<times> world" where
  "process_due e [] stats w = (stats, w)"
| "process_due e (d # ds) stats w =
     (case webhook_of w (dl_webhook d) of
        None \<Rightarrow> process_due e ds stats w
      | Some hook \<Rightarrow>
          (case deliver_one e hook d of
             (r, d') \<Rightarrow> process_due e ds (count_result r stats) (save_delivery d' w)))"

definition process_pending :: "env \<Rightarrow> nat \<Rightarrow> world \<Rightarrow> delivery_stats \<times> world" where
  "process_pending e batch_size w =
     process_due e (due_deliveries (e_now e) batch_size w) \<lparr>ds_sent = 0, ds_failed = 0, ds_exhausted = 0\<rparr> w"

end
