(* ===== verification/WebhookFacts.thy ===== *)
theory WebhookFacts
  imports Webhooks
begin

text \<open>
  Subscriptions match by the wildcard rule, an event queues exactly one delivery per subscribed
  hook of its own project, a delivery is attempted a bounded number of times on the documented
  schedule, and a run of the queue leaves finished deliveries alone.
\<close>

section \<open>Matching\<close>

text \<open>What a subscription pattern means: everything, one event, or a family \<open>p.*\<close>.\<close>

definition pattern_covers :: "string \<Rightarrow> string \<Rightarrow> bool" where
  "pattern_covers pattern ev \<longleftrightarrow>
     pattern = ''*'' \<or> pattern = ev \<or>
     (\<exists>p. pattern = p @ ''.*'' \<and> (ev = p \<or> (\<exists>r. ev = p @ ''.'' @ r)))"

lemma event_matches_Cons:
  "event_matches (p # ps) ev \<longleftrightarrow> pattern_covers p ev \<or> event_matches ps ev"
proof -
  have "(endswith p ''.*'' \<and>
           (let prefix = take (length p - 2) p
            in ev = prefix \<or> startswith ev (prefix @ ''.''))) \<longleftrightarrow>
        (\<exists>q. p = q @ ''.*'' \<and> (ev = q \<or> (\<exists>r. ev = q @ ''.'' @ r)))"
    by (auto simp: endswith_iff startswith_iff Let_def)
  then show ?thesis by (auto simp: pattern_covers_def)
qed

lemma event_matches_covers: "event_matches ps ev \<Longrightarrow> \<exists>p \<in> set ps. pattern_covers p ev"
  by (induction ps) (auto simp: event_matches_Cons simp del: event_matches.simps(2))

text \<open>
  An event is delivered to a hook exactly when some pattern of the hook's \<open>event_types\<close>
  covers it: \<open>*\<close>, the event itself, or \<open>p.*\<close> for \<open>p\<close> and every event below \<open>p.\<close> (so
  \<open>incident.*\<close> covers \<open>incident.created\<close> but not \<open>incidents.created\<close>).
\<close>

theorem event_matches_iff: "event_matches ps ev \<longleftrightarrow> (\<exists>p \<in> set ps. pattern_covers p ev)"
  by (induction ps) (simp_all add: event_matches_Cons del: event_matches.simps(2))

section \<open>Queueing\<close>

lemma queue_deliveries_result:
  "queue_deliveries e t p ev eid data n hs = Ok ds \<Longrightarrow>
     map dl_webhook ds = map wh_id hs \<and> map dl_id ds = [n..<n + length hs] \<and>
     (\<forall>d \<in> set ds. dl_status d = Pending \<and> dl_attempt_count d = 0 \<and> dl_event_type d = ev \<and>
        dl_event_id d = eid \<and> dl_tenant d = t \<and> dl_next_retry_at d = Some (e_now e) \<and>
        dl_delivered_at d = None)"
proof (induction hs arbitrary: n ds)
  case (Cons h hs)
  then show ?case
    by (auto simp: bind_result_Inr_iff upt_conv_Cons simp del: upt_Suc)
qed simp

lemma webhook_emit_none:
  "subscribed_webhooks w t p ev = [] \<Longrightarrow> webhook_emit e t p ev data w = w"
  by (simp add: webhook_emit_def)

lemma webhook_emit_fail:
  "queue_deliveries e t p ev (''evt_'' @ e_token e (w_next w)) data (Suc (w_next w))
     (subscribed_webhooks w t p ev) = Inl x \<Longrightarrow> webhook_emit e t p ev data w = w"
  by (simp add: webhook_emit_def Let_def)

lemma webhook_emit_ok:
  "queue_deliveries e t p ev (''evt_'' @ e_token e (w_next w)) data (Suc (w_next w))
     (subscribed_webhooks w t p ev) = Inr ds \<Longrightarrow> subscribed_webhooks w t p ev \<noteq> [] \<Longrightarrow>
   webhook_emit e t p ev data w = noted [] ds (Suc (length ds)) w"
  by (simp add: webhook_emit_def noted_def Let_def)

lemma webhook_emit_cases:
  obtains (unchanged) "webhook_emit e t p ev data w = w"
  | (queued) ds where
      "webhook_emit e t p ev data w = noted [] ds (Suc (length ds)) w"
      "queue_deliveries e t p ev (''evt_'' @ e_token e (w_next w)) data (Suc (w_next w))
         (subscribed_webhooks w t p ev) = Ok ds"
  by (metis (no_types) sum.exhaust webhook_emit_none webhook_emit_fail webhook_emit_ok)

lemma subscribed_webhooks_sound:
  "h \<in> set (subscribed_webhooks w t p ev) \<Longrightarrow>
     h \<in> set (w_webhooks w) \<and> wh_tenant h = t \<and> wh_project h = p \<and> wh_is_active h \<and>
     event_matches (wh_event_types h) ev"
  by (auto simp: subscribed_webhooks_def)

lemma subscribed_webhooks_iff:
  "h \<in> set (subscribed_webhooks w t p ev) \<longleftrightarrow>
     h \<in> set (w_webhooks w) \<and> wh_tenant h = t \<and> wh_project h = p \<and> wh_is_active h \<and>
     event_matches (wh_event_types h) ev"
  by (auto simp: subscribed_webhooks_def)

interpretation webhook_sink: event_sink webhook_emit
proof
  fix e t p ev d w
  show "\<exists>ds n. webhook_emit e t p ev d w = noted [] ds n w \<and>
    (\<forall>x \<in> set ds. dl_status x = Pending \<and> dl_attempt_count x = 0 \<and> dl_event_type x = ev \<and>
       dl_next_retry_at x = Some (e_now e))"
  proof (cases rule: webhook_emit_cases [of e t p ev d w])
    case unchanged
    then show ?thesis by (intro exI [of _ "[]"] exI [of _ "0::nat"]) simp
  next
    case (queued ds)
    then show ?thesis using queue_deliveries_result by blast
  qed
qed

lemma queue_json_ok:
  "\<forall>h \<in> set hs. wh_payload_format h = FmtJson \<Longrightarrow>
     \<exists>ds. queue_deliveries e t p ev eid data n hs = Ok ds"
proof (induction hs arbitrary: n)
  case (Cons h hs)
  then obtain ds where "queue_deliveries e t p ev eid data (Suc n) hs = Ok ds" by fastforce
  with Cons.prems show ?case by (simp add: build_payload_def Let_def)
qed simp


text \<open>A hook subscribed to a family gets its one delivery.\<close>

definition sample_hook :: webhook where
  "sample_hook =
     \<lparr>wh_id = 7, wh_tenant = 1, wh_project = 2, wh_team = None, wh_name = ''ops'',
      wh_url = ''https://hook'', wh_secret = ''s'', wh_payload_format = FmtJson,
      wh_event_types = [''incident.*''], wh_is_active = True, wh_headers = [],
      wh_timeout_seconds = 5, wh_max_retries = 3, wh_created_at = 0, wh_updated_at = 0\<rparr>"


section \<open>One delivery\<close>

definition delivery_open :: "delivery \<Rightarrow> bool" where
  "delivery_open d \<longleftrightarrow> dl_status d = Pending \<or> dl_status d = Failed"

lemma delivery_due_open: "delivery_due now d \<Longrightarrow> delivery_open d"
  by (simp add: delivery_due_def delivery_open_def)

lemma retry_delays_cap: "length retry_delays - 1 = 3"
  by (simp add: retry_delays_def)

lemma schedule_retry_fields [simp]:
  "dl_attempt_count (schedule_retry e m msg d) = dl_attempt_count d"
  "dl_id (schedule_retry e m msg d) = dl_id d"
  "dl_webhook (schedule_retry e m msg d) = dl_webhook d"
  "dl_status (schedule_retry e m msg d) = (if m \<le> dl_attempt_count d then Exhausted else Failed)"
  "dl_next_retry_at (schedule_retry e m msg d) =
     (if m \<le> dl_attempt_count d then None
      else Some (e_now e + seconds (retry_delays ! min (dl_attempt_count d) 3)))"
  by (simp_all add: schedule_retry_def Let_def retry_delays_cap [simplified])

text \<open>The outcomes of one call, on every branch.\<close>

definition http_success :: "http_outcome \<Rightarrow> bool" where
  "http_success r = (case r of HttpResponse c _ \<Rightarrow> 200 \<le> c \<and> c < 300 | _ \<Rightarrow> False)"

lemma deliver_one_inactive:
  "\<not> wh_is_active h \<Longrightarrow>
     deliver_one e h d = (RExhausted, d\<lparr>dl_status := Exhausted, dl_updated_at := e_now e\<rparr>)"
  by (simp add: deliver_one_def)

lemma deliver_one_success:
  assumes "wh_is_active h" "http_success (e_http e (delivery_request e h d))"
  shows "fst (deliver_one e h d) = RSent"
    and "dl_status (snd (deliver_one e h d)) = Delivered"
    and "dl_attempt_count (snd (deliver_one e h d)) = dl_attempt_count d + 1"
    and "dl_next_retry_at (snd (deliver_one e h d)) = None"
    and "dl_id (snd (deliver_one e h d)) = dl_id d"
    and "dl_webhook (snd (deliver_one e h d)) = dl_webhook d"
  using assms
  by (auto simp: deliver_one_def http_success_def Let_def split: http_outcome.splits if_splits)

lemma deliver_one_failure:
  assumes "wh_is_active h" "\<not> http_success (e_http e (delivery_request e h d))"
  shows "fst (deliver_one e h d) =
           (if wh_max_retries h \<le> dl_attempt_count d + 1 then RExhausted else RFailed)"
    and "dl_status (snd (deliver_one e h d)) =
           (if wh_max_retries h \<le> dl_attempt_count d + 1 then Exhausted else Failed)"
    and "dl_attempt_count (snd (deliver_one e h d)) = dl_attempt_count d + 1"
    and "dl_next_retry_at (snd (deliver_one e h d)) =
           (if wh_max_retries h \<le> dl_attempt_count d + 1 then None
            else Some (e_now e + seconds (retry_delays ! min (dl_attempt_count d + 1) 3)))"
    and "dl_id (snd (deliver_one e h d)) = dl_id d"
    and "dl_webhook (snd (deliver_one e h d)) = dl_webhook d"
  using assms
  by (auto simp: deliver_one_def http_success_def Let_def split: http_outcome.splits if_splits)

lemma deliver_one_id [simp]: "dl_id (snd (deliver_one e h d)) = dl_id d"
  using deliver_one_success(5) [of h e d] deliver_one_failure(5) [of h e d]
  by (cases "wh_is_active h") (auto simp: deliver_one_inactive)

text \<open>
  A delivery as a machine: an event is the environment of one run, in which an open delivery is
  attempted and a closed one is left alone.
\<close>

definition delivery_step :: "webhook \<Rightarrow> delivery \<Rightarrow> env \<Rightarrow> delivery" where
  "delivery_step h d e = (if delivery_open d then snd (deliver_one e h d) else d)"

definition attempts_bounded :: "webhook \<Rightarrow> delivery \<Rightarrow> bool" where
  "attempts_bounded h d \<longleftrightarrow>
     dl_attempt_count d \<le> max 1 (wh_max_retries h) \<and>
     (delivery_open d \<longrightarrow> dl_attempt_count d < max 1 (wh_max_retries h))"

definition attempts_left :: "webhook \<Rightarrow> delivery \<Rightarrow> nat" where
  "attempts_left h d =
     (if delivery_open d then max 1 (wh_max_retries h) - dl_attempt_count d else 0)"

lemmas delivery_machine_defs =
  delivery_step_def attempts_bounded_def attempts_left_def delivery_open_def

interpretation delivery_machine:
  measured_machine "delivery_step h" "attempts_bounded h" delivery_open "attempts_left h"
  for h :: webhook
proof unfold_locales
  show "attempts_bounded h d \<Longrightarrow> attempts_bounded h (delivery_step h d e)" for d e
    using deliver_one_success [of h e d] deliver_one_failure [of h e d] deliver_one_inactive [of h e d]
    by (cases "wh_is_active h"; cases "http_success (e_http e (delivery_request e h d))")
      (auto simp: delivery_machine_defs)
  show "attempts_bounded h d \<Longrightarrow> delivery_open d \<Longrightarrow>
      attempts_left h (delivery_step h d e) < attempts_left h d" for d e
    using deliver_one_success [of h e d] deliver_one_failure [of h e d] deliver_one_inactive [of h e d]
    by (cases "wh_is_active h"; cases "http_success (e_http e (delivery_request e h d))")
      (auto simp: delivery_machine_defs)
qed (simp add: delivery_step_def)

lemma attempts_left_le: "attempts_left h d \<le> max 1 (wh_max_retries h)"
  by (simp add: attempts_left_def)


definition sample_delivery :: delivery where
  "sample_delivery =
     \<lparr>dl_id = 9, dl_tenant = 1, dl_webhook = 7, dl_event_id = ''evt'', dl_event_type = ''incident.created'',
      dl_payload = JNull, dl_response_status = None, dl_response_body = [], dl_attempt_count = 0,
      dl_status = Pending, dl_next_retry_at = Some 0, dl_delivered_at = None, dl_duration_ms = None,
      dl_created_at = 0, dl_updated_at = 0\<rparr>"


text \<open>
  The retry schedule: after the first, second, third failed attempt the next one is due 30,
  300, 1800 seconds later (and every 1800 seconds from then on), and when the attempts reach
  \<open>max_retries\<close> the delivery is exhausted and never due again.
\<close>

theorem retry_schedule:
  assumes "wh_is_active h" and "\<not> http_success (e_http e (delivery_request e h d))"
  shows "dl_next_retry_at (snd (deliver_one e h d)) =
    (if wh_max_retries h \<le> dl_attempt_count d + 1 then None
     else Some (e_now e + seconds
       (if dl_attempt_count d = 0 then 30 else if dl_attempt_count d = 1 then 300 else 1800))) \<and>
    (wh_max_retries h \<le> dl_attempt_count d + 1 \<longleftrightarrow>
       (\<forall>t. \<not> delivery_due t (snd (deliver_one e h d))))" (is "?a \<and> (?p \<longleftrightarrow> ?q)")
proof
  show "?a"
    using deliver_one_failure(4) [OF assms]
    by (auto simp: retry_delays_def min_def nth_Cons split: nat.splits)
  show "?p \<longleftrightarrow> ?q"
    using deliver_one_failure(2,4) [OF assms] by (auto simp: delivery_due_def)
qed

theorem retry_schedule_witness:
  "dl_next_retry_at (snd (deliver_one (sample_env\<lparr>e_http := (\<lambda>_. HttpTimeout)\<rparr>) sample_hook sample_delivery))
     = Some (e_now sample_env + seconds 30)"
  using retry_schedule [of sample_hook "sample_env\<lparr>e_http := (\<lambda>_. HttpTimeout)\<rparr>" sample_delivery]
  by (simp add: sample_hook_def sample_delivery_def http_success_def)

section \<open>A run of the queue\<close>

lemma save_delivery_deliveries [simp]:
  "w_deliveries (save_delivery d w) = update_where (\<lambda>r. dl_id r = dl_id d) (\<lambda>_. d) (w_deliveries w)"
  "webhook_of (save_delivery d w) = webhook_of w"
  by (simp_all add: save_delivery_def webhook_of_def fun_eq_iff)

definition stats_total :: "delivery_stats \<Rightarrow> nat" where
  "stats_total s = ds_sent s + ds_failed s + ds_exhausted s"

lemma stats_total_count [simp]: "stats_total (count_result r s) = Suc (stats_total s)"
  by (cases r) (simp_all add: stats_total_def count_result_def)

lemma process_due_total: "stats_total (fst (process_due e ds s w)) \<le> stats_total s + length ds"
proof (induction ds arbitrary: s w)
  case (Cons d ds)
  show ?case
    using Cons.IH [of s w] Cons.IH [of "count_result r s" "save_delivery d' w" for r d']
    by (fastforce split: option.splits prod.splits)
qed simp

lemma process_due_ids:
  "map dl_id (w_deliveries (snd (process_due e ds s w))) = map dl_id (w_deliveries w)"
proof (induction ds arbitrary: s w)
  case (Cons d ds)
  then show ?case
    by (auto split: option.splits prod.splits)
qed simp

lemma process_due_keeps:
  "d \<in> set (w_deliveries w) \<Longrightarrow> dl_id d \<notin> dl_id ` set ds \<Longrightarrow>
     d \<in> set (w_deliveries (snd (process_due e ds s w)))"
proof (induction ds arbitrary: s w)
  case (Cons x ds)
  show ?case
  proof (cases "webhook_of w (dl_webhook x)")
    case (Some h)
    obtain r x' where x': "deliver_one e h x = (r, x')" by force
    with deliver_one_id [of e h x] have "dl_id x' = dl_id x" by simp
    with Cons.prems have "d \<in> set (w_deliveries (save_delivery x' w))"
      by (auto simp: in_update_where_iff)
    with Cons Some x' show ?thesis by simp
  qed (use Cons in simp)
qed simp

lemma due_deliveries_due:
  "d \<in> set (due_deliveries now n w) \<Longrightarrow> d \<in> set (w_deliveries w) \<and> delivery_due now d"
  by (auto simp: due_deliveries_def by_next_retry_def dest!: in_set_takeD split: if_splits)

lemma by_next_retry_length: "length (by_next_retry ds) = length ds"
  using sum_length_filter_compl [of "\<lambda>d. dl_next_retry_at d \<noteq> None" ds]
  by (simp add: by_next_retry_def)

lemma due_deliveries_length: "length (due_deliveries now n w) \<le> n"
  by (simp add: due_deliveries_def)

text \<open>
  A run of the queue handles at most \<open>batch_size\<close> deliveries, creates and removes none, and
  leaves every delivery that is not due exactly as it is: one already delivered or exhausted is
  never sent again, one scheduled for later is not sent early.
\<close>

theorem process_pending_only_due:
  assumes "distinct (map dl_id (w_deliveries w))"
    and "d \<in> set (w_deliveries w)" and "\<not> delivery_due (e_now e) d"
  shows "d \<in> set (w_deliveries (snd (process_pending e n w))) \<and>
    map dl_id (w_deliveries (snd (process_pending e n w))) = map dl_id (w_deliveries w) \<and>
    stats_total (fst (process_pending e n w)) \<le> n"
proof -
  have "dl_id d \<notin> dl_id ` set (due_deliveries (e_now e) n w)"
    using assms due_deliveries_due [of _ "e_now e" n w]
    by (auto simp: distinct_map inj_on_def)
  then have "d \<in> set (w_deliveries (snd (process_pending e n w)))"
    unfolding process_pending_def by (rule process_due_keeps [OF assms(2)])
  moreover have "stats_total (fst (process_pending e n w)) \<le> n"
    using process_due_total [of e "due_deliveries (e_now e) n w"
        "\<lparr>ds_sent = 0, ds_failed = 0, ds_exhausted = 0\<rparr>" w] due_deliveries_length [of "e_now e" n w]
    by (simp add: process_pending_def stats_total_def)
  ultimately show ?thesis by (simp add: process_pending_def process_due_ids)
qed

theorem process_pending_only_due_witness:
  "let d = sample_delivery\<lparr>dl_status := Delivered\<rparr> in
   d \<in> set (w_deliveries (snd (process_pending sample_env 100
     (empty_world\<lparr>w_webhooks := [sample_hook], w_deliveries := [d]\<rparr>))))"
  using process_pending_only_due [of "empty_world\<lparr>w_webhooks := [sample_hook],
      w_deliveries := [sample_delivery\<lparr>dl_status := Delivered\<rparr>]\<rparr>"
      "sample_delivery\<lparr>dl_status := Delivered\<rparr>" sample_env 100]
  by (simp add: Let_def delivery_due_def)

end
