(* ===== verification/Requests.thy ===== *)
theory Requests
  imports World
begin

text \<open>
  An HTTP request as the middleware, the authentication classes and the views see it: headers,
  and the attributes (\<open>user\<close>, \<open>api_key\<close>, \<open>tenant\<close>, \<open>project\<close>, ...) that are attached to it on
  its way. An absent attribute is \<open>None\<close>; an anonymous user is \<open>req_user = None\<close>.
\<close>

record request =
  req_path :: string
  req_host :: string
  req_x_tenant_id :: "uuid option"
  req_x_project_id :: "uuid option"
  req_authorization :: string
  req_meta :: request_meta
  req_user :: "user option"
  req_api_key :: "api_key option"
  req_tenant :: "tenant option"
  req_project :: "project option"
  req_auth_method :: "string option"
  req_sso_projects :: "uuid list"

text \<open>A response: the HTTP status and what identifies the body.\<close>

datatype response = Response nat json

abbreviation response_status :: "response \<Rightarrow> nat" where
  "response_status r \<equiv> (case r of Response s _ \<Rightarrow> s)"

definition problem :: "string \<Rightarrow> string \<Rightarrow> nat \<Rightarrow> string \<Rightarrow> response" where
  "problem type title status detail =
     Response status (JObj
       [(''type'', JStr type), (''title'', JStr title), (''status'', JInt (int status)),
        (''detail'', JStr detail)])"

text \<open>The DRF exceptions the views raise.\<close>

abbreviation ValidationError :: "string \<Rightarrow> 'a result" where
  "ValidationError detail \<equiv> Raise (ApiError 400 detail)"

abbreviation PermissionDenied :: "string \<Rightarrow> 'a result" where
  "PermissionDenied detail \<equiv> Raise (ApiError 403 detail)"

abbreviation NotFound :: "'a result" where
  "NotFound \<equiv> Raise (ApiError 404 ''Not found.'')"

text \<open>\<open>get_object_or_404\<close>\<close>

definition get_or_404 :: "'r option \<Rightarrow> 'r result" where
  "get_or_404 r = (case r of Some x \<Rightarrow> Ok x | None \<Rightarrow> NotFound)"

lemma get_or_404_simps [simp]:
  "get_or_404 None = NotFound"
  "get_or_404 (Some x) = Ok x"
  by (simp_all add: get_or_404_def)

text \<open>A request with nothing attached, and a plain active user, to evaluate examples on.\<close>

definition bare_request :: request where
  "bare_request =
     \<lparr>req_path = ''/'', req_host = ''api'', req_x_tenant_id = None, req_x_project_id = None,
      req_authorization = [],
      req_meta = \<lparr>rq_xff = None, rq_remote_addr = Some ''10.0.0.1'', rq_user_agent = []\<rparr>,
      req_user = None, req_api_key = None, req_tenant = None, req_project = None,
      req_auth_method = None, req_sso_projects = []\<rparr>"

definition sample_user :: user where
  "sample_user =
     \<lparr>usr_id = 5, usr_username = ''ann'', usr_first_name = ''Ann'', usr_last_name = ''Lee'',
      usr_password = Some ''hash:pw'', usr_is_staff = False, usr_is_superuser = False,
      usr_is_active = True, usr_last_login = None, usr_email = ''ann@x.org'',
      usr_is_email_verified = True, usr_mfa_enabled = False, usr_mfa_secret = [],
      usr_session_timeout_minutes = 480, usr_last_login_ip = None, usr_is_erased = False,
      usr_erased_at = None, usr_created_at = 0, usr_updated_at = 0\<rparr>"

definition sample_project :: project where
  "sample_project =
     \<lparr>pj_id = 2, pj_tenant = 1, pj_name = ''Shop'', pj_slug = ''shop'', pj_description = [],
      pj_is_active = True, pj_created_at = 0, pj_updated_at = 0\<rparr>"

definition sample_tenant :: tenant where
  "sample_tenant =
     \<lparr>tn_id = 1, tn_name = ''Acme'', tn_slug = ''acme'', tn_domain = None, tn_logo_url = None,
      tn_plan = ''free'', tn_data_region = ''eu'', tn_status = TenantActive, tn_stripe_id = None,
      tn_settings = JObj [], tn_created_at = 0, tn_updated_at = 0\<rparr>"

text \<open>Ann, acting in project 2.\<close>

definition sample_request :: request where
  "sample_request =
     bare_request\<lparr>req_user := Some sample_user, req_tenant := Some sample_tenant,
                  req_project := Some sample_project\<rparr>"

lemma sample_fields [simp]:
  "usr_id sample_user = 5" "\<not> usr_is_superuser sample_user" "usr_is_active sample_user"
  "pj_id sample_project = 2" "pj_tenant sample_project = 1" "pj_is_active sample_project"
  "tn_id sample_tenant = 1" "tn_status sample_tenant = TenantActive"
  "req_user bare_request = None" "req_api_key bare_request = None" "req_project bare_request = None"
  "req_tenant bare_request = None"
  "req_user sample_request = Some sample_user" "req_api_key sample_request = None"
  "req_project sample_request = Some sample_project" "req_tenant sample_request = Some sample_tenant"
  by (simp_all add: sample_user_def sample_project_def sample_tenant_def bare_request_def
      sample_request_def)

end
