(* ===== verification/Rbac.thy ===== *)
theory Rbac
  imports Requests AuditTrail
begin

text \<open>
  \<open>apps/rbac\<close> and \<open>core/team_scoping.py\<close>: permission strings with wildcards, the permission
  set of a user or an API key, resource policies, the decision \<open>RequirePermission\<close> takes, team
  scoping, and the bootstrap of a project's system rows.
\<close>

section \<open>Constants\<close>

definition ALL_PERMISSIONS :: "string list" where
  "ALL_PERMISSIONS = [
    ''monitor:create'', ''monitor:read'', ''monitor:update'', ''monitor:delete'', ''monitor:pause'',
    ''monitor_group:create'', ''monitor_group:read'', ''monitor_group:update'', ''monitor_group:delete'',
    ''probe:read'',
    ''incident:create'', ''incident:read'', ''incident:update'', ''incident:delete'',
    ''incident:acknowledge'', ''incident:resolve'', ''incident:assign'', ''incident:postmortem'',
    ''incident_state:create'', ''incident_state:read'', ''incident_state:update'', ''incident_state:delete'',
    ''incident_severity:create'', ''incident_severity:read'', ''incident_severity:update'', ''incident_severity:delete'',
    ''status_page:create'', ''status_page:read'', ''status_page:update'', ''status_page:delete'',
    ''status_page:publish'', ''status_page:manage_subscribers'',
    ''scheduled_maintenance:create'', ''scheduled_maintenance:read'',
    ''scheduled_maintenance:update'', ''scheduled_maintenance:delete'',
    ''webhook:create'', ''webhook:read'', ''webhook:update'', ''webhook:delete'', ''webhook:test'',
    ''team:create'', ''team:read'', ''team:update'', ''team:delete'', ''team:manage_members'',
    ''user:read'', ''user:invite'', ''user:deactivate'', ''user:change_role'',
    ''project:create'', ''project:read'', ''project:update'', ''project:delete'', ''project:manage_sso'',
    ''tenant:read'', ''tenant:update'',
    ''role:create'', ''role:read'', ''role:update'', ''role:delete'',
    ''rbac:read'', ''rbac:manage'',
    ''api_key:create'', ''api_key:read'', ''api_key:revoke'',
    ''audit_log:read'', ''audit_log:export'', ''audit_log:verify'',
    ''retention_policy:read'', ''retention_policy:update'',
    ''admin:tenants'', ''admin:impersonate'', ''admin:system'', ''admin:cross_tenant_audit'']"

definition ADMIN_PERMISSIONS :: "string list" where
  "ADMIN_PERMISSIONS = [''*'']"

definition MEMBER_PERMISSIONS :: "string list" where
  "MEMBER_PERMISSIONS = [
    ''monitor:create'', ''monitor:read'', ''monitor:update'', ''monitor:pause'',
    ''monitor_group:create'', ''monitor_group:read'', ''monitor_group:update'',
    ''probe:read'',
    ''incident:create'', ''incident:read'', ''incident:update'',
    ''incident:acknowledge'', ''incident:resolve'', ''incident:assign'', ''incident:postmortem'',
    ''incident_state:read'', ''incident_severity:read'',
    ''status_page:read'', ''status_page:update'', ''status_page:manage_subscribers'',
    ''scheduled_maintenance:create'', ''scheduled_maintenance:read'', ''scheduled_maintenance:update'',
    ''webhook:read'', ''webhook:test'',
    ''team:read'',
    ''user:read'',
    ''project:read'',
    ''tenant:read'',
    ''role:read'',
    ''api_key:read'',
    ''audit_log:read'',
    ''retention_policy:read'']"

definition VIEWER_PERMISSIONS :: "string list" where
  "VIEWER_PERMISSIONS = [''*:read'']"

text \<open>Name, description and permissions; the dash of the second description is written \<open>-\<close>.\<close>

definition SYSTEM_ROLES :: "(string \<times> string \<times> string list) list" where
  "SYSTEM_ROLES = [
    (''admin'', ''Full access to all project resources.'', ADMIN_PERMISSIONS),
    (''member'', ''Standard team member - can create and manage resources, cannot delete.'', MEMBER_PERMISSIONS),
    (''viewer'', ''Read-only access to all project resources.'', VIEWER_PERMISSIONS)]"

text \<open>Name, color, order, resolved.\<close>

definition DEFAULT_INCIDENT_STATES :: "(string \<times> string \<times> nat \<times> bool) list" where
  "DEFAULT_INCIDENT_STATES = [
    (''triggered'', ''#ef4444'', 1, False),
    (''investigating'', ''#f97316'', 2, False),
    (''acknowledged'', ''#eab308'', 3, False),
    (''monitoring'', ''#3b82f6'', 4, False),
    (''resolved'', ''#22c55e'', 5, True)]"

definition DEFAULT_INCIDENT_SEVERITIES :: "(string \<times> string \<times> nat) list" where
  "DEFAULT_INCIDENT_SEVERITIES = [
    (''critical'', ''#dc2626'', 1),
    (''high'', ''#ea580c'', 2),
    (''medium'', ''#ca8a04'', 3),
    (''low'', ''#2563eb'', 4),
    (''info'', ''#6b7280'', 5)]"

definition DEFAULT_PROBE_LOCATIONS :: "(string \<times> string) list" where
  "DEFAULT_PROBE_LOCATIONS = [
    (''US East'', ''us-east-1''), (''EU West'', ''eu-west-1''), (''AP Southeast'', ''ap-southeast-1'')]"

section \<open>Permissions\<close>

definition project_memberships :: "world \<Rightarrow> uuid \<Rightarrow> uuid \<Rightarrow> team_membership list" where
  "project_memberships w user project =
     filter (\<lambda>m. mb_user m = user \<and>
               (case team_of w (mb_team m) of Some t \<Rightarrow> tm_project t = project | None \<Rightarrow> False))
       (w_team_memberships w)"

definition role_permissions_of :: "world \<Rightarrow> uuid \<Rightarrow> string set" where
  "role_permissions_of w r = (case role_of w r of Some x \<Rightarrow> set (ro_permissions x) | None \<Rightarrow> {})"

definition get_user_permissions :: "world \<Rightarrow> user \<Rightarrow> uuid \<Rightarrow> string set" where
  "get_user_permissions w u project =
     (if usr_is_superuser u then {''*''}
      else foldl (\<lambda>perms m. perms \<union> role_permissions_of w (mb_role m)) {}
             (project_memberships w (usr_id u) project))"

definition get_request_permissions :: "world \<Rightarrow> request \<Rightarrow> project option \<Rightarrow> string set" where
  "get_request_permissions w rq project =
     (case req_api_key rq of
        Some k \<Rightarrow> set (ak_permissions k)
      | None \<Rightarrow>
          (case req_user rq of
             None \<Rightarrow> {}
           | Some u \<Rightarrow>
               (case project of
                  None \<Rightarrow> (if usr_is_superuser u then {''*''} else {})
                | Some p \<Rightarrow> get_user_permissions w u (pj_id p))))"

definition has_permission :: "string set \<Rightarrow> string \<Rightarrow> bool" where
  "has_permission user_perms required =
     (if ''*'' \<in> user_perms \<or> required \<in> user_perms then True
      else case split_once (CHR '':'') required of
             (_, None) \<Rightarrow> False
           | (resource, Some action) \<Rightarrow>
               (if resource @ '':*'' \<in> user_perms then True
                else if ''*:'' @ action \<in> user_perms then True
                else False))"

datatype policy_result = PolicyDeny | PolicyAllow

definition check_resource_policy ::
  "world \<Rightarrow> user \<Rightarrow> uuid \<Rightarrow> string \<Rightarrow> uuid option \<Rightarrow> policy_result option" where
  "check_resource_policy w u project resource_type resource_id =
     (let role_ids = map mb_role (project_memberships w (usr_id u) project)
      in if role_ids = [] then None
         else
           (let qs = filter (\<lambda>p. rp_project p = project \<and> rp_role p \<in> set role_ids \<and>
                               rp_resource_type p = resource_type) (w_resource_policies w);
                qs1 = (case resource_id of
                         Some i \<Rightarrow> filter (\<lambda>p. rp_resource_id p = None \<or> rp_resource_id p = Some i) qs
                       | None \<Rightarrow> filter (\<lambda>p. rp_resource_id p = None) qs);
                effects = set (map rp_effect qs1)
            in if EffectDeny \<in> effects then Some PolicyDeny
               else if EffectAllow \<in> effects then Some PolicyAllow
               else None))"

text \<open>\<open>RequirePermission(perm)._evaluate(request, obj)\<close>; \<open>obj\<close> by its id.\<close>

definition resource_type_of :: "string \<Rightarrow> string" where
  "resource_type_of perm =
     (case split_once (CHR '':'') perm of (r, Some _) \<Rightarrow> r | (_, None) \<Rightarrow> [])"

definition evaluate :: "world \<Rightarrow> string \<Rightarrow> request \<Rightarrow> uuid option \<Rightarrow> bool" where
  "evaluate w perm rq obj =
     (case req_user rq of
        None \<Rightarrow> False
      | Some u \<Rightarrow>
          if usr_is_superuser u then True
          else
            (let policy_result =
               (case req_project rq of
                  Some p \<Rightarrow> (if req_api_key rq = None \<and> resource_type_of perm \<noteq> []
                             then check_resource_policy w u (pj_id p) (resource_type_of perm) obj
                             else None)
                | None \<Rightarrow> None)
             in case policy_result of
                  Some PolicyDeny \<Rightarrow> False
                | Some PolicyAllow \<Rightarrow> True
                | None \<Rightarrow>
                    (case req_project rq of
                       None \<Rightarrow> False
                     | Some p \<Rightarrow> has_permission (get_request_permissions w rq (Some p)) perm)))"

definition is_super_admin :: "request \<Rightarrow> bool" where
  "is_super_admin rq = (case req_user rq of Some u \<Rightarrow> usr_is_superuser u | None \<Rightarrow> False)"

text \<open>
  \<open>PermissionMixin.get_permissions\<close> and the check of all of them: \<open>IsAuthenticated\<close>, and
  \<open>RequirePermission\<close> when the action is mapped.
\<close>

definition check_permissions ::
  "world \<Rightarrow> (string \<times> string) list \<Rightarrow> string \<Rightarrow> request \<Rightarrow> uuid option \<Rightarrow> bool" where
  "check_permissions w permission_map action rq obj =
     (req_user rq \<noteq> None \<and>
      (case map_of permission_map action of
         Some perm \<Rightarrow> (if perm \<noteq> [] then evaluate w perm rq obj else True)
       | None \<Rightarrow> True))"

section \<open>Team scoping\<close>

definition user_sees_all_teams :: "world \<Rightarrow> user \<Rightarrow> uuid \<Rightarrow> bool" where
  "user_sees_all_teams w u project =
     (if usr_is_superuser u then True else ''*'' \<in> get_user_permissions w u project)"

definition get_user_team_ids :: "world \<Rightarrow> user \<Rightarrow> uuid \<Rightarrow> uuid list" where
  "get_user_team_ids w u project = map mb_team (project_memberships w (usr_id u) project)"

text \<open>\<open>team\<close> is the accessor of the scoped model's foreign key.\<close>

definition apply_team_scope ::
  "world \<Rightarrow> ('r \<Rightarrow> uuid option) \<Rightarrow> 'r list \<Rightarrow> user \<Rightarrow> project option \<Rightarrow> 'r list" where
  "apply_team_scope w team qs u project =
     (case project of
        None \<Rightarrow> []
      | Some p \<Rightarrow>
          (if user_sees_all_teams w u (pj_id p) then qs
           else
             (let team_ids = get_user_team_ids w u (pj_id p)
              in filter (\<lambda>r. case team r of None \<Rightarrow> True | Some t \<Rightarrow> t \<in> set team_ids) qs)))"

definition apply_team_param :: "('r \<Rightarrow> uuid option) \<Rightarrow> 'r list \<Rightarrow> uuid option \<Rightarrow> 'r list" where
  "apply_team_param team qs team_id =
     (case team_id of None \<Rightarrow> qs | Some t \<Rightarrow> filter (\<lambda>r. team r = Some t) qs)"

definition scope_queryset_by_team ::
  "world \<Rightarrow> ('r \<Rightarrow> uuid option) \<Rightarrow> 'r list \<Rightarrow> request \<Rightarrow> uuid option \<Rightarrow> 'r list" where
  "scope_queryset_by_team w team qs rq team_id =
     (case req_project rq of
        None \<Rightarrow> []
      | Some p \<Rightarrow>
          (case req_user rq of
             None \<Rightarrow> []
           | Some u \<Rightarrow> apply_team_param team (apply_team_scope w team qs u (Some p)) team_id))"

text \<open>The first membership of a user in a project, by date.\<close>

definition first_membership :: "world \<Rightarrow> uuid \<Rightarrow> uuid \<Rightarrow> team_membership option" where
  "first_membership w u project = first_row (order_by mb_created_at (project_memberships w u project))"

definition resolve_team_for_create ::
  "world \<Rightarrow> request \<Rightarrow> user \<Rightarrow> uuid option \<Rightarrow> uuid option \<Rightarrow> bool \<Rightarrow> uuid option result" where
  "resolve_team_for_create w rq u team explicit_team_id explicit_null =
     (case req_project rq of
        None \<Rightarrow> ValidationError ''Project context is required.''
      | Some p \<Rightarrow>
          if explicit_null \<and> team = None then
            (if user_sees_all_teams w u (pj_id p) then Ok None
             else ValidationError ''Only admins can create shared (team-less) resources.'')
          else
            bind_result
              (case team of
                 Some t \<Rightarrow> Ok (Some t)
               | None \<Rightarrow>
                   (case explicit_team_id of
                      None \<Rightarrow> Ok None
                    | Some t \<Rightarrow>
                        (case find (\<lambda>x. tm_id x = t \<and> tm_project x = pj_id p) (w_teams w) of
                           Some x \<Rightarrow> Ok (Some (tm_id x))
                         | None \<Rightarrow> ValidationError ''Team not found in this project.'')))
              (\<lambda>target.
                case target of
                  Some t \<Rightarrow>
                    (if user_sees_all_teams w u (pj_id p) then Ok (Some t)
                     else if \<not> exists_row (\<lambda>m. mb_user m = usr_id u \<and> mb_team m = t) (w_team_memberships w)
                     then PermissionDenied ''You are not a member of this team.''
                     else Ok (Some t))
                | None \<Rightarrow>
                    (case first_membership w (usr_id u) (pj_id p) of
                       Some m \<Rightarrow> Ok (Some (mb_team m))
                     | None \<Rightarrow>
                         (if user_sees_all_teams w u (pj_id p) then Ok None
                          else ValidationError ''Team is required. Join a team or specify team_id.''))))"

section \<open>API keys\<close>

definition generate_api_key :: "env \<Rightarrow> nat \<Rightarrow> string" where
  "generate_api_key e n = ''ok_live_'' @ e_token e n"

definition create_key ::
  "env \<Rightarrow> uuid \<Rightarrow> uuid \<Rightarrow> string \<Rightarrow> string list \<Rightarrow> uuid option \<Rightarrow> datetime option \<Rightarrow> world \<Rightarrow>
     (api_key \<times> string) \<times> world" where
  "create_key e tenant project name permissions created_by expires_at w =
     (let raw_key = generate_api_key e (w_next w);
          key_hash = e_sha256 e raw_key;
          k = \<lparr>ak_id = Suc (w_next w), ak_tenant = tenant, ak_project = project, ak_name = name,
               ak_key_prefix = take 12 raw_key, ak_key_hash = key_hash, ak_permissions = permissions,
               ak_created_by = created_by, ak_last_used_at = None, ak_expires_at = expires_at,
               ak_revoked_at = None, ak_created_at = e_now e, ak_updated_at = e_now e\<rparr>
      in ((k, raw_key),
          on_apikey_save e k True (w\<lparr>w_api_keys := w_api_keys w @ [k], w_next := w_next w + 2\<rparr>)))"

section \<open>Bootstrap of a project\<close>

text \<open>The defaults of the entries carry fresh keys \<open>n, n+1, ...\<close> for the rows they may create.\<close>

definition with_fresh :: "nat \<Rightarrow> 'a list \<Rightarrow> (nat \<times> 'a) list" where
  "with_fresh n xs = zip [n..<n + length xs] xs"

definition role_key :: "role \<Rightarrow> uuid \<times> string" where
  "role_key r = (ro_project r, ro_name r)"

definition mk_system_role ::
  "(env \<times> uuid \<times> uuid \<times> string \<times> string list) \<Rightarrow> (uuid \<times> string) \<Rightarrow> role" where
  "mk_system_role d k =
     (case d of (e, i, tenant, desc, perms) \<Rightarrow>
        \<lparr>ro_id = i, ro_tenant = tenant, ro_project = fst k, ro_name = snd k, ro_description = desc,
         ro_is_system = True, ro_permissions = perms, ro_created_at = e_now e, ro_updated_at = e_now e\<rparr>)"

definition create_system_roles ::
  "env \<Rightarrow> uuid \<Rightarrow> uuid \<Rightarrow> world \<Rightarrow> (string \<times> role) list \<times> world" where
  "create_system_roles e project tenant w =
     (case goc_each role_key mk_system_role
             (map (\<lambda>(i, name, desc, perms). ((e, i, tenant, desc, perms), (project, name)))
                (with_fresh (w_next w) SYSTEM_ROLES)) (w_roles w) of
        (rows, rs) \<Rightarrow>
          (zip (map fst SYSTEM_ROLES) rows,
           w\<lparr>w_roles := rs, w_next := w_next w + length SYSTEM_ROLES\<rparr>))"

definition state_key :: "incident_state \<Rightarrow> uuid \<times> string" where
  "state_key s = (st_project s, st_name s)"

definition mk_system_state ::
  "(env \<times> uuid \<times> uuid \<times> string \<times> nat \<times> bool) \<Rightarrow> (uuid \<times> string) \<Rightarrow> incident_state" where
  "mk_system_state d k =
     (case d of (e, i, tenant, color, ord, resolved) \<Rightarrow>
        \<lparr>st_id = i, st_tenant = tenant, st_project = fst k, st_name = snd k, st_color = color,
         st_order = ord, st_is_resolved_state = resolved, st_is_system = True,
         st_created_at = e_now e, st_updated_at = e_now e\<rparr>)"

definition create_system_incident_states ::
  "env \<Rightarrow> uuid \<Rightarrow> uuid \<Rightarrow> world \<Rightarrow> (string \<times> incident_state) list \<times> world" where
  "create_system_incident_states e project tenant w =
     (case goc_each state_key mk_system_state
             (map (\<lambda>(i, name, color, ord, resolved). ((e, i, tenant, color, ord, resolved), (project, name)))
                (with_fresh (w_next w) DEFAULT_INCIDENT_STATES)) (w_states w) of
        (rows, rs) \<Rightarrow>
          (zip (map fst DEFAULT_INCIDENT_STATES) rows,
           w\<lparr>w_states := rs, w_next := w_next w + length DEFAULT_INCIDENT_STATES\<rparr>))"

definition severity_key :: "incident_severity \<Rightarrow> uuid \<times> string" where
  "severity_key s = (sv_project s, sv_name s)"

definition mk_system_severity ::
  "(env \<times> uuid \<times> uuid \<times> string \<times> nat) \<Rightarrow> (uuid \<times> string) \<Rightarrow> incident_severity" where
  "mk_system_severity d k =
     (case d of (e, i, tenant, color, ord) \<Rightarrow>
        \<lparr>sv_id = i, sv_tenant = tenant, sv_project = fst k, sv_name = snd k, sv_color = color,
         sv_order = ord, sv_is_system = True, sv_created_at = e_now e, sv_updated_at = e_now e\<rparr>)"

definition create_system_incident_severities ::
  "env \<Rightarrow> uuid \<Rightarrow> uuid \<Rightarrow> world \<Rightarrow> (string \<times> incident_severity) list \<times> world" where
  "create_system_incident_severities e project tenant w =
     (case goc_each severity_key mk_system_severity
             (map (\<lambda>(i, name, color, ord). ((e, i, tenant, color, ord), (project, name)))
                (with_fresh (w_next w) DEFAULT_INCIDENT_SEVERITIES)) (w_severities w) of
        (rows, rs) \<Rightarrow>
          (zip (map fst DEFAULT_INCIDENT_SEVERITIES) rows,
           w\<lparr>w_severities := rs, w_next := w_next w + length DEFAULT_INCIDENT_SEVERITIES\<rparr>))"

definition probe_key :: "probe \<Rightarrow> uuid \<times> string" where
  "probe_key p = (pb_project p, pb_location p)"

definition mk_default_probe :: "(env \<times> uuid \<times> uuid \<times> string) \<Rightarrow> (uuid \<times> string) \<Rightarrow> probe" where
  "mk_default_probe d k =
     (case d of (e, i, tenant, name) \<Rightarrow>
        \<lparr>pb_id = i, pb_tenant = tenant, pb_project = fst k, pb_name = name, pb_location = snd k,
         pb_probe_key = e_token e i, pb_last_seen_at = None, pb_is_active = True, pb_version = [],
         pb_created_at = e_now e, pb_updated_at = e_now e\<rparr>)"

definition create_default_probes :: "env \<Rightarrow> uuid \<Rightarrow> uuid \<Rightarrow> world \<Rightarrow> probe list \<times> world" where
  "create_default_probes e project tenant w =
     (case goc_each probe_key mk_default_probe
             (map (\<lambda>(i, name, location). ((e, i, tenant, name), (project, location)))
                (with_fresh (w_next w) DEFAULT_PROBE_LOCATIONS)) (w_probes w) of
        (rows, rs) \<Rightarrow>
          (rows, w\<lparr>w_probes := rs, w_next := w_next w + length DEFAULT_PROBE_LOCATIONS\<rparr>))"

record bootstrap_rows =
  bs_roles :: "(string \<times> role) list"
  bs_incident_states :: "(string \<times> incident_state) list"
  bs_incident_severities :: "(string \<times> incident_severity) list"
  bs_probes :: "probe list"

definition bootstrap_project :: "env \<Rightarrow> uuid \<Rightarrow> uuid \<Rightarrow> world \<Rightarrow> bootstrap_rows \<times> world" where
  "bootstrap_project e project tenant w =
     (let (roles, w1) = create_system_roles e project tenant w;
          (states, w2) = create_system_incident_states e project tenant w1;
          (severities, w3) = create_system_incident_severities e project tenant w2;
          (probes, w4) = create_default_probes e project tenant w3
      in (\<lparr>bs_roles = roles, bs_incident_states = states, bs_incident_severities = severities,
           bs_probes = probes\<rparr>, w4))"

end
