(* ===== verification/RbacFacts.thy ===== *)
theory RbacFacts
  imports Rbac
begin

text \<open>
  What a permission string grants, which of policies, keys and roles decides, who sees and
  creates what under team scoping, and that the bootstrap of a project can be repeated.
\<close>

section \<open>Permission strings\<close>

lemma has_permission_iff:
  "has_permission perms (r @ '':'' @ a) \<longleftrightarrow>
     ''*'' \<in> perms \<or> (r @ '':'' @ a) \<in> perms \<or> (r @ '':*'') \<in> perms \<or> (''*:'' @ a) \<in> perms"
  if "CHR '':'' \<notin> set r"
  using that by (auto simp: has_permission_def)

lemma has_permission_mono_aux:
  "perms \<subseteq> perms' \<Longrightarrow> has_permission perms p \<Longrightarrow> has_permission perms' p"
  by (auto simp: has_permission_def split: prod.splits option.splits if_splits)

text \<open>
  The built-in roles grant what their descriptions promise of the permissions the system
  knows: an admin everything, a viewer exactly the \<open>read\<close> permissions, a member nothing that
  deletes, manages roles or policies, or administers.
\<close>

theorem system_roles_grant:
  "(\<forall>p. has_permission (set ADMIN_PERMISSIONS) p) \<and>
   [p \<leftarrow> ALL_PERMISSIONS. has_permission (set VIEWER_PERMISSIONS) p] =
     [p \<leftarrow> ALL_PERMISSIONS. endswith p '':read''] \<and>
   [p \<leftarrow> ALL_PERMISSIONS. has_permission (set MEMBER_PERMISSIONS) p \<and>
      (endswith p '':delete'' \<or> startswith p ''rbac:'' \<or> startswith p ''admin:'')] = []"
proof (intro conjI)
  show "\<forall>p. has_permission (set ADMIN_PERMISSIONS) p"
    by (simp add: has_permission_def ADMIN_PERMISSIONS_def)
  show "[p \<leftarrow> ALL_PERMISSIONS. has_permission (set VIEWER_PERMISSIONS) p] =
      [p \<leftarrow> ALL_PERMISSIONS. endswith p '':read'']"
    by code_simp
  show "[p \<leftarrow> ALL_PERMISSIONS. has_permission (set MEMBER_PERMISSIONS) p \<and>
      (endswith p '':delete'' \<or> startswith p ''rbac:'' \<or> startswith p ''admin:'')] = []"
    by code_simp
qed

section \<open>The permission set of a user\<close>

lemma get_user_permissions_iff:
  "p \<in> get_user_permissions w u prj \<longleftrightarrow>
     (if usr_is_superuser u then p = ''*''
      else \<exists>m \<in> set (project_memberships w (usr_id u) prj). p \<in> role_permissions_of w (mb_role m))"
proof -
  have "foldl (\<lambda>perms m. perms \<union> f m) A ms = A \<union> \<Union> (f ` set ms)"
    for f :: "team_membership \<Rightarrow> string set" and A ms
    by (induction ms arbitrary: A) auto
  then show ?thesis by (auto simp: get_user_permissions_def)
qed

section \<open>The decision\<close>

definition policy_applies ::
  "world \<Rightarrow> user \<Rightarrow> uuid \<Rightarrow> string \<Rightarrow> uuid option \<Rightarrow> resource_policy \<Rightarrow> bool" where
  "policy_applies w u prj rtype rid pol \<longleftrightarrow>
     pol \<in> set (w_resource_policies w) \<and> rp_project pol = prj \<and> rp_resource_type pol = rtype \<and>
     rp_role pol \<in> mb_role ` set (project_memberships w (usr_id u) prj) \<and>
     (rp_resource_id pol = None \<or> (rid \<noteq> None \<and> rp_resource_id pol = rid))"

lemma check_resource_policy_spec:
  "check_resource_policy w u prj rtype rid =
     (if \<exists>pol. policy_applies w u prj rtype rid pol \<and> rp_effect pol = EffectDeny then Some PolicyDeny
      else if \<exists>pol. policy_applies w u prj rtype rid pol \<and> rp_effect pol = EffectAllow
      then Some PolicyAllow else None)"
  by (cases rid) (auto simp: check_resource_policy_def policy_applies_def Let_def image_iff)

lemma evaluate_user:
  "req_user rq = Some u \<Longrightarrow> \<not> usr_is_superuser u \<Longrightarrow> req_api_key rq = None \<Longrightarrow>
   req_project rq = Some p \<Longrightarrow> resource_type_of perm \<noteq> [] \<Longrightarrow>
     evaluate w perm rq obj =
       (case check_resource_policy w u (pj_id p) (resource_type_of perm) obj of
          Some PolicyDeny \<Rightarrow> False
        | Some PolicyAllow \<Rightarrow> True
        | None \<Rightarrow> has_permission (get_user_permissions w u (pj_id p)) perm)"
  by (auto simp: evaluate_def get_request_permissions_def split: option.splits policy_result.splits)


definition sample_role :: "string list \<Rightarrow> role" where
  "sample_role perms =
     \<lparr>ro_id = 30, ro_tenant = 1, ro_project = 2, ro_name = ''ops'', ro_description = [],
      ro_is_system = False, ro_permissions = perms, ro_created_at = 0, ro_updated_at = 0\<rparr>"

definition sample_policy :: "policy_effect \<Rightarrow> resource_policy" where
  "sample_policy eff =
     \<lparr>rp_id = 40, rp_tenant = 1, rp_project = 2, rp_role = 30, rp_resource_type = ''monitor'',
      rp_resource_id = None, rp_effect = eff, rp_conditions = JObj [], rp_created_at = 0,
      rp_updated_at = 0\<rparr>"

text \<open>Ann is in team 20 of project 2 with role 30, which holds one policy on monitors.\<close>

definition rbac_world :: "string list \<Rightarrow> policy_effect \<Rightarrow> world" where
  "rbac_world perms eff =
     empty_world\<lparr>
       w_teams := [\<lparr>tm_id = 20, tm_tenant = 1, tm_project = 2, tm_name = ''SRE'',
                    tm_description = [], tm_created_at = 0, tm_updated_at = 0\<rparr>],
       w_roles := [sample_role perms],
       w_team_memberships := [\<lparr>mb_id = 21, mb_team = 20, mb_user = 5, mb_role = 30,
                               mb_granted_by = None, mb_created_at = 0\<rparr>],
       w_resource_policies := [sample_policy eff]\<rparr>"

lemma rbac_world_memberships:
  "project_memberships (rbac_world perms eff) 5 2 =
     [\<lparr>mb_id = 21, mb_team = 20, mb_user = 5, mb_role = 30, mb_granted_by = None, mb_created_at = 0\<rparr>]"
  by (simp add: project_memberships_def rbac_world_def team_of_def)

lemma sample_policy_applies:
  "policy_applies (rbac_world perms eff) sample_user 2 ''monitor'' rid (sample_policy eff)"
  using rbac_world_memberships [of perms eff]
  by (simp add: policy_applies_def rbac_world_def sample_policy_def)


text \<open>
  An allow policy on a resource type grants every action on it, reading and deleting alike,
  to anyone holding the role, even when none of the user's roles grants that action: unless a
  deny policy applies as well, \<open>has_permission\<close> is never consulted.
\<close>

theorem allow_policy_grants_every_action:
  assumes "req_user rq = Some u" "req_api_key rq = None" "req_project rq = Some p"
    and "policy_applies w u (pj_id p) r obj pol" "rp_effect pol = EffectAllow"
    and "\<forall>pol. policy_applies w u (pj_id p) r obj pol \<longrightarrow> rp_effect pol \<noteq> EffectDeny"
    and "r \<noteq> []" "CHR '':'' \<notin> set r"
  shows "evaluate w (r @ '':'' @ action) rq obj"
proof (cases "usr_is_superuser u")
  case True
  with assms(1) show ?thesis by (simp add: evaluate_def)
next
  case False
  have r: "resource_type_of (r @ '':'' @ action) = r"
    using assms(8) by (simp add: resource_type_of_def)
  with assms(7) have ne: "resource_type_of (r @ '':'' @ action) \<noteq> []" by simp
  from evaluate_user [OF assms(1) False assms(2,3) ne, of w obj] assms(4-6) r
  show ?thesis by (auto simp: check_resource_policy_spec)
qed

theorem allow_policy_grants_every_action_witness:
  "evaluate (rbac_world [] EffectAllow) ''monitor:delete'' sample_request None"
  using allow_policy_grants_every_action [of sample_request sample_user sample_project
      "rbac_world [] EffectAllow" "''monitor''" None "sample_policy EffectAllow" "''delete''"]
    sample_policy_applies [of "[]" EffectAllow None]
  by (auto simp: sample_policy_def policy_applies_def rbac_world_def)

text \<open>
  A request made with an API key (of a user who is not a superuser) is decided by the key's
  own permission list alone: neither the roles of its creator nor resource policies matter, and
  neither does the project the key was created for; the key works in whatever project the
  request names.
\<close>

theorem api_key_decides_alone:
  assumes "req_user rq = Some u" "\<not> usr_is_superuser u" "req_api_key rq = Some k"
    and "req_project rq = Some p"
  shows "evaluate w perm rq obj \<longleftrightarrow> has_permission (set (ak_permissions k)) perm"
  using assms by (simp add: evaluate_def get_request_permissions_def)

definition sample_key :: api_key where
  "sample_key =
     \<lparr>ak_id = 50, ak_tenant = 8, ak_project = 9, ak_name = ''ci'', ak_key_prefix = ''ok_live_'',
      ak_key_hash = ''h'', ak_permissions = [''monitor:delete''], ak_created_by = Some 5,
      ak_last_used_at = None, ak_expires_at = None, ak_revoked_at = None, ak_created_at = 0,
      ak_updated_at = 0\<rparr>"

theorem api_key_decides_alone_witness:
  "ak_project sample_key \<noteq> pj_id sample_project \<and>
   evaluate empty_world ''monitor:delete'' (sample_request\<lparr>req_api_key := Some sample_key\<rparr>) None"
  using api_key_decides_alone [of "sample_request\<lparr>req_api_key := Some sample_key\<rparr>" sample_user
      sample_key sample_project empty_world "''monitor:delete''" None]
  by (simp add: sample_key_def has_permission_def)

section \<open>Team scoping\<close>

lemma apply_team_scope_iff:
  "r \<in> set (apply_team_scope w team qs u (Some p)) \<longleftrightarrow>
     r \<in> set qs \<and>
     (user_sees_all_teams w u (pj_id p) \<or> team r = None \<or>
      (\<exists>t \<in> set (get_user_team_ids w u (pj_id p)). team r = Some t))"
  by (auto simp: apply_team_scope_def Let_def split: option.splits)

lemma user_team_ids_iff:
  "t \<in> set (get_user_team_ids w u prj) \<longleftrightarrow>
     (\<exists>m \<in> set (w_team_memberships w). mb_user m = usr_id u \<and> mb_team m = t \<and>
        (\<exists>x. team_of w t = Some x \<and> tm_project x = prj))"
  by (auto simp: get_user_team_ids_def project_memberships_def split: option.splits)

text \<open>
  C10. Isolation between teams: a member without \<open>*\<close> sees a resource exactly when it is shared
  (no team) or owned by one of the teams of the request's project the user belongs to; a list
  filtered by \<open>?team_id=\<close> shows nothing more.
\<close>

theorem team_scope_isolates:
  assumes "req_user rq = Some u" "req_project rq = Some p" "\<not> user_sees_all_teams w u (pj_id p)"
  shows "r \<in> set (scope_queryset_by_team w team qs rq team_id) \<longleftrightarrow>
    r \<in> set qs \<and> (team_id \<noteq> None \<longrightarrow> team r = team_id) \<and>
    (team r = None \<or>
     (\<exists>m \<in> set (w_team_memberships w). mb_user m = usr_id u \<and> team r = Some (mb_team m) \<and>
        (\<exists>x. team_of w (mb_team m) = Some x \<and> tm_project x = pj_id p)))"
  using assms
  by (auto simp: scope_queryset_by_team_def apply_team_param_def apply_team_scope_iff
      user_team_ids_iff split: option.splits)

theorem team_scope_isolates_witness:
  "scope_queryset_by_team (rbac_world [] EffectAllow) (\<lambda>r. r) [Some 20, None, Some 99]
     sample_request None = [Some 20, None] \<and>
   Some 99 \<notin> set (scope_queryset_by_team (rbac_world [] EffectAllow) (\<lambda>r. r) [Some 20, None, Some 99]
     sample_request None)"
proof
  have s: "\<not> user_sees_all_teams (rbac_world [] EffectAllow) sample_user (pj_id sample_project)"
    by (simp add: user_sees_all_teams_def get_user_permissions_iff rbac_world_memberships role_permissions_of_def rbac_world_def role_of_def
        sample_role_def)
  show "Some 99 \<notin> set (scope_queryset_by_team (rbac_world [] EffectAllow) (\<lambda>r. r)
      [Some 20, None, Some 99] sample_request None)"
    using team_scope_isolates [OF _ _ s, of sample_request "Some 99" "\<lambda>r. r"
        "[Some 20, None, Some 99]" None]
    by (simp add: rbac_world_def)
  show "scope_queryset_by_team (rbac_world [] EffectAllow) (\<lambda>r. r) [Some 20, None, Some 99]
     sample_request None = [Some 20, None]"
    using s rbac_world_memberships [of "[]" EffectAllow]
    by (simp add: scope_queryset_by_team_def apply_team_param_def apply_team_scope_def
        get_user_team_ids_def)
qed

lemma resolve_team_cases:
  assumes "resolve_team_for_create w rq u team eid enull = Ok t" "req_project rq = Some p"
    and "\<not> user_sees_all_teams w u (pj_id p)"
  obtains (given) tid m where "t = Some tid" "m \<in> set (w_team_memberships w)"
      "mb_user m = usr_id u" "mb_team m = tid"
      "team = Some tid \<or> (\<exists>x \<in> set (w_teams w). tm_id x = tid \<and> tm_project x = pj_id p)"
  | (first) m where "first_membership w (usr_id u) (pj_id p) = Some m" "t = Some (mb_team m)"
  using assms
  by (cases team; cases eid; cases "first_membership w (usr_id u) (pj_id p)")
    (fastforce simp: resolve_team_for_create_def dest!: find_SomeD split: if_splits option.splits)+

text \<open>
  What a user creates, the user can see: when \<open>resolve_team_for_create\<close> picks a team (with
  the team named in the payload belonging to the project), a resource stored with it passes the
  same user's team filter. Users without \<open>*\<close> never create shared resources.
\<close>

theorem created_resource_visible:
  assumes "resolve_team_for_create w rq u team eid enull = Ok t" "req_project rq = Some p"
    and "team \<noteq> None \<longrightarrow> (\<exists>x. team_of w (the team) = Some x \<and> tm_project x = pj_id p)"
    and "distinct (map tm_id (w_teams w))"
    and "accessor r = t"
  shows "r \<in> set (apply_team_scope w accessor [r] u (Some p)) \<and>
    (\<not> user_sees_all_teams w u (pj_id p) \<longrightarrow> t \<noteq> None)"
proof (cases "user_sees_all_teams w u (pj_id p)")
  case True
  then show ?thesis by (simp add: apply_team_scope_iff)
next
  case False
  have row: "team_of w (tm_id x) = Some x" if "x \<in> set (w_teams w)" for x
    unfolding team_of_def by (rule find_by_key [OF assms(4) that])
  from assms(1,2) False
  obtain tid where "t = Some tid" "tid \<in> set (get_user_team_ids w u (pj_id p))"
  proof (cases rule: resolve_team_cases)
    case (given tid m)
    then have "\<exists>x. team_of w tid = Some x \<and> tm_project x = pj_id p"
      using assms(3) row by (metis option.distinct(1) option.sel)
    with given that show ?thesis by (auto simp: user_team_ids_iff)
  next
    case (first m)
    then have "m \<in> set (project_memberships w (usr_id u) (pj_id p))"
      by (auto simp: first_membership_def dest: first_row_in)
    with first that show ?thesis by (auto simp: get_user_team_ids_def)
  qed
  with assms(5) show ?thesis by (simp add: apply_team_scope_iff)
qed

theorem created_resource_visible_witness:
  "Some 20 \<in> set (apply_team_scope (rbac_world [] EffectAllow) (\<lambda>r. r) [Some 20] sample_user
     (Some sample_project))"
proof -
  let ?w = "rbac_world [] EffectAllow"
  have s: "\<not> user_sees_all_teams ?w sample_user 2"
    by (simp add: user_sees_all_teams_def get_user_permissions_iff rbac_world_memberships
        role_permissions_of_def rbac_world_def role_of_def sample_role_def)
  have "resolve_team_for_create ?w sample_request sample_user None None False = Ok (Some 20)"
    by (simp add: resolve_team_for_create_def first_membership_def rbac_world_memberships
        order_by_simps)
  from created_resource_visible [OF this, of sample_project "\<lambda>r. r" "Some 20"] show ?thesis
    by (simp add: rbac_world_def)
qed

section \<open>Bootstrap\<close>

interpretation roles: keyed_table role_key mk_system_role
  by unfold_locales (simp add: role_key_def mk_system_role_def split: prod.splits)

interpretation states: keyed_table state_key mk_system_state
  by unfold_locales (simp add: state_key_def mk_system_state_def split: prod.splits)

interpretation severities: keyed_table severity_key mk_system_severity
  by unfold_locales (simp add: severity_key_def mk_system_severity_def split: prod.splits)

interpretation probes: keyed_table probe_key mk_default_probe
  by unfold_locales (simp add: probe_key_def mk_default_probe_def split: prod.splits)

text \<open>The uniqueness constraints of the four tables the bootstrap fills.\<close>

definition bootstrap_tables_unique :: "world \<Rightarrow> bool" where
  "bootstrap_tables_unique w \<longleftrightarrow>
     roles.unique_keys (w_roles w) \<and> states.unique_keys (w_states w) \<and>
     severities.unique_keys (w_severities w) \<and> probes.unique_keys (w_probes w)"

lemma with_fresh_snd [simp]: "map snd (with_fresh n xs) = xs"
  by (simp add: with_fresh_def)

lemma with_fresh_keys:
  assumes "\<And>i x. snd (f (i, x)) = g x"
  shows "map snd (map f (with_fresh n xs)) = map g xs"
proof -
  have "snd (f ix) = g (snd ix)" for ix by (cases ix) (simp add: assms)
  then have "map snd (map f (with_fresh n xs)) = map g (map snd (with_fresh n xs))"
    by (simp add: comp_def del: with_fresh_snd)
  then show ?thesis by (simp only: with_fresh_snd)
qed

text \<open>The four loops of \<open>bootstrap_project\<close>, as loops over their tables.\<close>

definition role_defaults where
  "role_defaults e tn prj n = map (\<lambda>(i, name, desc, perms). ((e, i, tn, desc, perms), (prj, name)))
     (with_fresh n SYSTEM_ROLES)"

definition state_defaults where
  "state_defaults e tn prj n =
     map (\<lambda>(i, name, color, ord, resolved). ((e, i, tn, color, ord, resolved), (prj, name)))
       (with_fresh n DEFAULT_INCIDENT_STATES)"

definition severity_defaults where
  "severity_defaults e tn prj n = map (\<lambda>(i, name, color, ord). ((e, i, tn, color, ord), (prj, name)))
     (with_fresh n DEFAULT_INCIDENT_SEVERITIES)"

definition probe_defaults where
  "probe_defaults e tn prj n = map (\<lambda>(i, name, location). ((e, i, tn, name), (prj, location)))
     (with_fresh n DEFAULT_PROBE_LOCATIONS)"

lemma defaults_keys:
  "map snd (role_defaults e tn prj n) = map (\<lambda>x. (prj, fst x)) SYSTEM_ROLES"
  "map snd (state_defaults e tn prj n) = map (\<lambda>x. (prj, fst x)) DEFAULT_INCIDENT_STATES"
  "map snd (severity_defaults e tn prj n) = map (\<lambda>x. (prj, fst x)) DEFAULT_INCIDENT_SEVERITIES"
  "map snd (probe_defaults e tn prj n) = map (\<lambda>x. (prj, snd x)) DEFAULT_PROBE_LOCATIONS"
  unfolding role_defaults_def state_defaults_def severity_defaults_def probe_defaults_def
  by (rule with_fresh_keys; simp split: prod.splits)+

lemma rows_with_keys:
  "map keyof out = map g table \<Longrightarrow> set out \<subseteq> A \<Longrightarrow> \<forall>x \<in> set table. \<exists>r \<in> A. keyof r = g x"
  by (metis (no_types, lifting) image_eqI image_iff list.set_map subsetD)

lemma bootstrap_projectE:
  assumes "bootstrap_project e prj tn w = (b, w')"
  obtains rs ss vs ps n1 n2 n3 where
    "goc_each role_key mk_system_role (role_defaults e tn prj (w_next w)) (w_roles w) = (rs, w_roles w')"
    "goc_each state_key mk_system_state (state_defaults e tn prj n1) (w_states w) = (ss, w_states w')"
    "goc_each severity_key mk_system_severity (severity_defaults e tn prj n2) (w_severities w) =
       (vs, w_severities w')"
    "goc_each probe_key mk_default_probe (probe_defaults e tn prj n3) (w_probes w) = (ps, w_probes w')"
    "b = \<lparr>bs_roles = zip (map fst SYSTEM_ROLES) rs,
          bs_incident_states = zip (map fst DEFAULT_INCIDENT_STATES) ss,
          bs_incident_severities = zip (map fst DEFAULT_INCIDENT_SEVERITIES) vs, bs_probes = ps\<rparr>"
  using assms
  by (auto simp: bootstrap_project_def create_system_roles_def create_system_incident_states_def
      create_system_incident_severities_def create_default_probes_def Let_def
      simp flip: role_defaults_def state_defaults_def severity_defaults_def probe_defaults_def
      split: prod.splits)

text \<open>
  Bootstrapping a project keeps the uniqueness of role, state, severity names and probe
  locations per project, and is idempotent: run again (later, even under another tenant), it
  creates nothing and returns the very rows of the first run. Afterwards every default name has
  its row in the project.
\<close>

theorem bootstrap_idempotent:
  assumes "bootstrap_project e prj tn w = (b, w1)" "bootstrap_tables_unique w"
    and "bootstrap_project e' prj tn' w1 = (b', w2)"
  shows "b' = b \<and> bootstrap_tables_unique w1 \<and>
    w_roles w2 = w_roles w1 \<and> w_states w2 = w_states w1 \<and>
    w_severities w2 = w_severities w1 \<and> w_probes w2 = w_probes w1 \<and>
    (\<forall>x \<in> set SYSTEM_ROLES. \<exists>r \<in> set (w_roles w1). role_key r = (prj, fst x)) \<and>
    (\<forall>x \<in> set DEFAULT_INCIDENT_STATES. \<exists>s \<in> set (w_states w1). state_key s = (prj, fst x)) \<and>
    (\<forall>x \<in> set DEFAULT_INCIDENT_SEVERITIES. \<exists>s \<in> set (w_severities w1). severity_key s = (prj, fst x))"
proof -
  note u = assms(2) [unfolded bootstrap_tables_unique_def]
  obtain rs ss vs ps n1 n2 n3 where
    g: "goc_each role_key mk_system_role (role_defaults e tn prj (w_next w)) (w_roles w) = (rs, w_roles w1)"
    "goc_each state_key mk_system_state (state_defaults e tn prj n1) (w_states w) = (ss, w_states w1)"
    "goc_each severity_key mk_system_severity (severity_defaults e tn prj n2) (w_severities w) =
       (vs, w_severities w1)"
    "goc_each probe_key mk_default_probe (probe_defaults e tn prj n3) (w_probes w) = (ps, w_probes w1)"
    and b: "b = \<lparr>bs_roles = zip (map fst SYSTEM_ROLES) rs,
          bs_incident_states = zip (map fst DEFAULT_INCIDENT_STATES) ss,
          bs_incident_severities = zip (map fst DEFAULT_INCIDENT_SEVERITIES) vs, bs_probes = ps\<rparr>"
    by (rule bootstrap_projectE [OF assms(1)])
  note spec = roles.goc_each_spec [OF g(1)] states.goc_each_spec [OF g(2)]
    severities.goc_each_spec [OF g(3)] probes.goc_each_spec [OF g(4)]
  note again = roles.goc_each_idem [OF g(1)] states.goc_each_idem [OF g(2)]
    severities.goc_each_idem [OF g(3)] probes.goc_each_idem [OF g(4)]
  obtain rs' ss' vs' ps' n1' n2' n3' where
    g': "goc_each role_key mk_system_role (role_defaults e' tn' prj (w_next w1)) (w_roles w1) = (rs', w_roles w2)"
    "goc_each state_key mk_system_state (state_defaults e' tn' prj n1') (w_states w1) = (ss', w_states w2)"
    "goc_each severity_key mk_system_severity (severity_defaults e' tn' prj n2') (w_severities w1) =
       (vs', w_severities w2)"
    "goc_each probe_key mk_default_probe (probe_defaults e' tn' prj n3') (w_probes w1) = (ps', w_probes w2)"
    and b': "b' = \<lparr>bs_roles = zip (map fst SYSTEM_ROLES) rs',
          bs_incident_states = zip (map fst DEFAULT_INCIDENT_STATES) ss',
          bs_incident_severities = zip (map fst DEFAULT_INCIDENT_SEVERITIES) vs', bs_probes = ps'\<rparr>"
    by (rule bootstrap_projectE [OF assms(3)])
  have "rs' = rs \<and> w_roles w2 = w_roles w1" "ss' = ss \<and> w_states w2 = w_states w1"
    "vs' = vs \<and> w_severities w2 = w_severities w1" "ps' = ps \<and> w_probes w2 = w_probes w1"
    using again g' u by (simp_all add: defaults_keys)
  moreover have "bootstrap_tables_unique w1"
    using spec u by (simp add: bootstrap_tables_unique_def)
  moreover have "\<forall>x \<in> set SYSTEM_ROLES. \<exists>r \<in> set (w_roles w1). role_key r = (prj, fst x)"
    using spec(1) by (intro rows_with_keys [of role_key rs]) (simp_all add: defaults_keys)
  moreover have "\<forall>x \<in> set DEFAULT_INCIDENT_STATES. \<exists>s \<in> set (w_states w1). state_key s = (prj, fst x)"
    using spec(2) by (intro rows_with_keys [of state_key ss]) (simp_all add: defaults_keys)
  moreover have "\<forall>x \<in> set DEFAULT_INCIDENT_SEVERITIES.
      \<exists>s \<in> set (w_severities w1). severity_key s = (prj, fst x)"
    using spec(3) by (intro rows_with_keys [of severity_key vs]) (simp_all add: defaults_keys)
  ultimately show ?thesis unfolding b b' by (intro conjI) simp_all
qed

theorem bootstrap_idempotent_witness:
  "\<exists>b w1 w2. bootstrap_project sample_env 2 1 empty_world = (b, w1) \<and>
     bootstrap_project sample_env 2 1 w1 = (b, w2) \<and> w_roles w2 = w_roles w1"
proof -
  obtain b w1 where 1: "bootstrap_project sample_env 2 1 empty_world = (b, w1)" by force
  obtain b' w2 where 2: "bootstrap_project sample_env 2 1 w1 = (b', w2)" by force
  have "bootstrap_tables_unique empty_world"
    by (simp add: bootstrap_tables_unique_def roles.unique_keys_def states.unique_keys_def
        severities.unique_keys_def probes.unique_keys_def empty_world_def)
  from bootstrap_idempotent [OF 1 this 2] 1 2 show ?thesis by auto
qed

end
