(* ===== verification/ViewBase.thy ===== *)
theory ViewBase
  imports Rbac
begin

text \<open>
  What every view does before its own code: the permission classes of \<open>PermissionMixin\<close>, the
  object lookup of a DRF viewset, and the mapping of exceptions to RFC 7807 problem documents
  (\<open>core/exceptions.py\<close>).
\<close>

section \<open>Dispatch\<close>

text \<open>\<open>initial\<close>: 401 without a user, 403 when a permission class refuses.\<close>

definition require_permission ::
  "world \<Rightarrow> (string \<times> string) list \<Rightarrow> string \<Rightarrow> request \<Rightarrow> uuid option \<Rightarrow> user result" where
  "require_permission w permission_map action rq obj =
     (case req_user rq of
        None \<Rightarrow> Raise (ApiError 401 ''Authentication credentials were not provided.'')
      | Some u \<Rightarrow>
          (if check_permissions w permission_map action rq obj then Ok u
           else PermissionDenied ''You do not have permission to perform this action.''))"

text \<open>\<open>get_object\<close>: 404 outside the queryset, then the object-level permission check.\<close>

definition get_object ::
  "world \<Rightarrow> (string \<times> string) list \<Rightarrow> string \<Rightarrow> request \<Rightarrow> ('r \<Rightarrow> uuid) \<Rightarrow> 'r list \<Rightarrow> uuid \<Rightarrow> 'r result" where
  "get_object w permission_map action rq key qs pk =
     bind_result (get_or_404 (find (\<lambda>r. key r = pk) qs)) (\<lambda>r.
     bind_result (require_permission w permission_map action rq (Some pk)) (\<lambda>_. Ok r))"

definition require_project :: "request \<Rightarrow> project result" where
  "require_project rq =
     (case req_project rq of
        None \<Rightarrow> ValidationError ''No project context found. Send the X-Project-Id header (or X-Tenant-Id to use the default project).''
      | Some p \<Rightarrow> Ok p)"

lemma require_permission_Ok_iff:
  "require_permission w pm a rq obj = Ok u \<longleftrightarrow> req_user rq = Some u \<and> check_permissions w pm a rq obj"
  by (auto simp: require_permission_def split: option.splits)

lemma require_project_Ok_iff: "require_project rq = Ok p \<longleftrightarrow> req_project rq = Some p"
  by (auto simp: require_project_def split: option.splits)

lemma get_object_Ok:
  "get_object w pm a rq key qs pk = Ok r \<Longrightarrow>
     r \<in> set qs \<and> key r = pk \<and> check_permissions w pm a rq (Some pk)"
  by (auto simp: get_object_def bind_result_Inr_iff get_or_404_def require_permission_Ok_iff
      dest: find_SomeD split: option.splits)

text \<open>
  A field of a partial payload: given, or as it was. \<open>required\<close>: a field a complete payload must
  have (a partial one need not); the serializer refuses the payload without it.
\<close>

definition given :: "'a option \<Rightarrow> 'a \<Rightarrow> 'a" where
  "given x old = (case x of Some v \<Rightarrow> v | None \<Rightarrow> old)"

definition required :: "bool \<Rightarrow> bool list \<Rightarrow> unit result" where
  "required partial present = (if partial \<or> list_all id present then Ok () else ValidationError ''This field is required.'')"

text \<open>\<open>PrimaryKeyRelatedField\<close>: a key that is given must be a row's.\<close>

definition valid_pk :: "('r \<Rightarrow> uuid) \<Rightarrow> 'r list \<Rightarrow> uuid option \<Rightarrow> unit result" where
  "valid_pk key rows pk =
     (case pk of
        None \<Rightarrow> Ok ()
      | Some i \<Rightarrow> (if exists_row (\<lambda>r. key r = i) rows then Ok () else ValidationError ''Invalid pk: object does not exist.''))"

text \<open>\<open>update(request, partial)\<close> and \<open>partial_update\<close> of a viewset: the name of the action, the lookup.\<close>

definition put_action :: "bool \<Rightarrow> string" where
  "put_action partial = (if partial then ''partial_update'' else ''update'')"

definition viewset_get ::
  "world \<Rightarrow> (string \<times> string) list \<Rightarrow> string \<Rightarrow> request \<Rightarrow> ('r \<Rightarrow> uuid) \<Rightarrow> 'r list \<Rightarrow> uuid \<Rightarrow> 'r result" where
  "viewset_get w permission_map action rq key qs pk =
     bind_result (require_permission w permission_map action rq None) (\<lambda>_.
       get_object w permission_map action rq key qs pk)"

text \<open>The rest of a handler, unless an exception ends it: the world is then as it was.\<close>

definition proceed :: "world \<Rightarrow> 'a result \<Rightarrow> ('a \<Rightarrow> 'b result \<times> world) \<Rightarrow> 'b result \<times> world" where
  "proceed w r f = (case r of Inl x \<Rightarrow> (Raise x, w) | Inr a \<Rightarrow> f a)"

lemma proceed_simps [simp]: "proceed w (Inl x) f = (Raise x, w)" "proceed w (Ok a) f = f a"
  by (simp_all add: proceed_def)

lemma required_Ok_iff: "required partial present = Ok u \<longleftrightarrow> partial \<or> list_all id present"
  by (simp add: required_def)

lemma valid_pk_Ok_iff: "valid_pk key rows pk = Ok u \<longleftrightarrow> (\<forall>i. pk = Some i \<longrightarrow> exists_row (\<lambda>r. key r = i) rows)"
  by (simp add: valid_pk_def split: option.splits)

lemma viewset_get_Ok:
  "viewset_get w pm a rq key qs pk = Ok r \<Longrightarrow>
     r \<in> set qs \<and> key r = pk \<and> check_permissions w pm a rq (Some pk)"
  by (auto simp: viewset_get_def bind_result_Inr_iff dest: get_object_Ok)

lemma given_simps [simp]: "given (Some v) old = v" "given None old = old"
  by (simp_all add: given_def)

section \<open>Problem documents\<close>

definition status_to_type :: "nat \<Rightarrow> string" where
  "status_to_type s =
     (case map_of
        [(400, ''validation_error''), (401, ''authentication_failed''), (403, ''permission_denied''),
         (404, ''not_found''), (405, ''method_not_allowed''), (409, ''conflict''),
         (429, ''rate_limit_exceeded''), (500, ''internal_error'')] s of
        Some t \<Rightarrow> t | None \<Rightarrow> ''error'')"

definition status_to_title :: "nat \<Rightarrow> string" where
  "status_to_title s =
     (case map_of
        [(400, ''Validation Failed''), (401, ''Authentication Failed''), (403, ''Permission Denied''),
         (404, ''Not Found''), (405, ''Method Not Allowed''), (409, ''Conflict''),
         (429, ''Too Many Requests''), (500, ''Internal Server Error'')] s of
        Some t \<Rightarrow> t | None \<Rightarrow> ''Error'')"

text \<open>The detail of a validation error: a leaf with its code, a list, a dict of fields.\<close>

datatype detail =
    DLeaf string "string option"
  | DList "detail list"
  | DDict "(string \<times> detail) list"

record error_entry =
  ee_message :: string
  ee_code :: string
  ee_field :: "string option"

fun flatten_errors :: "detail \<Rightarrow> string option \<Rightarrow> error_entry list" where
  "flatten_errors (DList items) field = concat (map (\<lambda>item. flatten_errors item field) items)"
| "flatten_errors (DDict kvs) field = concat (map (\<lambda>kv. flatten_errors (snd kv) (Some (fst kv))) kvs)"
| "flatten_errors (DLeaf msg code) field =
     [\<lparr>ee_message = msg,
       ee_code = (case code of Some c \<Rightarrow> c | None \<Rightarrow> ''invalid''),
       ee_field = (case field of
                     Some f \<Rightarrow> (if f \<noteq> [] \<and> f \<noteq> ''non_field_errors'' then Some f else None)
                   | None \<Rightarrow> None)\<rparr>]"

text \<open>The exceptions the handler tells apart.\<close>

datatype api_exception =
    ExValidation detail
  | ExNotAuthenticated
  | ExAuthenticationFailed string "string option"
  | ExPermissionDenied
  | ExNotFound
  | ExMethodNotAllowed "string option"
  | ExThrottled "nat option"
  | ExOther nat json
  | ExUnhandled

fun exception_status :: "api_exception \<Rightarrow> nat" where
  "exception_status (ExValidation _) = 400"
| "exception_status ExNotAuthenticated = 401"
| "exception_status (ExAuthenticationFailed _ _) = 401"
| "exception_status ExPermissionDenied = 403"
| "exception_status ExNotFound = 404"
| "exception_status (ExMethodNotAllowed _) = 405"
| "exception_status (ExThrottled _) = 429"
| "exception_status (ExOther s _) = s"
| "exception_status ExUnhandled = 500"

record problem_document =
  pd_type :: string
  pd_title :: string
  pd_status :: nat
  pd_instance :: string
  pd_detail :: string
  pd_errors :: "error_entry list option"
  pd_code :: "string option"
  pd_retry_after :: "nat option"

text \<open>The chain of \<open>isinstance\<close> tests: detail, and what else the exception adds.\<close>

fun problem_fields :: "api_exception \<Rightarrow> problem_document \<Rightarrow> problem_document" where
  "problem_fields (ExValidation d) body =
     body\<lparr>pd_detail := ''One or more fields are invalid.'', pd_errors := Some (flatten_errors d None)\<rparr>"
| "problem_fields ExNotAuthenticated body =
     body\<lparr>pd_detail := ''Authentication credentials were not provided.''\<rparr>"
| "problem_fields (ExAuthenticationFailed d code) body = body\<lparr>pd_detail := d, pd_code := code\<rparr>"
| "problem_fields ExPermissionDenied body =
     body\<lparr>pd_detail := ''You do not have permission to perform this action.''\<rparr>"
| "problem_fields ExNotFound body = body\<lparr>pd_detail := ''The requested resource was not found.''\<rparr>"
| "problem_fields (ExMethodNotAllowed m) body =
     body\<lparr>pd_detail := ''Method '' @ [CHR 0x27]
            @ (case m of Some x \<Rightarrow> x | None \<Rightarrow> ''unknown'') @ [CHR 0x27] @ '' not allowed.''\<rparr>"
| "problem_fields (ExThrottled wait) body =
     (case wait of
        Some n \<Rightarrow>
          (if n = 0
           then body\<lparr>pd_detail := ''Request was throttled.'', pd_type := ''rate_limit_exceeded''\<rparr>
           else body\<lparr>pd_detail := ''Request was throttled. Expected available in ''
                                     @ string_of_nat n @ ''s.'',
                     pd_retry_after := Some n, pd_type := ''rate_limit_exceeded''\<rparr>)
      | None \<Rightarrow> body\<lparr>pd_detail := ''Request was throttled.'', pd_type := ''rate_limit_exceeded''\<rparr>)"
| "problem_fields (ExOther s data) body =
     body\<lparr>pd_detail :=
       (case data of
          JObj kvs \<Rightarrow> (case map_of kvs ''detail'' of
                          Some v \<Rightarrow> py_str v | None \<Rightarrow> ''An error occurred.'')
        | JList xs \<Rightarrow> (case xs of x # _ \<Rightarrow> py_str x | [] \<Rightarrow> ''An error occurred.'')
        | _ \<Rightarrow> ''An error occurred.'')\<rparr>"
| "problem_fields ExUnhandled body = body"

text \<open>
  \<open>None\<close> is Django's own 500 page. \<open>path\<close> is \<open>None\<close> when the context has no request.
\<close>

definition rfc7807_handler :: "api_exception \<Rightarrow> string option \<Rightarrow> problem_document option" where
  "rfc7807_handler exc path =
     (if exc = ExUnhandled then None
      else
        (let http_status = exception_status exc;
             body = \<lparr>pd_type = status_to_type http_status, pd_title = status_to_title http_status,
                     pd_status = http_status,
                     pd_instance = (case path of Some p \<Rightarrow> p | None \<Rightarrow> ''unknown''),
                     pd_detail = [], pd_errors = None, pd_code = None, pd_retry_after = None\<rparr>
         in Some (problem_fields exc body)))"

text \<open>What a validation error says: its leaves, each under the innermost field it is nested in.\<close>

fun leaves :: "detail \<Rightarrow> (string \<times> string option) list" where
  "leaves (DLeaf msg code) = [(msg, code)]"
| "leaves (DList items) = concat (map leaves items)"
| "leaves (DDict kvs) = concat (map (\<lambda>kv. leaves (snd kv)) kvs)"

lemma flatten_leaves:
  "map (\<lambda>x. (ee_message x, ee_code x)) (flatten_errors d f) =
     map (\<lambda>(m, c). (m, case c of Some c \<Rightarrow> c | None \<Rightarrow> ''invalid'')) (leaves d)"
  by (induction d f rule: flatten_errors.induct) (auto simp: map_concat comp_def intro!: arg_cong [of _ _ concat])

lemma handler_none: "rfc7807_handler exc path = None \<longleftrightarrow> exc = ExUnhandled"
  by (simp add: rfc7807_handler_def Let_def)

lemma problem_fields_status [simp]: "pd_status (problem_fields exc body) = pd_status body"
  by (cases exc) (auto split: option.splits)

lemma handler_status: "rfc7807_handler exc path = Some doc \<Longrightarrow> pd_status doc = exception_status exc"
  unfolding rfc7807_handler_def Let_def by (auto split: if_splits)

lemma handler_errors:
  "rfc7807_handler (ExValidation d) path = Some doc \<Longrightarrow> pd_errors doc = Some (flatten_errors d None)"
  by (auto simp: rfc7807_handler_def Let_def)

text \<open>
  The problem document of a validation error loses nothing: its \<open>errors\<close> list holds one
  entry per leaf of the DRF error detail, in order, with the leaf's message and code, however
  deeply lists and dicts are nested; every handled exception keeps its HTTP status, and only an
  unhandled one has no document.
\<close>

theorem problem_document_complete:
  "(rfc7807_handler exc path = None \<longleftrightarrow> exc = ExUnhandled) \<and>
   (\<forall>doc. rfc7807_handler exc path = Some doc \<longrightarrow> pd_status doc = exception_status exc) \<and>
   (\<forall>d doc. exc = ExValidation d \<longrightarrow> rfc7807_handler exc path = Some doc \<longrightarrow>
      map (\<lambda>x. (ee_message x, ee_code x)) (the (pd_errors doc)) =
        map (\<lambda>(m, c). (m, case c of Some c \<Rightarrow> c | None \<Rightarrow> ''invalid'')) (leaves d))"
  by (intro conjI allI impI)
    (simp_all only: handler_none handler_status handler_errors option.sel flatten_leaves)

theorem problem_document_complete_witness:
  "let d = DDict [(''email'', DList [DLeaf ''Enter a valid email.'' (Some ''invalid'')]),
                  (''non_field_errors'', DLeaf ''No.'' None)]
   in \<exists>doc. rfc7807_handler (ExValidation d) (Some ''/x'') = Some doc \<and> pd_status doc = 400 \<and>
        length (the (pd_errors doc)) = 2"
proof -
  let ?d = "DDict [(''email'', DList [DLeaf ''Enter a valid email.'' (Some ''invalid'')]),
                  (''non_field_errors'', DLeaf ''No.'' None)]"
  obtain doc where doc: "rfc7807_handler (ExValidation ?d) (Some ''/x'') = Some doc"
    by (simp add: rfc7807_handler_def Let_def)
  note facts = problem_document_complete [of "ExValidation ?d" "Some ''/x''"]
  from facts doc have "pd_status doc = 400" by simp
  moreover have "length (the (pd_errors doc)) = 2"
  proof -
    from facts doc have "length (map (\<lambda>x. (ee_message x, ee_code x)) (the (pd_errors doc))) =
        length (map (\<lambda>(m, c). (m, case c of Some c \<Rightarrow> c | None \<Rightarrow> ''invalid'')) (leaves ?d))"
      by simp
    then show ?thesis by simp
  qed
  ultimately show ?thesis using doc by (simp add: Let_def)
qed

end
