(* ===== verification/RbacViews.thy ===== *)
theory RbacViews
  imports ViewBase
begin

text \<open>
  \<open>apps/rbac/views.py\<close> and \<open>serializers.py\<close>: roles, teams with their members, API keys and
  resource policies over HTTP.
\<close>

section \<open>Roles\<close>

definition role_permission_map :: "(string \<times> string) list" where
  "role_permission_map =
     [(''list'', ''role:read''), (''retrieve'', ''role:read''), (''create'', ''role:create''),
      (''update'', ''role:update''), (''partial_update'', ''role:update''),
      (''destroy'', ''role:delete'')]"

definition role_queryset :: "world \<Rightarrow> request \<Rightarrow> role list" where
  "role_queryset w rq =
     (case req_project rq of
        None \<Rightarrow> []
      | Some p \<Rightarrow> order_by ro_name (filter (\<lambda>r. ro_project r = pj_id p) (w_roles w)))"

text \<open>\<open>validate_permissions\<close>: the first offending entry decides the error.\<close>

fun validate_permissions :: "string list \<Rightarrow> unit result" where
  "validate_permissions [] = Ok ()"
| "validate_permissions (perm # ps) =
     (if perm \<in> {''*'', ''*:read'', ''*:create'', ''*:update'', ''*:delete''}
      then validate_permissions ps
      else
        (let parts = split_on (CHR '':'') perm
         in if length parts \<noteq> 2 then ValidationError (''Invalid permission format: '' @ perm)
            else if parts ! 1 \<noteq> ''*'' \<and> perm \<notin> set ALL_PERMISSIONS
            then ValidationError (''Unknown permission: '' @ perm)
            else validate_permissions ps))"

text \<open>A row violating \<open>unique_role_name_per_project\<close> is refused by the database.\<close>

definition save_new_role :: "env \<Rightarrow> role \<Rightarrow> world \<Rightarrow> role result \<times> world" where
  "save_new_role e r w =
     (if exists_row (\<lambda>x. ro_project x = ro_project r \<and> ro_name x = ro_name r) (w_roles w)
      then (Raise (IntegrityError ''unique_role_name_per_project''), w)
      else (Ok r, on_role_save e r True (w\<lparr>w_roles := w_roles w @ [r], w_next := Suc (w_next w)\<rparr>)))"

definition role_create ::
  "env \<Rightarrow> request \<Rightarrow> string \<Rightarrow> string \<Rightarrow> string list \<Rightarrow> world \<Rightarrow> role result \<times> world" where
  "role_create e rq name description permissions w =
     (case require_permission w role_permission_map ''create'' rq None of
        Inl x \<Rightarrow> (Raise x, w)
      | Inr _ \<Rightarrow>
          (case validate_permissions permissions of
             Inl x \<Rightarrow> (Raise x, w)
           | Inr _ \<Rightarrow>
               (case require_project rq of
                  Inl x \<Rightarrow> (Raise x, w)
                | Inr p \<Rightarrow>
                    save_new_role e
                      \<lparr>ro_id = w_next w, ro_tenant = pj_tenant p, ro_project = pj_id p,
                       ro_name = name, ro_description = description, ro_is_system = False,
                       ro_permissions = permissions, ro_created_at = e_now e,
                       ro_updated_at = e_now e\<rparr> w)))"

text \<open>\<open>update\<close>: field validation first, then \<open>validate\<close> refuses a system role.\<close>

definition role_update ::
  "env \<Rightarrow> request \<Rightarrow> uuid \<Rightarrow> string \<Rightarrow> string \<Rightarrow> string list \<Rightarrow> world \<Rightarrow> role result \<times> world" where
  "role_update e rq pk name description permissions w =
     (case require_permission w role_permission_map ''update'' rq None of
        Inl x \<Rightarrow> (Raise x, w)
      | Inr _ \<Rightarrow>
          (case get_object w role_permission_map ''update'' rq ro_id (role_queryset w rq) pk of
             Inl x \<Rightarrow> (Raise x, w)
           | Inr r \<Rightarrow>
               (case validate_permissions permissions of
                  Inl x \<Rightarrow> (Raise x, w)
                | Inr _ \<Rightarrow>
                    if ro_is_system r
                    then (ValidationError ''System roles cannot be modified. Create a custom role instead.'', w)
                    else if exists_row (\<lambda>x. ro_project x = ro_project r \<and> ro_name x = name \<and> ro_id x \<noteq> ro_id r)
                              (w_roles w)
                    then (Raise (IntegrityError ''unique_role_name_per_project''), w)
                    else
                      (let r' = r\<lparr>ro_name := name, ro_description := description,
                                  ro_permissions := permissions, ro_updated_at := e_now e\<rparr>
                       in (Ok r', on_role_save e r' False
                             (w\<lparr>w_roles := update_where (\<lambda>x. ro_id x = ro_id r) (\<lambda>_. r') (w_roles w)\<rparr>))))))"

text \<open>
  \<open>role.delete()\<close>: memberships protect their role; its policies go with it, an SSO
  configuration forgets it as default.
\<close>

definition delete_role :: "env \<Rightarrow> role \<Rightarrow> world \<Rightarrow> unit result \<times> world" where
  "delete_role e r w =
     (if exists_row (\<lambda>m. mb_role m = ro_id r) (w_team_memberships w)
      then (Raise (ProtectedError ''team_memberships''), w)
      else
        (Ok (), on_role_delete e r
          (w\<lparr>w_roles := delete_where (\<lambda>x. ro_id x = ro_id r) (w_roles w),
             w_resource_policies := delete_where (\<lambda>p. rp_role p = ro_id r) (w_resource_policies w),
             w_sso_configs := update_where (\<lambda>c. sc_default_role c = Some (ro_id r))
                                (\<lambda>c. c\<lparr>sc_default_role := None\<rparr>) (w_sso_configs w)\<rparr>)))"

definition role_destroy :: "env \<Rightarrow> request \<Rightarrow> uuid \<Rightarrow> world \<Rightarrow> response result \<times> world" where
  "role_destroy e rq pk w =
     (case require_permission w role_permission_map ''destroy'' rq None of
        Inl x \<Rightarrow> (Raise x, w)
      | Inr _ \<Rightarrow>
          (case get_object w role_permission_map ''destroy'' rq ro_id (role_queryset w rq) pk of
             Inl x \<Rightarrow> (Raise x, w)
           | Inr role \<Rightarrow>
               if ro_is_system role
               then (Ok (problem ''conflict'' ''Conflict'' 409 ''System roles cannot be deleted.''), w)
               else (case delete_role e role w of
                       (Inl x, w') \<Rightarrow> (Raise x, w')
                     | (Inr _, w') \<Rightarrow> (Ok (Response 204 JNull), w'))))"

section \<open>Teams\<close>

definition team_permission_map :: "(string \<times> string) list" where
  "team_permission_map =
     [(''list'', ''team:read''), (''retrieve'', ''team:read''), (''create'', ''team:create''),
      (''update'', ''team:update''), (''partial_update'', ''team:update''),
      (''destroy'', ''team:delete''), (''members'', ''team:read''),
      (''remove_member'', ''team:manage_members'')]"

definition team_queryset :: "world \<Rightarrow> request \<Rightarrow> team list" where
  "team_queryset w rq =
     (case req_project rq of
        None \<Rightarrow> []
      | Some p \<Rightarrow> order_by tm_name (filter (\<lambda>t. tm_project t = pj_id p) (w_teams w)))"

text \<open>The POST branch of \<open>members\<close>: a check of its own on the caller's team roles.\<close>

definition add_team_member ::
  "env \<Rightarrow> request \<Rightarrow> uuid \<Rightarrow> string \<Rightarrow> uuid \<Rightarrow> world \<Rightarrow> response result \<times> world" where
  "add_team_member e rq pk email role_id w =
     (case require_permission w team_permission_map ''members'' rq None of
        Inl x \<Rightarrow> (Raise x, w)
      | Inr u \<Rightarrow>
          (case get_object w team_permission_map ''members'' rq tm_id (team_queryset w rq) pk of
             Inl x \<Rightarrow> (Raise x, w)
           | Inr team \<Rightarrow>
               if \<not> usr_is_superuser u \<and>
                  (case req_project rq of
                     Some p \<Rightarrow> \<not> has_permission (get_user_permissions w u (pj_id p)) ''team:manage_members''
                   | None \<Rightarrow> False)
               then (PermissionDenied [], w)
               else
                 (case get_or_404 (find (\<lambda>x. lower (usr_email x) = lower email \<and> usr_is_active x) (w_users w)) of
                    Inl x \<Rightarrow> (Raise x, w)
                  | Inr user \<Rightarrow>
                      (case get_or_404 (find (\<lambda>r. ro_id r = role_id \<and> ro_project r = tm_project team)
                               (w_roles w)) of
                         Inl x \<Rightarrow> (Raise x, w)
                       | Inr role \<Rightarrow>
                           if exists_row (\<lambda>m. mb_team m = tm_id team \<and> mb_user m = usr_id user)
                                (w_team_memberships w)
                           then (Ok (problem ''conflict'' ''Conflict'' 409
                                       ''User is already a member of this team.''), w)
                           else
                             (Ok (Response 201 (JUuid (w_next w))),
                              w\<lparr>w_team_memberships := w_team_memberships w @
                                  [\<lparr>mb_id = w_next w, mb_team = tm_id team, mb_user = usr_id user,
                                    mb_role = ro_id role, mb_granted_by = Some (usr_id u),
                                    mb_created_at = e_now e\<rparr>],
                                w_next := Suc (w_next w)\<rparr>)))))"

definition remove_team_member ::
  "request \<Rightarrow> uuid \<Rightarrow> uuid \<Rightarrow> world \<Rightarrow> response result \<times> world" where
  "remove_team_member rq pk user_id w =
     (case require_permission w team_permission_map ''remove_member'' rq None of
        Inl x \<Rightarrow> (Raise x, w)
      | Inr _ \<Rightarrow>
          (case get_object w team_permission_map ''remove_member'' rq tm_id (team_queryset w rq) pk of
             Inl x \<Rightarrow> (Raise x, w)
           | Inr team \<Rightarrow>
               (case get_or_404 (find (\<lambda>m. mb_team m = tm_id team \<and> mb_user m = user_id)
                        (w_team_memberships w)) of
                  Inl x \<Rightarrow> (Raise x, w)
                | Inr m \<Rightarrow>
                    (Ok (Response 204 JNull),
                     w\<lparr>w_team_memberships :=
                         delete_where (\<lambda>x. mb_id x = mb_id m) (w_team_memberships w)\<rparr>))))"

section \<open>API keys\<close>

definition api_key_permission_map :: "(string \<times> string) list" where
  "api_key_permission_map =
     [(''list'', ''api_key:read''), (''create'', ''api_key:create''), (''destroy'', ''api_key:revoke'')]"

definition api_key_queryset :: "world \<Rightarrow> request \<Rightarrow> api_key list" where
  "api_key_queryset w rq =
     (case req_project rq of
        None \<Rightarrow> []
      | Some p \<Rightarrow>
          order_by_desc ak_created_at
            (filter (\<lambda>k. ak_project k = pj_id p \<and> ak_revoked_at k = None) (w_api_keys w)))"

text \<open>The permissions of the new key are taken as they are given.\<close>

definition api_key_create ::
  "env \<Rightarrow> request \<Rightarrow> string \<Rightarrow> string list \<Rightarrow> datetime option \<Rightarrow> world \<Rightarrow>
     (api_key \<times> string) result \<times> world" where
  "api_key_create e rq name permissions expires_at w =
     (case require_permission w api_key_permission_map ''create'' rq None of
        Inl x \<Rightarrow> (Raise x, w)
      | Inr u \<Rightarrow>
          (case require_project rq of
             Inl x \<Rightarrow> (Raise x, w)
           | Inr p \<Rightarrow>
               (case create_key e (pj_tenant p) (pj_id p) name permissions (Some (usr_id u)) expires_at w of
                  (r, w') \<Rightarrow> (Ok r, w'))))"

definition api_key_destroy :: "env \<Rightarrow> request \<Rightarrow> uuid \<Rightarrow> world \<Rightarrow> response result \<times> world" where
  "api_key_destroy e rq pk w =
     (case require_permission w api_key_permission_map ''destroy'' rq None of
        Inl x \<Rightarrow> (Raise x, w)
      | Inr _ \<Rightarrow>
          (case get_or_404 (find (\<lambda>k. ak_id k = pk) (api_key_queryset w rq)) of
             Inl x \<Rightarrow> (Raise x, w)
           | Inr k \<Rightarrow>
               (let k' = k\<lparr>ak_revoked_at := Some (e_now e)\<rparr>
                in (Ok (Response 204 JNull),
                    on_apikey_save e k' False
                      (w\<lparr>w_api_keys := update_where (\<lambda>x. ak_id x = pk) (\<lambda>_. k') (w_api_keys w)\<rparr>)))))"

section \<open>Resource policies\<close>

definition resource_policy_permission_map :: "(string \<times> string) list" where
  "resource_policy_permission_map =
     [(''list'', ''rbac:read''), (''retrieve'', ''rbac:read''), (''create'', ''rbac:manage''),
      (''update'', ''rbac:manage''), (''partial_update'', ''rbac:manage''),
      (''destroy'', ''rbac:manage'')]"

definition resource_policy_queryset ::
  "world \<Rightarrow> request \<Rightarrow> string option \<Rightarrow> uuid option \<Rightarrow> resource_policy list" where
  "resource_policy_queryset w rq rt rid =
     (case req_project rq of
        None \<Rightarrow> []
      | Some p \<Rightarrow>
          (let qs = filter (\<lambda>x. rp_project x = pj_id p) (w_resource_policies w);
               qs1 = (case rt of
                        Some t \<Rightarrow> (if t \<noteq> [] then filter (\<lambda>x. rp_resource_type x = t) qs else qs)
                      | None \<Rightarrow> qs);
               qs2 = (case rid of Some i \<Rightarrow> filter (\<lambda>x. rp_resource_id x = Some i) qs1 | None \<Rightarrow> qs1)
           in order_by rp_resource_type (order_by_desc rp_created_at qs2)))"

section \<open>Guards\<close>

lemma on_role_tables [simp]:
  "w_roles (on_role_save e r c w) = w_roles w"
  "w_roles (on_role_delete e r w) = w_roles w"
  "w_team_memberships (on_role_delete e r w) = w_team_memberships w"
  using on_role_save_audited [of e r c w]
    signal_record_audited [of e "ro_tenant r" "''role.delete''" "''Role''" "ro_id r"
      "JObj [(''name'', JStr (ro_name r))]" JNull "Some (ro_project r)" w]
  by (auto simp: on_role_delete_def audited_def)

text \<open>
  The system roles of a project cannot be lost or altered through the API: neither
  \<open>update\<close> nor \<open>destroy\<close>, by whoever is allowed to call them, changes a system role of the
  table, and a role some team membership uses is never deleted.
\<close>

theorem system_roles_protected:
  assumes "distinct (map ro_id (w_roles w))" "r \<in> set (w_roles w)"
    and "ro_is_system r \<or> (\<exists>m \<in> set (w_team_memberships w). mb_role m = ro_id r)"
  shows "r \<in> set (w_roles (snd (role_destroy e rq pk w))) \<and>
    (ro_is_system r \<longrightarrow> r \<in> set (w_roles (snd (role_update e rq pk n d ps w))))"
proof -
  have same: "x = r" if "x \<in> set (w_roles w)" "ro_id x = ro_id r" for x
    using that assms(1,2) by (auto simp: distinct_map inj_on_def)
  have sub: "x \<in> set (role_queryset w rq) \<Longrightarrow> x \<in> set (w_roles w)" for x
    by (auto simp: role_queryset_def split: option.splits)
  have del: "r \<in> set (w_roles (snd (delete_role e x w)))" if "x \<in> set (w_roles w)" "\<not> ro_is_system x" for x
  proof (cases "\<exists>m \<in> set (w_team_memberships w). mb_role m = ro_id x")
    case True
    with assms(2) show ?thesis by (simp add: delete_role_def)
  next
    case False
    have "ro_id r \<noteq> ro_id x"
    proof
      assume "ro_id r = ro_id x"
      with same [OF that(1)] have "x = r" by simp
      with assms(3) that(2) False show False by blast
    qed
    with False assms(2) show ?thesis by (simp add: delete_role_def)
  qed
  have "r \<in> set (w_roles (snd (role_destroy e rq pk w)))"
  proof (cases "get_object w role_permission_map ''destroy'' rq ro_id (role_queryset w rq) pk")
    case (Inl x)
    with assms(2) show ?thesis by (simp add: role_destroy_def split: sum.splits)
  next
    case (Inr x)
    with sub have "x \<in> set (w_roles w)" by (blast dest: get_object_Ok)
    with Inr assms(2) del [of x] show ?thesis
      by (cases "delete_role e x w") (simp add: role_destroy_def split: sum.splits)
  qed
  moreover have "r \<in> set (w_roles (snd (role_update e rq pk n d ps w)))" if "ro_is_system r"
  proof (cases "get_object w role_permission_map ''update'' rq ro_id (role_queryset w rq) pk")
    case (Inl x)
    with assms(2) show ?thesis by (simp add: role_update_def split: sum.splits)
  next
    case (Inr x)
    with sub have "x \<in> set (w_roles w)" by (blast dest: get_object_Ok)
    with same that have "\<not> ro_is_system x \<Longrightarrow> ro_id r \<noteq> ro_id x" by metis
    then have "\<not> ro_is_system x \<Longrightarrow> r \<in> set (update_where (\<lambda>y. ro_id y = ro_id x) f (w_roles w))" for f
      using assms(2) by (auto simp: in_update_where_iff)
    with Inr assms(2) show ?thesis by (simp add: role_update_def Let_def split: sum.splits)
  qed
  ultimately show ?thesis by blast
qed

theorem system_roles_protected_witness:
  "let r = \<lparr>ro_id = 3, ro_tenant = 1, ro_project = 2, ro_name = ''admin'', ro_description = [],
            ro_is_system = True, ro_permissions = [''*''], ro_created_at = 0, ro_updated_at = 0\<rparr>
   in r \<in> set (w_roles (snd (role_destroy sample_env
        (sample_request\<lparr>req_user := Some (sample_user\<lparr>usr_is_superuser := True\<rparr>)\<rparr>) 3
        (empty_world\<lparr>w_roles := [r]\<rparr>))))"
  unfolding Let_def by (rule system_roles_protected [THEN conjunct1]) simp_all

text \<open>
  Creating an API key never compares the requested permissions with those of its creator:
  whoever may create keys gets exactly the permissions asked for, \<open>*\<close> included, and the stored
  row holds the hash of the key, not the key.
\<close>

theorem api_key_create_unbounded:
  assumes "req_user rq = Some u" "req_project rq = Some p"
    and "check_permissions w api_key_permission_map ''create'' rq None"
  shows "\<exists>k raw w'. api_key_create e rq name perms exp w = (Ok (k, raw), w') \<and>
    w_api_keys w' = w_api_keys w @ [k] \<and> ak_permissions k = perms \<and> ak_project k = pj_id p \<and>
    ak_key_hash k = e_sha256 e raw \<and> ak_key_prefix k = take 12 raw \<and> api_key_is_active (e_now e)
      (k\<lparr>ak_expires_at := None\<rparr>)"
proof -
  have keys: "w_api_keys (on_apikey_save e k c v) = w_api_keys v" for k c v
    using on_apikey_save_audited [of e k c v] by (auto simp: audited_def)
  show ?thesis
    using assms
    by (simp add: api_key_create_def require_permission_def require_project_def create_key_def Let_def
        keys api_key_is_active_def)
qed

theorem api_key_create_unbounded_witness:
  "\<exists>k raw w'. api_key_create sample_env sample_request ''ci'' [''*'']  None
      (empty_world\<lparr>w_teams := [\<lparr>tm_id = 20, tm_tenant = 1, tm_project = 2, tm_name = ''SRE'',
                     tm_description = [], tm_created_at = 0, tm_updated_at = 0\<rparr>],
         w_roles := [\<lparr>ro_id = 30, ro_tenant = 1, ro_project = 2, ro_name = ''ops'',
                      ro_description = [], ro_is_system = False,
                      ro_permissions = [''api_key:create''], ro_created_at = 0, ro_updated_at = 0\<rparr>],
         w_team_memberships := [\<lparr>mb_id = 21, mb_team = 20, mb_user = 5, mb_role = 30,
                      mb_granted_by = None, mb_created_at = 0\<rparr>]\<rparr>) = (Ok (k, raw), w') \<and>
     ak_permissions k = [''*'']"
  (is "\<exists>k raw w'. api_key_create _ _ _ _ _ ?w = _ \<and> _")
proof -
  have "check_permissions ?w api_key_permission_map ''create'' sample_request None"
    by (simp add: check_permissions_def api_key_permission_map_def evaluate_def resource_type_of_def
        check_resource_policy_def project_memberships_def team_of_def empty_world_def
        get_request_permissions_def get_user_permissions_def role_permissions_of_def role_of_def
        has_permission_def Let_def)
  from api_key_create_unbounded [OF _ _ this, of sample_user sample_project sample_env "''ci''"
      "[''*'']" None]
  show ?thesis by auto
qed

end
