(* ===== verification/Incidents.thy ===== *)
theory Incidents
  imports Webhooks Rbac
begin

text \<open>
  \<open>apps/incidents/services\<close>: the lifecycle of an incident (acknowledge, resolve, assign, notes,
  timeline), workflow rules, and escalation policies. An incident is handled as the in-memory
  instance next to the table row \<open>save(update_fields=...)\<close> writes back; a service returns the
  updated instance (or the exception it raises) and the world.
\<close>

section \<open>Serialization and events\<close>

definition escalation_state_of :: "world \<Rightarrow> uuid \<Rightarrow> escalation_state option" where
  "escalation_state_of w i = find (\<lambda>s. et_incident s = i) (w_esc_states w)"

definition escalation_state_json :: "world \<Rightarrow> uuid \<Rightarrow> json" where
  "escalation_state_json w i =
     (case escalation_state_of w i of
        None \<Rightarrow> JNull
      | Some s \<Rightarrow> JObj
          [(''policy'', JUuid (et_policy s)),
           (''policy_name'', JStr (case policy_of w (et_policy s) of Some p \<Rightarrow> ep_name p | None \<Rightarrow> [])),
           (''current_step_order'', JInt (int (et_current_step_order s))),
           (''last_escalated_at'', json_opt_time (et_last_escalated_at s)),
           (''completed'', JBool (et_completed s))])"

definition team_name_json :: "world \<Rightarrow> uuid option \<Rightarrow> json" where
  "team_name_json w t =
     (case t of None \<Rightarrow> JNull
      | Some i \<Rightarrow> (case team_of w i of Some x \<Rightarrow> JStr (tm_name x) | None \<Rightarrow> JNull))"

definition incident_is_resolved :: "world \<Rightarrow> incident \<Rightarrow> bool" where
  "incident_is_resolved w i = state_is_resolved w (ic_state i)"

text \<open>\<open>IncidentSerializer(incident).data\<close>, the fields in the serializer's order.\<close>

definition incident_json :: "world \<Rightarrow> incident \<Rightarrow> json" where
  "incident_json w i = JObj
     [(''id'', JUuid (ic_id i)), (''title'', JStr (ic_title i)),
      (''description'', JStr (ic_description i)),
      (''severity'', JUuid (ic_severity i)),
      (''severity_name'', JStr (severity_name_of w (ic_severity i))),
      (''state'', JUuid (ic_state i)), (''state_name'', JStr (state_name_of w (ic_state i))),
      (''is_resolved'', JBool (incident_is_resolved w i)),
      (''monitor'', json_opt_uuid (ic_monitor i)),
      (''team_id'', json_opt_uuid (ic_team i)), (''team_name'', team_name_json w (ic_team i)),
      (''assigned_to'', json_opt_uuid (ic_assigned_to i)),
      (''is_visible_on_status_page'', JBool (ic_is_visible_on_status_page i)),
      (''escalation_state'', escalation_state_json w (ic_id i)),
      (''triggered_at'', JTime (ic_triggered_at i)),
      (''acknowledged_at'', json_opt_time (ic_acknowledged_at i)),
      (''acknowledged_by'', json_opt_uuid (ic_acknowledged_by i)),
      (''resolved_at'', json_opt_time (ic_resolved_at i)),
      (''resolved_by'', json_opt_uuid (ic_resolved_by i)),
      (''created_at'', JTime (ic_created_at i)), (''updated_at'', JTime (ic_updated_at i))]"

text \<open>\<open>lifecycle._emit\<close>\<close>

definition emit_incident :: "env \<Rightarrow> string \<Rightarrow> incident \<Rightarrow> world \<Rightarrow> world" where
  "emit_incident e event_type i w =
     webhook_emit e (ic_tenant i) (ic_project i) event_type
       (JObj [(''incident'', incident_json w i)]) w"

text \<open>
  \<open>incident.save(update_fields=...)\<close>: \<open>put\<close> writes the named fields of the instance (and
  \<open>updated_at\<close>) into the row, then the \<open>post_save\<close> signal runs.
\<close>

definition save_incident :: "env \<Rightarrow> (incident \<Rightarrow> incident) \<Rightarrow> incident \<Rightarrow> world \<Rightarrow> world" where
  "save_incident e put i w =
     on_incident_save e i False
       (w\<lparr>w_incidents := update_where (\<lambda>r. ic_id r = ic_id i)
                           (\<lambda>r. put r\<lparr>ic_updated_at := ic_updated_at i\<rparr>) (w_incidents w)\<rparr>)"

section \<open>Assignment and notification\<close>

definition assign_incident :: "env \<Rightarrow> incident \<Rightarrow> uuid \<Rightarrow> world \<Rightarrow> incident \<times> world" where
  "assign_incident e i assignee w =
     (let i1 = i\<lparr>ic_assigned_to := Some assignee, ic_updated_at := e_now e\<rparr>;
          w1 = save_incident e (\<lambda>r. r\<lparr>ic_assigned_to := Some assignee\<rparr>) i1 w
      in (i1, emit_incident e ''incident.assigned'' i1 w1))"

text \<open>\<open>escalation._notify_user\<close>: an SMTP failure is only logged.\<close>

definition notify_user :: "env \<Rightarrow> incident \<Rightarrow> user \<Rightarrow> world \<Rightarrow> world" where
  "notify_user e i u w =
     (if e_email_host e = [] then w
      else if e_mail_ok e (usr_email u)
      then w\<lparr>w_outbox := w_outbox w @
             [Mail (usr_email u) (''[OneUptime] Escalation: '' @ ic_title i)
                (''Incident '' @ [CHR 0x27] @ ic_title i @ [CHR 0x27] @ '' requires attention.'' @ [CHR 0x0A]
                 @ ''Severity: '' @ severity_name_of w (ic_severity i) @ [CHR 0x0A]
                 @ ''Triggered at: '' @ string_of_int (ic_triggered_at i) @ [CHR 0x0A])]\<rparr>
      else w)"

section \<open>Workflow rules\<close>

text \<open>An id stored in JSON, as \<open>filter(id=...)\<close> takes it; what is no UUID raises.\<close>

definition uuid_of_json :: "json \<Rightarrow> uuid result" where
  "uuid_of_json v =
     (case v of
        JUuid u \<Rightarrow> Ok u
      | JInt i \<Rightarrow> (if 0 \<le> i then Ok (nat i) else Raise (ValueError ''not a valid UUID''))
      | JBool b \<Rightarrow> Ok (if b then 1 else 0)
      | JStr s \<Rightarrow> (if s \<noteq> [] \<and> list_all is_digit s then Ok (nat_of_digits s)
                    else Raise (ValueError ''not a valid UUID''))
      | _ \<Rightarrow> Raise (ValueError ''not a valid UUID''))"

definition str_opt_uuid :: "uuid option \<Rightarrow> string" where
  "str_opt_uuid x = (case x of None \<Rightarrow> ''None'' | Some u \<Rightarrow> string_of_nat u)"

definition conditions_match :: "world \<Rightarrow> workflow_rule \<Rightarrow> incident \<Rightarrow> bool result" where
  "conditions_match w rule i =
     bind_result (items_or_empty (wr_conditions rule)) (\<lambda>conditions.
       let severity_names = json_or (field conditions ''severity_names'') (field conditions ''severity'')
       in bind_result
            (if truthy severity_names
             then str_in_json (severity_name_of w (ic_severity i)) severity_names else Ok True)
            (\<lambda>severity_ok.
              if \<not> severity_ok then Ok False
              else
                (let monitor_id = field conditions ''monitor_id''
                 in if truthy monitor_id \<and> str_opt_uuid (ic_monitor i) \<noteq> py_str monitor_id
                    then Ok False else Ok True)))"

definition fire_webhook :: "env \<Rightarrow> incident \<Rightarrow> json \<Rightarrow> string \<Rightarrow> world \<Rightarrow> world" where
  "fire_webhook e i webhook_id rule_name w =
     (case uuid_of_json webhook_id of
        Inl _ \<Rightarrow> w
      | Inr h \<Rightarrow>
          (if \<not> exists_row (\<lambda>x. wh_id x = h \<and> wh_project x = ic_project i \<and> wh_is_active x) (w_webhooks w)
           then w
           else webhook_emit e (ic_tenant i) (ic_project i) ''incident.workflow''
                  (JObj [(''incident'', incident_json w i), (''workflow_rule'', JStr rule_name),
                         (''webhook_id'', JStr (py_str webhook_id))]) w))"

text \<open>The user a JSON id names: \<open>User.objects.filter(id=user_id).first()\<close>.\<close>

definition user_of_json :: "world \<Rightarrow> json \<Rightarrow> user option" where
  "user_of_json w v = (case uuid_of_json v of Inl _ \<Rightarrow> None | Inr u \<Rightarrow> user_of w u)"

text \<open>
  One action of a rule; exceptions inside it are caught and logged. Only an action that is no
  dict raises (\<open>action.get\<close> stands before the \<open>try\<close>).
\<close>

definition execute_action ::
  "env \<Rightarrow> workflow_rule \<Rightarrow> (string \<times> json) list \<Rightarrow> incident \<Rightarrow> world \<Rightarrow> incident \<times> world" where
  "execute_action e rule action i w =
     (let action_type = field action ''type'' in
      if action_type = JStr ''webhook'' then
        (let webhook_id = field action ''webhook_id''
         in (i, if truthy webhook_id then fire_webhook e i webhook_id (wr_name rule) w else w))
      else if action_type = JStr ''assign'' then
        (let user_id = field action ''user_id''
         in if truthy user_id
            then (case user_of_json w user_id of
                    Some u \<Rightarrow> assign_incident e i (usr_id u) w | None \<Rightarrow> (i, w))
            else (i, w))
      else if action_type = JStr ''notify_user'' then
        (let user_id = field action ''user_id''
         in if truthy user_id
            then (case user_of_json w user_id of Some u \<Rightarrow> (i, notify_user e i u w) | None \<Rightarrow> (i, w))
            else (i, w))
      else if action_type = JStr ''increase_severity'' then
        (let severity_id = field action ''severity_id''
         in if truthy severity_id
            then (case uuid_of_json severity_id of
                    Inl _ \<Rightarrow> (i, w)
                  | Inr s \<Rightarrow>
                      (case find (\<lambda>x. sv_id x = s \<and> sv_project x = ic_project i) (w_severities w) of
                         None \<Rightarrow> (i, w)
                       | Some sev \<Rightarrow>
                           (let i1 = i\<lparr>ic_severity := sv_id sev, ic_updated_at := e_now e\<rparr>;
                                w1 = save_incident e (\<lambda>r. r\<lparr>ic_severity := sv_id sev\<rparr>) i1 w
                            in (i1, emit_incident e ''incident.escalated'' i1 w1))))
            else (i, w))
      else (i, w))"

fun execute_actions ::
  "env \<Rightarrow> workflow_rule \<Rightarrow> json list \<Rightarrow> incident \<Rightarrow> world \<Rightarrow> unit result \<times> incident \<times> world" where
  "execute_actions e rule [] i w = (Ok (), i, w)"
| "execute_actions e rule (a # as) i w =
     (case a of
        JObj action \<Rightarrow>
          (case execute_action e rule action i w of (i1, w1) \<Rightarrow> execute_actions e rule as i1 w1)
      | _ \<Rightarrow> (Raise (TypeError ''no attribute get''), i, w))"

text \<open>Stops at the first rule that raises; otherwise the number of rules executed.\<close>

fun run_rules ::
  "env \<Rightarrow> workflow_rule list \<Rightarrow> nat \<Rightarrow> incident \<Rightarrow> world \<Rightarrow> nat result \<times> incident \<times> world" where
  "run_rules e [] executed i w = (Ok executed, i, w)"
| "run_rules e (rule # rules) executed i w =
     (case conditions_match w rule i of
        Inl x \<Rightarrow> (Raise x, i, w)
      | Inr False \<Rightarrow> run_rules e rules executed i w
      | Inr True \<Rightarrow>
          (case execute_actions e rule (wr_actions rule) i w of
             (Inl x, i1, w1) \<Rightarrow> (Raise x, i1, w1)
           | (Inr _, i1, w1) \<Rightarrow> run_rules e rules (Suc executed) i1 w1))"

definition run_workflow_rules ::
  "env \<Rightarrow> rule_trigger \<Rightarrow> incident \<Rightarrow> world \<Rightarrow> nat result \<times> incident \<times> world" where
  "run_workflow_rules e trigger i w =
     run_rules e
       (order_by wr_name
          (filter (\<lambda>r. wr_project r = ic_project i \<and> wr_trigger r = trigger \<and> wr_is_active r) (w_rules w)))
       0 i w"

text \<open>The cache key of a rule and an incident, and the mark that lasts a day.\<close>

definition workflow_key :: "uuid \<Rightarrow> uuid \<Rightarrow> string" where
  "workflow_key rule i = ''workflow:'' @ string_of_nat rule @ '':'' @ string_of_nat i"

definition workflow_already_fired :: "env \<Rightarrow> string \<Rightarrow> world \<Rightarrow> bool" where
  "workflow_already_fired e k w =
     (case cache_get (e_now e) w k of Some v \<Rightarrow> v \<noteq> 0 | None \<Rightarrow> False)"

definition mark_workflow_fired :: "env \<Rightarrow> string \<Rightarrow> world \<Rightarrow> world" where
  "mark_workflow_fired e k w = cache_set (e_now e) k 1 (seconds (60 * 60 * 24)) w"

text \<open>One incident against its project's rules, inside \<open>process_unacknowledged_workflows\<close>.\<close>

fun unacknowledged_rules ::
  "env \<Rightarrow> workflow_rule list \<Rightarrow> nat \<Rightarrow> incident \<Rightarrow> world \<Rightarrow> nat result \<times> incident \<times> world" where
  "unacknowledged_rules e [] fired i w = (Ok fired, i, w)"
| "unacknowledged_rules e (rule # rules) fired i w =
     (case bind_result (items_or_empty (wr_conditions rule))
             (\<lambda>c. int_of_json (dict_get_or c ''delay_minutes'' (JInt 15))) of
        Inl x \<Rightarrow> (Raise x, i, w)
      | Inr delay \<Rightarrow>
          if e_now e < ic_triggered_at i + minutes delay
          then unacknowledged_rules e rules fired i w
          else
            (case conditions_match w rule i of
               Inl x \<Rightarrow> (Raise x, i, w)
             | Inr matches \<Rightarrow>
                 if \<not> matches then unacknowledged_rules e rules fired i w
                 else if workflow_already_fired e (workflow_key (wr_id rule) (ic_id i)) w
                 then unacknowledged_rules e rules fired i w
                 else
                   (case execute_actions e rule (wr_actions rule) i w of
                      (Inl x, i1, w1) \<Rightarrow> (Raise x, i1, w1)
                    | (Inr _, i1, w1) \<Rightarrow>
                        unacknowledged_rules e rules (Suc fired) i1
                          (mark_workflow_fired e (workflow_key (wr_id rule) (ic_id i)) w1))))"

definition unacknowledged_rules_of :: "world \<Rightarrow> uuid \<Rightarrow> workflow_rule list" where
  "unacknowledged_rules_of w project =
     order_by wr_name
       (filter (\<lambda>r. wr_trigger r = IncidentUnacknowledged \<and> wr_is_active r \<and> wr_project r = project)
          (w_rules w))"

fun unacknowledged_incidents :: "env \<Rightarrow> incident list \<Rightarrow> nat \<Rightarrow> world \<Rightarrow> nat result \<times> world" where
  "unacknowledged_incidents e [] fired w = (Ok fired, w)"
| "unacknowledged_incidents e (i # is) fired w =
     (case unacknowledged_rules e (unacknowledged_rules_of w (ic_project i)) fired i w of
        (Inl x, _, w1) \<Rightarrow> (Raise x, w1)
      | (Inr c, _, w1) \<Rightarrow> unacknowledged_incidents e is c w1)"

definition open_unacknowledged :: "world \<Rightarrow> incident list" where
  "open_unacknowledged w =
     order_by_desc ic_triggered_at
       (filter (\<lambda>i. ic_acknowledged_at i = None \<and> \<not> state_is_resolved w (ic_state i)) (w_incidents w))"

definition process_unacknowledged_workflows :: "env \<Rightarrow> world \<Rightarrow> nat result \<times> world" where
  "process_unacknowledged_workflows e w =
     (if \<not> exists_row (\<lambda>r. wr_trigger r = IncidentUnacknowledged \<and> wr_is_active r) (w_rules w)
      then (Ok 0, w)
      else unacknowledged_incidents e (open_unacknowledged w) 0 w)"

section \<open>Escalation\<close>

definition policy_steps :: "world \<Rightarrow> uuid \<Rightarrow> escalation_step list" where
  "policy_steps w p = filter (\<lambda>s. es_policy s = p) (w_esc_steps w)"

definition resolve_policy_for_incident :: "world \<Rightarrow> incident \<Rightarrow> escalation_policy option" where
  "resolve_policy_for_incident w i =
     (let qs = filter (\<lambda>p. ep_project p = ic_project i \<and> ep_is_active p) (w_esc_policies w);
          default_first = (\<lambda>ps. filter ep_is_default ps @ filter (\<lambda>p. \<not> ep_is_default p) ps);
          team_policy =
            (case ic_team i of
               None \<Rightarrow> None
             | Some t \<Rightarrow>
                 (case first_row (default_first (filter (\<lambda>p. ep_team p = Some t) qs)) of
                    Some p \<Rightarrow> (if policy_steps w (ep_id p) \<noteq> [] then Some p else None)
                  | None \<Rightarrow> None))
      in case team_policy of
           Some p \<Rightarrow> Some p
         | None \<Rightarrow>
             find (\<lambda>p. (ep_severity_names p = [] \<or>
                        severity_name_of w (ic_severity i) \<in> set (ep_severity_names p)) \<and>
                       policy_steps w (ep_id p) \<noteq> [])
               (default_first (order_by ep_name (filter (\<lambda>p. ep_team p = None) qs))))"

definition esc_state_key :: "escalation_state \<Rightarrow> uuid" where
  "esc_state_key s = et_incident s"

definition mk_esc_state :: "(env \<times> uuid \<times> uuid) \<Rightarrow> uuid \<Rightarrow> escalation_state" where
  "mk_esc_state d i =
     (case d of (e, n, policy) \<Rightarrow>
        \<lparr>et_id = n, et_incident = i, et_policy = policy, et_current_step_order = 0,
         et_last_escalated_at = None, et_completed = False, et_created_at = e_now e,
         et_updated_at = e_now e\<rparr>)"

definition attach_escalation_policy ::
  "env \<Rightarrow> incident \<Rightarrow> world \<Rightarrow> escalation_state option \<times> world" where
  "attach_escalation_policy e i w =
     (case resolve_policy_for_incident w i of
        None \<Rightarrow> (None, w)
      | Some p \<Rightarrow>
          (case get_or_create esc_state_key (mk_esc_state (e, w_next w, ep_id p)) (ic_id i) (w_esc_states w) of
             (s, _, ss) \<Rightarrow> (Some s, w\<lparr>w_esc_states := ss, w_next := Suc (w_next w)\<rparr>)))"

definition step_action_value :: "step_action \<Rightarrow> string" where
  "step_action_value a =
     (case a of NotifyWebhook \<Rightarrow> ''notify_webhook'' | NotifyUser \<Rightarrow> ''notify_user''
      | IncreaseSeverity \<Rightarrow> ''increase_severity'' | AssignUser \<Rightarrow> ''assign_user'')"

definition emit_escalation_webhook :: "env \<Rightarrow> incident \<Rightarrow> escalation_step \<Rightarrow> world \<Rightarrow> world" where
  "emit_escalation_webhook e i step w =
     webhook_emit e (ic_tenant i) (ic_project i) ''incident.escalated''
       (JObj [(''incident'', incident_json w i),
              (''escalation_step'', JObj
                 [(''order'', JInt (int (es_order step))),
                  (''action'', JStr (step_action_value (es_action step))),
                  (''webhook_id'', json_opt_uuid (es_webhook step))])]) w"

definition save_esc_state :: "escalation_state \<Rightarrow> world \<Rightarrow> world" where
  "save_esc_state s w =
     w\<lparr>w_esc_states := update_where (\<lambda>r. et_id r = et_id s) (\<lambda>_. s) (w_esc_states w)\<rparr>"

text \<open>The action of a step; a foreign key that is not set makes the step a no-op.\<close>

definition step_effect :: "env \<Rightarrow> incident \<Rightarrow> escalation_step \<Rightarrow> world \<Rightarrow> incident \<times> world" where
  "step_effect e i step w =
     (if es_action step = NotifyWebhook \<and> es_webhook step \<noteq> None
      then (i, emit_escalation_webhook e i step w)
      else if es_action step = NotifyUser \<and> es_user step \<noteq> None
      then (i, case user_of w (the (es_user step)) of Some u \<Rightarrow> notify_user e i u w | None \<Rightarrow> w)
      else if es_action step = IncreaseSeverity \<and> es_target_severity step \<noteq> None
      then
        (let i1 = i\<lparr>ic_severity := the (es_target_severity step), ic_updated_at := e_now e\<rparr>
         in (i1, save_incident e (\<lambda>r. r\<lparr>ic_severity := the (es_target_severity step)\<rparr>) i1 w))
      else if es_action step = AssignUser \<and> es_user step \<noteq> None
      then assign_incident e i (the (es_user step)) w
      else (i, w))"

definition execute_escalation_step ::
  "env \<Rightarrow> incident \<Rightarrow> escalation_state \<Rightarrow> escalation_step \<Rightarrow> world \<Rightarrow> world" where
  "execute_escalation_step e i s step w =
     (case step_effect e i step w of
        (i1, w1) \<Rightarrow>
          (let remaining = exists_row (\<lambda>x. es_policy x = et_policy s \<and> es_order step < es_order x)
                             (w_esc_steps w1);
               s1 = s\<lparr>et_current_step_order := es_order step,
                      et_last_escalated_at := Some (e_now e),
                      et_completed := \<not> remaining, et_updated_at := e_now e\<rparr>
           in emit_incident e ''incident.escalated'' i1 (save_esc_state s1 w1)))"

record escalation_stats =
  es_processed :: nat
  es_escalated :: nat
  es_completed :: nat

datatype escalation_outcome = EscWaiting | EscCompleted | EscEscalated

text \<open>One incident of the loop, with its escalation state.\<close>

definition escalate_one ::
  "env \<Rightarrow> incident \<Rightarrow> escalation_state \<Rightarrow> world \<Rightarrow> escalation_outcome \<times> world" where
  "escalate_one e i s w =
     (case first_row (order_by es_order
             (filter (\<lambda>x. es_policy x = et_policy s \<and> es_order x = et_current_step_order s + 1)
                (w_esc_steps w))) of
        None \<Rightarrow>
          (if \<not> et_completed s
           then (EscCompleted, save_esc_state (s\<lparr>et_completed := True, et_updated_at := e_now e\<rparr>) w)
           else (EscWaiting, w))
      | Some next_step \<Rightarrow>
          (let reference_time0 = (if et_current_step_order s = 0 then Some (ic_triggered_at i)
                                  else et_last_escalated_at s);
               reference_time = (case reference_time0 of None \<Rightarrow> ic_triggered_at i | Some t \<Rightarrow> t);
               due_at = reference_time + minutes (int (es_delay_minutes next_step))
           in if e_now e < due_at then (EscWaiting, w)
              else (EscEscalated, execute_escalation_step e i s next_step w)))"

definition escalation_candidates :: "world \<Rightarrow> (incident \<times> escalation_state) list" where
  "escalation_candidates w =
     concat (map (\<lambda>i. case escalation_state_of w (ic_id i) of
                        Some s \<Rightarrow> (if et_completed s then [] else [(i, s)])
                      | None \<Rightarrow> [])
               (open_unacknowledged w))"

fun escalate_all ::
  "env \<Rightarrow> (incident \<times> escalation_state) list \<Rightarrow> escalation_stats \<Rightarrow> world \<Rightarrow> escalation_stats \<times> world" where
  "escalate_all e [] stats w = (stats, w)"
| "escalate_all e ((i, s) # rest) stats w =
     (let stats1 = stats\<lparr>es_processed := Suc (es_processed stats)\<rparr>
      in case escalate_one e i s w of
           (EscWaiting, w1) \<Rightarrow> escalate_all e rest stats1 w1
         | (EscCompleted, w1) \<Rightarrow>
             escalate_all e rest (stats1\<lparr>es_completed := Suc (es_completed stats1)\<rparr>) w1
         | (EscEscalated, w1) \<Rightarrow>
             escalate_all e rest (stats1\<lparr>es_escalated := Suc (es_escalated stats1)\<rparr>) w1)"

definition process_escalations :: "env \<Rightarrow> world \<Rightarrow> escalation_stats \<times> world" where
  "process_escalations e w =
     escalate_all e (escalation_candidates w) \<lparr>es_processed = 0, es_escalated = 0, es_completed = 0\<rparr> w"

section \<open>Lifecycle\<close>

text \<open>Everything after the first emission is inside a \<open>try\<close> whose exceptions are swallowed.\<close>

definition emit_incident_created :: "env \<Rightarrow> incident \<Rightarrow> world \<Rightarrow> incident \<times> world" where
  "emit_incident_created e i w =
     (let w1 = emit_incident e ''incident.created'' i w;
          (_, w2) = attach_escalation_policy e i w1;
          (_, i3, w3) = run_workflow_rules e IncidentCreated i w2
      in (i3, w3))"

definition complete_escalation :: "uuid \<Rightarrow> world \<Rightarrow> world" where
  "complete_escalation i w =
     w\<lparr>w_esc_states := update_where (\<lambda>s. et_incident s = i) (\<lambda>s. s\<lparr>et_completed := True\<rparr>) (w_esc_states w)\<rparr>"

definition acknowledge_incident :: "env \<Rightarrow> incident \<Rightarrow> uuid \<Rightarrow> world \<Rightarrow> incident result \<times> world" where
  "acknowledge_incident e i user w =
     (case first_row (order_by st_order
             (filter (\<lambda>s. st_project s = ic_project i \<and> st_name s = ''acknowledged'') (w_states w))) of
        None \<Rightarrow> (Raise (ValueError ''No acknowledged state configured for this project.''), w)
      | Some ack_state \<Rightarrow>
          (let i1 = i\<lparr>ic_state := st_id ack_state, ic_acknowledged_at := Some (e_now e),
                      ic_acknowledged_by := Some user, ic_updated_at := e_now e\<rparr>;
               w1 = save_incident e
                      (\<lambda>r. r\<lparr>ic_state := st_id ack_state, ic_acknowledged_at := Some (e_now e),
                             ic_acknowledged_by := Some user\<rparr>) i1 w;
               w2 = complete_escalation (ic_id i) w1
           in (Ok i1, emit_incident e ''incident.acknowledged'' i1 w2)))"

definition clear_current_incident :: "uuid \<Rightarrow> world \<Rightarrow> world" where
  "clear_current_incident i w =
     w\<lparr>w_monitors := update_where (\<lambda>m. mo_current_incident m = Some i)
                       (\<lambda>m. m\<lparr>mo_current_incident := None\<rparr>) (w_monitors w)\<rparr>"

text \<open>
  \<open>user\<close> is \<open>None\<close> when the system resolves. The rules run after the transaction: their
  exception reaches the caller although the incident is resolved.
\<close>

definition resolve_incident :: "env \<Rightarrow> incident \<Rightarrow> uuid option \<Rightarrow> world \<Rightarrow> incident result \<times> world" where
  "resolve_incident e i user w =
     (case first_row (order_by st_order
             (filter (\<lambda>s. st_project s = ic_project i \<and> st_is_resolved_state s) (w_states w))) of
        None \<Rightarrow> (Raise (ValueError ''No resolved state configured for this project.''), w)
      | Some resolved_state \<Rightarrow>
          (let i1 = i\<lparr>ic_state := st_id resolved_state, ic_resolved_at := Some (e_now e),
                      ic_resolved_by := user, ic_updated_at := e_now e\<rparr>;
               w1 = save_incident e
                      (\<lambda>r. r\<lparr>ic_state := st_id resolved_state, ic_resolved_at := Some (e_now e),
                             ic_resolved_by := user\<rparr>) i1 w;
               w2 = (if ic_monitor i \<noteq> None then clear_current_incident (ic_id i) w1 else w1);
               w3 = complete_escalation (ic_id i) w2;
               w4 = emit_incident e ''incident.resolved'' i1 w3
           in case run_workflow_rules e IncidentResolved i1 w4 of
                (Inl x, _, w5) \<Rightarrow> (Raise x, w5)
              | (Inr _, i5, w5) \<Rightarrow> (Ok i5, w5)))"

definition add_note ::
  "env \<Rightarrow> incident \<Rightarrow> uuid option \<Rightarrow> string \<Rightarrow> bool \<Rightarrow> world \<Rightarrow> incident_note \<times> world" where
  "add_note e i author content is_public w =
     (let note = \<lparr>nt_id = w_next w, nt_tenant = ic_tenant i, nt_incident = ic_id i,
                  nt_author = author, nt_content = content, nt_is_public = is_public,
                  nt_created_at = e_now e, nt_updated_at = e_now e\<rparr>
      in (note, emit_incident e ''incident.note_added'' i
                  (w\<lparr>w_notes := w_notes w @ [note], w_next := Suc (w_next w)\<rparr>)))"

text \<open>
  The timeline. \<open>at\<close> is kept as an instant: the ISO strings the code sorts are all UTC, where
  their order is the order of the instants.
\<close>

datatype timeline_event =
    TeAudit datetime string uuid actor_type json
  | TeNote datetime "uuid option" string bool
  | TeTriggered datetime
  | TeAcknowledged datetime "uuid option"
  | TeResolved datetime "uuid option"

fun event_at :: "timeline_event \<Rightarrow> datetime" where
  "event_at (TeAudit t _ _ _ _) = t"
| "event_at (TeNote t _ _ _) = t"
| "event_at (TeTriggered t) = t"
| "event_at (TeAcknowledged t _) = t"
| "event_at (TeResolved t _) = t"

definition timeline_events :: "world \<Rightarrow> incident \<Rightarrow> timeline_event list" where
  "timeline_events w i =
     map (\<lambda>l. TeAudit (al_created_at l) (al_action l) (al_actor_id l) (al_actor_type l) (al_new_value l))
       (order_by al_created_at
          (filter (\<lambda>l. al_resource_type l = ''Incident'' \<and> al_resource_id l = Some (ic_id i)) (w_audit_logs w)))
     @ map (\<lambda>n. TeNote (nt_created_at n) (nt_author n) (nt_content n) (nt_is_public n))
         (order_by nt_created_at (filter (\<lambda>n. nt_incident n = ic_id i) (w_notes w)))
     @ [TeTriggered (ic_triggered_at i)]
     @ (case ic_acknowledged_at i of Some t \<Rightarrow> [TeAcknowledged t (ic_acknowledged_by i)] | None \<Rightarrow> [])
     @ (case ic_resolved_at i of Some t \<Rightarrow> [TeResolved t (ic_resolved_by i)] | None \<Rightarrow> [])"

definition build_timeline :: "world \<Rightarrow> incident \<Rightarrow> timeline_event list" where
  "build_timeline w i = sort_key event_at (timeline_events w i)"

end
