(* ===== verification/IncidentFacts.thy ===== *)
theory IncidentFacts
  imports Incidents WebhookFacts RbacFacts
begin

text \<open>
  What the incident services keep and change: the frame of every helper, the lifecycle (who may
  change it, what acknowledging and resolving do on each branch), workflow rules, escalation
  and the timeline.
\<close>

section \<open>Frames\<close>

lemma on_incident_save_frame [simp]:
  "w_incidents (on_incident_save e i c w) = w_incidents w"
  "w_monitors (on_incident_save e i c w) = w_monitors w"
  "w_states (on_incident_save e i c w) = w_states w"
  "w_severities (on_incident_save e i c w) = w_severities w"
  "w_esc_states (on_incident_save e i c w) = w_esc_states w"
  "w_esc_steps (on_incident_save e i c w) = w_esc_steps w"
  "w_esc_policies (on_incident_save e i c w) = w_esc_policies w"
  "w_rules (on_incident_save e i c w) = w_rules w"
  "w_notes (on_incident_save e i c w) = w_notes w"
  "w_cache (on_incident_save e i c w) = w_cache w"
  "w_maintenances (on_incident_save e i c w) = w_maintenances w"
  "w_users (on_incident_save e i c w) = w_users w"
  "w_checks (on_incident_save e i c w) = w_checks w"
  "w_deliveries (on_incident_save e i c w) = w_deliveries w"
  using on_incident_save_audited [of e i c w] by (auto simp: audited_def)

lemma save_incident_frame [simp]:
  "w_monitors (save_incident e f i w) = w_monitors w"
  "w_states (save_incident e f i w) = w_states w"
  "w_severities (save_incident e f i w) = w_severities w"
  "w_esc_states (save_incident e f i w) = w_esc_states w"
  "w_esc_steps (save_incident e f i w) = w_esc_steps w"
  "w_esc_policies (save_incident e f i w) = w_esc_policies w"
  "w_rules (save_incident e f i w) = w_rules w"
  "w_notes (save_incident e f i w) = w_notes w"
  "w_cache (save_incident e f i w) = w_cache w"
  "w_maintenances (save_incident e f i w) = w_maintenances w"
  "w_users (save_incident e f i w) = w_users w"
  "w_checks (save_incident e f i w) = w_checks w"
  "w_deliveries (save_incident e f i w) = w_deliveries w"
  "w_incidents (save_incident e f i w) =
     update_where (\<lambda>r. ic_id r = ic_id i) (\<lambda>r. f r\<lparr>ic_updated_at := ic_updated_at i\<rparr>) (w_incidents w)"
  by (simp_all add: save_incident_def)

lemma emit_incident_frame [simp]:
  "w_incidents (emit_incident e ev i w) = w_incidents w"
  "w_monitors (emit_incident e ev i w) = w_monitors w"
  "w_states (emit_incident e ev i w) = w_states w"
  "w_severities (emit_incident e ev i w) = w_severities w"
  "w_esc_states (emit_incident e ev i w) = w_esc_states w"
  "w_esc_steps (emit_incident e ev i w) = w_esc_steps w"
  "w_esc_policies (emit_incident e ev i w) = w_esc_policies w"
  "w_rules (emit_incident e ev i w) = w_rules w"
  "w_notes (emit_incident e ev i w) = w_notes w"
  "w_cache (emit_incident e ev i w) = w_cache w"
  "w_maintenances (emit_incident e ev i w) = w_maintenances w"
  "w_users (emit_incident e ev i w) = w_users w"
  "w_checks (emit_incident e ev i w) = w_checks w"
  by (simp_all add: emit_incident_def)

lemma notify_user_frame [simp]:
  "w_incidents (notify_user e i u w) = w_incidents w"
  "w_monitors (notify_user e i u w) = w_monitors w"
  "w_states (notify_user e i u w) = w_states w"
  "w_esc_states (notify_user e i u w) = w_esc_states w"
  "w_esc_steps (notify_user e i u w) = w_esc_steps w"
  "w_cache (notify_user e i u w) = w_cache w"
  "w_rules (notify_user e i u w) = w_rules w"
  "w_checks (notify_user e i u w) = w_checks w"
  "w_maintenances (notify_user e i u w) = w_maintenances w"
  by (simp_all add: notify_user_def)

section \<open>The lifecycle of an incident\<close>

text \<open>What only the lifecycle services may change: everything but assignee and severity.\<close>

definition lifecycle ::
  "incident \<Rightarrow> uuid \<times> uuid \<times> uuid \<times> datetime option \<times> uuid option \<times> datetime option \<times> uuid option" where
  "lifecycle r = (ic_id r, ic_project r, ic_state r, ic_acknowledged_at r, ic_acknowledged_by r,
                  ic_resolved_at r, ic_resolved_by r)"

text \<open>
  Two worlds agree on lifecycles, states, monitors and escalation progress: the relation the
  side effects of rules and steps stay inside.
\<close>

definition same_lifecycles :: "world \<Rightarrow> world \<Rightarrow> bool" where
  "same_lifecycles w w' \<longleftrightarrow>
     map lifecycle (w_incidents w') = map lifecycle (w_incidents w) \<and>
     w_states w' = w_states w \<and> w_monitors w' = w_monitors w \<and> w_esc_states w' = w_esc_states w \<and>
     w_esc_steps w' = w_esc_steps w \<and> w_rules w' = w_rules w \<and> w_cache w' = w_cache w \<and>
     w_checks w' = w_checks w \<and> w_maintenances w' = w_maintenances w"

lemma same_lifecycles_refl [simp]: "same_lifecycles w w"
  by (simp add: same_lifecycles_def)

lemma same_lifecycles_trans:
  "same_lifecycles w w' \<Longrightarrow> same_lifecycles w' w'' \<Longrightarrow> same_lifecycles w w''"
  by (simp add: same_lifecycles_def)

lemma same_lifecycles_emit [simp]: "same_lifecycles w (emit_incident e ev i w') \<longleftrightarrow> same_lifecycles w w'"
  by (simp add: same_lifecycles_def)

lemma same_lifecycles_webhook [simp]: "same_lifecycles w (webhook_emit e t p ev d w') \<longleftrightarrow> same_lifecycles w w'"
  by (simp add: same_lifecycles_def)

lemma same_lifecycles_notify [simp]: "same_lifecycles w (notify_user e i u w)"
  by (simp add: same_lifecycles_def)

lemma same_lifecycles_save:
  "(\<And>r. lifecycle (f r) = lifecycle r) \<Longrightarrow> same_lifecycles w (save_incident e f i w)"
proof -
  assume f: "\<And>r. lifecycle (f r) = lifecycle r"
  then have "lifecycle (f r\<lparr>ic_updated_at := t\<rparr>) = lifecycle r" for r t
    by (simp add: lifecycle_def)
  then show ?thesis by (simp add: same_lifecycles_def map_update_where)
qed

lemma assign_same_lifecycles:
  "assign_incident e i u w = (i', w') \<Longrightarrow> same_lifecycles w w' \<and> lifecycle i' = lifecycle i"
  by (auto simp: assign_incident_def Let_def lifecycle_def intro!: same_lifecycles_save)

lemma execute_action_same_lifecycles:
  "execute_action e rule a i w = (i', w') \<Longrightarrow> same_lifecycles w w' \<and> lifecycle i' = lifecycle i"
  unfolding execute_action_def
  by (auto simp: Let_def fire_webhook_def lifecycle_def assign_same_lifecycles
      dest: assign_same_lifecycles intro!: same_lifecycles_save split: if_splits option.splits sum.splits)

lemma execute_actions_same_lifecycles:
  "execute_actions e rule as i w = (r, i', w') \<Longrightarrow> same_lifecycles w w' \<and> lifecycle i' = lifecycle i"
proof (induction as arbitrary: i w)
  case (Cons a as)
  then show ?case
    by (cases a)
      (auto split: prod.splits dest!: execute_action_same_lifecycles intro: same_lifecycles_trans)
qed simp

lemma run_rules_same_lifecycles:
  "run_rules e rules n i w = (r, i', w') \<Longrightarrow> same_lifecycles w w' \<and> lifecycle i' = lifecycle i"
proof (induction rules arbitrary: n i w)
  case (Cons rule rules)
  then show ?case
    by (auto split: sum.splits bool.splits prod.splits dest!: execute_actions_same_lifecycles
        intro: same_lifecycles_trans)
qed simp

lemma run_workflow_rules_same_lifecycles:
  "run_workflow_rules e t i w = (r, i', w') \<Longrightarrow> same_lifecycles w w' \<and> lifecycle i' = lifecycle i"
  by (auto simp: run_workflow_rules_def dest: run_rules_same_lifecycles)

text \<open>
  Workflow rules are powerless over the lifecycle: whatever rules run on an incident, with
  whatever conditions and actions, successfully or raising half-way, no incident changes its
  state, acknowledgement or resolution, no monitor and no escalation progress changes; only
  assignee, severity and \<open>updated_at\<close> of incidents may.
\<close>

theorem workflow_rules_keep_lifecycle:
  "case run_workflow_rules e trigger i w of (r, i', w') \<Rightarrow>
     map lifecycle (w_incidents w') = map lifecycle (w_incidents w) \<and>
     w_monitors w' = w_monitors w \<and> w_esc_states w' = w_esc_states w \<and> lifecycle i' = lifecycle i"
proof -
  obtain r i' w' where run: "run_workflow_rules e trigger i w = (r, i', w')" by (metis prod_cases3)
  with run_workflow_rules_same_lifecycles [OF run] show ?thesis by (simp add: same_lifecycles_def)
qed

section \<open>Acknowledging and resolving\<close>

text \<open>The lifecycle table with the incident \<open>k\<close> put into a state.\<close>

definition lifecycles_with ::
  "uuid \<Rightarrow> (incident \<Rightarrow> incident) \<Rightarrow> incident list \<Rightarrow>
     (uuid \<times> uuid \<times> uuid \<times> datetime option \<times> uuid option \<times> datetime option \<times> uuid option) list" where
  "lifecycles_with k f rs = map (\<lambda>r. lifecycle (if ic_id r = k then f r else r)) rs"

lemma lifecycles_update_where:
  "map lifecycle (update_where (\<lambda>r. ic_id r = k) f rs) = lifecycles_with k f rs"
  by (simp add: update_where_def comp_def lifecycles_with_def)

lemma lifecycles_touch [simp]:
  "lifecycles_with k (\<lambda>r. f r\<lparr>ic_updated_at := t\<rparr>) rs = lifecycles_with k f rs"
  by (simp add: lifecycles_with_def lifecycle_def)

text \<open>The states a project can acknowledge or resolve into.\<close>

definition ack_state :: "world \<Rightarrow> uuid \<Rightarrow> incident_state \<Rightarrow> bool" where
  "ack_state w p s \<longleftrightarrow> s \<in> set (w_states w) \<and> st_project s = p \<and> st_name s = ''acknowledged''"

definition resolved_state :: "world \<Rightarrow> uuid \<Rightarrow> incident_state \<Rightarrow> bool" where
  "resolved_state w p s \<longleftrightarrow> s \<in> set (w_states w) \<and> st_project s = p \<and> st_is_resolved_state s"

lemma monitor_released:
  "list_all (\<lambda>m. mo_current_incident m \<noteq> Some i)
     (update_where (\<lambda>m. mo_current_incident m = Some i) (\<lambda>m. m\<lparr>mo_current_incident := None\<rparr>) ms)"
  by (induction ms) simp_all

lemma complete_escalation_frame [simp]:
  "w_incidents (complete_escalation i w) = w_incidents w"
  "w_monitors (complete_escalation i w) = w_monitors w"
  "w_states (complete_escalation i w) = w_states w"
  "w_esc_states (complete_escalation i w) =
     update_where (\<lambda>s. et_incident s = i) (\<lambda>s. s\<lparr>et_completed := True\<rparr>) (w_esc_states w)"
  by (simp_all add: complete_escalation_def)

lemma clear_current_incident_frame [simp]:
  "w_incidents (clear_current_incident i w) = w_incidents w"
  "w_states (clear_current_incident i w) = w_states w"
  "w_esc_states (clear_current_incident i w) = w_esc_states w"
  "w_monitors (clear_current_incident i w) =
     update_where (\<lambda>m. mo_current_incident m = Some i) (\<lambda>m. m\<lparr>mo_current_incident := None\<rparr>) (w_monitors w)"
  by (simp_all add: clear_current_incident_def)

text \<open>The escalation of an incident is over: no run will execute a step for it.\<close>

definition escalation_stopped :: "uuid \<Rightarrow> escalation_state list \<Rightarrow> bool" where
  "escalation_stopped i ss \<longleftrightarrow> (\<forall>s \<in> set ss. et_incident s = i \<longrightarrow> et_completed s)"

lemma escalation_completed [simp]:
  "escalation_stopped i
     (update_where (\<lambda>s. et_incident s = i) (\<lambda>s. s\<lparr>et_completed := True\<rparr>) ss)"
  unfolding escalation_stopped_def by (induction ss) simp_all

lemma acknowledge_cases:
  obtains (none) x where "\<forall>s. \<not> ack_state w (ic_project i) s"
      "acknowledge_incident e i u w = (Raise x, w)"
  | (moved) s i' w' where "ack_state w (ic_project i) s" "acknowledge_incident e i u w = (Ok i', w')"
      "i' = i\<lparr>ic_state := st_id s, ic_acknowledged_at := Some (e_now e), ic_acknowledged_by := Some u,
              ic_updated_at := e_now e\<rparr>"
      "map lifecycle (w_incidents w') = lifecycles_with (ic_id i)
         (\<lambda>r. r\<lparr>ic_state := st_id s, ic_acknowledged_at := Some (e_now e), ic_acknowledged_by := Some u\<rparr>)
         (w_incidents w)"
      "w_esc_states w' = update_where (\<lambda>s. et_incident s = ic_id i) (\<lambda>s. s\<lparr>et_completed := True\<rparr>)
         (w_esc_states w)"
      "w_states w' = w_states w"
proof (cases "first_row (order_by st_order
    (filter (\<lambda>s. st_project s = ic_project i \<and> st_name s = ''acknowledged'') (w_states w)))")
  case None
  show ?thesis
  proof (rule none)
    show "\<forall>s. \<not> ack_state w (ic_project i) s"
      using None by (auto simp: ack_state_def filter_empty_conv)
    show "acknowledge_incident e i u w = (Raise (ValueError ''No acknowledged state configured for this project.''), w)"
      using None by (simp add: acknowledge_incident_def)
  qed
next
  case (Some s)
  define i1 where "i1 = i\<lparr>ic_state := st_id s, ic_acknowledged_at := Some (e_now e),
                          ic_acknowledged_by := Some u, ic_updated_at := e_now e\<rparr>"
  define w1 where "w1 = save_incident e
      (\<lambda>r. r\<lparr>ic_state := st_id s, ic_acknowledged_at := Some (e_now e), ic_acknowledged_by := Some u\<rparr>) i1 w"
  define w3 where "w3 = emit_incident e ''incident.acknowledged'' i1 (complete_escalation (ic_id i) w1)"
  have res: "acknowledge_incident e i u w = (Ok i1, w3)"
    by (simp add: acknowledge_incident_def Some Let_def i1_def w1_def w3_def)
  have id: "ic_id i1 = ic_id i" by (simp add: i1_def)
  from first_row_in [OF Some] have "ack_state w (ic_project i) s" by (simp add: ack_state_def)
  from this res i1_def show ?thesis
    by (rule moved) (simp_all add: w3_def w1_def lifecycles_update_where id)
qed

text \<open>
  Acknowledging: when the project has a state named \<open>acknowledged\<close>, the incident takes that
  state, the time and the user, its escalation is completed, and no other incident's lifecycle
  changes; when it has none, the call raises and the world is as it was.
\<close>

theorem acknowledge_incident_effect:
  "case acknowledge_incident e i u w of
     (Inl x, w') \<Rightarrow> w' = w \<and> (\<forall>s. \<not> ack_state w (ic_project i) s)
   | (Inr i', w') \<Rightarrow>
       (\<exists>s. ack_state w (ic_project i) s \<and> ic_state i' = st_id s) \<and>
       ic_acknowledged_at i' = Some (e_now e) \<and> ic_acknowledged_by i' = Some u \<and>
       map lifecycle (w_incidents w') = lifecycles_with (ic_id i)
         (\<lambda>r. r\<lparr>ic_state := ic_state i', ic_acknowledged_at := Some (e_now e), ic_acknowledged_by := Some u\<rparr>)
         (w_incidents w) \<and>
       escalation_stopped (ic_id i) (w_esc_states w')"
proof (cases rule: acknowledge_cases [of w i e u])
  case (none x)
  then show ?thesis by simp
next
  case (moved s i' w')
  then show ?thesis by auto
qed

lemma resolve_cases:
  obtains (none) x where "\<forall>s. \<not> resolved_state w (ic_project i) s"
      "resolve_incident e i u w = (Raise x, w)"
  | (moved) s r w' where "resolved_state w (ic_project i) s" "resolve_incident e i u w = (r, w')"
      "map lifecycle (w_incidents w') = lifecycles_with (ic_id i)
         (\<lambda>r. r\<lparr>ic_state := st_id s, ic_resolved_at := Some (e_now e), ic_resolved_by := u\<rparr>)
         (w_incidents w)"
      "w_esc_states w' = update_where (\<lambda>s. et_incident s = ic_id i) (\<lambda>s. s\<lparr>et_completed := True\<rparr>)
         (w_esc_states w)"
      "w_monitors w' = (if ic_monitor i = None then w_monitors w
         else update_where (\<lambda>m. mo_current_incident m = Some (ic_id i))
                (\<lambda>m. m\<lparr>mo_current_incident := None\<rparr>) (w_monitors w))"
      "w_states w' = w_states w"
proof (cases "first_row (order_by st_order
    (filter (\<lambda>s. st_project s = ic_project i \<and> st_is_resolved_state s) (w_states w)))")
  case None
  show ?thesis
  proof (rule none)
    show "\<forall>s. \<not> resolved_state w (ic_project i) s"
      using None by (auto simp: resolved_state_def filter_empty_conv)
    show "resolve_incident e i u w = (Raise (ValueError ''No resolved state configured for this project.''), w)"
      using None by (simp add: resolve_incident_def)
  qed
next
  case (Some s)
  define i1 where "i1 = i\<lparr>ic_state := st_id s, ic_resolved_at := Some (e_now e), ic_resolved_by := u,
                          ic_updated_at := e_now e\<rparr>"
  define w1 where "w1 = save_incident e
      (\<lambda>r. r\<lparr>ic_state := st_id s, ic_resolved_at := Some (e_now e), ic_resolved_by := u\<rparr>) i1 w"
  define w4 where "w4 = emit_incident e ''incident.resolved'' i1 (complete_escalation (ic_id i)
      (if ic_monitor i \<noteq> None then clear_current_incident (ic_id i) w1 else w1))"
  obtain r i5 w5 where run: "run_workflow_rules e IncidentResolved i1 w4 = (r, i5, w5)"
    by (metis prod_cases3)
  have res: "resolve_incident e i u w = (map_sum id (\<lambda>_. i5) r, w5)"
    unfolding resolve_incident_def Some Let_def option.case
      i1_def [symmetric] w1_def [symmetric] w4_def [symmetric] run
    by (cases r) simp_all
  have id: "ic_id i1 = ic_id i" by (simp add: i1_def)
  from run_workflow_rules_same_lifecycles [OF run] have same: "same_lifecycles w4 w5" ..
  from first_row_in [OF Some] have "resolved_state w (ic_project i) s" by (simp add: resolved_state_def)
  from this res show ?thesis
    by (rule moved) (use same id in \<open>auto simp: same_lifecycles_def w4_def w1_def lifecycles_update_where\<close>)
qed


text \<open>
  A freshly bootstrapped project has what the lifecycle needs: once \<open>bootstrap_project\<close> has
  run on a project without incident states, acknowledging an incident of the project succeeds
  at any later time while the states stay, and there is a resolved state to resolve into.
\<close>

theorem bootstrap_enables_lifecycle:
  assumes "bootstrap_project e prj tn w = (b, w1)"
    and "\<forall>s \<in> set (w_states w). st_project s \<noteq> prj"
    and "ic_project i = prj" and "w_states w' = w_states w1"
  shows "(\<exists>i' w''. acknowledge_incident e' i u w' = (Ok i', w'')) \<and> (\<exists>s. resolved_state w' prj s)"
proof -
  obtain ss n where g: "goc_each state_key mk_system_state (state_defaults e tn prj n) (w_states w) =
      (ss, w_states w1)"
    using assms(1) by (rule bootstrap_projectE)
  have row: "\<exists>s \<in> set (w_states w1). st_project s = prj \<and> st_name s = fst x \<and>
      st_is_resolved_state s = snd (snd (snd x))" if x: "x \<in> set DEFAULT_INCIDENT_STATES" for x
  proof -
    have "\<forall>x \<in> set DEFAULT_INCIDENT_STATES. \<exists>s \<in> set (w_states w1). state_key s = (prj, fst x)"
      using states.goc_each_spec [OF g]
      by (intro rows_with_keys [of state_key ss]) (simp_all add: defaults_keys)
    with x obtain s where s: "s \<in> set (w_states w1)" "state_key s = (prj, fst x)" by blast
    with assms(2) have "s \<notin> set (w_states w)" by (auto simp: state_key_def)
    with states.goc_each_rows [OF g s(1)] obtain d k where
      dk: "(d, k) \<in> set (state_defaults e tn prj n)" "s = mk_system_state d k" by auto
    from dk obtain j name color ord resolved where
      "(j, name, color, ord, resolved) \<in> set (with_fresh n DEFAULT_INCIDENT_STATES)"
      "d = (e, j, tn, color, ord, resolved)" "k = (prj, name)"
      by (auto simp: state_defaults_def)
    then have y: "(name, color, ord, resolved) \<in> set DEFAULT_INCIDENT_STATES"
      "s = mk_system_state (e, j, tn, color, ord, resolved) (prj, name)"
      using dk(2) by (auto simp: with_fresh_def dest: set_zip_rightD)
    with s(2) have "fst x = name" by (simp add: state_key_def mk_system_state_def)
    moreover have "distinct (map fst DEFAULT_INCIDENT_STATES)" by (simp add: DEFAULT_INCIDENT_STATES_def)
    ultimately have "x = (name, color, ord, resolved)"
      using x y(1) by (cases x) (auto dest: eq_key_imp_eq_value)
    with s y(2) show ?thesis by (intro bexI [of _ s]) (auto simp: mk_system_state_def)
  qed
  from row [of "(''acknowledged'', ''#eab308'', 3, False)"]
  have "\<exists>s. ack_state w' (ic_project i) s"
    by (auto simp: DEFAULT_INCIDENT_STATES_def ack_state_def assms(3,4))
  moreover from row [of "(''resolved'', ''#22c55e'', 5, True)"]
  have "\<exists>s. resolved_state w' prj s"
    by (auto simp: DEFAULT_INCIDENT_STATES_def resolved_state_def assms(4))
  ultimately show ?thesis
    by (cases rule: acknowledge_cases [of w' i e' u]) auto
qed

definition sample_incident :: incident where
  "sample_incident =
     \<lparr>ic_id = 60, ic_tenant = 1, ic_project = 2, ic_team = None, ic_monitor = None,
      ic_title = ''down'', ic_description = [], ic_severity = 70, ic_state = 80,
      ic_assigned_to = None, ic_triggered_at = 0, ic_acknowledged_at = None,
      ic_acknowledged_by = None, ic_resolved_at = None, ic_resolved_by = None,
      ic_is_visible_on_status_page = False, ic_created_at = 0, ic_updated_at = 0\<rparr>"

theorem bootstrap_enables_lifecycle_witness:
  "\<exists>i' w'. acknowledge_incident sample_env sample_incident 5
     (snd (bootstrap_project sample_env 2 1 empty_world)) = (Ok i', w')"
  using bootstrap_enables_lifecycle [of sample_env 2 1 empty_world
      "fst (bootstrap_project sample_env 2 1 empty_world)"
      "snd (bootstrap_project sample_env 2 1 empty_world)" sample_incident _ sample_env 5]
  by (auto simp: sample_incident_def empty_world_def)

section \<open>Workflow rules\<close>

lemma digits_no_colon: "CHR '':'' \<notin> set (string_of_nat n)"
  using string_of_nat_digits by (force simp: is_digit_def)

lemma workflow_key_inj: "workflow_key r i = workflow_key r' i' \<longleftrightarrow> r = r' \<and> i = i'"
proof
  assume "workflow_key r i = workflow_key r' i'"
  then have "split_once (CHR '':'') (string_of_nat r @ CHR '':'' # string_of_nat i) =
      split_once (CHR '':'') (string_of_nat r' @ CHR '':'' # string_of_nat i')"
    by (simp add: workflow_key_def)
  then show "r = r' \<and> i = i'"
    by (auto simp: digits_no_colon dest: string_of_nat_inj)
qed simp

text \<open>
  An \<open>unacknowledged\<close> rule fires at most once a day per incident: when a run has executed a
  rule for an incident, a later run within 24 hours leaves the world alone and counts nothing,
  although the incident is still open and the rule still matches; the marks of different rules
  and incidents never collide.
\<close>

theorem workflow_fires_once_a_day:
  assumes "unacknowledged_rules e [rule] n i w = (Ok (Suc n), i1, w1)"
    and "e_now e \<le> e_now e'" "e_now e' < e_now e + hours 24"
    and "ic_id i' = ic_id i" "unacknowledged_rules e' [rule] m i' w1 = (Ok k, i2, w2)"
  shows "k = m \<and> w2 = w1 \<and> i2 = i' \<and>
    (\<forall>r j. workflow_key r j = workflow_key (wr_id rule) (ic_id i) \<longrightarrow> r = wr_id rule \<and> j = ic_id i)"
proof -
  have "\<exists>w0. w1 = mark_workflow_fired e (workflow_key (wr_id rule) (ic_id i)) w0"
    using assms(1) by (auto split: sum.splits if_splits prod.splits)
  then have "workflow_already_fired e' (workflow_key (wr_id rule) (ic_id i')) w1"
    using assms(2-4)
    by (auto simp: workflow_already_fired_def mark_workflow_fired_def cache_get_set_same time_defs)
  with assms(5) show ?thesis
    by (auto simp: workflow_key_inj split: sum.splits if_splits)
qed

definition sample_rule :: workflow_rule where
  "sample_rule =
     \<lparr>wr_id = 90, wr_tenant = 1, wr_project = 2, wr_name = ''nag'', wr_trigger = IncidentUnacknowledged,
      wr_conditions = JObj [(''delay_minutes'', JInt 10)],
      wr_actions = [JObj [(''type'', JStr ''notify_user''), (''user_id'', JStr ''5'')]],
      wr_is_active = True, wr_created_at = 0, wr_updated_at = 0\<rparr>"

lemma sample_rule_fires:
  "unacknowledged_rules sample_env [sample_rule] 0 sample_incident empty_world =
     (Ok 1, sample_incident, mark_workflow_fired sample_env (workflow_key 90 60) empty_world)"
  by (simp add: sample_rule_def sample_incident_def items_or_empty_def dict_get_or_def int_of_json_def
      sample_env_def time_defs conditions_match_def json_or_def workflow_already_fired_def
      cache_get_def empty_world_def execute_action_def user_of_json_def uuid_of_json_def is_digit_def
      user_of_def)

theorem workflow_fires_once_a_day_witness:
  "\<exists>w1. unacknowledged_rules sample_env [sample_rule] 0 sample_incident empty_world = (Ok 1, sample_incident, w1) \<and>
     unacknowledged_rules sample_env [sample_rule] 0 sample_incident w1 = (Ok 0, sample_incident, w1)"
proof -
  let ?w1 = "mark_workflow_fired sample_env (workflow_key 90 60) empty_world"
  have "\<exists>k i2 w2. unacknowledged_rules sample_env [sample_rule] 0 sample_incident ?w1 = (Ok k, i2, w2)"
    by (simp add: sample_rule_def sample_incident_def items_or_empty_def dict_get_or_def int_of_json_def
        sample_env_def time_defs conditions_match_def json_or_def workflow_already_fired_def
        cache_get_set_same mark_workflow_fired_def)
  then obtain k i2 w2 where
    2: "unacknowledged_rules sample_env [sample_rule] 0 sample_incident ?w1 = (Ok k, i2, w2)" by blast
  have "k = 0 \<and> w2 = ?w1 \<and> i2 = sample_incident"
    using workflow_fires_once_a_day [OF sample_rule_fires [folded One_nat_def, unfolded One_nat_def] _ _ refl 2]
    by (simp add: time_defs)
  with 2 sample_rule_fires show ?thesis by blast
qed

section \<open>Escalation\<close>

lemma step_effect_same_lifecycles:
  "step_effect e i x w = (i', w') \<Longrightarrow> same_lifecycles w w' \<and> lifecycle i' = lifecycle i"
  by (auto simp: step_effect_def Let_def lifecycle_def emit_escalation_webhook_def
      dest: assign_same_lifecycles intro!: same_lifecycles_save split: if_splits option.splits)

text \<open>The next step of a policy: the one whose order follows the last one executed.\<close>

definition next_step :: "escalation_step list \<Rightarrow> escalation_state \<Rightarrow> escalation_step option" where
  "next_step steps s =
     first_row (order_by es_order
       (filter (\<lambda>x. es_policy x = et_policy s \<and> es_order x = et_current_step_order s + 1) steps))"

definition due_at :: "datetime \<Rightarrow> escalation_state \<Rightarrow> escalation_step \<Rightarrow> datetime" where
  "due_at triggered s x =
     (if et_current_step_order s = 0 then triggered
      else case et_last_escalated_at s of None \<Rightarrow> triggered | Some t \<Rightarrow> t)
     + minutes (int (es_delay_minutes x))"

text \<open>
  The abstract escalation machine: what one run makes of the progress of an incident, from the
  policy's steps, the trigger time and the time of the run alone.
\<close>

definition esc_advance ::
  "escalation_step list \<Rightarrow> datetime \<Rightarrow> datetime \<Rightarrow> escalation_state \<Rightarrow> escalation_state" where
  "esc_advance steps triggered now s =
     (case next_step steps s of
        None \<Rightarrow> (if et_completed s then s else s\<lparr>et_completed := True, et_updated_at := now\<rparr>)
      | Some x \<Rightarrow>
          (if now < due_at triggered s x then s
           else s\<lparr>et_current_step_order := es_order x, et_last_escalated_at := Some now,
                  et_completed := \<not> (\<exists>y \<in> set steps. es_policy y = et_policy s \<and> es_order x < es_order y),
                  et_updated_at := now\<rparr>))"

lemma next_step_Some: "next_step steps s = Some x \<Longrightarrow>
    x \<in> set steps \<and> es_policy x = et_policy s \<and> es_order x = et_current_step_order s + 1"
  by (auto simp: next_step_def dest: first_row_in)

lemma save_esc_state_frame [simp]:
  "w_incidents (save_esc_state s w) = w_incidents w"
  "w_states (save_esc_state s w) = w_states w"
  "w_monitors (save_esc_state s w) = w_monitors w"
  "w_esc_steps (save_esc_state s w) = w_esc_steps w"
  "w_esc_states (save_esc_state s w) = update_where (\<lambda>r. et_id r = et_id s) (\<lambda>_. s) (w_esc_states w)"
  by (simp_all add: save_esc_state_def)

lemma execute_escalation_step_effect:
  assumes "execute_escalation_step e i s x w = w'"
  shows "map lifecycle (w_incidents w') = map lifecycle (w_incidents w)"
    and "w_monitors w' = w_monitors w" and "w_esc_steps w' = w_esc_steps w"
    and "w_esc_states w' = update_where (\<lambda>r. et_id r = et_id s)
       (\<lambda>_. s\<lparr>et_current_step_order := es_order x, et_last_escalated_at := Some (e_now e),
          et_completed := \<not> (\<exists>y \<in> set (w_esc_steps w). es_policy y = et_policy s \<and> es_order x < es_order y),
          et_updated_at := e_now e\<rparr>) (w_esc_states w)"
proof -
  obtain i1 w1 where eff: "step_effect e i x w = (i1, w1)" by force
  from step_effect_same_lifecycles [OF eff] have "same_lifecycles w w1" ..
  with assms eff show "map lifecycle (w_incidents w') = map lifecycle (w_incidents w)"
    "w_monitors w' = w_monitors w" "w_esc_steps w' = w_esc_steps w"
    "w_esc_states w' = update_where (\<lambda>r. et_id r = et_id s)
       (\<lambda>_. s\<lparr>et_current_step_order := es_order x, et_last_escalated_at := Some (e_now e),
          et_completed := \<not> (\<exists>y \<in> set (w_esc_steps w). es_policy y = et_policy s \<and> es_order x < es_order y),
          et_updated_at := e_now e\<rparr>) (w_esc_states w)"
    by (auto simp: execute_escalation_step_def Let_def same_lifecycles_def)
qed

text \<open>The code refines the abstract machine: it saves exactly the advanced progress.\<close>

lemma escalate_one_refines:
  assumes "escalate_one e i s w = (r, w')" "\<not> et_completed s"
    and "s \<in> set (w_esc_states w)" "distinct (map et_id (w_esc_states w))"
  shows "w_esc_states w' = update_where (\<lambda>r. et_id r = et_id s)
           (\<lambda>_. esc_advance (w_esc_steps w) (ic_triggered_at i) (e_now e) s) (w_esc_states w)"
    and "map lifecycle (w_incidents w') = map lifecycle (w_incidents w)"
    and "w_esc_steps w' = w_esc_steps w" and "w_monitors w' = w_monitors w"
proof -
  have same: "update_where (\<lambda>r. et_id r = et_id s) (\<lambda>_. s) (w_esc_states w) = w_esc_states w"
  proof -
    have "x = s" if "x \<in> set (w_esc_states w)" "et_id x = et_id s" for x
      using that assms(3,4) by (auto simp: distinct_map inj_on_def)
    then show ?thesis unfolding update_where_def by (intro map_idI) auto
  qed
  have split: "escalate_one e i s w =
    (case next_step (w_esc_steps w) s of
       None \<Rightarrow> (EscCompleted, save_esc_state (s\<lparr>et_completed := True, et_updated_at := e_now e\<rparr>) w)
     | Some x \<Rightarrow> (if e_now e < due_at (ic_triggered_at i) s x then (EscWaiting, w)
                  else (EscEscalated, execute_escalation_step e i s x w)))"
    using assms(2)
    by (auto simp: escalate_one_def next_step_def due_at_def Let_def split: option.splits)
  have exec: "w_esc_states w' = update_where (\<lambda>r. et_id r = et_id s)
           (\<lambda>_. esc_advance (w_esc_steps w) (ic_triggered_at i) (e_now e) s) (w_esc_states w) \<and>
      map lifecycle (w_incidents w') = map lifecycle (w_incidents w) \<and> w_esc_steps w' = w_esc_steps w \<and>
      w_monitors w' = w_monitors w"
  proof (cases "next_step (w_esc_steps w) s")
    case None
    with split assms(1,2) show ?thesis by (auto simp: esc_advance_def)
  next
    case (Some x)
    show ?thesis
    proof (cases "e_now e < due_at (ic_triggered_at i) s x")
      case True
      with Some split assms(1) same show ?thesis by (auto simp: esc_advance_def)
    next
      case False
      with Some split assms(1) have "execute_escalation_step e i s x w = w'" by simp
      from execute_escalation_step_effect [OF this] False Some show ?thesis
        by (simp add: esc_advance_def)
    qed
  qed
  then show "w_esc_states w' = update_where (\<lambda>r. et_id r = et_id s)
           (\<lambda>_. esc_advance (w_esc_steps w) (ic_triggered_at i) (e_now e) s) (w_esc_states w)"
    "map lifecycle (w_incidents w') = map lifecycle (w_incidents w)"
    "w_esc_steps w' = w_esc_steps w" "w_monitors w' = w_monitors w" by auto
qed

lemma esc_advance_ids [simp]:
  "et_id (esc_advance steps t now s) = et_id s"
  "et_incident (esc_advance steps t now s) = et_incident s"
  "et_policy (esc_advance steps t now s) = et_policy s"
  by (auto simp: esc_advance_def split: option.splits)

lemma map_et_id_update:
  "et_id a = et_id s \<Longrightarrow>
     map et_id (update_where (\<lambda>r. et_id r = et_id s) (\<lambda>_. a) rs) = map et_id rs"
  by (induction rs) auto

lemma update_where_other:
  "r \<in> set rs \<Longrightarrow> \<not> P r \<Longrightarrow> r \<in> set (update_where P f rs)"
  by (auto simp: in_update_where_iff)

text \<open>A run over candidates none of which is \<open>r\<close> leaves \<open>r\<close> in the table.\<close>

lemma escalate_all_spares:
  assumes "\<And>i s. (i, s) \<in> set cs \<Longrightarrow> \<not> et_completed s \<and> s \<in> set (w_esc_states w) \<and> et_id s \<noteq> et_id r"
    and "distinct (map (et_id \<circ> snd) cs)" "distinct (map et_id (w_esc_states w))"
    and "r \<in> set (w_esc_states w)" "escalate_all e cs st w = (st', w')"
  shows "r \<in> set (w_esc_states w') \<and> map lifecycle (w_incidents w') = map lifecycle (w_incidents w)"
  using assms
proof (induction cs arbitrary: st w)
  case (Cons c cs)
  obtain i s where c: "c = (i, s)" by force
  obtain r1 w1 where one: "escalate_one e i s w = (r1, w1)" by force
  have s: "\<not> et_completed s" "s \<in> set (w_esc_states w)" "et_id s \<noteq> et_id r"
    using Cons.prems(1) c by auto
  note ref = escalate_one_refines [OF one s(1,2) Cons.prems(3)]
  obtain st1 where rest: "escalate_all e cs st1 w1 = (st', w')"
    using Cons.prems(5) c one by (cases r1) (auto simp: Let_def)
  have "r \<in> set (w_esc_states w') \<and> map lifecycle (w_incidents w') = map lifecycle (w_incidents w1)"
  proof (rule Cons.IH [OF _ _ _ _ rest])
    show "\<not> et_completed s' \<and> s' \<in> set (w_esc_states w1) \<and> et_id s' \<noteq> et_id r"
      if "(i', s') \<in> set cs" for i' s'
    proof -
      from that Cons.prems(2) c have "et_id s' \<noteq> et_id s" by force
      with that Cons.prems(1) show ?thesis unfolding ref(1) by (auto intro: update_where_other)
    qed
    show "distinct (map (et_id \<circ> snd) cs)" using Cons.prems(2) by (simp add: comp_def)
    show "distinct (map et_id (w_esc_states w1))"
      using Cons.prems(3) unfolding ref(1) by (simp add: map_et_id_update)
    show "r \<in> set (w_esc_states w1)"
      using Cons.prems(4) s(3) unfolding ref(1) by (auto intro: update_where_other)
  qed
  with ref(2) show ?case by simp
qed auto

lemma escalation_candidates_sound:
  assumes "(i, s) \<in> set (escalation_candidates w)"
  shows "i \<in> set (w_incidents w) \<and> ic_acknowledged_at i = None \<and> \<not> state_is_resolved w (ic_state i) \<and>
    s \<in> set (w_esc_states w) \<and> et_incident s = ic_id i \<and> \<not> et_completed s"
  using assms
  by (auto simp: escalation_candidates_def open_unacknowledged_def escalation_state_of_def
      dest!: find_SomeD [OF sym] split: option.splits if_splits)

text \<open>The keys: one row per incident id, one escalation row per incident.\<close>

definition escalation_tables_keyed :: "world \<Rightarrow> bool" where
  "escalation_tables_keyed w \<longleftrightarrow>
     distinct (map ic_id (w_incidents w)) \<and> distinct (map et_id (w_esc_states w)) \<and>
     distinct (map et_incident (w_esc_states w))"

lemma candidates_distinct:
  assumes "escalation_tables_keyed w"
  shows "distinct (map (et_id \<circ> snd) (escalation_candidates w))"
proof -
  define f where "f i = (case escalation_state_of w (ic_id i) of
              Some s \<Rightarrow> (if et_completed s then [] else [(i, s)]) | None \<Rightarrow> [])" for i :: incident
  have id: "s = s'" if "s \<in> set (w_esc_states w)" "s' \<in> set (w_esc_states w)" "et_id s = et_id s'" for s s'
    using that assms by (auto simp: escalation_tables_keyed_def distinct_map inj_on_def)
  have shape: "f i = [] \<or> (\<exists>s. f i = [(i, s)] \<and> s \<in> set (w_esc_states w) \<and> et_incident s = ic_id i)" for i
    by (auto simp: f_def escalation_state_of_def dest: find_SomeD split: option.splits)
  have "distinct (map ic_id js) \<Longrightarrow> distinct (map (et_id \<circ> snd) (concat (map f js)))" for js
  proof (induction js)
    case (Cons i js)
    show ?case
    proof (cases "f i = []")
      case False
      with shape obtain s where s: "f i = [(i, s)]" "s \<in> set (w_esc_states w)" "et_incident s = ic_id i"
        by blast
      have "et_id s \<noteq> et_id (snd c)" if c: "c \<in> set (f j)" "j \<in> set js" for c j
      proof
        assume "et_id s = et_id (snd c)"
        from shape [of j] c obtain s' where "c = (j, s')" "s' \<in> set (w_esc_states w)" "et_incident s' = ic_id j"
          by auto
        with s id [of s s'] \<open>et_id s = et_id (snd c)\<close> have "ic_id i = ic_id j" by simp
        with c Cons.prems show False by auto
      qed
      with Cons s show ?thesis by (auto simp: comp_def)
    qed (use Cons in simp)
  qed simp
  moreover have "distinct (map ic_id (open_unacknowledged w))"
    using assms
    by (auto simp: open_unacknowledged_def order_by_desc_def escalation_tables_keyed_def
        distinct_map inj_on_def distinct_sort)
  moreover have "escalation_candidates w = concat (map f (open_unacknowledged w))"
    unfolding escalation_candidates_def f_def ..
  ultimately show ?thesis by metis
qed

text \<open>
  An escalation run never touches what is settled: the progress of an incident that is
  acknowledged, in a resolved state, or whose escalation is completed stays exactly as it is,
  and no run changes the lifecycle of any incident.
\<close>

theorem escalation_spares_settled:
  assumes "escalation_tables_keyed w" "r \<in> set (w_esc_states w)"
    and "\<forall>i \<in> set (w_incidents w). ic_id i = et_incident r \<longrightarrow>
           ic_acknowledged_at i \<noteq> None \<or> state_is_resolved w (ic_state i) \<or> et_completed r"
  shows "r \<in> set (w_esc_states (snd (process_escalations e w))) \<and>
    map lifecycle (w_incidents (snd (process_escalations e w))) = map lifecycle (w_incidents w)"
proof -
  obtain st w' where run: "process_escalations e w = (st, w')" by force
  have "r \<in> set (w_esc_states w') \<and> map lifecycle (w_incidents w') = map lifecycle (w_incidents w)"
  proof (rule escalate_all_spares [OF _ candidates_distinct [OF assms(1)] _ assms(2)])
    show "\<not> et_completed s \<and> s \<in> set (w_esc_states w) \<and> et_id s \<noteq> et_id r"
      if "(i, s) \<in> set (escalation_candidates w)" for i s
    proof -
      note c = escalation_candidates_sound [OF that]
      have "s \<noteq> r" using c assms(3) by auto
      with c assms(1,2) show ?thesis
        by (auto simp: escalation_tables_keyed_def distinct_map inj_on_def)
    qed
    show "distinct (map et_id (w_esc_states w))" using assms(1) by (simp add: escalation_tables_keyed_def)
    show "escalate_all e (escalation_candidates w) \<lparr>es_processed = 0, es_escalated = 0, es_completed = 0\<rparr> w
        = (st, w')"
      using run by (simp add: process_escalations_def)
  qed
  with run show ?thesis by simp
qed

definition sample_esc_state :: escalation_state where
  "sample_esc_state =
     \<lparr>et_id = 95, et_incident = 60, et_policy = 96, et_current_step_order = 0,
      et_last_escalated_at = None, et_completed = False, et_created_at = 0, et_updated_at = 0\<rparr>"

definition sample_step :: "nat \<Rightarrow> escalation_step" where
  "sample_step n =
     \<lparr>es_id = 100 + n, es_policy = 96, es_order = n, es_delay_minutes = 5, es_action = NotifyWebhook,
      es_webhook = None, es_user = None, es_target_severity = None, es_created_at = 0\<rparr>"

theorem escalation_spares_settled_witness:
  "sample_esc_state \<in> set (w_esc_states (snd (process_escalations sample_env
     (empty_world\<lparr>w_incidents := [sample_incident\<lparr>ic_acknowledged_at := Some 3\<rparr>],
                  w_esc_steps := [sample_step 1], w_esc_states := [sample_esc_state]\<rparr>))))"
  by (rule escalation_spares_settled [THEN conjunct1]) (simp_all add: escalation_tables_keyed_def)

text \<open>
  C11. One run on one incident refines the abstract machine \<open>esc_advance\<close>: the progress saved is
  what the machine computes from the steps, the trigger time and the clock, the escalation
  rows of all other incidents stay, and no lifecycle changes.
\<close>

theorem escalation_refines_machine:
  assumes "s \<in> set (w_esc_states w)" "\<not> et_completed s" "distinct (map et_id (w_esc_states w))"
  shows "w_esc_states (snd (escalate_one e i s w)) =
      map (\<lambda>r. if et_id r = et_id s
               then esc_advance (w_esc_steps w) (ic_triggered_at i) (e_now e) s else r) (w_esc_states w) \<and>
    map lifecycle (w_incidents (snd (escalate_one e i s w))) = map lifecycle (w_incidents w)"
proof -
  obtain r w' where one: "escalate_one e i s w = (r, w')" by force
  from escalate_one_refines [OF one assms(2,1,3)] one show ?thesis by (simp add: update_where_def)
qed

theorem escalation_refines_machine_witness:
  "w_esc_states (snd (escalate_one sample_env sample_incident sample_esc_state
     (empty_world\<lparr>w_esc_steps := [sample_step 1], w_esc_states := [sample_esc_state]\<rparr>))) =
   [sample_esc_state\<lparr>et_current_step_order := 1, et_last_escalated_at := Some (e_now sample_env),
                     et_completed := True, et_updated_at := e_now sample_env\<rparr>]"
  using escalation_refines_machine [of sample_esc_state
      "empty_world\<lparr>w_esc_steps := [sample_step 1], w_esc_states := [sample_esc_state]\<rparr>"
      sample_env sample_incident]
  by (simp add: sample_esc_state_def sample_step_def esc_advance_def next_step_def order_by_simps
      due_at_def sample_incident_def time_defs sample_env_def)

text \<open>Runs of the machine at the given times; a completed escalation is not run again.\<close>

definition esc_run ::
  "escalation_step list \<Rightarrow> datetime \<Rightarrow> datetime list \<Rightarrow> escalation_state \<Rightarrow> escalation_state" where
  "esc_run steps triggered ts s =
     foldl (\<lambda>s now. if et_completed s then s else esc_advance steps triggered now s) s ts"

lemma esc_run_snoc:
  "esc_run steps tr (ts @ [t]) s =
     (if et_completed (esc_run steps tr ts s) then esc_run steps tr ts s
      else esc_advance steps tr t (esc_run steps tr ts s))"
  by (simp add: esc_run_def)

lemma next_step_contiguous:
  assumes "\<forall>k. (\<exists>x \<in> set steps. es_policy x = et_policy s \<and> es_order x = k) \<longleftrightarrow> 1 \<le> k \<and> k \<le> n"
    and "et_current_step_order s < n"
  obtains x where "next_step steps s = Some x" "es_order x = Suc (et_current_step_order s)"
    "x \<in> set steps" "es_policy x = et_policy s"
proof (cases "next_step steps s")
  case None
  have "\<exists>x \<in> set steps. es_policy x = et_policy s \<and> es_order x = Suc (et_current_step_order s)"
    using assms by auto
  with None show ?thesis by (auto simp: next_step_def filter_empty_conv)
next
  case (Some x)
  with next_step_Some [OF Some] that show ?thesis by auto
qed



text \<open>
  A gap in the orders ends an escalation early: when a policy has no step right after the
  last one executed, the next run marks the escalation completed, whatever later steps the
  policy has; they are never executed. (After the step before the gap the same code had found
  that steps remain, and left the escalation open.)
\<close>

theorem escalation_gap_abandons:
  assumes "\<forall>x \<in> set steps. es_policy x = et_policy s \<longrightarrow> es_order x \<noteq> et_current_step_order s + 1"
    and "\<not> et_completed s"
  shows "et_completed (esc_run steps triggered (t # ts) s) \<and>
    et_current_step_order (esc_run steps triggered (t # ts) s) = et_current_step_order s"
proof -
  have none: "next_step steps s = None"
    using assms(1) by (auto simp: next_step_def filter_empty_conv)
  have "et_completed r \<Longrightarrow> esc_run steps triggered us r = r" for us r
    by (induction us) (auto simp: esc_run_def)
  then show ?thesis using none assms(2) by (simp add: esc_run_def esc_advance_def)
qed

theorem escalation_gap_abandons_witness:
  "let s = esc_run [sample_step 1, sample_step 3] 0 [minutes 5] sample_esc_state in
   \<not> et_completed s \<and> et_current_step_order s = 1 \<and>
   et_completed (esc_run [sample_step 1, sample_step 3] 0 [minutes 10] s) \<and>
   et_current_step_order (esc_run [sample_step 1, sample_step 3] 0 [minutes 10] s) = 1"
proof -
  let ?s = "esc_run [sample_step 1, sample_step 3] 0 [minutes 5] sample_esc_state"
  have s: "\<not> et_completed ?s" "et_current_step_order ?s = 1" "et_policy ?s = 96"
    by (simp_all add: esc_run_def esc_advance_def next_step_def order_by_simps due_at_def time_defs
        sample_step_def sample_esc_state_def)
  with escalation_gap_abandons [of "[sample_step 1, sample_step 3]" ?s 0 "minutes 10" "[]"]
  show ?thesis by (simp add: sample_step_def Let_def)
qed

section \<open>Timeline\<close>

text \<open>
  The timeline of an incident is chronological and complete: it is sorted by time, holds
  each audit entry and each note of this incident and no other exactly once, the trigger once,
  and the acknowledgement and the resolution exactly when they happened.
\<close>

theorem timeline_sorted_complete:
  "sorted (map event_at (build_timeline w i)) \<and>
   mset (build_timeline w i) =
     image_mset (\<lambda>l. TeAudit (al_created_at l) (al_action l) (al_actor_id l) (al_actor_type l) (al_new_value l))
       {#l \<in># mset (w_audit_logs w). al_resource_type l = ''Incident'' \<and> al_resource_id l = Some (ic_id i)#} +
     image_mset (\<lambda>n. TeNote (nt_created_at n) (nt_author n) (nt_content n) (nt_is_public n))
       {#n \<in># mset (w_notes w). nt_incident n = ic_id i#} +
     {#TeTriggered (ic_triggered_at i)#} +
     (case ic_acknowledged_at i of None \<Rightarrow> {#} | Some t \<Rightarrow> {#TeAcknowledged t (ic_acknowledged_by i)#}) +
     (case ic_resolved_at i of None \<Rightarrow> {#} | Some t \<Rightarrow> {#TeResolved t (ic_resolved_by i)#})"
  by (simp add: build_timeline_def timeline_events_def order_by_def split: option.splits)

end
