(* ===== verification/IncidentViews.thy ===== *)
theory IncidentViews
  imports ViewBase IncidentFacts
begin

text \<open>
  \<open>apps/incidents/views.py\<close>, \<open>views_escalation.py\<close> and the validation in \<open>serializers.py\<close>:
  states and severities, incidents with their lifecycle actions, notes, timeline and postmortem,
  escalation policies and workflow rules over HTTP.
\<close>

section \<open>States and severities\<close>

definition state_permission_map :: "(string \<times> string) list" where
  "state_permission_map =
     [(''list'', ''incident_state:read''), (''retrieve'', ''incident_state:read''),
      (''create'', ''incident_state:create''), (''update'', ''incident_state:update''),
      (''partial_update'', ''incident_state:update''), (''destroy'', ''incident_state:delete'')]"

definition state_queryset :: "world \<Rightarrow> request \<Rightarrow> incident_state list" where
  "state_queryset w rq =
     (case req_project rq of
        None \<Rightarrow> []
      | Some p \<Rightarrow> order_by st_order (filter (\<lambda>s. st_project s = pj_id p) (w_states w)))"

definition state_create ::
  "env \<Rightarrow> request \<Rightarrow> string \<Rightarrow> string \<Rightarrow> nat \<Rightarrow> bool \<Rightarrow> world \<Rightarrow> incident_state result \<times> world" where
  "state_create e rq name color ord resolved w =
     (case require_permission w state_permission_map ''create'' rq None of
        Inl x \<Rightarrow> (Raise x, w)
      | Inr _ \<Rightarrow>
          (case req_project rq of
             None \<Rightarrow> (Raise (TypeError ''no attribute project''), w)
           | Some p \<Rightarrow>
               if exists_row (\<lambda>s. st_project s = pj_id p \<and> st_name s = name) (w_states w)
               then (Raise (IntegrityError ''unique_incident_state_per_project''), w)
               else
                 (let s = \<lparr>st_id = w_next w, st_tenant = pj_tenant p, st_project = pj_id p,
                           st_name = name, st_color = color, st_order = ord,
                           st_is_resolved_state = resolved, st_is_system = False,
                           st_created_at = e_now e, st_updated_at = e_now e\<rparr>
                  in (Ok s, w\<lparr>w_states := w_states w @ [s], w_next := Suc (w_next w)\<rparr>))))"

definition state_update ::
  "env \<Rightarrow> request \<Rightarrow> uuid \<Rightarrow> string \<Rightarrow> string \<Rightarrow> nat \<Rightarrow> bool \<Rightarrow> world \<Rightarrow> incident_state result \<times> world" where
  "state_update e rq pk name color ord resolved w =
     (case require_permission w state_permission_map ''update'' rq None of
        Inl x \<Rightarrow> (Raise x, w)
      | Inr _ \<Rightarrow>
          (case get_object w state_permission_map ''update'' rq st_id (state_queryset w rq) pk of
             Inl x \<Rightarrow> (Raise x, w)
           | Inr s \<Rightarrow>
               if st_is_system s
               then (ValidationError ''System states cannot be modified. Create a custom state instead.'', w)
               else if exists_row (\<lambda>x. st_project x = st_project s \<and> st_name x = name \<and> st_id x \<noteq> st_id s)
                         (w_states w)
               then (Raise (IntegrityError ''unique_incident_state_per_project''), w)
               else
                 (let s' = s\<lparr>st_name := name, st_color := color, st_order := ord,
                             st_is_resolved_state := resolved, st_updated_at := e_now e\<rparr>
                  in (Ok s', w\<lparr>w_states := update_where (\<lambda>x. st_id x = st_id s) (\<lambda>_. s') (w_states w)\<rparr>))))"

text \<open>Incidents protect their state and their severity.\<close>

definition state_destroy :: "request \<Rightarrow> uuid \<Rightarrow> world \<Rightarrow> response result \<times> world" where
  "state_destroy rq pk w =
     (case require_permission w state_permission_map ''destroy'' rq None of
        Inl x \<Rightarrow> (Raise x, w)
      | Inr _ \<Rightarrow>
          (case get_object w state_permission_map ''destroy'' rq st_id (state_queryset w rq) pk of
             Inl x \<Rightarrow> (Raise x, w)
           | Inr s \<Rightarrow>
               if st_is_system s
               then (Ok (problem ''conflict'' ''Conflict'' 409 ''System states cannot be deleted.''), w)
               else if exists_row (\<lambda>i. ic_state i = st_id s) (w_incidents w)
               then (Raise (ProtectedError ''incidents''), w)
               else (Ok (Response 204 JNull),
                     w\<lparr>w_states := delete_where (\<lambda>x. st_id x = st_id s) (w_states w)\<rparr>)))"

definition severity_permission_map :: "(string \<times> string) list" where
  "severity_permission_map =
     [(''list'', ''incident_severity:read''), (''retrieve'', ''incident_severity:read''),
      (''create'', ''incident_severity:create''), (''update'', ''incident_severity:update''),
      (''partial_update'', ''incident_severity:update''), (''destroy'', ''incident_severity:delete'')]"

definition severity_queryset :: "world \<Rightarrow> request \<Rightarrow> incident_severity list" where
  "severity_queryset w rq =
     (case req_project rq of
        None \<Rightarrow> []
      | Some p \<Rightarrow> order_by sv_order (filter (\<lambda>s. sv_project s = pj_id p) (w_severities w)))"

definition severity_destroy :: "request \<Rightarrow> uuid \<Rightarrow> world \<Rightarrow> response result \<times> world" where
  "severity_destroy rq pk w =
     (case require_permission w severity_permission_map ''destroy'' rq None of
        Inl x \<Rightarrow> (Raise x, w)
      | Inr _ \<Rightarrow>
          (case get_object w severity_permission_map ''destroy'' rq sv_id (severity_queryset w rq) pk of
             Inl x \<Rightarrow> (Raise x, w)
           | Inr s \<Rightarrow>
               if sv_is_system s
               then (Ok (problem ''conflict'' ''Conflict'' 409 ''System severities cannot be deleted.''), w)
               else if exists_row (\<lambda>i. ic_severity i = sv_id s) (w_incidents w)
               then (Raise (ProtectedError ''incidents''), w)
               else (Ok (Response 204 JNull),
                     w\<lparr>w_severities := delete_where (\<lambda>x. sv_id x = sv_id s) (w_severities w),
                        w_esc_steps := update_where (\<lambda>x. es_target_severity x = Some (sv_id s))
                                         (\<lambda>x. x\<lparr>es_target_severity := None\<rparr>) (w_esc_steps w)\<rparr>)))"

section \<open>Incidents\<close>

definition incident_permission_map :: "(string \<times> string) list" where
  "incident_permission_map =
     [(''list'', ''incident:read''), (''retrieve'', ''incident:read''), (''create'', ''incident:create''),
      (''update'', ''incident:update''), (''partial_update'', ''incident:update''),
      (''destroy'', ''incident:delete''), (''acknowledge'', ''incident:acknowledge''),
      (''resolve'', ''incident:resolve''), (''assign'', ''incident:assign''),
      (''notes'', ''incident:read''), (''timeline'', ''incident:read''),
      (''postmortem'', ''incident:read'')]"

datatype http_method = GET | POST | PUT | PATCH | DELETE

text \<open>\<open>get_permissions\<close>: the mapped permission, stricter for writes under a shared URL.\<close>

definition incident_permission_for :: "string \<Rightarrow> http_method \<Rightarrow> (string \<times> string) list" where
  "incident_permission_for action meth =
     (if action = ''notes'' \<and> meth = POST then [(action, ''incident:update'')]
      else if action = ''timeline'' \<and> meth = POST then [(action, ''incident:update'')]
      else if action = ''postmortem'' \<and> (meth = POST \<or> meth = PUT) then [(action, ''incident:postmortem'')]
      else incident_permission_map)"

record incident_filters =
  if_state :: string
  if_severity :: string
  if_monitor :: "uuid option"
  if_assignee :: "uuid option"
  if_resolved :: string
  if_team_id :: "uuid option"

definition no_filters :: incident_filters where
  "no_filters = \<lparr>if_state = [], if_severity = [], if_monitor = None, if_assignee = None,
                 if_resolved = [], if_team_id = None\<rparr>"

definition incident_queryset :: "world \<Rightarrow> request \<Rightarrow> incident_filters \<Rightarrow> incident list" where
  "incident_queryset w rq params =
     (case req_project rq of
        None \<Rightarrow> []
      | Some p \<Rightarrow>
          (let qs = filter (\<lambda>i. ic_project i = pj_id p) (w_incidents w);
               qs1 = (if if_state params \<noteq> []
                      then filter (\<lambda>i. state_name_of w (ic_state i) = if_state params) qs else qs);
               qs2 = (if if_severity params \<noteq> []
                      then filter (\<lambda>i. severity_name_of w (ic_severity i) = if_severity params) qs1 else qs1);
               qs3 = (case if_monitor params of
                        Some m \<Rightarrow> filter (\<lambda>i. ic_monitor i = Some m) qs2 | None \<Rightarrow> qs2);
               qs4 = (case if_assignee params of
                        Some a \<Rightarrow> filter (\<lambda>i. ic_assigned_to i = Some a) qs3 | None \<Rightarrow> qs3);
               qs5 = (if if_resolved params \<noteq> []
                      then filter (\<lambda>i. state_is_resolved w (ic_state i) =
                                         (lower (if_resolved params) = ''true'')) qs4
                      else qs4)
           in order_by_desc ic_triggered_at
                (scope_queryset_by_team w ic_team qs5 rq (if_team_id params))))"

text \<open>\<open>IncidentSerializer.validate\<close>: severity and state must be of the request's project.\<close>

definition validate_incident :: "world \<Rightarrow> request \<Rightarrow> uuid option \<Rightarrow> uuid option \<Rightarrow> unit result" where
  "validate_incident w rq severity state =
     (case req_project rq of
        None \<Rightarrow> Ok ()
      | Some p \<Rightarrow>
          if (case severity of
                Some s \<Rightarrow> (case severity_of w s of Some x \<Rightarrow> sv_project x \<noteq> pj_id p | None \<Rightarrow> False)
              | None \<Rightarrow> False)
          then ValidationError ''Severity does not belong to this project.''
          else if (case state of
                     Some s \<Rightarrow> (case state_of w s of Some x \<Rightarrow> st_project x \<noteq> pj_id p | None \<Rightarrow> False)
                   | None \<Rightarrow> False)
          then ValidationError ''State does not belong to this project.''
          else Ok ())"

record incident_input =
  ii_title :: string
  ii_description :: string
  ii_severity :: uuid
  ii_state :: "uuid option"
  ii_monitor :: "uuid option"
  ii_assigned_to :: "uuid option"
  ii_team :: "uuid option"
  ii_team_null :: bool
  ii_visible :: bool

text \<open>\<open>perform_create\<close> after the payload is valid.\<close>

definition incident_create ::
  "env \<Rightarrow> request \<Rightarrow> incident_input \<Rightarrow> world \<Rightarrow> incident result \<times> world" where
  "incident_create e rq inp w =
     (case require_permission w incident_permission_map ''create'' rq None of
        Inl x \<Rightarrow> (Raise x, w)
      | Inr u \<Rightarrow>
          (case validate_incident w rq (Some (ii_severity inp)) (ii_state inp) of
             Inl x \<Rightarrow> (Raise x, w)
           | Inr _ \<Rightarrow>
               (case req_project rq of
                  None \<Rightarrow> (Raise (TypeError ''no attribute project''), w)
                | Some p \<Rightarrow>
                    (let state = (case ii_state inp of
                           Some s \<Rightarrow> Some s
                         | None \<Rightarrow> map_option st_id
                             (first_row (order_by st_order
                               (filter (\<lambda>s. st_project s = pj_id p \<and> st_name s = ''triggered'') (w_states w)))))
                     in case resolve_team_for_create w rq u (ii_team inp) None (ii_team_null inp) of
                          Inl x \<Rightarrow> (Raise x, w)
                        | Inr team \<Rightarrow>
                            (case state of
                               None \<Rightarrow> (Raise (IntegrityError ''state_id''), w)
                             | Some st \<Rightarrow>
                                 (let i = \<lparr>ic_id = w_next w, ic_tenant = pj_tenant p, ic_project = pj_id p,
                                           ic_team = team, ic_monitor = ii_monitor inp,
                                           ic_title = ii_title inp, ic_description = ii_description inp,
                                           ic_severity = ii_severity inp, ic_state = st,
                                           ic_assigned_to = ii_assigned_to inp,
                                           ic_triggered_at = e_now e, ic_acknowledged_at = None,
                                           ic_acknowledged_by = None, ic_resolved_at = None,
                                           ic_resolved_by = None,
                                           ic_is_visible_on_status_page = ii_visible inp,
                                           ic_created_at = e_now e, ic_updated_at = e_now e\<rparr>;
                                      w1 = on_incident_save e i True
                                             (w\<lparr>w_incidents := w_incidents w @ [i],
                                                w_next := Suc (w_next w)\<rparr>);
                                      (i2, w2) = emit_incident_created e i w1
                                  in (Ok i2, w2)))))))"

text \<open>The lookup every detail action starts with.\<close>

definition incident_get ::
  "world \<Rightarrow> request \<Rightarrow> string \<Rightarrow> http_method \<Rightarrow> uuid \<Rightarrow> (user \<times> incident) result" where
  "incident_get w rq action meth pk =
     bind_result (require_permission w (incident_permission_for action meth) action rq None) (\<lambda>u.
     bind_result (get_object w (incident_permission_for action meth) action rq ic_id
                    (incident_queryset w rq no_filters) pk) (\<lambda>i. Ok (u, i)))"

definition bad_request :: "string \<Rightarrow> response" where
  "bad_request detail = Response 400 (JObj [(''detail'', JStr detail)])"

definition incident_acknowledge :: "env \<Rightarrow> request \<Rightarrow> uuid \<Rightarrow> world \<Rightarrow> response result \<times> world" where
  "incident_acknowledge e rq pk w =
     (case incident_get w rq ''acknowledge'' POST pk of
        Inl x \<Rightarrow> (Raise x, w)
      | Inr (u, i) \<Rightarrow>
          if incident_is_resolved w i
          then (Ok (bad_request ''Cannot acknowledge a resolved incident.''), w)
          else
            (case acknowledge_incident e i (usr_id u) w of
               (Inl x, w') \<Rightarrow> (Raise x, w')
             | (Inr i', w') \<Rightarrow> (Ok (Response 200 (incident_json w' i')), w')))"

definition incident_resolve :: "env \<Rightarrow> request \<Rightarrow> uuid \<Rightarrow> world \<Rightarrow> response result \<times> world" where
  "incident_resolve e rq pk w =
     (case incident_get w rq ''resolve'' POST pk of
        Inl x \<Rightarrow> (Raise x, w)
      | Inr (u, i) \<Rightarrow>
          if incident_is_resolved w i
          then (Ok (bad_request ''Incident is already resolved.''), w)
          else
            (case resolve_incident e i (Some (usr_id u)) w of
               (Inl x, w') \<Rightarrow> (Raise x, w')
             | (Inr i', w') \<Rightarrow> (Ok (Response 200 (incident_json w' i')), w')))"

text \<open>The assignee may be any user of the system.\<close>

definition incident_assign :: "env \<Rightarrow> request \<Rightarrow> uuid \<Rightarrow> uuid \<Rightarrow> world \<Rightarrow> response result \<times> world" where
  "incident_assign e rq pk user_id w =
     (case incident_get w rq ''assign'' POST pk of
        Inl x \<Rightarrow> (Raise x, w)
      | Inr (_, i) \<Rightarrow>
          (case get_or_404 (user_of w user_id) of
             Inl x \<Rightarrow> (Raise x, w)
           | Inr assignee \<Rightarrow>
               (case assign_incident e i (usr_id assignee) w of
                  (i', w') \<Rightarrow> (Ok (Response 200 (incident_json w' i')), w'))))"

text \<open>\<open>AddNoteSerializer.validate\<close>: \<open>is_internal\<close> wins over \<open>is_public\<close>.\<close>

definition validate_note :: "bool option \<Rightarrow> bool option \<Rightarrow> bool" where
  "validate_note is_public is_internal =
     (if is_internal = Some True then False
      else case is_public of None \<Rightarrow> False | Some b \<Rightarrow> b)"

definition incident_add_note ::
  "env \<Rightarrow> request \<Rightarrow> uuid \<Rightarrow> string \<Rightarrow> bool option \<Rightarrow> bool option \<Rightarrow> world \<Rightarrow> incident_note result \<times> world" where
  "incident_add_note e rq pk content is_public is_internal w =
     (case incident_get w rq ''notes'' POST pk of
        Inl x \<Rightarrow> (Raise x, w)
      | Inr (u, i) \<Rightarrow>
          if strip content = [] then (ValidationError ''This field may not be blank.'', w)
          else
            (case add_note e i (Some (usr_id u)) (strip content) (validate_note is_public is_internal) w of
               (n, w') \<Rightarrow> (Ok n, w')))"

definition incident_timeline_post ::
  "env \<Rightarrow> request \<Rightarrow> uuid \<Rightarrow> string option \<Rightarrow> world \<Rightarrow> timeline_event list option result \<times> world" where
  "incident_timeline_post e rq pk message w =
     (case incident_get w rq ''timeline'' POST pk of
        Inl x \<Rightarrow> (Raise x, w)
      | Inr (u, i) \<Rightarrow>
          (let text = strip (case message of Some m \<Rightarrow> m | None \<Rightarrow> [])
           in if text = [] then (Ok None, w)
              else
                (case add_note e i (Some (usr_id u)) text False w of
                   (_, w') \<Rightarrow> (Ok (Some (build_timeline w' i)), w'))))"

section \<open>Postmortem\<close>

record postmortem_input =
  pi_summary :: "string option"
  pi_impact :: "string option"
  pi_root_cause :: "string option"
  pi_timeline :: "string option"
  pi_action_items :: "json option"
  pi_published_at :: "datetime option option"
  pi_publish :: bool

text \<open>\<open>validate_action_items\<close>: a text becomes the list of its non-blank lines.\<close>

definition validate_action_items :: "json \<Rightarrow> json" where
  "validate_action_items v =
     (case v of
        JStr s \<Rightarrow> JList (map JStr (filter (\<lambda>l. l \<noteq> []) (map strip (splitlines s))))
      | JNull \<Rightarrow> JList []
      | _ \<Rightarrow> v)"

definition apply_postmortem :: "env \<Rightarrow> postmortem_input \<Rightarrow> incident_postmortem \<Rightarrow> incident_postmortem" where
  "apply_postmortem e inp pm =
     pm\<lparr>pm_summary := given (pi_summary inp) (pm_summary pm),
        pm_impact := given (pi_impact inp) (pm_impact pm),
        pm_root_cause := given (pi_root_cause inp) (pm_root_cause pm),
        pm_timeline := given (pi_timeline inp) (pm_timeline pm),
        pm_action_items := given (map_option validate_action_items (pi_action_items inp)) (pm_action_items pm),
        pm_published_at := (if pi_publish inp then Some (e_now e)
                            else given (pi_published_at inp) (pm_published_at pm)),
        pm_updated_at := e_now e\<rparr>"

definition incident_postmortem_put ::
  "env \<Rightarrow> request \<Rightarrow> uuid \<Rightarrow> postmortem_input \<Rightarrow> world \<Rightarrow> (nat \<times> incident_postmortem) result \<times> world" where
  "incident_postmortem_put e rq pk inp w =
     (case incident_get w rq ''postmortem'' PUT pk of
        Inl x \<Rightarrow> (Raise x, w)
      | Inr (_, i) \<Rightarrow>
          (let (status, pm, w1) =
             (case find (\<lambda>x. pm_incident x = ic_id i) (w_postmortems w) of
                Some old \<Rightarrow>
                  (let pm = apply_postmortem e inp old
                   in (200::nat, pm,
                       w\<lparr>w_postmortems := update_where (\<lambda>x. pm_id x = pm_id old) (\<lambda>_. pm) (w_postmortems w)\<rparr>))
              | None \<Rightarrow>
                  (let pm = apply_postmortem e inp
                     \<lparr>pm_id = w_next w, pm_tenant = ic_tenant i, pm_incident = ic_id i,
                      pm_summary = [], pm_impact = [], pm_root_cause = [], pm_timeline = [],
                      pm_action_items = JList [], pm_published_at = None,
                      pm_created_at = e_now e, pm_updated_at = e_now e\<rparr>
                   in (201, pm, w\<lparr>w_postmortems := w_postmortems w @ [pm], w_next := Suc (w_next w)\<rparr>)))
           in (Ok (status, pm),
               if pm_published_at pm \<noteq> None
               then emit_incident e ''incident.postmortem_published'' i w1 else w1)))"

section \<open>Escalation policies and workflow rules\<close>

definition escalation_permission_map :: "(string \<times> string) list" where
  "escalation_permission_map =
     [(''list'', ''incident:read''), (''retrieve'', ''incident:read''), (''create'', ''incident:update''),
      (''update'', ''incident:update''), (''partial_update'', ''incident:update''),
      (''destroy'', ''incident:update''), (''steps'', ''incident:read''),
      (''add_step'', ''incident:update''), (''remove_step'', ''incident:update'')]"

definition escalation_policy_queryset ::
  "world \<Rightarrow> request \<Rightarrow> uuid option \<Rightarrow> escalation_policy list" where
  "escalation_policy_queryset w rq team_id =
     (case req_project rq of
        None \<Rightarrow> []
      | Some p \<Rightarrow>
          order_by ep_name
            (scope_queryset_by_team w ep_team
               (filter (\<lambda>x. ep_project x = pj_id p) (w_esc_policies w)) rq team_id))"

definition add_step ::
  "env \<Rightarrow> request \<Rightarrow> uuid \<Rightarrow> escalation_step \<Rightarrow> world \<Rightarrow> escalation_step result \<times> world" where
  "add_step e rq pk inp w =
     (case require_permission w escalation_permission_map ''add_step'' rq None of
        Inl x \<Rightarrow> (Raise x, w)
      | Inr _ \<Rightarrow>
          (case get_object w escalation_permission_map ''add_step'' rq ep_id
                  (escalation_policy_queryset w rq None) pk of
             Inl x \<Rightarrow> (Raise x, w)
           | Inr policy \<Rightarrow>
               if exists_row (\<lambda>x. es_policy x = ep_id policy \<and> es_order x = es_order inp) (w_esc_steps w)
               then (Raise (IntegrityError ''unique_escalation_step_order''), w)
               else
                 (let s = inp\<lparr>es_id := w_next w, es_policy := ep_id policy, es_created_at := e_now e\<rparr>
                  in (Ok s, w\<lparr>w_esc_steps := w_esc_steps w @ [s], w_next := Suc (w_next w)\<rparr>))))"

definition remove_step :: "request \<Rightarrow> uuid \<Rightarrow> uuid \<Rightarrow> world \<Rightarrow> response result \<times> world" where
  "remove_step rq pk step_id w =
     (case require_permission w escalation_permission_map ''remove_step'' rq None of
        Inl x \<Rightarrow> (Raise x, w)
      | Inr _ \<Rightarrow>
          (case get_object w escalation_permission_map ''remove_step'' rq ep_id
                  (escalation_policy_queryset w rq None) pk of
             Inl x \<Rightarrow> (Raise x, w)
           | Inr policy \<Rightarrow>
               (case get_or_404 (find (\<lambda>x. es_policy x = ep_id policy \<and> es_id x = step_id) (w_esc_steps w)) of
                  Inl x \<Rightarrow> (Raise x, w)
                | Inr s \<Rightarrow>
                    (Ok (Response 204 JNull),
                     w\<lparr>w_esc_steps := delete_where (\<lambda>x. es_id x = es_id s) (w_esc_steps w)\<rparr>))))"

text \<open>\<open>validate_actions\<close>: a list whose entries have a known type.\<close>

fun validate_action_list :: "json list \<Rightarrow> unit result" where
  "validate_action_list [] = Ok ()"
| "validate_action_list (a # as) =
     (case a of
        JObj kvs \<Rightarrow>
          (if field kvs ''type'' \<notin> {JStr ''webhook'', JStr ''assign'', JStr ''notify_user'', JStr ''increase_severity''}
           then ValidationError (''Unknown action type: '' @ py_str (field kvs ''type''))
           else validate_action_list as)
      | _ \<Rightarrow> Raise (TypeError ''no attribute get''))"

definition validate_actions :: "json \<Rightarrow> json list result" where
  "validate_actions v =
     (case v of
        JList xs \<Rightarrow> bind_result (validate_action_list xs) (\<lambda>_. Ok xs)
      | _ \<Rightarrow> ValidationError ''actions must be a list.'')"

section \<open>Properties\<close>

lemma incident_queryset_scoped:
  assumes "i \<in> set (incident_queryset w rq no_filters)"
  shows "\<exists>p u. req_project rq = Some p \<and> req_user rq = Some u \<and> i \<in> set (w_incidents w) \<and>
    ic_project i = pj_id p \<and>
    (user_sees_all_teams w u (pj_id p) \<or> ic_team i = None \<or>
     (\<exists>t \<in> set (get_user_team_ids w u (pj_id p)). ic_team i = Some t))"
  using assms
  by (cases "req_project rq"; cases "req_user rq")
    (auto simp: incident_queryset_def no_filters_def scope_queryset_by_team_def apply_team_param_def
      apply_team_scope_iff Let_def)

lemma incident_get_scoped:
  assumes "incident_get w rq action meth pk = Ok (u, i)"
  shows "ic_id i = pk \<and> i \<in> set (w_incidents w) \<and> req_user rq = Some u \<and>
    (\<exists>p. req_project rq = Some p \<and> ic_project i = pj_id p \<and>
      (user_sees_all_teams w u (pj_id p) \<or> ic_team i = None \<or>
       (\<exists>t \<in> set (get_user_team_ids w u (pj_id p)). ic_team i = Some t))) \<and>
    check_permissions w (incident_permission_for action meth) action rq (Some pk)"
proof -
  from assms have g: "get_object w (incident_permission_for action meth) action rq ic_id
      (incident_queryset w rq no_filters) pk = Ok i" and u: "req_user rq = Some u"
    by (auto simp: incident_get_def bind_result_Inr_iff require_permission_Ok_iff)
  from get_object_Ok [OF g] u show ?thesis by (auto dest: incident_queryset_scoped)
qed

text \<open>
  Changing an incident over HTTP takes the permission of the action and sight of the
  incident: when \<open>acknowledge\<close> or \<open>resolve\<close> changes anything at all, the caller is authenticated,
  passes the permission check for that action on this incident, the incident belongs to the
  request's project and to a team the caller may see, and it was not resolved before.
\<close>

theorem lifecycle_actions_guarded:
  assumes "snd (incident_acknowledge e rq pk w) \<noteq> w \<and> action = ''acknowledge'' \<or>
           snd (incident_resolve e rq pk w) \<noteq> w \<and> action = ''resolve''"
  shows "\<exists>i p u. i \<in> set (w_incidents w) \<and> ic_id i = pk \<and> req_project rq = Some p \<and>
    ic_project i = pj_id p \<and> req_user rq = Some u \<and> \<not> incident_is_resolved w i \<and>
    check_permissions w incident_permission_map action rq (Some pk) \<and>
    (user_sees_all_teams w u (pj_id p) \<or> ic_team i = None \<or>
     (\<exists>t \<in> set (get_user_team_ids w u (pj_id p)). ic_team i = Some t))"
proof -
  have m: "incident_permission_for a POST = incident_permission_map"
    if "a = ''acknowledge'' \<or> a = ''resolve''" for a
    using that by (auto simp: incident_permission_for_def)
  from assms obtain u i where
    g: "incident_get w rq action POST pk = Ok (u, i)" "\<not> incident_is_resolved w i"
      "action = ''acknowledge'' \<or> action = ''resolve''"
    by (auto simp: incident_acknowledge_def incident_resolve_def split: sum.splits prod.splits if_splits)
  from incident_get_scoped [OF g(1)] g(2) m [OF g(3)] show ?thesis by auto
qed

theorem lifecycle_actions_guarded_witness:
  "\<exists>i. ic_id i = 60 \<and> \<not> incident_is_resolved empty_world i \<and>
     check_permissions (empty_world\<lparr>w_incidents := [sample_incident],
       w_states := [mk_system_state (sample_env, 3, 1, ''#'', 3, False) (2, ''acknowledged'')]\<rparr>)
       incident_permission_map ''acknowledge''
       (sample_request\<lparr>req_user := Some (sample_user\<lparr>usr_is_superuser := True\<rparr>)\<rparr>) (Some 60)"
  (is "\<exists>i. _ \<and> _ \<and> check_permissions ?w _ _ ?rq _")
proof -
  have "incident_get ?w ?rq ''acknowledge'' POST 60 = Ok (sample_user\<lparr>usr_is_superuser := True\<rparr>, sample_incident)"
    by (simp add: incident_get_def require_permission_def check_permissions_def evaluate_def
        incident_permission_for_def incident_permission_map_def get_object_def incident_queryset_def
        no_filters_def scope_queryset_by_team_def apply_team_param_def apply_team_scope_def
        user_sees_all_teams_def sample_incident_def order_by_simps)
  then have "incident_acknowledge sample_env ?rq 60 ?w =
      (case acknowledge_incident sample_env sample_incident 5 ?w of
               (Inl x, w') \<Rightarrow> (Raise x, w')
             | (Inr i', w') \<Rightarrow> (Ok (Response 200 (incident_json w' i')), w'))"
    by (simp add: incident_acknowledge_def incident_is_resolved_def state_is_resolved_def state_of_def
        mk_system_state_def sample_incident_def)
  moreover have "w_incidents (snd (acknowledge_incident sample_env sample_incident 5 ?w)) \<noteq> w_incidents ?w"
    by (simp add: acknowledge_incident_def mk_system_state_def sample_incident_def order_by_simps Let_def)
  ultimately have "snd (incident_acknowledge sample_env ?rq 60 ?w) \<noteq> ?w"
    by (auto split: prod.splits sum.splits)
  from lifecycle_actions_guarded [of sample_env ?rq 60 ?w "''acknowledge''"] this show ?thesis
    by (auto simp: incident_is_resolved_def state_is_resolved_def state_of_def empty_world_def)
qed

end
