(* ===== verification/JsonLoads.thy ===== *)
theory JsonLoads
  imports Json
begin

text \<open>
  \<open>json.loads\<close> on texts of Latin-1 characters: objects, arrays, strings with their escapes,
  integers and the three literals. A number with a fraction or an exponent is outside the
  model's JSON (whose numbers are integers) and is rejected like malformed input. The fuel is
  the length of the text, which every recursive call shortens.
\<close>

definition json_space :: "char \<Rightarrow> bool" where
  "json_space c \<longleftrightarrow> c \<in> {CHR '' '', CHR 0x09, CHR 0x0A, CHR 0x0D}"

definition skip_ws :: "string \<Rightarrow> string" where
  "skip_ws s = dropWhile json_space s"

definition hex_val :: "char \<Rightarrow> nat option" where
  "hex_val c =
     (let n = (of_char c :: nat) in
      if 48 \<le> n \<and> n \<le> 57 then Some (n - 48)
      else if 97 \<le> n \<and> n \<le> 102 then Some (n - 87)
      else if 65 \<le> n \<and> n \<le> 70 then Some (n - 55)
      else None)"

definition simple_escape :: "char \<Rightarrow> char option" where
  "simple_escape c =
     map_of [(CHR 0x22, CHR 0x22), (CHR 0x5C, CHR 0x5C), (CHR ''/'', CHR ''/''),
             (CHR ''b'', CHR 0x08), (CHR ''f'', CHR 0x0C), (CHR ''n'', CHR 0x0A),
             (CHR ''r'', CHR 0x0D), (CHR ''t'', CHR 0x09)] c"

text \<open>\<open>\uXXXX\<close>, as far as it is a Latin-1 character.\<close>

definition unicode_escape :: "char \<Rightarrow> char \<Rightarrow> char \<Rightarrow> char \<Rightarrow> char option" where
  "unicode_escape a b c d =
     (case (hex_val a, hex_val b, hex_val c, hex_val d) of
        (Some 0, Some 0, Some x, Some y) \<Rightarrow> Some (char_of (16 * x + y))
      | _ \<Rightarrow> None)"

text \<open>The rest of a string after its opening quote: the characters, and what follows.\<close>

fun scan_string :: "string \<Rightarrow> (string \<times> string) option" where
  "scan_string [] = None"
| "scan_string (c # cs) =
     (if c = CHR 0x22 then Some ([], cs)
      else if c = CHR 0x5C then
        (case cs of
           [] \<Rightarrow> None
         | x # rest \<Rightarrow>
             (if x = CHR ''u'' then
                (case rest of
                   h1 # h2 # h3 # h4 # rest1 \<Rightarrow>
                     (case unicode_escape h1 h2 h3 h4 of
                        None \<Rightarrow> None
                      | Some ch \<Rightarrow> map_option (\<lambda>(s, r). (ch # s, r)) (scan_string rest1))
                 | _ \<Rightarrow> None)
              else
                (case simple_escape x of
                   None \<Rightarrow> None
                 | Some ch \<Rightarrow> map_option (\<lambda>(s, r). (ch # s, r)) (scan_string rest))))
      else if (of_char c :: nat) < 32 then None
      else map_option (\<lambda>(s, r). (c # s, r)) (scan_string cs))"

definition scan_nat :: "string \<Rightarrow> (nat \<times> string) option" where
  "scan_nat s =
     (let ds = takeWhile is_digit s; rest = dropWhile is_digit s in
      if ds = [] \<or> (hd ds = CHR ''0'' \<and> length ds > 1) then None
      else case rest of
             c # _ \<Rightarrow> (if c \<in> {CHR ''.'', CHR ''e'', CHR ''E''} then None else Some (nat_of_digits ds, rest))
           | [] \<Rightarrow> Some (nat_of_digits ds, rest))"

definition scan_int :: "string \<Rightarrow> (int \<times> string) option" where
  "scan_int s =
     (case s of
        c # cs \<Rightarrow> (if c = CHR ''-'' then map_option (\<lambda>(n, r). (- int n, r)) (scan_nat cs)
                   else map_option (\<lambda>(n, r). (int n, r)) (scan_nat s))
      | [] \<Rightarrow> None)"

text \<open>Later duplicates of a key win and keep the place of the first.\<close>

fun put_item :: "string \<Rightarrow> json \<Rightarrow> (string \<times> json) list \<Rightarrow> (string \<times> json) list" where
  "put_item k v [] = [(k, v)]"
| "put_item k v ((k', v') # d) = (if k = k' then (k, v) # d else (k', v') # put_item k v d)"

fun scan_value :: "nat \<Rightarrow> string \<Rightarrow> (json \<times> string) option"
and scan_list :: "nat \<Rightarrow> string \<Rightarrow> json list \<Rightarrow> (json \<times> string) option"
and scan_object :: "nat \<Rightarrow> string \<Rightarrow> (string \<times> json) list \<Rightarrow> (json \<times> string) option" where
  "scan_value 0 s = None"
| "scan_value (Suc n) s =
     (case skip_ws s of
        [] \<Rightarrow> None
      | c # cs \<Rightarrow>
          (if c = CHR 0x22 then map_option (\<lambda>(t, r). (JStr t, r)) (scan_string cs)
           else if c = CHR ''['' then
             (case skip_ws cs of
                d # ds \<Rightarrow> (if d = CHR '']'' then Some (JList [], ds) else scan_list n cs [])
              | [] \<Rightarrow> None)
           else if c = CHR ''{'' then
             (case skip_ws cs of
                d # ds \<Rightarrow> (if d = CHR ''}'' then Some (JObj [], ds) else scan_object n cs [])
              | [] \<Rightarrow> None)
           else if startswith (c # cs) ''null'' then Some (JNull, drop 4 (c # cs))
           else if startswith (c # cs) ''true'' then Some (JBool True, drop 4 (c # cs))
           else if startswith (c # cs) ''false'' then Some (JBool False, drop 5 (c # cs))
           else map_option (\<lambda>(i, r). (JInt i, r)) (scan_int (c # cs))))"
| "scan_list 0 s acc = None"
| "scan_list (Suc n) s acc =
     (case scan_value n s of
        None \<Rightarrow> None
      | Some (v, r) \<Rightarrow>
          (case skip_ws r of
             d # ds \<Rightarrow>
               (if d = CHR '','' then scan_list n ds (acc @ [v])
                else if d = CHR '']'' then Some (JList (acc @ [v]), ds) else None)
           | [] \<Rightarrow> None))"
| "scan_object 0 s acc = None"
| "scan_object (Suc n) s acc =
     (case skip_ws s of
        q # qs \<Rightarrow>
          (if q \<noteq> CHR 0x22 then None
           else
             (case scan_string qs of
                None \<Rightarrow> None
              | Some (k, r) \<Rightarrow>
                  (case skip_ws r of
                     c # cs \<Rightarrow>
                       (if c \<noteq> CHR '':'' then None
                        else
                          (case scan_value n cs of
                             None \<Rightarrow> None
                           | Some (v, r1) \<Rightarrow>
                               (case skip_ws r1 of
                                  d # ds \<Rightarrow>
                                    (if d = CHR '','' then scan_object n ds (put_item k v acc)
                                     else if d = CHR ''}'' then Some (JObj (put_item k v acc), ds)
                                     else None)
                                | [] \<Rightarrow> None)))
                   | [] \<Rightarrow> None)))
      | [] \<Rightarrow> None)"

definition json_loads :: "string \<Rightarrow> json option" where
  "json_loads s =
     (case scan_value (Suc (2 * length s)) s of
        Some (v, r) \<Rightarrow> (if skip_ws r = [] then Some v else None)
      | None \<Rightarrow> None)"

lemma json_loads_example:
  "json_loads ([CHR ''{'', CHR 0x22] @ ''a'' @ [CHR 0x22] @ '': [1, -20, null, true], '' @
     [CHR 0x22] @ ''b'' @ [CHR 0x22] @ '': '' @ [CHR 0x22] @ ''x'' @ [CHR 0x5C, CHR ''n'', CHR 0x22, CHR ''}'']) =
   Some (JObj [(''a'', JList [JInt 1, JInt (-20), JNull, JBool True]), (''b'', JStr [CHR ''x'', CHR 0x0A])])"
  by code_simp

end
