(* ===== verification/Calendar.thy ===== *)
theory Calendar
  imports Prelude
begin

text \<open>
  The proleptic Gregorian calendar of Python's \<open>datetime\<close> in UTC: an instant is a day number
  since 1970-01-01 and a time of day; a day number is a year, month and day. The lemmas give the
  round trip and the order of months, which the recurrence of maintenance windows rests on.
\<close>

definition day_us :: int where
  "day_us = 86400000000"

definition day_of :: "datetime \<Rightarrow> int" where
  "day_of t = t div day_us"

definition time_of :: "datetime \<Rightarrow> int" where
  "time_of t = t mod day_us"

text \<open>Monday is 0; 1970-01-01 was a Thursday.\<close>

definition weekday :: "datetime \<Rightarrow> int" where
  "weekday t = (day_of t + 3) mod 7"

definition is_leap :: "int \<Rightarrow> bool" where
  "is_leap y \<longleftrightarrow> y mod 4 = 0 \<and> (y mod 100 \<noteq> 0 \<or> y mod 400 = 0)"

text \<open>\<open>calendar.monthrange(year, month)[1]\<close>\<close>

definition month_length :: "int \<Rightarrow> int \<Rightarrow> int" where
  "month_length y m =
     (if m = 2 then (if is_leap y then 29 else 28)
      else if m = 4 \<or> m = 6 \<or> m = 9 \<or> m = 11 then 30 else 31)"

definition epoch_ordinal :: int where
  "epoch_ordinal = 719162"

text \<open>Days before the first of January of year \<open>y\<close>, counted from the year 1.\<close>

definition days_before_year :: "int \<Rightarrow> int" where
  "days_before_year y = (y - 1) * 365 + (y - 1) div 4 - (y - 1) div 100 + (y - 1) div 400"

fun days_before_month :: "int \<Rightarrow> nat \<Rightarrow> int" where
  "days_before_month y 0 = 0"
| "days_before_month y (Suc m) = days_before_month y m + month_length y (int m + 1)"

definition day_number :: "int \<Rightarrow> int \<Rightarrow> int \<Rightarrow> int" where
  "day_number y m d = days_before_year y + days_before_month y (nat (m - 1)) + d - 1 - epoch_ordinal"

definition year_of_ordinal :: "int \<Rightarrow> int" where
  "year_of_ordinal n =
     (let y = n * 400 div 146097 + 1 in if days_before_year (y + 1) \<le> n then y + 1 else y)"

text \<open>The last month whose start is not after the day of the year, among the first \<open>k + 1\<close>.\<close>

fun month_from :: "int \<Rightarrow> int \<Rightarrow> nat \<Rightarrow> nat" where
  "month_from y n 0 = 0"
| "month_from y n (Suc k) = (if days_before_month y (Suc k) \<le> n then Suc k else month_from y n k)"

definition civil :: "int \<Rightarrow> int \<times> int \<times> int" where
  "civil z =
     (let n = z + epoch_ordinal; y = year_of_ordinal n; r = n - days_before_year y;
          m = month_from y r 11
      in (y, int m + 1, r - days_before_month y m + 1))"

section \<open>Years\<close>

lemma div_pred:
  fixes y c :: int
  assumes "0 < c"
  shows "(y - 1) div c = y div c - (if y mod c = 0 then 1 else 0)"
proof (cases "y mod c = 0")
  case True
  then have y: "c * (y div c) = y" using mult_div_mod_eq [of c y] by linarith
  have "c * (y div c - 1) = c * (y div c) - c" by (simp add: right_diff_distrib)
  with y have "y - 1 = c * (y div c - 1) + (c - 1)" by linarith
  moreover have "0 \<le> c - 1" "c - 1 < c" using assms by simp_all
  ultimately have "(y - 1) div c = y div c - 1" by (rule int_div_pos_eq)
  with True show ?thesis by simp
next
  case False
  have "y - 1 = c * (y div c) + (y mod c - 1)" using mult_div_mod_eq [of c y] by simp
  moreover have "0 \<le> y mod c - 1" "y mod c - 1 < c"
    using False assms pos_mod_sign [of c y] pos_mod_bound [of c y] by linarith+
  ultimately have "(y - 1) div c = y div c" by (rule int_div_pos_eq)
  with False show ?thesis by simp
qed

lemma div_bounds:
  fixes y c :: int
  assumes "0 < c"
  shows "c * (y div c) \<le> y" "y < c * (y div c) + c"
  using assms mult_div_mod_eq [of c y] pos_mod_sign [of c y] pos_mod_bound [of c y] by linarith+

lemma days_before_year_lower: "146097 * (y - 1) - 699 \<le> 400 * days_before_year y"
proof -
  have bound: "146097 * u - 699 \<le> 400 * (u * 365 + a - b + c)"
    if "u < 4 * a + 4" "100 * b \<le> u" "u < 400 * c + 400" for u a b c :: int
  proof -
    have "400 * (u * 365 + a - b + c) = 146000 * u + 400 * a - 400 * b + 400 * c" by simp
    with that show ?thesis by linarith
  qed
  show ?thesis unfolding days_before_year_def by (rule bound; rule div_bounds; simp)
qed

lemma days_before_year_upper: "400 * days_before_year y \<le> 146097 * (y - 1) + 396"
proof -
  have bound: "400 * (u * 365 + a - b + c) \<le> 146097 * u + 396"
    if "4 * a \<le> u" "u < 100 * b + 100" "400 * c \<le> u" for u a b c :: int
  proof -
    have "400 * (u * 365 + a - b + c) = 146000 * u + 400 * a - 400 * b + 400 * c" by simp
    with that show ?thesis by linarith
  qed
  show ?thesis unfolding days_before_year_def by (rule bound; rule div_bounds; simp)
qed

lemma year_of_ordinal:
  "days_before_year (year_of_ordinal n) \<le> n" "n < days_before_year (year_of_ordinal n + 1)"
proof -
  define y where "y = n * 400 div 146097 + 1"
  have y: "y - 1 = n * 400 div 146097" by (simp add: y_def)
  have lo: "146097 * (y - 1) \<le> n * 400" and hi: "n * 400 < 146097 * (y - 1) + 146097"
    unfolding y by (rule div_bounds, simp)+
  have 1: "days_before_year y \<le> n" using days_before_year_upper [of y] lo by linarith
  have "146097 * (y + 1) - 699 \<le> 400 * days_before_year (y + 2)"
    using days_before_year_lower [of "y + 2"] by simp
  with hi have 2: "n < days_before_year (y + 2)" by (simp add: algebra_simps)
  have "year_of_ordinal n = (if days_before_year (y + 1) \<le> n then y + 1 else y)"
    by (simp add: year_of_ordinal_def y_def)
  with 1 2 show "days_before_year (year_of_ordinal n) \<le> n"
      "n < days_before_year (year_of_ordinal n + 1)"
    by (simp_all add: algebra_simps)
qed

lemma year_length:
  "days_before_year (y + 1) = days_before_year y + (if is_leap y then 366 else 365)"
proof -
  have "y mod 100 = 0" if "y mod 400 = 0"
  proof -
    have "(100::int) dvd 400" by simp
    with that show ?thesis by (meson dvd_trans mod_0_imp_dvd dvd_imp_mod_0)
  qed
  moreover have "y mod 4 = 0" if "y mod 100 = 0"
  proof -
    have "(4::int) dvd 100" by simp
    with that show ?thesis by (meson dvd_trans mod_0_imp_dvd dvd_imp_mod_0)
  qed
  ultimately show ?thesis
    by (auto simp: days_before_year_def is_leap_def div_pred)
qed

lemma days_before_month_12: "days_before_month y 12 = (if is_leap y then 366 else 365)"
  by (simp add: numeral_eq_Suc month_length_def)

lemma month_length_bounds: "28 \<le> month_length y m" "month_length y m \<le> 31"
  by (auto simp: month_length_def)

section \<open>Round trip\<close>

lemma month_from_le: "month_from y n k \<le> k"
  by (induction k) auto

lemma month_from_start: "0 \<le> n \<Longrightarrow> days_before_month y (month_from y n k) \<le> n"
  by (induction k) auto

lemma month_from_end:
  "n < days_before_month y (Suc k) \<Longrightarrow> n < days_before_month y (Suc (month_from y n k))"
  by (induction k) auto

lemma civil_valid:
  assumes "civil z = (y, m, d)"
  shows "1 \<le> m" "m \<le> 12" "1 \<le> d" "d \<le> month_length y m" "day_number y m d = z"
proof -
  define r where "r = z + epoch_ordinal - days_before_year y"
  define k where "k = month_from y r 11"
  from assms have y: "y = year_of_ordinal (z + epoch_ordinal)"
    and m: "m = int k + 1" and d: "d = r - days_before_month y k + 1"
    by (auto simp: civil_def Let_def r_def k_def)
  from year_of_ordinal [of "z + epoch_ordinal"] y have r: "0 \<le> r" "r < days_before_month y 12"
    unfolding days_before_month_12 by (auto simp: r_def year_length)
  have k: "k \<le> 11" by (simp add: k_def month_from_le)
  have start: "days_before_month y k \<le> r" using month_from_start [OF r(1)] by (simp add: k_def)
  have stop: "r < days_before_month y (Suc k)"
    using month_from_end [of r y 11] r(2) by (simp add: k_def eval_nat_numeral)
  show "1 \<le> m" "m \<le> 12" using m k by auto
  show "1 \<le> d" "d \<le> month_length y m" using d m start stop by auto
  show "day_number y m d = z" using m d by (simp add: day_number_def r_def)
qed

section \<open>Months in order\<close>

text \<open>The first day of the month number \<open>k\<close> (counted from January of the year 1).\<close>

definition month_start :: "int \<Rightarrow> int" where
  "month_start k = day_number (k div 12 + 1) (k mod 12 + 1) 1"

lemma day_number_month: "day_number y m d = day_number y m 1 + d - 1"
  by (simp add: day_number_def)

lemma month_index:
  fixes a b :: int
  assumes "0 \<le> b" "b < 12"
  shows "(12 * a + b) div 12 = a" "(12 * a + b) mod 12 = b"
  using assms by (auto simp: div_add1_eq mod_add_eq)

lemma next_index:
  fixes k :: int
  assumes "k mod 12 = 11"
  shows "(k + 1) div 12 = k div 12 + 1" "(k + 1) mod 12 = 0"
proof -
  have "k + 1 = 12 * (k div 12 + 1) + 0" using mult_div_mod_eq [of 12 k] assms by simp
  then show "(k + 1) div 12 = k div 12 + 1" "(k + 1) mod 12 = 0" by (simp_all only: month_index)
qed

lemma same_year_index:
  fixes k :: int
  assumes "k mod 12 \<noteq> 11"
  shows "(k + 1) div 12 = k div 12" "(k + 1) mod 12 = k mod 12 + 1"
proof -
  have k: "k + 1 = 12 * (k div 12) + (k mod 12 + 1)" using mult_div_mod_eq [of 12 k] by simp
  have "0 \<le> k mod 12" "k mod 12 < 12" by simp_all
  with assms have "0 \<le> k mod 12 + 1" "k mod 12 + 1 < 12" by linarith+
  note idx = month_index [OF this, of "k div 12"]
  show "(k + 1) div 12 = k div 12" by (subst k) (rule idx(1))
  show "(k + 1) mod 12 = k mod 12 + 1" by (subst k) (rule idx(2))
qed

lemma month_start_Suc:
  "month_start (k + 1) = month_start k + month_length (k div 12 + 1) (k mod 12 + 1)"
proof (cases "k mod 12 = 11")
  case True
  have next_month: "(k + 1) div 12 = k div 12 + 1" "(k + 1) mod 12 = 0"
    by (rule next_index, fact True)+
  let ?y = "k div 12 + 1"
  have "month_start (k + 1) = days_before_year (?y + 1) - epoch_ordinal"
    unfolding month_start_def next_month by (simp add: day_number_def)
  moreover have "month_start k = days_before_year ?y + days_before_month ?y 11 - epoch_ordinal"
    unfolding month_start_def True by (simp add: day_number_def)
  moreover have "days_before_month ?y 12 = days_before_month ?y 11 + month_length ?y 12"
    using days_before_month.simps(2) [of ?y 11] by simp
  ultimately show ?thesis
    unfolding True using year_length [of ?y] days_before_month_12 [of ?y] by simp
next
  case False
  have 1: "(k + 1) div 12 = k div 12" "(k + 1) mod 12 = k mod 12 + 1"
    by (rule same_year_index, fact False)+
  have "0 \<le> k mod 12" by simp
  then have "nat (1 + k mod 12) = Suc (nat (k mod 12))" by simp
  then show ?thesis unfolding month_start_def 1 by (simp add: day_number_def)
qed

lemma month_start_add: "month_start k + 28 * int n \<le> month_start (k + int n)"
proof (induction n)
  case (Suc n)
  have "month_start (k + int (Suc n)) = month_start (k + int n + 1)" by (simp add: algebra_simps)
  also have "\<dots> \<ge> month_start (k + int n) + 28"
    using month_length_bounds(1) by (simp add: month_start_Suc)
  finally show ?case using Suc by simp
qed simp

lemma month_start_mono: "j \<le> k \<Longrightarrow> month_start j \<le> month_start k"
  using month_start_add [of j "nat (k - j)"] by simp

text \<open>A day of an earlier month comes before every day of a later one.\<close>

lemma day_number_later_month:
  assumes "12 * (y - 1) + (m - 1) < 12 * (y' - 1) + (m' - 1)" "1 \<le> m" "m \<le> 12" "1 \<le> m'" "m' \<le> 12"
    and "d \<le> month_length y m" "1 \<le> d'"
  shows "day_number y m d < day_number y' m' d'"
proof -
  have idx: "(12 * (a - 1) + (b - 1)) div 12 + 1 = a" "(12 * (a - 1) + (b - 1)) mod 12 + 1 = b"
    if "1 \<le> b" "b \<le> 12" for a b :: int
    using that by (simp_all only: month_index)
  define k where "k = 12 * (y - 1) + (m - 1)"
  define k' where "k' = 12 * (y' - 1) + (m' - 1)"
  have k: "k div 12 + 1 = y" "k mod 12 + 1 = m" and k': "k' div 12 + 1 = y'" "k' mod 12 + 1 = m'"
    unfolding k_def k'_def using idx assms(2-5) by auto
  have "day_number y m d \<le> month_start k + month_length y m - 1"
    using assms(6) day_number_month [of y m d] unfolding month_start_def k by linarith
  moreover have "month_start (k + 1) = month_start k + month_length y m"
    using month_start_Suc [of k] unfolding k .
  moreover have "month_start (k + 1) \<le> month_start k'"
    using assms(1) unfolding k_def k'_def by (intro month_start_mono) simp
  moreover have "month_start k' \<le> day_number y' m' d'"
    using assms(7) day_number_month [of y' m' d'] unfolding month_start_def k' by linarith
  ultimately show ?thesis by linarith
qed

lemma split_instant: "day_of t * day_us + time_of t = t"
  by (simp add: day_of_def time_of_def)

lemma time_of_bounds: "0 \<le> time_of t" "time_of t < day_us"
  by (simp_all add: time_of_def day_us_def)

lemma combine_day_time [simp]:
  "0 \<le> s \<Longrightarrow> s < day_us \<Longrightarrow> day_of (z * day_us + s) = z"
  "0 \<le> s \<Longrightarrow> s < day_us \<Longrightarrow> time_of (z * day_us + s) = s"
  by (simp_all add: day_of_def time_of_def)

end
