(* ===== verification/Maintenance.thy ===== *)
theory Maintenance
  imports Calendar Incidents
begin

text \<open>
  \<open>apps/maintenance/services.py\<close>: which windows are in progress, which monitors and status pages
  they concern, and when a recurring window takes place next. Weekdays are the integers of the
  JSON list; years past Python's 9999 are not cut off.
\<close>

section \<open>Windows and what they cover\<close>

definition active_maintenances :: "world \<Rightarrow> uuid option \<Rightarrow> scheduled_maintenance list" where
  "active_maintenances w project =
     (let qs = filter (\<lambda>m. sm_status m = MInProgress) (w_maintenances w)
      in case project of None \<Rightarrow> qs | Some p \<Rightarrow> filter (\<lambda>m. sm_project m = p) qs)"

definition maintenance_covers_monitor :: "scheduled_maintenance \<Rightarrow> monitor \<Rightarrow> bool" where
  "maintenance_covers_monitor m mo =
     (if sm_monitors m = [] then sm_project m = mo_project mo
      else mo_id mo \<in> set (sm_monitors m))"

definition is_monitor_under_maintenance :: "world \<Rightarrow> monitor \<Rightarrow> bool" where
  "is_monitor_under_maintenance w mo =
     exists_row (\<lambda>m. mo_id mo \<in> set (sm_monitors m) \<or> length (sm_monitors m) = 0)
       (active_maintenances w (Some (mo_project mo)))"

definition monitors_for_maintenance :: "world \<Rightarrow> scheduled_maintenance \<Rightarrow> monitor list" where
  "monitors_for_maintenance w m =
     (let linked = filter (\<lambda>mo. mo_id mo \<in> set (sm_monitors m)) (w_monitors w)
      in order_by mo_name
           (if linked \<noteq> [] then linked
            else filter (\<lambda>mo. mo_project mo = sm_project m \<and> \<not> mo_is_paused mo \<and> mo_status mo \<noteq> Disabled)
                   (w_monitors w)))"

definition page_monitor_ids :: "world \<Rightarrow> uuid \<Rightarrow> uuid list" where
  "page_monitor_ids w page =
     concat (map (\<lambda>r. case sr_monitor r of Some i \<Rightarrow> [i] | None \<Rightarrow> [])
       (filter (\<lambda>r. sr_status_page r = page) (w_page_resources w)))"

definition visible_maintenances_for_status_page ::
  "world \<Rightarrow> status_page \<Rightarrow> scheduled_maintenance list" where
  "visible_maintenances_for_status_page w page =
     order_by_desc sm_starts_at
       (filter (\<lambda>m. sm_project m = sp_project page \<and> sm_status m = MInProgress \<and>
                    sm_is_visible_on_status_page m \<and>
                    (length (sm_monitors m) = 0 \<or>
                     (\<exists>i \<in> set (sm_monitors m). i \<in> set (page_monitor_ids w (sp_id page)))))
          (w_maintenances w))"

definition status_pages_for_maintenance :: "world \<Rightarrow> scheduled_maintenance \<Rightarrow> status_page list" where
  "status_pages_for_maintenance w m =
     (let pages = filter (\<lambda>p. sp_project p = sm_project m \<and> sp_is_public p) (w_status_pages w);
          in_project = (\<lambda>pid. \<exists>p \<in> set (w_status_pages w). sp_id p = pid \<and> sp_project p = sm_project m);
          page_ids = distinct_values (map sr_status_page
            (filter (\<lambda>r. in_project (sr_status_page r) \<and>
                         (case sr_monitor r of Some i \<Rightarrow> i \<in> set (sm_monitors m) | None \<Rightarrow> False))
               (w_page_resources w)))
      in order_by sp_name
           (if sm_monitors m = [] then pages
            else filter (\<lambda>p. sp_id p \<in> set page_ids) pages))"

definition maintenance_json :: "world \<Rightarrow> scheduled_maintenance \<Rightarrow> json" where
  "maintenance_json w m = JObj
     [(''id'', JUuid (sm_id m)), (''title'', JStr (sm_title m)),
      (''description'', JStr (sm_description m)),
      (''starts_at'', JTime (sm_starts_at m)), (''ends_at'', JTime (sm_ends_at m)),
      (''monitors'', JList (map JUuid (sm_monitors m))),
      (''status'', JStr (maintenance_status_value (sm_status m))),
      (''is_visible_on_status_page'', JBool (sm_is_visible_on_status_page m)),
      (''notify_subscribers'', JBool (sm_notify_subscribers m)),
      (''recurrence_frequency'', JStr (recurrence_frequency_value (sm_recurrence_frequency m))),
      (''recurrence_interval'', JInt (int (sm_recurrence_interval m))),
      (''recurrence_weekdays'', JList (map JInt (sm_recurrence_weekdays m))),
      (''recurrence_until'', json_opt_time (sm_recurrence_until m)),
      (''series_id'', json_opt_uuid (sm_series_id m)),
      (''team_id'', json_opt_uuid (sm_team m)), (''team_name'', team_name_json w (sm_team m)),
      (''created_at'', JTime (sm_created_at m)), (''updated_at'', JTime (sm_updated_at m))]"

definition emit_maintenance_webhook ::
  "env \<Rightarrow> string \<Rightarrow> scheduled_maintenance \<Rightarrow> world \<Rightarrow> world" where
  "emit_maintenance_webhook e event_type m w =
     webhook_emit e (sm_tenant m) (sm_project m) event_type
       (JObj [(''scheduled_maintenance'', maintenance_json w m)]) w"

section \<open>Recurrence\<close>

definition add_months :: "datetime \<Rightarrow> int \<Rightarrow> datetime" where
  "add_months dt months =
     (case civil (day_of dt) of
        (y, m, d) \<Rightarrow>
          (let month_index = m - 1 + months;
               year = y + month_index div 12;
               month = month_index mod 12 + 1;
               day = min d (month_length year month)
           in day_number year month day * day_us + time_of dt))"

text \<open>The loop over at most \<open>n\<close> candidate days.\<close>

fun next_weekday :: "nat \<Rightarrow> int list \<Rightarrow> datetime \<Rightarrow> datetime \<Rightarrow> datetime option" where
  "next_weekday 0 weekdays current candidate = None"
| "next_weekday (Suc n) weekdays current candidate =
     (if weekday candidate \<in> set weekdays \<and> current < candidate
      then Some (day_of candidate * day_us + time_of current)
      else next_weekday n weekdays current (candidate + days 1))"

definition next_recurrence_start :: "scheduled_maintenance \<Rightarrow> datetime option" where
  "next_recurrence_start m =
     (let interval = max 1 (int (if sm_recurrence_interval m = 0 then 1 else sm_recurrence_interval m));
          current = sm_starts_at m
      in case sm_recurrence_frequency m of
           RecDaily \<Rightarrow> Some (current + days interval)
         | RecWeekly \<Rightarrow>
             (let weekdays = (if sm_recurrence_weekdays m = [] then [weekday current]
                              else sm_recurrence_weekdays m)
              in case next_weekday 366 weekdays current (current + days 1) of
                   Some t \<Rightarrow> Some t
                 | None \<Rightarrow> Some (current + days (7 * interval)))
         | RecMonthly \<Rightarrow> Some (add_months current interval)
         | RecNone \<Rightarrow> None)"

text \<open>The guards of \<open>schedule_next_occurrence\<close>: the start of the next window, if there is one.\<close>

definition next_window :: "datetime \<Rightarrow> scheduled_maintenance \<Rightarrow> datetime option" where
  "next_window now m =
     (if sm_recurrence_frequency m = RecNone then None
      else if (case sm_recurrence_until m of Some u \<Rightarrow> u \<le> now | None \<Rightarrow> False) then None
      else (case next_recurrence_start m of
              None \<Rightarrow> None
            | Some t \<Rightarrow> (if (case sm_recurrence_until m of Some u \<Rightarrow> u \<le> t | None \<Rightarrow> False)
                         then None else Some t)))"

definition save_maintenance ::
  "(scheduled_maintenance \<Rightarrow> scheduled_maintenance) \<Rightarrow> datetime \<Rightarrow> uuid \<Rightarrow> world \<Rightarrow> world" where
  "save_maintenance put now i w =
     w\<lparr>w_maintenances := update_where (\<lambda>r. sm_id r = i) (\<lambda>r. put r\<lparr>sm_updated_at := now\<rparr>) (w_maintenances w)\<rparr>"

definition ensure_series_id ::
  "env \<Rightarrow> scheduled_maintenance \<Rightarrow> world \<Rightarrow> uuid \<times> scheduled_maintenance \<times> world" where
  "ensure_series_id e m w =
     (case sm_series_id m of
        Some s \<Rightarrow> (s, m, w)
      | None \<Rightarrow>
          (let sid = w_next w
           in (sid, m\<lparr>sm_series_id := Some sid, sm_updated_at := e_now e\<rparr>,
               save_maintenance (\<lambda>r. r\<lparr>sm_series_id := Some sid\<rparr>) (e_now e) (sm_id m)
                 (w\<lparr>w_next := Suc (w_next w)\<rparr>))))"

definition schedule_next_occurrence ::
  "env \<Rightarrow> scheduled_maintenance \<Rightarrow> world \<Rightarrow> scheduled_maintenance option \<times> world" where
  "schedule_next_occurrence e m w =
     (case next_window (e_now e) m of
        None \<Rightarrow> (None, w)
      | Some next_start \<Rightarrow>
          (let duration = sm_ends_at m - sm_starts_at m;
               (series_id, m1, w1) = ensure_series_id e m w;
               next_end = next_start + duration;
               clone = \<lparr>sm_id = w_next w1, sm_tenant = sm_tenant m1, sm_project = sm_project m1,
                        sm_team = sm_team m1, sm_title = sm_title m1,
                        sm_description = sm_description m1, sm_starts_at = next_start,
                        sm_ends_at = next_end, sm_monitors = sm_monitors m1,
                        sm_status = MScheduled,
                        sm_is_visible_on_status_page = sm_is_visible_on_status_page m1,
                        sm_notify_subscribers = sm_notify_subscribers m1,
                        sm_recurrence_frequency = sm_recurrence_frequency m1,
                        sm_recurrence_interval = sm_recurrence_interval m1,
                        sm_recurrence_weekdays = sm_recurrence_weekdays m1,
                        sm_recurrence_until = sm_recurrence_until m1,
                        sm_series_id = Some series_id,
                        sm_created_at = e_now e, sm_updated_at = e_now e\<rparr>
           in (Some clone, w1\<lparr>w_maintenances := w_maintenances w1 @ [clone], w_next := Suc (w_next w1)\<rparr>)))"

end
