(* ===== verification/Checks.thy ===== *)
theory Checks
  imports World JsonLoads
begin

text \<open>
  \<open>apps/monitoring/services/checks.py\<close>: one check of a monitor, by type. What the operating
  system answers (sockets, TLS, DNS, \<open>ping\<close>, \<open>dig\<close>) is the record \<open>net\<close>; HTTP answers come from the
  environment. A check returns status, HTTP code, duration and message, or raises what the code
  does not catch.
\<close>

type_synonym check_outcome = "check_status \<times> int option \<times> int option \<times> string"

datatype socket_outcome = SockOk | SockTimeout | SockError string

datatype dns_outcome = DnsAddresses "string list" | DnsGaiError string | DnsError string

datatype dig_outcome = DigExit int string string | DigError string

record certificate =
  cert_not_after :: "datetime option"
  cert_san :: "string list"
  cert_cn :: "string option"

datatype tls_outcome = TlsCert certificate | TlsSslError string | TlsOsError string

datatype ping_outcome = PingExit int string string | PingMissing | PingTimeout

record net =
  n_tcp :: "string \<Rightarrow> int \<Rightarrow> nat \<Rightarrow> socket_outcome"
  n_udp :: "string \<Rightarrow> int \<Rightarrow> string \<Rightarrow> bool \<Rightarrow> nat \<Rightarrow> socket_outcome"
  n_addresses :: "string \<Rightarrow> dns_outcome"
  n_dig :: "string \<Rightarrow> string \<Rightarrow> dig_outcome"
  n_tls :: "string \<Rightarrow> int \<Rightarrow> nat \<Rightarrow> tls_outcome"
  n_ping :: "string \<Rightarrow> nat \<Rightarrow> ping_outcome"
  n_ms :: "string \<Rightarrow> int"

definition http_timeout_hard :: nat where
  "http_timeout_hard = 60"

definition check_timeout :: "monitor \<Rightarrow> nat" where
  "check_timeout m = min (mo_timeout_seconds m) http_timeout_hard"

section \<open>Criteria\<close>

text \<open>\<open>monitor.criteria or {}\<close> and \<open>d.get\<close>; a rule that is no dict raises.\<close>

definition rule_items :: "json \<Rightarrow> (string \<times> json) list result" where
  "rule_items v =
     (case v of JObj kvs \<Rightarrow> Ok kvs | _ \<Rightarrow> Raise (TypeError ''no attribute get''))"

definition json_number :: "json \<Rightarrow> int result" where
  "json_number v =
     (case v of
        JInt i \<Rightarrow> Ok i
      | JBool b \<Rightarrow> Ok (if b then 1 else 0)
      | _ \<Rightarrow> Raise (TypeError ''not comparable''))"

text \<open>\<open>actual == val\<close> of a number and a JSON value: \<open>True\<close> and \<open>1\<close> are equal.\<close>

definition num_eq :: "int \<Rightarrow> json \<Rightarrow> bool" where
  "num_eq n v = (case json_number v of Inr i \<Rightarrow> n = i | Inl _ \<Rightarrow> False)"

definition str_within :: "json \<Rightarrow> string \<Rightarrow> bool result" where
  "str_within v body =
     (case v of JStr s \<Rightarrow> Ok (str_contains s body) | _ \<Rightarrow> Raise (TypeError ''requires string''))"

text \<open>\<open>None\<close>: the rule passes; \<open>Some reason\<close>: it fails.\<close>

definition status_rule :: "json \<Rightarrow> int \<Rightarrow> string option result" where
  "status_rule rule actual =
     (if \<not> truthy rule then Ok None
      else
        bind_result (rule_items rule) (\<lambda>d.
          let op = dict_get_or d ''operator'' (JStr ''equals''); val = dict_get_or d ''value'' (JInt 200)
          in if op = JStr ''equals'' then
               Ok (if \<not> num_eq actual val
                   then Some (''status_code '' @ string_of_int actual @ '' != '' @ py_str val) else None)
             else if op = JStr ''not_equals'' then
               Ok (if num_eq actual val
                   then Some (''status_code '' @ string_of_int actual @ '' == '' @ py_str val
                              @ '' (not_equals failed)'') else None)
             else if op = JStr ''lt'' then
               bind_result (json_number val) (\<lambda>v. Ok
                 (if v \<le> actual then Some (''status_code '' @ string_of_int actual @ '' >= '' @ py_str val)
                  else None))
             else if op = JStr ''gt'' then
               bind_result (json_number val) (\<lambda>v. Ok
                 (if actual \<le> v then Some (''status_code '' @ string_of_int actual @ '' <= '' @ py_str val)
                  else None))
             else Ok None))"

definition body_rule :: "json \<Rightarrow> string \<Rightarrow> string option result" where
  "body_rule rule body =
     (if \<not> truthy rule then Ok None
      else
        bind_result (rule_items rule) (\<lambda>d.
          let op = dict_get_or d ''operator'' (JStr ''contains''); val = dict_get_or d ''value'' (JStr [])
          in if op = JStr ''contains'' then
               bind_result (str_within val body) (\<lambda>inside. Ok
                 (if \<not> inside then Some (''body does not contain '' @ py_str val) else None))
             else if op = JStr ''not_contains'' then
               bind_result (str_within val body) (\<lambda>inside. Ok
                 (if inside then Some (''body contains '' @ py_str val @ '' (not_contains failed)'') else None))
             else if op = JStr ''equals'' then
               Ok (if JStr body \<noteq> val then Some ''body does not match expected value'' else None)
             else Ok None))"

definition time_rule :: "json \<Rightarrow> int \<Rightarrow> string option result" where
  "time_rule rule ms =
     (if \<not> truthy rule then Ok None
      else
        bind_result (rule_items rule) (\<lambda>d.
          let op = dict_get_or d ''operator'' (JStr ''lt''); val = dict_get_or d ''value'' (JInt 2000)
          in if op = JStr ''lt'' then
               bind_result (json_number val) (\<lambda>v. Ok
                 (if v \<le> ms then Some (''response_time '' @ string_of_int ms @ ''ms >= '' @ py_str val @ ''ms'')
                  else None))
             else if op = JStr ''lte'' then
               bind_result (json_number val) (\<lambda>v. Ok
                 (if v < ms then Some (''response_time '' @ string_of_int ms @ ''ms > '' @ py_str val @ ''ms'')
                  else None))
             else Ok None))"

definition evaluate_criteria :: "int \<Rightarrow> string \<Rightarrow> int \<Rightarrow> json \<Rightarrow> (bool \<times> string) result" where
  "evaluate_criteria code text duration_ms criteria =
     (if \<not> truthy criteria then Ok (True, [])
      else
        bind_result (rule_items criteria) (\<lambda>c.
        bind_result (status_rule (dict_get_or c ''response_status_code'' JNull) code) (\<lambda>r1.
          case r1 of Some reason \<Rightarrow> Ok (False, reason)
          | None \<Rightarrow>
              bind_result (body_rule (dict_get_or c ''response_body'' JNull) text) (\<lambda>r2.
                case r2 of Some reason \<Rightarrow> Ok (False, reason)
                | None \<Rightarrow>
                    bind_result (time_rule (dict_get_or c ''response_time_ms'' JNull) duration_ms) (\<lambda>r3.
                      case r3 of Some reason \<Rightarrow> Ok (False, reason) | None \<Rightarrow> Ok (True, []))))))"

section \<open>HTTP\<close>

text \<open>A header value that is no string makes \<open>requests\<close> raise.\<close>

definition json_is_str :: "json \<Rightarrow> bool" where
  "json_is_str v = (case v of JStr _ \<Rightarrow> True | _ \<Rightarrow> False)"

definition http_check_request :: "monitor \<Rightarrow> http_request" where
  "http_check_request m =
     \<lparr>hr_method = (if mo_method m \<noteq> [] then mo_method m else ''GET''), hr_url = mo_url m,
      hr_headers = map (\<lambda>kv. (fst kv, py_str (snd kv))) (mo_headers m),
      hr_body = (if mo_body m \<noteq> [] then Some (mo_body m) else None),
      hr_timeout = check_timeout m\<rparr>"

definition run_http_check :: "env \<Rightarrow> monitor \<Rightarrow> check_outcome" where
  "run_http_check e m =
     (let rq = http_check_request m; duration_ms = e_http_ms e rq
      in if \<not> list_all (\<lambda>kv. json_is_str (snd kv)) (mo_headers m)
         then (CheckError, None, None, ''Header value must be str or bytes'')
         else
           (case e_http e rq of
              HttpResponse code text \<Rightarrow>
                (case evaluate_criteria code text duration_ms (mo_criteria m) of
                   Inr (True, _) \<Rightarrow> (Success, Some code, Some duration_ms, [])
                 | Inr (False, reason) \<Rightarrow> (Failure, Some code, Some duration_ms, reason)
                 | Inl x \<Rightarrow> (CheckError, None, None, error_text x))
            | HttpTimeout \<Rightarrow> (Timeout, None, Some duration_ms, ''Request timed out'')
            | HttpConnectionError x \<Rightarrow> (CheckError, None, None, ''Connection error: '' @ x)
            | HttpOtherError x \<Rightarrow> (CheckError, None, None, x)))"

section \<open>TCP and UDP\<close>

definition before_slash :: "string \<Rightarrow> string" where
  "before_slash s = fst (split_once (CHR ''/'') s)"

text \<open>\<open>s.split("://", 1)[1]\<close> when it holds the separator.\<close>

fun after_scheme :: "string \<Rightarrow> string option" where
  "after_scheme [] = None"
| "after_scheme (c # cs) =
     (if startswith (c # cs) ''://'' then Some (drop 3 (c # cs)) else after_scheme cs)"

definition parse_host_port :: "string \<Rightarrow> int \<Rightarrow> (string \<times> int) result" where
  "parse_host_port url default_port =
     (let raw = (case after_scheme url of Some r \<Rightarrow> r | None \<Rightarrow> url);
          raw1 = (if CHR ''/'' \<in> set raw then before_slash raw else raw)
      in case rsplit_once (CHR '':'') raw1 of
           Some (host, port_str) \<Rightarrow> bind_result (int_of_string port_str) (\<lambda>p. Ok (host, p))
         | None \<Rightarrow> Ok (raw1, default_port))"

definition target_text :: "string \<Rightarrow> int \<Rightarrow> string" where
  "target_text host port = host @ '':'' @ string_of_int port"

definition run_tcp_check :: "net \<Rightarrow> monitor \<Rightarrow> check_outcome" where
  "run_tcp_check n m =
     (case parse_host_port (mo_url m) 443 of
        Inl _ \<Rightarrow> (CheckError, None, None, ''Invalid TCP target '' @ mo_url m @ '' (expected host:port)'')
      | Inr (host, port) \<Rightarrow>
          (case n_tcp n host port (check_timeout m) of
             SockOk \<Rightarrow> (Success, None, Some (n_ms n (mo_url m)), [])
           | SockTimeout \<Rightarrow> (Timeout, None, None, ''TCP connection to '' @ target_text host port @ '' timed out'')
           | SockError x \<Rightarrow> (CheckError, None, None, x)))"

text \<open>\<open>bytes.fromhex\<close>: pairs of hex digits, blanks allowed between them.\<close>

fun bytes_fromhex :: "string \<Rightarrow> string result" where
  "bytes_fromhex [] = Ok []"
| "bytes_fromhex (c # cs) =
     (if is_space c then bytes_fromhex cs
      else
        (case cs of
           [] \<Rightarrow> Raise (ValueError ''non-hexadecimal number found in fromhex()'')
         | d # ds \<Rightarrow>
             (case (hex_val c, hex_val d) of
                (Some x, Some y) \<Rightarrow>
                  bind_result (bytes_fromhex ds) (\<lambda>r. Ok (char_of (16 * x + y) # r))
              | _ \<Rightarrow> Raise (ValueError ''non-hexadecimal number found in fromhex()''))))"

definition criteria_items :: "monitor \<Rightarrow> (string \<times> json) list result" where
  "criteria_items m = items_or_empty (mo_criteria m)"

definition udp_message :: "json \<Rightarrow> string result" where
  "udp_message payload =
     (case payload of
        JStr s \<Rightarrow> (if startswith s ''hex:'' then bytes_fromhex (drop 4 s) else Ok s)
      | _ \<Rightarrow> Ok (py_str payload))"

definition run_udp_check :: "net \<Rightarrow> monitor \<Rightarrow> check_outcome result" where
  "run_udp_check n m =
     (case parse_host_port (mo_url m) 53 of
        Inl _ \<Rightarrow> Ok (CheckError, None, None, ''Invalid UDP target '' @ mo_url m @ '' (expected host:port)'')
      | Inr (host, port) \<Rightarrow>
          bind_result (criteria_items m) (\<lambda>criteria.
          bind_result (udp_message (dict_get_or criteria ''payload'' (JStr ''ping''))) (\<lambda>message.
            let expect_response = truthy (dict_get_or criteria ''expect_response'' (JBool False))
            in Ok (case n_udp n host port message expect_response (check_timeout m) of
                     SockOk \<Rightarrow> (Success, None, Some (n_ms n (mo_url m)), [])
                   | SockTimeout \<Rightarrow>
                       (if expect_response
                        then (Timeout, None, None, ''No UDP response from '' @ target_text host port)
                        else (Success, None, Some (n_ms n (mo_url m)), []))
                   | SockError x \<Rightarrow> (CheckError, None, None, x)))))"

section \<open>DNS\<close>

text \<open>\<open>line.split()[-1]\<close>: the last blank-separated word.\<close>

definition last_word :: "string \<Rightarrow> string" where
  "last_word s = rev (takeWhile (\<lambda>c. \<not> is_space c) (dropWhile is_space (rev s)))"

definition resolve_dns_via_dig :: "net \<Rightarrow> string \<Rightarrow> string \<Rightarrow> string list result" where
  "resolve_dns_via_dig n hostname record_type =
     (case n_dig n hostname record_type of
        DigError x \<Rightarrow> Raise (RuntimeError x)
      | DigExit code out err \<Rightarrow>
          if code \<noteq> 0 \<and> strip out = []
          then Raise (RuntimeError (if strip err \<noteq> [] then strip err
                 else ''dig failed for '' @ hostname @ '' '' @ record_type))
          else
            (let lines = map (\<lambda>l. rstrip_char (CHR ''.'') (strip l))
                           (filter (\<lambda>l. strip l \<noteq> []) (splitlines out))
             in if record_type = ''MX'' then Ok (order_by id (map last_word lines))
                else Ok (order_by id lines)))"

definition dns_lookup :: "net \<Rightarrow> string \<Rightarrow> string \<Rightarrow> dns_outcome" where
  "dns_lookup n hostname record_type =
     (if record_type = ''A'' \<or> record_type = ''AAAA''
      then (case n_addresses n hostname of
              DnsAddresses xs \<Rightarrow> DnsAddresses (order_by id (remdups xs))
            | x \<Rightarrow> x)
      else (case resolve_dns_via_dig n hostname record_type of
              Inr xs \<Rightarrow> DnsAddresses xs
            | Inl x \<Rightarrow> DnsError (error_text x)))"

definition run_dns_check :: "net \<Rightarrow> monitor \<Rightarrow> check_outcome result" where
  "run_dns_check n m =
     (let hostname = rstrip_char (CHR ''.'') (strip (mo_url m)) in
      if hostname = [] then Ok (CheckError, None, None, ''DNS monitor requires a hostname in url'')
      else
        bind_result (criteria_items m) (\<lambda>criteria.
        bind_result
          (case json_or (dict_get_or criteria ''record_type'' JNull) (JStr ''A'') of
             JStr s \<Rightarrow> Ok (upper s) | _ \<Rightarrow> Raise (TypeError ''no attribute upper''))
          (\<lambda>record_type.
            let expected0 = json_or (dict_get_or criteria ''expected_values'' JNull)
                              (dict_get_or criteria ''expected_value'' JNull);
                expected = (case expected0 of JNull \<Rightarrow> [] | JList xs \<Rightarrow> xs | x \<Rightarrow> [x])
            in Ok (case dns_lookup n hostname record_type of
                     DnsGaiError x \<Rightarrow> (Failure, None, None, ''DNS lookup failed: '' @ x)
                   | DnsError x \<Rightarrow> (CheckError, None, None, x)
                   | DnsAddresses results \<Rightarrow>
                       if results = []
                       then (Failure, None, Some (n_ms n hostname),
                             ''No '' @ record_type @ '' records found for '' @ hostname)
                       else if \<not> list_all (\<lambda>v. v \<in> JStr ` set results) expected
                       then (Failure, None, Some (n_ms n hostname),
                             ''Expected '' @ record_type @ '' values '' @ py_str (JList expected)
                             @ '', got '' @ py_str (JList (map JStr results)))
                       else (Success, None, Some (n_ms n hostname), [])))))"

section \<open>TLS certificates\<close>

text \<open>
  \<open>urlparse(raw)\<close> as far as the code uses it: the network location of a URL with a scheme (or
  a leading \<open>//\<close>), its host name in lower case, and its port.
\<close>

definition scheme_char :: "char \<Rightarrow> bool" where
  "scheme_char c \<longleftrightarrow>
     (let n = (of_char c :: nat) in (48 \<le> n \<and> n \<le> 57) \<or> (65 \<le> n \<and> n \<le> 90) \<or> (97 \<le> n \<and> n \<le> 122))
     \<or> c \<in> {CHR ''+'', CHR ''-'', CHR ''.''}"

definition url_netloc :: "string \<Rightarrow> string" where
  "url_netloc s =
     (let rest = (case split_once (CHR '':'') s of
            (scheme, Some r) \<Rightarrow>
              (if scheme \<noteq> [] \<and> list_all scheme_char scheme \<and> \<not> is_digit (hd scheme)
                  \<and> hd scheme \<notin> {CHR ''+'', CHR ''-'', CHR ''.''} then r else s)
          | (_, None) \<Rightarrow> s)
      in if startswith rest ''//''
         then takeWhile (\<lambda>c. c \<notin> {CHR ''/'', CHR ''?'', CHR ''#''}) (drop 2 rest) else [])"

definition url_hostinfo :: "string \<Rightarrow> string \<times> string" where
  "url_hostinfo s =
     (let netloc = url_netloc s;
          hostinfo = (case rsplit_once (CHR ''@'') netloc of Some (_, h) \<Rightarrow> h | None \<Rightarrow> netloc)
      in case split_once (CHR ''['') hostinfo of
           (_, Some bracketed) \<Rightarrow>
             (let (host, r) = split_once (CHR '']'') bracketed
              in (host, case r of Some x \<Rightarrow> (case split_once (CHR '':'') x of (_, Some p) \<Rightarrow> p | _ \<Rightarrow> [])
                        | None \<Rightarrow> []))
         | (_, None) \<Rightarrow>
             (let (host, r) = split_once (CHR '':'') hostinfo
              in (host, case r of Some p \<Rightarrow> p | None \<Rightarrow> [])))"

definition url_hostname :: "string \<Rightarrow> string option" where
  "url_hostname s = (let h = fst (url_hostinfo s) in if h = [] then None else Some (lower h))"

definition url_port :: "string \<Rightarrow> int option result" where
  "url_port s =
     (let p = snd (url_hostinfo s) in
      if p = [] then Ok None
      else if list_all is_digit p then
        (if nat_of_digits p \<le> 65535 then Ok (Some (int (nat_of_digits p)))
         else Raise (ValueError ''Port out of range 0-65535''))
      else Raise (ValueError ''Port could not be cast to integer value''))"

definition hostname_matches_cert :: "string \<Rightarrow> string set \<Rightarrow> bool" where
  "hostname_matches_cert hostname names =
     (let host = lower hostname
      in \<exists>pattern \<in> names.
           (let p = lower pattern
            in if startswith p ''*.'' then host = drop 2 p \<or> endswith host (''.'' @ drop 2 p)
               else host = p))"

definition run_ssl_check :: "env \<Rightarrow> net \<Rightarrow> monitor \<Rightarrow> check_outcome result" where
  "run_ssl_check e n m =
     (let raw = (if after_scheme (mo_url m) = None then ''https://'' @ mo_url m else mo_url m)
      in case url_hostname raw of
           None \<Rightarrow> Ok (CheckError, None, None, ''Invalid SSL target '' @ mo_url m)
         | Some hostname \<Rightarrow>
             bind_result (url_port raw) (\<lambda>port0.
             bind_result (criteria_items m) (\<lambda>criteria.
             bind_result (int_of_json (dict_get_or criteria ''min_days_before_expiry'' (JInt 14))) (\<lambda>min_days.
               let port = (case port0 of Some p \<Rightarrow> (if p = 0 then 443 else p) | None \<Rightarrow> 443)
               in Ok (case n_tls n hostname port (check_timeout m) of
                        TlsSslError x \<Rightarrow> (Failure, None, None, ''SSL handshake failed: '' @ x)
                      | TlsOsError x \<Rightarrow> (CheckError, None, None, x)
                      | TlsCert cert \<Rightarrow>
                          (let duration_ms = n_ms n hostname
                           in case cert_not_after cert of
                                None \<Rightarrow> (Failure, None, Some duration_ms, ''Certificate has no expiry date'')
                              | Some expiry \<Rightarrow>
                                  (let days_left = (expiry - e_now e) div days 1;
                                       names = set (cert_san cert) \<union>
                                         (case cert_cn cert of
                                            Some cn \<Rightarrow> (if cn \<noteq> [] then {cn} else {}) | None \<Rightarrow> {})
                                   in if days_left < min_days
                                      then (Failure, None, Some duration_ms,
                                            ''Certificate expires in '' @ string_of_int days_left
                                            @ '' days (minimum '' @ string_of_int min_days @ '')'')
                                      else if truthy (dict_get_or criteria ''check_hostname_match'' (JBool True))
                                              \<and> names \<noteq> {} \<and> \<not> hostname_matches_cert hostname names
                                      then (Failure, None, Some duration_ms,
                                            ''Hostname '' @ hostname @ '' not in certificate SAN/CN'')
                                      else (Success, None, Some duration_ms, []))))))))"

section \<open>Ping\<close>

definition run_ping_check :: "net \<Rightarrow> monitor \<Rightarrow> check_outcome" where
  "run_ping_check n m =
     (let host0 = strip (mo_url m);
          host1 = (if after_scheme host0 \<noteq> None
                   then (case url_hostname host0 of Some h \<Rightarrow> h | None \<Rightarrow> host0) else host0);
          host = before_slash host1
      in if host = [] then (CheckError, None, None, ''Ping monitor requires a hostname in url'')
         else
           (case n_ping n host (check_timeout m) of
              PingMissing \<Rightarrow> (CheckError, None, None, ''ping command not available on this host'')
            | PingTimeout \<Rightarrow> (Timeout, None, None, ''Ping to '' @ host @ '' timed out'')
            | PingExit code out err \<Rightarrow>
                if code = 0 then (Success, None, Some (n_ms n host), [])
                else
                  (let output = strip (if out \<noteq> [] then out else err)
                   in (Failure, None, Some (n_ms n host),
                       if output \<noteq> [] then output else ''Ping to '' @ host @ '' failed''))))"

section \<open>Multi-step checks\<close>

text \<open>\<open>_render_template\<close>: every variable in turn, over the text so far.\<close>

fun render_template :: "string \<Rightarrow> (string \<times> string) list \<Rightarrow> string" where
  "render_template result [] = result"
| "render_template result ((key, val) # variables) =
     render_template (replace_all (''{{'' @ key @ ''}}'') val result) variables"

fun follow_path :: "json \<Rightarrow> string list \<Rightarrow> json option" where
  "follow_path current [] = Some current"
| "follow_path current (part # parts) =
     (case current of
        JObj kvs \<Rightarrow> (case dict_get kvs part of Some v \<Rightarrow> follow_path v parts | None \<Rightarrow> None)
      | _ \<Rightarrow> None)"

definition dumps_default :: "json \<Rightarrow> string" where
  "dumps_default j = print_json '', '' '': '' j"

definition extract_json_path :: "string \<Rightarrow> string \<Rightarrow> string option" where
  "extract_json_path body path =
     (case json_loads body of
        None \<Rightarrow> None
      | Some data \<Rightarrow>
          (let path1 = (if startswith path ''$.'' then drop 2 path else path)
           in case follow_path data (split_on (CHR ''.'') path1) of
                None \<Rightarrow> None
              | Some current \<Rightarrow>
                  (case current of
                     JObj _ \<Rightarrow> Some (dumps_default current)
                   | JList _ \<Rightarrow> Some (dumps_default current)
                   | _ \<Rightarrow> Some (py_str current))))"

text \<open>The extractions of a step: the variables, or the name that could not be found.\<close>

fun extract_all ::
  "string \<Rightarrow> (string \<times> json) list \<Rightarrow> (string \<times> string) list \<Rightarrow> (string + (string \<times> string) list) result" where
  "extract_all body [] vars = Ok (Inr vars)"
| "extract_all body ((name, path) # rest) vars =
     (case path of
        JStr p \<Rightarrow>
          (case extract_json_path body p of
             None \<Rightarrow> Ok (Inl name)
           | Some v \<Rightarrow> extract_all body rest (if name \<in> fst ` set vars
               then map (\<lambda>kv. if fst kv = name then (name, v) else kv) vars else vars @ [(name, v)]))
      | _ \<Rightarrow> Raise (TypeError ''no attribute startswith''))"

text \<open>The request of a step; a missing or odd URL is a request that fails.\<close>

definition step_request ::
  "nat \<Rightarrow> (string \<times> json) list \<Rightarrow> (string \<times> string) list \<Rightarrow> http_request result" where
  "step_request timeout step vars =
     bind_result
       (case json_or (dict_get_or step ''method'' JNull) (JStr ''GET'') of
          JStr s \<Rightarrow> Ok (upper s) | _ \<Rightarrow> Raise (TypeError ''no attribute upper''))
       (\<lambda>meth.
     bind_result
       (case dict_get_or step ''url'' (JStr []) of
          JStr s \<Rightarrow> Ok (render_template s vars)
        | v \<Rightarrow> (if vars = [] then Ok (py_str v) else Raise (TypeError ''no attribute replace'')))
       (\<lambda>url.
     bind_result (items_or_empty (dict_get_or step ''headers'' JNull)) (\<lambda>headers.
       Ok \<lparr>hr_method = meth, hr_url = url,
           hr_headers = map (\<lambda>kv. (fst kv, render_template (py_str (snd kv)) vars)) headers,
           hr_body = (case dict_get_or step ''body'' JNull of
                        JNull \<Rightarrow> None | v \<Rightarrow> Some (render_template (py_str v) vars)),
           hr_timeout = timeout\<rparr>)))"

text \<open>The loop: variables, total duration, last status code, and the 1-based index.\<close>

fun http_steps ::
  "env \<Rightarrow> nat \<Rightarrow> nat \<Rightarrow> json list \<Rightarrow> (string \<times> string) list \<Rightarrow> int \<Rightarrow> int option \<Rightarrow> check_outcome result" where
  "http_steps e timeout index [] vars spent last_code = Ok (Success, last_code, Some spent, [])"
| "http_steps e timeout index (s # steps) vars spent last_code =
     bind_result (rule_items s) (\<lambda>step.
     bind_result (step_request timeout step vars) (\<lambda>rq.
       let label = ''Step '' @ string_of_nat index in
       case e_http e rq of
         HttpTimeout \<Rightarrow> Ok (Timeout, None, Some spent, label @ '' timed out'')
       | HttpConnectionError x \<Rightarrow> Ok (CheckError, None, Some spent, label @ '' failed: '' @ x)
       | HttpOtherError x \<Rightarrow> Ok (CheckError, None, Some spent, label @ '' failed: '' @ x)
       | HttpResponse code text \<Rightarrow>
           (let spent1 = spent + e_http_ms e rq in
            bind_result (items_or_empty (dict_get_or step ''assert'' JNull)) (\<lambda>assertions.
              let expected_status = dict_get_or assertions ''status'' JNull;
                  body_contains = dict_get_or assertions ''body_contains'' JNull in
              if expected_status \<noteq> JNull \<and> \<not> num_eq code expected_status
              then Ok (Failure, Some code, Some spent1,
                       label @ '' expected status '' @ py_str expected_status @ '', got '' @ string_of_int code)
              else
                bind_result (if truthy body_contains then str_within body_contains text else Ok True)
                  (\<lambda>contained.
                    if \<not> contained
                    then Ok (Failure, Some code, Some spent1,
                             label @ '' body does not contain '' @ py_str body_contains)
                    else
                      bind_result (items_or_empty (dict_get_or step ''extract'' JNull)) (\<lambda>extracts.
                      bind_result (extract_all text extracts vars) (\<lambda>r.
                        case r of
                          Inl name \<Rightarrow>
                            Ok (Failure, Some code, Some spent1,
                                label @ '' could not extract '' @ name @ '' from response'')
                        | Inr vars1 \<Rightarrow> http_steps e timeout (Suc index) steps vars1 spent1 (Some code))))))))"

definition execute_http_steps :: "env \<Rightarrow> monitor \<Rightarrow> json list \<Rightarrow> check_outcome result" where
  "execute_http_steps e m steps =
     (if steps = [] then Ok (CheckError, None, None, ''At least one step is required'')
      else http_steps e (check_timeout m) 1 steps [] 0 None)"

definition run_multi_step_check :: "env \<Rightarrow> monitor \<Rightarrow> check_outcome result" where
  "run_multi_step_check e m = execute_http_steps e m (mo_steps m)"

text \<open>The think time only delays, but a value \<open>int\<close> refuses raises.\<close>

definition run_journey_check :: "env \<Rightarrow> monitor \<Rightarrow> check_outcome result" where
  "run_journey_check e m =
     bind_result (criteria_items m) (\<lambda>criteria.
     bind_result (int_of_json (dict_get_or criteria ''think_time_ms'' (JInt 500))) (\<lambda>think_time_ms.
       execute_http_steps e m (mo_steps m)))"

section \<open>Heartbeat and dispatch\<close>

definition run_heartbeat_check :: "env \<Rightarrow> monitor \<Rightarrow> check_outcome" where
  "run_heartbeat_check e m =
     (let grace = int (mo_interval_seconds m) * 2
      in case mo_last_check_at m of
           None \<Rightarrow> (Success, None, None, [])
         | Some t \<Rightarrow>
             (let age = e_now e - t
              in if seconds grace < age
                 then (Failure, None, None,
                       ''No heartbeat for '' @ string_of_int (total_seconds_floor age) @ ''s (grace=''
                       @ string_of_int grace @ ''s)'')
                 else (Success, None, None, [])))"

definition run_check :: "env \<Rightarrow> net \<Rightarrow> monitor \<Rightarrow> check_outcome result" where
  "run_check e n m =
     (case mo_type m of
        TyApi \<Rightarrow> Ok (run_http_check e m)
      | TyWebsite \<Rightarrow> Ok (run_http_check e m)
      | TyTcp \<Rightarrow> Ok (run_tcp_check n m)
      | TyUdp \<Rightarrow> run_udp_check n m
      | TyDns \<Rightarrow> run_dns_check n m
      | TySsl \<Rightarrow> run_ssl_check e n m
      | TyPing \<Rightarrow> Ok (run_ping_check n m)
      | TyMultiStepApi \<Rightarrow> run_multi_step_check e m
      | TyJourney \<Rightarrow> run_journey_check e m
      | TyHeartbeat \<Rightarrow> Ok (run_heartbeat_check e m))"

end
