(* ===== verification/MonitorRunner.thy ===== *)
theory MonitorRunner
  imports Maintenance Checks
begin

text \<open>
  \<open>apps/monitoring/services/runner.py\<close>, \<open>webhooks.py\<close> and the command \<open>run_checks\<close>: a check is
  recorded, the status of the monitor follows its last checks, and incidents are opened and
  closed with it. A handler works on the monitor instance it loaded (\<open>m\<close>) and writes to the row;
  the two differ when the row was written meanwhile.
\<close>

definition failed_status :: "check_status \<Rightarrow> bool" where
  "failed_status s \<longleftrightarrow> s = Failure \<or> s = Timeout \<or> s = CheckError"

definition monitor_json :: "world \<Rightarrow> monitor \<Rightarrow> json" where
  "monitor_json w m = JObj
     [(''id'', JUuid (mo_id m)), (''name'', JStr (mo_name m)),
      (''type'', JStr (monitor_type_value (mo_type m))), (''url'', JStr (mo_url m)),
      (''method'', JStr (mo_method m)),
      (''interval_seconds'', JInt (int (mo_interval_seconds m))),
      (''timeout_seconds'', JInt (int (mo_timeout_seconds m))),
      (''retries'', JInt (int (mo_retries m))),
      (''probe_locations'', JList (map JStr (mo_probe_locations m))),
      (''criteria'', mo_criteria m), (''steps'', JList (mo_steps m)),
      (''headers'', JObj (mo_headers m)), (''body'', JStr (mo_body m)),
      (''alert_on_failure'', JBool (mo_alert_on_failure m)),
      (''is_paused'', JBool (mo_is_paused m)),
      (''status'', JStr (monitor_status_value (mo_status m))),
      (''tags'', JList (map JStr (mo_tags m))),
      (''team_id'', json_opt_uuid (mo_team m)), (''team_name'', team_name_json w (mo_team m)),
      (''current_incident'', json_opt_uuid (mo_current_incident m)),
      (''last_check_at'', json_opt_time (mo_last_check_at m)),
      (''next_check_at'', json_opt_time (mo_next_check_at m)),
      (''created_at'', JTime (mo_created_at m)), (''updated_at'', JTime (mo_updated_at m))]"

definition emit_monitor_status_changed :: "env \<Rightarrow> monitor \<Rightarrow> monitor_status \<Rightarrow> world \<Rightarrow> world" where
  "emit_monitor_status_changed e m previous_status w =
     (if previous_status = mo_status m then w
      else webhook_emit e (mo_tenant m) (mo_project m) ''monitor.status_changed''
             (JObj [(''monitor'', monitor_json w m),
                    (''previous_status'', JStr (monitor_status_value previous_status)),
                    (''status'', JStr (monitor_status_value (mo_status m)))]) w)"

text \<open>\<open>Monitor.objects.filter(pk=...).update(...)\<close>: no signal runs.\<close>

definition update_monitor :: "uuid \<Rightarrow> (monitor \<Rightarrow> monitor) \<Rightarrow> world \<Rightarrow> world" where
  "update_monitor i f w = w\<lparr>w_monitors := update_where (\<lambda>r. mo_id r = i) f (w_monitors w)\<rparr>"

definition named_state :: "world \<Rightarrow> uuid \<Rightarrow> string \<Rightarrow> incident_state option" where
  "named_state w project name =
     first_row (order_by st_order
       (filter (\<lambda>s. st_project s = project \<and> st_name s = name) (w_states w)))"

definition named_severity :: "world \<Rightarrow> uuid \<Rightarrow> string \<Rightarrow> incident_severity option" where
  "named_severity w project name =
     first_row (order_by sv_order
       (filter (\<lambda>s. sv_project s = project \<and> sv_name s = name) (w_severities w)))"

text \<open>The incident a failing monitor gets.\<close>

definition monitor_incident ::
  "env \<Rightarrow> uuid \<Rightarrow> monitor \<Rightarrow> monitor_check \<Rightarrow> uuid \<Rightarrow> uuid \<Rightarrow> incident" where
  "monitor_incident e pk m ck severity state =
     \<lparr>ic_id = pk, ic_tenant = mo_tenant m, ic_project = mo_project m, ic_team = mo_team m,
      ic_monitor = Some (mo_id m), ic_title = mo_name m @ '' is offline'',
      ic_description = (if ck_error_message ck \<noteq> [] then ck_error_message ck
                        else ''Monitor check failed''),
      ic_severity = severity, ic_state = state, ic_assigned_to = None,
      ic_triggered_at = e_now e, ic_acknowledged_at = None, ic_acknowledged_by = None,
      ic_resolved_at = None, ic_resolved_by = None, ic_is_visible_on_status_page = False,
      ic_created_at = e_now e, ic_updated_at = e_now e\<rparr>"

definition open_incident :: "env \<Rightarrow> monitor \<Rightarrow> monitor_check \<Rightarrow> world \<Rightarrow> world" where
  "open_incident e m ck w =
     (case (named_state w (mo_project m) ''triggered'', named_severity w (mo_project m) ''critical'') of
        (Some st, Some sv) \<Rightarrow>
          (let i = monitor_incident e (w_next w) m ck (sv_id sv) (st_id st);
               w1 = on_incident_save e i True
                      (w\<lparr>w_incidents := w_incidents w @ [i], w_next := Suc (w_next w)\<rparr>);
               w2 = w1\<lparr>w_checks := update_where (\<lambda>c. ck_id c = ck_id ck)
                         (\<lambda>c. c\<lparr>ck_triggered_incident := Some (ic_id i)\<rparr>) (w_checks w1)\<rparr>;
               w3 = update_monitor (mo_id m) (\<lambda>r. r\<lparr>mo_current_incident := Some (ic_id i)\<rparr>) w2
           in snd (emit_incident_created e i w3))
      | _ \<Rightarrow> w)"

definition close_incident :: "env \<Rightarrow> monitor \<Rightarrow> world \<Rightarrow> world" where
  "close_incident e m w =
     (case mo_current_incident m of
        None \<Rightarrow> w
      | Some ci \<Rightarrow>
          (case first_row (order_by st_order
                  (filter (\<lambda>s. st_project s = mo_project m \<and> st_is_resolved_state s) (w_states w))) of
             None \<Rightarrow> w
           | Some resolved_state \<Rightarrow>
               update_monitor (mo_id m) (\<lambda>r. r\<lparr>mo_current_incident := None\<rparr>)
                 (w\<lparr>w_incidents := update_where (\<lambda>i. ic_id i = ci)
                     (\<lambda>i. i\<lparr>ic_state := st_id resolved_state, ic_resolved_at := Some (e_now e)\<rparr>)
                     (w_incidents w)\<rparr>)))"

text \<open>The statuses of the last \<open>retries\<close> checks of a monitor, the latest first.\<close>

definition recent_statuses :: "world \<Rightarrow> monitor \<Rightarrow> check_status list" where
  "recent_statuses w m =
     map ck_status (take (mo_retries m)
       (order_by_desc ck_checked_at (filter (\<lambda>c. ck_monitor c = mo_id m) (w_checks w))))"

definition update_monitor_status ::
  "env \<Rightarrow> monitor \<Rightarrow> monitor_check \<Rightarrow> world \<Rightarrow> monitor \<times> world" where
  "update_monitor_status e m ck w =
     (let under_maintenance = is_monitor_under_maintenance w m;
          consecutive = recent_statuses w m;
          all_failed = list_all failed_status consecutive;
          all_success = list_all (\<lambda>s. s = Success) consecutive;
          previous_status = mo_status m;
          (new_status, w1) =
            (if all_failed \<and> mo_status m = Operational
             then (if \<not> under_maintenance
                   then (Offline, if mo_alert_on_failure m then open_incident e m ck w else w)
                   else (mo_status m, w))
             else if all_success \<and> mo_status m = Offline
             then (Operational, close_incident e m w)
             else (mo_status m, w));
          w2 = update_monitor (mo_id m)
                 (\<lambda>r. r\<lparr>mo_status := new_status, mo_last_check_at := Some (ck_checked_at ck),
                        mo_next_check_at := Some (e_now e + seconds (int (mo_interval_seconds m)))\<rparr>) w1;
          m2 = m\<lparr>mo_status := new_status, mo_last_check_at := Some (ck_checked_at ck)\<rparr>
      in (m2, if new_status \<noteq> previous_status
              then emit_monitor_status_changed e m2 previous_status w2 else w2))"

definition recorded_check :: "env \<Rightarrow> uuid \<Rightarrow> monitor \<Rightarrow> check_outcome \<Rightarrow> monitor_check" where
  "recorded_check e pk m r =
     (case r of (check_status, http_code, duration_ms, error) \<Rightarrow>
        \<lparr>ck_id = pk, ck_tenant = mo_tenant m, ck_monitor = mo_id m, ck_probe = None,
         ck_checked_at = e_now e, ck_status = check_status,
         ck_response_status_code = http_code, ck_response_time_ms = duration_ms,
         ck_error_message = error, ck_triggered_incident = None\<rparr>)"

definition execute_check :: "env \<Rightarrow> net \<Rightarrow> monitor \<Rightarrow> world \<Rightarrow> monitor_check result \<times> world" where
  "execute_check e n m w =
     (case run_check e n m of
        Inl x \<Rightarrow> (Raise x, w)
      | Inr r \<Rightarrow>
          (let ck = recorded_check e (w_next w) m r;
               w1 = w\<lparr>w_checks := w_checks w @ [ck], w_next := Suc (w_next w)\<rparr>
           in (Ok ck, snd (update_monitor_status e m ck w1))))"

text \<open>After a maintenance window: monitors that still fail go offline and get their incident.\<close>

definition reevaluate_monitor_incident :: "env \<Rightarrow> monitor \<Rightarrow> world \<Rightarrow> world" where
  "reevaluate_monitor_incident e m w =
     (if is_monitor_under_maintenance w m then w
      else if \<not> mo_alert_on_failure m \<or> mo_current_incident m \<noteq> None then w
      else
        (let recent = recent_statuses w m
         in if length recent < mo_retries m then w
            else if \<not> list_all failed_status recent then w
            else
              (let (m1, w1) =
                     (if mo_status m \<noteq> Offline
                      then (let m' = m\<lparr>mo_status := Offline\<rparr>;
                                w' = update_monitor (mo_id m) (\<lambda>r. r\<lparr>mo_status := Offline\<rparr>) w
                            in (m', emit_monitor_status_changed e m' (mo_status m) w'))
                      else (m, w));
                   last_check = first_row (order_by_desc ck_checked_at
                     (filter (\<lambda>c. ck_monitor c = mo_id m) (w_checks w1)))
               in case last_check of None \<Rightarrow> w1 | Some ck \<Rightarrow> open_incident e m1 ck w1)))"

definition reevaluate_monitors_after_maintenance ::
  "env \<Rightarrow> scheduled_maintenance \<Rightarrow> world \<Rightarrow> world" where
  "reevaluate_monitors_after_maintenance e mw w =
     foldl (\<lambda>w' m. reevaluate_monitor_incident e m w') w (monitors_for_maintenance w mw)"

section \<open>The command run_checks\<close>

definition batch_size :: nat where
  "batch_size = 200"

definition due_monitors :: "datetime \<Rightarrow> uuid option \<Rightarrow> world \<Rightarrow> monitor list" where
  "due_monitors now monitor_id w =
     take batch_size (order_by mo_name
       (filter (\<lambda>m. \<not> mo_is_paused m \<and> mo_status m \<noteq> Disabled \<and>
                    (case monitor_id of
                       Some i \<Rightarrow> mo_id m = i
                     | None \<Rightarrow> (case mo_next_check_at m of Some t \<Rightarrow> t \<le> now | None \<Rightarrow> True)))
          (w_monitors w)))"

text \<open>One monitor after the other; an exception is logged and counted. The counts are \<open>(ok, failed)\<close>.\<close>

fun check_each :: "env \<Rightarrow> net \<Rightarrow> monitor list \<Rightarrow> nat \<times> nat \<Rightarrow> world \<Rightarrow> (nat \<times> nat) \<times> world" where
  "check_each e n [] counts w = (counts, w)"
| "check_each e n (m # ms) (ok, failed) w =
     (case execute_check e n m w of
        (Inr _, w') \<Rightarrow> check_each e n ms (Suc ok, failed) w'
      | (Inl _, w') \<Rightarrow> check_each e n ms (ok, Suc failed) w')"

definition run_checks :: "env \<Rightarrow> net \<Rightarrow> bool \<Rightarrow> uuid option \<Rightarrow> world \<Rightarrow> (nat \<times> nat) \<times> world" where
  "run_checks e n dry_run monitor_id w =
     (let monitors = due_monitors (e_now e) monitor_id w
      in if monitors = [] \<or> dry_run then ((0, 0), w) else check_each e n monitors (0, 0) w)"

section \<open>Uptime and status timeline\<close>

text \<open>Python's \<open>round\<close> on the exact quotient: to \<open>p\<close> decimals, halves to even.\<close>

definition round_half_even :: "int \<Rightarrow> int \<Rightarrow> int" where
  "round_half_even a b =
     (let q = a div b; r = a mod b
      in if 2 * r < b \<or> (2 * r = b \<and> even q) then q else q + 1)"

record uptime =
  up_percent_e4 :: int
  up_total_checks :: nat
  up_failed_checks :: nat
  up_successful_checks :: nat
  up_from :: datetime
  up_to :: datetime

definition checks_between :: "world \<Rightarrow> monitor \<Rightarrow> datetime \<Rightarrow> datetime \<Rightarrow> monitor_check list" where
  "checks_between w m since until =
     filter (\<lambda>c. ck_monitor c = mo_id m \<and> since \<le> ck_checked_at c \<and> ck_checked_at c < until) (w_checks w)"

definition compute_uptime ::
  "env \<Rightarrow> monitor \<Rightarrow> datetime option \<Rightarrow> datetime option \<Rightarrow> world \<Rightarrow> uptime option" where
  "compute_uptime e m since_opt until_opt w =
     (let since = (case since_opt of Some t \<Rightarrow> t | None \<Rightarrow> e_now e - days 30);
          until = (case until_opt of Some t \<Rightarrow> t | None \<Rightarrow> e_now e);
          checks = checks_between w m since until;
          num = length checks
      in if num = 0 then None
         else (let failed = length (filter (\<lambda>c. failed_status (ck_status c)) checks)
               in Some \<lparr>up_percent_e4 = round_half_even (int (num - failed) * 100 * 10000) (int num),
                        up_total_checks = num, up_failed_checks = failed,
                        up_successful_checks = num - failed, up_from = since, up_to = until\<rparr>))"

record bucket =
  bk_start :: datetime
  bk_total :: nat
  bk_failed :: nat

datatype bucket_status = BucketUnknown | BucketIs monitor_status

record interval =
  iv_start :: datetime
  iv_end :: datetime
  iv_status :: bucket_status
  iv_checks_count :: nat
  iv_failed_count :: nat

definition bucket_minutes :: "timedelta \<Rightarrow> int" where
  "bucket_minutes duration =
     (if duration \<le> hours 24 then 5 else if duration \<le> days 7 then 60 else 1440)"

function bucket_starts :: "timedelta \<Rightarrow> datetime \<Rightarrow> datetime \<Rightarrow> datetime list" where
  "bucket_starts delta current until =
     (if current < until \<and> 0 < delta then current # bucket_starts delta (current + delta) until else [])"
  by auto
termination by (relation "measure (\<lambda>(delta, current, until). nat (until - current))") auto

text \<open>The loop that finds the bucket of a time: the last start not after it.\<close>

fun bucket_for :: "datetime list \<Rightarrow> datetime \<Rightarrow> datetime \<Rightarrow> datetime" where
  "bucket_for [] found ts = found"
| "bucket_for (bs # rest) found ts = (if bs \<le> ts then bucket_for rest bs ts else found)"

definition count_check :: "datetime list \<Rightarrow> datetime \<Rightarrow> bucket list \<Rightarrow> monitor_check \<Rightarrow> bucket list" where
  "count_check starts since buckets c =
     update_where (\<lambda>b. bk_start b = bucket_for starts since (ck_checked_at c))
       (\<lambda>b. b\<lparr>bk_total := bk_total b + 1,
               bk_failed := bk_failed b + (if failed_status (ck_status c) then 1 else 0)\<rparr>) buckets"

definition bucket_status_of :: "bucket \<Rightarrow> bucket_status" where
  "bucket_status_of b =
     (if bk_total b = 0 then BucketUnknown
      else if bk_failed b = 0 then BucketIs Operational
      else if bk_failed b < bk_total b then BucketIs Degraded
      else BucketIs Offline)"

definition build_status_timeline ::
  "env \<Rightarrow> monitor \<Rightarrow> datetime option \<Rightarrow> datetime option \<Rightarrow> world \<Rightarrow> interval list" where
  "build_status_timeline e m since_opt until_opt w =
     (let since = (case since_opt of Some t \<Rightarrow> t | None \<Rightarrow> e_now e - days 30);
          until = (case until_opt of Some t \<Rightarrow> t | None \<Rightarrow> e_now e);
          bucket_delta = minutes (bucket_minutes (until - since));
          checks = order_by ck_checked_at (checks_between w m since until);
          starts = bucket_starts bucket_delta since until;
          buckets = foldl (count_check starts since)
                      (map (\<lambda>s. \<lparr>bk_start = s, bk_total = 0, bk_failed = 0\<rparr>) starts) checks
      in map (\<lambda>b. \<lparr>iv_start = bk_start b, iv_end = bk_start b + bucket_delta,
                   iv_status = bucket_status_of b, iv_checks_count = bk_total b,
                   iv_failed_count = bk_failed b\<rparr>) buckets)"

end
