(* ===== verification/MaintenanceFacts.thy ===== *)
theory MaintenanceFacts
  imports Maintenance Interfaces Requests
begin

text \<open>What the coverage and the recurrence of maintenance windows come to.\<close>

section \<open>Coverage\<close>

lemma in_active_maintenances:
  "m \<in> set (active_maintenances w (Some p)) \<longleftrightarrow>
     m \<in> set (w_maintenances w) \<and> sm_status m = MInProgress \<and> sm_project m = p"
  by (auto simp: active_maintenances_def Let_def)

lemma under_maintenance_iff:
  "is_monitor_under_maintenance w mo \<longleftrightarrow>
     (\<exists>m \<in> set (w_maintenances w). sm_status m = MInProgress \<and> sm_project m = mo_project mo \<and>
        maintenance_covers_monitor m mo)"
  by (auto simp: is_monitor_under_maintenance_def in_active_maintenances maintenance_covers_monitor_def)

section \<open>Days\<close>

lemma days_day_us: "days k = k * day_us"
  by (simp add: time_defs day_us_def)

lemma day_of_add_days [simp]: "day_of (t + days k) = day_of t + k"
  by (simp add: day_of_def days_day_us day_us_def)

lemma time_of_add_days [simp]: "time_of (t + days k) = time_of t"
  by (simp add: time_of_def days_day_us day_us_def)

lemma days_add: "t + days a + days b = t + days (a + b)"
  by (simp add: days_day_us algebra_simps)

lemma days_mono: "days a \<le> days b \<longleftrightarrow> a \<le> b"
  by (simp add: days_day_us day_us_def)

lemma days_less: "days a < days b \<longleftrightarrow> a < b"
  by (simp add: days_day_us day_us_def)

lemma days_0 [simp]: "days 0 = 0"
  by (simp add: days_day_us)

lemma same_time_day: "time_of s = time_of t \<Longrightarrow> s = t + days (day_of s - day_of t)"
  using split_instant [of s] split_instant [of t] by (simp add: days_day_us algebra_simps)

lemma weekday_add_days: "weekday (t + days k) = (weekday t + k) mod 7"
  unfolding weekday_def day_of_add_days mod_add_left_eq by (simp add: algebra_simps)

lemma weekday_bounds: "0 \<le> weekday t" "weekday t \<le> 6"
  using pos_mod_bound [of 7 "day_of t + 3"] by (simp_all add: weekday_def)

section \<open>The weekly search\<close>

lemma next_weekday_Some:
  assumes "next_weekday n ws cur (cur + days c) = Some t" "0 < c"
  shows "\<exists>k. c \<le> k \<and> t = cur + days k \<and> weekday t \<in> set ws \<and>
    (\<forall>j. c \<le> j \<and> j < k \<longrightarrow> weekday (cur + days j) \<notin> set ws)"
  using assms
proof (induction n arbitrary: c)
  case (Suc n)
  have later: "cur < cur + days c" using Suc.prems(2) by (simp add: days_day_us day_us_def)
  show ?case
  proof (cases "weekday (cur + days c) \<in> set ws")
    case True
    with Suc.prems later have "t = day_of (cur + days c) * day_us + time_of cur" by simp
    also have "\<dots> = cur + days c"
      using split_instant [of "cur + days c"] by (simp only: time_of_add_days)
    finally show ?thesis using True by (intro exI [of _ c]) auto
  next
    case False
    with Suc.prems have "next_weekday n ws cur (cur + days (c + 1)) = Some t"
      by (simp add: days_add)
    from Suc.IH [OF this] Suc.prems(2) obtain k where k: "c + 1 \<le> k" "t = cur + days k"
      "weekday t \<in> set ws" "\<forall>j. c + 1 \<le> j \<and> j < k \<longrightarrow> weekday (cur + days j) \<notin> set ws"
      by auto
    have "\<forall>j. c \<le> j \<and> j < k \<longrightarrow> weekday (cur + days j) \<notin> set ws"
    proof (intro allI impI)
      fix j assume "c \<le> j \<and> j < k"
      with k(4) False show "weekday (cur + days j) \<notin> set ws" by (cases "j = c") auto
    qed
    with k show ?thesis by (intro exI [of _ k]) auto
  qed
qed simp

lemma next_weekday_found:
  assumes "weekday (cur + days (c + int k)) \<in> set ws" "0 < c" "k < n"
  shows "next_weekday n ws cur (cur + days c) \<noteq> None"
  using assms
proof (induction n arbitrary: c k)
  case (Suc n)
  have later: "cur < cur + days c" using Suc.prems(2) by (simp add: days_day_us day_us_def)
  show ?case
  proof (cases "weekday (cur + days c) \<in> set ws")
    case False
    then obtain k' where k: "k = Suc k'" using Suc.prems(1) by (cases k) auto
    then have "weekday (cur + days ((c + 1) + int k')) \<in> set ws"
      using Suc.prems(1) by (simp add: algebra_simps)
    from Suc.IH [OF this] Suc.prems k have "next_weekday n ws cur (cur + days (c + 1)) \<noteq> None" by simp
    with False later show ?thesis by (simp add: days_add)
  qed (use later in simp)
qed simp

text \<open>A listed weekday comes up within the next seven days.\<close>

lemma weekday_within_week:
  assumes "v \<in> set ws" "0 \<le> v" "v \<le> 6"
  shows "\<exists>k < 7. weekday (cur + days (1 + int k)) \<in> set ws"
proof (intro exI conjI)
  let ?k = "nat ((v - weekday cur - 1) mod 7)"
  have "(v - weekday cur - 1) mod 7 < 7" by simp
  then show "?k < 7" by simp
  have "weekday (cur + days (1 + int ?k)) = (weekday cur + (1 + (v - weekday cur - 1) mod 7)) mod 7"
    by (simp add: weekday_add_days)
  also have "\<dots> = (weekday cur + 1 + (v - weekday cur - 1) mod 7) mod 7"
    by (simp only: add.assoc)
  also have "\<dots> = (weekday cur + 1 + (v - weekday cur - 1)) mod 7" by (rule mod_add_right_eq)
  also have "\<dots> = v" using assms(2,3) by simp
  finally show "weekday (cur + days (1 + int ?k)) \<in> set ws" using assms(1) by simp
qed

definition weekdays_of :: "scheduled_maintenance \<Rightarrow> int list" where
  "weekdays_of m = (if sm_recurrence_weekdays m = [] then [weekday (sm_starts_at m)]
                    else sm_recurrence_weekdays m)"

lemma next_weekday_some_weekday:
  assumes "\<exists>v \<in> set (weekdays_of m). 0 \<le> v \<and> v \<le> 6"
  shows "\<exists>t. next_weekday 366 (weekdays_of m) (sm_starts_at m) (sm_starts_at m + days 1) = Some t"
proof -
  from assms weekday_within_week obtain k where "k < 7"
    "weekday (sm_starts_at m + days (1 + int k)) \<in> set (weekdays_of m)"
    by blast
  then have "next_weekday 366 (weekdays_of m) (sm_starts_at m) (sm_starts_at m + days 1) \<noteq> None"
    by (intro next_weekday_found [of _ _ k]) auto
  then show ?thesis by auto
qed

lemma interval_pos: "max 1 (int (if n = 0 then 1 else n)) = max 1 (int n)"
  by simp

lemma weekly_start:
  assumes "sm_recurrence_frequency m = RecWeekly"
  shows "next_recurrence_start m =
    (case next_weekday 366 (weekdays_of m) (sm_starts_at m) (sm_starts_at m + days 1) of
       Some t \<Rightarrow> Some t
     | None \<Rightarrow> Some (sm_starts_at m + days (7 * max 1 (int (sm_recurrence_interval m)))))"
  using assms by (simp add: next_recurrence_start_def weekdays_of_def Let_def interval_pos)

section \<open>Months\<close>

text \<open>The civil date of a day determines it, and a valid date is the civil date of its day.\<close>

lemma civil_day_number:
  assumes "1 \<le> m" "m \<le> 12" "1 \<le> d" "d \<le> month_length y m"
  shows "civil (day_number y m d) = (y, m, d)"
proof -
  obtain y' m' d' where c: "civil (day_number y m d) = (y', m', d')" by (metis prod_cases3)
  note v = civil_valid [OF c]
  have month: "12 * (y - 1) + (m - 1) = 12 * (y' - 1) + (m' - 1)"
  proof (rule linorder_cases)
    assume "12 * (y - 1) + (m - 1) < 12 * (y' - 1) + (m' - 1)"
    from day_number_later_month [OF this assms(1,2) v(1,2) assms(4) v(3)] v(5) show ?thesis by simp
  next
    assume "12 * (y' - 1) + (m' - 1) < 12 * (y - 1) + (m - 1)"
    from day_number_later_month [OF this v(1,2) assms(1,2) v(4) assms(3)] v(5) show ?thesis by simp
  qed
  have "y' = y"
  proof (rule linorder_cases)
    assume "y' < y"
    with month assms(1) v(2) have False by arith
    then show ?thesis ..
  next
    assume "y < y'"
    with month assms(2) v(1) have False by arith
    then show ?thesis ..
  qed
  with month have "m' = m" by simp
  with v(5) \<open>y' = y\<close> have "d' = d" by (simp add: day_number_def)
  with c \<open>y' = y\<close> \<open>m' = m\<close> show ?thesis by simp
qed

lemma add_months_civil:
  assumes "civil (day_of t) = (y, m, d)" and "k = m - 1 + n"
  shows "time_of (add_months t n) = time_of t"
    "civil (day_of (add_months t n)) =
      (y + k div 12, k mod 12 + 1, min d (month_length (y + k div 12) (k mod 12 + 1)))"
proof -
  let ?y = "y + k div 12" and ?m = "k mod 12 + 1"
  let ?d = "min d (month_length ?y ?m)"
  have a: "add_months t n = day_number ?y ?m ?d * day_us + time_of t"
    using assms by (simp add: add_months_def Let_def)
  then show "time_of (add_months t n) = time_of t" by (simp add: time_of_bounds)
  have "k mod 12 < 12" by simp
  then have m: "1 \<le> ?m" "?m \<le> 12" by simp_all
  have d: "1 \<le> ?d" "?d \<le> month_length ?y ?m"
    using civil_valid(3) [OF assms(1)] month_length_bounds(1) [of ?y ?m] by auto
  have "day_of (add_months t n) = day_number ?y ?m ?d"
    unfolding a by (simp add: time_of_bounds)
  then show "civil (day_of (add_months t n)) = (?y, ?m, ?d)"
    using civil_day_number [OF m d] by simp
qed

lemma add_months_later:
  assumes "1 \<le> n"
  shows "day_of t < day_of (add_months t n)"
proof -
  obtain y m d where c: "civil (day_of t) = (y, m, d)" by (metis prod_cases3)
  let ?k = "m - 1 + n"
  note c' = add_months_civil(2) [OF c refl, of n]
  have less: "12 * (y - 1) + (m - 1) < 12 * (y + ?k div 12 - 1) + (?k mod 12 + 1 - 1)"
    using assms mult_div_mod_eq [of 12 ?k] by (simp add: algebra_simps)
  note v = civil_valid [OF c] and v' = civil_valid [OF c']
  from day_number_later_month [OF less v(1,2) v'(1,2) v(4) v'(3)] v(5) v'(5) show ?thesis by simp
qed

section \<open>The next window\<close>

lemma next_start_day:
  assumes "next_recurrence_start m = Some t"
  shows "time_of t = time_of (sm_starts_at m) \<and> day_of (sm_starts_at m) < day_of t"
proof (cases "sm_recurrence_frequency m")
  case RecWeekly
  show ?thesis
  proof (cases "next_weekday 366 (weekdays_of m) (sm_starts_at m) (sm_starts_at m + days 1)")
    case None
    with RecWeekly assms show ?thesis by (auto simp: weekly_start)
  next
    case (Some t')
    with RecWeekly assms have "t' = t" by (simp add: weekly_start)
    with Some next_weekday_Some [of 366 "weekdays_of m" "sm_starts_at m" 1 t] show ?thesis by auto
  qed
next
  case RecMonthly
  obtain y mo d where c: "civil (day_of (sm_starts_at m)) = (y, mo, d)" by (metis prod_cases3)
  from RecMonthly assms add_months_civil(1) [OF c refl] show ?thesis
    by (auto simp: next_recurrence_start_def Let_def intro!: add_months_later)
qed (use assms in \<open>auto simp: next_recurrence_start_def Let_def\<close>)

lemma next_start_later:
  assumes "next_recurrence_start m = Some t"
  shows "sm_starts_at m + days 1 \<le> t"
proof -
  have "t = sm_starts_at m + days (day_of t - day_of (sm_starts_at m))"
    using next_start_day [OF assms] by (intro same_time_day) simp
  moreover have "days 1 \<le> days (day_of t - day_of (sm_starts_at m))"
    using next_start_day [OF assms] by (simp add: days_mono)
  ultimately show ?thesis by linarith
qed

lemma next_windowD:
  "next_window now m = Some t \<Longrightarrow> next_recurrence_start m = Some t \<and>
     sm_recurrence_frequency m \<noteq> RecNone \<and> (\<forall>u. sm_recurrence_until m = Some u \<longrightarrow> now < u \<and> t < u)"
  by (auto simp: next_window_def not_le split: if_splits option.splits)

lemma ensure_series_id_keeps:
  "ensure_series_id e m w = (s, m1, w1) \<Longrightarrow>
     m1 = m\<lparr>sm_series_id := Some s, sm_updated_at := sm_updated_at m1\<rparr> \<and>
     (sm_series_id m \<noteq> None \<longrightarrow> sm_series_id m = Some s) \<and>
     map sm_id (w_maintenances w1) = map sm_id (w_maintenances w) \<and>
     (\<forall>r \<in> set (w_maintenances w1). sm_id r = sm_id m \<longrightarrow>
        r \<in> set (w_maintenances w) \<and> sm_series_id m = Some s \<or> sm_series_id r = Some s)"
  by (auto simp: ensure_series_id_def Let_def save_maintenance_def update_where_def split: option.splits)

text \<open>What a new occurrence takes over and what is new about it.\<close>

definition same_series :: "scheduled_maintenance \<Rightarrow> scheduled_maintenance \<Rightarrow> bool" where
  "same_series m c \<longleftrightarrow>
     sm_tenant c = sm_tenant m \<and> sm_project c = sm_project m \<and> sm_team c = sm_team m \<and>
     sm_title c = sm_title m \<and> sm_monitors c = sm_monitors m \<and>
     sm_notify_subscribers c = sm_notify_subscribers m \<and>
     sm_is_visible_on_status_page c = sm_is_visible_on_status_page m \<and>
     sm_recurrence_frequency c = sm_recurrence_frequency m \<and>
     sm_recurrence_interval c = sm_recurrence_interval m \<and>
     sm_recurrence_weekdays c = sm_recurrence_weekdays m \<and>
     sm_recurrence_until c = sm_recurrence_until m"

lemma schedule_next_Some:
  assumes "schedule_next_occurrence e m w = (Some c, w')"
  shows "next_window (e_now e) m = Some (sm_starts_at c)"
    "sm_ends_at c - sm_starts_at c = sm_ends_at m - sm_starts_at m"
    "sm_status c = MScheduled" "same_series m c" "sm_series_id c \<noteq> None"
    "sm_series_id m \<noteq> None \<longrightarrow> sm_series_id c = sm_series_id m"
    "\<exists>ms. w_maintenances w' = ms @ [c] \<and> map sm_id ms = map sm_id (w_maintenances w)"
proof -
  obtain t where t: "next_window (e_now e) m = Some t"
    using assms by (auto simp: schedule_next_occurrence_def split: option.splits)
  obtain s m1 w1 where s: "ensure_series_id e m w = (s, m1, w1)" by (metis prod_cases3)
  note k = ensure_series_id_keeps [OF s]
  have eqs: "sm_tenant m1 = sm_tenant m" "sm_project m1 = sm_project m" "sm_team m1 = sm_team m"
    "sm_title m1 = sm_title m" "sm_monitors m1 = sm_monitors m"
    "sm_notify_subscribers m1 = sm_notify_subscribers m"
    "sm_is_visible_on_status_page m1 = sm_is_visible_on_status_page m"
    "sm_recurrence_frequency m1 = sm_recurrence_frequency m"
    "sm_recurrence_interval m1 = sm_recurrence_interval m"
    "sm_recurrence_weekdays m1 = sm_recurrence_weekdays m"
    "sm_recurrence_until m1 = sm_recurrence_until m"
    by (subst conjunct1 [OF k], simp)+
  from assms t s have c: "sm_starts_at c = t" "sm_ends_at c = t + (sm_ends_at m - sm_starts_at m)"
    "sm_status c = MScheduled" "sm_series_id c = Some s" "same_series m1 c"
    "w_maintenances w' = w_maintenances w1 @ [c]"
    by (auto simp: schedule_next_occurrence_def same_series_def Let_def)
  show "next_window (e_now e) m = Some (sm_starts_at c)" using t c by simp
  show "sm_ends_at c - sm_starts_at c = sm_ends_at m - sm_starts_at m" using c by simp
  show "sm_status c = MScheduled" "sm_series_id c \<noteq> None" using c by simp_all
  show "same_series m c" using c(5) by (simp add: same_series_def eqs)
  show "sm_series_id m \<noteq> None \<longrightarrow> sm_series_id c = sm_series_id m" using k c by simp
  show "\<exists>ms. w_maintenances w' = ms @ [c] \<and> map sm_id ms = map sm_id (w_maintenances w)"
    using k c by simp
qed

text \<open>
  A recurring window is followed by one that continues its series: it starts on a later day
  at the same time of day, lasts as long, starts before the end of the recurrence, concerns the
  same monitors and shares the recurrence and the series id; it is the one row added.
\<close>

theorem next_occurrence_continues_series:
  assumes "schedule_next_occurrence e m w = (Some c, w')"
  shows "sm_starts_at m + days 1 \<le> sm_starts_at c \<and> time_of (sm_starts_at c) = time_of (sm_starts_at m) \<and>
    sm_ends_at c - sm_starts_at c = sm_ends_at m - sm_starts_at m \<and>
    (\<forall>u. sm_recurrence_until m = Some u \<longrightarrow> sm_starts_at c < u) \<and>
    same_series m c \<and> sm_status c = MScheduled \<and> sm_series_id c \<noteq> None \<and>
    (sm_series_id m \<noteq> None \<longrightarrow> sm_series_id c = sm_series_id m) \<and>
    (\<exists>ms. w_maintenances w' = ms @ [c] \<and> map sm_id ms = map sm_id (w_maintenances w))"
proof -
  note c = schedule_next_Some [OF assms]
  note n = next_windowD [OF c(1)]
  from n have start: "next_recurrence_start m = Some (sm_starts_at c)" by simp
  from c n next_start_later [OF start] next_start_day [OF start] show ?thesis by simp
qed

text \<open>Nightly maintenance of the whole of project 2, from 22:00 to 23:00 on 1 January 1970.\<close>

definition sample_window :: scheduled_maintenance where
  "sample_window =
     \<lparr>sm_id = 70, sm_tenant = 1, sm_project = 2, sm_team = None, sm_title = ''Nightly'',
      sm_description = [], sm_starts_at = hours 22, sm_ends_at = hours 23, sm_monitors = [],
      sm_status = MCompleted, sm_is_visible_on_status_page = True, sm_notify_subscribers = True,
      sm_recurrence_frequency = RecDaily, sm_recurrence_interval = 1, sm_recurrence_weekdays = [],
      sm_recurrence_until = Some (days 20), sm_series_id = None,
      sm_created_at = 0, sm_updated_at = 0\<rparr>"

lemma sample_window_fields [simp]:
  "sm_id sample_window = 70" "sm_project sample_window = 2" "sm_monitors sample_window = []"
  "sm_starts_at sample_window = hours 22" "sm_ends_at sample_window = hours 23"
  "sm_recurrence_frequency sample_window = RecDaily" "sm_recurrence_interval sample_window = 1"
  "sm_recurrence_weekdays sample_window = []" "sm_recurrence_until sample_window = Some (days 20)"
  "sm_series_id sample_window = None" "sm_status sample_window = MCompleted"
  by (simp_all add: sample_window_def)

theorem next_occurrence_continues_series_witness:
  "\<exists>c w'. schedule_next_occurrence (sample_env\<lparr>e_now := hours 23\<rparr>) sample_window empty_world = (Some c, w') \<and>
     sm_starts_at c = hours 46 \<and> sm_ends_at c = hours 47 \<and> sm_series_id c = Some 1 \<and>
     sm_starts_at sample_window + days 1 \<le> sm_starts_at c"
proof -
  let ?r = "schedule_next_occurrence (sample_env\<lparr>e_now := hours 23\<rparr>) sample_window empty_world"
  obtain c w' where r: "?r = (Some c, w')" "sm_starts_at c = hours 46" "sm_ends_at c = hours 47"
    "sm_series_id c = Some 1"
    by (simp add: schedule_next_occurrence_def next_window_def next_recurrence_start_def Let_def
        ensure_series_id_def time_defs empty_world_def save_maintenance_def)
  from next_occurrence_continues_series [OF r(1)] r show ?thesis by auto
qed

text \<open>
  A weekly window returns on the first listed weekday after it, at most seven days later -
  whatever the interval: \<open>recurrence_interval\<close> ("repeat every N weeks") has no effect on weekly
  recurrence as soon as one listed weekday is valid, and with no weekday listed the window
  returns every week.
\<close>

theorem weekly_recurrence_ignores_interval:
  assumes "sm_recurrence_frequency m = RecWeekly" "\<exists>v \<in> set (weekdays_of m). 0 \<le> v \<and> v \<le> 6"
  shows "\<exists>k. 1 \<le> k \<and> k \<le> 7 \<and>
    next_recurrence_start (m\<lparr>sm_recurrence_interval := n\<rparr>) = Some (sm_starts_at m + days k) \<and>
    weekday (sm_starts_at m + days k) \<in> set (weekdays_of m) \<and>
    (\<forall>j. 1 \<le> j \<and> j < k \<longrightarrow> weekday (sm_starts_at m + days j) \<notin> set (weekdays_of m))"
proof -
  have same: "weekdays_of (m\<lparr>sm_recurrence_interval := n\<rparr>) = weekdays_of m" by (simp add: weekdays_of_def)
  obtain t where t: "next_weekday 366 (weekdays_of m) (sm_starts_at m) (sm_starts_at m + days 1) = Some t"
    using next_weekday_some_weekday [OF assms(2)] by auto
  have next_start: "next_recurrence_start (m\<lparr>sm_recurrence_interval := n\<rparr>) = Some t"
    using assms(1) t by (simp add: weekly_start same)
  obtain k where k: "1 \<le> k" "t = sm_starts_at m + days k" "weekday t \<in> set (weekdays_of m)"
    "\<forall>j. 1 \<le> j \<and> j < k \<longrightarrow> weekday (sm_starts_at m + days j) \<notin> set (weekdays_of m)"
    using next_weekday_Some [OF t] by auto
  obtain i where i: "i < 7" "weekday (sm_starts_at m + days (1 + int i)) \<in> set (weekdays_of m)"
    using assms(2) weekday_within_week by blast
  have "k \<le> 7"
  proof (rule ccontr)
    assume "\<not> k \<le> 7"
    with i(1) k(4) [rule_format, of "1 + int i"] i(2) show False by simp
  qed
  with k next_start show ?thesis by (intro exI [of _ k]) auto
qed

theorem weekly_recurrence_ignores_interval_witness:
  "\<exists>k. 1 \<le> k \<and> k \<le> (7::int) \<and>
    next_recurrence_start (sample_window\<lparr>sm_recurrence_frequency := RecWeekly, sm_recurrence_interval := 4\<rparr>) =
      Some (hours 22 + days k)"
  using weekly_recurrence_ignores_interval
    [of "sample_window\<lparr>sm_recurrence_frequency := RecWeekly\<rparr>" 4] weekday_bounds
  by (auto simp: weekdays_of_def)

text \<open>
  A monthly window returns after exactly \<open>recurrence_interval\<close> calendar months on the same
  day of the month, or on the last day of a month too short for it; and the day never comes
  back: since the next window is computed from the shortened one, a window on the 31st moves
  to the 28th in February and stays there.
\<close>

theorem monthly_recurrence_drifts:
  assumes "sm_recurrence_frequency m = RecMonthly" "civil (day_of (sm_starts_at m)) = (y, mo, d)"
    and "k = mo - 1 + max 1 (int (sm_recurrence_interval m))"
  shows "\<exists>t. next_recurrence_start m = Some t \<and> time_of t = time_of (sm_starts_at m) \<and>
    civil (day_of t) =
      (y + k div 12, k mod 12 + 1, min d (month_length (y + k div 12) (k mod 12 + 1))) \<and>
    (\<exists>t' y' mo' d'. next_recurrence_start (m\<lparr>sm_starts_at := t\<rparr>) = Some t' \<and>
       civil (day_of t') = (y', mo', d') \<and>
       d' \<le> min d (month_length (y + k div 12) (k mod 12 + 1)))"
proof -
  let ?n = "max 1 (int (sm_recurrence_interval m))"
  let ?t = "add_months (sm_starts_at m) ?n"
  note a = add_months_civil [OF assms(2,3)]
  have 1: "next_recurrence_start m = Some ?t"
    using assms(1) by (simp add: next_recurrence_start_def Let_def interval_pos)
  have 2: "next_recurrence_start (m\<lparr>sm_starts_at := ?t\<rparr>) = Some (add_months ?t ?n)"
    using assms(1) by (simp add: next_recurrence_start_def Let_def interval_pos)
  note b = add_months_civil(2) [OF a(2) refl, of ?n]
  have "\<exists>t' y' mo' d'. next_recurrence_start (m\<lparr>sm_starts_at := ?t\<rparr>) = Some t' \<and>
      civil (day_of t') = (y', mo', d') \<and> d' \<le> min d (month_length (y + k div 12) (k mod 12 + 1))"
    by (intro exI conjI, rule 2, rule b, rule min.cobounded1)
  with 1 a show ?thesis by blast
qed

theorem monthly_recurrence_drifts_witness:
  "\<exists>t. next_recurrence_start
      (sample_window\<lparr>sm_recurrence_frequency := RecMonthly, sm_starts_at := days 30\<rparr>) = Some t \<and>
    civil (day_of t) = (1970, 2, 28)"
proof -
  have start: "civil (day_of (days 30)) = (1970, 1, 31)" by code_simp
  note m = monthly_recurrence_drifts
    [of "sample_window\<lparr>sm_recurrence_frequency := RecMonthly, sm_starts_at := days 30\<rparr>"]
  from m [of 1970 1 31 1] start show ?thesis by (auto simp: month_length_def is_leap_def)
qed

section \<open>A series ends\<close>

text \<open>A series as the server runs it: the completion of each window schedules the next one.\<close>

definition series_step ::
  "scheduled_maintenance option \<times> world \<Rightarrow> env \<Rightarrow> scheduled_maintenance option \<times> world" where
  "series_step s e =
     (case fst s of None \<Rightarrow> s | Some m \<Rightarrow> schedule_next_occurrence e m (snd s))"

definition until_set :: "scheduled_maintenance option \<times> world \<Rightarrow> bool" where
  "until_set s \<longleftrightarrow> (\<forall>m. fst s = Some m \<longrightarrow> sm_recurrence_until m \<noteq> None)"

definition days_left :: "scheduled_maintenance option \<times> world \<Rightarrow> nat" where
  "days_left s =
     (case fst s of None \<Rightarrow> 0
      | Some m \<Rightarrow> 1 + nat ((the (sm_recurrence_until m) - sm_starts_at m) div day_us))"

lemma schedule_next_days_left:
  assumes "schedule_next_occurrence e m w = (Some c, w')" "sm_recurrence_until m = Some u"
  shows "sm_recurrence_until c = Some u" "days_left (Some c, w') < days_left (Some m, w)"
proof -
  note c = schedule_next_Some [OF assms(1)]
  from c(4) assms(2) show u: "sm_recurrence_until c = Some u" by (simp add: same_series_def)
  from next_windowD [OF c(1)] assms(2) have "sm_starts_at c < u"
    and "sm_starts_at m + days 1 \<le> sm_starts_at c" by (auto intro: next_start_later)
  then have "0 \<le> (u - sm_starts_at c) div day_us"
    "(u - sm_starts_at c) div day_us \<le> (u - sm_starts_at m - 1 * day_us) div day_us"
    by (auto simp: day_us_def days_day_us intro!: zdiv_mono1)
  moreover have "(u - sm_starts_at m - 1 * day_us) div day_us = (u - sm_starts_at m) div day_us - 1"
    by (simp add: day_us_def)
  ultimately show "days_left (Some c, w') < days_left (Some m, w)"
    using u assms(2) by (simp add: days_left_def)
qed

interpretation series: measured_machine series_step until_set "\<lambda>s. fst s \<noteq> None" days_left
proof
  fix s :: "scheduled_maintenance option \<times> world" and e
  assume inv: "until_set s"
  show "until_set (series_step s e)"
  proof (cases "fst s")
    case (Some m)
    with inv obtain u where u: "sm_recurrence_until m = Some u" by (auto simp: until_set_def)
    obtain r w' where r: "schedule_next_occurrence e m (snd s) = (r, w')" by force
    with Some u schedule_next_days_left(1) [of e m "snd s" _ w' u] show ?thesis
      by (auto simp: until_set_def series_step_def)
  qed (use inv in \<open>simp add: series_step_def\<close>)
  show "fst s \<noteq> None \<Longrightarrow> days_left (series_step s e) < days_left s"
  proof -
    assume "fst s \<noteq> None"
    then obtain m w where s: "s = (Some m, w)" by (cases s) auto
    obtain r w' where r: "schedule_next_occurrence e m w = (r, w')" by force
    from inv s obtain u where "sm_recurrence_until m = Some u" by (auto simp: until_set_def)
    with r s schedule_next_days_left(2) show ?thesis
      by (cases r) (auto simp: series_step_def days_left_def)
  qed
  show "\<not> fst s \<noteq> None \<Longrightarrow> series_step s e = s" by (simp add: series_step_def)
qed

text \<open>
  C40. A recurrence with an end comes to an end: from a window that starts \<open>n\<close> whole days before
  \<open>recurrence_until\<close>, at most \<open>n\<close> further windows are ever scheduled, whenever the completions
  are processed; the next completion schedules nothing.
\<close>

theorem recurring_series_ends:
  assumes "sm_recurrence_until m = Some u"
    and "1 + nat ((u - sm_starts_at m) div day_us) \<le> length es"
  shows "fst (foldl series_step (Some m, w) es) = None"
  using series.run_stops [of "(Some m, w)" es] assms
  by (simp add: until_set_def days_left_def series.run_def)

theorem recurring_series_ends_witness:
  "fst (foldl series_step (Some sample_window, empty_world) (replicate 20 sample_env)) = None"
  by (rule recurring_series_ends [of _ "days 20"]) (simp_all add: time_defs day_us_def)

end
