(* ===== verification/MonitorFacts.thy ===== *)
theory MonitorFacts
  imports MonitorRunner IncidentFacts MaintenanceFacts
begin

text \<open>
  What a run of the checks does to monitors and incidents: the status machine of a monitor, the
  effect of maintenance, which monitors a run reaches; and that the status timeline counts every
  check once.
\<close>

section \<open>Frames\<close>

lemma attach_same_but_progress:
  "snd (attach_escalation_policy e i w) = w\<lparr>w_esc_states := w_esc_states (snd (attach_escalation_policy e i w)),
     w_next := w_next (snd (attach_escalation_policy e i w))\<rparr>"
  by (auto simp: attach_escalation_policy_def split: option.splits prod.splits)

lemma emit_incident_created_frame:
  assumes "emit_incident_created e i w = (i', w')"
  shows "map lifecycle (w_incidents w') = map lifecycle (w_incidents w)" "w_monitors w' = w_monitors w"
    "w_checks w' = w_checks w" "w_maintenances w' = w_maintenances w" "w_states w' = w_states w"
proof -
  let ?w1 = "emit_incident e ''incident.created'' i w"
  obtain s w2 where 2: "attach_escalation_policy e i ?w1 = (s, w2)" by force
  obtain r i3 w3 where 3: "run_workflow_rules e IncidentCreated i w2 = (r, i3, w3)" by (metis prod_cases3)
  from assms 2 3 have w': "w' = w3" by (simp add: emit_incident_created_def)
  have w2: "w2 = ?w1\<lparr>w_esc_states := w_esc_states w2, w_next := w_next w2\<rparr>"
    using attach_same_but_progress [of e i ?w1] 2 by simp
  have same: "w_incidents w2 = w_incidents w" "w_monitors w2 = w_monitors w" "w_checks w2 = w_checks w"
    "w_maintenances w2 = w_maintenances w" "w_states w2 = w_states w"
    by (subst w2, simp)+
  from run_workflow_rules_same_lifecycles [OF 3] w' same
  show "map lifecycle (w_incidents w') = map lifecycle (w_incidents w)" "w_monitors w' = w_monitors w"
    "w_checks w' = w_checks w" "w_maintenances w' = w_maintenances w" "w_states w' = w_states w"
    by (simp_all add: same_lifecycles_def)
qed

lemma update_monitor_frame [simp]:
  "w_incidents (update_monitor i f w) = w_incidents w"
  "w_checks (update_monitor i f w) = w_checks w"
  "w_maintenances (update_monitor i f w) = w_maintenances w"
  "w_states (update_monitor i f w) = w_states w"
  "w_monitors (update_monitor i f w) = update_where (\<lambda>r. mo_id r = i) f (w_monitors w)"
  by (simp_all add: update_monitor_def)

lemma emit_status_frame [simp]:
  "w_incidents (emit_monitor_status_changed e m s w) = w_incidents w"
  "w_checks (emit_monitor_status_changed e m s w) = w_checks w"
  "w_maintenances (emit_monitor_status_changed e m s w) = w_maintenances w"
  "w_monitors (emit_monitor_status_changed e m s w) = w_monitors w"
  by (simp_all add: emit_monitor_status_changed_def)

section \<open>Opening and closing the incident of a monitor\<close>

text \<open>The lifecycle an automatic incident starts with.\<close>

definition triggered_lifecycle ::
  "uuid \<Rightarrow> uuid \<Rightarrow> uuid \<Rightarrow> uuid \<times> uuid \<times> uuid \<times> datetime option \<times> uuid option \<times> datetime option \<times> uuid option" where
  "triggered_lifecycle i project state = (i, project, state, None, None, None, None)"

lemma open_incident_cases:
  obtains (none) "named_state w (mo_project m) ''triggered'' = None \<or>
      named_severity w (mo_project m) ''critical'' = None" "open_incident e m ck w = w"
  | (opened) st sv w' where "named_state w (mo_project m) ''triggered'' = Some st"
      "named_severity w (mo_project m) ''critical'' = Some sv" "open_incident e m ck w = w'"
      "map lifecycle (w_incidents w') =
         map lifecycle (w_incidents w) @ [triggered_lifecycle (w_next w) (mo_project m) (st_id st)]"
      "w_monitors w' = update_where (\<lambda>r. mo_id r = mo_id m)
         (\<lambda>r. r\<lparr>mo_current_incident := Some (w_next w)\<rparr>) (w_monitors w)"
      "w_checks w' = update_where (\<lambda>c. ck_id c = ck_id ck)
         (\<lambda>c. c\<lparr>ck_triggered_incident := Some (w_next w)\<rparr>) (w_checks w)"
      "w_maintenances w' = w_maintenances w"
proof (cases "named_state w (mo_project m) ''triggered''")
  case None
  then show ?thesis by (intro none) (simp_all add: open_incident_def)
next
  case (Some st)
  note st = this
  show ?thesis
  proof (cases "named_severity w (mo_project m) ''critical''")
    case None
    with st show ?thesis by (intro none) (simp_all add: open_incident_def)
  next
    case (Some sv)
    define i where "i = monitor_incident e (w_next w) m ck (sv_id sv) (st_id st)"
    define w1 where "w1 = on_incident_save e i True
      (w\<lparr>w_incidents := w_incidents w @ [i], w_next := Suc (w_next w)\<rparr>)"
    define w3 where "w3 = update_monitor (mo_id m) (\<lambda>r. r\<lparr>mo_current_incident := Some (ic_id i)\<rparr>)
      (w1\<lparr>w_checks := update_where (\<lambda>c. ck_id c = ck_id ck)
         (\<lambda>c. c\<lparr>ck_triggered_incident := Some (ic_id i)\<rparr>) (w_checks w1)\<rparr>)"
    obtain i' w' where created: "emit_incident_created e i w3 = (i', w')" by force
    have i: "ic_id i = w_next w" "lifecycle i = triggered_lifecycle (w_next w) (mo_project m) (st_id st)"
      by (simp_all add: i_def monitor_incident_def lifecycle_def triggered_lifecycle_def)
    have "open_incident e m ck w = w'"
      using st Some created by (simp add: open_incident_def Let_def i_def w1_def w3_def)
    with st Some show ?thesis
      by (rule opened)
        (use emit_incident_created_frame [OF created] i in \<open>simp_all add: w3_def w1_def\<close>)
  qed
qed

text \<open>What closing the incident \<open>ci\<close> of a monitor writes.\<close>

lemma close_incident_frame:
  "w_monitors (close_incident e m w) = w_monitors w \<or>
   w_monitors (close_incident e m w) =
     update_where (\<lambda>r. mo_id r = mo_id m) (\<lambda>r. r\<lparr>mo_current_incident := None\<rparr>) (w_monitors w)"
  "w_checks (close_incident e m w) = w_checks w"
  "w_maintenances (close_incident e m w) = w_maintenances w"
  by (auto simp: close_incident_def split: option.splits)

lemma close_incident_resolves:
  assumes "mo_current_incident m = Some ci" "\<exists>s. resolved_state w (mo_project m) s"
  shows "\<exists>s. resolved_state w (mo_project m) s \<and>
    w_incidents (close_incident e m w) = update_where (\<lambda>i. ic_id i = ci)
      (\<lambda>i. i\<lparr>ic_state := st_id s, ic_resolved_at := Some (e_now e)\<rparr>) (w_incidents w) \<and>
    w_monitors (close_incident e m w) =
      update_where (\<lambda>r. mo_id r = mo_id m) (\<lambda>r. r\<lparr>mo_current_incident := None\<rparr>) (w_monitors w)"
proof -
  let ?ss = "order_by st_order (filter (\<lambda>s. st_project s = mo_project m \<and> st_is_resolved_state s) (w_states w))"
  obtain s where s: "first_row ?ss = Some s"
    using assms(2) by (cases "first_row ?ss") (auto simp: resolved_state_def filter_empty_conv)
  with first_row_in [OF s] assms(1) show ?thesis
    by (intro exI [of _ s]) (auto simp: close_incident_def resolved_state_def)
qed

section \<open>The status machine of a monitor\<close>

text \<open>
  The status a monitor moves to, from its status, the statuses of its last checks and whether a
  maintenance window covers it.
\<close>

definition next_monitor_status :: "bool \<Rightarrow> check_status list \<Rightarrow> monitor_status \<Rightarrow> monitor_status" where
  "next_monitor_status under_maintenance recent s =
     (if s = Operational \<and> list_all failed_status recent \<and> \<not> under_maintenance then Offline
      else if s = Offline \<and> list_all (\<lambda>c. c = Success) recent then Operational
      else s)"

lemma under_maintenance_cong:
  "w_maintenances w' = w_maintenances w \<Longrightarrow>
     is_monitor_under_maintenance w' m = is_monitor_under_maintenance w m"
  by (simp add: under_maintenance_iff)

text \<open>The row of a monitor after a check of the instance \<open>m\<close>; \<open>f\<close> touches the current incident only.\<close>

definition checked_row :: "env \<Rightarrow> monitor \<Rightarrow> monitor_status \<Rightarrow> monitor \<Rightarrow> monitor" where
  "checked_row e m s r =
     r\<lparr>mo_status := s, mo_last_check_at := Some (e_now e),
       mo_next_check_at := Some (e_now e + seconds (int (mo_interval_seconds m)))\<rparr>"

text \<open>The first effect of the status machine: incidents are opened or closed.\<close>

definition incident_effect ::
  "env \<Rightarrow> monitor \<Rightarrow> monitor_check \<Rightarrow> monitor_status \<Rightarrow> world \<Rightarrow> world" where
  "incident_effect e m ck s w =
     (if s = mo_status m then w
      else if s = Offline then (if mo_alert_on_failure m then open_incident e m ck w else w)
      else close_incident e m w)"

lemma update_monitor_status_unfold:
  fixes w m
  defines "s \<equiv> next_monitor_status (is_monitor_under_maintenance w m) (recent_statuses w m) (mo_status m)"
  shows "\<exists>m'. update_monitor_status e m ck w =
    (m\<lparr>mo_status := s, mo_last_check_at := Some (ck_checked_at ck)\<rparr>,
     emit_monitor_status_changed e m' (mo_status m)
       (update_monitor (mo_id m)
          (\<lambda>r. r\<lparr>mo_status := s, mo_last_check_at := Some (ck_checked_at ck),
                 mo_next_check_at := Some (e_now e + seconds (int (mo_interval_seconds m)))\<rparr>)
          (incident_effect e m ck s w))) \<and> mo_status m' = s"
proof -
  let ?m' = "m\<lparr>mo_status := s, mo_last_check_at := Some (ck_checked_at ck)\<rparr>"
  have "update_monitor_status e m ck w =
    (?m', emit_monitor_status_changed e ?m' (mo_status m)
       (update_monitor (mo_id m)
          (\<lambda>r. r\<lparr>mo_status := s, mo_last_check_at := Some (ck_checked_at ck),
                 mo_next_check_at := Some (e_now e + seconds (int (mo_interval_seconds m)))\<rparr>)
          (incident_effect e m ck s w)))"
    unfolding update_monitor_status_def Let_def s_def next_monitor_status_def incident_effect_def
    by (cases "mo_status m") (simp_all add: emit_monitor_status_changed_def)
  then show ?thesis by (intro exI [of _ ?m']) simp
qed

lemma incident_effect_monitors:
  "\<exists>f. (\<forall>r. f r = r\<lparr>mo_current_incident := mo_current_incident (f r)\<rparr>) \<and>
     w_monitors (incident_effect e m ck s w) = update_where (\<lambda>r. mo_id r = mo_id m) f (w_monitors w)"
proof (cases "w_monitors (incident_effect e m ck s w) = w_monitors w")
  case True
  then show ?thesis by (intro exI [of _ "\<lambda>r. r"]) (simp add: update_where_def)
next
  case False
  then obtain ci where "w_monitors (incident_effect e m ck s w) =
      update_where (\<lambda>r. mo_id r = mo_id m) (\<lambda>r. r\<lparr>mo_current_incident := ci\<rparr>) (w_monitors w)"
    using close_incident_frame(1) [of e m w]
    by (cases rule: open_incident_cases [of w m e ck])
      (auto simp: incident_effect_def split: if_splits)
  then show ?thesis by (intro exI [of _ "\<lambda>r. r\<lparr>mo_current_incident := ci\<rparr>"]) simp
qed

lemma update_where_twice:
  assumes "\<And>r. p (f r) = p r"
  shows "update_where p g (update_where p f rs) = update_where p (\<lambda>r. g (f r)) rs"
  using assms by (induction rs) auto

lemma length_incident_effect_checks:
  "map ck_id (w_checks (incident_effect e m ck s w)) = map ck_id (w_checks w) \<and>
   map ck_status (w_checks (incident_effect e m ck s w)) = map ck_status (w_checks w)"
  by (cases rule: open_incident_cases [of w m e ck])
    (auto simp: incident_effect_def close_incident_frame map_update_where)

section \<open>A whole check\<close>

definition with_check :: "monitor_check \<Rightarrow> world \<Rightarrow> world" where
  "with_check ck w = w\<lparr>w_checks := w_checks w @ [ck], w_next := Suc (w_next w)\<rparr>"

text \<open>The status a check \<open>ck\<close> of the instance \<open>m\<close> leads to.\<close>

definition status_after :: "world \<Rightarrow> monitor \<Rightarrow> monitor_check \<Rightarrow> monitor_status" where
  "status_after w m ck =
     next_monitor_status (is_monitor_under_maintenance w m)
       (recent_statuses (with_check ck w) m) (mo_status m)"

lemma recorded_check_fields [simp]:
  "ck_checked_at (recorded_check e pk m r) = e_now e"
  "ck_id (recorded_check e pk m r) = pk"
  "ck_monitor (recorded_check e pk m r) = mo_id m"
  "ck_status (recorded_check e pk m r) = fst r"
  by (simp_all add: recorded_check_def split: prod.splits)

lemma with_check_frame [simp]:
  "w_incidents (with_check ck w) = w_incidents w" "w_monitors (with_check ck w) = w_monitors w"
  "w_states (with_check ck w) = w_states w" "w_severities (with_check ck w) = w_severities w"
  "w_checks (with_check ck w) = w_checks w @ [ck]" "w_next (with_check ck w) = Suc (w_next w)"
  "w_maintenances (with_check ck w) = w_maintenances w"
  by (simp_all add: with_check_def)

lemma execute_check_unfold:
  assumes "run_check e n m = Inr r" "execute_check e n m w = (res, w')"
  obtains ck m' where "ck = recorded_check e (w_next w) m r" "res = Ok ck"
    "w' = emit_monitor_status_changed e m' (mo_status m)
       (update_monitor (mo_id m) (checked_row e m (status_after w m ck))
          (incident_effect e m ck (status_after w m ck) (with_check ck w)))"
proof -
  let ?ck = "recorded_check e (w_next w) m r"
  let ?w1 = "with_check ?ck w"
  have s: "status_after w m ?ck = next_monitor_status (is_monitor_under_maintenance ?w1 m)
      (recent_statuses ?w1 m) (mo_status m)"
    by (simp add: status_after_def under_maintenance_cong [of ?w1 w])
  from update_monitor_status_unfold [of e m ?ck ?w1] obtain m' where
    "snd (update_monitor_status e m ?ck ?w1) = emit_monitor_status_changed e m' (mo_status m)
       (update_monitor (mo_id m) (checked_row e m (status_after w m ?ck))
          (incident_effect e m ?ck (status_after w m ?ck) ?w1))"
    unfolding s checked_row_def recorded_check_fields by (metis snd_conv)
  with assms show ?thesis
    by (intro that [of ?ck m']) (auto simp: execute_check_def Let_def with_check_def)
qed

lemma update_where_list_all2:
  "list_all2 (\<lambda>r r'. r' = (if p r then f r else r)) rs (update_where p f rs)"
  by (induction rs) auto

lemma check_moves_status:
  assumes "run_check e n m = Inr r" "execute_check e n m w = (res, w')"
  shows "\<exists>ck. res = Ok ck \<and> ck_status ck = fst r \<and> ck_monitor ck = mo_id m \<and>
    map ck_id (w_checks w') = map ck_id (w_checks w) @ [ck_id ck] \<and>
    map ck_status (w_checks w') = map ck_status (w_checks w) @ [ck_status ck] \<and>
    list_all2 (\<lambda>row row'.
        if mo_id row = mo_id m
        then row' = (checked_row e m (status_after w m ck) row)\<lparr>mo_current_incident := mo_current_incident row'\<rparr>
        else row' = row)
      (w_monitors w) (w_monitors w')"
proof -
  from assms obtain ck m' where ck: "ck = recorded_check e (w_next w) m r" "res = Ok ck" and
    w': "w' = emit_monitor_status_changed e m' (mo_status m)
       (update_monitor (mo_id m) (checked_row e m (status_after w m ck))
          (incident_effect e m ck (status_after w m ck) (with_check ck w)))"
    by (rule execute_check_unfold)
  let ?s = "status_after w m ck"
  obtain f where f: "\<And>row. f row = row\<lparr>mo_current_incident := mo_current_incident (f row)\<rparr>" and
    rows: "w_monitors (incident_effect e m ck ?s (with_check ck w)) =
      update_where (\<lambda>row. mo_id row = mo_id m) f (w_monitors w)"
    using incident_effect_monitors [of e m ck ?s "with_check ck w"] by auto
  have id: "mo_id (f row) = mo_id row" for row by (subst f) simp
  have "w_monitors w' = update_where (\<lambda>row. mo_id row = mo_id m) (\<lambda>row. checked_row e m ?s (f row)) (w_monitors w)"
    using rows by (simp add: w' update_where_twice id)
  moreover have "checked_row e m ?s (f row) =
      (checked_row e m ?s row)\<lparr>mo_current_incident := mo_current_incident (checked_row e m ?s (f row))\<rparr>" for row
    by (subst f) (simp add: checked_row_def)
  ultimately have "list_all2 (\<lambda>row row'.
        if mo_id row = mo_id m
        then row' = (checked_row e m ?s row)\<lparr>mo_current_incident := mo_current_incident row'\<rparr>
        else row' = row) (w_monitors w) (w_monitors w')"
    by (auto intro: list_all2_mono [OF update_where_list_all2])
  with ck length_incident_effect_checks [of e m ck ?s "with_check ck w"] show ?thesis
    by (intro exI [of _ ck]) (simp add: w')
qed

text \<open>
  C15. A check refines the status machine of monitors: it adds exactly one check with the outcome
  of the probe, and in the table of monitors it writes only the row of its monitor: the row gets
  the status \<open>next_monitor_status\<close> computes from the status, the last \<open>retries\<close> outcomes (the new
  one included) and the maintenance windows in progress, the time of the check, and the next one
  an interval later; besides these fields only the current incident may change.
\<close>

theorem monitor_status_machine:
  assumes "run_check e n m = Inr r" "execute_check e n m w = (res, w')"
  shows "\<exists>ck. res = Ok ck \<and> ck_status ck = fst r \<and> ck_monitor ck = mo_id m \<and>
    map ck_id (w_checks w') = map ck_id (w_checks w) @ [ck_id ck] \<and>
    map ck_status (w_checks w') = map ck_status (w_checks w) @ [ck_status ck] \<and>
    list_all2 (\<lambda>row row'.
        if mo_id row = mo_id m
        then row' = (checked_row e m (status_after w m ck) row)\<lparr>mo_current_incident := mo_current_incident row'\<rparr>
        else row' = row)
      (w_monitors w) (w_monitors w')"
  using assms by (rule check_moves_status)

text \<open>What the check leaves of incidents and of the current incidents is the first effect's.\<close>

lemma execute_check_effect:
  assumes "run_check e n m = Inr r" "execute_check e n m w = (Ok ck, w')"
  defines "w2 \<equiv> incident_effect e m ck (status_after w m ck) (with_check ck w)"
  shows "w_incidents w' = w_incidents w2" "w_checks w' = w_checks w2"
    "map mo_current_incident (w_monitors w') = map mo_current_incident (w_monitors w2)"
    "w_monitors w' = update_where (\<lambda>row. mo_id row = mo_id m) (checked_row e m (status_after w m ck)) (w_monitors w2)"
    "ck_id ck = w_next w" "ck_checked_at ck = e_now e" "ck_status ck = fst r" "ck_monitor ck = mo_id m"
proof -
  from assms(1,2) obtain m' where ck: "ck = recorded_check e (w_next w) m r" and
    w': "w' = emit_monitor_status_changed e m' (mo_status m)
       (update_monitor (mo_id m) (checked_row e m (status_after w m ck)) w2)"
    unfolding w2_def by (rule execute_check_unfold) auto
  then show "w_incidents w' = w_incidents w2" "w_checks w' = w_checks w2"
    "map mo_current_incident (w_monitors w') = map mo_current_incident (w_monitors w2)"
    "w_monitors w' = update_where (\<lambda>row. mo_id row = mo_id m) (checked_row e m (status_after w m ck)) (w_monitors w2)"
    "ck_id ck = w_next w" "ck_checked_at ck = e_now e" "ck_status ck = fst r" "ck_monitor ck = mo_id m"
    by (simp_all add: map_update_where checked_row_def)
qed

lemma checked_row_fields [simp]:
  "mo_id (checked_row e m s r) = mo_id r" "mo_status (checked_row e m s r) = s"
  "mo_last_check_at (checked_row e m s r) = Some (e_now e)"
  "mo_current_incident (checked_row e m s r) = mo_current_incident r"
  by (simp_all add: checked_row_def)

lemma updated_rowE:
  assumes "row \<in> set (update_where (\<lambda>x. mo_id x = i) f ms)" "mo_id row = i"
    "\<And>r. mo_id (f r) = mo_id r"
  obtains r where "r \<in> set ms" "mo_id r = i" "row = f r"
proof -
  from assms(1) obtain r where r: "r \<in> set ms" "row = (if mo_id r = i then f r else r)"
    unfolding in_update_where_iff by blast
  with assms(2,3) have "mo_id r = i" by (cases "mo_id r = i") simp_all
  with r show ?thesis by (intro that) simp_all
qed

lemma row_of_updated:
  assumes "row \<in> set (update_where (\<lambda>x. mo_id x = i) (checked_row e m s) ms)" "mo_id row = i"
  shows "mo_status row = s" "mo_last_check_at row = Some (e_now e)"
proof -
  from assms obtain r where "row = checked_row e m s r" by (rule updated_rowE) simp_all
  then show "mo_status row = s" "mo_last_check_at row = Some (e_now e)" by simp_all
qed

lemma current_of_updated:
  assumes "row \<in> set (update_where (\<lambda>x. mo_id x = i) (checked_row e m s)
      (update_where (\<lambda>x. mo_id x = i) (\<lambda>x. x\<lparr>mo_current_incident := c\<rparr>) ms))" "mo_id row = i"
  shows "mo_current_incident row = c"
proof -
  from assms obtain r where r: "r \<in> set (update_where (\<lambda>x. mo_id x = i) (\<lambda>x. x\<lparr>mo_current_incident := c\<rparr>) ms)"
    "mo_id r = i" "row = checked_row e m s r"
    by (rule updated_rowE) simp_all
  from r(1,2) obtain r' where "r = r'\<lparr>mo_current_incident := c\<rparr>" by (rule updated_rowE) simp_all
  with r(3) show ?thesis by simp
qed

text \<open>The three outcomes of a check for incidents.\<close>

lemma check_incident_effects:
  assumes "run_check e n m = Inr r" "execute_check e n m w = (Ok ck, w')"
  shows "status_after w m ck = mo_status m \<longrightarrow>
      w_incidents w' = w_incidents w \<and>
      map mo_current_incident (w_monitors w') = map mo_current_incident (w_monitors w)"
    and "mo_status m \<noteq> Offline \<and> status_after w m ck = Offline \<and> mo_alert_on_failure m \<and>
       named_state w (mo_project m) ''triggered'' = Some st \<and>
       named_severity w (mo_project m) ''critical'' = Some sv \<longrightarrow>
      map lifecycle (w_incidents w') =
        map lifecycle (w_incidents w) @ [triggered_lifecycle (Suc (w_next w)) (mo_project m) (st_id st)] \<and>
      (\<forall>row \<in> set (w_monitors w'). mo_id row = mo_id m \<longrightarrow>
         mo_current_incident row = Some (Suc (w_next w))) \<and>
      (\<exists>c \<in> set (w_checks w'). ck_id c = ck_id ck \<and> ck_triggered_incident c = Some (Suc (w_next w)))"
    and "mo_status m = Offline \<and> status_after w m ck = Operational \<and> mo_current_incident m = Some ci \<and>
       (\<exists>s. resolved_state w (mo_project m) s) \<longrightarrow>
      (\<exists>s. resolved_state w (mo_project m) s \<and> w_incidents w' = update_where (\<lambda>i. ic_id i = ci)
         (\<lambda>i. i\<lparr>ic_state := st_id s, ic_resolved_at := Some (e_now e)\<rparr>) (w_incidents w)) \<and>
      (\<forall>row \<in> set (w_monitors w'). mo_id row = mo_id m \<longrightarrow> mo_current_incident row = None)"
proof -
  note eff = execute_check_effect [OF assms]
  let ?w1 = "with_check ck w"
  show "status_after w m ck = mo_status m \<longrightarrow>
      w_incidents w' = w_incidents w \<and>
      map mo_current_incident (w_monitors w') = map mo_current_incident (w_monitors w)"
    using eff(1,3) by (simp add: incident_effect_def)
  have same: "named_state ?w1 p a = named_state w p a" "named_severity ?w1 p a = named_severity w p a"
    "resolved_state ?w1 p = resolved_state w p" for p a
    by (simp_all add: named_state_def named_severity_def resolved_state_def fun_eq_iff)
  show "mo_status m \<noteq> Offline \<and> status_after w m ck = Offline \<and> mo_alert_on_failure m \<and>
       named_state w (mo_project m) ''triggered'' = Some st \<and>
       named_severity w (mo_project m) ''critical'' = Some sv \<longrightarrow>
      map lifecycle (w_incidents w') =
        map lifecycle (w_incidents w) @ [triggered_lifecycle (Suc (w_next w)) (mo_project m) (st_id st)] \<and>
      (\<forall>row \<in> set (w_monitors w'). mo_id row = mo_id m \<longrightarrow>
         mo_current_incident row = Some (Suc (w_next w))) \<and>
      (\<exists>c \<in> set (w_checks w'). ck_id c = ck_id ck \<and> ck_triggered_incident c = Some (Suc (w_next w)))"
  proof
    assume a: "mo_status m \<noteq> Offline \<and> status_after w m ck = Offline \<and> mo_alert_on_failure m \<and>
       named_state w (mo_project m) ''triggered'' = Some st \<and>
       named_severity w (mo_project m) ''critical'' = Some sv"
    then have "incident_effect e m ck (status_after w m ck) ?w1 = open_incident e m ck ?w1"
      by (auto simp: incident_effect_def)
    note eff = eff [unfolded this]
    from a show "map lifecycle (w_incidents w') =
        map lifecycle (w_incidents w) @ [triggered_lifecycle (Suc (w_next w)) (mo_project m) (st_id st)] \<and>
      (\<forall>row \<in> set (w_monitors w'). mo_id row = mo_id m \<longrightarrow>
         mo_current_incident row = Some (Suc (w_next w))) \<and>
      (\<exists>c \<in> set (w_checks w'). ck_id c = ck_id ck \<and> ck_triggered_incident c = Some (Suc (w_next w)))"
    proof (cases rule: open_incident_cases [of ?w1 m e ck])
      case (opened st' sv' w3)
      have "\<forall>row \<in> set (w_monitors w'). mo_id row = mo_id m \<longrightarrow>
          mo_current_incident row = Some (Suc (w_next w))"
        using eff(4) opened(3,5) by (auto dest: current_of_updated)
      moreover have "\<exists>c \<in> set (w_checks w'). ck_id c = ck_id ck \<and> ck_triggered_incident c = Some (Suc (w_next w))"
        using eff(2) opened(3,6) by (intro bexI [of _ "ck\<lparr>ck_triggered_incident := Some (Suc (w_next w))\<rparr>"]) auto
      ultimately show ?thesis using a eff(1) opened(1,3,4) by (simp add: same)
    qed (auto simp: same)
  qed
  show "mo_status m = Offline \<and> status_after w m ck = Operational \<and> mo_current_incident m = Some ci \<and>
       (\<exists>s. resolved_state w (mo_project m) s) \<longrightarrow>
      (\<exists>s. resolved_state w (mo_project m) s \<and> w_incidents w' = update_where (\<lambda>i. ic_id i = ci)
         (\<lambda>i. i\<lparr>ic_state := st_id s, ic_resolved_at := Some (e_now e)\<rparr>) (w_incidents w)) \<and>
      (\<forall>row \<in> set (w_monitors w'). mo_id row = mo_id m \<longrightarrow> mo_current_incident row = None)"
  proof
    assume a: "mo_status m = Offline \<and> status_after w m ck = Operational \<and> mo_current_incident m = Some ci \<and>
       (\<exists>s. resolved_state w (mo_project m) s)"
    then have "incident_effect e m ck (status_after w m ck) ?w1 = close_incident e m ?w1"
      by (simp add: incident_effect_def)
    note eff = eff [unfolded this]
    from a have "mo_current_incident m = Some ci" "\<exists>s. resolved_state ?w1 (mo_project m) s"
      by (auto simp: same)
    from close_incident_resolves [OF this, of e] eff(1,4) show
      "(\<exists>s. resolved_state w (mo_project m) s \<and> w_incidents w' = update_where (\<lambda>i. ic_id i = ci)
         (\<lambda>i. i\<lparr>ic_state := st_id s, ic_resolved_at := Some (e_now e)\<rparr>) (w_incidents w)) \<and>
       (\<forall>row \<in> set (w_monitors w'). mo_id row = mo_id m \<longrightarrow> mo_current_incident row = None)"
      unfolding same by (auto dest: current_of_updated)
  qed
qed


section \<open>Maintenance, retries and heartbeats\<close>

text \<open>
  C17. During maintenance failures are recorded but have no consequence: when a window in progress
  covers a monitor that is not offline, a check, whatever its outcome, adds its row to the checks,
  leaves the monitor's status as it was and neither opens nor changes an incident.
\<close>

theorem maintenance_suppresses_incidents:
  assumes "is_monitor_under_maintenance w m" "mo_status m \<noteq> Offline"
    "run_check e n m = Inr r" "execute_check e n m w = (Ok ck, w')"
  shows "ck_status ck = fst r \<and> length (w_checks w') = Suc (length (w_checks w)) \<and>
    w_incidents w' = w_incidents w \<and>
    (\<forall>row \<in> set (w_monitors w'). mo_id row = mo_id m \<longrightarrow> mo_status row = mo_status m)"
proof -
  note eff = execute_check_effect [OF assms(3,4)]
  have s: "status_after w m ck = mo_status m"
    using assms(1,2) by (simp add: status_after_def next_monitor_status_def)
  have "\<forall>row \<in> set (w_monitors w'). mo_id row = mo_id m \<longrightarrow> mo_status row = mo_status m"
    unfolding eff(4) s by (auto dest: row_of_updated)
  with eff(1,2,7) show ?thesis by (simp add: s incident_effect_def)
qed

text \<open>
  The configured number of retries is not awaited while a monitor has few checks:
  \<open>all()\<close> over fewer than \<open>retries\<close> checks holds as soon as those there are failed, so the very
  first check of an operational monitor that fails takes it offline, however many retries it asks
  for; and with \<open>retries = 0\<close> every check, successful or not, moves a monitor outside maintenance
  from operational to offline and from offline to operational.
\<close>

theorem retries_not_awaited:
  assumes "run_check e n m = Inr r" "execute_check e n m w = (Ok ck, w')"
    "\<not> is_monitor_under_maintenance w m"
    "row \<in> set (w_monitors w')" "mo_id row = mo_id m"
  shows "(mo_status m = Operational \<and> failed_status (fst r) \<and> (\<forall>c \<in> set (w_checks w). ck_monitor c \<noteq> mo_id m)
        \<longrightarrow> mo_status row = Offline) \<and>
    (mo_retries m = 0 \<longrightarrow>
       (mo_status m = Operational \<longrightarrow> mo_status row = Offline) \<and>
       (mo_status m = Offline \<longrightarrow> mo_status row = Operational))"
proof -
  note eff = execute_check_effect [OF assms(1,2)]
  have status: "mo_status row = status_after w m ck"
    using assms(4,5) unfolding eff(4) by (rule row_of_updated)
  have "recent_statuses (with_check ck w) m = take (mo_retries m) [fst r]"
    if "\<forall>c \<in> set (w_checks w). ck_monitor c \<noteq> mo_id m"
  proof -
    from that have "filter (\<lambda>c. ck_monitor c = mo_id m) (w_checks w) = []" by simp
    with eff(7,8) show ?thesis
      by (cases "mo_retries m") (simp_all add: recent_statuses_def order_by_simps)
  qed
  then have first: "list_all failed_status (recent_statuses (with_check ck w) m)"
    if "\<forall>c \<in> set (w_checks w). ck_monitor c \<noteq> mo_id m" "failed_status (fst r)"
    using that by (cases "mo_retries m") simp_all
  have "recent_statuses (with_check ck w) m = []" if "mo_retries m = 0"
    using that by (simp add: recent_statuses_def)
  with first assms(3) show ?thesis
    by (auto simp: status status_after_def next_monitor_status_def)
qed

text \<open>
  A heartbeat monitor never notices a missing heartbeat as long as its checks run: the only
  writer of \<open>last_check_at\<close> is the check itself, so after a check at time \<open>t\<close> every check of the
  row up to twice the interval later reports success, although no heartbeat was received.
\<close>

theorem heartbeat_refreshes_itself:
  assumes "mo_type m = TyHeartbeat" "execute_check e n m w = (res, w')"
    "row \<in> set (w_monitors w')" "mo_id row = mo_id m" "mo_type row = TyHeartbeat"
    "e_now e' \<le> e_now e + seconds (2 * int (mo_interval_seconds row))"
  shows "run_check e' n' row = Inr (Success, None, None, [])"
proof -
  obtain r where r: "run_check e n m = Inr r" using assms(1) by (simp add: run_check_def)
  with assms(2) obtain ck where res: "res = Ok ck" by (auto simp: execute_check_def Let_def)
  note eff = execute_check_effect [OF r assms(2) [unfolded res]]
  have "mo_last_check_at row = Some (e_now e)"
    using assms(3,4) unfolding eff(4) by (rule row_of_updated)
  with assms(5,6) show ?thesis
    by (simp add: run_check_def run_heartbeat_check_def Let_def mult.commute)
qed

section \<open>A run over the due monitors\<close>

lemma due_monitors_due:
  assumes "m \<in> set (due_monitors now None w)"
  shows "m \<in> set (w_monitors w)" "\<not> mo_is_paused m" "mo_status m \<noteq> Disabled"
    "\<forall>t. mo_next_check_at m = Some t \<longrightarrow> t \<le> now"
  using set_take_subset [THEN subsetD, OF assms [unfolded due_monitors_def]] by auto

lemma execute_check_result:
  "execute_check e n m w = (res, w') \<Longrightarrow>
     (\<exists>x. res = Raise x \<and> w' = w \<and> run_check e n m = Inl x) \<or>
     (\<exists>ck. res = Ok ck \<and> map ck_monitor (w_checks w') = map ck_monitor (w_checks w) @ [mo_id m])"
proof (cases "run_check e n m")
  case (Inr r)
  assume ex: "execute_check e n m w = (res, w')"
  with Inr obtain ck where res: "res = Ok ck" by (auto simp: execute_check_def Let_def)
  note eff = execute_check_effect [OF Inr ex [unfolded res]]
  have "map ck_monitor (w_checks (incident_effect e m ck s v)) = map ck_monitor (w_checks v)" for s v
    by (cases rule: open_incident_cases [of v m e ck])
      (auto simp: incident_effect_def close_incident_frame map_update_where)
  with eff(2,8) res show ?thesis by simp
qed (simp add: execute_check_def)

lemma check_each_counts:
  "check_each e n ms (a, b) w = ((ok, failed), w') \<Longrightarrow>
     ok + failed = a + b + length ms \<and> a \<le> ok \<and>
     (\<exists>ids. map ck_monitor (w_checks w') = map ck_monitor (w_checks w) @ ids \<and>
            subseq ids (map mo_id ms) \<and> length ids = ok - a)"
proof (induction ms arbitrary: a b w)
  case (Cons m ms)
  obtain res w1 where ex: "execute_check e n m w = (res, w1)" by force
  from execute_check_result [OF this] show ?case
  proof (elim disjE exE conjE)
    fix x assume "res = Raise x" "w1 = w"
    with Cons ex have rest: "check_each e n ms (a, Suc b) w = ((ok, failed), w')" by simp
    from Cons.IH [OF this] show ?thesis by auto
  next
    fix ck assume ck: "res = Ok ck" "map ck_monitor (w_checks w1) = map ck_monitor (w_checks w) @ [mo_id m]"
    with Cons ex have rest: "check_each e n ms (Suc a, b) w1 = ((ok, failed), w')" by simp
    from Cons.IH [OF this] obtain ids where "ok + failed = Suc a + b + length ms" "Suc a \<le> ok"
      "map ck_monitor (w_checks w') = map ck_monitor (w_checks w1) @ ids"
      "subseq ids (map mo_id ms)" "length ids = ok - Suc a" by auto
    with ck show ?thesis by (intro conjI exI [of _ "mo_id m # ids"]) auto
  qed
qed auto

lemma check_each_raising:
  "\<forall>m \<in> set ms. \<exists>x. run_check e n m = Inl x \<Longrightarrow>
     check_each e n ms (a, b) w = ((a, b + length ms), w)"
  by (induction ms arbitrary: b) (auto simp: execute_check_def)

text \<open>
  One run of \<open>run_checks\<close> attempts at most 200 monitors, all of them due and none paused or
  disabled, and each at most once: the checks it appends belong to a subsequence of the batch,
  one for each monitor counted as ok. The batch is the first 200 by name, and a monitor whose
  check raises is left as it was, still due: when the first 200 all raise, the run changes nothing
  at all, so the next one picks the same 200 and the monitors after them are never checked.
\<close>

theorem run_checks_batch:
  assumes "run_checks e n False None w = ((ok, failed), w')"
  shows "ok + failed = min batch_size (length (filter (\<lambda>m. \<not> mo_is_paused m \<and> mo_status m \<noteq> Disabled \<and>
        (\<forall>t. mo_next_check_at m = Some t \<longrightarrow> t \<le> e_now e)) (w_monitors w))) \<and>
    (\<exists>ids. map ck_monitor (w_checks w') = map ck_monitor (w_checks w) @ ids \<and>
       subseq ids (map mo_id (due_monitors (e_now e) None w)) \<and> length ids = ok) \<and>
    (\<forall>m \<in> set (due_monitors (e_now e) None w). \<not> mo_is_paused m \<and> mo_status m \<noteq> Disabled) \<and>
    ((\<forall>m \<in> set (due_monitors (e_now e) None w). \<exists>x. run_check e n m = Inl x) \<longrightarrow> ok = 0 \<and> w' = w)"
proof (intro conjI)
  let ?ms = "due_monitors (e_now e) None w"
  have run: "check_each e n ?ms (0, 0) w = ((ok, failed), w')"
    using assms by (auto simp: run_checks_def Let_def split: if_splits)
  have p: "(case t of Some s \<Rightarrow> s \<le> e_now e | None \<Rightarrow> True) = (\<forall>s. t = Some s \<longrightarrow> s \<le> e_now e)" for t
    by (cases t) auto
  have "length ?ms = min batch_size (length (filter (\<lambda>m. \<not> mo_is_paused m \<and> mo_status m \<noteq> Disabled \<and>
        (\<forall>t. mo_next_check_at m = Some t \<longrightarrow> t \<le> e_now e)) (w_monitors w)))"
    by (simp add: due_monitors_def p min.commute)
  with check_each_counts [OF run]
  show "ok + failed = min batch_size (length (filter (\<lambda>m. \<not> mo_is_paused m \<and> mo_status m \<noteq> Disabled \<and>
        (\<forall>t. mo_next_check_at m = Some t \<longrightarrow> t \<le> e_now e)) (w_monitors w)))"
    "\<exists>ids. map ck_monitor (w_checks w') = map ck_monitor (w_checks w) @ ids \<and>
       subseq ids (map mo_id ?ms) \<and> length ids = ok" by auto
  show "\<forall>m \<in> set ?ms. \<not> mo_is_paused m \<and> mo_status m \<noteq> Disabled" by (auto dest: due_monitors_due)
  show "(\<forall>m \<in> set ?ms. \<exists>x. run_check e n m = Inl x) \<longrightarrow> ok = 0 \<and> w' = w"
    using run check_each_raising [of ?ms e n 0 0 w] by simp
qed

section \<open>The status timeline\<close>

declare bucket_starts.simps [simp del]

lemma bucket_starts_from: "s \<in> set (bucket_starts d cur until) \<Longrightarrow> cur \<le> s \<and> s < until \<and> d dvd s - cur"
proof (induction d cur until rule: bucket_starts.induct)
  case (1 d cur until)
  show ?case
  proof (cases "cur < until \<and> 0 < d \<and> s \<noteq> cur")
    case True
    with 1 have "cur + d \<le> s \<and> s < until \<and> d dvd s - (cur + d)"
      by (simp add: bucket_starts.simps [of d cur until])
    with True show ?thesis using dvd_add [of d "s - (cur + d)" d] by simp
  next
    case False
    with 1(2) show ?thesis by (auto simp: bucket_starts.simps [of d cur until] split: if_splits)
  qed
qed

lemma distinct_bucket_starts: "distinct (bucket_starts d cur until)"
proof (induction d cur until rule: bucket_starts.induct)
  case (1 d cur until)
  then show ?case by (auto simp: bucket_starts.simps [of d cur until] dest: bucket_starts_from)
qed

text \<open>The loop finds the start whose bucket holds the time.\<close>

lemma bucket_for_found:
  "0 < d \<Longrightarrow> cur \<le> ts \<Longrightarrow> ts < until \<Longrightarrow>
     bucket_for (bucket_starts d cur until) found ts \<in> set (bucket_starts d cur until) \<and>
     bucket_for (bucket_starts d cur until) found ts \<le> ts \<and>
     ts < bucket_for (bucket_starts d cur until) found ts + d"
proof (induction d cur until arbitrary: found rule: bucket_starts.induct)
  case (1 d cur until)
  have starts: "bucket_starts d cur until = cur # bucket_starts d (cur + d) until"
    using 1(2-4) by (simp add: bucket_starts.simps [of d cur until])
  have step: "bucket_for (bucket_starts d cur until) found ts = bucket_for (bucket_starts d (cur + d) until) cur ts"
    using 1(3) by (simp add: starts)
  show ?case
  proof (cases "cur + d \<le> ts")
    case True
    with 1 have "bucket_for (bucket_starts d (cur + d) until) cur ts \<in> set (bucket_starts d (cur + d) until) \<and>
      bucket_for (bucket_starts d (cur + d) until) cur ts \<le> ts \<and>
      ts < bucket_for (bucket_starts d (cur + d) until) cur ts + d" by simp
    then show ?thesis unfolding step by (simp add: starts)
  next
    case False
    then have "bucket_for (bucket_starts d (cur + d) until) cur ts = cur"
      by (subst bucket_starts.simps) simp
    with 1(2-4) False show ?thesis unfolding step by (simp add: starts)
  qed
qed

lemma multiple_near_unique:
  fixes d :: int
  assumes "d dvd s - c" "d dvd b - c" "s \<le> t" "t < s + d" "b \<le> t" "t < b + d"
  shows "s = b"
proof -
  have "d dvd (s - c) - (b - c)" by (rule dvd_diff [OF assms(1,2)])
  then have "d dvd s - b" by simp
  then obtain k where k: "s - b = d * k" by (elim dvdE)
  from assms(3-6) have "\<bar>d * k\<bar> < \<bar>d\<bar>" using k by linarith
  then have "\<bar>d\<bar> * \<bar>k\<bar> < \<bar>d\<bar>" by (simp add: abs_mult)
  moreover have "\<bar>d\<bar> * 1 \<le> \<bar>d\<bar> * \<bar>k\<bar>" if "k \<noteq> 0"
    using that by (intro mult_left_mono) simp_all
  ultimately have "k = 0" by linarith
  with k show ?thesis by simp
qed

lemma bucket_for_iff:
  assumes "0 < d" "since \<le> ts" "ts < until" "s \<in> set (bucket_starts d since until)"
  shows "s = bucket_for (bucket_starts d since until) since ts \<longleftrightarrow> s \<le> ts \<and> ts < s + d"
proof -
  let ?b = "bucket_for (bucket_starts d since until) since ts"
  note found = bucket_for_found [OF assms(1-3), of since]
  from found bucket_starts_from [of ?b d since until] bucket_starts_from [OF assms(4)]
    multiple_near_unique [of d s since ?b ts] show ?thesis by auto
qed

lemma count_checks:
  "foldl (count_check starts since) bs cs =
     map (\<lambda>b. b\<lparr>bk_total := bk_total b + length (filter (\<lambda>c. bk_start b = bucket_for starts since (ck_checked_at c)) cs),
                bk_failed := bk_failed b + length (filter (\<lambda>c. bk_start b = bucket_for starts since (ck_checked_at c) \<and>
                  failed_status (ck_status c)) cs)\<rparr>) bs"
proof (induction cs arbitrary: bs)
  case (Cons c cs)
  have "foldl (count_check starts since) bs (c # cs) = foldl (count_check starts since) (count_check starts since bs c) cs"
    by simp
  then show ?case by (simp add: Cons.IH) (simp add: count_check_def update_where_def)
qed simp

lemma length_filter_order_by: "length (filter p (order_by k xs)) = length (filter p xs)"
  by (simp add: order_by_def filter_sort)

lemma length_filter_all: "length (filter p xs) < length xs \<longleftrightarrow> filter p xs \<noteq> xs"
  by (metis filter_True length_filter_less less_irrefl)

lemma sum_indicator:
  "distinct ss \<Longrightarrow> sum_list (map (\<lambda>s. if s = x then 1 else 0) ss) = (if x \<in> set ss then 1 else (0 :: nat))"
  by (induction ss) auto

lemma sum_partition:
  assumes "distinct ss" "\<forall>c \<in> set cs. f c \<in> set ss"
  shows "sum_list (map (\<lambda>s. length (filter (\<lambda>c. s = f c \<and> p c) cs)) ss) = length (filter p cs)"
  using assms(2)
proof (induction cs)
  case (Cons c cs)
  have one: "sum_list (map (\<lambda>s. if s = f c then 1 else 0) ss) = (1 :: nat)"
    using assms(1) Cons.prems by (simp add: sum_indicator)
  have "sum_list (map (\<lambda>s. length (filter (\<lambda>c. s = f c \<and> p c) (c # cs))) ss) =
      sum_list (map (\<lambda>s. (if p c then (if s = f c then 1 else 0) else 0) +
        length (filter (\<lambda>c. s = f c \<and> p c) cs)) ss)"
    by (intro arg_cong [of _ _ sum_list] map_cong) auto
  with Cons one show ?case by (simp add: sum_list_addf)
qed simp

lemma bucket_delta_pos: "0 < minutes (bucket_minutes d)"
  by (simp add: bucket_minutes_def minutes_def seconds_def)

lemma timeline_intervals:
  fixes since until
  defines "d \<equiv> minutes (bucket_minutes (until - since))"
  defines "starts \<equiv> bucket_starts d since until"
  shows "build_status_timeline e m (Some since) (Some until) w =
    map (\<lambda>s. let cs = filter (\<lambda>c. s = bucket_for starts since (ck_checked_at c)) (checks_between w m since until);
                bk = \<lparr>bk_start = s, bk_total = length cs, bk_failed = length (filter (\<lambda>c. failed_status (ck_status c)) cs)\<rparr>
            in \<lparr>iv_start = s, iv_end = s + d, iv_status = bucket_status_of bk,
                iv_checks_count = bk_total bk, iv_failed_count = bk_failed bk\<rparr>) starts"
  by (simp add: build_status_timeline_def Let_def d_def [symmetric] starts_def [symmetric] count_checks
      length_filter_order_by conj_commute)

text \<open>
  C18. The status timeline counts every check exactly once. Each interval reports the checks (and
  the failed ones) of the monitor from its start, included, to its end, excluded, within the
  range asked for; the counts of all intervals add up to the checks of the range, so none is lost
  between buckets or counted twice; an interval is \<open>unknown\<close> when it has no checks, operational
  when none failed, offline when all did and degraded otherwise.
\<close>

theorem timeline_counts_every_check:
  "(\<forall>iv \<in> set (build_status_timeline e m (Some since) (Some until) w).
      let cs = filter (\<lambda>c. iv_start iv \<le> ck_checked_at c \<and> ck_checked_at c < iv_end iv) (checks_between w m since until);
          failed = filter (\<lambda>c. failed_status (ck_status c)) cs
      in iv_checks_count iv = length cs \<and> iv_failed_count iv = length failed \<and>
         iv_status iv = (if cs = [] then BucketUnknown else if failed = [] then BucketIs Operational
                         else if failed = cs then BucketIs Offline else BucketIs Degraded)) \<and>
   sum_list (map iv_checks_count (build_status_timeline e m (Some since) (Some until) w)) =
     length (checks_between w m since until) \<and>
   sum_list (map iv_failed_count (build_status_timeline e m (Some since) (Some until) w)) =
     length (filter (\<lambda>c. failed_status (ck_status c)) (checks_between w m since until))"
proof -
  let ?cs = "checks_between w m since until"
  let ?T = "build_status_timeline e m (Some since) (Some until) w"
  define d where "d = minutes (bucket_minutes (until - since))"
  define starts where "starts = bucket_starts d since until"
  have d: "0 < d" by (simp add: d_def bucket_delta_pos)
  note T = timeline_intervals [of e m since until w, folded d_def, folded starts_def, unfolded Let_def]
  have range: "since \<le> ck_checked_at c" "ck_checked_at c < until" if "c \<in> set ?cs" for c
    using that by (auto simp: checks_between_def)
  have found: "\<forall>c \<in> set ?cs. bucket_for starts since (ck_checked_at c) \<in> set starts"
    using bucket_for_found [OF d range] by (simp add: starts_def)
  have same: "filter (\<lambda>c. s = bucket_for starts since (ck_checked_at c)) ?cs =
      filter (\<lambda>c. s \<le> ck_checked_at c \<and> ck_checked_at c < s + d) ?cs" if "s \<in> set starts" for s
    by (rule filter_cong [OF refl]) (simp add: starts_def bucket_for_iff [OF d range that [unfolded starts_def]])
  have "let cs = filter (\<lambda>c. iv_start iv \<le> ck_checked_at c \<and> ck_checked_at c < iv_end iv) ?cs;
            failed = filter (\<lambda>c. failed_status (ck_status c)) cs
        in iv_checks_count iv = length cs \<and> iv_failed_count iv = length failed \<and>
           iv_status iv = (if cs = [] then BucketUnknown else if failed = [] then BucketIs Operational
                           else if failed = cs then BucketIs Offline else BucketIs Degraded)"
    if iv: "iv \<in> set ?T" for iv
  proof -
    from iv obtain s where s: "s \<in> set starts" and iv: "iv = (let cs = filter (\<lambda>c. s = bucket_for starts since (ck_checked_at c)) ?cs;
        bk = \<lparr>bk_start = s, bk_total = length cs, bk_failed = length (filter (\<lambda>c. failed_status (ck_status c)) cs)\<rparr>
      in \<lparr>iv_start = s, iv_end = s + d, iv_status = bucket_status_of bk,
          iv_checks_count = bk_total bk, iv_failed_count = bk_failed bk\<rparr>)"
      unfolding T Let_def by auto
    show ?thesis
      unfolding iv same [OF s] Let_def bucket_status_of_def by (simp add: length_filter_all del: filter_filter)
  qed
  then have "\<forall>iv \<in> set ?T.
      let cs = filter (\<lambda>c. iv_start iv \<le> ck_checked_at c \<and> ck_checked_at c < iv_end iv) ?cs;
          failed = filter (\<lambda>c. failed_status (ck_status c)) cs
      in iv_checks_count iv = length cs \<and> iv_failed_count iv = length failed \<and>
         iv_status iv = (if cs = [] then BucketUnknown else if failed = [] then BucketIs Operational
                         else if failed = cs then BucketIs Offline else BucketIs Degraded)" by blast
  moreover have "sum_list (map iv_checks_count ?T) = length ?cs"
    using sum_partition [OF _ found, of "\<lambda>_. True"] distinct_bucket_starts [of d since until]
    by (simp add: T comp_def starts_def)
  moreover have "sum_list (map iv_failed_count ?T) = length (filter (\<lambda>c. failed_status (ck_status c)) ?cs)"
    using sum_partition [OF _ found, of "\<lambda>c. failed_status (ck_status c)"] distinct_bucket_starts [of d since until]
    by (simp add: T comp_def starts_def conj_commute)
  ultimately show ?thesis by blast
qed

section \<open>Examples\<close>

text \<open>
  A heartbeat monitor of project 2 without a check, its last heartbeat at the epoch, and the world
  with this monitor in a freshly bootstrapped project; \<open>window\<close> is a maintenance of all monitors.
\<close>

definition sample_monitor :: monitor where
  "sample_monitor =
     \<lparr>mo_id = 90, mo_tenant = 1, mo_project = 2, mo_team = None, mo_name = ''cron'',
      mo_type = TyHeartbeat, mo_url = [], mo_method = ''GET'', mo_interval_seconds = 60,
      mo_timeout_seconds = 10, mo_retries = 3, mo_probe_locations = [], mo_criteria = JNull,
      mo_steps = [], mo_headers = [], mo_body = [], mo_alert_on_failure = True, mo_is_paused = False,
      mo_status = Operational, mo_tags = [], mo_current_incident = None, mo_last_check_at = Some 0,
      mo_next_check_at = None, mo_created_at = 0, mo_updated_at = 0\<rparr>"

definition sample_net :: net where
  "sample_net =
     \<lparr>n_tcp = (\<lambda>_ _ _. SockTimeout), n_udp = (\<lambda>_ _ _ _ _. SockTimeout),
      n_addresses = (\<lambda>_. DnsError ''no network''), n_dig = (\<lambda>_ _. DigError ''no network''),
      n_tls = (\<lambda>_ _ _. TlsOsError ''no network''), n_ping = (\<lambda>_ _. PingTimeout), n_ms = (\<lambda>_. 0)\<rparr>"

definition monitored :: "monitor \<Rightarrow> world" where
  "monitored m = empty_world\<lparr>w_monitors := [m], w_next := 100\<rparr>"

lemma sample_monitor_fields [simp]:
  "mo_id sample_monitor = 90" "mo_type sample_monitor = TyHeartbeat" "mo_retries sample_monitor = 3"
  "mo_status sample_monitor = Operational" "\<not> mo_is_paused sample_monitor"
  "mo_next_check_at sample_monitor = None" "mo_project sample_monitor = 2"
  "mo_interval_seconds sample_monitor = 60"
  by (simp_all add: sample_monitor_def)

lemma sample_check_fails:
  "\<exists>msg. run_check sample_env n sample_monitor = Inr (Failure, None, None, msg)"
  by (simp add: run_check_def run_heartbeat_check_def Let_def sample_monitor_def sample_env_def seconds_def)

lemma monitored_frame [simp]:
  "w_monitors (monitored m) = [m]" "w_checks (monitored m) = []" "w_maintenances (monitored m) = []"
  "w_incidents (monitored m) = []" "w_next (monitored m) = 100" "w_states (monitored m) = []"
  "w_severities (monitored m) = []"
  by (simp_all add: monitored_def empty_world_def)

lemma monitored_not_under_maintenance [simp]: "\<not> is_monitor_under_maintenance (monitored m) x"
  by (simp add: under_maintenance_iff)

text \<open>The check of the sample monitor fails.\<close>

lemma sample_checkE:
  obtains msg ck w' where "run_check sample_env n sample_monitor = Inr (Failure, None, None, msg)"
    "execute_check sample_env n sample_monitor w = (Ok ck, w')"
proof -
  obtain msg where msg: "run_check sample_env n sample_monitor = Inr (Failure, None, None, msg)"
    using sample_check_fails by blast
  then obtain ck where "fst (execute_check sample_env n sample_monitor w) = Ok ck"
    by (auto simp: execute_check_def Let_def)
  with msg show ?thesis by (intro that) (auto simp: prod_eq_iff)
qed

theorem monitor_status_machine_witness:
  "\<exists>ck w'. execute_check sample_env sample_net sample_monitor (monitored sample_monitor) = (Ok ck, w') \<and>
     map ck_status (w_checks w') = [Failure] \<and> map mo_status (w_monitors w') = [Offline]"
proof -
  obtain msg ck w' where check: "run_check sample_env sample_net sample_monitor = Inr (Failure, None, None, msg)"
    "execute_check sample_env sample_net sample_monitor (monitored sample_monitor) = (Ok ck, w')"
    by (rule sample_checkE)
  from monitor_status_machine [OF check] have ck: "ck_status ck = Failure" "ck_monitor ck = 90"
    "map ck_status (w_checks w') = [Failure]" and
    rows: "list_all2 (\<lambda>row row'.
        if mo_id row = 90
        then row' = (checked_row sample_env sample_monitor (status_after (monitored sample_monitor) sample_monitor ck) row)
                      \<lparr>mo_current_incident := mo_current_incident row'\<rparr>
        else row' = row) [sample_monitor] (w_monitors w')" by auto
  have "status_after (monitored sample_monitor) sample_monitor ck = Offline"
    using ck(1,2) by (simp add: status_after_def next_monitor_status_def recent_statuses_def
        failed_status_def order_by_simps)
  with rows obtain row' where row': "w_monitors w' = [row']"
    "row' = (checked_row sample_env sample_monitor Offline sample_monitor)
              \<lparr>mo_current_incident := mo_current_incident row'\<rparr>"
    by (auto simp: list_all2_Cons1)
  from arg_cong [OF row'(2), of mo_status] have "mo_status row' = Offline" by simp
  with row'(1) have "map mo_status (w_monitors w') = [Offline]" by simp
  with check ck(3) show ?thesis by auto
qed

text \<open>The project of the monitor with the state and the severity its incidents need.\<close>

definition alerting :: world where
  "alerting = (monitored sample_monitor)\<lparr>
     w_states := [\<lparr>st_id = 31, st_tenant = 1, st_project = 2, st_name = ''triggered'', st_color = [],
       st_order = 1, st_is_resolved_state = False, st_is_system = True, st_created_at = 0, st_updated_at = 0\<rparr>],
     w_severities := [\<lparr>sv_id = 41, sv_tenant = 1, sv_project = 2, sv_name = ''critical'', sv_color = [],
       sv_order = 1, sv_is_system = True, sv_created_at = 0, sv_updated_at = 0\<rparr>]\<rparr>"

lemma sample_goes_offline:
  assumes "w_checks w = []" "w_maintenances w = []" "ck_status ck = Failure" "ck_monitor ck = 90"
  shows "status_after w sample_monitor ck = Offline"
  using assms by (simp add: status_after_def next_monitor_status_def recent_statuses_def
      failed_status_def order_by_simps under_maintenance_iff)


theorem maintenance_suppresses_incidents_witness:
  "\<exists>ck w'. execute_check sample_env sample_net sample_monitor
       (alerting\<lparr>w_maintenances := [sample_window\<lparr>sm_status := MInProgress\<rparr>]\<rparr>) = (Ok ck, w') \<and>
     ck_status ck = Failure \<and> w_incidents w' = []"
proof -
  let ?w = "alerting\<lparr>w_maintenances := [sample_window\<lparr>sm_status := MInProgress\<rparr>]\<rparr>"
  obtain msg ck w' where check: "run_check sample_env sample_net sample_monitor = Inr (Failure, None, None, msg)"
    "execute_check sample_env sample_net sample_monitor ?w = (Ok ck, w')"
    by (rule sample_checkE)
  have "is_monitor_under_maintenance ?w sample_monitor"
    by (simp add: under_maintenance_iff maintenance_covers_monitor_def)
  from maintenance_suppresses_incidents [OF this _ check] check(2) show ?thesis
    by (intro exI [of _ ck] exI [of _ w']) (simp add: alerting_def)
qed

text \<open>The rows of the monitors after a check of the only monitor.\<close>

lemma single_row_after:
  assumes "run_check e n m = Inr r" "execute_check e n m w = (Ok ck, w')" "map mo_id (w_monitors w) = [mo_id m]"
    "map mo_type (w_monitors w) = [ty]" "map mo_interval_seconds (w_monitors w) = [iv]"
  obtains row where "w_monitors w' = [row]" "mo_id row = mo_id m" "mo_type row = ty" "mo_interval_seconds row = iv"
proof -
  from assms(3) obtain row0 where row0: "w_monitors w = [row0]" "mo_id row0 = mo_id m" by auto
  from check_moves_status [OF assms(1,2)] row0 obtain s row where row: "w_monitors w' = [row]"
    "row = (checked_row e m s row0)\<lparr>mo_current_incident := mo_current_incident row\<rparr>"
    by (auto simp: list_all2_Cons1)
  from arg_cong [OF row(2), of mo_id] arg_cong [OF row(2), of mo_type]
    arg_cong [OF row(2), of mo_interval_seconds] row(1) row0 assms(4,5)
  show ?thesis by (intro that) (auto simp: checked_row_def)
qed

theorem retries_not_awaited_witness:
  "\<exists>ck w' row. execute_check sample_env sample_net sample_monitor (monitored sample_monitor) = (Ok ck, w') \<and>
     mo_retries sample_monitor = 3 \<and> w_monitors w' = [row] \<and> mo_status row = Offline"
proof -
  obtain msg ck w' where check: "run_check sample_env sample_net sample_monitor = Inr (Failure, None, None, msg)"
    "execute_check sample_env sample_net sample_monitor (monitored sample_monitor) = (Ok ck, w')"
    by (rule sample_checkE)
  obtain row where row: "w_monitors w' = [row]" "mo_id row = mo_id sample_monitor"
    by (rule single_row_after [OF check]) simp_all
  with retries_not_awaited [OF check, of row] have "mo_status row = Offline"
    by (simp add: failed_status_def)
  with check(2) row(1) show ?thesis by simp
qed

theorem heartbeat_refreshes_itself_witness:
  "\<exists>res w' row. execute_check sample_env sample_net sample_monitor (monitored sample_monitor) = (res, w') \<and>
     w_monitors w' = [row] \<and>
     run_check (sample_env\<lparr>e_now := e_now sample_env + seconds 120\<rparr>) sample_net row = Inr (Success, None, None, [])"
proof -
  obtain msg ck w' where check: "run_check sample_env sample_net sample_monitor = Inr (Failure, None, None, msg)"
    "execute_check sample_env sample_net sample_monitor (monitored sample_monitor) = (Ok ck, w')"
    by (rule sample_checkE)
  obtain row where row: "w_monitors w' = [row]" "mo_id row = mo_id sample_monitor"
    "mo_type row = TyHeartbeat" "mo_interval_seconds row = 60"
    by (rule single_row_after [OF check]) simp_all
  have "run_check (sample_env\<lparr>e_now := e_now sample_env + seconds 120\<rparr>) sample_net row = Inr (Success, None, None, [])"
    by (rule heartbeat_refreshes_itself [OF _ check(2), of row]) (use row in simp_all)
  with check(2) row(1) show ?thesis by blast
qed

theorem run_checks_batch_witness:
  "\<exists>w'. run_checks sample_env sample_net False None (monitored sample_monitor) = ((1, 0), w') \<and>
     map ck_monitor (w_checks w') = [90]"
proof -
  obtain ok failed w' where run: "run_checks sample_env sample_net False None (monitored sample_monitor) = ((ok, failed), w')"
    by (metis prod.exhaust)
  have due: "due_monitors (e_now sample_env) None (monitored sample_monitor) = [sample_monitor]"
    by (simp add: due_monitors_def batch_size_def order_by_simps)
  obtain msg ck w1 where check: "run_check sample_env sample_net sample_monitor = Inr (Failure, None, None, msg)"
    "execute_check sample_env sample_net sample_monitor (monitored sample_monitor) = (Ok ck, w1)"
    by (rule sample_checkE)
  from run check due have counts: "ok = 1" "failed = 0" by (auto simp: run_checks_def)
  from run_checks_batch [OF run] obtain ids where "map ck_monitor (w_checks w') = ids"
    "subseq ids [90]" "length ids = 1"
    by (auto simp: due counts)
  then have "map ck_monitor (w_checks w') = [90]"
    by (auto simp: length_Suc_conv split: if_splits)
  with run [unfolded counts] show ?thesis by (intro exI [of _ w'] conjI)
qed

theorem timeline_counts_every_check_witness:
  "sum_list (map iv_failed_count (build_status_timeline sample_env sample_monitor (Some 0) (Some (hours 1))
     ((monitored sample_monitor)\<lparr>w_checks := [recorded_check (sample_env\<lparr>e_now := 5\<rparr>) 7 sample_monitor
        (Failure, None, None, [])]\<rparr>))) = 1"
  using timeline_counts_every_check [of sample_env sample_monitor 0 "hours 1"
    "(monitored sample_monitor)\<lparr>w_checks := [recorded_check (sample_env\<lparr>e_now := 5\<rparr>) 7 sample_monitor
        (Failure, None, None, [])]\<rparr>"]
  by (simp add: checks_between_def failed_status_def time_defs)

end
