(* ===== verification/Accounts.thy ===== *)
theory Accounts
  imports Rbac
begin

text \<open>
  The services of \<open>apps/accounts\<close>: one-time passwords, TOTP login sessions, onboarding of a new
  account, the e-mails, and the authentication of a request by JWT or API key.
\<close>

section \<open>One-time passwords\<close>

text \<open>\<open>OtpError\<close>; the two accented bytes of the messages are UTF-8.\<close>

record otp_error =
  oe_code :: string
  oe_message :: string
  oe_attempts_remaining :: "nat option"
  oe_action :: "string option"

definition e_acute :: string where
  "e_acute = [CHR 0xC3, CHR 0xA9]"

definition hash_code :: "env \<Rightarrow> string \<Rightarrow> string" where
  "hash_code e code = e_sha256 e (e_secret_key e @ '':'' @ code)"

definition generate_code :: "env \<Rightarrow> nat option \<Rightarrow> string" where
  "generate_code e len_opt =
     (let len = (case len_opt of Some n \<Rightarrow> (if n \<noteq> 0 then n else e_otp_length e) | None \<Rightarrow> e_otp_length e);
          upper = 10 ^ len - 1
      in zfill len (string_of_nat (e_random_below e (upper + 1))))"

definition open_challenge :: "uuid \<Rightarrow> otp_purpose \<Rightarrow> otp_challenge \<Rightarrow> bool" where
  "open_challenge u purpose c \<longleftrightarrow> otp_user c = u \<and> otp_purpose c = purpose \<and> otp_consumed_at c = None"

definition create_challenge ::
  "env \<Rightarrow> uuid \<Rightarrow> otp_purpose \<Rightarrow> world \<Rightarrow> (otp_challenge \<times> string) \<times> world" where
  "create_challenge e u purpose w =
     (let closed = update_where (open_challenge u purpose)
                     (\<lambda>c. c\<lparr>otp_consumed_at := Some (e_now e)\<rparr>) (w_otp_challenges w);
          code = generate_code e None;
          c = \<lparr>otp_id = w_next w, otp_user = u, otp_purpose = purpose, otp_code_hash = hash_code e code,
               otp_expires_at = e_now e + minutes (int (e_otp_expiry_minutes e)),
               otp_consumed_at = None, otp_attempts = 0, otp_created_at = e_now e\<rparr>
      in ((c, code), w\<lparr>w_otp_challenges := closed @ [c], w_next := Suc (w_next w)\<rparr>))"

definition get_active_challenge :: "world \<Rightarrow> uuid \<Rightarrow> otp_purpose \<Rightarrow> otp_challenge option" where
  "get_active_challenge w u purpose =
     first_row (order_by_desc otp_created_at (filter (open_challenge u purpose) (w_otp_challenges w)))"

definition resend_action :: "otp_purpose \<Rightarrow> string" where
  "resend_action purpose =
     (case purpose of Activation \<Rightarrow> ''resend_activation'' | PasswordReset \<Rightarrow> ''resend_password_reset''
      | MfaLogin \<Rightarrow> ''resend_otp'')"

definition save_challenge :: "uuid \<Rightarrow> (otp_challenge \<Rightarrow> otp_challenge) \<Rightarrow> world \<Rightarrow> world" where
  "save_challenge i put w =
     w\<lparr>w_otp_challenges := update_where (\<lambda>c. otp_id c = i) put (w_otp_challenges w)\<rparr>"

definition otp_locked_message :: string where
  "otp_locked_message = ''Trop de tentatives incorrectes. Demandez un nouveau code.''"

definition otp_verify ::
  "env \<Rightarrow> uuid \<Rightarrow> otp_purpose \<Rightarrow> string \<Rightarrow> world \<Rightarrow> (otp_error + otp_challenge) \<times> world" where
  "otp_verify e u purpose code w =
     (let action = Some (resend_action purpose)
      in case get_active_challenge w u purpose of
           None \<Rightarrow> (Inl \<lparr>oe_code = ''otp_not_found'',
                        oe_message = ''Aucun code actif. Demandez un nouveau code.'',
                        oe_attempts_remaining = None, oe_action = action\<rparr>, w)
         | Some c \<Rightarrow>
             (if otp_is_expired (e_now e) c
              then (Inl \<lparr>oe_code = ''otp_expired'',
                         oe_message = ''Le code a expir'' @ e_acute @ ''. Demandez un nouveau code.'',
                         oe_attempts_remaining = None, oe_action = action\<rparr>, w)
              else if e_otp_max_attempts e \<le> otp_attempts c
              then (Inl \<lparr>oe_code = ''otp_locked'', oe_message = otp_locked_message,
                         oe_attempts_remaining = None, oe_action = action\<rparr>, w)
              else if hash_code e code \<noteq> otp_code_hash c
              then (let attempts = otp_attempts c + 1;
                        w1 = save_challenge (otp_id c) (\<lambda>r. r\<lparr>otp_attempts := attempts\<rparr>) w;
                        remaining = e_otp_max_attempts e - attempts
                    in if remaining = 0
                       then (Inl \<lparr>oe_code = ''otp_locked'', oe_message = otp_locked_message,
                                  oe_attempts_remaining = Some 0, oe_action = action\<rparr>, w1)
                       else (Inl \<lparr>oe_code = ''otp_invalid'',
                                  oe_message = ''Code incorrect. Il vous reste '' @ string_of_nat remaining
                                    @ '' tentative(s).'',
                                  oe_attempts_remaining = Some remaining, oe_action = None\<rparr>, w1))
              else (let c1 = c\<lparr>otp_consumed_at := Some (e_now e)\<rparr>
                    in (Inr c1, save_challenge (otp_id c)
                          (\<lambda>r. r\<lparr>otp_consumed_at := Some (e_now e)\<rparr>) w))))"

definition otp_error_response :: "otp_error \<Rightarrow> response" where
  "otp_error_response exc =
     Response (if oe_code exc = ''otp_locked'' then 429 else 400)
       (JObj ([(''detail'', JStr (oe_message exc)), (''code'', JStr (oe_code exc))]
              @ (case oe_attempts_remaining exc of
                   Some n \<Rightarrow> [(''attempts_remaining'', JInt (int n))] | None \<Rightarrow> [])
              @ (case oe_action exc of
                   Some a \<Rightarrow> (if a \<noteq> [] then [(''action'', JStr a)] else []) | None \<Rightarrow> [])))"

section \<open>TOTP login sessions\<close>

definition mfa_verify_code :: "env \<Rightarrow> string \<Rightarrow> string \<Rightarrow> bool" where
  "mfa_verify_code e secret code =
     (if secret = [] \<or> code = [] then False else e_totp_verify e secret code)"

definition provisioning_uri :: "env \<Rightarrow> user \<Rightarrow> string \<Rightarrow> string" where
  "provisioning_uri e u secret = e_provisioning_uri e secret (usr_email u) (e_otp_issuer e)"

definition create_login_session :: "env \<Rightarrow> uuid \<Rightarrow> world \<Rightarrow> mfa_session \<times> world" where
  "create_login_session e u w =
     (let closed = update_where (\<lambda>s. ms_user s = u \<and> ms_consumed_at s = None)
                     (\<lambda>s. s\<lparr>ms_consumed_at := Some (e_now e)\<rparr>) (w_mfa_sessions w);
          s = \<lparr>ms_id = w_next w, ms_user = u, ms_token = e_token e (w_next w),
               ms_expires_at = e_now e + minutes (int (e_mfa_session_minutes e)),
               ms_consumed_at = None, ms_created_at = e_now e\<rparr>
      in (s, w\<lparr>w_mfa_sessions := closed @ [s], w_next := Suc (w_next w)\<rparr>))"

definition consume_login_session :: "env \<Rightarrow> string \<Rightarrow> world \<Rightarrow> mfa_session result \<times> world" where
  "consume_login_session e token w =
     (case find (\<lambda>s. ms_token s = token \<and> ms_consumed_at s = None) (w_mfa_sessions w) of
        None \<Rightarrow> (Raise (ValueError ''Invalid MFA session.''), w)
      | Some s \<Rightarrow>
          (if mfa_is_expired (e_now e) s then (Raise (ValueError ''MFA session has expired.''), w)
           else (Ok (s\<lparr>ms_consumed_at := Some (e_now e)\<rparr>),
                 w\<lparr>w_mfa_sessions := update_where (\<lambda>r. ms_id r = ms_id s)
                     (\<lambda>r. r\<lparr>ms_consumed_at := Some (e_now e)\<rparr>) (w_mfa_sessions w)\<rparr>)))"

section \<open>E-mails\<close>

definition hex_upper :: "nat \<Rightarrow> char" where
  "hex_upper n = (if n < 10 then char_of (48 + n) else char_of (55 + n))"

text \<open>\<open>urllib.parse.quote\<close>: every byte that is not unreserved or a slash as \<open>%XX\<close>.\<close>

definition quote_byte :: "char \<Rightarrow> string" where
  "quote_byte c =
     (let n = of_char c :: nat
      in if (48 \<le> n \<and> n \<le> 57) \<or> (65 \<le> n \<and> n \<le> 90) \<or> (97 \<le> n \<and> n \<le> 122) \<or> c \<in> set ''_.-~/''
         then [c] else [CHR 0x25, hex_upper (n div 16), hex_upper (n mod 16)])"

definition url_quote :: "string \<Rightarrow> string" where
  "url_quote s = concat (map quote_byte s)"

definition newline :: string where
  "newline = [CHR 0x0A]"

text \<open>\<open>_send_html_email\<close>: an SMTP failure propagates. The HTML body is left out.\<close>

definition send_html_email :: "env \<Rightarrow> string \<Rightarrow> string \<Rightarrow> string \<Rightarrow> world \<Rightarrow> unit result \<times> world" where
  "send_html_email e recipient subject body w =
     (if e_mail_ok e recipient then (Ok (), w\<lparr>w_outbox := w_outbox w @ [Mail recipient subject body]\<rparr>)
      else (Raise (RuntimeError ''SMTPException''), w))"

definition send_activation_otp :: "env \<Rightarrow> string \<Rightarrow> string \<Rightarrow> world \<Rightarrow> unit result \<times> world" where
  "send_activation_otp e email code w =
     (let url = e_frontend_url e @ ''/activate?email='' @ url_quote email @ ''&code='' @ code
      in send_html_email e email (''['' @ e_email_from_name e @ ''] Activez votre compte'')
           (''Activez votre compte '' @ e_email_from_name e @ newline @ newline
            @ ''Code : '' @ code @ newline
            @ ''Expire dans '' @ string_of_nat (e_otp_expiry_minutes e) @ '' minutes.'' @ newline @ newline
            @ ''Lien : '' @ url @ newline @ newline
            @ ''Trop de tentatives ? POST /api/v1/auth/resend-activation'') w)"

definition send_password_reset_otp :: "env \<Rightarrow> string \<Rightarrow> string \<Rightarrow> world \<Rightarrow> unit result \<times> world" where
  "send_password_reset_otp e email code w =
     (let url = e_frontend_url e @ ''/reset-password?email='' @ url_quote email @ ''&code='' @ code
      in send_html_email e email
           (''['' @ e_email_from_name e @ ''] R'' @ e_acute @ ''initialisation du mot de passe'')
           (''R'' @ e_acute @ ''initialisation '' @ e_email_from_name e @ newline @ newline
            @ ''Code : '' @ code @ newline
            @ ''Expire dans '' @ string_of_nat (e_otp_expiry_minutes e) @ '' minutes.'' @ newline @ newline
            @ ''Lien : '' @ url) w)"

definition send_invitation ::
  "env \<Rightarrow> string \<Rightarrow> string \<Rightarrow> string \<Rightarrow> string \<Rightarrow> nat \<Rightarrow> world \<Rightarrow> unit result \<times> world" where
  "send_invitation e email tenant_name inviter_name token expiry_days w =
     (let url = e_frontend_url e @ ''/accept-invite?token='' @ url_quote token @ ''&email='' @ url_quote email;
          inviter = (if inviter_name \<noteq> [] then inviter_name else ''Un administrateur'')
      in send_html_email e email
           (''['' @ e_email_from_name e @ ''] Invitation '' @ [CHR 0xC3, CHR 0xA0] @ '' rejoindre '' @ tenant_name)
           (''Invitation '' @ e_email_from_name e @ newline @ newline
            @ inviter @ '' vous invite '' @ [CHR 0xC3, CHR 0xA0] @ '' rejoindre '' @ tenant_name @ ''.''
            @ newline @ newline
            @ ''Lien : '' @ url @ newline
            @ ''Expire dans '' @ string_of_nat expiry_days @ '' jours.'') w)"

section \<open>Users and onboarding\<close>

text \<open>\<open>normalize_email\<close>: the domain in lower case.\<close>

definition normalize_email :: "string \<Rightarrow> string" where
  "normalize_email email =
     (case rsplit_once CHR ''@'' (strip email) of
        Some (name, domain) \<Rightarrow> name @ ''@'' @ lower domain
      | None \<Rightarrow> email)"

definition new_user ::
  "env \<Rightarrow> uuid \<Rightarrow> string \<Rightarrow> string option \<Rightarrow> string \<Rightarrow> string \<Rightarrow> bool \<Rightarrow> bool \<Rightarrow> user" where
  "new_user e pk email password first_name last_name active verified =
     \<lparr>usr_id = pk, usr_username = email, usr_first_name = first_name, usr_last_name = last_name,
      usr_password = password, usr_is_staff = False, usr_is_superuser = False,
      usr_is_active = active, usr_last_login = None, usr_email = email,
      usr_is_email_verified = verified, usr_mfa_enabled = False, usr_mfa_secret = [],
      usr_session_timeout_minutes = 60, usr_last_login_ip = None, usr_is_erased = False,
      usr_erased_at = None, usr_created_at = e_now e, usr_updated_at = e_now e\<rparr>"

text \<open>\<open>User.objects.create_user\<close>; \<open>active\<close> and \<open>verified\<close> are its extra fields.\<close>

definition create_user ::
  "env \<Rightarrow> string \<Rightarrow> string \<Rightarrow> string \<Rightarrow> string \<Rightarrow> bool \<Rightarrow> bool \<Rightarrow> world \<Rightarrow> user result \<times> world" where
  "create_user e email password first_name last_name active verified w =
     (if email = [] then (Raise (ValueError ''Email is required''), w)
      else (let email1 = normalize_email email;
                u = new_user e (w_next w) email1 (Some (e_make_password e password)) first_name last_name active verified
            in if exists_row (\<lambda>r. usr_email r = email1 \<or> usr_username r = email1) (w_users w)
               then (Raise (IntegrityError ''accounts_user''), w)
               else (Ok u, w\<lparr>w_users := w_users w @ [u], w_next := Suc (w_next w)\<rparr>)))"

definition slug_candidate :: "string \<Rightarrow> nat \<Rightarrow> string" where
  "slug_candidate base k = (if k = 1 then base else base @ ''-'' @ string_of_nat k)"

lemma slug_candidate_inj: "inj (slug_candidate base)"
proof (rule injI)
  fix i j
  assume eq: "slug_candidate base i = slug_candidate base j"
  show "i = j"
  proof (cases "i = 1 \<or> j = 1")
    case True
    with eq show ?thesis by (auto simp: slug_candidate_def split: if_splits)
  next
    case False
    with eq show ?thesis by (auto simp: slug_candidate_def dest: string_of_nat_inj)
  qed
qed

text \<open>The \<open>while\<close> loop: the suffix is incremented until the slug is free.\<close>

function free_slug :: "string list \<Rightarrow> string \<Rightarrow> nat \<Rightarrow> string" where
  "free_slug taken base k =
     (if slug_candidate base k \<in> set taken then free_slug taken base (k + 1)
      else slug_candidate base k)"
  by pat_completeness auto

definition taken_suffixes :: "string list \<Rightarrow> string \<Rightarrow> nat \<Rightarrow> nat set" where
  "taken_suffixes taken base k = {j. k \<le> j \<and> slug_candidate base j \<in> set taken}"

lemma finite_taken_suffixes: "finite (taken_suffixes taken base k)"
proof (rule finite_subset)
  show "taken_suffixes taken base k \<subseteq> slug_candidate base -` set taken"
    by (auto simp: taken_suffixes_def)
  show "finite (slug_candidate base -` set taken)"
    by (rule finite_vimageI) (simp_all add: slug_candidate_inj)
qed

termination free_slug
proof (relation "measure (\<lambda>(taken, base, k). card (taken_suffixes taken base k))")
  fix taken base k
  assume "slug_candidate base k \<in> set taken"
  then have "k \<in> taken_suffixes taken base k" by (simp add: taken_suffixes_def)
  moreover have "k \<notin> taken_suffixes taken base (k + 1)" by (simp add: taken_suffixes_def)
  moreover have "taken_suffixes taken base (k + 1) \<subseteq> taken_suffixes taken base k"
    by (auto simp: taken_suffixes_def)
  ultimately have "taken_suffixes taken base (k + 1) \<subset> taken_suffixes taken base k" by blast
  then show "((taken, base, k + 1), taken, base, k) \<in>
      measure (\<lambda>(taken, base, k). card (taken_suffixes taken base k))"
    by (simp add: psubset_card_mono finite_taken_suffixes)
qed simp

declare free_slug.simps [simp del]

definition fresh_tenant_slug :: "env \<Rightarrow> string \<Rightarrow> world \<Rightarrow> string" where
  "fresh_tenant_slug e name w =
     (let base = (if e_slugify e name \<noteq> [] then e_slugify e name else ''tenant'')
      in free_slug (map tn_slug (w_tenants w)) base 1)"

definition team_key :: "team \<Rightarrow> uuid \<times> string" where
  "team_key t = (tm_project t, tm_name t)"

definition mk_team :: "(env \<times> uuid \<times> uuid \<times> string) \<Rightarrow> (uuid \<times> string) \<Rightarrow> team" where
  "mk_team d k =
     (case d of (e, pk, tenant, desc) \<Rightarrow>
        \<lparr>tm_id = pk, tm_tenant = tenant, tm_project = fst k, tm_name = snd k, tm_description = desc,
         tm_created_at = e_now e, tm_updated_at = e_now e\<rparr>)"

definition team_get_or_create ::
  "env \<Rightarrow> uuid \<Rightarrow> uuid \<Rightarrow> string \<Rightarrow> string \<Rightarrow> world \<Rightarrow> team \<times> world" where
  "team_get_or_create e tenant project name desc w =
     (case get_or_create team_key (mk_team (e, w_next w, tenant, desc)) (project, name) (w_teams w) of
        (t, _, ts) \<Rightarrow> (t, w\<lparr>w_teams := ts, w_next := Suc (w_next w)\<rparr>))"

definition team_membership_key :: "team_membership \<Rightarrow> uuid \<times> uuid" where
  "team_membership_key m = (mb_team m, mb_user m)"

definition mk_team_membership ::
  "(env \<times> uuid \<times> uuid \<times> uuid option) \<Rightarrow> (uuid \<times> uuid) \<Rightarrow> team_membership" where
  "mk_team_membership d k =
     (case d of (e, pk, role, granted_by) \<Rightarrow>
        \<lparr>mb_id = pk, mb_team = fst k, mb_user = snd k, mb_role = role, mb_granted_by = granted_by,
         mb_created_at = e_now e\<rparr>)"

definition join_team ::
  "env \<Rightarrow> uuid \<Rightarrow> uuid \<Rightarrow> uuid \<Rightarrow> uuid option \<Rightarrow> world \<Rightarrow> team_membership \<times> world" where
  "join_team e team u role granted_by w =
     (case get_or_create team_membership_key (mk_team_membership (e, w_next w, role, granted_by)) (team, u)
             (w_team_memberships w) of
        (m, _, ms) \<Rightarrow> (m, w\<lparr>w_team_memberships := ms, w_next := Suc (w_next w)\<rparr>))"

definition new_membership ::
  "env \<Rightarrow> uuid \<Rightarrow> uuid \<Rightarrow> uuid \<Rightarrow> bool \<Rightarrow> uuid option \<Rightarrow> string \<Rightarrow> datetime option \<Rightarrow> user_membership" where
  "new_membership e pk u tenant owner invited_by token accepted_at =
     \<lparr>um_id = pk, um_user = u, um_tenant = tenant, um_is_owner = owner, um_invited_by = invited_by,
      um_invitation_token = token, um_invited_at = e_now e, um_accepted_at = accepted_at,
      um_created_at = e_now e, um_updated_at = e_now e\<rparr>"

definition add_membership :: "env \<Rightarrow> user_membership \<Rightarrow> world \<Rightarrow> world" where
  "add_membership e m w =
     on_membership_save e m True
       (w\<lparr>w_user_memberships := w_user_memberships w @ [m], w_next := Suc (w_next w)\<rparr>)"

text \<open>
  \<open>OnboardingService.create_account\<close>, in one transaction: when creating the user fails, nothing
  is written.
\<close>

definition create_account ::
  "env \<Rightarrow> string \<Rightarrow> string \<Rightarrow> string \<Rightarrow> string \<Rightarrow> string \<Rightarrow> world \<Rightarrow>
     (user \<times> tenant \<times> project) result \<times> world" where
  "create_account e email password tenant_name first_name last_name w =
     (case create_user e email password first_name last_name False False w of
        (Inl x, _) \<Rightarrow> (Raise x, w)
      | (Inr u, w1) \<Rightarrow>
          (let tenant = \<lparr>tn_id = w_next w1, tn_name = tenant_name, tn_slug = fresh_tenant_slug e tenant_name w1,
                         tn_domain = None, tn_logo_url = None, tn_plan = ''free'',
                         tn_data_region = ''us-east-1'', tn_status = TenantActive, tn_stripe_id = None,
                         tn_settings = JObj [], tn_created_at = e_now e, tn_updated_at = e_now e\<rparr>;
               w2 = w1\<lparr>w_tenants := w_tenants w1 @ [tenant], w_next := Suc (w_next w1)\<rparr>;
               project = \<lparr>pj_id = w_next w2, pj_tenant = tn_id tenant, pj_name = ''Default'',
                          pj_slug = ''default'',
                          pj_description = ''Default project created automatically at signup.'',
                          pj_is_active = True, pj_created_at = e_now e, pj_updated_at = e_now e\<rparr>;
               w3 = w2\<lparr>w_projects := w_projects w2 @ [project], w_next := Suc (w_next w2)\<rparr>;
               w4 = add_membership e
                      (new_membership e (w_next w3) (usr_id u) (tn_id tenant) True None []
                         (Some (usr_created_at u))) w3;
               (bootstrapped, w5) = bootstrap_project e (pj_id project) (tn_id tenant) w4;
               w7 = (case map_of (bs_roles bootstrapped) ''admin'' of
                       None \<Rightarrow> w5
                     | Some admin_role \<Rightarrow>
                         (let (admin_team, w6) = team_get_or_create e (tn_id tenant) (pj_id project)
                                ''Administrators'' ''Project owners and administrators'' w5
                          in snd (join_team e (tm_id admin_team) (usr_id u) (ro_id admin_role)
                                    (Some (usr_id u)) w6)))
           in (Ok (u, tenant, project), w7)))"

section \<open>Authentication of a request\<close>

definition unauthorized :: "string \<Rightarrow> 'a result" where
  "unauthorized detail = Raise (ApiError 401 detail)"

definition jwt_user :: "env \<Rightarrow> jwt_claims \<Rightarrow> world \<Rightarrow> user result" where
  "jwt_user e claims w =
     (case user_of w (jc_user claims) of
        None \<Rightarrow> unauthorized ''User not found''
      | Some u \<Rightarrow>
          (if \<not> usr_is_active u then unauthorized ''Account is disabled.''
           else if \<not> usr_is_email_verified u then unauthorized ''Email address is not verified.''
           else if usr_is_erased u then unauthorized ''Account has been erased.''
           else Ok u))"

definition authenticate_jwt :: "env \<Rightarrow> string \<Rightarrow> request \<Rightarrow> world \<Rightarrow> request result \<times> world" where
  "authenticate_jwt e raw_token rq w =
     (case e_jwt_decode e raw_token of
        None \<Rightarrow> (unauthorized ''Given token not valid for any token type'', w)
      | Some claims \<Rightarrow>
          (case jwt_user e claims w of
             Inl x \<Rightarrow> (Raise x, w)
           | Inr u \<Rightarrow>
               (Ok (rq\<lparr>req_user := Some u,
                       req_auth_method := Some (case jc_auth_method claims of Some m \<Rightarrow> m | None \<Rightarrow> ''password''),
                       req_sso_projects := jc_sso_projects claims\<rparr>),
                set_current_actor (Some (UserActor (usr_id u))) (Some (req_meta rq)) w)))"

definition authenticate_api_key :: "env \<Rightarrow> string \<Rightarrow> request \<Rightarrow> world \<Rightarrow> request result \<times> world" where
  "authenticate_api_key e raw_token rq w =
     (let key_hash = e_sha256 e raw_token
      in case find (\<lambda>k. ak_key_hash k = key_hash \<and> ak_revoked_at k = None) (w_api_keys w) of
           None \<Rightarrow> (unauthorized ''Invalid API key.'', w)
         | Some k \<Rightarrow>
             (if (case ak_expires_at k of Some t \<Rightarrow> t < e_now e | None \<Rightarrow> False)
              then (unauthorized ''API key has expired.'', w)
              else (case Option.bind (ak_created_by k) (user_of w) of
                      None \<Rightarrow> (Raise (TypeError ''NoneType has no attribute is_active''), w)
                    | Some u \<Rightarrow>
                        (if \<not> usr_is_active u then (unauthorized ''Account is disabled.'', w)
                         else (Ok (rq\<lparr>req_user := Some u, req_api_key := Some k\<rparr>),
                               set_current_actor (Some (ApiKeyActor (ak_id k))) (Some (req_meta rq))
                                 (w\<lparr>w_api_keys := update_where (\<lambda>r. ak_id r = ak_id k)
                                     (\<lambda>r. r\<lparr>ak_last_used_at := Some (e_now e)\<rparr>) (w_api_keys w)\<rparr>))))))"

text \<open>\<open>UnifiedTokenAuthentication.authenticate\<close>; without a bearer token the request stays anonymous.\<close>

definition authenticate :: "env \<Rightarrow> request \<Rightarrow> world \<Rightarrow> request result \<times> world" where
  "authenticate e rq w =
     (let header = req_authorization rq
      in if \<not> startswith (lower header) ''bearer '' then (Ok (rq\<lparr>req_user := None\<rparr>), w)
         else (let token = strip (drop 7 header)
               in if startswith token ''ok_'' then authenticate_api_key e token rq w
                  else authenticate_jwt e token rq w))"

end
