(* ===== verification/SsoEnforcement.thy ===== *)
theory SsoEnforcement
  imports Requests
begin

text \<open>
  \<open>apps/sso/services/enforcement.py\<close>: when a password login is refused, and when a request may
  enter a project that requires single sign-on.
\<close>

definition enforces_sso :: "sso_config \<Rightarrow> bool" where
  "enforces_sso c \<longleftrightarrow> sc_is_enabled c \<and> sc_enforce_sso c"

text \<open>The projects of the teams a user belongs to.\<close>

definition member_projects :: "world \<Rightarrow> uuid \<Rightarrow> uuid list" where
  "member_projects w u =
     distinct_values (concat (map (\<lambda>m. case team_of w (mb_team m) of Some t \<Rightarrow> [tm_project t] | None \<Rightarrow> [])
       (filter (\<lambda>m. mb_user m = u) (w_team_memberships w))))"

definition user_requires_sso_login :: "world \<Rightarrow> user \<Rightarrow> bool" where
  "user_requires_sso_login w u =
     (if usr_is_superuser u then False
      else exists_row (\<lambda>c. sc_project c \<in> set (member_projects w (usr_id u)) \<and> enforces_sso c) (w_sso_configs w))"

definition project_requires_sso :: "world \<Rightarrow> uuid \<Rightarrow> bool" where
  "project_requires_sso w p = exists_row (\<lambda>c. sc_project c = p \<and> enforces_sso c) (w_sso_configs w)"

definition has_sso_access :: "request \<Rightarrow> uuid \<Rightarrow> bool" where
  "has_sso_access rq p =
     (if req_api_key rq \<noteq> None then True
      else if (case req_user rq of Some u \<Rightarrow> usr_is_superuser u | None \<Rightarrow> False) then True
      else p \<in> set (req_sso_projects rq))"

lemma member_projects_iff:
  "p \<in> set (member_projects w u) \<longleftrightarrow>
     (\<exists>m \<in> set (w_team_memberships w). mb_user m = u \<and>
        (\<exists>t. team_of w (mb_team m) = Some t \<and> tm_project t = p))"
proof -
  have case_iff: "p \<in> set (case x of Some t \<Rightarrow> [tm_project t] | None \<Rightarrow> []) \<longleftrightarrow>
      (\<exists>t. x = Some t \<and> tm_project t = p)" for x
    by (cases x) auto
  have "p \<in> set (member_projects w u) \<longleftrightarrow>
      (\<exists>m \<in> {m \<in> set (w_team_memberships w). mb_user m = u}.
         p \<in> set (case team_of w (mb_team m) of Some t \<Rightarrow> [tm_project t] | None \<Rightarrow> []))"
    unfolding member_projects_def set_distinct_values set_concat set_map set_filter UN_iff image_image ..
  then show ?thesis unfolding case_iff by blast
qed

lemma user_requires_sso_login_iff:
  "user_requires_sso_login w u \<longleftrightarrow>
     \<not> usr_is_superuser u \<and> (\<exists>p \<in> set (member_projects w (usr_id u)). project_requires_sso w p)"
  by (auto simp: user_requires_sso_login_def project_requires_sso_def)

end
