(* ===== verification/AccountsViews.thy ===== *)
theory AccountsViews
  imports Accounts SsoEnforcement ViewBase
begin

text \<open>
  The handlers of \<open>apps/accounts/views.py\<close> with the checks of their serializers: registration,
  activation, login with and without TOTP, password reset and change, invitations, erasure and
  the management of users. The fields of a request body are the arguments (e-mail addresses
  well-formed, texts within their lengths), \<open>None\<close> a field that is absent.
\<close>

section \<open>What the responses show\<close>

definition owner_membership :: "world \<Rightarrow> uuid \<Rightarrow> user_membership option" where
  "owner_membership w u =
     (case find (\<lambda>m. um_user m = u \<and> um_is_owner m \<and> um_accepted_at m \<noteq> None) (w_user_memberships w) of
        Some m \<Rightarrow> Some m
      | None \<Rightarrow> find (\<lambda>m. um_user m = u \<and> um_accepted_at m \<noteq> None) (w_user_memberships w))"

definition default_project :: "world \<Rightarrow> uuid \<Rightarrow> project option" where
  "default_project w tenant =
     first_row (order_by pj_created_at (filter (\<lambda>p. pj_tenant p = tenant \<and> pj_is_active p) (w_projects w)))"

definition user_json :: "world \<Rightarrow> user \<Rightarrow> json" where
  "user_json w u =
     (let m = owner_membership w (usr_id u);
          tenant = (case Option.bind m (\<lambda>x. tenant_of w (um_tenant x)) of
                      None \<Rightarrow> JNull
                    | Some t \<Rightarrow> JObj [(''id'', JUuid (tn_id t)), (''name'', JStr (tn_name t)),
                                     (''slug'', JStr (tn_slug t))]);
          project = (case Option.bind m (\<lambda>x. default_project w (um_tenant x)) of
                       None \<Rightarrow> JNull
                     | Some p \<Rightarrow> JObj [(''id'', JUuid (pj_id p)), (''name'', JStr (pj_name p)),
                                      (''slug'', JStr (pj_slug p))])
      in JObj
        [(''id'', JUuid (usr_id u)), (''email'', JStr (usr_email u)),
         (''first_name'', JStr (usr_first_name u)), (''last_name'', JStr (usr_last_name u)),
         (''full_name'', JStr (full_name u)), (''is_active'', JBool (usr_is_active u)),
         (''is_email_verified'', JBool (usr_is_email_verified u)),
         (''mfa_enabled'', JBool (usr_mfa_enabled u)),
         (''session_timeout_minutes'', JInt (int (usr_session_timeout_minutes u))),
         (''tenant'', tenant), (''default_project'', project),
         (''created_at'', JTime (usr_created_at u)), (''updated_at'', JTime (usr_updated_at u))])"

text \<open>\<open>_issue_tokens\<close>: both tokens carry the user and no login method.\<close>

definition password_claims :: "user \<Rightarrow> jwt_claims" where
  "password_claims u = \<lparr>jc_user = usr_id u, jc_auth_method = None, jc_sso_projects = []\<rparr>"

definition issue_tokens :: "env \<Rightarrow> user \<Rightarrow> (string \<times> json) list" where
  "issue_tokens e u =
     [(''access'', JStr (e_jwt_encode e (password_claims u))),
      (''refresh'', JStr (e_jwt_encode e (password_claims u)))]"

definition client_ip :: "request_meta \<Rightarrow> string option" where
  "client_ip m =
     (case rq_xff m of
        Some xff \<Rightarrow> (if xff \<noteq> [] then Some (strip (hd (split_on CHR '','' xff))) else rq_remote_addr m)
      | None \<Rightarrow> rq_remote_addr m)"

definition detail_response :: "nat \<Rightarrow> string \<Rightarrow> response" where
  "detail_response status detail = Response status (JObj [(''detail'', JStr detail)])"

definition save_user :: "(user \<Rightarrow> user) \<Rightarrow> uuid \<Rightarrow> world \<Rightarrow> world" where
  "save_user put i w = w\<lparr>w_users := update_where (\<lambda>u. usr_id u = i) put (w_users w)\<rparr>"

definition find_email :: "world \<Rightarrow> string \<Rightarrow> user option" where
  "find_email w email = find (\<lambda>u. usr_email u = email) (w_users w)"

definition touch_login :: "env \<Rightarrow> request \<Rightarrow> user \<Rightarrow> user" where
  "touch_login e rq u =
     u\<lparr>usr_last_login := Some (e_now e), usr_last_login_ip := client_ip (req_meta rq)\<rparr>"

text \<open>\<open>IsAuthenticated\<close>\<close>

definition is_authenticated :: "request \<Rightarrow> user result" where
  "is_authenticated rq =
     (case req_user rq of
        None \<Rightarrow> Raise (ApiError 401 ''Authentication credentials were not provided.'')
      | Some u \<Rightarrow> Ok u)"

text \<open>The stored hash against a password; an unusable one matches nothing.\<close>

definition check_password :: "env \<Rightarrow> user \<Rightarrow> string \<Rightarrow> bool" where
  "check_password e u pw = (case usr_password u of None \<Rightarrow> False | Some h \<Rightarrow> e_check_password e pw h)"

section \<open>The serializers\<close>

text \<open>Fields with bounds on their length, and the password validators of the settings.\<close>

definition valid_length :: "nat \<Rightarrow> nat \<Rightarrow> string \<Rightarrow> string \<Rightarrow> unit result" where
  "valid_length lo hi field s = (if length s < lo \<or> hi < length s then ValidationError field else Ok ())"

definition valid_password :: "env \<Rightarrow> user option \<Rightarrow> string \<Rightarrow> string \<Rightarrow> unit result" where
  "valid_password e u field pw = (if length pw < 8 \<or> \<not> e_password_ok e u pw then ValidationError field else Ok ())"

definition validate_register :: "env \<Rightarrow> string \<Rightarrow> string \<Rightarrow> world \<Rightarrow> string result" where
  "validate_register e email password w =
     (if exists_row (\<lambda>u. lower (usr_email u) = lower email) (w_users w)
      then ValidationError ''A user with this email already exists.''
      else bind_result (valid_password e None ''password'' password) (\<lambda>_. Ok (lower email)))"

definition validate_activation :: "string \<Rightarrow> string \<Rightarrow> string result" where
  "validate_activation email code = bind_result (valid_length 4 8 ''code'' code) (\<lambda>_. Ok (lower email))"

definition validate_totp :: "string \<Rightarrow> unit result" where
  "validate_totp code = valid_length 6 8 ''code'' code"

definition validate_mfa_disable :: "env \<Rightarrow> user \<Rightarrow> string \<Rightarrow> string \<Rightarrow> unit result" where
  "validate_mfa_disable e u password code =
     (if \<not> check_password e u password then ValidationError ''Password is incorrect.''
      else valid_length 6 8 ''code'' code)"

definition validate_reset :: "env \<Rightarrow> string \<Rightarrow> string \<Rightarrow> string \<Rightarrow> string result" where
  "validate_reset e email code new_password =
     bind_result (valid_length 4 8 ''code'' code) (\<lambda>_.
     bind_result (valid_password e None ''new_password'' new_password) (\<lambda>_. Ok (lower email)))"

definition validate_change :: "env \<Rightarrow> user \<Rightarrow> string \<Rightarrow> string \<Rightarrow> unit result" where
  "validate_change e u old_password new_password =
     (if \<not> check_password e u old_password then ValidationError ''Old password is incorrect.''
      else valid_password e (Some u) ''new_password'' new_password)"

text \<open>An invitation may be accepted without a password.\<close>

definition validate_acceptance :: "env \<Rightarrow> string \<Rightarrow> string \<Rightarrow> string result" where
  "validate_acceptance e email password =
     (if password \<noteq> [] \<and> (length password < 8 \<or> \<not> e_password_ok e None password)
      then ValidationError ''password'' else Ok (lower email))"

lemmas account_serializers =
  valid_length_def valid_password_def validate_register_def validate_activation_def validate_totp_def
  validate_mfa_disable_def validate_reset_def validate_change_def validate_acceptance_def

section \<open>Registration and activation\<close>

definition register ::
  "env \<Rightarrow> string \<Rightarrow> string \<Rightarrow> string \<Rightarrow> string \<Rightarrow> string \<Rightarrow> world \<Rightarrow> response result \<times> world" where
  "register e email password tenant_name first_name last_name w =
     (case validate_register e email password w of
        Inl x \<Rightarrow> (Raise x, w)
      | Inr email1 \<Rightarrow>
           (case create_account e email1 password tenant_name first_name last_name w of
              (Inl x, w1) \<Rightarrow> (Raise x, w1)
            | (Inr (u, tenant, project), w1) \<Rightarrow>
                (case create_challenge e (usr_id u) Activation w1 of
                   ((_, code), w2) \<Rightarrow>
                     (case send_activation_otp e (usr_email u) code w2 of
                        (Inl x, w3) \<Rightarrow> (Raise x, w3)
                      | (Inr _, w3) \<Rightarrow>
                          (Ok (Response 201 (JObj
                             [(''detail'', JStr ''Account created. Check your email for the activation OTP.''),
                              (''user'', user_json w3 u),
                              (''tenant'', JObj [(''id'', JUuid (tn_id tenant)), (''name'', JStr (tn_name tenant)),
                                                (''slug'', JStr (tn_slug tenant))]),
                              (''project'', JObj [(''id'', JUuid (pj_id project)), (''name'', JStr (pj_name project)),
                                                 (''slug'', JStr (pj_slug project))])])), w3)))))"

definition activate :: "env \<Rightarrow> string \<Rightarrow> string \<Rightarrow> world \<Rightarrow> response result \<times> world" where
  "activate e email code w =
     (case validate_activation email code of
        Inl x \<Rightarrow> (Raise x, w)
      | Inr email1 \<Rightarrow>
           (case find_email w email1 of
              None \<Rightarrow> (Ok (detail_response 400 ''Invalid email or OTP code.''), w)
            | Some u \<Rightarrow>
                (if usr_is_email_verified u then (Ok (detail_response 200 ''Account is already activated.''), w)
                 else (case otp_verify e (usr_id u) Activation code w of
                         (Inl exc, w1) \<Rightarrow> (Ok (otp_error_response exc), w1)
                       | (Inr _, w1) \<Rightarrow>
                           (let u1 = u\<lparr>usr_is_active := True, usr_is_email_verified := True\<rparr>;
                                w2 = save_user (\<lambda>r. r\<lparr>usr_is_active := True, usr_is_email_verified := True\<rparr>)
                                       (usr_id u) w1
                            in (Ok (Response 200 (JObj
                                  ([(''detail'', JStr ''Account activated successfully.''),
                                    (''user'', user_json w2 u1)] @ issue_tokens e u1))), w2))))))"

definition resend_activation :: "env \<Rightarrow> string \<Rightarrow> world \<Rightarrow> response result \<times> world" where
  "resend_activation e email w =
     (let answer = detail_response 200 (''Si un compte non v'' @ e_acute @ ''rifi'' @ e_acute @ '' existe, un nouveau code a ''
             @ e_acute @ ''t'' @ e_acute @ '' envoy'' @ e_acute @ ''. Les anciens codes sont invalid'' @ e_acute @ ''s.'')
      in case find (\<lambda>u. usr_email u = lower email \<and> \<not> usr_is_email_verified u) (w_users w) of
           None \<Rightarrow> (Ok answer, w)
         | Some u \<Rightarrow>
             (case create_challenge e (usr_id u) Activation w of
                ((_, code), w1) \<Rightarrow>
                  (case send_activation_otp e (usr_email u) code w1 of
                     (Inl x, w2) \<Rightarrow> (Raise x, w2)
                   | (Inr _, w2) \<Rightarrow> (Ok answer, w2))))"

section \<open>Login\<close>

text \<open>
  \<open>LoginSerializer.validate\<close>. Django's model backend refuses a wrong password and an inactive
  user alike, so the serializer's own test of \<open>is_active\<close> is never reached.
\<close>

definition validate_login :: "env \<Rightarrow> string \<Rightarrow> string \<Rightarrow> world \<Rightarrow> user result" where
  "validate_login e email password w =
     (let email1 = lower email
      in if exists_row (\<lambda>u. usr_email u = email1 \<and> \<not> usr_is_email_verified u) (w_users w)
         then Raise (ApiError 400 ''Please activate your account via the email OTP.'')
         else (case find_email w email1 of
                 None \<Rightarrow> Raise (ApiError 400 ''Invalid email or password.'')
               | Some u \<Rightarrow>
                   (if check_password e u password \<and> usr_is_active u then Ok u
                    else Raise (ApiError 400 ''Invalid email or password.''))))"

definition login :: "env \<Rightarrow> request \<Rightarrow> string \<Rightarrow> string \<Rightarrow> world \<Rightarrow> response result \<times> world" where
  "login e rq email password w =
     (case validate_login e email password w of
        Inl x \<Rightarrow> (Raise x, w)
      | Inr u \<Rightarrow>
          (if user_requires_sso_login w u
           then (Ok (Response 403 (JObj
                  [(''detail'', JStr ''SSO is required for your organization. Use SAML login.''),
                   (''sso_required'', JBool True)])), w)
           else
             (let u1 = touch_login e rq u;
                  w1 = save_user (touch_login e rq) (usr_id u) w
              in if usr_mfa_enabled u
                 then (let (s, w2) = create_login_session e (usr_id u) w1
                       in (Ok (Response 200 (JObj
                             [(''mfa_required'', JBool True), (''mfa_token'', JStr (ms_token s)),
                              (''expires_in'', JInt (total_seconds_floor (ms_expires_at s - e_now e)))])), w2))
                 else (Ok (Response 200 (JObj ((''user'', user_json w1 u1) # issue_tokens e u1))), w1))))"

definition mfa_verify_login :: "env \<Rightarrow> request \<Rightarrow> string \<Rightarrow> string \<Rightarrow> world \<Rightarrow> response result \<times> world" where
  "mfa_verify_login e rq mfa_token code w =
     (case validate_totp code of
        Inl x \<Rightarrow> (Raise x, w)
      | Inr _ \<Rightarrow>
           (case consume_login_session e mfa_token w of
              (Inl x, w1) \<Rightarrow>
                (Ok (detail_response 400 (case x of ValueError m \<Rightarrow> m | _ \<Rightarrow> [])), w1)
            | (Inr s, w1) \<Rightarrow>
                (case user_of w1 (ms_user s) of
                   None \<Rightarrow> (Raise (KeyError ''user''), w1)
                 | Some u \<Rightarrow>
                     (if \<not> mfa_verify_code e (usr_mfa_secret u) code
                      then (Ok (detail_response 400 ''Invalid MFA code.''), w1)
                      else
                        (let u1 = touch_login e rq u;
                             w2 = save_user (touch_login e rq) (usr_id u) w1
                         in (Ok (Response 200 (JObj ((''user'', user_json w2 u1) # issue_tokens e u1))), w2))))))"

section \<open>TOTP setup\<close>

text \<open>\<open>secret\<close> is the random secret the TOTP library generates.\<close>

definition mfa_setup :: "env \<Rightarrow> string \<Rightarrow> request \<Rightarrow> world \<Rightarrow> response result \<times> world" where
  "mfa_setup e secret rq w =
     (case is_authenticated rq of
        Inl x \<Rightarrow> (Raise x, w)
      | Inr u \<Rightarrow>
          (Ok (Response 200 (JObj
             [(''secret'', JStr secret), (''provisioning_uri'', JStr (provisioning_uri e u secret))])),
           save_user (\<lambda>r. r\<lparr>usr_mfa_secret := secret, usr_mfa_enabled := False\<rparr>) (usr_id u) w))"

definition mfa_confirm :: "env \<Rightarrow> request \<Rightarrow> string \<Rightarrow> world \<Rightarrow> response result \<times> world" where
  "mfa_confirm e rq code w =
     (case is_authenticated rq of
        Inl x \<Rightarrow> (Raise x, w)
      | Inr u \<Rightarrow>
          (case validate_totp code of
             Inl x \<Rightarrow> (Raise x, w)
           | Inr _ \<Rightarrow>
               (if usr_mfa_secret u = [] then (Ok (detail_response 400 ''Call /auth/mfa/setup first.''), w)
                else if \<not> mfa_verify_code e (usr_mfa_secret u) code
                then (Ok (detail_response 400 ''Invalid MFA code.''), w)
                else (Ok (detail_response 200 ''MFA enabled successfully.''),
                      save_user (\<lambda>r. r\<lparr>usr_mfa_enabled := True\<rparr>) (usr_id u) w))))"

definition mfa_disable :: "env \<Rightarrow> request \<Rightarrow> string \<Rightarrow> string \<Rightarrow> world \<Rightarrow> response result \<times> world" where
  "mfa_disable e rq password code w =
     (case is_authenticated rq of
        Inl x \<Rightarrow> (Raise x, w)
      | Inr u \<Rightarrow>
          (case validate_mfa_disable e u password code of
             Inl x \<Rightarrow> (Raise x, w)
           | Inr _ \<Rightarrow>
               (if \<not> mfa_verify_code e (usr_mfa_secret u) code
                then (Ok (detail_response 400 ''Invalid MFA code.''), w)
                else (Ok (Response 204 JNull),
                      save_user (\<lambda>r. r\<lparr>usr_mfa_enabled := False, usr_mfa_secret := []\<rparr>) (usr_id u) w))))"

section \<open>Passwords\<close>

definition password_reset_request :: "env \<Rightarrow> string \<Rightarrow> world \<Rightarrow> response result \<times> world" where
  "password_reset_request e email w =
     (let answer = detail_response 200 ''If the account exists, a reset OTP has been sent.''
      in case find (\<lambda>u. usr_email u = lower email \<and> usr_is_active u) (w_users w) of
           None \<Rightarrow> (Ok answer, w)
         | Some u \<Rightarrow>
             (case create_challenge e (usr_id u) PasswordReset w of
                ((_, code), w1) \<Rightarrow>
                  (case send_password_reset_otp e (usr_email u) code w1 of
                     (Inl x, w2) \<Rightarrow> (Raise x, w2)
                   | (Inr _, w2) \<Rightarrow> (Ok answer, w2))))"

definition password_reset_confirm ::
  "env \<Rightarrow> string \<Rightarrow> string \<Rightarrow> string \<Rightarrow> world \<Rightarrow> response result \<times> world" where
  "password_reset_confirm e email code new_password w =
     (case validate_reset e email code new_password of
        Inl x \<Rightarrow> (Raise x, w)
      | Inr email1 \<Rightarrow>
           (case find_email w email1 of
              None \<Rightarrow> (Ok (detail_response 400 ''Invalid email or OTP code.''), w)
            | Some u \<Rightarrow>
                (case otp_verify e (usr_id u) PasswordReset code w of
                   (Inl exc, w1) \<Rightarrow> (Ok (otp_error_response exc), w1)
                 | (Inr _, w1) \<Rightarrow>
                     (Ok (detail_response 200 ''Password reset successfully.''),
                      save_user (\<lambda>r. r\<lparr>usr_password := Some (e_make_password e new_password)\<rparr>) (usr_id u) w1))))"

definition change_password ::
  "env \<Rightarrow> request \<Rightarrow> string \<Rightarrow> string \<Rightarrow> world \<Rightarrow> response result \<times> world" where
  "change_password e rq old_password new_password w =
     (case is_authenticated rq of
        Inl x \<Rightarrow> (Raise x, w)
      | Inr u \<Rightarrow>
          (case validate_change e u old_password new_password of
             Inl x \<Rightarrow> (Raise x, w)
           | Inr _ \<Rightarrow>
                (Ok (Response 204 JNull),
                 save_user (\<lambda>r. r\<lparr>usr_password := Some (e_make_password e new_password)\<rparr>) (usr_id u) w)))"

section \<open>The own account\<close>

definition me_get :: "request \<Rightarrow> world \<Rightarrow> response result" where
  "me_get rq w = bind_result (is_authenticated rq) (\<lambda>u. Ok (Response 200 (user_json w u)))"

text \<open>\<open>put\<close> and \<open>patch\<close>: the fields given are written.\<close>

definition me_update ::
  "env \<Rightarrow> request \<Rightarrow> string option \<Rightarrow> string option \<Rightarrow> nat option \<Rightarrow> world \<Rightarrow> response result \<times> world" where
  "me_update e rq first_name last_name timeout w =
     (case is_authenticated rq of
        Inl x \<Rightarrow> (Raise x, w)
      | Inr u \<Rightarrow>
          (let put = (\<lambda>r. r\<lparr>usr_first_name := (case first_name of Some s \<Rightarrow> s | None \<Rightarrow> usr_first_name u),
                           usr_last_name := (case last_name of Some s \<Rightarrow> s | None \<Rightarrow> usr_last_name u),
                           usr_session_timeout_minutes :=
                             (case timeout of Some n \<Rightarrow> n | None \<Rightarrow> usr_session_timeout_minutes u),
                           usr_updated_at := e_now e\<rparr>);
               w1 = save_user put (usr_id u) w
           in (Ok (Response 200 (user_json w1 (put u))), w1)))"

text \<open>\<open>sorted(perms)\<close> of a finite set, as a response lists it.\<close>

definition me_permissions :: "request \<Rightarrow> world \<Rightarrow> string set result" where
  "me_permissions rq w =
     bind_result (is_authenticated rq) (\<lambda>_.
       Ok (case req_project rq of None \<Rightarrow> {} | Some p \<Rightarrow> get_request_permissions w rq (Some p)))"

text \<open>GDPR erasure; \<open>uuid_hex8\<close> is \<open>user.id.hex[:8]\<close>.\<close>

definition erased_user :: "env \<Rightarrow> string \<Rightarrow> user \<Rightarrow> user" where
  "erased_user e uuid_hex8 r =
     r\<lparr>usr_first_name := ''Deleted'', usr_last_name := ''User'',
       usr_email := ''erased_'' @ uuid_hex8 @ ''@deleted.invalid'',
       usr_username := ''erased_'' @ uuid_hex8,
       usr_is_active := False, usr_is_erased := True, usr_erased_at := Some (e_now e),
       usr_mfa_secret := [], usr_mfa_enabled := False, usr_password := None\<rparr>"

definition erase_my_account ::
  "env \<Rightarrow> (uuid \<Rightarrow> string) \<Rightarrow> request \<Rightarrow> string \<Rightarrow> world \<Rightarrow> response result \<times> world" where
  "erase_my_account e hex8 rq password w =
     (case is_authenticated rq of
        Inl x \<Rightarrow> (Raise x, w)
      | Inr u \<Rightarrow>
          (if \<not> check_password e u password then (Ok (detail_response 400 ''Password is incorrect.''), w)
           else (Ok (Response 204 JNull), save_user (erased_user e (hex8 (usr_id u))) (usr_id u) w)))"

section \<open>Invitations\<close>

text \<open>
  \<open>has_usable_password\<close>: only the hash \<open>set_unusable_password\<close> leaves is unusable; the empty
  text a user row is created with counts as usable.
\<close>

definition has_usable_password :: "user \<Rightarrow> bool" where
  "has_usable_password u \<longleftrightarrow> usr_password u \<noteq> None"

definition save_membership :: "env \<Rightarrow> (user_membership \<Rightarrow> user_membership) \<Rightarrow> user_membership \<Rightarrow> world \<Rightarrow> world" where
  "save_membership e put m w =
     on_membership_save e m False
       (w\<lparr>w_user_memberships := update_where (\<lambda>r. um_id r = um_id m) (\<lambda>r. put r\<lparr>um_updated_at := e_now e\<rparr>)
            (w_user_memberships w)\<rparr>)"

definition accept_invite ::
  "env \<Rightarrow> string \<Rightarrow> string \<Rightarrow> string \<Rightarrow> world \<Rightarrow> response result \<times> world" where
  "accept_invite e token email password w =
     (case validate_acceptance e email password of
        Inl x \<Rightarrow> (Raise x, w)
      | Inr email1 \<Rightarrow>
           (case find_email w email1 of
              None \<Rightarrow> (Ok (detail_response 400 ''Invalid invitation token or email.''), w)
            | Some u \<Rightarrow>
                (case find (\<lambda>m. um_user m = usr_id u \<and> um_invitation_token m = token \<and> um_accepted_at m = None)
                        (w_user_memberships w) of
                   None \<Rightarrow> (Ok (detail_response 400 ''Invalid or already-accepted invitation token.''), w)
                 | Some m \<Rightarrow>
                     (if \<not> has_usable_password u \<and> password = []
                      then (Ok (detail_response 400
                              ''Please provide a password to complete your registration.''), w)
                      else
                        (let put_user = (\<lambda>r. r\<lparr>usr_password := Some (e_make_password e password),
                                                usr_is_active := True, usr_is_email_verified := True\<rparr>);
                             (u1, w1) = (if \<not> has_usable_password u
                                         then (put_user u, save_user put_user (usr_id u) w) else (u, w));
                             put = (\<lambda>r. r\<lparr>um_accepted_at := Some (e_now e), um_invitation_token := []\<rparr>);
                             w2 = save_membership e put (put m) w1
                         in (Ok (Response 200 (JObj
                               ([(''detail'', JStr ''Invitation accepted.''), (''user'', user_json w2 u1),
                                 (''tenant'', (case tenant_of w2 (um_tenant m) of
                                    None \<Rightarrow> JNull
                                  | Some t \<Rightarrow> JObj [(''id'', JUuid (tn_id t)), (''name'', JStr (tn_name t)),
                                                   (''slug'', JStr (tn_slug t))]))] @ issue_tokens e u1))), w2))))))"

definition user_permission_map :: "(string \<times> string) list" where
  "user_permission_map =
     [(''list'', ''user:read''), (''retrieve'', ''user:read''), (''invite'', ''user:invite''),
      (''deactivate'', ''user:deactivate'')]"

text \<open>Users that share a tenant with the caller.\<close>

definition user_queryset :: "world \<Rightarrow> user \<Rightarrow> user list" where
  "user_queryset w u =
     (if usr_is_superuser u then w_users w
      else (let tenants = map um_tenant (filter (\<lambda>m. um_user m = usr_id u \<and> um_accepted_at m \<noteq> None)
                            (w_user_memberships w))
            in filter (\<lambda>r. exists_row (\<lambda>m. um_user m = usr_id r \<and> um_tenant m \<in> set tenants \<and> um_accepted_at m \<noteq> None)
                             (w_user_memberships w)) (w_users w)))"

definition get_full_name :: "user \<Rightarrow> string" where
  "get_full_name u = strip (usr_first_name u @ '' '' @ usr_last_name u)"

definition membership_json :: "world \<Rightarrow> user_membership \<Rightarrow> json" where
  "membership_json w m =
     JObj [(''id'', JUuid (um_id m)),
           (''user'', (case user_of w (um_user m) of Some u \<Rightarrow> user_json w u | None \<Rightarrow> JNull)),
           (''is_owner'', JBool (um_is_owner m)), (''invited_at'', JTime (um_invited_at m)),
           (''accepted_at'', json_opt_time (um_accepted_at m)),
           (''is_accepted'', JBool (membership_is_accepted m)), (''created_at'', JTime (um_created_at m))]"

definition invite ::
  "env \<Rightarrow> request \<Rightarrow> string \<Rightarrow> string \<Rightarrow> string \<Rightarrow> world \<Rightarrow> response result \<times> world" where
  "invite e rq email0 first_name last_name w =
     (case require_permission w user_permission_map ''invite'' rq None of
        Inl x \<Rightarrow> (Raise x, w)
      | Inr me \<Rightarrow>
          (case find (\<lambda>m. um_user m = usr_id me \<and> um_accepted_at m \<noteq> None) (w_user_memberships w) of
             None \<Rightarrow> (Ok (detail_response 403 ''No active tenant membership.''), w)
           | Some mine \<Rightarrow>
               (let email = lower email0
                in if find_email w email = None \<and> exists_row (\<lambda>r. usr_username r = email) (w_users w)
                   then (Raise (IntegrityError ''username''), w) else
                (let (u, w1) = (case find_email w email of
                                 Some u \<Rightarrow> (u, w)
                               | None \<Rightarrow>
                                   (let u = new_user e (w_next w) email (Some []) first_name last_name True False
                                    in (u, w\<lparr>w_users := w_users w @ [u], w_next := Suc (w_next w)\<rparr>)))
                in if exists_row (\<lambda>m. um_user m = usr_id u \<and> um_tenant m = um_tenant mine) (w_user_memberships w1)
                   then (Ok (detail_response 409 ''User already has a membership in this tenant.''), w1)
                   else
                     (let inv = new_membership e (w_next w1) (usr_id u) (um_tenant mine) False (Some (usr_id me))
                                  (e_token e (w_next w1)) None;
                          w2 = add_membership e inv w1;
                          inviter = (if get_full_name me \<noteq> [] then get_full_name me else usr_email me);
                          tenant_name = (case tenant_of w2 (um_tenant mine) of Some t \<Rightarrow> tn_name t | None \<Rightarrow> [])
                      in (case send_invitation e email tenant_name inviter (um_invitation_token inv) 7 w2 of
                            (Inl _, w3) \<Rightarrow>
                              (Ok (Response 201 (JObj
                                 [(''detail'', JStr ''Invitation created but email could not be sent. Check SMTP settings.''),
                                  (''membership'', membership_json w3 inv)])), w3)
                          | (Inr _, w3) \<Rightarrow> (Ok (Response 201 (membership_json w3 inv)), w3)))))))"

definition deactivate :: "env \<Rightarrow> request \<Rightarrow> uuid \<Rightarrow> world \<Rightarrow> response result \<times> world" where
  "deactivate e rq pk w =
     (case require_permission w user_permission_map ''deactivate'' rq None of
        Inl x \<Rightarrow> (Raise x, w)
      | Inr me \<Rightarrow>
          (case get_object w user_permission_map ''deactivate'' rq usr_id (user_queryset w me) pk of
             Inl x \<Rightarrow> (Raise x, w)
           | Inr u \<Rightarrow>
               (if usr_id u = usr_id me then (Ok (detail_response 400 ''Cannot deactivate yourself.''), w)
                else (Ok (Response 204 JNull),
                      save_user (\<lambda>r. r\<lparr>usr_is_active := False\<rparr>) (usr_id u) w))))"

end
