(* ===== verification/MonitorViews.thy ===== *)
theory MonitorViews
  imports MonitorRunner ViewBase AccountsViews
begin

text \<open>
  \<open>apps/monitoring/views.py\<close> and \<open>serializers.py\<close>: monitors with their filters, pause and resume,
  logs, uptime and timeline, bulk creation; groups; probes and their health. An integer of the query
  string is its text, a date the value Django's \<open>parse_datetime\<close> (a parameter) gives it.
\<close>

section \<open>Monitors\<close>

definition monitor_permission_map :: "(string \<times> string) list" where
  "monitor_permission_map =
     [(''list'', ''monitor:read''), (''retrieve'', ''monitor:read''), (''create'', ''monitor:create''),
      (''update'', ''monitor:update''), (''partial_update'', ''monitor:update''),
      (''destroy'', ''monitor:delete''), (''pause'', ''monitor:pause''), (''resume'', ''monitor:pause''),
      (''logs'', ''monitor:read''), (''uptime'', ''monitor:read''), (''status_timeline'', ''monitor:read''),
      (''bulk'', ''monitor:create'')]"

text \<open>The query parameters of the list; an absent one is empty.\<close>

record monitor_filter =
  mf_type :: string
  mf_status :: string
  mf_paused :: string
  mf_search :: string
  mf_team_id :: "uuid option"

definition no_filter :: monitor_filter where
  "no_filter = \<lparr>mf_type = [], mf_status = [], mf_paused = [], mf_search = [], mf_team_id = None\<rparr>"

definition icontains :: "string \<Rightarrow> string \<Rightarrow> bool" where
  "icontains s sub = str_contains (lower sub) (lower s)"

definition monitor_matches :: "monitor_filter \<Rightarrow> monitor \<Rightarrow> bool" where
  "monitor_matches f m \<longleftrightarrow>
     (mf_type f = [] \<or> monitor_type_value (mo_type m) = mf_type f) \<and>
     (mf_status f = [] \<or> monitor_status_value (mo_status m) = mf_status f) \<and>
     (mf_paused f = [] \<or> mo_is_paused m = (lower (mf_paused f) = ''true'')) \<and>
     (mf_search f = [] \<or> icontains (mo_name m) (mf_search f) \<or> icontains (mo_url m) (mf_search f))"

definition monitor_queryset :: "world \<Rightarrow> request \<Rightarrow> monitor_filter \<Rightarrow> monitor list" where
  "monitor_queryset w rq f =
     (case req_project rq of
        None \<Rightarrow> []
      | Some p \<Rightarrow>
          order_by mo_name (scope_queryset_by_team w mo_team
            (filter (\<lambda>m. mo_project m = pj_id p \<and> monitor_matches f m) (w_monitors w)) rq (mf_team_id f)))"

definition monitor_get :: "world \<Rightarrow> request \<Rightarrow> string \<Rightarrow> monitor_filter \<Rightarrow> uuid \<Rightarrow> monitor result" where
  "monitor_get w rq action f pk =
     bind_result (require_permission w monitor_permission_map action rq None) (\<lambda>_.
       get_object w monitor_permission_map action rq mo_id (monitor_queryset w rq f) pk)"

definition monitor_list :: "world \<Rightarrow> request \<Rightarrow> monitor_filter \<Rightarrow> json result" where
  "monitor_list w rq f =
     bind_result (require_permission w monitor_permission_map ''list'' rq None) (\<lambda>_.
       Ok (JList (map (monitor_json w) (monitor_queryset w rq f))))"

text \<open>
  A payload whose fields have their types already. \<open>mn_team_null\<close> is an explicit \<open>team_id: null\<close>.
\<close>

record monitor_input =
  mn_name :: string
  mn_type :: monitor_type
  mn_url :: string
  mn_method :: string
  mn_interval_seconds :: nat
  mn_timeout_seconds :: nat
  mn_retries :: nat
  mn_probe_locations :: "string list"
  mn_criteria :: json
  mn_steps :: "json list"
  mn_headers :: "(string \<times> json) list"
  mn_body :: string
  mn_alert_on_failure :: bool
  mn_is_paused :: bool
  mn_tags :: "string list"
  mn_team :: "uuid option"
  mn_team_null :: bool

definition allowed_methods :: "string list" where
  "allowed_methods = [''GET'', ''POST'', ''PUT'', ''PATCH'', ''DELETE'', ''HEAD'', ''OPTIONS'']"

definition team_in_project :: "world \<Rightarrow> request \<Rightarrow> uuid option \<Rightarrow> bool" where
  "team_in_project w rq team =
     (case team of
        None \<Rightarrow> True
      | Some t \<Rightarrow>
          (case team_of w t of
             None \<Rightarrow> False
           | Some x \<Rightarrow> (case req_project rq of Some p \<Rightarrow> tm_project x = pj_id p | None \<Rightarrow> True)))"

text \<open>\<open>MonitorSerializer\<close>: the fields' validators, then \<open>validate\<close>; the method comes back in capitals.\<close>

definition validate_method :: "string \<Rightarrow> string result" where
  "validate_method meth =
     (if upper meth \<notin> set allowed_methods
      then ValidationError (''Invalid HTTP method '' @ [CHR 0x27] @ meth @ [CHR 0x27] @ ''.'')
      else Ok (upper meth))"

definition validate_target :: "monitor_type \<Rightarrow> string \<Rightarrow> json list \<Rightarrow> unit result" where
  "validate_target mtype url steps =
     (if mtype \<in> {TyApi, TyWebsite} \<and> url = []
      then ValidationError ''URL is required for api/website monitor types.''
      else if mtype = TyTcp \<and> url = []
      then ValidationError ''TCP target (host:port) is required for tcp monitor type.''
      else if mtype = TyUdp \<and> url = []
      then ValidationError ''UDP target (host:port) is required for udp monitor type.''
      else if mtype = TyDns \<and> url = []
      then ValidationError ''Hostname is required for dns monitor type.''
      else if mtype = TySsl \<and> url = []
      then ValidationError ''Hostname or https URL is required for ssl monitor type.''
      else if mtype = TyPing \<and> url = []
      then ValidationError ''Hostname is required for ping monitor type.''
      else if mtype \<in> {TyMultiStepApi, TyJourney} \<and> steps = []
      then ValidationError ''At least one step is required for this monitor type.''
      else Ok ())"

definition validate_monitor :: "world \<Rightarrow> request \<Rightarrow> monitor_input \<Rightarrow> monitor_input result" where
  "validate_monitor w rq inp =
     bind_result (validate_method (mn_method inp)) (\<lambda>meth.
       if \<not> team_in_project w rq (mn_team inp) then ValidationError ''team_id''
       else bind_result (validate_target (mn_type inp) (mn_url inp) (mn_steps inp)) (\<lambda>_.
              Ok (inp\<lparr>mn_method := meth\<rparr>)))"

definition new_monitor :: "env \<Rightarrow> project \<Rightarrow> uuid option \<Rightarrow> monitor_input \<Rightarrow> uuid \<Rightarrow> monitor" where
  "new_monitor e p team inp pk =
     \<lparr>mo_id = pk, mo_tenant = pj_tenant p, mo_project = pj_id p, mo_team = team, mo_name = mn_name inp,
      mo_type = mn_type inp, mo_url = mn_url inp, mo_method = mn_method inp,
      mo_interval_seconds = mn_interval_seconds inp, mo_timeout_seconds = mn_timeout_seconds inp,
      mo_retries = mn_retries inp, mo_probe_locations = mn_probe_locations inp,
      mo_criteria = mn_criteria inp, mo_steps = mn_steps inp, mo_headers = mn_headers inp,
      mo_body = mn_body inp, mo_alert_on_failure = mn_alert_on_failure inp,
      mo_is_paused = mn_is_paused inp, mo_status = Operational, mo_tags = mn_tags inp,
      mo_current_incident = None, mo_last_check_at = None, mo_next_check_at = Some (e_now e),
      mo_created_at = e_now e, mo_updated_at = e_now e\<rparr>"

text \<open>\<open>Monitor.objects.create\<close>, with its \<open>post_save\<close> signal.\<close>

definition insert_monitor :: "env \<Rightarrow> project \<Rightarrow> uuid option \<Rightarrow> monitor_input \<Rightarrow> world \<Rightarrow> monitor \<times> world" where
  "insert_monitor e p team inp w =
     (let m = new_monitor e p team inp (w_next w)
      in (m, on_monitor_save e m True (w\<lparr>w_monitors := w_monitors w @ [m], w_next := Suc (w_next w)\<rparr>)))"

definition monitor_create ::
  "env \<Rightarrow> request \<Rightarrow> monitor_input \<Rightarrow> world \<Rightarrow> monitor result \<times> world" where
  "monitor_create e rq inp w =
     (case bind_result (require_permission w monitor_permission_map ''create'' rq None) (\<lambda>u.
             bind_result (validate_monitor w rq inp) (\<lambda>v.
               case req_project rq of
                 None \<Rightarrow> Raise (TypeError ''no attribute tenant'')
               | Some p \<Rightarrow>
                   bind_result (resolve_team_for_create w rq u (mn_team v) None (mn_team_null v))
                     (\<lambda>team. Ok (p, team, v)))) of
        Inl x \<Rightarrow> (Raise x, w)
      | Inr (p, team, v) \<Rightarrow> (case insert_monitor e p team v w of (m, w1) \<Rightarrow> (Ok m, w1)))"

text \<open>\<open>monitor.save()\<close>: the row, then the signal.\<close>

definition save_monitor :: "env \<Rightarrow> monitor \<Rightarrow> world \<Rightarrow> world" where
  "save_monitor e m w = on_monitor_save e m False (update_monitor (mo_id m) (\<lambda>_. m) w)"

definition put_monitor_input :: "env \<Rightarrow> monitor_input \<Rightarrow> monitor \<Rightarrow> monitor" where
  "put_monitor_input e v m =
     m\<lparr>mo_name := mn_name v, mo_type := mn_type v, mo_url := mn_url v, mo_method := mn_method v,
       mo_interval_seconds := mn_interval_seconds v, mo_timeout_seconds := mn_timeout_seconds v,
       mo_retries := mn_retries v, mo_probe_locations := mn_probe_locations v,
       mo_criteria := mn_criteria v, mo_steps := mn_steps v, mo_headers := mn_headers v,
       mo_body := mn_body v, mo_alert_on_failure := mn_alert_on_failure v,
       mo_is_paused := mn_is_paused v, mo_tags := mn_tags v,
       mo_team := (if mn_team v \<noteq> None \<or> mn_team_null v then mn_team v else mo_team m),
       mo_updated_at := e_now e\<rparr>"

definition monitor_update ::
  "env \<Rightarrow> request \<Rightarrow> uuid \<Rightarrow> monitor_input \<Rightarrow> world \<Rightarrow> monitor result \<times> world" where
  "monitor_update e rq pk inp w =
     (case bind_result (monitor_get w rq ''update'' no_filter pk) (\<lambda>m.
             bind_result (validate_monitor w rq inp) (\<lambda>v. Ok (m, v))) of
        Inl x \<Rightarrow> (Raise x, w)
      | Inr (m, v) \<Rightarrow> (let m1 = put_monitor_input e v m in (Ok m1, save_monitor e m1 w)))"

text \<open>
  What refers to the monitor: its checks and the resources of status pages go, incidents keep no
  monitor, groups and maintenance windows lose it from their lists.
\<close>

definition delete_monitor :: "env \<Rightarrow> monitor \<Rightarrow> world \<Rightarrow> world" where
  "delete_monitor e m w =
     (let i = mo_id m
      in on_monitor_delete e m
        (w\<lparr>w_monitors := delete_where (\<lambda>r. mo_id r = i) (w_monitors w),
           w_checks := delete_where (\<lambda>c. ck_monitor c = i) (w_checks w),
           w_page_resources := delete_where (\<lambda>r. sr_monitor r = Some i) (w_page_resources w),
           w_incidents := update_where (\<lambda>x. ic_monitor x = Some i) (\<lambda>x. x\<lparr>ic_monitor := None\<rparr>) (w_incidents w),
           w_monitor_groups := map (\<lambda>g. g\<lparr>mg_monitors := filter (\<lambda>k. k \<noteq> i) (mg_monitors g)\<rparr>) (w_monitor_groups w),
           w_maintenances := map (\<lambda>s. s\<lparr>sm_monitors := filter (\<lambda>k. k \<noteq> i) (sm_monitors s)\<rparr>) (w_maintenances w)\<rparr>))"

definition monitor_destroy :: "env \<Rightarrow> request \<Rightarrow> uuid \<Rightarrow> world \<Rightarrow> response result \<times> world" where
  "monitor_destroy e rq pk w =
     (case monitor_get w rq ''destroy'' no_filter pk of
        Inl x \<Rightarrow> (Raise x, w)
      | Inr m \<Rightarrow> (Ok (Response 204 JNull), delete_monitor e m w))"

text \<open>\<open>updated_at\<close> is not among the \<open>update_fields\<close>.\<close>

definition monitor_pause :: "env \<Rightarrow> request \<Rightarrow> uuid \<Rightarrow> world \<Rightarrow> response result \<times> world" where
  "monitor_pause e rq pk w =
     (case monitor_get w rq ''pause'' no_filter pk of
        Inl x \<Rightarrow> (Raise x, w)
      | Inr m \<Rightarrow>
          (if mo_is_paused m then (Ok (detail_response 200 ''Monitor is already paused.''), w)
           else
             (let m1 = m\<lparr>mo_is_paused := True\<rparr>;
                  w1 = save_monitor e m1 w
              in (Ok (Response 200 (monitor_json w1 m1)), w1))))"

definition monitor_resume :: "env \<Rightarrow> request \<Rightarrow> uuid \<Rightarrow> world \<Rightarrow> response result \<times> world" where
  "monitor_resume e rq pk w =
     (case monitor_get w rq ''resume'' no_filter pk of
        Inl x \<Rightarrow> (Raise x, w)
      | Inr m \<Rightarrow>
          (if \<not> mo_is_paused m then (Ok (detail_response 200 ''Monitor is not paused.''), w)
           else
             (let m1 = m\<lparr>mo_is_paused := False, mo_next_check_at := Some (e_now e)\<rparr>;
                  w1 = save_monitor e m1 w
              in (Ok (Response 200 (monitor_json w1 m1)), w1))))"

fun check_status_value :: "check_status \<Rightarrow> string" where
  "check_status_value Success = ''success''"
| "check_status_value Failure = ''failure''"
| "check_status_value Timeout = ''timeout''"
| "check_status_value CheckError = ''error''"

definition check_json :: "monitor_check \<Rightarrow> json" where
  "check_json c = JObj
     [(''id'', JUuid (ck_id c)), (''monitor'', JUuid (ck_monitor c)), (''probe'', json_opt_uuid (ck_probe c)),
      (''checked_at'', JTime (ck_checked_at c)), (''status'', JStr (check_status_value (ck_status c))),
      (''response_status_code'', json_opt_int (ck_response_status_code c)),
      (''response_time_ms'', json_opt_int (ck_response_time_ms c)),
      (''error_message'', JStr (ck_error_message c)),
      (''triggered_incident'', json_opt_uuid (ck_triggered_incident c))]"

text \<open>A slice \<open>qs[:n]\<close>; Django refuses a negative bound.\<close>

definition slice_to :: "int \<Rightarrow> 'a list \<Rightarrow> 'a list result" where
  "slice_to n xs =
     (if n < 0 then Raise (ValueError ''Negative indexing is not supported.'') else Ok (take (nat n) xs))"

definition int_param :: "string option \<Rightarrow> int \<Rightarrow> int result" where
  "int_param v dflt = (case v of None \<Rightarrow> Ok dflt | Some s \<Rightarrow> int_of_string s)"

definition monitor_logs :: "world \<Rightarrow> request \<Rightarrow> uuid \<Rightarrow> string option \<Rightarrow> response result" where
  "monitor_logs w rq pk limit =
     bind_result (monitor_get w rq ''logs'' no_filter pk) (\<lambda>m.
     bind_result (int_param limit 100) (\<lambda>n.
     bind_result (slice_to (min n 500)
       (order_by_desc ck_checked_at (filter (\<lambda>c. ck_monitor c = mo_id m) (w_checks w)))) (\<lambda>checks.
       Ok (Response 200 (JList (map check_json checks))))))"

text \<open>
  \<open>_parse_range\<close>. \<open>parse\<close> gives \<open>None\<close> for what it cannot read. \<open>timedelta(days=...)\<close> overflows
  below -999999999 only, which is left out.
\<close>

definition parse_range ::
  "env \<Rightarrow> (string \<Rightarrow> datetime option) \<Rightarrow> string option \<Rightarrow> string option \<Rightarrow> string option \<Rightarrow>
     (datetime \<times> datetime) result" where
  "parse_range e parse raw_from raw_to day_count =
     (let since = (case raw_from of Some s \<Rightarrow> (if s = [] then None else parse s) | None \<Rightarrow> None);
          until = (case raw_to of Some s \<Rightarrow> (if s = [] then None else parse s) | None \<Rightarrow> None)
      in bind_result
           (case since of
              Some t \<Rightarrow> Ok t
            | None \<Rightarrow> bind_result (int_param day_count 30) (\<lambda>d. Ok (e_now e - days (min d 90))))
           (\<lambda>s. Ok (s, case until of Some t \<Rightarrow> t | None \<Rightarrow> e_now e)))"

text \<open>JSON has no fractions here: the percentage is in ten-thousandths.\<close>

definition uptime_json :: "uptime \<Rightarrow> json" where
  "uptime_json u = JObj
     [(''uptime_percent'', JInt (up_percent_e4 u)), (''total_checks'', JInt (int (up_total_checks u))),
      (''failed_checks'', JInt (int (up_failed_checks u))),
      (''successful_checks'', JInt (int (up_successful_checks u))),
      (''period'', JObj [(''from'', JTime (up_from u)), (''to'', JTime (up_to u))])]"

definition monitor_uptime ::
  "env \<Rightarrow> (string \<Rightarrow> datetime option) \<Rightarrow> world \<Rightarrow> request \<Rightarrow> uuid \<Rightarrow> string option \<Rightarrow> string option \<Rightarrow>
     string option \<Rightarrow> response result" where
  "monitor_uptime e parse w rq pk raw_from raw_to day_count =
     bind_result (monitor_get w rq ''uptime'' no_filter pk) (\<lambda>m.
     bind_result (parse_range e parse raw_from raw_to day_count) (\<lambda>(since, until).
       case compute_uptime e m (Some since) (Some until) w of
         None \<Rightarrow> Ok (detail_response 200 ''No check data available for this period.'')
       | Some u \<Rightarrow> Ok (Response 200 (uptime_json u))))"

fun bucket_status_value :: "bucket_status \<Rightarrow> string" where
  "bucket_status_value BucketUnknown = ''unknown''"
| "bucket_status_value (BucketIs s) = monitor_status_value s"

definition interval_json :: "interval \<Rightarrow> json" where
  "interval_json i = JObj
     [(''start'', JTime (iv_start i)), (''end'', JTime (iv_end i)),
      (''status'', JStr (bucket_status_value (iv_status i))),
      (''checks_count'', JInt (int (iv_checks_count i))), (''failed_count'', JInt (int (iv_failed_count i)))]"

definition monitor_timeline ::
  "env \<Rightarrow> (string \<Rightarrow> datetime option) \<Rightarrow> world \<Rightarrow> request \<Rightarrow> uuid \<Rightarrow> string option \<Rightarrow> string option \<Rightarrow>
     string option \<Rightarrow> response result" where
  "monitor_timeline e parse w rq pk raw_from raw_to day_count =
     bind_result (monitor_get w rq ''status_timeline'' no_filter pk) (\<lambda>m.
     bind_result (parse_range e parse raw_from raw_to day_count) (\<lambda>(since, until).
       Ok (Response 200 (JObj
         [(''timeline'', JList (map interval_json (build_status_timeline e m (Some since) (Some until) w))),
          (''monitor_id'', JUuid (mo_id m))]))))"

section \<open>Bulk creation\<close>

fun validate_all :: "('a \<Rightarrow> 'b result) \<Rightarrow> 'a list \<Rightarrow> 'b list result" where
  "validate_all f [] = Ok []"
| "validate_all f (x # xs) = bind_result (f x) (\<lambda>y. bind_result (validate_all f xs) (\<lambda>ys. Ok (y # ys)))"

text \<open>The serializer checks every element before the bounds of the list.\<close>

definition validate_bulk :: "world \<Rightarrow> request \<Rightarrow> monitor_input list \<Rightarrow> monitor_input list result" where
  "validate_bulk w rq inps =
     bind_result (validate_all (validate_monitor w rq) inps) (\<lambda>vs.
       if vs = [] then ValidationError ''At least one monitor is required.''
       else if 50 < length vs then ValidationError ''Maximum 50 monitors per bulk request.''
       else Ok vs)"

text \<open>One monitor after the other; an exception leaves the ones already created. \<open>team_id: null\<close> is not passed on.\<close>

fun create_each ::
  "env \<Rightarrow> request \<Rightarrow> user \<Rightarrow> project \<Rightarrow> monitor_input list \<Rightarrow> world \<Rightarrow> monitor list result \<times> world" where
  "create_each e rq u p [] w = (Ok [], w)"
| "create_each e rq u p (v # vs) w =
     (case resolve_team_for_create w rq u (mn_team v) None False of
        Inl x \<Rightarrow> (Raise x, w)
      | Inr team \<Rightarrow>
          (case insert_monitor e p team v w of
             (m, w1) \<Rightarrow>
               (case create_each e rq u p vs w1 of
                  (Inl x, w2) \<Rightarrow> (Raise x, w2)
                | (Inr ms, w2) \<Rightarrow> (Ok (m # ms), w2))))"

definition monitor_bulk ::
  "env \<Rightarrow> request \<Rightarrow> monitor_input list \<Rightarrow> world \<Rightarrow> monitor list result \<times> world" where
  "monitor_bulk e rq inps w =
     (case bind_result (require_permission w monitor_permission_map ''bulk'' rq None) (\<lambda>u.
             bind_result (validate_bulk w rq inps) (\<lambda>vs.
               case req_project rq of
                 None \<Rightarrow> Raise (TypeError ''no attribute tenant'')
               | Some p \<Rightarrow> Ok (u, vs, p))) of
        Inl x \<Rightarrow> (Raise x, w)
      | Inr (u, vs, p) \<Rightarrow> create_each e rq u p vs w)"

section \<open>Groups and probes\<close>

definition group_permission_map :: "(string \<times> string) list" where
  "group_permission_map =
     [(''list'', ''monitor_group:read''), (''retrieve'', ''monitor_group:read''),
      (''create'', ''monitor_group:create''), (''update'', ''monitor_group:update''),
      (''partial_update'', ''monitor_group:update''), (''destroy'', ''monitor_group:delete'')]"

definition group_queryset :: "world \<Rightarrow> request \<Rightarrow> uuid option \<Rightarrow> monitor_group list" where
  "group_queryset w rq team_id =
     (case req_project rq of
        None \<Rightarrow> []
      | Some p \<Rightarrow>
          scope_queryset_by_team w mg_team
            (filter (\<lambda>g. mg_project g = pj_id p) (w_monitor_groups w)) rq team_id)"

definition group_get :: "world \<Rightarrow> request \<Rightarrow> string \<Rightarrow> uuid \<Rightarrow> monitor_group result" where
  "group_get w rq action pk =
     bind_result (require_permission w group_permission_map action rq None) (\<lambda>_.
       get_object w group_permission_map action rq mg_id (group_queryset w rq None) pk)"

text \<open>The monitors may be any monitors of the server.\<close>

definition group_create ::
  "env \<Rightarrow> request \<Rightarrow> string \<Rightarrow> string \<Rightarrow> uuid list \<Rightarrow> uuid option \<Rightarrow> bool \<Rightarrow> world \<Rightarrow>
     monitor_group result \<times> world" where
  "group_create e rq name description monitors team team_null w =
     (case bind_result (require_permission w group_permission_map ''create'' rq None) (\<lambda>u.
             if \<not> list_all (\<lambda>i. monitor_of w i \<noteq> None) monitors then ValidationError ''monitors''
             else if \<not> team_in_project w rq team then ValidationError ''team_id''
             else case req_project rq of
                    None \<Rightarrow> Raise (TypeError ''no attribute tenant'')
                  | Some p \<Rightarrow> bind_result (resolve_team_for_create w rq u team None team_null) (\<lambda>t. Ok (p, t))) of
        Inl x \<Rightarrow> (Raise x, w)
      | Inr (p, t) \<Rightarrow>
          (let g = \<lparr>mg_id = w_next w, mg_tenant = pj_tenant p, mg_project = pj_id p, mg_team = t,
                    mg_name = name, mg_description = description, mg_monitors = monitors,
                    mg_created_at = e_now e, mg_updated_at = e_now e\<rparr>
           in (Ok g, w\<lparr>w_monitor_groups := w_monitor_groups w @ [g], w_next := Suc (w_next w)\<rparr>)))"

definition group_destroy :: "request \<Rightarrow> uuid \<Rightarrow> world \<Rightarrow> response result \<times> world" where
  "group_destroy rq pk w =
     (case group_get w rq ''destroy'' pk of
        Inl x \<Rightarrow> (Raise x, w)
      | Inr g \<Rightarrow>
          (Ok (Response 204 JNull),
           w\<lparr>w_monitor_groups := delete_where (\<lambda>r. mg_id r = mg_id g) (w_monitor_groups w),
             w_page_resources := delete_where (\<lambda>r. sr_monitor_group r = Some (mg_id g)) (w_page_resources w)\<rparr>))"

definition probe_permission_map :: "(string \<times> string) list" where
  "probe_permission_map =
     [(''list'', ''probe:read''), (''retrieve'', ''probe:read''), (''health'', ''probe:read'')]"

definition probe_queryset :: "world \<Rightarrow> request \<Rightarrow> probe list" where
  "probe_queryset w rq =
     (case req_project rq of
        None \<Rightarrow> []
      | Some p \<Rightarrow> order_by pb_location (filter (\<lambda>b. pb_project b = pj_id p \<and> pb_is_active b) (w_probes w)))"

definition probe_is_online :: "env \<Rightarrow> probe \<Rightarrow> bool" where
  "probe_is_online e b = (case pb_last_seen_at b of None \<Rightarrow> False | Some t \<Rightarrow> e_now e - t < minutes 5)"

definition probe_json :: "env \<Rightarrow> probe \<Rightarrow> json" where
  "probe_json e b = JObj
     [(''id'', JUuid (pb_id b)), (''name'', JStr (pb_name b)), (''location'', JStr (pb_location b)),
      (''is_active'', JBool (pb_is_active b)), (''is_online'', JBool (probe_is_online e b)),
      (''last_seen_at'', json_opt_time (pb_last_seen_at b)), (''version'', JStr (pb_version b))]"

text \<open>The rate is in hundredths of a percent, rounded half to even.\<close>

definition probe_health :: "env \<Rightarrow> world \<Rightarrow> request \<Rightarrow> uuid \<Rightarrow> response result" where
  "probe_health e w rq pk =
     bind_result (require_permission w probe_permission_map ''health'' rq None) (\<lambda>_.
     bind_result (get_object w probe_permission_map ''health'' rq pb_id (probe_queryset w rq) pk) (\<lambda>b.
       let last_hour = e_now e - hours 1;
           checks = filter (\<lambda>c. ck_probe c = Some (pb_id b) \<and> last_hour \<le> ck_checked_at c) (w_checks w);
           num = length checks;
           failed = length (filter (\<lambda>c. ck_status c \<noteq> Success) checks)
       in Ok (Response 200 (JObj
            [(''probe'', probe_json e b),
             (''last_hour'', JObj
                [(''total_checks'', JInt (int num)), (''failed_checks'', JInt (int failed)),
                 (''success_rate'',
                    if num = 0 then JNull else JInt (round_half_even (int (num - failed) * 100 * 100) (int num)))])]))))"

end
