(* ===== verification/MonitorViewFacts.thy ===== *)
theory MonitorViewFacts
  imports MonitorViews MonitorFacts MaintenanceFacts
begin

text \<open>
  Monitors from the API to the runner: pause and resume, bulk creation, a monitor without retries,
  and what deleting a monitor does to maintenance windows.
\<close>

section \<open>Pause and resume\<close>

lemma on_monitor_save_frame [simp]:
  "w_monitors (on_monitor_save e m c w) = w_monitors w" "w_maintenances (on_monitor_save e m c w) = w_maintenances w"
  using on_monitor_save_audited [of e m c w] by (auto simp: audited_def)

lemma on_monitor_delete_frame [simp]:
  "w_monitors (on_monitor_delete e m w) = w_monitors w" "w_maintenances (on_monitor_delete e m w) = w_maintenances w"
  using signal_record_audited by (auto simp: on_monitor_delete_def audited_def signal_record_def record_auto_def
      audit_record_def Let_def split: prod.splits)

lemma monitor_get_Ok:
  assumes "monitor_get w rq a f pk = Ok m"
  shows "m \<in> set (w_monitors w)" "mo_id m = pk"
proof -
  have "m \<in> set (monitor_queryset w rq f) \<and> mo_id m = pk"
    using assms by (auto simp: monitor_get_def bind_result_Inr_iff dest!: get_object_Ok)
  then show "m \<in> set (w_monitors w)" "mo_id m = pk"
    by (auto simp: monitor_queryset_def scope_queryset_by_team_def apply_team_scope_def apply_team_param_def
        split: option.splits if_splits)
qed

lemma in_save_monitor:
  "r \<in> set (w_monitors (save_monitor e m w)) \<longleftrightarrow>
     (\<exists>x \<in> set (w_monitors w). r = (if mo_id x = mo_id m then m else x))"
  by (simp add: save_monitor_def update_monitor_def in_update_where_iff)

text \<open>What is due: at most \<open>batch_size\<close> monitors, so a monitor that ought to run does or the batch is full.\<close>

definition ready :: "datetime \<Rightarrow> monitor \<Rightarrow> bool" where
  "ready now m \<longleftrightarrow> \<not> mo_is_paused m \<and> mo_status m \<noteq> Disabled \<and>
     (case mo_next_check_at m of Some t \<Rightarrow> t \<le> now | None \<Rightarrow> True)"

lemma due_or_full:
  assumes "m \<in> set (w_monitors w)" "ready now m"
  shows "m \<in> set (due_monitors now None w) \<or> length (due_monitors now None w) = batch_size"
proof -
  define rs where "rs = order_by mo_name (filter (ready now) (w_monitors w))"
  have due: "due_monitors now None w = take batch_size rs"
    by (simp add: due_monitors_def rs_def ready_def [abs_def])
  have "m \<in> set rs" using assms by (simp add: rs_def)
  then show ?thesis
    by (cases "length rs \<le> batch_size") (simp_all add: due)
qed

lemma paused_not_due:
  assumes "distinct (map mo_id (w_monitors w))" "monitor_pause e rq pk w = (Ok (Response 200 b), w')"
  shows "pk \<notin> mo_id ` set (due_monitors now None w')"
proof
  obtain m where m: "monitor_get w rq ''pause'' no_filter pk = Ok m"
    using assms(2) by (auto simp: monitor_pause_def split: sum.splits)
  note in_w = monitor_get_Ok [OF m]
  assume "pk \<in> mo_id ` set (due_monitors now None w')"
  then obtain r where "r \<in> set (due_monitors now None w')" "mo_id r = pk" by auto
  with due_monitors_due(1,2) have r: "r \<in> set (w_monitors w')" "\<not> mo_is_paused r" "mo_id r = pk" by auto
  show False
  proof (cases "mo_is_paused m")
    case True
    with assms(2) m have "w' = w" by (auto simp: monitor_pause_def)
    with r in_w assms(1) have "r = m" by (auto simp: distinct_map inj_on_def)
    with True r(2) show False by simp
  next
    case False
    with assms(2) m have "w' = save_monitor e (m\<lparr>mo_is_paused := True\<rparr>) w" by (auto simp: monitor_pause_def Let_def)
    with r(1) obtain x where "r = (if mo_id x = mo_id m then m\<lparr>mo_is_paused := True\<rparr> else x)"
      by (auto simp: in_save_monitor)
    with r in_w(2) show False by (cases "mo_id x = mo_id m") auto
  qed
qed

lemma resumed_due:
  assumes "distinct (map mo_id (w_monitors w))" "monitor_resume e rq pk w = (Ok (Response 200 b), w')"
    and m: "m \<in> set (w_monitors w)" "mo_id m = pk" "mo_is_paused m" "mo_status m \<noteq> Disabled"
  shows "pk \<in> mo_id ` set (due_monitors (e_now e) None w') \<or>
    length (due_monitors (e_now e) None w') = batch_size"
proof -
  obtain m1 where m1: "monitor_get w rq ''resume'' no_filter pk = Ok m1"
    using assms(2) by (auto simp: monitor_resume_def split: sum.splits)
  have "m1 = m" using monitor_get_Ok [OF m1] m(1,2) assms(1) by (auto simp: distinct_map inj_on_def)
  with assms(2) m1 m(3) have w': "w' = save_monitor e (m\<lparr>mo_is_paused := False, mo_next_check_at := Some (e_now e)\<rparr>) w"
    by (auto simp: monitor_resume_def Let_def)
  let ?r = "m\<lparr>mo_is_paused := False, mo_next_check_at := Some (e_now e)\<rparr>"
  have "?r \<in> set (w_monitors w')" using m(1) by (auto simp: w' in_save_monitor)
  moreover have "ready (e_now e) ?r" using m(4) by (simp add: ready_def)
  ultimately have "?r \<in> set (due_monitors (e_now e) None w') \<or>
      length (due_monitors (e_now e) None w') = batch_size"
    by (rule due_or_full)
  moreover have "mo_id ?r = pk" using m(2) by simp
  ultimately show ?thesis by blast
qed

lemma save_monitor_others:
  "filter (\<lambda>r. mo_id r \<noteq> mo_id m) (w_monitors (save_monitor e m w)) =
     filter (\<lambda>r. mo_id r \<noteq> mo_id m) (w_monitors w)"
proof -
  have "filter (\<lambda>r. mo_id r \<noteq> mo_id m) (update_where (\<lambda>r. mo_id r = mo_id m) (\<lambda>_. m) rs) =
      filter (\<lambda>r. mo_id r \<noteq> mo_id m) rs" for rs
    by (induction rs) auto
  then show ?thesis by (simp add: save_monitor_def)
qed

lemma pause_resume_others:
  assumes "w' = snd (monitor_pause e rq pk w) \<or> w' = snd (monitor_resume e rq pk w)"
  shows "filter (\<lambda>r. mo_id r \<noteq> pk) (w_monitors w') = filter (\<lambda>r. mo_id r \<noteq> pk) (w_monitors w)"
proof -
  have pause: "snd (monitor_pause e rq pk w) = w \<or> (\<exists>m. mo_id m = pk \<and> snd (monitor_pause e rq pk w) = save_monitor e m w)"
  proof (cases "monitor_get w rq ''pause'' no_filter pk")
    case (Inr m)
    with monitor_get_Ok(2) [OF Inr] show ?thesis
      by (auto simp: monitor_pause_def Let_def intro: exI [of _ "m\<lparr>mo_is_paused := True\<rparr>"])
  qed (simp add: monitor_pause_def)
  have resume: "snd (monitor_resume e rq pk w) = w \<or> (\<exists>m. mo_id m = pk \<and> snd (monitor_resume e rq pk w) = save_monitor e m w)"
  proof (cases "monitor_get w rq ''resume'' no_filter pk")
    case (Inr m)
    with monitor_get_Ok(2) [OF Inr] show ?thesis
      by (auto simp: monitor_resume_def Let_def
          intro: exI [of _ "m\<lparr>mo_is_paused := False, mo_next_check_at := Some (e_now e)\<rparr>"])
  qed (simp add: monitor_resume_def)
  from assms pause resume consider "w' = w" | m where "mo_id m = pk" "w' = save_monitor e m w" by blast
  then show ?thesis using save_monitor_others by cases auto
qed

text \<open>
  Pausing takes a monitor out of the runner's hands and resuming puts it back. After a pause that
  is answered with 200 no run of \<open>run_checks\<close>, at any time, picks the monitor. After a resume of
  a paused monitor that is not disabled the next run picks it, unless the batch is full; and of the
  table of monitors both change that row only.
\<close>

theorem pause_and_resume:
  assumes "distinct (map mo_id (w_monitors w))"
  shows "(\<forall>b w' now. monitor_pause e rq pk w = (Ok (Response 200 b), w') \<longrightarrow>
      pk \<notin> mo_id ` set (due_monitors now None w')) \<and>
    (\<forall>b w' m. monitor_resume e rq pk w = (Ok (Response 200 b), w') \<longrightarrow>
       m \<in> set (w_monitors w) \<longrightarrow> mo_id m = pk \<longrightarrow> mo_is_paused m \<longrightarrow> mo_status m \<noteq> Disabled \<longrightarrow>
      pk \<in> mo_id ` set (due_monitors (e_now e) None w') \<or>
      length (due_monitors (e_now e) None w') = batch_size) \<and>
    (\<forall>w'. w' = snd (monitor_pause e rq pk w) \<or> w' = snd (monitor_resume e rq pk w) \<longrightarrow>
      filter (\<lambda>r. mo_id r \<noteq> pk) (w_monitors w') = filter (\<lambda>r. mo_id r \<noteq> pk) (w_monitors w))"
proof (intro conjI allI impI)
  fix b w' now assume "monitor_pause e rq pk w = (Ok (Response 200 b), w')"
  with assms show "pk \<notin> mo_id ` set (due_monitors now None w')" by (rule paused_not_due)
next
  fix b w' m assume "monitor_resume e rq pk w = (Ok (Response 200 b), w')" "m \<in> set (w_monitors w)"
    "mo_id m = pk" "mo_is_paused m" "mo_status m \<noteq> Disabled"
  with assms show "pk \<in> mo_id ` set (due_monitors (e_now e) None w') \<or>
      length (due_monitors (e_now e) None w') = batch_size" by (rule resumed_due)
qed (rule pause_resume_others)

section \<open>Bulk creation\<close>

lemma insert_monitor_rows:
  "insert_monitor e p team v w = (m, w1) \<Longrightarrow>
     w_monitors w1 = w_monitors w @ [m] \<and> mo_name m = mn_name v \<and> mo_project m = pj_id p \<and>
     mo_is_paused m = mn_is_paused v \<and> mo_status m = Operational \<and> mo_next_check_at m = Some (e_now e)"
  by (auto simp: insert_monitor_def Let_def new_monitor_def)

lemma validate_all_map:
  "validate_all f xs = Ok ys \<Longrightarrow> list_all2 (\<lambda>x y. f x = Ok y) xs ys"
  by (induction xs arbitrary: ys) (auto simp: bind_result_Inr_iff)

lemma validate_monitor_name: "validate_monitor w rq inp = Ok v \<Longrightarrow> mn_name v = mn_name inp"
  by (auto simp: validate_monitor_def validate_method_def bind_result_Inr_iff split: if_splits)

text \<open>A monitor as the bulk request asks for it.\<close>

definition fresh_monitor :: "env \<Rightarrow> project \<Rightarrow> string \<Rightarrow> monitor \<Rightarrow> bool" where
  "fresh_monitor e p name m \<longleftrightarrow>
     mo_name m = name \<and> mo_project m = pj_id p \<and> mo_status m = Operational \<and> mo_next_check_at m = Some (e_now e)"

lemma create_each_rows:
  "create_each e rq u p vs w = (r, w') \<Longrightarrow>
     \<exists>ms. w_monitors w' = w_monitors w @ ms \<and>
       (case r of Inr out \<Rightarrow> out = ms \<and> list_all2 (fresh_monitor e p) (map mn_name vs) ms
        | Inl x \<Rightarrow> length ms < length vs \<and> list_all2 (fresh_monitor e p) (take (length ms) (map mn_name vs)) ms)"
proof (induction vs arbitrary: w r)
  case (Cons v vs)
  show ?case
  proof (cases "resolve_team_for_create w rq u (mn_team v) None False")
    case (Inl x)
    with Cons.prems show ?thesis by (auto intro: exI [of _ "[]"])
  next
    case (Inr team)
    obtain m w1 where m: "insert_monitor e p team v w = (m, w1)" by force
    obtain r2 where rest: "create_each e rq u p vs w1 = (r2, w')"
      and r: "r = (case r2 of Inl x \<Rightarrow> Inl x | Inr ms \<Rightarrow> Inr (m # ms))"
      using Cons.prems Inr m by (auto split: prod.splits sum.splits)
    from Cons.IH [OF rest] obtain ms where ms: "w_monitors w' = w_monitors w1 @ ms"
      "case r2 of Inr out \<Rightarrow> out = ms \<and> list_all2 (fresh_monitor e p) (map mn_name vs) ms
        | Inl x \<Rightarrow> length ms < length vs \<and> list_all2 (fresh_monitor e p) (take (length ms) (map mn_name vs)) ms"
      by blast
    have "fresh_monitor e p (mn_name v) m" using insert_monitor_rows [OF m] by (simp add: fresh_monitor_def)
    with ms r insert_monitor_rows [OF m] show ?thesis
      by (intro exI [of _ "m # ms"]) (auto split: sum.splits)
  qed
qed (auto intro: exI [of _ "[]"])

text \<open>
  A bulk request creates its monitors in order, at most fifty, each operational and due at once.
  When it is answered with success there is exactly one new monitor per element. When it fails,
  though, it may leave a proper prefix of them behind: the teams are resolved one by one, and
  nothing rolls back the monitors created before the first refusal.
\<close>

theorem bulk_creates_prefix:
  "case monitor_bulk e rq inps w of (r, w') \<Rightarrow>
     (\<exists>ms. w_monitors w' = w_monitors w @ ms \<and> length ms \<le> 50 \<and>
       (case r of
          Inr out \<Rightarrow> out = ms \<and> inps \<noteq> [] \<and>
            (\<exists>p. req_project rq = Some p \<and> list_all2 (fresh_monitor e p) (map mn_name inps) ms)
        | Inl x \<Rightarrow> ms \<noteq> [] \<longrightarrow> length ms < length inps \<and>
            (\<exists>p. req_project rq = Some p \<and> list_all2 (fresh_monitor e p) (take (length ms) (map mn_name inps)) ms)))"
proof -
  obtain r w' where run: "monitor_bulk e rq inps w = (r, w')" by force
  show ?thesis
  proof (cases "w' = w \<and> (\<exists>x. r = Inl x)")
    case True
    then show ?thesis by (auto simp: run intro!: exI [of _ "[]"])
  next
    case False
    with run obtain u vs p where vs: "validate_bulk w rq inps = Ok vs" "req_project rq = Some p"
      "create_each e rq u p vs w = (r, w')"
      by (auto simp: monitor_bulk_def bind_result_def split: sum.splits option.splits)
    from vs(1) have all: "list_all2 (\<lambda>x y. validate_monitor w rq x = Ok y) inps vs"
      and bounds: "vs \<noteq> []" "length vs \<le> 50"
      by (auto simp: validate_bulk_def bind_result_Inr_iff dest: validate_all_map split: if_splits)
    from all have names: "map mn_name vs = map mn_name inps" "length vs = length inps"
      by (induction) (auto dest: validate_monitor_name)
    obtain ms where ms: "w_monitors w' = w_monitors w @ ms"
      "case r of Inr out \<Rightarrow> out = ms \<and> list_all2 (fresh_monitor e p) (map mn_name inps) ms
        | Inl x \<Rightarrow> length ms < length inps \<and> list_all2 (fresh_monitor e p) (take (length ms) (map mn_name inps)) ms"
      using create_each_rows [OF vs(3)] unfolding names by blast
    moreover from ms(2) have "length ms \<le> length inps" by (cases r) (auto dest: list_all2_lengthD)
    ultimately show ?thesis using bounds names(2) vs(2)
      by (cases r) (auto simp: run intro!: exI [of _ ms])
  qed
qed

section \<open>A monitor without retries\<close>

text \<open>
  The serializer accepts \<open>retries = 0\<close>, and the runner then reads no checks at all: \<open>all()\<close> of the
  empty list holds both ways. So the status of such a monitor flips with every check, whatever
  the check says: an operational monitor goes offline on a success, an offline one recovers on a failure.
\<close>

theorem zero_retries_flap:
  assumes "mo_retries m = 0" "\<not> is_monitor_under_maintenance w m"
    and "run_check e n m = Inr r" "execute_check e n m w = (Ok ck, w')"
    and "row \<in> set (w_monitors w')" "mo_id row = mo_id m"
  shows "mo_status row = (if mo_status m = Operational then Offline
      else if mo_status m = Offline then Operational else mo_status m)"
proof -
  note eff = execute_check_effect [OF assms(3,4)]
  have "mo_status row = status_after w m ck"
    using assms(5,6) unfolding eff(4) by (auto dest: row_of_updated)
  then show ?thesis
    using assms(1,2) by (simp add: status_after_def next_monitor_status_def recent_statuses_def)
qed

section \<open>Deleting a monitor\<close>

text \<open>
  A maintenance window without monitors covers its whole project, so deleting the only monitor of
  a running window widens it: from then on every monitor of the project counts as under
  maintenance and no failure of any of them raises an incident.
\<close>

theorem deletion_widens_window:
  assumes "s \<in> set (w_maintenances w)" "sm_status s = MInProgress" "sm_monitors s = [mo_id m]"
    and "mo_project x = sm_project s"
  shows "is_monitor_under_maintenance (delete_monitor e m w) x \<and>
    (mo_id x \<noteq> mo_id m \<longrightarrow> \<not> maintenance_covers_monitor s x)"
proof
  have "s\<lparr>sm_monitors := []\<rparr> \<in> set (w_maintenances (delete_monitor e m w))"
    using assms(1,3) by (force simp: delete_monitor_def Let_def)
  with assms(2,4) show "is_monitor_under_maintenance (delete_monitor e m w) x"
    unfolding under_maintenance_iff
    by (intro bexI [of _ "s\<lparr>sm_monitors := []\<rparr>"]) (simp_all add: maintenance_covers_monitor_def)
  show "mo_id x \<noteq> mo_id m \<longrightarrow> \<not> maintenance_covers_monitor s x"
    using assms(3) by (simp add: maintenance_covers_monitor_def)
qed

section \<open>Witnesses\<close>

text \<open>A superuser at work in project 2.\<close>

definition root_request :: request where
  "root_request = sample_request\<lparr>req_user := Some (sample_user\<lparr>usr_is_superuser := True\<rparr>)\<rparr>"

lemma root_permission: "require_permission w pm a root_request obj = Ok (sample_user\<lparr>usr_is_superuser := True\<rparr>)"
  by (simp add: require_permission_def root_request_def check_permissions_def evaluate_def sample_user_def
      sample_request_def bare_request_def split: option.splits)

lemma root_gets: "monitor_get (monitored sample_monitor) root_request a no_filter 90 = Ok sample_monitor"
proof -
  have "monitor_queryset (monitored sample_monitor) root_request no_filter = [sample_monitor]"
    by (simp add: monitor_queryset_def root_request_def scope_queryset_by_team_def apply_team_scope_def
        apply_team_param_def user_sees_all_teams_def monitor_matches_def no_filter_def order_by_simps)
  then show ?thesis by (simp add: monitor_get_def get_object_def root_permission)
qed

theorem pause_and_resume_witness:
  "90 \<notin> mo_id ` set (due_monitors 5 None (snd (monitor_pause sample_env root_request 90 (monitored sample_monitor))))"
proof -
  have "distinct (map mo_id (w_monitors (monitored sample_monitor)))" by simp
  note facts = pause_and_resume [OF this, of sample_env root_request 90]
  obtain b w' where "monitor_pause sample_env root_request 90 (monitored sample_monitor) = (Ok (Response 200 b), w')"
    by (simp add: monitor_pause_def root_gets Let_def)
  with facts show ?thesis by auto
qed

theorem zero_retries_flap_witness:
  "\<exists>ck w' row. execute_check sample_env sample_net (sample_monitor\<lparr>mo_retries := 0, mo_status := Offline\<rparr>)
       (monitored (sample_monitor\<lparr>mo_retries := 0, mo_status := Offline\<rparr>)) = (Ok ck, w') \<and>
     ck_status ck = Failure \<and> w_monitors w' = [row] \<and> mo_status row = Operational"
proof -
  let ?m = "sample_monitor\<lparr>mo_retries := 0, mo_status := Offline\<rparr>"
  obtain msg where msg: "run_check sample_env sample_net ?m = Inr (Failure, None, None, msg)"
    by (simp add: run_check_def run_heartbeat_check_def Let_def sample_monitor_def sample_env_def seconds_def)
  obtain res w' where "execute_check sample_env sample_net ?m (monitored ?m) = (res, w')" by force
  then obtain ck where run: "execute_check sample_env sample_net ?m (monitored ?m) = (Ok ck, w')"
    using msg by (auto simp: execute_check_def Let_def)
  obtain row where row: "w_monitors w' = [row]" "mo_id row = mo_id ?m"
    by (rule single_row_after [OF msg run]) simp_all
  from zero_retries_flap [OF _ _ msg run, of row] row have "mo_status row = Operational" by simp
  with execute_check_effect(7) [OF msg run] run row(1) show ?thesis by auto
qed

theorem deletion_widens_window_witness:
  "is_monitor_under_maintenance
     (delete_monitor sample_env (sample_monitor\<lparr>mo_id := 91\<rparr>)
        (empty_world\<lparr>w_maintenances := [sample_window\<lparr>sm_status := MInProgress, sm_monitors := [91]\<rparr>]\<rparr>))
     sample_monitor"
  using deletion_widens_window [of "sample_window\<lparr>sm_status := MInProgress, sm_monitors := [91]\<rparr>"
      "empty_world\<lparr>w_maintenances := [sample_window\<lparr>sm_status := MInProgress, sm_monitors := [91]\<rparr>]\<rparr>"
      "sample_monitor\<lparr>mo_id := 91\<rparr>" sample_monitor sample_env]
  by simp

end
