(* ===== verification/MaintenanceRun.thy ===== *)
theory MaintenanceRun
  imports MonitorRunner ViewBase Accounts
begin

text \<open>
  The life of a maintenance window: the notifications of \<open>apps/maintenance/notifications.py\<close> and
  \<open>core/notifications/sms.py\<close>, what happens when a window starts and ends (\<open>services.py\<close>), the
  command \<open>process_maintenance\<close> and the handlers of \<open>views.py\<close>. The text of an instant is its
  number, as in JSON; HTML bodies and the sender's address are left out.
\<close>

section \<open>SMS\<close>

text \<open>\<open>SMSService.send\<close>: \<open>e_sms_ok\<close> is the gateway accepting the message.\<close>

definition sms_send :: "env \<Rightarrow> string \<Rightarrow> string \<Rightarrow> world \<Rightarrow> bool \<times> world" where
  "sms_send e to body w =
     (if to = [] \<or> body = [] then (False, w)
      else if \<not> e_sms_configured e then (False, w)
      else if e_sms_ok e to then (True, w\<lparr>w_outbox := w_outbox w @ [Sms to body]\<rparr>)
      else (False, w))"

section \<open>Notifications\<close>

definition status_page_url :: "env \<Rightarrow> string \<Rightarrow> string" where
  "status_page_url e slug = rstrip_char CHR ''/'' (e_frontend_url e) @ ''/status/'' @ slug"

definition subscriber_emails :: "world \<Rightarrow> scheduled_maintenance \<Rightarrow> string list" where
  "subscriber_emails w m =
     (let pages = status_pages_for_maintenance w m
      in if pages = [] then []
         else distinct_values (map sb_email
                (filter (\<lambda>s. sb_status_page s \<in> set (map sp_id pages) \<and> sb_is_verified s) (w_subscribers w))))"

definition subscriber_phones :: "world \<Rightarrow> scheduled_maintenance \<Rightarrow> string list" where
  "subscriber_phones w m =
     (let pages = status_pages_for_maintenance w m
      in if pages = [] then []
         else distinct_values (map sb_phone
                (filter (\<lambda>s. sb_status_page s \<in> set (map sp_id pages) \<and> sb_phone_verified s \<and> sb_phone s \<noteq> [])
                   (w_subscribers w))))"

text \<open>The loop over the recipients; a failed delivery raises.\<close>

fun send_each :: "env \<Rightarrow> string \<Rightarrow> string \<Rightarrow> string list \<Rightarrow> world \<Rightarrow> unit result \<times> world" where
  "send_each e subject body [] w = (Ok (), w)"
| "send_each e subject body (email # emails) w =
     (case send_html_email e email subject body w of
        (Inl x, w1) \<Rightarrow> (Raise x, w1)
      | (Inr _, w1) \<Rightarrow> send_each e subject body emails w1)"

definition notify_sms :: "env \<Rightarrow> scheduled_maintenance \<Rightarrow> string \<Rightarrow> world \<Rightarrow> world" where
  "notify_sms e m message w = foldl (\<lambda>w' phone. snd (sms_send e phone message w')) w (subscriber_phones w m)"

definition page_url_for :: "env \<Rightarrow> world \<Rightarrow> scheduled_maintenance \<Rightarrow> string" where
  "page_url_for e w m =
     (case status_pages_for_maintenance w m of
        p # _ \<Rightarrow> status_page_url e (sp_slug p) | [] \<Rightarrow> e_frontend_url e)"

definition notify_started :: "env \<Rightarrow> scheduled_maintenance \<Rightarrow> world \<Rightarrow> unit result \<times> world" where
  "notify_started e m w =
     (let brand = e_email_from_name e;
          body = ''Maintenance planifi'' @ e_acute @ ''e '' @ [CHR 0xE2, CHR 0x80, CHR 0x94] @ '' '' @ sm_title m
            @ newline @ newline
            @ ''D'' @ e_acute @ ''but : '' @ string_of_int (sm_starts_at m) @ newline
            @ ''Fin pr'' @ e_acute @ ''vue : '' @ string_of_int (sm_ends_at m) @ newline @ newline
            @ sm_description m @ newline @ newline
            @ ''Status page : '' @ page_url_for e w m
      in case send_each e (''['' @ brand @ ''] Maintenance en cours : '' @ sm_title m) body
                (subscriber_emails w m) w of
           (Inl x, w1) \<Rightarrow> (Raise x, w1)
         | (Inr _, w1) \<Rightarrow>
             (Ok (), notify_sms e m
                (''['' @ brand @ ''] Maintenance en cours: '' @ sm_title m @ ''. Fin pr'' @ e_acute @ ''vue: ''
                 @ string_of_int (sm_ends_at m)) w1))"

definition notify_ended :: "env \<Rightarrow> scheduled_maintenance \<Rightarrow> world \<Rightarrow> unit result \<times> world" where
  "notify_ended e m w =
     (let brand = e_email_from_name e;
          body = ''Maintenance termin'' @ e_acute @ ''e '' @ [CHR 0xE2, CHR 0x80, CHR 0x94] @ '' '' @ sm_title m
            @ newline @ newline
            @ ''Fin : '' @ string_of_int (sm_ends_at m) @ newline @ newline
            @ ''Status page : '' @ page_url_for e w m
      in case send_each e (''['' @ brand @ ''] Maintenance termin'' @ e_acute @ ''e : '' @ sm_title m) body
                (subscriber_emails w m) w of
           (Inl x, w1) \<Rightarrow> (Raise x, w1)
         | (Inr _, w1) \<Rightarrow>
             (Ok (), notify_sms e m
                (''['' @ brand @ ''] Maintenance termin'' @ e_acute @ ''e: '' @ sm_title m) w1))"

section \<open>Start and end of a window\<close>

text \<open>An exception of the notifications is logged and forgotten.\<close>

definition handle_maintenance_started :: "env \<Rightarrow> scheduled_maintenance \<Rightarrow> world \<Rightarrow> world" where
  "handle_maintenance_started e m w =
     (let w1 = emit_maintenance_webhook e ''scheduled_maintenance.started'' m w
      in if sm_notify_subscribers m then snd (notify_started e m w1) else w1)"

definition handle_maintenance_ended :: "env \<Rightarrow> scheduled_maintenance \<Rightarrow> world \<Rightarrow> world" where
  "handle_maintenance_ended e m w =
     (let w1 = emit_maintenance_webhook e ''scheduled_maintenance.ended'' m w;
          w2 = (if sm_notify_subscribers m then snd (notify_ended e m w1) else w1);
          w3 = snd (schedule_next_occurrence e m w2)
      in reevaluate_monitors_after_maintenance e m w3)"

definition set_maintenance_status ::
  "env \<Rightarrow> uuid \<Rightarrow> maintenance_status \<Rightarrow> world \<Rightarrow> world" where
  "set_maintenance_status e i status w =
     w\<lparr>w_maintenances := update_where (\<lambda>r. sm_id r = i)
         (\<lambda>r. r\<lparr>sm_status := status, sm_updated_at := e_now e\<rparr>) (w_maintenances w)\<rparr>"

definition start_window :: "env \<Rightarrow> world \<Rightarrow> scheduled_maintenance \<Rightarrow> world" where
  "start_window e w m =
     handle_maintenance_started e (m\<lparr>sm_status := MInProgress, sm_updated_at := e_now e\<rparr>)
       (set_maintenance_status e (sm_id m) MInProgress w)"

definition end_window :: "env \<Rightarrow> world \<Rightarrow> scheduled_maintenance \<Rightarrow> world" where
  "end_window e w m =
     handle_maintenance_ended e (m\<lparr>sm_status := MCompleted, sm_updated_at := e_now e\<rparr>)
       (set_maintenance_status e (sm_id m) MCompleted w)"

definition windows_to_start :: "datetime \<Rightarrow> world \<Rightarrow> scheduled_maintenance list" where
  "windows_to_start now w =
     order_by_desc sm_starts_at
       (filter (\<lambda>m. sm_status m = MScheduled \<and> sm_starts_at m \<le> now) (w_maintenances w))"

definition windows_to_end :: "datetime \<Rightarrow> world \<Rightarrow> scheduled_maintenance list" where
  "windows_to_end now w =
     order_by_desc sm_starts_at
       (filter (\<lambda>m. sm_status m = MInProgress \<and> sm_ends_at m \<le> now) (w_maintenances w))"

text \<open>The command: how many windows were started and completed. The second query sees the first loop's work.\<close>

definition process_maintenance :: "env \<Rightarrow> world \<Rightarrow> (nat \<times> nat) \<times> world" where
  "process_maintenance e w =
     (let now = e_now e;
          to_start = windows_to_start now w;
          w1 = foldl (start_window e) w to_start;
          to_end = windows_to_end now w1;
          w2 = foldl (end_window e) w1 to_end
      in ((length to_start, length to_end), w2))"

section \<open>Handlers\<close>

definition maintenance_permission_map :: "(string \<times> string) list" where
  "maintenance_permission_map =
     [(''list'', ''scheduled_maintenance:read''), (''retrieve'', ''scheduled_maintenance:read''),
      (''create'', ''scheduled_maintenance:create''), (''update'', ''scheduled_maintenance:update''),
      (''partial_update'', ''scheduled_maintenance:update''),
      (''destroy'', ''scheduled_maintenance:delete''), (''cancel'', ''scheduled_maintenance:update'')]"

definition maintenance_queryset ::
  "world \<Rightarrow> request \<Rightarrow> string \<Rightarrow> uuid option \<Rightarrow> scheduled_maintenance list" where
  "maintenance_queryset w rq status team_id =
     (case req_project rq of
        None \<Rightarrow> []
      | Some p \<Rightarrow>
          (let qs = filter (\<lambda>m. sm_project m = pj_id p) (w_maintenances w);
               qs1 = (if status \<noteq> [] then filter (\<lambda>m. maintenance_status_value (sm_status m) = status) qs else qs)
           in order_by_desc sm_starts_at (scope_queryset_by_team w sm_team qs1 rq team_id)))"

text \<open>The fields of a payload; \<open>mi_team_null\<close> is an explicit \<open>team_id: null\<close>.\<close>

record maintenance_input =
  mi_title :: string
  mi_description :: string
  mi_starts_at :: datetime
  mi_ends_at :: datetime
  mi_monitors :: "uuid list"
  mi_visible :: bool
  mi_notify :: bool
  mi_frequency :: recurrence_frequency
  mi_interval :: nat
  mi_weekdays :: "int list"
  mi_until :: "datetime option"
  mi_team :: "uuid option"
  mi_team_null :: bool

text \<open>
  \<open>ScheduledMaintenanceSerializer\<close>: the monitors may be any monitors of the server, the team one
  of the request's project.
\<close>

definition validate_maintenance :: "world \<Rightarrow> request \<Rightarrow> maintenance_input \<Rightarrow> unit result" where
  "validate_maintenance w rq inp =
     (if \<not> list_all (\<lambda>i. monitor_of w i \<noteq> None) (mi_monitors inp) then ValidationError ''monitors''
      else if (case mi_team inp of
                 None \<Rightarrow> False
               | Some t \<Rightarrow>
                   (case team_of w t of
                      None \<Rightarrow> True
                    | Some x \<Rightarrow> (case req_project rq of Some p \<Rightarrow> tm_project x \<noteq> pj_id p | None \<Rightarrow> False)))
      then ValidationError ''team_id''
      else if mi_ends_at inp \<le> mi_starts_at inp then ValidationError ''ends_at must be after starts_at.''
      else if mi_frequency inp \<noteq> RecNone \<and>
              (case mi_until inp of Some u \<Rightarrow> u \<le> mi_starts_at inp | None \<Rightarrow> False)
      then ValidationError ''recurrence_until must be after starts_at.''
      else Ok ())"

definition maintenance_create ::
  "env \<Rightarrow> request \<Rightarrow> maintenance_input \<Rightarrow> world \<Rightarrow> scheduled_maintenance result \<times> world" where
  "maintenance_create e rq inp w =
     (case require_permission w maintenance_permission_map ''create'' rq None of
        Inl x \<Rightarrow> (Raise x, w)
      | Inr u \<Rightarrow>
          (case bind_result (validate_maintenance w rq inp) (\<lambda>_.
                  case req_project rq of
                    None \<Rightarrow> Raise (TypeError ''no attribute project'')
                  | Some p \<Rightarrow>
                      bind_result (resolve_team_for_create w rq u (mi_team inp) None (mi_team_null inp))
                        (\<lambda>team. Ok (p, team))) of
             Inl x \<Rightarrow> (Raise x, w)
           | Inr (p, team) \<Rightarrow>
               (let m = \<lparr>sm_id = w_next w, sm_tenant = pj_tenant p, sm_project = pj_id p, sm_team = team,
                         sm_title = mi_title inp, sm_description = mi_description inp,
                         sm_starts_at = mi_starts_at inp, sm_ends_at = mi_ends_at inp,
                         sm_monitors = mi_monitors inp, sm_status = MScheduled,
                         sm_is_visible_on_status_page = mi_visible inp, sm_notify_subscribers = mi_notify inp,
                         sm_recurrence_frequency = mi_frequency inp, sm_recurrence_interval = mi_interval inp,
                         sm_recurrence_weekdays = mi_weekdays inp, sm_recurrence_until = mi_until inp,
                         sm_series_id = (if mi_frequency inp \<noteq> RecNone then Some (Suc (w_next w)) else None),
                         sm_created_at = e_now e, sm_updated_at = e_now e\<rparr>
                in (Ok m, emit_maintenance_webhook e ''scheduled_maintenance.created'' m
                      (w\<lparr>w_maintenances := w_maintenances w @ [m], w_next := w_next w + 2\<rparr>)))))"

definition maintenance_get :: "world \<Rightarrow> request \<Rightarrow> string \<Rightarrow> uuid \<Rightarrow> scheduled_maintenance result" where
  "maintenance_get w rq action pk =
     bind_result (require_permission w maintenance_permission_map action rq None) (\<lambda>_.
       get_object w maintenance_permission_map action rq sm_id (maintenance_queryset w rq [] None) pk)"

text \<open>A full update; the team is not checked against the caller's memberships.\<close>

definition maintenance_update ::
  "env \<Rightarrow> request \<Rightarrow> uuid \<Rightarrow> maintenance_input \<Rightarrow> world \<Rightarrow> scheduled_maintenance result \<times> world" where
  "maintenance_update e rq pk inp w =
     (case bind_result (maintenance_get w rq ''update'' pk) (\<lambda>m.
             bind_result (validate_maintenance w rq inp) (\<lambda>_. Ok m)) of
        Inl x \<Rightarrow> (Raise x, w)
      | Inr m \<Rightarrow>
          (let m1 = m\<lparr>sm_title := mi_title inp, sm_description := mi_description inp,
                      sm_starts_at := mi_starts_at inp, sm_ends_at := mi_ends_at inp,
                      sm_monitors := mi_monitors inp, sm_is_visible_on_status_page := mi_visible inp,
                      sm_notify_subscribers := mi_notify inp, sm_recurrence_frequency := mi_frequency inp,
                      sm_recurrence_interval := mi_interval inp, sm_recurrence_weekdays := mi_weekdays inp,
                      sm_recurrence_until := mi_until inp,
                      sm_team := (if mi_team inp \<noteq> None \<or> mi_team_null inp then mi_team inp else sm_team m),
                      sm_updated_at := e_now e\<rparr>
           in (Ok m1, w\<lparr>w_maintenances := update_where (\<lambda>r. sm_id r = sm_id m) (\<lambda>_. m1) (w_maintenances w)\<rparr>)))"

text \<open>A cancelled window never reaches \<open>handle_maintenance_ended\<close>: no next occurrence is scheduled.\<close>

definition maintenance_cancel :: "env \<Rightarrow> request \<Rightarrow> uuid \<Rightarrow> world \<Rightarrow> response result \<times> world" where
  "maintenance_cancel e rq pk w =
     (case maintenance_get w rq ''cancel'' pk of
        Inl x \<Rightarrow> (Raise x, w)
      | Inr m \<Rightarrow>
          (if sm_status m = MCompleted
           then (Ok (Response 400 (JObj [(''detail'', JStr ''Cannot cancel a completed maintenance window.'')])), w)
           else
             (let w1 = set_maintenance_status e (sm_id m) MCancelled w
              in (Ok (Response 200 (maintenance_json w1
                        (m\<lparr>sm_status := MCancelled, sm_updated_at := e_now e\<rparr>))), w1))))"

definition maintenance_destroy :: "request \<Rightarrow> uuid \<Rightarrow> world \<Rightarrow> response result \<times> world" where
  "maintenance_destroy rq pk w =
     (case maintenance_get w rq ''destroy'' pk of
        Inl x \<Rightarrow> (Raise x, w)
      | Inr m \<Rightarrow>
          (Ok (Response 204 JNull),
           w\<lparr>w_maintenances := delete_where (\<lambda>r. sm_id r = sm_id m) (w_maintenances w)\<rparr>))"

end
