(* ===== verification/MaintenanceRunFacts.thy ===== *)
theory MaintenanceRunFacts
  imports MaintenanceRun MonitorFacts
begin

text \<open>
  What the command \<open>process_maintenance\<close> makes of the windows: their life cycle, that a started
  window suppresses alerts, and that a monitor which still fails when a window ends is reported.
\<close>

section \<open>Frames\<close>

text \<open>What the command's steps may not change in a window, apart from its status.\<close>

type_synonym window_core =
  "uuid \<times> maintenance_status \<times> uuid \<times> datetime \<times> datetime \<times> uuid list"

definition window_core :: "scheduled_maintenance \<Rightarrow> window_core" where
  "window_core m = (sm_id m, sm_status m, sm_project m, sm_starts_at m, sm_ends_at m, sm_monitors m)"

definition windows :: "world \<Rightarrow> window_core list" where
  "windows w = map window_core (w_maintenances w)"

lemma send_html_maintenances: "w_maintenances (snd (send_html_email e a s b w)) = w_maintenances w"
  by (simp add: send_html_email_def)

lemma send_each_maintenances: "w_maintenances (snd (send_each e s b as w)) = w_maintenances w"
proof (induction as arbitrary: w)
  case (Cons a as)
  then show ?case
    by (cases "send_html_email e a s b w" rule: prod.exhaust)
      (use send_html_maintenances [of e a s b w] in \<open>auto split: sum.splits\<close>)
qed simp

lemma sms_maintenances: "w_maintenances (snd (sms_send e a b w)) = w_maintenances w"
  by (simp add: sms_send_def)

lemma notify_sms_maintenances: "w_maintenances (notify_sms e m b w) = w_maintenances w"
proof -
  have "w_maintenances (foldl (\<lambda>w' a. snd (sms_send e a b w')) w as) = w_maintenances w" for as
    by (induction as arbitrary: w) (simp_all add: sms_maintenances)
  then show ?thesis by (simp add: notify_sms_def)
qed

lemma notify_maintenances:
  "w_maintenances (snd (notify_started e m w)) = w_maintenances w"
  "w_maintenances (snd (notify_ended e m w)) = w_maintenances w"
proof -
  have each: "send_each e s b as w = (r, w1) \<Longrightarrow> w_maintenances w1 = w_maintenances w" for s b as r w1
    using send_each_maintenances [of e s b as w] by simp
  show "w_maintenances (snd (notify_started e m w)) = w_maintenances w"
    "w_maintenances (snd (notify_ended e m w)) = w_maintenances w"
    by (auto simp: notify_started_def notify_ended_def Let_def notify_sms_maintenances dest: each
        split: prod.splits sum.splits)
qed

lemma started_maintenances: "w_maintenances (handle_maintenance_started e m w) = w_maintenances w"
  by (simp add: handle_maintenance_started_def Let_def notify_maintenances emit_maintenance_webhook_def)

lemma windows_update:
  assumes "\<And>r. window_core (f r) = window_core r"
  shows "map window_core (update_where p f ms) = map window_core ms"
  using assms by (rule map_update_where)

lemma schedule_next_windows:
  "\<exists>news. windows (snd (schedule_next_occurrence e m w)) = windows w @ news"
proof (cases "next_window (e_now e) m")
  case None
  then show ?thesis by (simp add: schedule_next_occurrence_def)
next
  case (Some t)
  obtain s m1 w1 where s: "ensure_series_id e m w = (s, m1, w1)" by (metis prod_cases3)
  then have "windows w1 = windows w"
    by (auto simp: windows_def ensure_series_id_def Let_def save_maintenance_def window_core_def
        intro!: windows_update split: option.splits)
  with Some s show ?thesis by (simp add: schedule_next_occurrence_def Let_def windows_def)
qed

lemma open_incident_maintenances: "w_maintenances (open_incident e m ck w) = w_maintenances w"
  by (rule open_incident_cases [of w m e ck]) simp_all

lemma reevaluate_one_maintenances: "w_maintenances (reevaluate_monitor_incident e m w) = w_maintenances w"
  by (auto simp: reevaluate_monitor_incident_def Let_def open_incident_maintenances split: option.splits)

lemma reevaluate_maintenances: "w_maintenances (reevaluate_monitors_after_maintenance e mw w) = w_maintenances w"
proof -
  have "w_maintenances (foldl (\<lambda>w' m. reevaluate_monitor_incident e m w') w ms) = w_maintenances w" for ms
    by (induction ms arbitrary: w) (simp_all add: reevaluate_one_maintenances)
  then show ?thesis by (simp add: reevaluate_monitors_after_maintenance_def)
qed

lemma ended_windows: "\<exists>news. windows (handle_maintenance_ended e m w) = windows w @ news"
proof -
  define w2 where "w2 = (let w1 = emit_maintenance_webhook e ''scheduled_maintenance.ended'' m w
    in if sm_notify_subscribers m then snd (notify_ended e m w1) else w1)"
  have w2: "windows w2 = windows w"
    by (simp add: w2_def Let_def windows_def notify_maintenances emit_maintenance_webhook_def)
  have "windows (handle_maintenance_ended e m w) = windows (snd (schedule_next_occurrence e m w2))"
    by (simp add: handle_maintenance_ended_def Let_def w2_def windows_def reevaluate_maintenances)
  with schedule_next_windows [of e m w2] w2 show ?thesis by simp
qed

section \<open>The life cycle\<close>

text \<open>Setting the status of the windows with some ids.\<close>

definition put_status :: "uuid set \<Rightarrow> maintenance_status \<Rightarrow> window_core \<Rightarrow> window_core" where
  "put_status ids s r = (case r of (i, s0, rest) \<Rightarrow> (i, if i \<in> ids then s else s0, rest))"

lemma put_status_id [simp]: "put_status {} s = id"
  by (auto simp: put_status_def fun_eq_iff)

lemma put_status_twice: "put_status B s (put_status A s r) = put_status (A \<union> B) s r"
  by (auto simp: put_status_def split: prod.splits)

lemma set_status_windows: "windows (set_maintenance_status e i s w) = map (put_status {i} s) (windows w)"
proof -
  have "map window_core (update_where (\<lambda>r. sm_id r = i) (\<lambda>r. r\<lparr>sm_status := s, sm_updated_at := e_now e\<rparr>) ms) =
      map (put_status {i} s) (map window_core ms)" for ms
    by (induction ms) (auto simp: window_core_def put_status_def)
  then show ?thesis by (simp add: windows_def set_maintenance_status_def)
qed

lemma start_windows:
  "windows (foldl (start_window e) w ms) = map (put_status (sm_id ` set ms) MInProgress) (windows w)"
proof (induction ms arbitrary: w)
  case (Cons m ms)
  have "windows (start_window e w m) = map (put_status {sm_id m} MInProgress) (windows w)"
    using set_status_windows [of e "sm_id m" MInProgress w]
    by (simp add: start_window_def windows_def started_maintenances)
  with Cons.IH [of "start_window e w m"] show ?case by (simp add: put_status_twice)
qed simp

lemma end_windows:
  "\<exists>news. windows (foldl (end_window e) w ms) =
     map (put_status (sm_id ` set ms) MCompleted) (windows w) @ news"
proof (induction ms arbitrary: w)
  case (Cons m ms)
  obtain n1 where n1: "windows (end_window e w m) = map (put_status {sm_id m} MCompleted) (windows w) @ n1"
    using ended_windows set_status_windows unfolding end_window_def by metis
  obtain n2 where "windows (foldl (end_window e) (end_window e w m) ms) =
      map (put_status (sm_id ` set ms) MCompleted) (windows (end_window e w m)) @ n2"
    using Cons.IH by blast
  with n1 show ?case by (simp add: put_status_twice)
qed simp

text \<open>The abstract life cycle of a window at an instant.\<close>

definition advance :: "datetime \<Rightarrow> window_core \<Rightarrow> window_core" where
  "advance now r =
     (case r of (i, s, p, a, b, ms) \<Rightarrow>
        (i, if s = MScheduled \<and> a \<le> now then (if b \<le> now then MCompleted else MInProgress)
            else if s = MInProgress \<and> b \<le> now then MCompleted else s, p, a, b, ms))"

definition core_status :: "window_core \<Rightarrow> maintenance_status" where
  "core_status r = fst (snd r)"

text \<open>What the two queries pick, in terms of the cores.\<close>

definition starting :: "datetime \<Rightarrow> window_core \<Rightarrow> bool" where
  "starting now r = (case r of (i, s, p, a, b, ms) \<Rightarrow> s = MScheduled \<and> a \<le> now)"

definition ending :: "datetime \<Rightarrow> window_core \<Rightarrow> bool" where
  "ending now r = (case r of (i, s, p, a, b, ms) \<Rightarrow> s = MInProgress \<and> b \<le> now)"

lemma fst_window_core [simp]: "fst (window_core m) = sm_id m"
  by (simp add: window_core_def)

lemma picked_ids:
  "sm_id ` set (windows_to_start now w) = fst ` {r \<in> set (windows w). starting now r}"
  "sm_id ` set (windows_to_end now w) = fst ` {r \<in> set (windows w). ending now r}"
proof -
  have "sm_id ` {m \<in> set ms. P (window_core m)} = fst ` {r \<in> window_core ` set ms. P r}" for ms P
    by (force simp: image_iff)
  from this [of "w_maintenances w" "starting now"] this [of "w_maintenances w" "ending now"]
  show "sm_id ` set (windows_to_start now w) = fst ` {r \<in> set (windows w). starting now r}"
    "sm_id ` set (windows_to_end now w) = fst ` {r \<in> set (windows w). ending now r}"
    by (simp_all add: windows_to_start_def windows_to_end_def windows_def starting_def ending_def
        window_core_def)
qed

lemma picked_number:
  "length (windows_to_start now w) = length (filter (starting now) (windows w))"
  "length (windows_to_end now w) = length (filter (ending now) (windows w))"
  by (simp_all add: windows_to_start_def windows_to_end_def windows_def filter_map comp_def starting_def
      ending_def window_core_def)

text \<open>With unique ids the update by id changes just the picked rows.\<close>

lemma put_status_picked:
  assumes "distinct (map fst rs)"
  shows "map (put_status (fst ` {r \<in> set rs. P r}) s) rs =
    map (\<lambda>r. if P r then put_status UNIV s r else r) rs"
proof (rule map_cong [OF refl])
  fix r assume r: "r \<in> set rs"
  have "fst r \<in> fst ` {r \<in> set rs. P r} \<longleftrightarrow> P r"
  proof
    assume "fst r \<in> fst ` {r \<in> set rs. P r}"
    then obtain r' where "r' \<in> set rs" "P r'" "fst r' = fst r" by auto
    with assms r show "P r" by (simp add: distinct_map inj_on_def) metis
  next
    assume "P r"
    with r show "fst r \<in> fst ` {r \<in> set rs. P r}" by blast
  qed
  then show "put_status (fst ` {r \<in> set rs. P r}) s r = (if P r then put_status UNIV s r else r)"
    by (cases r) (auto simp: put_status_def)
qed

lemma fst_put_status [simp]: "fst (put_status A s r) = fst r"
  by (simp add: put_status_def split: prod.splits)

lemma advance_two_steps:
  "(let r1 = (if starting now r then put_status UNIV MInProgress r else r)
    in if ending now r1 then put_status UNIV MCompleted r1 else r1) = advance now r"
  by (cases r) (simp add: starting_def ending_def put_status_def advance_def)

lemma ending_after_start:
  "ending now (if starting now r then put_status UNIV MInProgress r else r) \<longleftrightarrow>
     (case r of (i, s, p, a, b, ms) \<Rightarrow> b \<le> now \<and> (s = MInProgress \<or> s = MScheduled \<and> a \<le> now))"
  by (cases r) (auto simp: starting_def ending_def put_status_def)

lemma put_status_union:
  "map (put_status B s) (map (put_status A s) rs) = map (put_status (A \<union> B) s) rs"
  by (simp add: put_status_twice)

lemma lifecycle_run:
  assumes "distinct (map sm_id (w_maintenances w))"
    and "process_maintenance e w = ((started, completed), w')"
  shows "take (length (w_maintenances w)) (windows w') = map (advance (e_now e)) (windows w)"
    and "started = length (filter (starting (e_now e)) (windows w))"
    and "completed = length (filter (\<lambda>r. core_status r \<noteq> MCompleted \<and>
           core_status (advance (e_now e) r) = MCompleted) (windows w))"
proof -
  let ?now = "e_now e"
  let ?step = "\<lambda>r. if starting ?now r then put_status UNIV MInProgress r else r"
  define w1 where "w1 = foldl (start_window e) w (windows_to_start ?now w)"
  have ids: "distinct (map fst (windows w))"
    using assms(1) by (simp add: windows_def comp_def)
  have w1: "windows w1 = map ?step (windows w)"
    using put_status_picked [OF ids, of "starting ?now" MInProgress]
    by (simp add: w1_def start_windows picked_ids)
  have ids1: "distinct (map fst (windows w1))"
    using ids by (simp add: w1 comp_def if_distrib cong: if_cong)
  obtain news where "windows w' =
      map (put_status (sm_id ` set (windows_to_end ?now w1)) MCompleted) (windows w1) @ news"
    using assms(2) end_windows [of e w1 "windows_to_end ?now w1"]
    by (auto simp: process_maintenance_def Let_def w1_def)
  then have "windows w' = map (\<lambda>r. if ending ?now r then put_status UNIV MCompleted r else r)
      (windows w1) @ news"
    using put_status_picked [OF ids1, of "ending ?now" MCompleted] by (simp add: picked_ids)
  also have "\<dots> = map (advance ?now) (windows w) @ news"
    using advance_two_steps [of ?now] by (simp add: w1 Let_def)
  finally show "take (length (w_maintenances w)) (windows w') = map (advance ?now) (windows w)"
    by (simp add: windows_def)
  show "started = length (filter (starting ?now) (windows w))"
    using assms(2) by (simp add: process_maintenance_def Let_def picked_number)
  have "completed = length (filter (ending ?now) (windows w1))"
    using assms(2) by (simp add: process_maintenance_def Let_def picked_number w1_def)
  also have "\<dots> = length (filter (\<lambda>r. ending ?now (?step r)) (windows w))"
    by (simp add: w1 filter_map comp_def)
  also have "(\<lambda>r. ending ?now (?step r)) = (\<lambda>r. core_status r \<noteq> MCompleted \<and>
      core_status (advance ?now r) = MCompleted)"
    by (auto simp: ending_after_start advance_def core_status_def fun_eq_iff split: prod.splits)
  finally show "completed = length (filter (\<lambda>r. core_status r \<noteq> MCompleted \<and>
      core_status (advance ?now r) = MCompleted) (windows w))" .
qed


text \<open>
  A window that takes effect suppresses alerts: after a run of the command inside a scheduled
  window, each monitor the window covers counts as under maintenance - whatever the status
  notifications, the webhooks and the other windows of that run do.
\<close>

theorem window_takes_effect:
  assumes "distinct (map sm_id (w_maintenances w))" "process_maintenance e w = (counts, w')"
    and "m \<in> set (w_maintenances w)" "sm_status m = MScheduled"
    and "sm_starts_at m \<le> e_now e" "e_now e < sm_ends_at m"
    and "sm_project m = mo_project mo" "maintenance_covers_monitor m mo"
  shows "is_monitor_under_maintenance w' mo"
proof -
  obtain a b where c: "counts = (a, b)" by (cases counts)
  have "advance (e_now e) (window_core m) \<in> set (take (length (w_maintenances w)) (windows w'))"
    using lifecycle_run(1) [OF assms(1) assms(2) [unfolded c]] assms(3)
    by (simp add: windows_def)
  then have "advance (e_now e) (window_core m) \<in> set (windows w')"
    by (rule in_set_takeD)
  then obtain m' where m': "m' \<in> set (w_maintenances w')" "window_core m' = advance (e_now e) (window_core m)"
    by (auto simp: windows_def)
  with assms(4-6) have "sm_status m' = MInProgress" "sm_project m' = sm_project m"
    "sm_monitors m' = sm_monitors m"
    by (simp_all add: window_core_def advance_def)
  moreover from this assms(8) have "maintenance_covers_monitor m' mo"
    by (simp add: maintenance_covers_monitor_def)
  ultimately show ?thesis
    unfolding under_maintenance_iff using m'(1) assms(7) by (intro bexI [of _ m']) simp_all
qed

text \<open>
  A failure that a window hid is reported when the window is over: re-evaluating a monitor that
  no window covers any more, whose last checks - as many as its retries - all failed and which has no
  incident, opens one incident in the \<open>triggered\<close> state; the monitor is offline and points to it.
\<close>

theorem hidden_failure_reported:
  assumes "\<not> is_monitor_under_maintenance w m" "mo_alert_on_failure m" "mo_current_incident m = None"
    and "recent_statuses w m \<noteq> []" "mo_retries m \<le> length (recent_statuses w m)"
    and "list_all failed_status (recent_statuses w m)"
    and "named_state w (mo_project m) ''triggered'' = Some st"
    and "named_severity w (mo_project m) ''critical'' = Some sv"
    and "w' = reevaluate_monitor_incident e m w"
  shows "\<exists>i. map lifecycle (w_incidents w') =
      map lifecycle (w_incidents w) @ [triggered_lifecycle i (mo_project m) (st_id st)] \<and>
    (\<forall>row \<in> set (w_monitors w'). mo_id row = mo_id m \<longrightarrow>
       mo_status m \<noteq> Offline \<longrightarrow> mo_status row = Offline) \<and>
    (\<forall>row \<in> set (w_monitors w'). mo_id row = mo_id m \<longrightarrow> mo_current_incident row = Some i)"
proof -
  define mw where "mw = (if mo_status m \<noteq> Offline
      then (let m' = m\<lparr>mo_status := Offline\<rparr>;
                w1 = update_monitor (mo_id m) (\<lambda>r. r\<lparr>mo_status := Offline\<rparr>) w
            in (m', emit_monitor_status_changed e m' (mo_status m) w1))
      else (m, w))"
  obtain m1 w1 where m1: "mw = (m1, w1)" by (cases mw)
  then have frame: "mo_id m1 = mo_id m" "mo_project m1 = mo_project m" "w_checks w1 = w_checks w"
    "w_incidents w1 = w_incidents w"
    "w_monitors w1 = (if mo_status m \<noteq> Offline
      then update_where (\<lambda>r. mo_id r = mo_id m) (\<lambda>r. r\<lparr>mo_status := Offline\<rparr>) (w_monitors w) else w_monitors w)"
    "named_state w1 p k = named_state w p k" "named_severity w1 p k = named_severity w p k" for p k
    by (auto simp: mw_def Let_def named_state_def named_severity_def
        emit_monitor_status_changed_def update_monitor_def split: if_splits)
  have "filter (\<lambda>c. ck_monitor c = mo_id m) (w_checks w) \<noteq> []"
    using assms(4) by (auto simp: recent_statuses_def)
  then obtain ck where "first_row (order_by_desc ck_checked_at
      (filter (\<lambda>c. ck_monitor c = mo_id m) (w_checks w1))) = Some ck"
    by (cases "order_by_desc ck_checked_at (filter (\<lambda>c. ck_monitor c = mo_id m) (w_checks w))")
      (simp_all add: frame)
  then have w': "w' = open_incident e m1 ck w1"
    using assms m1 by (simp add: reevaluate_monitor_incident_def mw_def [symmetric])
  obtain i where i: "map lifecycle (w_incidents w') =
      map lifecycle (w_incidents w) @ [triggered_lifecycle i (mo_project m) (st_id st)]"
    "w_monitors w' = update_where (\<lambda>r. mo_id r = mo_id m) (\<lambda>r. r\<lparr>mo_current_incident := Some i\<rparr>) (w_monitors w1)"
    by (rule open_incident_cases [of w1 m1 e ck]) (use frame assms(7,8) in \<open>auto simp: w'\<close>)
  show ?thesis
  proof (intro exI [of _ i] conjI ballI impI)
    show "map lifecycle (w_incidents w') =
      map lifecycle (w_incidents w) @ [triggered_lifecycle i (mo_project m) (st_id st)]" by (rule i(1))
    fix row assume row: "row \<in> set (w_monitors w')" "mo_id row = mo_id m"
    then obtain r where r: "r \<in> set (w_monitors w1)" "mo_id r = mo_id m"
      "row = r\<lparr>mo_current_incident := Some i\<rparr>"
      unfolding i(2) by (rule updated_rowE) simp_all
    then show "mo_current_incident row = Some i" by simp
    assume off: "mo_status m \<noteq> Offline"
    with r(1,2) obtain r' where "r = r'\<lparr>mo_status := Offline\<rparr>"
      unfolding frame(5) by (auto elim!: updated_rowE)
    with r(3) show "mo_status row = Offline" by simp
  qed
qed

section \<open>Witnesses\<close>

text \<open>The nightly window of the sample project, waiting for 22:00.\<close>

definition planned :: world where
  "planned = empty_world\<lparr>w_maintenances := [sample_window\<lparr>sm_status := MScheduled\<rparr>]\<rparr>"

lemma planned_frame [simp]: "w_maintenances planned = [sample_window\<lparr>sm_status := MScheduled\<rparr>]"
  by (simp add: planned_def)

lemma planned_windows: "windows planned = [(70, MScheduled, 2, hours 22, hours 23, [])]"
  by (simp add: windows_def window_core_def)


theorem window_takes_effect_witness:
  "is_monitor_under_maintenance (snd (process_maintenance (sample_env\<lparr>e_now := hours 22\<rparr>) planned)) sample_monitor"
  by (rule window_takes_effect [of planned, OF _ prod.collapse [symmetric]])
    (auto simp: maintenance_covers_monitor_def time_defs)

text \<open>The sample monitor, offline and retried once, after a failed check that nothing reported.\<close>

definition hidden_check :: monitor_check where
  "hidden_check =
     \<lparr>ck_id = 95, ck_tenant = 1, ck_monitor = 90, ck_probe = None, ck_checked_at = 5, ck_status = Failure,
      ck_response_status_code = None, ck_response_time_ms = None, ck_error_message = ''late'',
      ck_triggered_incident = None\<rparr>"

theorem hidden_failure_reported_witness:
  "\<exists>i. map lifecycle (w_incidents (reevaluate_monitor_incident sample_env (sample_monitor\<lparr>mo_retries := 1\<rparr>)
       (alerting\<lparr>w_checks := [hidden_check]\<rparr>))) = [triggered_lifecycle i 2 31]"
proof -
  let ?w = "alerting\<lparr>w_checks := [hidden_check]\<rparr>" and ?m = "sample_monitor\<lparr>mo_retries := 1\<rparr>"
  have frame: "w_maintenances alerting = []" "w_incidents alerting = []" "mo_alert_on_failure sample_monitor"
    "mo_current_incident sample_monitor = None"
    by (simp_all add: alerting_def sample_monitor_def)
  have recent: "recent_statuses ?w ?m = [Failure]"
    by (simp add: recent_statuses_def hidden_check_def order_by_simps)
  obtain st where st: "named_state ?w 2 ''triggered'' = Some st" "st_id st = 31"
    by (simp add: alerting_def named_state_def order_by_simps)
  obtain sv where sv: "named_severity ?w 2 ''critical'' = Some sv"
    by (simp add: alerting_def named_severity_def order_by_simps)
  from hidden_failure_reported [of ?w ?m st sv "reevaluate_monitor_incident sample_env ?m ?w" sample_env] st sv
  show ?thesis
    by (auto simp: frame recent [unfolded One_nat_def] failed_status_def under_maintenance_iff)
qed

end
