(* ===== verification/Budgets.thy ===== *)
theory Budgets
  imports Interfaces
begin

text \<open>
  A contract for operations that give only so many answers: every charged reply uses up a part of
  a budget that the state carries, and nothing gives it back. One-time passwords, login sessions
  and the rate limiter are such operations.
\<close>

fun replies :: "('s \<Rightarrow> 'e \<Rightarrow> 'r \<times> 's) \<Rightarrow> 's \<Rightarrow> 'e list \<Rightarrow> 'r list \<times> 's" where
  "replies op s [] = ([], s)"
| "replies op s (ev # evs) =
     (case op s ev of (r, s') \<Rightarrow> (case replies op s' evs of (rs, s'') \<Rightarrow> (r # rs, s'')))"

locale budgeted =
  fixes op :: "'s \<Rightarrow> 'e \<Rightarrow> 'r \<times> 's"
    and inv :: "'s \<Rightarrow> bool"
    and charged :: "'r \<Rightarrow> bool"
    and budget :: "'s \<Rightarrow> nat"
  assumes op_inv: "inv s \<Longrightarrow> op s ev = (r, s') \<Longrightarrow> inv s'"
    and pays: "inv s \<Longrightarrow> op s ev = (r, s') \<Longrightarrow> charged r \<Longrightarrow> budget s' < budget s"
    and spares: "inv s \<Longrightarrow> op s ev = (r, s') \<Longrightarrow> \<not> charged r \<Longrightarrow> budget s' \<le> budget s"
begin

lemma charged_bounded:
  "inv s \<Longrightarrow> replies op s evs = (rs, s') \<Longrightarrow>
     length (filter charged rs) + budget s' \<le> budget s \<and> inv s'"
proof (induction evs arbitrary: s rs)
  case (Cons ev evs)
  obtain r s1 where 1: "op s ev = (r, s1)" by force
  obtain rs1 where rs: "replies op s1 evs = (rs1, s')" "rs = r # rs1"
    using Cons.prems(2) 1 by (auto split: prod.splits)
  have "length (filter charged rs1) + budget s' \<le> budget s1 \<and> inv s'"
    by (rule Cons.IH [OF op_inv [OF Cons.prems(1) 1] rs(1)])
  with pays [OF Cons.prems(1) 1] spares [OF Cons.prems(1) 1] rs(2) show ?case
    by (cases "charged r") auto
qed auto

lemma charged_at_most: "inv s \<Longrightarrow> length (filter charged (fst (replies op s evs))) \<le> budget s"
  using charged_bounded [of s evs "fst (replies op s evs)" "snd (replies op s evs)"] by simp

end

text \<open>In a table with unique keys, writing the row of a key changes that row only.\<close>

lemma update_where_only:
  assumes "distinct (map k (xs @ c # ys))"
  shows "update_where (\<lambda>r. k r = k c) f (xs @ c # ys) = xs @ f c # ys"
proof -
  have other: "update_where (\<lambda>r. k r = k c) f zs = zs" if "\<forall>z \<in> set zs. k z \<noteq> k c" for zs
    using that by (induction zs) auto
  from assms have "\<forall>z \<in> set xs. k z \<noteq> k c" "\<forall>z \<in> set ys. k z \<noteq> k c"
    by (auto simp: rev_image_eqI)
  then show ?thesis by (simp add: other)
qed

lemma filter_update_only:
  assumes "distinct (map k rs)" "filter p rs = [c]"
  shows "filter p (update_where (\<lambda>r. k r = k c) f rs) = (if p (f c) then [f c] else [])"
proof -
  from assms(2) obtain xs ys where rs: "rs = xs @ c # ys" "\<forall>x \<in> set xs. \<not> p x" "filter p ys = []"
    by (auto simp: filter_eq_Cons_iff)
  with update_where_only [of k xs c ys f] assms(1) show ?thesis by simp
qed

end
