(* ===== verification/AccountsFacts.thy ===== *)
theory AccountsFacts
  imports AccountsViews Budgets RbacFacts
begin

text \<open>
  What one-time passwords, login sessions, onboarding, invitations and the authentication of
  requests guarantee.
\<close>

section \<open>One-time passwords\<close>

text \<open>
  The well-formedness of the challenges: keys unique and below the counter, and at most one open
  challenge per user and purpose.
\<close>

definition otp_wf :: "world \<Rightarrow> bool" where
  "otp_wf w \<longleftrightarrow> distinct (map otp_id (w_otp_challenges w)) \<and>
     (\<forall>c \<in> set (w_otp_challenges w). otp_id c < w_next w) \<and>
     (\<forall>u p. length (filter (open_challenge u p) (w_otp_challenges w)) \<le> 1)"

lemma active_challenge_cases:
  assumes "otp_wf w"
  obtains (none) "get_active_challenge w u p = None" "filter (open_challenge u p) (w_otp_challenges w) = []"
  | (one) c where "get_active_challenge w u p = Some c"
      "filter (open_challenge u p) (w_otp_challenges w) = [c]" "open_challenge u p c"
proof -
  from assms have "length (filter (open_challenge u p) (w_otp_challenges w)) \<le> 1" by (simp add: otp_wf_def)
  then consider "filter (open_challenge u p) (w_otp_challenges w) = []"
    | c where "filter (open_challenge u p) (w_otp_challenges w) = [c]"
    by (auto simp: le_Suc_eq length_Suc_conv)
  then show ?thesis
  proof cases
    case 2
    then have "c \<in> set (filter (open_challenge u p) (w_otp_challenges w))" by simp
    then have "open_challenge u p c" by simp
    with 2 show ?thesis by (intro one) (simp_all add: get_active_challenge_def order_by_simps)
  qed (simp add: none get_active_challenge_def)
qed

lemma active_challenge_eq:
  "filter (open_challenge u p) (w_otp_challenges w) = cs \<Longrightarrow> length cs \<le> 1 \<Longrightarrow>
     get_active_challenge w u p = first_row cs"
  by (cases cs) (auto simp: get_active_challenge_def order_by_simps)

text \<open>A code is evaluated when it is compared with the stored hash.\<close>

definition otp_evaluated :: "otp_error + otp_challenge \<Rightarrow> bool" where
  "otp_evaluated r = (case r of Inr _ \<Rightarrow> True | Inl x \<Rightarrow> oe_attempts_remaining x \<noteq> None)"

lemma otp_verify_cases:
  assumes "otp_verify e u p code w = (r, w')"
  obtains (refused) "w' = w" "\<not> otp_evaluated r" "\<exists>x. r = Inl x"
  | (wrong) c where "get_active_challenge w u p = Some c" "otp_attempts c < e_otp_max_attempts e"
      "\<not> otp_is_expired (e_now e) c" "hash_code e code \<noteq> otp_code_hash c" "otp_evaluated r" "\<exists>x. r = Inl x"
      "w' = save_challenge (otp_id c) (\<lambda>x. x\<lparr>otp_attempts := otp_attempts c + 1\<rparr>) w"
  | (right) c where "get_active_challenge w u p = Some c" "otp_attempts c < e_otp_max_attempts e"
      "\<not> otp_is_expired (e_now e) c" "hash_code e code = otp_code_hash c" "\<exists>c'. r = Inr c'" "otp_evaluated r"
      "w' = save_challenge (otp_id c) (\<lambda>x. x\<lparr>otp_consumed_at := Some (e_now e)\<rparr>) w"
  using assms unfolding otp_verify_def Let_def
  by (auto simp: otp_evaluated_def split: option.splits if_splits)

definition otp_budget :: "env \<Rightarrow> uuid \<Rightarrow> otp_purpose \<Rightarrow> world \<Rightarrow> nat" where
  "otp_budget e u p w =
     (case get_active_challenge w u p of None \<Rightarrow> 0 | Some c \<Rightarrow> e_otp_max_attempts e - otp_attempts c)"

lemma save_challenge_frame [simp]:
  "w_next (save_challenge i f w) = w_next w"
  "w_users (save_challenge i f w) = w_users w"
  "w_otp_challenges (save_challenge i f w) = update_where (\<lambda>c. otp_id c = i) f (w_otp_challenges w)"
  by (simp_all add: save_challenge_def)

lemma length_filter_update_le:
  assumes "\<And>x. p (f x) \<Longrightarrow> p x"
  shows "length (filter p (update_where q f xs)) \<le> length (filter p xs)"
  by (induction xs) (use assms in \<open>auto intro: le_SucI\<close>)

text \<open>Saving the active challenge: what is left open under its user and purpose, and the others.\<close>

lemma open_after_save:
  assumes "otp_wf w" "get_active_challenge w u p = Some c" "\<And>x. otp_id (f x) = otp_id x"
    "\<And>x. otp_user (f x) = otp_user x" "\<And>x. otp_purpose (f x) = otp_purpose x"
    "\<And>x. otp_consumed_at (f x) = None \<Longrightarrow> otp_consumed_at x = None"
  shows "filter (open_challenge u p) (w_otp_challenges (save_challenge (otp_id c) f w)) =
      (if otp_consumed_at (f c) = None then [f c] else [])"
    and "otp_wf (save_challenge (otp_id c) f w)"
proof -
  from assms(1) have d: "distinct (map otp_id (w_otp_challenges w))" by (simp add: otp_wf_def)
  from active_challenge_cases [OF assms(1), of u p] assms(2)
  have one: "filter (open_challenge u p) (w_otp_challenges w) = [c]" and c: "open_challenge u p c"
    by (metis option.distinct(1) option.inject)+
  show open': "filter (open_challenge u p) (w_otp_challenges (save_challenge (otp_id c) f w)) =
      (if otp_consumed_at (f c) = None then [f c] else [])"
    using filter_update_only [OF d one, of f] c assms(4,5) by (simp add: open_challenge_def)
  show "otp_wf (save_challenge (otp_id c) f w)"
    unfolding otp_wf_def
  proof (intro conjI allI)
    show "distinct (map otp_id (w_otp_challenges (save_challenge (otp_id c) f w)))"
      using d by (simp add: map_update_where assms(3))
    show "\<forall>x \<in> set (w_otp_challenges (save_challenge (otp_id c) f w)). otp_id x < w_next (save_challenge (otp_id c) f w)"
    proof
      fix x assume "x \<in> set (w_otp_challenges (save_challenge (otp_id c) f w))"
      then obtain r where "r \<in> set (w_otp_challenges w)" "otp_id x = otp_id r"
        by (auto simp: in_update_where_iff assms(3))
      with assms(1) show "otp_id x < w_next (save_challenge (otp_id c) f w)" by (simp add: otp_wf_def)
    qed
    fix u' p'
    have "length (filter (open_challenge u' p') (w_otp_challenges w)) \<le> 1"
      using assms(1) by (simp add: otp_wf_def)
    then show "length (filter (open_challenge u' p') (w_otp_challenges (save_challenge (otp_id c) f w))) \<le> 1"
      using length_filter_update_le [of "open_challenge u' p'" f "\<lambda>x. otp_id x = otp_id c" "w_otp_challenges w"]
        assms(4-6) by (simp add: open_challenge_def)
  qed
qed

lemma otp_verify_wf:
  assumes "otp_wf w" "otp_verify e u p code w = (r, w')"
  shows "otp_wf w'"
  using assms(2)
proof (cases rule: otp_verify_cases)
  case (wrong c)
  show ?thesis unfolding wrong(7) by (rule open_after_save [OF assms(1) wrong(1)]) simp_all
next
  case (right c)
  show ?thesis unfolding right(7) by (rule open_after_save [OF assms(1) right(1)]) simp_all
qed (use assms(1) in simp)

lemma otp_verify_budget:
  assumes "otp_wf w" "otp_verify e u p code w = (r, w')"
  shows "otp_evaluated r \<Longrightarrow> otp_budget e u p w' < otp_budget e u p w"
    and "\<not> otp_evaluated r \<Longrightarrow> w' = w"
proof -
  have "(otp_evaluated r \<longrightarrow> otp_budget e u p w' < otp_budget e u p w) \<and> (\<not> otp_evaluated r \<longrightarrow> w' = w)"
    using assms(2)
  proof (cases rule: otp_verify_cases)
    case (wrong c)
    let ?f = "\<lambda>x. x\<lparr>otp_attempts := otp_attempts c + 1\<rparr>"
    have open_c: "otp_consumed_at c = None"
      using active_challenge_cases [OF assms(1), of u p] wrong(1) by (auto simp: open_challenge_def)
    have "filter (open_challenge u p) (w_otp_challenges w') = [?f c]"
      unfolding wrong(7) using open_after_save(1) [OF assms(1) wrong(1), of ?f] open_c by simp
    then have "get_active_challenge w' u p = Some (?f c)" by (subst active_challenge_eq) auto
    with wrong show ?thesis by (simp add: otp_budget_def)
  next
    case (right c)
    let ?f = "\<lambda>x. x\<lparr>otp_consumed_at := Some (e_now e)\<rparr>"
    have "filter (open_challenge u p) (w_otp_challenges w') = []"
      unfolding right(7) using open_after_save(1) [OF assms(1) right(1), of ?f] by simp
    then have "get_active_challenge w' u p = None" by (subst active_challenge_eq) auto
    with right show ?thesis by (simp add: otp_budget_def)
  qed simp
  then show "otp_evaluated r \<Longrightarrow> otp_budget e u p w' < otp_budget e u p w"
    and "\<not> otp_evaluated r \<Longrightarrow> w' = w" by simp_all
qed

text \<open>An attempt: the code tried and the time.\<close>

definition otp_attempt ::
  "env \<Rightarrow> uuid \<Rightarrow> otp_purpose \<Rightarrow> world \<Rightarrow> datetime \<times> string \<Rightarrow> (otp_error + otp_challenge) \<times> world" where
  "otp_attempt e u p w a = otp_verify (e\<lparr>e_now := fst a\<rparr>) u p (snd a) w"

lemma otp_budget_now [simp]: "otp_budget (e\<lparr>e_now := t\<rparr>) u p w = otp_budget e u p w"
  by (simp add: otp_budget_def split: option.splits)

interpretation otp: budgeted "otp_attempt e u p" otp_wf otp_evaluated "otp_budget e u p" for e u p
proof unfold_locales
  fix s ev r s'
  assume wf: "otp_wf s" and at: "otp_attempt e u p s ev = (r, s')"
  note v = wf at [unfolded otp_attempt_def]
  show "otp_wf s'" by (rule otp_verify_wf [OF v])
  show "otp_budget e u p s' < otp_budget e u p s" if "otp_evaluated r"
    using otp_verify_budget(1) [OF v that] by simp
  show "otp_budget e u p s' \<le> otp_budget e u p s" if "\<not> otp_evaluated r"
    using otp_verify_budget(2) [OF v that] by simp
qed

lemma closed_none_open:
  "filter (open_challenge u p) (update_where (open_challenge u p) (\<lambda>c. c\<lparr>otp_consumed_at := Some t\<rparr>) cs) = []"
  by (induction cs) (auto simp: open_challenge_def)

lemma create_challenge_cases:
  assumes "create_challenge e u p w = ((ch, code), w')" "otp_wf w"
  shows "otp_wf w'" "get_active_challenge w' u p = Some ch" "otp_attempts ch = 0"
    "otp_code_hash ch = hash_code e code" "otp_expires_at ch = e_now e + minutes (int (e_otp_expiry_minutes e))"
    "code = generate_code e None" "w_users w' = w_users w" "w_sso_configs w' = w_sso_configs w"
    "w_team_memberships w' = w_team_memberships w"
proof -
  let ?closed = "update_where (open_challenge u p) (\<lambda>c. c\<lparr>otp_consumed_at := Some (e_now e)\<rparr>) (w_otp_challenges w)"
  from assms(1) have ch: "otp_id ch = w_next w" "open_challenge u p ch"
    "otp_attempts ch = 0" "otp_code_hash ch = hash_code e code"
    "otp_expires_at ch = e_now e + minutes (int (e_otp_expiry_minutes e))" "code = generate_code e None"
    and w': "w' = w\<lparr>w_otp_challenges := ?closed @ [ch], w_next := Suc (w_next w)\<rparr>"
    by (auto simp: create_challenge_def Let_def open_challenge_def)
  then show "otp_attempts ch = 0" "otp_code_hash ch = hash_code e code"
    "otp_expires_at ch = e_now e + minutes (int (e_otp_expiry_minutes e))" "code = generate_code e None"
    "w_users w' = w_users w" "w_sso_configs w' = w_sso_configs w" "w_team_memberships w' = w_team_memberships w"
    by simp_all
  have gone: "filter (open_challenge u p) ?closed = []"
    by (rule closed_none_open)
  then show "get_active_challenge w' u p = Some ch"
    using ch(2) by (subst active_challenge_eq [of _ _ _ "[ch]"]) (simp_all add: w')
  show "otp_wf w'" unfolding otp_wf_def
  proof (intro conjI allI)
    have ids: "map otp_id ?closed = map otp_id (w_otp_challenges w)" by (rule map_update_where) simp
    have "w_next w \<notin> otp_id ` set (w_otp_challenges w)"
      using assms(2) by (auto simp: otp_wf_def)
    then show "distinct (map otp_id (w_otp_challenges w'))"
      using assms(2) ch(1) ids by (simp add: otp_wf_def w')
    from arg_cong [OF ids, of set] have "otp_id ` set ?closed = otp_id ` set (w_otp_challenges w)" by simp
    with assms(2) have "\<forall>i \<in> otp_id ` set ?closed. i < w_next w" unfolding otp_wf_def by simp
    then have "\<forall>x \<in> set ?closed. otp_id x < w_next w" by blast
    then show "\<forall>c \<in> set (w_otp_challenges w'). otp_id c < w_next w'"
      using ch(1) by (auto simp: w' less_Suc_eq)
    fix u' p'
    show "length (filter (open_challenge u' p') (w_otp_challenges w')) \<le> 1"
    proof (cases "u' = u \<and> p' = p")
      case True
      with gone show ?thesis by (simp add: w')
    next
      case False
      then have "\<not> open_challenge u' p' ch" using ch(2) by (auto simp: open_challenge_def)
      moreover have "length (filter (open_challenge u' p') ?closed) \<le> length (filter (open_challenge u' p') (w_otp_challenges w))"
        by (rule length_filter_update_le) (simp add: open_challenge_def)
      moreover have "length (filter (open_challenge u' p') (w_otp_challenges w)) \<le> 1"
        using assms(2) by (simp add: otp_wf_def)
      ultimately show ?thesis by (simp add: w')
    qed
  qed
qed

text \<open>
  C26. A one-time password resists guessing and is used once. Whatever codes are tried, whenever,
  at most \<open>OTP_MAX_ATTEMPTS\<close> of the tries are compared with the stored hash, until a new code is
  created; after a try that succeeds none is. Creating a code closes the codes of the same user
  and purpose and keeps one open at most, and the code just created is accepted while it has not
  expired.
\<close>

theorem otp_attempts_bounded:
  assumes "otp_wf w"
  shows "length (filter otp_evaluated (fst (replies (otp_attempt e u p) w tries))) \<le> e_otp_max_attempts e \<and>
    (\<forall>code c w'. otp_verify e u p code w = (Inr c, w') \<longrightarrow>
       filter otp_evaluated (fst (replies (otp_attempt e u p) w' tries)) = []) \<and>
    (\<forall>ch code w'. create_challenge e u p w = ((ch, code), w') \<longrightarrow> otp_wf w' \<and>
       (0 < e_otp_max_attempts e \<longrightarrow> t < e_now e + minutes (int (e_otp_expiry_minutes e)) \<longrightarrow>
          (\<exists>c. fst (otp_attempt e u p w' (t, code)) = Inr c)))"
proof (intro conjI allI impI)
  have "otp_budget e u p w \<le> e_otp_max_attempts e" by (simp add: otp_budget_def split: option.splits)
  with otp.charged_at_most [OF assms, of e u p tries]
  show "length (filter otp_evaluated (fst (replies (otp_attempt e u p) w tries))) \<le> e_otp_max_attempts e"
    by (rule le_trans)
next
  fix code c w' assume v: "otp_verify e u p code w = (Inr c, w')"
  then obtain c0 where "get_active_challenge w u p = Some c0"
    "w' = save_challenge (otp_id c0) (\<lambda>x. x\<lparr>otp_consumed_at := Some (e_now e)\<rparr>) w"
    by (cases rule: otp_verify_cases) auto
  with open_after_save(1) [OF assms, of u p c0 "\<lambda>x. x\<lparr>otp_consumed_at := Some (e_now e)\<rparr>"]
  have "get_active_challenge w' u p = None" by (subst active_challenge_eq) auto
  then have "otp_budget e u p w' = 0" by (simp add: otp_budget_def)
  with otp.charged_at_most [OF otp_verify_wf [OF assms v], of e u p tries]
  show "filter otp_evaluated (fst (replies (otp_attempt e u p) w' tries)) = []" by simp
next
  fix ch code w' assume c: "create_challenge e u p w = ((ch, code), w')"
  note new = create_challenge_cases [OF c assms]
  show "otp_wf w'" by (rule new(1))
  assume "0 < e_otp_max_attempts e" "t < e_now e + minutes (int (e_otp_expiry_minutes e))"
  with new(2-6) show "\<exists>c. fst (otp_attempt e u p w' (t, code)) = Inr c"
    by (simp add: otp_attempt_def otp_verify_def otp_is_expired_def hash_code_def)
qed

theorem otp_attempts_bounded_witness:
  "let (cc, w) = create_challenge sample_env 5 Activation empty_world;
       tries = replicate 9 (e_now sample_env, ''123456'')
   in length (filter otp_evaluated (fst (replies (otp_attempt sample_env 5 Activation) w tries))) \<le> 5"
proof -
  obtain ch code w where c: "create_challenge sample_env 5 Activation empty_world = ((ch, code), w)"
    by (metis prod.exhaust)
  have wf: "otp_wf empty_world" by (simp add: otp_wf_def empty_world_def)
  from otp_attempts_bounded [OF create_challenge_cases(1) [OF c wf], of sample_env 5 Activation
      "replicate 9 (e_now sample_env, ''123456'')"] c
  show ?thesis by (simp add: sample_env_def)
qed

section \<open>TOTP login sessions\<close>

text \<open>
  A login session admits one TOTP guess. A call of \<open>mfa_verify_login\<close> that reaches a session
  by its token consumes the session before the code is looked at, so whatever the outcome, wrong
  code included, every later call with the token is answered 400, no token is issued and nothing
  is written.
\<close>

theorem mfa_session_single_attempt:
  assumes "distinct (map ms_token (w_mfa_sessions w))" "consume_login_session e token w = (Ok s, w1)"
    "mfa_verify_login e rq token code w = (res, w')" "6 \<le> length code" "length code \<le> 8"
    "6 \<le> length code'" "length code' \<le> 8"
  shows "mfa_verify_login e' rq' token code' w' =
    (Ok (detail_response 400 ''Invalid MFA session.''), w')"
proof -
  from assms(2) have s: "s \<in> set (w_mfa_sessions w1)" "ms_token s = token"
    and sessions: "\<exists>s0. s0 \<in> set (w_mfa_sessions w) \<and> ms_token s0 = token \<and>
      w_mfa_sessions w1 = update_where (\<lambda>r. ms_id r = ms_id s0)
        (\<lambda>r. r\<lparr>ms_consumed_at := Some (e_now e)\<rparr>) (w_mfa_sessions w)"
    by (auto simp: consume_login_session_def in_update_where_iff split: option.splits if_splits
        dest!: find_SomeD intro: bexI)
  have same: "w_mfa_sessions w' = w_mfa_sessions w1"
    using assms(2-5) by (auto simp: account_serializers mfa_verify_login_def save_user_def Let_def split: option.splits if_splits)
  obtain s0 where s0: "s0 \<in> set (w_mfa_sessions w)" "ms_token s0 = token"
    "w_mfa_sessions w1 = update_where (\<lambda>r. ms_id r = ms_id s0)
        (\<lambda>r. r\<lparr>ms_consumed_at := Some (e_now e)\<rparr>) (w_mfa_sessions w)" using sessions by blast
  have "find (\<lambda>s. ms_token s = token \<and> ms_consumed_at s = None) (w_mfa_sessions w1) = None"
  proof -
    have "ms_consumed_at r \<noteq> None" if "r \<in> set (w_mfa_sessions w1)" "ms_token r = token" for r
    proof -
      from that(1) obtain r0 where r0: "r0 \<in> set (w_mfa_sessions w)"
        "r = (if ms_id r0 = ms_id s0 then r0\<lparr>ms_consumed_at := Some (e_now e)\<rparr> else r0)"
        unfolding s0(3) in_update_where_iff by blast
      with that(2) have "ms_token r0 = token" by (auto split: if_splits)
      with assms(1) r0(1) s0(1,2) have "r0 = s0" by (auto simp: distinct_map inj_on_def)
      with r0(2) show ?thesis by simp
    qed
    then show ?thesis by (auto simp: find_None_iff)
  qed
  with assms(6,7) same show ?thesis by (simp add: account_serializers mfa_verify_login_def consume_login_session_def)
qed

section \<open>Onboarding\<close>

text \<open>Keys are handed out by the counter: those of the tables the onboarding touches are below it.\<close>

definition keys_below :: "world \<Rightarrow> bool" where
  "keys_below w \<longleftrightarrow>
     (\<forall>r \<in> set (w_roles w). ro_id r < w_next w \<and> ro_project r < w_next w) \<and>
     (\<forall>t \<in> set (w_teams w). tm_id t < w_next w \<and> tm_project t < w_next w) \<and>
     (\<forall>m \<in> set (w_team_memberships w). mb_team m < w_next w \<and> mb_user m < w_next w)"

text \<open>What the steps of the onboarding leave alone.\<close>

definition same_accounts :: "world \<Rightarrow> world \<Rightarrow> bool" where
  "same_accounts w w' \<longleftrightarrow> w_users w' = w_users w \<and> w_otp_challenges w' = w_otp_challenges w \<and>
     w_sso_configs w' = w_sso_configs w \<and> w_mfa_sessions w' = w_mfa_sessions w \<and> w_next w \<le> w_next w'"

lemma same_accounts_trans: "same_accounts w w1 \<Longrightarrow> same_accounts w1 w2 \<Longrightarrow> same_accounts w w2"
  by (simp add: same_accounts_def)

lemma find_append: "find q (xs @ ys) = (case find q xs of None \<Rightarrow> find q ys | Some x \<Rightarrow> Some x)"
  by (induction xs) auto

lemma add_membership_frame:
  "same_accounts w (add_membership e m w)" "w_roles (add_membership e m w) = w_roles w"
  "w_teams (add_membership e m w) = w_teams w" "w_team_memberships (add_membership e m w) = w_team_memberships w"
proof -
  obtain ls where "add_membership e m w = audited (w\<lparr>w_user_memberships := w_user_memberships w @ [m], w_next := Suc (w_next w)\<rparr>) ls"
    using on_membership_save_audited unfolding add_membership_def by blast
  then show "same_accounts w (add_membership e m w)" "w_roles (add_membership e m w) = w_roles w"
    "w_teams (add_membership e m w) = w_teams w" "w_team_memberships (add_membership e m w) = w_team_memberships w"
    by (simp_all add: audited_def same_accounts_def)
qed

lemma bootstrap_frame:
  assumes "bootstrap_project e prj tn w = (b, w')"
  shows "same_accounts w w'" "w_teams w' = w_teams w" "w_team_memberships w' = w_team_memberships w"
  using assms
  by (auto simp: bootstrap_project_def create_system_roles_def create_system_incident_states_def
      create_system_incident_severities_def create_default_probes_def same_accounts_def split: prod.splits)

lemma mk_system_role_fields:
  "ro_id (mk_system_role (e, i, t, d, ps) k) = i" "ro_permissions (mk_system_role (e, i, t, d, ps) k) = ps"
  by (simp_all add: mk_system_role_def)

lemma bootstrap_fresh_admin:
  assumes "bootstrap_project e prj tn w = (b, w')" "\<forall>r \<in> set (w_roles w). ro_project r \<noteq> prj"
  shows "\<exists>a rest. map_of (bs_roles b) ''admin'' = Some a \<and> w_roles w' = w_roles w @ a # rest \<and>
    ro_id a = w_next w \<and> ro_permissions a = [''*'']"
proof -
  have none: "find (\<lambda>r. role_key r = (prj, name)) (w_roles w) = None" for name
    using assms(2) by (auto simp: find_None_iff role_key_def)
  obtain rs ss vs ps n1 n2 n3 where
    g: "goc_each role_key mk_system_role (role_defaults e tn prj (w_next w)) (w_roles w) = (rs, w_roles w')"
    and b: "bs_roles b = zip (map fst SYSTEM_ROLES) rs"
    by (rule bootstrap_projectE [OF assms(1)]) (auto simp: )
  then have "rs = fst (goc_each role_key mk_system_role (role_defaults e tn prj (w_next w)) (w_roles w))"
    "w_roles w' = snd (goc_each role_key mk_system_role (role_defaults e tn prj (w_next w)) (w_roles w))"
    by simp_all
  then have "\<exists>r1 r2 r3. rs = [r1, r2, r3] \<and> w_roles w' = w_roles w @ [r1, r2, r3] \<and>
      ro_id r1 = w_next w \<and> ro_permissions r1 = [''*'']"
    by (simp add: role_defaults_def SYSTEM_ROLES_def ADMIN_PERMISSIONS_def with_fresh_def
        upt_rec [of _ "Suc (Suc (Suc _))"] get_or_create_def none find_append
        roles.key_mk mk_system_role_fields)
  with b show ?thesis by (auto simp: SYSTEM_ROLES_def)
qed

lemma new_user_fields [simp]:
  "usr_id (new_user e i em pw fn ln ac ve) = i" "usr_email (new_user e i em pw fn ln ac ve) = em"
  "usr_password (new_user e i em pw fn ln ac ve) = pw" "usr_is_active (new_user e i em pw fn ln ac ve) = ac"
  "usr_is_email_verified (new_user e i em pw fn ln ac ve) = ve"
  "\<not> usr_is_superuser (new_user e i em pw fn ln ac ve)" "\<not> usr_mfa_enabled (new_user e i em pw fn ln ac ve)"
  "\<not> usr_is_erased (new_user e i em pw fn ln ac ve)"
  by (simp_all add: new_user_def)

text \<open>The slug the loop returns is free, and the first free one in the order of suffixes.\<close>

lemma free_slug_fresh: "free_slug taken base k \<notin> set taken"
  by (induction taken base k rule: free_slug.induct) (subst free_slug.simps, simp)

lemma fresh_tenant_slug_fresh: "fresh_tenant_slug e name w \<notin> tn_slug ` set (w_tenants w)"
  using free_slug_fresh [of "map tn_slug (w_tenants w)"] by (simp add: fresh_tenant_slug_def Let_def)

text \<open>The steps of \<open>create_account\<close>.\<close>

lemma create_accountE:
  assumes "create_account e email pw tn fn ln w = (Ok (u, t, p), w')"
  obtains "\<forall>r \<in> set (w_users w). usr_email r \<noteq> normalize_email email"
    "u = new_user e (w_next w) (normalize_email email) (Some (e_make_password e pw)) fn ln False False"
    "w_users w' = w_users w @ [u]" "w_otp_challenges w' = w_otp_challenges w"
    "w_sso_configs w' = w_sso_configs w" "w_next w < w_next w'"
    "tn_slug t \<notin> tn_slug ` set (w_tenants w)"
    "keys_below w \<Longrightarrow> get_user_permissions w' u (pj_id p) = {''*''}"
proof -
  obtain r w1 where r: "create_user e email pw fn ln False False w = (r, w1)" by force
  with assms have u: "create_user e email pw fn ln False False w = (Ok u, w1)"
    by (cases r) (auto simp: create_account_def Let_def split: prod.splits)
  then have fresh: "\<forall>r \<in> set (w_users w). usr_email r \<noteq> normalize_email email"
    and u_def: "u = new_user e (w_next w) (normalize_email email) (Some (e_make_password e pw)) fn ln False False"
    and w1: "w1 = w\<lparr>w_users := w_users w @ [u], w_next := Suc (w_next w)\<rparr>"
    by (auto simp: create_user_def Let_def split: if_splits)
  define w2 where "w2 = w1\<lparr>w_tenants := w_tenants w1 @ [t], w_next := Suc (w_next w1)\<rparr>"
  define w3 where "w3 = w2\<lparr>w_projects := w_projects w2 @ [p], w_next := Suc (w_next w2)\<rparr>"
  define w4 where "w4 = add_membership e (new_membership e (w_next w3) (usr_id u) (tn_id t) True None []
      (Some (usr_created_at u))) w3"
  obtain b w5 where b: "bootstrap_project e (pj_id p) (tn_id t) w4 = (b, w5)" by force
  have p: "pj_id p = Suc (Suc (w_next w))"
    and rest: "w' = (case map_of (bs_roles b) ''admin'' of None \<Rightarrow> w5
      | Some r \<Rightarrow> (let (team, w6) = team_get_or_create e (tn_id t) (pj_id p)
                     ''Administrators'' ''Project owners and administrators'' w5
                  in snd (join_team e (tm_id team) (usr_id u) (ro_id r) (Some (usr_id u)) w6)))"
    using assms u b by (auto simp: create_account_def Let_def w1 w2_def w3_def w4_def
        split: prod.splits option.splits)
  have s3: "same_accounts w1 w3" by (simp add: w3_def w2_def same_accounts_def)
  have s4: "same_accounts w1 w4" unfolding w4_def
    by (rule same_accounts_trans [OF s3 add_membership_frame(1)])
  have tables: "w_roles w4 = w_roles w" "w_teams w4 = w_teams w" "w_team_memberships w4 = w_team_memberships w"
    unfolding w4_def add_membership_frame by (simp_all add: w3_def w2_def w1)
  note s5 = bootstrap_frame [OF b]
  have s6: "same_accounts w5 w'"
    unfolding rest by (auto simp: team_get_or_create_def join_team_def same_accounts_def get_or_create_def Let_def
        split: option.splits prod.splits)
  from same_accounts_trans [OF same_accounts_trans [OF s4 s5(1)] s6]
  have frame: "w_users w' = w_users w @ [u]" "w_otp_challenges w' = w_otp_challenges w"
    "w_sso_configs w' = w_sso_configs w" "w_next w < w_next w'"
    by (simp_all add: same_accounts_def w1)
  have "get_user_permissions w' u (pj_id p) = {''*''}" if k: "keys_below w"
  proof -
    have "\<forall>r \<in> set (w_roles w4). ro_project r \<noteq> pj_id p"
      using k tables(1) p by (auto simp: keys_below_def)
    from bootstrap_fresh_admin [OF b this] obtain a rs where a: "map_of (bs_roles b) ''admin'' = Some a"
      "w_roles w5 = w_roles w @ a # rs" "ro_id a = w_next w4" "ro_permissions a = [''*'']"
      by (auto simp: tables(1))
    have n: "w_next w < w_next w4" "w_next w4 \<le> w_next w5" using s4 s5(1) by (simp_all add: w1 same_accounts_def)
    obtain team w6 where team: "team_get_or_create e (tn_id t) (pj_id p) ''Administrators''
        ''Project owners and administrators'' w5 = (team, w6)" by force
    have "find (\<lambda>x. team_key x = (pj_id p, ''Administrators'')) (w_teams w) = None"
      using k p by (auto simp: find_None_iff team_key_def keys_below_def)
    with team s5(2) tables(2) have team': "tm_id team = w_next w5" "tm_project team = pj_id p"
      "w_teams w6 = w_teams w @ [team]" "w_roles w6 = w_roles w5" "w_team_memberships w6 = w_team_memberships w5"
      by (auto simp: team_get_or_create_def get_or_create_def mk_team_def)
    have "find (\<lambda>m. team_membership_key m = (tm_id team, usr_id u)) (w_team_memberships w) = None"
      using k n team'(1) by (auto simp: find_None_iff team_membership_key_def keys_below_def)
    then obtain m where m: "w_team_memberships w' = w_team_memberships w @ [m]" "mb_team m = tm_id team"
      "mb_user m = usr_id u" "mb_role m = ro_id a" "w_teams w' = w_teams w @ [team]" "w_roles w' = w_roles w5"
      using team' s5(3) tables(3) unfolding rest a(1) team
      by (auto simp: join_team_def get_or_create_def mk_team_membership_def)
    have "find (\<lambda>x. tm_id x = tm_id team) (w_teams w) = None" "find (\<lambda>r. ro_id r = ro_id a) (w_roles w) = None"
      "filter (\<lambda>m. mb_user m = usr_id u \<and> P m) (w_team_memberships w) = []" for P
      using k n team'(1) a(3) u_def by (auto simp: find_None_iff keys_below_def filter_empty_conv new_user_def)
    then have "project_memberships w' (usr_id u) (pj_id p) = [m]" "role_of w' (mb_role m) = Some a"
      using m team'(2) a(2) by (simp_all add: project_memberships_def team_of_def role_of_def find_append)
    moreover have "\<not> usr_is_superuser u" by (simp add: u_def new_user_def)
    ultimately show ?thesis by (simp add: get_user_permissions_def role_permissions_of_def a(4))
  qed
  moreover have "tn_slug t \<notin> tn_slug ` set (w_tenants w)"
    using assms u fresh_tenant_slug_fresh [of e tn w1]
    by (auto simp: create_account_def Let_def w1 split: prod.splits option.splits)
  ultimately show ?thesis using fresh u_def frame by (intro that)
qed

lemma create_account_ok:
  "create_user e email pw fn ln False False w = (Ok u, w1) \<Longrightarrow>
     \<exists>t p w'. create_account e email pw tn fn ln w = (Ok (u, t, p), w')"
  unfolding create_account_def by (simp only: Let_def case_prod_unfold sum.case prod.case fst_conv snd_conv) blast

text \<open>
  Signing up gives the founder the whole project and nothing else: in the new project the
  founder has exactly the permission \<open>*\<close>, so every permission check of the project passes, the
  tenant's slug was not taken, the e-mail address was not registered, and the account is inactive
  and unverified until the activation code comes back.
\<close>

theorem founder_is_admin:
  assumes "create_account e email pw tn fn ln w = (Ok (u, t, p), w')" "keys_below w"
  shows "get_user_permissions w' u (pj_id p) = {''*''} \<and>
    (\<forall>q. has_permission (get_user_permissions w' u (pj_id p)) q) \<and>
    tn_slug t \<notin> tn_slug ` set (w_tenants w) \<and>
    usr_email u \<notin> usr_email ` set (w_users w) \<and> w_users w' = w_users w @ [u] \<and>
    \<not> usr_is_active u \<and> \<not> usr_is_email_verified u"
  using assms(1)
proof (rule create_accountE)
  assume a: "u = new_user e (w_next w) (normalize_email email) (Some (e_make_password e pw)) fn ln False False"
    "\<forall>r \<in> set (w_users w). usr_email r \<noteq> normalize_email email" "w_users w' = w_users w @ [u]"
    "tn_slug t \<notin> tn_slug ` set (w_tenants w)"
    "keys_below w \<Longrightarrow> get_user_permissions w' u (pj_id p) = {''*''}"
  then have "usr_email u \<notin> usr_email ` set (w_users w)" by force
  moreover have "\<not> usr_is_active u" "\<not> usr_is_email_verified u" unfolding a(1) by simp_all
  moreover note a(3,4) a(5) [OF assms(2)]
  moreover have "has_permission {''*''} q" for q by (simp add: has_permission_def)
  ultimately show ?thesis by simp
qed

theorem founder_is_admin_witness:
  "\<exists>u t p w'. create_account sample_env ''ann@x.org'' ''secret-99'' ''Acme'' [] [] empty_world = (Ok (u, t, p), w') \<and>
     has_permission (get_user_permissions w' u (pj_id p)) ''monitor:delete''"
proof -
  obtain u t p w' where c: "create_account sample_env ''ann@x.org'' ''secret-99'' ''Acme'' [] [] empty_world = (Ok (u, t, p), w')"
  proof -
    obtain u w1 where "create_user sample_env ''ann@x.org'' ''secret-99'' [] [] False False empty_world = (Ok u, w1)"
      by (simp add: create_user_def Let_def empty_world_def)
    from create_account_ok [OF this] that show ?thesis by blast
  qed
  have "keys_below empty_world" by (simp add: keys_below_def empty_world_def)
  note facts = founder_is_admin [OF c this]
  show ?thesis by (rule exI, rule exI, rule exI, rule exI, rule conjI, rule c) (simp add: facts has_permission_def)
qed

lemma length_string_of_nat: "n < 10 ^ k \<Longrightarrow> 0 < k \<Longrightarrow> length (string_of_nat n) \<le> k"
proof (induction n arbitrary: k rule: string_of_nat.induct)
  case (1 n)
  show ?case
  proof (cases "n < 10")
    case False
    then obtain k' where k: "k = Suc k'" "0 < k'" using 1(2,3) by (cases k; cases "k - 1") auto
    then have "n div 10 < 10 ^ k'" using 1(2) by (simp add: less_mult_imp_div_less mult.commute)
    from 1(1) [OF False this k(2)] False k show ?thesis by (simp add: string_of_nat.simps [of n])
  qed (use 1(3) in \<open>simp add: string_of_nat.simps [of n]\<close>)
qed

lemma length_generate_code:
  assumes "\<forall>n > 0. e_random_below e n < n" "0 < e_otp_length e"
  shows "length (generate_code e None) = e_otp_length e"
proof -
  have "e_random_below e (10 ^ e_otp_length e) < 10 ^ e_otp_length e" using assms(1) by simp
  from length_string_of_nat [OF this assms(2)] show ?thesis
    by (simp add: generate_code_def zfill_def Let_def)
qed

lemma registerE:
  assumes "register e email pw tn fn ln w = (Ok resp, w')"
  obtains u t p wa ch code wb where
    "create_account e (lower email) pw tn fn ln w = (Ok (u, t, p), wa)"
    "create_challenge e (usr_id u) Activation wa = ((ch, code), wb)"
    "w_users w' = w_users wb" "w_otp_challenges w' = w_otp_challenges wb"
    "w_sso_configs w' = w_sso_configs wb" "w_next w' = w_next wb"
    "Mail (usr_email u) (''['' @ e_email_from_name e @ ''] Activez votre compte'')
       (''Activez votre compte '' @ e_email_from_name e @ newline @ newline
            @ ''Code : '' @ code @ newline
            @ ''Expire dans '' @ string_of_nat (e_otp_expiry_minutes e) @ '' minutes.'' @ newline @ newline
            @ ''Lien : '' @ e_frontend_url e @ ''/activate?email='' @ url_quote (usr_email u) @ ''&code='' @ code
            @ newline @ newline
            @ ''Trop de tentatives ? POST /api/v1/auth/resend-activation'') \<in> set (w_outbox w')"
  using assms
  by (auto simp: account_serializers register_def send_activation_otp_def send_html_email_def Let_def
      split: if_splits sum.splits prod.splits)

section \<open>From registration to login\<close>

lemma find_email_snoc:
  "\<forall>r \<in> set us. usr_email r \<noteq> email \<Longrightarrow> usr_email u = email \<Longrightarrow>
     find (\<lambda>r. usr_email r = email) (us @ [u]) = Some u"
  by (induction us) auto

lemma emails_after_save:
  "(\<And>r. usr_email (f r) = usr_email r) \<Longrightarrow> \<forall>r \<in> set us. usr_email r \<noteq> email \<Longrightarrow>
     \<forall>r \<in> set (update_where q f us). usr_email r \<noteq> email"
  by (induction us) auto

lemma no_sso_login:
  "\<forall>c \<in> set (w_sso_configs w). \<not> enforces_sso c \<Longrightarrow> \<not> user_requires_sso_login w u"
  by (auto simp: user_requires_sso_login_def)

text \<open>The activation of the only user with an address.\<close>

lemma activate_new_user:
  assumes "w_users w = us @ [u]" "\<forall>r \<in> set us. usr_email r \<noteq> lower email" "usr_email u = lower email"
    "\<not> usr_is_email_verified u" "4 \<le> length code" "length code \<le> 8"
    "get_active_challenge w (usr_id u) Activation = Some ch" "otp_attempts ch < e_otp_max_attempts e"
    "\<not> otp_is_expired (e_now e) ch" "otp_code_hash ch = hash_code e code"
    "activate e email code w = (r, w')"
  shows "\<exists>body us'. r = Ok (Response 200 (JObj body)) \<and> w_sso_configs w' = w_sso_configs w \<and>
    w_users w' = us' @ [u\<lparr>usr_is_active := True, usr_is_email_verified := True\<rparr>] \<and>
    (\<forall>r \<in> set us'. usr_email r \<noteq> lower email)"
proof -
  let ?f = "\<lambda>r. r\<lparr>usr_is_active := True, usr_is_email_verified := True\<rparr>"
  have found: "find_email w (lower email) = Some u"
    using find_email_snoc [OF assms(2,3)] assms(1) by (simp add: find_email_def)
  have ok: "\<exists>c. otp_verify e (usr_id u) Activation code w =
      (Inr c, save_challenge (otp_id ch) (\<lambda>r. r\<lparr>otp_consumed_at := Some (e_now e)\<rparr>) w)"
    using assms(7-10) by (simp add: otp_verify_def)
  have "w_users w' = update_where (\<lambda>r. usr_id r = usr_id u) ?f us @ [?f u]"
    "\<exists>body. r = Ok (Response 200 (JObj body))" "w_sso_configs w' = w_sso_configs w"
    using ok assms(1,4-6,11) found by (auto simp: account_serializers activate_def save_user_def Let_def save_challenge_def)
  moreover have "\<forall>r \<in> set (update_where (\<lambda>r. usr_id r = usr_id u) ?f us). usr_email r \<noteq> lower email"
    using assms(2) by (rule emails_after_save [rotated]) simp
  ultimately show ?thesis by auto
qed

text \<open>The login of an active, verified user without TOTP.\<close>

lemma login_active_user:
  assumes "w_users w = us @ [u]" "\<forall>r \<in> set us. usr_email r \<noteq> lower email" "usr_email u = lower email"
    "usr_is_email_verified u" "usr_is_active u" "\<not> usr_mfa_enabled u" "usr_password u = Some (e_make_password e0 pw)"
    "e_check_password e pw (e_make_password e0 pw)" "\<forall>c \<in> set (w_sso_configs w). \<not> enforces_sso c"
    "login e rq email pw w = (r, w')"
  shows "\<exists>body. r = Ok (Response 200 (JObj body)) \<and> map_of body ''access'' = Some (JStr (e_jwt_encode e (password_claims u)))"
proof -
  have found: "find_email w (lower email) = Some u"
    using find_email_snoc [OF assms(2,3)] assms(1) by (simp add: find_email_def)
  have "validate_login e email pw w = Ok u"
    using assms(1-8) found by (auto simp: validate_login_def check_password_def)
  with no_sso_login [OF assms(9)] assms(6,10) show ?thesis
    by (auto simp: login_def Let_def issue_tokens_def password_claims_def touch_login_def)
qed

lemma login_unverified:
  assumes "u \<in> set (w_users w)" "usr_email u = lower email" "\<not> usr_is_email_verified u"
  shows "login e rq email pw w = (Raise (ApiError 400 ''Please activate your account via the email OTP.''), w)"
proof -
  have "validate_login e email pw w = ValidationError ''Please activate your account via the email OTP.''"
    using assms by (auto simp: validate_login_def Let_def)
  then show ?thesis by (simp add: login_def)
qed



section \<open>Authentication\<close>

text \<open>
  Only live accounts authenticate. When a request gets a user, the user is active; and either
  the request carries a JWT that decodes to claims of that user, who is verified and not erased -
  or a key that is stored under the hash of the token, not revoked and not expired, and the user
  is the one who created it. (For a key the model does not, because the code does not, require
  that its creator is verified or not erased.) A request without a bearer token has no user.
\<close>

theorem authenticated_users_active:
  assumes "authenticate e rq w = (Ok rq', w')" "req_user rq' = Some u"
  shows "usr_is_active u \<and> u \<in> set (w_users w) \<and> startswith (lower (req_authorization rq)) ''bearer '' \<and>
    (let token = strip (drop 7 (req_authorization rq))
     in if startswith token ''ok_''
        then (\<exists>k \<in> set (w_api_keys w). req_api_key rq' = Some k \<and> ak_key_hash k = e_sha256 e token \<and>
               ak_revoked_at k = None \<and> ak_created_by k = Some (usr_id u) \<and>
               (\<forall>t. ak_expires_at k = Some t \<longrightarrow> e_now e \<le> t))
        else (\<exists>claims. e_jwt_decode e token = Some claims \<and> jc_user claims = usr_id u \<and>
               req_sso_projects rq' = jc_sso_projects claims \<and>
               usr_is_email_verified u \<and> \<not> usr_is_erased u))"
proof (cases "startswith (lower (req_authorization rq)) ''bearer ''")
  case True
  let ?token = "strip (drop 7 (req_authorization rq))"
  have find_user: "u \<in> set (w_users w) \<and> usr_id u = i" if "user_of w i = Some u" for i
    using that by (auto simp: user_of_def dest: find_SomeD)
  show ?thesis
  proof (cases "startswith ?token ''ok_''")
    case key: True
    with True assms(1) have "authenticate_api_key e ?token rq w = (Ok rq', w')"
      by (simp add: authenticate_def Let_def)
    then obtain k where k: "find (\<lambda>k. ak_key_hash k = e_sha256 e ?token \<and> ak_revoked_at k = None) (w_api_keys w) = Some k"
      "\<not> (case ak_expires_at k of Some t \<Rightarrow> t < e_now e | None \<Rightarrow> False)"
      "Option.bind (ak_created_by k) (user_of w) = Some u" "usr_is_active u" "req_api_key rq' = Some k"
      using assms(2)
      by (auto simp: authenticate_api_key_def Let_def unauthorized_def split: option.splits if_splits)
    from find_SomeD [OF k(1)] k(2-5) find_user True key show ?thesis
      by (auto simp: Let_def bind_eq_Some_conv split: option.splits)
  next
    case False
    with True assms(1) have "authenticate_jwt e ?token rq w = (Ok rq', w')"
      by (simp add: authenticate_def Let_def)
    with assms(2) obtain claims where "e_jwt_decode e ?token = Some claims" "user_of w (jc_user claims) = Some u"
      "usr_is_active u" "usr_is_email_verified u" "\<not> usr_is_erased u" "req_sso_projects rq' = jc_sso_projects claims"
      by (auto simp: authenticate_jwt_def jwt_user_def unauthorized_def split: option.splits sum.splits if_splits)
    with find_user True False show ?thesis by (auto simp: Let_def)
  qed
next
  case False
  with assms show ?thesis by (auto simp: authenticate_def Let_def)
qed

theorem authenticated_users_active_witness:
  "\<exists>rq' w'. authenticate (sample_env\<lparr>e_jwt_decode := \<lambda>_. Some (password_claims sample_user)\<rparr>)
       (bare_request\<lparr>req_authorization := ''bearer abc''\<rparr>) (empty_world\<lparr>w_users := [sample_user]\<rparr>) = (Ok rq', w') \<and>
     req_user rq' = Some sample_user \<and> usr_is_active sample_user"
proof -
  let ?e = "sample_env\<lparr>e_jwt_decode := \<lambda>_. Some (password_claims sample_user)\<rparr>"
  let ?rq = "bare_request\<lparr>req_authorization := ''bearer abc''\<rparr>"
  let ?w = "empty_world\<lparr>w_users := [sample_user]\<rparr>"
  obtain rq' w' where a: "authenticate ?e ?rq ?w = (Ok rq', w')" "req_user rq' = Some sample_user"
    by (simp add: authenticate_def authenticate_jwt_def jwt_user_def user_of_def password_claims_def
        startswith_def lower_def lower_char_def strip_def is_space_def sample_user_def)
  from authenticated_users_active [OF a] a show ?thesis by blast
qed

section \<open>Invitations\<close>

lemma save_membership_frame:
  "w_users (save_membership e put m w) = w_users w"
proof -
  obtain ls where "save_membership e put m w =
      audited (w\<lparr>w_user_memberships := update_where (\<lambda>r. um_id r = um_id m)
        (\<lambda>r. put r\<lparr>um_updated_at := e_now e\<rparr>) (w_user_memberships w)\<rparr>) ls"
    unfolding save_membership_def using on_membership_save_audited by blast
  then show ?thesis by (simp add: audited_def)
qed

lemma add_membership_users [simp]: "w_users (add_membership e m w) = w_users w"
  using add_membership_frame(1) [where w = w and e = e and m = m] by (simp add: same_accounts_def)

lemma invite_newcomer:
  assumes "invite e rq email fn ln w = (Ok (Response 201 j), w1)" "find_email w (lower email) = None"
  shows "w_users w1 = w_users w @ [new_user e (w_next w) (lower email) (Some []) fn ln True False]"
  using assms
  by (auto simp: invite_def detail_response_def send_invitation_def send_html_email_def Let_def
      split: sum.splits option.splits if_splits prod.splits)

lemma accept_with_usable_password:
  assumes "find_email w (lower email) = Some u" "has_usable_password u"
    "accept_invite e token email pw w = (Ok (Response 200 j), w')"
  shows "w_users w' = w_users w"
    "\<exists>body. j = JObj body \<and> map_of body ''access'' = Some (JStr (e_jwt_encode e (password_claims u)))"
  using assms
  by (auto simp: account_serializers accept_invite_def detail_response_def Let_def save_membership_frame issue_tokens_def
      split: sum.splits option.splits if_splits prod.splits)

text \<open>
  An invited newcomer is accepted but cannot get in. Inviting an address nobody has creates a
  user whose password is the empty text; since the code treats every hash but Django's unusable
  marker as usable, accepting the invitation - with or without a password - sets no password and
  does not verify the address. It answers 200 with an access token, but every request with that
  token is refused because the address is not verified, and so is a login with any password.
\<close>

theorem invited_newcomer_locked_out:
  assumes "invite e rq email fn ln w = (Ok (Response 201 j), w1)" "find_email w (lower email) = None"
    "\<forall>r \<in> set (w_users w). usr_id r < w_next w"
    "accept_invite e' token email pw w1 = (Ok (Response 200 j'), w2)"
  shows "\<exists>u body. find_email w2 (lower email) = Some u \<and> usr_id u = w_next w \<and> usr_password u = Some [] \<and>
    j' = JObj body \<and> map_of body ''access'' = Some (JStr (e_jwt_encode e' (password_claims u))) \<and>
    jwt_user e'' (password_claims u) w2 = unauthorized ''Email address is not verified.'' \<and>
    fst (login e'' rq' email pw' w2) = Raise (ApiError 400 ''Please activate your account via the email OTP.'')"
proof -
  let ?u = "new_user e (w_next w) (lower email) (Some []) fn ln True False"
  have users: "w_users w1 = w_users w @ [?u]" by (rule invite_newcomer [OF assms(1,2)])
  have others: "\<forall>r \<in> set (w_users w). usr_email r \<noteq> lower email"
    using assms(2) by (auto simp: find_email_def find_None_iff)
  have found: "find_email w1 (lower email) = Some ?u"
    unfolding find_email_def users by (rule find_email_snoc [OF others]) simp
  have usable: "has_usable_password ?u" by (simp add: has_usable_password_def)
  note acc = accept_with_usable_password [OF found usable assms(4)]
  have by_id: "user_of w2 (w_next w) = Some ?u"
  proof -
    have "find (\<lambda>x. usr_id x = w_next w) (w_users w) = None"
      using assms(3) by (auto simp: find_None_iff)
    then show ?thesis by (simp add: user_of_def acc(1) users find_append)
  qed
  have "jwt_user e'' (password_claims ?u) w2 = unauthorized ''Email address is not verified.''"
    by (simp add: jwt_user_def password_claims_def by_id)
  moreover have "fst (login e'' rq' email pw' w2) =
      Raise (ApiError 400 ''Please activate your account via the email OTP.'')"
    using login_unverified [of ?u w2 email e'' rq' pw'] by (simp add: acc(1) users)
  moreover have "find_email w2 (lower email) = Some ?u" using found by (simp add: find_email_def acc(1))
  ultimately show ?thesis using acc(2) by (intro exI [of _ ?u]) auto
qed

text \<open>An administrator who belongs to tenant 1.\<close>

definition boss :: user where
  "boss = sample_user\<lparr>usr_is_superuser := True\<rparr>"

definition boss_world :: world where
  "boss_world = empty_world\<lparr>w_users := [boss], w_next := 10,
     w_user_memberships := [new_membership sample_env 6 5 1 True None [] (Some 0)]\<rparr>"

lemma boss_world_frame [simp]:
  "w_users boss_world = [boss]" "w_next boss_world = 10" "w_audit_logs boss_world = []" "usr_id boss = 5"
  "w_user_memberships boss_world = [new_membership sample_env 6 5 1 True None [] (Some 0)]"
  "usr_email boss = ''ann@x.org''" "usr_username boss = ''ann''"
  by (simp_all add: boss_world_def boss_def sample_user_def empty_world_def)

lemma boss_may: "require_permission boss_world pm a (bare_request\<lparr>req_user := Some boss\<rparr>) ob = Ok boss"
  by (simp add: require_permission_def check_permissions_def evaluate_def boss_def split: option.splits)

lemma boss_invites:
  "\<exists>j w1. invite sample_env (bare_request\<lparr>req_user := Some boss\<rparr>) ''bob@x.org'' [] [] boss_world =
     (Ok (Response 201 j), w1) \<and>
   (\<exists>m \<in> set (w_user_memberships w1). um_user m = 10 \<and> um_invitation_token m = ''tok'' @ string_of_nat 11 \<and>
      um_accepted_at m = None)"
proof -
  have low: "lower ''bob@x.org'' = ''bob@x.org''" by (simp add: lower_def lower_char_def)
  let ?w1 = "boss_world\<lparr>w_users := [boss, new_user sample_env 10 ''bob@x.org'' (Some []) [] [] True False], w_next := 11\<rparr>"
  let ?inv = "new_membership sample_env 11 10 1 False (Some 5) (''tok'' @ string_of_nat 11) None"
  obtain ls where ls: "add_membership sample_env ?inv ?w1 = audited (?w1\<lparr>w_user_memberships :=
      w_user_memberships ?w1 @ [?inv], w_next := Suc (w_next ?w1)\<rparr>) ls"
    unfolding add_membership_def using on_membership_save_audited by blast
  have tok: "e_token sample_env n = ''tok'' @ string_of_nat n" "e_mail_ok sample_env r" for n r
    by (simp_all add: sample_env_def)
  show ?thesis
    by (simp add: invite_def boss_may low find_email_def new_membership_def Let_def send_invitation_def
        send_html_email_def tok ls [unfolded new_membership_def, simplified] audited_def)
qed

lemma accept_invite_ok:
  assumes "find_email w (lower email) = Some u" "has_usable_password u"
    "m \<in> set (w_user_memberships w)" "um_user m = usr_id u" "um_invitation_token m = token" "um_accepted_at m = None"
  shows "\<exists>j w'. accept_invite e token email [] w = (Ok (Response 200 j), w')"
proof -
  have "find (\<lambda>m. um_user m = usr_id u \<and> um_invitation_token m = token \<and> um_accepted_at m = None)
      (w_user_memberships w) \<noteq> None"
    using assms(3-6) by (auto simp: find_None_iff)
  then obtain m' where "find (\<lambda>m. um_user m = usr_id u \<and> um_invitation_token m = token \<and> um_accepted_at m = None)
      (w_user_memberships w) = Some m'" by auto
  with assms(1,2) show ?thesis by (auto simp: account_serializers accept_invite_def Let_def)
qed

theorem invited_newcomer_locked_out_witness:
  "\<exists>j w1 j' w2 u. invite sample_env (bare_request\<lparr>req_user := Some boss\<rparr>) ''bob@x.org'' [] [] boss_world =
       (Ok (Response 201 j), w1) \<and>
     accept_invite sample_env (''tok'' @ string_of_nat 11) ''bob@x.org'' [] w1 = (Ok (Response 200 j'), w2) \<and>
     find_email w2 ''bob@x.org'' = Some u \<and>
     jwt_user sample_env (password_claims u) w2 = unauthorized ''Email address is not verified.''"
proof -
  have low: "lower ''bob@x.org'' = ''bob@x.org''" by (simp add: lower_def lower_char_def)
  obtain j w1 m where inv: "invite sample_env (bare_request\<lparr>req_user := Some boss\<rparr>) ''bob@x.org'' [] [] boss_world =
      (Ok (Response 201 j), w1)" and
    m: "m \<in> set (w_user_memberships w1)" "um_user m = 10" "um_invitation_token m = ''tok'' @ string_of_nat 11"
      "um_accepted_at m = None"
    using boss_invites by blast
  have none: "find_email boss_world (lower ''bob@x.org'') = None" by (simp add: low find_email_def)
  have users: "w_users w1 = [boss, new_user sample_env 10 (lower ''bob@x.org'') (Some []) [] [] True False]"
    using invite_newcomer [OF inv none] by simp
  then have "find_email w1 (lower ''bob@x.org'') = Some (new_user sample_env 10 (lower ''bob@x.org'') (Some []) [] [] True False)"
    by (simp add: find_email_def low)
  from accept_invite_ok [OF this _ m(1) _ m(3,4), where e = sample_env] m(2) obtain j' w2 where
    acc: "accept_invite sample_env (''tok'' @ string_of_nat 11) ''bob@x.org'' [] w1 = (Ok (Response 200 j'), w2)"
    by (auto simp: has_usable_password_def)
  from invited_newcomer_locked_out [OF inv none _ acc, where e'' = sample_env and rq' = bare_request
      and pw' = "[]"] obtain u where "find_email w2 ''bob@x.org'' = Some u"
    "jwt_user sample_env (password_claims u) w2 = unauthorized ''Email address is not verified.''"
    unfolding low by auto
  with inv acc show ?thesis by blast
qed

section \<open>Weak spots of the account settings\<close>

text \<open>
  A stolen token is enough to switch TOTP off. Disabling it asks for the password and a
  current code, but starting a new setup asks for neither and switches TOTP off at once: after
  \<open>mfa_setup\<close> by any authenticated request of a user with TOTP, a login with the password alone
  yields tokens, with no second factor.
\<close>

theorem mfa_setup_drops_second_factor:
  assumes "mfa_setup e secret rq w = (Ok resp, w1)" "req_user rq = Some u" "w_users w = us @ [u]"
    "\<forall>r \<in> set us. usr_email r \<noteq> lower email \<and> usr_id r \<noteq> usr_id u" "usr_email u = lower email"
    "usr_is_email_verified u" "usr_is_active u"
    "check_password e' u pw" "\<not> user_requires_sso_login w u"
    "login e' rq' email pw w1 = (r, w2)"
  shows "\<exists>body. r = Ok (Response 200 (JObj body)) \<and>
    map_of body ''access'' = Some (JStr (e_jwt_encode e' (password_claims u)))"
proof -
  let ?u = "u\<lparr>usr_mfa_secret := secret, usr_mfa_enabled := False\<rparr>"
  have other: "update_where (\<lambda>r. usr_id r = usr_id u) f us = us" for f
    using assms(4) by (induction us) auto
  have w1: "w1 = save_user (\<lambda>r. r\<lparr>usr_mfa_secret := secret, usr_mfa_enabled := False\<rparr>) (usr_id u) w"
    using assms(1,2) by (simp add: mfa_setup_def is_authenticated_def)
  have users: "w_users w1 = us @ [?u]" by (simp add: w1 save_user_def assms(3) other)
  have found: "find_email w1 (lower email) = Some ?u"
    unfolding find_email_def users by (rule find_email_snoc) (use assms(4,5) in auto)
  have "validate_login e' email pw w1 = Ok ?u"
    using found users assms(4-8) by (auto simp: validate_login_def check_password_def)
  moreover have "\<not> user_requires_sso_login w1 ?u"
  proof -
    have "member_projects w1 i = member_projects w i" for i
      by (simp add: member_projects_def w1 save_user_def team_of_def)
    with assms(9) show ?thesis by (auto simp: user_requires_sso_login_def w1 save_user_def split: if_splits)
  qed
  ultimately show ?thesis
    using assms(10) by (auto simp: login_def Let_def issue_tokens_def password_claims_def touch_login_def)
qed

theorem mfa_setup_drops_second_factor_witness:
  "\<exists>u r w1 w2 body. usr_mfa_enabled u \<and>
     mfa_setup sample_env ''NEWSECRET'' (bare_request\<lparr>req_user := Some u\<rparr>) (empty_world\<lparr>w_users := [u]\<rparr>) = (Ok r, w1) \<and>
     login sample_env bare_request ''ann@x.org'' ''pw'' w1 = (Ok (Response 200 (JObj body)), w2) \<and>
     map_of body ''access'' \<noteq> None"
proof -
  let ?u = "sample_user\<lparr>usr_mfa_enabled := True, usr_mfa_secret := ''OLD''\<rparr>"
  obtain resp w1 where s: "mfa_setup sample_env ''NEWSECRET'' (bare_request\<lparr>req_user := Some ?u\<rparr>)
      (empty_world\<lparr>w_users := [?u]\<rparr>) = (Ok resp, w1)"
    by (simp add: mfa_setup_def is_authenticated_def)
  obtain r w2 where l: "login sample_env bare_request ''ann@x.org'' ''pw'' w1 = (r, w2)" by force
  have low: "lower ''ann@x.org'' = ''ann@x.org''" by (simp add: lower_def lower_char_def)
  have "\<exists>body. r = Ok (Response 200 (JObj body)) \<and>
      map_of body ''access'' = Some (JStr (e_jwt_encode sample_env (password_claims ?u)))"
    by (rule mfa_setup_drops_second_factor [OF s _ _ _ _ _ _ _ _ l, where us = "[]"])
      (simp_all add: low sample_user_def check_password_def sample_env_def empty_world_def
         user_requires_sso_login_def)
  with s l show ?thesis by (intro exI [of _ ?u] exI [of _ resp] exI [of _ w1] exI [of _ w2]) auto
qed

theorem mfa_session_single_attempt_witness:
  "let w = empty_world\<lparr>w_users := [sample_user], w_mfa_sessions :=
       [\<lparr>ms_id = 4, ms_user = 5, ms_token = ''t'', ms_expires_at = e_now sample_env + 1,
         ms_consumed_at = None, ms_created_at = 0\<rparr>]\<rparr>;
       w' = snd (mfa_verify_login sample_env bare_request ''t'' ''000000'' w)
   in mfa_verify_login sample_env bare_request ''t'' ''123456'' w' =
        (Ok (detail_response 400 ''Invalid MFA session.''), w')"
proof -
  let ?w = "empty_world\<lparr>w_users := [sample_user], w_mfa_sessions :=
       [\<lparr>ms_id = 4, ms_user = 5, ms_token = ''t'', ms_expires_at = e_now sample_env + 1,
         ms_consumed_at = None, ms_created_at = 0\<rparr>]\<rparr>"
  obtain s w1 where c: "consume_login_session sample_env ''t'' ?w = (Ok s, w1)"
    by (simp add: consume_login_session_def mfa_is_expired_def)
  obtain r w' where m: "mfa_verify_login sample_env bare_request ''t'' ''000000'' ?w = (r, w')" by force
  have "mfa_verify_login sample_env bare_request ''t'' ''123456'' w' =
      (Ok (detail_response 400 ''Invalid MFA session.''), w')"
    by (rule mfa_session_single_attempt [OF _ c m]) simp_all
  with m show ?thesis by (simp add: Let_def)
qed

end
