(* ===== verification/Middleware.thy ===== *)
theory Middleware
  imports Accounts SsoEnforcement
begin

text \<open>
  \<open>core/middleware.py\<close>: the three middlewares every request passes, in the order of the settings
  (tenant, project, rate limit), around the rest of the server, which is the argument
  \<open>get_response\<close>. The user of the request is at this point the user of the session, if any: JWT
  and API keys are looked at later, by the view.
\<close>

type_synonym handler = "request \<Rightarrow> world \<Rightarrow> response \<times> world"

text \<open>The rate limit headers of a reply; a reply that does not come from the innermost middleware has none.\<close>

record rate_headers =
  rh_limit :: int
  rh_remaining :: int
  rh_reset :: int

type_synonym reply = "response \<times> rate_headers option"

section \<open>Paths\<close>

definition SKIP_PATHS :: "string list" where
  "SKIP_PATHS = [
     ''/admin/'', ''/healthz'', ''/api/v1/auth/register'', ''/api/v1/auth/login'', ''/api/v1/auth/activate'',
     ''/api/v1/auth/resend-activation'', ''/api/v1/auth/refresh'', ''/api/v1/auth/token/verify'',
     ''/api/v1/auth/password-reset'', ''/api/v1/auth/password-reset/confirm'', ''/api/v1/auth/accept-invite'',
     ''/api/v1/openapi.json'', ''/api/v1/docs'', ''/api/v1/redoc'', ''/api/v1/sso/discover/'']"

definition SKIP_PREFIXES :: "string list" where
  "SKIP_PREFIXES = [
     ''/api/v1/sso/metadata/'', ''/api/v1/sso/login/'', ''/api/v1/sso/acs/'', ''/api/v1/sso/slo/'', ''/scim/v2/'']"

definition should_skip :: "string \<Rightarrow> bool" where
  "should_skip path =
     (if path \<in> set SKIP_PATHS then True
      else if list_ex (startswith path) SKIP_PREFIXES then True
      else startswith path ''/status/'')"

section \<open>Tenant\<close>

definition resolve_tenant :: "world \<Rightarrow> request \<Rightarrow> tenant option" where
  "resolve_tenant w rq =
     (case req_x_tenant_id rq of
        Some i \<Rightarrow> find (\<lambda>t. tn_id t = i) (w_tenants w)
      | None \<Rightarrow>
          (let host = hd (split_on CHR '':'' (req_host rq));
               parts = split_on CHR ''.'' host;
               by_slug = (if length parts > 2
                          then find (\<lambda>t. tn_slug t = hd parts) (w_tenants w) else None)
           in case by_slug of
                Some t \<Rightarrow> Some t
              | None \<Rightarrow>
                  (case req_user rq of
                     None \<Rightarrow> None
                   | Some u \<Rightarrow>
                       (case find (\<lambda>m. um_user m = usr_id u \<and> um_is_owner m \<and> um_accepted_at m \<noteq> None)
                               (w_user_memberships w) of
                          None \<Rightarrow> None
                        | Some m \<Rightarrow> tenant_of w (um_tenant m)))))"

definition set_rls_context :: "tenant \<Rightarrow> world \<Rightarrow> world" where
  "set_rls_context t w = w\<lparr>w_rls_tenant := Some (tn_id t)\<rparr>"

definition is_member :: "world \<Rightarrow> uuid \<Rightarrow> uuid \<Rightarrow> bool" where
  "is_member w u tenant =
     exists_row (\<lambda>m. um_user m = u \<and> um_tenant m = tenant \<and> um_accepted_at m \<noteq> None) (w_user_memberships w)"

definition tenant_middleware ::
  "(request \<Rightarrow> world \<Rightarrow> reply \<times> world) \<Rightarrow> request \<Rightarrow> world \<Rightarrow> reply \<times> world" where
  "tenant_middleware get_response rq w =
     (if should_skip (req_path rq) then get_response rq w
      else case resolve_tenant w rq of
             None \<Rightarrow> get_response rq w
           | Some tenant \<Rightarrow>
               (if tn_status tenant \<noteq> TenantActive
                then ((problem ''tenant_suspended'' ''Tenant Suspended'' 403 ''This tenant is suspended.'', None), w)
                else
                  (let rq1 = rq\<lparr>req_tenant := Some tenant\<rparr>;
                       w1 = set_rls_context tenant w;
                       w2 = (case req_user rq of
                               Some u \<Rightarrow> set_current_actor (Some (UserActor (usr_id u))) (Some (req_meta rq)) w1
                             | None \<Rightarrow> w1)
                   in if (case req_user rq of
                            Some u \<Rightarrow> \<not> usr_is_superuser u \<and> \<not> is_member w2 (usr_id u) (tn_id tenant)
                          | None \<Rightarrow> False)
                      then ((problem ''permission_denied'' ''Permission Denied'' 403
                               ''You are not a member of this tenant.'', None), w2)
                      else (case get_response rq1 w2 of (r, w3) \<Rightarrow> (r, clear_current_actor w3)))))"

section \<open>Project\<close>

definition resolve_project :: "world \<Rightarrow> request \<Rightarrow> tenant \<Rightarrow> project option" where
  "resolve_project w rq tenant =
     (case req_x_project_id rq of
        Some i \<Rightarrow> find (\<lambda>p. pj_id p = i \<and> pj_tenant p = tn_id tenant \<and> pj_is_active p) (w_projects w)
      | None \<Rightarrow>
          first_row (order_by pj_created_at
            (filter (\<lambda>p. pj_tenant p = tn_id tenant \<and> pj_is_active p) (w_projects w))))"

definition check_sso_enforcement :: "world \<Rightarrow> request \<Rightarrow> project \<Rightarrow> response option" where
  "check_sso_enforcement w rq p =
     (if req_user rq = None then None
      else if \<not> project_requires_sso w (pj_id p) then None
      else if has_sso_access rq (pj_id p) then None
      else Some (problem ''sso_required'' ''SSO Required'' 406
        ''This project requires SSO authentication. Log in via SAML and include the SSO-issued token.''))"

definition project_middleware ::
  "(request \<Rightarrow> world \<Rightarrow> reply \<times> world) \<Rightarrow> request \<Rightarrow> world \<Rightarrow> reply \<times> world" where
  "project_middleware get_response rq w =
     (if should_skip (req_path rq) then get_response rq w
      else case req_tenant rq of
             None \<Rightarrow> get_response rq w
           | Some tenant \<Rightarrow>
               (case resolve_project w rq tenant of
                  None \<Rightarrow> get_response rq w
                | Some p \<Rightarrow>
                    (let rq1 = rq\<lparr>req_project := Some p\<rparr>
                     in case check_sso_enforcement w rq1 p of
                          Some blocked \<Rightarrow> ((blocked, None), w)
                        | None \<Rightarrow> get_response rq1 w)))"

section \<open>Rate limit\<close>

definition RATE_LIMITS :: "(string \<times> int) list" where
  "RATE_LIMITS = [(''free'', 100), (''growth'', 500), (''scale'', 1000), (''enterprise'', 5000)]"

definition anon_limit :: int where
  "anon_limit = 60"

text \<open>The length of a window, in seconds.\<close>

definition rate_window :: int where
  "rate_window = 60"

definition rate_resolve :: "request \<Rightarrow> int \<times> string" where
  "rate_resolve rq =
     (case req_user rq of
        Some u \<Rightarrow>
          (let plan = (case req_tenant rq of Some t \<Rightarrow> tn_plan t | None \<Rightarrow> ''free'')
           in (case map_of RATE_LIMITS (lower plan) of Some n \<Rightarrow> n | None \<Rightarrow> 100,
               ''user:'' @ string_of_nat (usr_id u)))
      | None \<Rightarrow>
          (let ip = (case rq_xff (req_meta rq) of
                       Some xff \<Rightarrow> (if xff \<noteq> [] then strip (hd (split_on CHR '','' xff))
                                    else case rq_remote_addr (req_meta rq) of Some a \<Rightarrow> a | None \<Rightarrow> ''unknown'')
                     | None \<Rightarrow> (case rq_remote_addr (req_meta rq) of Some a \<Rightarrow> a | None \<Rightarrow> ''unknown''))
           in (anon_limit, ''ip:'' @ ip)))"

definition rate_key :: "string \<Rightarrow> int \<Rightarrow> string" where
  "rate_key key now = ''rl:'' @ key @ '':'' @ string_of_int (now div rate_window)"

text \<open>
  Counting a request of a key; \<open>cache_up\<close> says whether the cache answers. \<open>now\<close> is
  \<open>int(time.time())\<close>.
\<close>

definition count_request :: "env \<Rightarrow> bool \<Rightarrow> string \<Rightarrow> world \<Rightarrow> int \<times> world" where
  "count_request e cache_up key w =
     (let now = total_seconds_floor (e_now e); k = rate_key key now
      in if cache_up
         then (let num = (case cache_get (e_now e) w k of Some n \<Rightarrow> n | None \<Rightarrow> 0) + 1
               in (num, cache_set (e_now e) k num (seconds (rate_window * 2)) w))
         else (0, w))"

definition rate_limit_middleware :: "env \<Rightarrow> bool \<Rightarrow> handler \<Rightarrow> request \<Rightarrow> world \<Rightarrow> reply \<times> world" where
  "rate_limit_middleware e cache_up get_response rq w =
     (let (limit, key) = rate_resolve rq;
          now = total_seconds_floor (e_now e);
          window_reset = now + rate_window;
          (num, w1) = count_request e cache_up key w;
          headers = \<lparr>rh_limit = limit, rh_remaining = max 0 (limit - num), rh_reset = window_reset\<rparr>
      in if num > limit
         then ((Response 429 (JObj
                  [(''type'', JStr ''rate_limit_exceeded''), (''title'', JStr ''Too Many Requests''),
                   (''status'', JInt 429),
                   (''detail'', JStr (''Rate limit of '' @ string_of_int limit @ '' req/min exceeded.'')),
                   (''retryAfter'', JInt (window_reset - now))]), Some headers), w1)
         else (case get_response rq w1 of (r, w2) \<Rightarrow> ((r, Some headers), w2)))"

text \<open>The chain, outermost first.\<close>

definition serve :: "env \<Rightarrow> bool \<Rightarrow> handler \<Rightarrow> request \<Rightarrow> world \<Rightarrow> reply \<times> world" where
  "serve e cache_up view =
     tenant_middleware (project_middleware (rate_limit_middleware e cache_up view))"

end
