(* ===== verification/MiddlewareFacts.thy ===== *)
theory MiddlewareFacts
  imports Middleware AccountsFacts
begin

text \<open>
  What the middleware chain guarantees: how many requests a window admits, which requests reach
  the view with a tenant and a project, and what it does not look at.
\<close>

section \<open>The rate limit\<close>

text \<open>A request of one key at a time, as the counter sees it; the answer is whether it is admitted.\<close>

definition admit :: "env \<Rightarrow> int \<Rightarrow> string \<Rightarrow> world \<Rightarrow> datetime \<Rightarrow> bool \<times> world" where
  "admit e limit key w t =
     (case count_request (e\<lparr>e_now := t\<rparr>) True key w of (num, w') \<Rightarrow> (num \<le> limit, w'))"

definition window_of :: "datetime \<Rightarrow> int" where
  "window_of t = total_seconds_floor t div rate_window"

text \<open>The counter of a window: what it holds, and that it does not expire within the window.\<close>

definition window_key :: "string \<Rightarrow> int \<Rightarrow> string" where
  "window_key key n = ''rl:'' @ key @ '':'' @ string_of_int n"

definition window_count :: "string \<Rightarrow> int \<Rightarrow> world \<Rightarrow> int" where
  "window_count key n w = (case map_of (w_cache w) (window_key key n) of Some (c, _) \<Rightarrow> c | None \<Rightarrow> 0)"

definition window_kept :: "string \<Rightarrow> int \<Rightarrow> world \<Rightarrow> bool" where
  "window_kept key n w \<longleftrightarrow>
     (\<forall>c x. map_of (w_cache w) (window_key key n) = Some (c, x) \<longrightarrow> 0 \<le> c \<and> seconds ((n + 1) * rate_window) \<le> x)"

lemma window_bounds:
  assumes "window_of t = n"
  shows "seconds (n * rate_window) \<le> t" "t < seconds ((n + 1) * rate_window)"
  using assms by (auto simp: window_of_def rate_window_def total_seconds_floor_def seconds_def)

lemma rate_key_window: "rate_key key (total_seconds_floor t) = window_key key (window_of t)"
  by (simp add: rate_key_def window_key_def window_of_def)

lemma admit_step:
  assumes "window_of t = n" "window_kept key n w" "admit e limit key w t = (ok, w')"
  shows "window_count key n w' = window_count key n w + 1" "window_kept key n w'"
    "ok \<longleftrightarrow> window_count key n w + 1 \<le> limit"
proof -
  have k: "rate_key key (total_seconds_floor t) = window_key key n"
    using assms(1) by (simp add: rate_key_window)
  have now: "(case cache_get t w (window_key key n) of Some c \<Rightarrow> c | None \<Rightarrow> 0) = window_count key n w"
    using assms(2) window_bounds(2) [OF assms(1)]
    by (auto simp: cache_get_def window_count_def window_kept_def split: option.splits)
  have w': "w' = cache_set t (window_key key n) (window_count key n w + 1) (seconds (rate_window * 2)) w"
    and ok: "ok \<longleftrightarrow> window_count key n w + 1 \<le> limit"
    using assms(3) k now by (auto simp: admit_def count_request_def Let_def)
  have "0 \<le> window_count key n w"
    using assms(2) by (auto simp: window_count_def window_kept_def split: option.splits)
  moreover have "seconds ((n + 1) * rate_window) \<le> t + seconds (rate_window * 2)"
    using window_bounds(1) [OF assms(1)] by (simp add: seconds_def rate_window_def)
  ultimately show "window_count key n w' = window_count key n w + 1" "window_kept key n w'"
    "ok \<longleftrightarrow> window_count key n w + 1 \<le> limit"
    using ok by (simp_all add: w' window_count_def window_kept_def cache_set_def)
qed

text \<open>Requests outside the window are not events of this window's counter.\<close>

definition admit_in :: "env \<Rightarrow> int \<Rightarrow> string \<Rightarrow> int \<Rightarrow> world \<Rightarrow> datetime \<Rightarrow> bool \<times> world" where
  "admit_in e limit key n w t = (if window_of t = n then admit e limit key w t else (False, w))"

interpretation rate: budgeted "admit_in e limit key n" "window_kept key n" "\<lambda>ok. ok"
  "\<lambda>w. nat (limit - window_count key n w)" for e limit key n
proof unfold_locales
  fix s t r s'
  assume kept: "window_kept key n s" and at: "admit_in e limit key n s t = (r, s')"
  have "window_kept key n s' \<and> (r \<longrightarrow> nat (limit - window_count key n s') < nat (limit - window_count key n s)) \<and>
      nat (limit - window_count key n s') \<le> nat (limit - window_count key n s)"
  proof (cases "window_of t = n")
    case True
    with at have "admit e limit key s t = (r, s')" by (simp add: admit_in_def)
    note step = admit_step [OF True kept this]
    from step show ?thesis by auto
  next
    case False
    with at kept show ?thesis by (auto simp: admit_in_def)
  qed
  then show "window_kept key n s'"
    "r \<Longrightarrow> nat (limit - window_count key n s') < nat (limit - window_count key n s)"
    "\<not> r \<Longrightarrow> nat (limit - window_count key n s') \<le> nat (limit - window_count key n s)"
    by auto
qed

lemma replies_admit_in:
  "\<forall>t \<in> set ts. window_of t = n \<Longrightarrow> replies (admit_in e limit key n) w ts = replies (admit e limit key) w ts"
  by (induction ts arbitrary: w) (auto simp: admit_in_def)

lemma all_admitted:
  "\<forall>t \<in> set ts. window_of t = n \<Longrightarrow> window_kept key n w \<Longrightarrow>
     window_count key n w + int (length ts) \<le> limit \<Longrightarrow> replies (admit e limit key) w ts = (rs, w') \<Longrightarrow>
     rs = replicate (length ts) True"
proof (induction ts arbitrary: w rs)
  case (Cons t ts)
  obtain ok w1 where a: "admit e limit key w t = (ok, w1)" by force
  obtain rs1 where rs: "replies (admit e limit key) w1 ts = (rs1, w')" "rs = ok # rs1"
    using Cons.prems(4) a by (auto split: prod.splits)
  have t: "window_of t = n" using Cons.prems(1) by simp
  note step = admit_step [OF t Cons.prems(2) a]
  have "rs1 = replicate (length ts) True"
    by (rule Cons.IH [OF _ step(2) _ rs(1)]) (use Cons.prems(1,3) step(1) in auto)
  moreover have ok using step(3) Cons.prems(3) by simp
  ultimately show ?case using rs(2) by simp
qed simp

lemma replies_append:
  "replies f w (xs @ ys) = (case replies f w xs of (rs, w') \<Rightarrow> (case replies f w' ys of (rs', w'') \<Rightarrow> (rs @ rs', w'')))"
  by (induction xs arbitrary: w) (auto split: prod.splits)

lemma admit_other_window:
  "window_of t \<noteq> n \<Longrightarrow> 0 \<le> window_of t \<Longrightarrow> 0 \<le> n \<Longrightarrow>
     map_of (w_cache (snd (admit e limit key w t))) (window_key key n) = map_of (w_cache w) (window_key key n)"
  by (auto simp: admit_def count_request_def Let_def rate_key_window cache_set_def window_key_def
      string_of_int_def dest!: string_of_nat_inj)

lemma replies_other_window:
  "\<forall>t \<in> set ts. window_of t \<noteq> n \<and> 0 \<le> window_of t \<Longrightarrow> 0 \<le> n \<Longrightarrow>
     map_of (w_cache (snd (replies (admit e limit key) w ts))) (window_key key n) =
       map_of (w_cache w) (window_key key n)"
proof (induction ts arbitrary: w)
  case (Cons t ts)
  obtain ok w1 where a: "admit e limit key w t = (ok, w1)" by force
  have "map_of (w_cache (snd (replies (admit e limit key) w1 ts))) (window_key key n) =
      map_of (w_cache w1) (window_key key n)"
    by (rule Cons.IH) (use Cons.prems in simp_all)
  with a admit_other_window [of t n e limit key w] Cons.prems show ?case by (auto split: prod.splits)
qed simp

text \<open>The middleware is the counter in front of the view.\<close>

lemma rate_limit_admit:
  assumes "rate_resolve rq = (limit, key)" "admit e limit key w (e_now e) = (ok, w1)"
  shows "ok \<Longrightarrow> \<exists>h. rate_limit_middleware e True view rq w = (case view rq w1 of (r, w2) \<Rightarrow> ((r, Some h), w2))"
    and "\<not> ok \<Longrightarrow> \<exists>b h. rate_limit_middleware e True view rq w = ((Response 429 b, Some h), w1)"
  using assms
  by (auto simp: rate_limit_middleware_def admit_def Let_def split: prod.splits)



text \<open>
  The limiter is a fixed window, not the sliding one its documentation announces: around the
  turn of a minute twice the limit passes. With nothing counted yet, \<open>limit\<close> requests at the end
  of one window and \<open>limit\<close> more at any time of the next one, a second later say, are all
  admitted.
\<close>

theorem rate_limit_doubles_at_boundary:
  assumes "\<forall>k. map_of (w_cache w) k = None" "0 \<le> t1" "window_of t2 = window_of t1 + 1"
  shows "fst (replies (admit e (int m) key) w (replicate m t1 @ replicate m t2)) = replicate (2 * m) True"
proof -
  let ?n = "window_of t1"
  have n: "0 \<le> ?n" using assms(2) by (simp add: window_of_def total_seconds_floor_def rate_window_def)
  obtain rs1 w1 where 1: "replies (admit e (int m) key) w (replicate m t1) = (rs1, w1)" by force
  obtain rs2 w2 where 2: "replies (admit e (int m) key) w1 (replicate m t2) = (rs2, w2)" by force
  have fresh: "window_kept key k w" "window_count key k w = 0" for k
    using assms(1) by (simp_all add: window_kept_def window_count_def)
  have "rs1 = replicate m True"
    using all_admitted [OF _ fresh(1) _ 1, of ?n] fresh(2) by simp
  moreover have "map_of (w_cache w1) (window_key key (?n + 1)) = None"
    using replies_other_window [of "replicate m t1" "?n + 1" e "int m" key w] 1 n assms(1) by simp
  then have "window_kept key (?n + 1) w1" "window_count key (?n + 1) w1 = 0"
    by (simp_all add: window_kept_def window_count_def)
  then have "rs2 = replicate m True"
    using all_admitted [OF _ _ _ 2, of "?n + 1"] assms(3) by simp
  ultimately show ?thesis using 1 2 by (simp add: replies_append mult_2 replicate_add)
qed

theorem rate_limit_doubles_at_boundary_witness:
  "fst (replies (admit sample_env 60 ''ip:10.0.0.1'') empty_world
     (replicate 60 (seconds 59) @ replicate 60 (seconds 60))) = replicate 120 True"
  using rate_limit_doubles_at_boundary [of empty_world "seconds 59" "seconds 60" sample_env 60 "''ip:10.0.0.1''"]
  by (simp add: window_of_def rate_window_def total_seconds_floor_def seconds_def empty_world_def)

section \<open>Who reaches the view\<close>

lemma resolve_project_cong:
  "w_projects w' = w_projects w \<Longrightarrow> req_x_project_id rq' = req_x_project_id rq \<Longrightarrow>
     resolve_project w' rq' t = resolve_project w rq t"
  by (simp add: resolve_project_def cong: option.case_cong)

text \<open>
  C30. The chain keeps a session user out of foreign, suspended and SSO-only projects. Outside the
  public paths, when the request names a tenant (by header, host or ownership): a tenant that is
  not active is answered 403; a session user who is no superuser and has no accepted membership in
  the tenant is answered 403; and when the project of the request enforces single sign-on, a
  session user without an SSO marker for it is answered 406 - whatever the view would have done.
\<close>

theorem session_guards:
  assumes "\<not> should_skip (req_path rq)" "resolve_tenant w rq = Some t"
  shows "(tn_status t \<noteq> TenantActive \<longrightarrow>
      response_status (fst (fst (serve e up view rq w))) = 403 \<and> snd (serve e up view rq w) = w) \<and>
    (\<forall>u. tn_status t = TenantActive \<longrightarrow> req_user rq = Some u \<longrightarrow> \<not> usr_is_superuser u \<longrightarrow>
       \<not> is_member w (usr_id u) (tn_id t) \<longrightarrow>
      response_status (fst (fst (serve e up view rq w))) = 403) \<and>
    (\<forall>u p. tn_status t = TenantActive \<longrightarrow> req_user rq = Some u \<longrightarrow>
       (usr_is_superuser u \<or> is_member w (usr_id u) (tn_id t)) \<longrightarrow>
       resolve_project w rq t = Some p \<longrightarrow> project_requires_sso w (pj_id p) \<longrightarrow>
       \<not> has_sso_access rq (pj_id p) \<longrightarrow>
      response_status (fst (fst (serve e up view rq w))) = 406)"
proof -
  have frame: "is_member (set_current_actor a m (set_rls_context t w)) i j = is_member w i j"
    "resolve_project (set_current_actor a m (set_rls_context t w)) (rq\<lparr>req_tenant := s\<rparr>) t = resolve_project w rq t"
    "project_requires_sso (set_current_actor a m (set_rls_context t w)) q = project_requires_sso w q"
    "has_sso_access (rq\<lparr>req_tenant := s, req_project := s'\<rparr>) q = has_sso_access rq q" for a m i j q s s'
    by (auto simp: is_member_def project_requires_sso_def set_current_actor_def
        set_rls_context_def has_sso_access_def intro!: resolve_project_cong)
  show ?thesis
    using assms
    by (auto simp: serve_def tenant_middleware_def project_middleware_def problem_def Let_def frame
        check_sso_enforcement_def)
qed

text \<open>
  C35. None of this is looked at for requests that authenticate with a token. Middleware runs before
  the JWT or the key is read, so for a request without a session the request reaches the view
  with whatever active tenant its header names and with that tenant's project, member or not,
  single sign-on enforced or not; only the rate limit (by address) stands before the view.
\<close>

theorem token_requests_unguarded:
  assumes "\<not> should_skip (req_path rq)" "req_user rq = None" "req_x_tenant_id rq = Some (tn_id t)"
    "find (\<lambda>x. tn_id x = tn_id t) (w_tenants w) = Some t" "tn_status t = TenantActive"
    "resolve_project w rq t = Some p"
  shows "serve e up view rq w =
    (case rate_limit_middleware e up view (rq\<lparr>req_tenant := Some t, req_project := Some p\<rparr>)
            (w\<lparr>w_rls_tenant := Some (tn_id t)\<rparr>) of
       (r, w') \<Rightarrow> (r, clear_current_actor w'))"
proof -
  have "resolve_project (w\<lparr>w_rls_tenant := Some (tn_id t)\<rparr>) (rq\<lparr>req_tenant := Some t\<rparr>) t = Some p"
    using assms(6) by (subst resolve_project_cong [of _ w _ rq]) simp_all
  with assms(1-5) show ?thesis
    by (simp add: serve_def tenant_middleware_def project_middleware_def resolve_tenant_def
        set_rls_context_def check_sso_enforcement_def Let_def)
qed

text \<open>The shop of tenant 1 in a world of its own; Ann (user 5) belongs to no tenant.\<close>

definition shop_world :: world where
  "shop_world = empty_world\<lparr>w_tenants := [sample_tenant], w_projects := [sample_project], w_users := [sample_user]\<rparr>"

definition shop_request :: request where
  "shop_request = bare_request\<lparr>req_path := ''/api/v1/monitors/'', req_x_tenant_id := Some 1\<rparr>"

lemma shop_facts [simp]:
  "\<not> should_skip (req_path shop_request)" "resolve_tenant shop_world shop_request = Some sample_tenant"
  "resolve_project shop_world shop_request sample_tenant = Some sample_project"
  "w_tenants shop_world = [sample_tenant]" "req_user shop_request = None" "req_x_tenant_id shop_request = Some 1"
  "w_cache shop_world = []"
  by (simp_all add: empty_world_def shop_request_def shop_world_def should_skip_def SKIP_PATHS_def SKIP_PREFIXES_def
      startswith_def resolve_tenant_def resolve_project_def bare_request_def order_by_simps)

theorem session_guards_witness:
  "\<forall>view. response_status (fst (fst (serve sample_env True view (shop_request\<lparr>req_user := Some sample_user\<rparr>) shop_world))) = 403"
proof
  fix view
  have 1: "\<not> should_skip (req_path (shop_request\<lparr>req_user := Some sample_user\<rparr>))"
    "resolve_tenant shop_world (shop_request\<lparr>req_user := Some sample_user\<rparr>) = Some sample_tenant"
    using shop_facts(1,2) by (simp_all add: resolve_tenant_def shop_request_def)
  have "\<not> is_member shop_world 5 1" by (simp add: is_member_def shop_world_def empty_world_def)
  with session_guards [OF 1, of sample_env True view]
  show "response_status (fst (fst (serve sample_env True view (shop_request\<lparr>req_user := Some sample_user\<rparr>) shop_world))) = 403"
    by simp
qed

theorem token_requests_unguarded_witness:
  "fst (fst (serve sample_env True (\<lambda>rq w. (Response 200 (json_opt_uuid (map_option pj_id (req_project rq))), w))
     shop_request shop_world)) = Response 200 (JUuid 2)"
proof -
  have "rate_resolve (shop_request\<lparr>req_tenant := Some sample_tenant, req_project := Some sample_project\<rparr>) =
      (60, ''ip:10.0.0.1'')"
    by (simp add: rate_resolve_def shop_request_def bare_request_def anon_limit_def)
  with token_requests_unguarded [of shop_request sample_tenant shop_world sample_project sample_env True]
  show ?thesis
    by (simp add: rate_limit_middleware_def count_request_def cache_get_def json_opt_uuid_def Let_def)
qed

end
