(* ===== verification/Saml.thy ===== *)
theory Saml
  imports World Requests
begin

text \<open>
  \<open>apps/sso/services/saml.py\<close>: the SAML service provider of a project. The SAML library
  (\<open>python3-saml\<close>) is a parameter, a \<open>saml_lib\<close>.
\<close>

section \<open>SAML service provider\<close>

text \<open>What the library makes of a response of the identity provider.\<close>

record saml_answer =
  sa_errors :: "string list"
  sa_last_error_reason :: "string option"
  sa_authenticated :: bool
  sa_attributes :: "(string \<times> json) list"
  sa_nameid :: "string option"

text \<open>The library: its operations take the settings and the description of the request.\<close>

record saml_lib =
  sl_installed :: bool
  sl_login :: "json \<Rightarrow> json \<Rightarrow> string \<Rightarrow> string result"
  sl_process_response :: "json \<Rightarrow> json \<Rightarrow> saml_answer result"
  sl_sp_metadata :: "json \<Rightarrow> string result"
  sl_logout :: "json \<Rightarrow> json \<Rightarrow> string \<Rightarrow> string \<Rightarrow> string \<Rightarrow> string result"

text \<open>A browser request to a SAML endpoint.\<close>

record saml_http =
  sh_secure :: bool
  sh_netloc :: string
  sh_port :: "int option"
  sh_script_name :: string
  sh_get :: "(string \<times> string) list"
  sh_post :: "(string \<times> string) list"
  sh_query_string :: string

record sp_endpoints =
  sp_entity_id :: string
  sp_acs_url :: string
  sp_slo_url :: string
  sp_metadata_url :: string

definition sp_urls :: "env \<Rightarrow> uuid \<Rightarrow> sp_endpoints" where
  "sp_urls e project_id =
     (let base = rstrip_char CHR ''/'' (e_api_base_url e);
          pid = string_of_nat project_id;
          entity_id = base @ ''/api/v1/sso/metadata/'' @ pid @ ''/''
      in \<lparr>sp_entity_id = entity_id,
          sp_acs_url = base @ ''/api/v1/sso/acs/'' @ pid @ ''/'',
          sp_slo_url = base @ ''/api/v1/sso/slo/'' @ pid @ ''/'',
          sp_metadata_url = entity_id\<rparr>)"

text \<open>A call of the static method with its positional arguments: without the project it raises.\<close>

definition call_sp_urls :: "env \<Rightarrow> uuid list \<Rightarrow> sp_endpoints result" where
  "call_sp_urls e args =
     (case args of
        [project_id] \<Rightarrow> Ok (sp_urls e project_id)
      | _ \<Rightarrow> Raise (TypeError ''SAMLService._sp_urls() missing 1 required positional argument: project_id''))"

record saml_service =
  ss_config :: sso_config
  ss_project_id :: uuid
  ss_sp :: sp_endpoints

text \<open>\<open>SAMLService.__init__\<close>; \<open>self._sp_urls()\<close> passes no argument.\<close>

definition saml_service_init :: "env \<Rightarrow> sso_config \<Rightarrow> saml_service result" where
  "saml_service_init e config =
     (let project_id = sc_project config
      in bind_result (call_sp_urls e []) (\<lambda>sp.
           Ok \<lparr>ss_config = config, ss_project_id = project_id, ss_sp = sp\<rparr>))"

definition sp_info :: "env \<Rightarrow> saml_service \<Rightarrow> (string \<times> string) list" where
  "sp_info e s =
     [(''entity_id'', sp_entity_id (ss_sp s)), (''acs_url'', sp_acs_url (ss_sp s)),
      (''slo_url'', sp_slo_url (ss_sp s)), (''metadata_url'', sp_metadata_url (ss_sp s)),
      (''certificate'', e_sp_cert e)]"

definition normalize_cert :: "string \<Rightarrow> string" where
  "normalize_cert cert =
     strip (replace_all ''-----END CERTIFICATE-----'' []
              (replace_all ''-----BEGIN CERTIFICATE-----'' [] (strip cert)))"

definition build_settings :: "env \<Rightarrow> saml_service \<Rightarrow> json" where
  "build_settings e s =
     (let config = ss_config s;
          redirect = JStr ''urn:oasis:names:tc:SAML:2.0:bindings:HTTP-Redirect'';
          idp = [(''entityId'', JStr (sc_entity_id config)),
                 (''singleSignOnService'',
                   JObj [(''url'', JStr (sc_sso_url config)), (''binding'', redirect)]),
                 (''x509cert'', JStr (normalize_cert (sc_x509_cert config)))]
                @ (if sc_slo_url config \<noteq> []
                   then [(''singleLogoutService'',
                           JObj [(''url'', JStr (sc_slo_url config)), (''binding'', redirect)])]
                   else [])
      in JObj
        [(''strict'', JBool True), (''debug'', JBool (e_debug e)),
         (''sp'', JObj
           [(''entityId'', JStr (sp_entity_id (ss_sp s))),
            (''assertionConsumerService'',
              JObj [(''url'', JStr (sp_acs_url (ss_sp s))),
                    (''binding'', JStr ''urn:oasis:names:tc:SAML:2.0:bindings:HTTP-POST'')]),
            (''singleLogoutService'',
              JObj [(''url'', JStr (sp_slo_url (ss_sp s))), (''binding'', redirect)]),
            (''x509cert'', JStr (e_sp_cert e)), (''privateKey'', JStr (e_sp_private_key e))]),
         (''idp'', JObj idp),
         (''security'', JObj
           [(''wantAssertionsSigned'', JBool True), (''wantMessagesSigned'', JBool False),
            (''authnRequestsSigned'', JBool (e_sp_private_key e \<noteq> []))])])"

definition request_meta_from_django :: "saml_http \<Rightarrow> json" where
  "request_meta_from_django h =
     JObj
       [(''https'', JStr (if sh_secure h then ''on'' else ''off'')),
        (''http_host'', JStr (sh_netloc h)),
        (''script_name'', JStr (sh_script_name h)),
        (''server_port'', JInt (case sh_port h of
                                 Some p \<Rightarrow> (if p \<noteq> 0 then p else if sh_secure h then 443 else 80)
                               | None \<Rightarrow> (if sh_secure h then 443 else 80))),
        (''get_data'', JObj (map (\<lambda>kv. (fst kv, JStr (snd kv))) (sh_get h))),
        (''post_data'', JObj (map (\<lambda>kv. (fst kv, JStr (snd kv))) (sh_post h))),
        (''query_string'', JStr (sh_query_string h))]"

text \<open>\<open>Inl\<close> is the message of a \<open>SAMLServiceError\<close>.\<close>

type_synonym 'a saml_result = "(string + 'a) result"

definition get_saml_libs :: "saml_lib \<Rightarrow> string + unit" where
  "get_saml_libs l =
     (if sl_installed l then Inr ()
      else Inl ''python3-saml is not installed. Run: pip install python3-saml'')"

definition with_saml :: "saml_lib \<Rightarrow> 'a result \<Rightarrow> 'a saml_result" where
  "with_saml l r =
     (case get_saml_libs l of
        Inl m \<Rightarrow> Ok (Inl m)
      | Inr _ \<Rightarrow> bind_result r (\<lambda>x. Ok (Inr x)))"

definition get_login_redirect_url :: "env \<Rightarrow> saml_lib \<Rightarrow> saml_service \<Rightarrow> saml_http \<Rightarrow> string saml_result" where
  "get_login_redirect_url e l s h =
     with_saml l (sl_login l (build_settings e s) (request_meta_from_django h) (e_frontend_url e))"

definition get_metadata_xml :: "env \<Rightarrow> saml_lib \<Rightarrow> saml_service \<Rightarrow> string saml_result" where
  "get_metadata_xml e l s = with_saml l (sl_sp_metadata l (build_settings e s))"

definition get_logout_redirect_url ::
  "env \<Rightarrow> saml_lib \<Rightarrow> saml_service \<Rightarrow> saml_http \<Rightarrow> string \<Rightarrow> string \<Rightarrow> string option saml_result" where
  "get_logout_redirect_url e l s h name_id session_index =
     (if sc_slo_url (ss_config s) = [] then Ok (Inr None)
      else with_saml l
             (bind_result (sl_logout l (build_settings e s) (request_meta_from_django h)
                             name_id session_index (e_frontend_url e)) (\<lambda>url. Ok (Some url))))"

text \<open>\<open>_first\<close>\<close>

definition first_value :: "json \<Rightarrow> string" where
  "first_value v =
     (case v of
        JList xs \<Rightarrow> (case xs of x # _ \<Rightarrow> py_str x | [] \<Rightarrow> [])
      | _ \<Rightarrow> (if truthy v then py_str v else []))"

record saml_attrs =
  at_email :: string
  at_first_name :: string
  at_last_name :: string
  at_name_id :: string

definition attr_key :: "sso_config \<Rightarrow> string \<Rightarrow> string \<Rightarrow> string" where
  "attr_key c k dflt = (case map_of (sc_attribute_map c) k of Some v \<Rightarrow> v | None \<Rightarrow> dflt)"

text \<open>\<open>s.strip().lower()\<close> of a value that should be a string (\<open>(v or "")\<close>).\<close>

definition strip_lower :: "json \<Rightarrow> string result" where
  "strip_lower v =
     (if \<not> truthy v then Ok []
      else case v of JStr s \<Rightarrow> Ok (lower (strip s)) | _ \<Rightarrow> Raise (TypeError ''no attribute strip''))"

text \<open>The attribute extraction of \<open>process_acs\<close>, after the library has accepted the response.\<close>

definition extract_attrs :: "sso_config \<Rightarrow> saml_answer \<Rightarrow> saml_attrs saml_result" where
  "extract_attrs c a =
     (let attrs = sa_attributes a;
          name_id = strip (case sa_nameid a of Some n \<Rightarrow> n | None \<Rightarrow> []);
          email_key = attr_key c ''email'' [];
          raw_email = (case map_of attrs email_key of
                         Some v \<Rightarrow> (if email_key \<noteq> []
                                    then (case v of
                                            JList xs \<Rightarrow> (case xs of x # _ \<Rightarrow> Ok x | [] \<Rightarrow> Raise (KeyError ''list index out of range''))
                                          | _ \<Rightarrow> Ok v)
                                    else Ok (JStr name_id))
                       | None \<Rightarrow> Ok (JStr name_id))
      in bind_result raw_email (\<lambda>v.
         bind_result (strip_lower v) (\<lambda>email.
           if email = [] \<or> CHR ''@'' \<notin> set email
           then Ok (Inl ''SAML response did not contain a valid email (NameID)'')
           else
             (let value = (\<lambda>k. case map_of attrs k of Some v \<Rightarrow> first_value v | None \<Rightarrow> []);
                  first1 = value (attr_key c ''first_name''
                             ''http://schemas.xmlsoap.org/ws/2005/05/identity/claims/givenname'');
                  last1 = value (attr_key c ''last_name''
                             ''http://schemas.xmlsoap.org/ws/2005/05/identity/claims/surname'');
                  dn_key = attr_key c ''display_name''
                             ''http://schemas.microsoft.com/identity/claims/displayname'';
                  (first2, last2) =
                    (if first1 = [] \<and> last1 = [] \<and> map_of attrs dn_key \<noteq> None
                     then (case split_once CHR '' '' (value dn_key) of
                             (a, r) \<Rightarrow> (a, case r of Some b \<Rightarrow> b | None \<Rightarrow> []))
                     else (first1, last1))
              in Ok (Inr \<lparr>at_email = email, at_first_name = first2, at_last_name = last2,
                          at_name_id = name_id\<rparr>)))))"

definition em_dash :: string where
  "em_dash = [CHR 0xE2, CHR 0x80, CHR 0x94]"

definition process_acs :: "env \<Rightarrow> saml_lib \<Rightarrow> saml_service \<Rightarrow> saml_http \<Rightarrow> saml_attrs saml_result" where
  "process_acs e l s h =
     (case with_saml l (sl_process_response l (build_settings e s) (request_meta_from_django h)) of
        Inl x \<Rightarrow> Raise x
      | Inr (Inl m) \<Rightarrow> Ok (Inl m)
      | Inr (Inr a) \<Rightarrow>
          (if sa_errors a \<noteq> []
           then Ok (Inl (''SAML validation failed: '' @ join_with '', '' (sa_errors a) @ '' '' @ em_dash @ '' ''
                  @ (case sa_last_error_reason a of Some r \<Rightarrow> r | None \<Rightarrow> ''None'')))
           else if \<not> sa_authenticated a
           then Ok (Inl ''SAML assertion did not authenticate the user'')
           else extract_attrs (ss_config s) a))"

end
