(* ===== verification/Scim.thy ===== *)
theory Scim
  imports Accounts Incidents
begin

text \<open>
  \<open>apps/sso/services/jit.py\<close> and \<open>scim.py\<close>: users created and given access on their first
  single sign-on, and the users and groups (teams) an identity provider manages over SCIM 2.0.
\<close>

section \<open>Provisioning\<close>

text \<open>\<open>@transaction.atomic\<close>: an exception leaves the database as it was.\<close>

definition atomic :: "(world \<Rightarrow> 'a result \<times> world) \<Rightarrow> world \<Rightarrow> 'a result \<times> world" where
  "atomic f w = (case f w of (Inl x, _) \<Rightarrow> (Raise x, w) | (Inr r, w') \<Rightarrow> (Ok r, w'))"

definition find_email_nocase :: "world \<Rightarrow> string \<Rightarrow> user option" where
  "find_email_nocase w email =
     first_row (order_by_desc usr_created_at
       (filter (\<lambda>u. lower (usr_email u) = lower email) (w_users w)))"

definition default_teams :: "world \<Rightarrow> sso_config \<Rightarrow> team list" where
  "default_teams w c = order_by tm_name (filter (\<lambda>t. tm_id t \<in> set (sc_default_teams c)) (w_teams w))"

definition default_role :: "world \<Rightarrow> sso_config \<Rightarrow> role option" where
  "default_role w c = Option.bind (sc_default_role c) (role_of w)"

text \<open>\<open>UserMembership.objects.get_or_create\<close>\<close>

definition ensure_membership :: "env \<Rightarrow> uuid \<Rightarrow> uuid \<Rightarrow> world \<Rightarrow> world" where
  "ensure_membership e u tenant w =
     (if exists_row (\<lambda>m. um_user m = u \<and> um_tenant m = tenant) (w_user_memberships w) then w
      else add_membership e (new_membership e (w_next w) u tenant False None [] (Some (e_now e))) w)"

fun join_teams :: "env \<Rightarrow> uuid \<Rightarrow> uuid \<Rightarrow> team list \<Rightarrow> world \<Rightarrow> world" where
  "join_teams e u role [] w = w"
| "join_teams e u role (t # ts) w = join_teams e u role ts (snd (join_team e (tm_id t) u role None w))"

definition has_project_access :: "world \<Rightarrow> uuid \<Rightarrow> uuid \<Rightarrow> bool" where
  "has_project_access w u project =
     exists_row (\<lambda>m. mb_user m = u \<and>
                     (case team_of w (mb_team m) of Some t \<Rightarrow> tm_project t = project | None \<Rightarrow> False))
       (w_team_memberships w)"

text \<open>What a login fills in or repairs in an existing account.\<close>

definition refreshed_user :: "string \<Rightarrow> string \<Rightarrow> user \<Rightarrow> user" where
  "refreshed_user first_name last_name u =
     u\<lparr>usr_first_name := (if first_name \<noteq> [] \<and> usr_first_name u = [] then first_name else usr_first_name u),
       usr_last_name := (if last_name \<noteq> [] \<and> usr_last_name u = [] then last_name else usr_last_name u),
       usr_is_email_verified := True, usr_is_active := True\<rparr>"

definition provisioned_user ::
  "env \<Rightarrow> string \<Rightarrow> string \<Rightarrow> string \<Rightarrow> world \<Rightarrow> user result \<times> world" where
  "provisioned_user e email first_name last_name w =
     create_user e email (e_token e (w_next w)) first_name last_name True True w"

definition provision_from_saml ::
  "env \<Rightarrow> sso_config \<Rightarrow> string \<Rightarrow> string \<Rightarrow> string \<Rightarrow> world \<Rightarrow> user result \<times> world" where
  "provision_from_saml e c email first_name last_name = atomic (\<lambda>w.
     (case (case find_email_nocase w email of
              None \<Rightarrow>
                (if \<not> sc_jit_enabled c
                 then (Raise (ValueError ''User not found and JIT provisioning is disabled''), w)
                 else provisioned_user e email first_name last_name w)
            | Some u \<Rightarrow>
                (Ok (refreshed_user first_name last_name u),
                 w\<lparr>w_users := update_where (\<lambda>r. usr_id r = usr_id u)
                                (refreshed_user first_name last_name) (w_users w)\<rparr>)) of
        (Inl x, w1) \<Rightarrow> (Raise x, w1)
      | (Inr user, w1) \<Rightarrow>
          (let w2 = ensure_membership e (usr_id user) (sc_tenant c) w1
           in if has_project_access w2 (usr_id user) (sc_project c) then (Ok user, w2)
              else
                (let teams = default_teams w2 c
                 in case default_role w2 c of
                      Some role \<Rightarrow>
                        (if teams \<noteq> [] then (Ok user, join_teams e (usr_id user) (ro_id role) teams w2)
                         else (Raise (ValueError ''No project access for user. Configure default_teams and default_role on SSO config.''), w2))
                    | None \<Rightarrow>
                        (Raise (ValueError ''No project access for user. Configure default_teams and default_role on SSO config.''), w2)))))"

definition unassigned_team :: "env \<Rightarrow> uuid \<Rightarrow> uuid \<Rightarrow> world \<Rightarrow> team \<times> world" where
  "unassigned_team e tenant project w =
     team_get_or_create e tenant project ''Unassigned'' ''SCIM users awaiting group assignment'' w"

text \<open>What a text column stores of a JSON value: its text, nothing for \<open>None\<close>.\<close>

definition name_column :: "json \<Rightarrow> string option" where
  "name_column v = (if v = JNull then None else Some (py_str v))"

definition provisioned_scim_user ::
  "env \<Rightarrow> string \<Rightarrow> json \<Rightarrow> json \<Rightarrow> world \<Rightarrow> user result \<times> world" where
  "provisioned_scim_user e email first_name last_name w =
     (case (name_column first_name, name_column last_name) of
        (Some f, Some l) \<Rightarrow> provisioned_user e email f l w
      | _ \<Rightarrow> (Raise (IntegrityError ''accounts_user''), w))"

definition provision_from_scim ::
  "env \<Rightarrow> sso_config \<Rightarrow> string \<Rightarrow> json \<Rightarrow> json \<Rightarrow> team list option \<Rightarrow> world \<Rightarrow>
     (user \<times> bool) result \<times> world" where
  "provision_from_scim e c email first_name last_name teams = atomic (\<lambda>w.
     (if \<not> sc_scim_auto_provision c
      then (case find_email_nocase w email of
              None \<Rightarrow> (Raise (ValueError ''User not found and SCIM auto-provision is disabled''), w)
            | Some u \<Rightarrow> (Ok (u, False), w))
      else
        (case (case find_email_nocase w email of
                 None \<Rightarrow> (case provisioned_scim_user e email first_name last_name w of
                            (Inl x, w1) \<Rightarrow> (Raise x, w1) | (Inr u, w1) \<Rightarrow> (Ok (u, True), w1))
               | Some u \<Rightarrow> (Ok (u, False), w)) of
           (Inl x, w1) \<Rightarrow> (Raise x, w1)
         | (Inr (user, created), w1) \<Rightarrow>
             (let w2 = ensure_membership e (usr_id user) (sc_tenant c) w1;
                  (target_teams, w3) =
                    (case teams of
                       Some ts \<Rightarrow> (ts, w2)
                     | None \<Rightarrow>
                         (if sc_scim_enable_push_groups c
                          then (case unassigned_team e (sc_tenant c) (sc_project c) w2 of (t, w3) \<Rightarrow> ([t], w3))
                          else (default_teams w2 c, w2)))
              in case default_role w3 c of
                   Some role \<Rightarrow>
                     (if target_teams \<noteq> []
                      then (Ok (user, created), join_teams e (usr_id user) (ro_id role) target_teams w3)
                      else (Raise (ValueError ''SCIM provisioning requires default_teams and default_role''), w3))
                 | None \<Rightarrow>
                     (Raise (ValueError ''SCIM provisioning requires default_teams and default_role''), w3)))))"

text \<open>The user stays; only memberships of the default teams go.\<close>

definition deprovision_from_scim :: "sso_config \<Rightarrow> uuid \<Rightarrow> world \<Rightarrow> world" where
  "deprovision_from_scim c u w =
     (if \<not> sc_scim_auto_deprovision c then w
      else if sc_scim_enable_push_groups c then w
      else w\<lparr>w_team_memberships := delete_where
               (\<lambda>m. mb_user m = u \<and> mb_team m \<in> set (map tm_id (default_teams w c)) \<and>
                    (case team_of w (mb_team m) of Some t \<Rightarrow> tm_project t = sc_project c | None \<Rightarrow> False))
               (w_team_memberships w)\<rparr>)"

section \<open>Reading SCIM bodies\<close>

text \<open>Text of a JSON value that must have the string methods.\<close>

definition as_str :: "json \<Rightarrow> string result" where
  "as_str v = (case v of JStr s \<Rightarrow> Ok s | _ \<Rightarrow> Raise (TypeError ''not a string''))"

definition extract_email :: "(string \<times> json) list \<Rightarrow> bool \<Rightarrow> string result" where
  "extract_email body required =
     bind_result
       (let user_name = json_or (field body ''userName'') (JStr [])
        in if truthy user_name then Ok user_name
           else
             (let emails = json_or (field body ''emails'') (JList [])
              in if \<not> truthy emails then Ok user_name
                 else case emails of
                        JList (JObj d # _) \<Rightarrow> Ok (dict_get_or d ''value'' (JStr []))
                      | _ \<Rightarrow> Raise (TypeError ''no attribute get'')))
       (\<lambda>v. bind_result (as_str v) (\<lambda>s.
          let email = lower (strip s)
          in if required \<and> (email = [] \<or> CHR ''@'' \<notin> set email)
             then Raise (ValueError ''userName or emails[0].value is required'')
             else Ok email))"

definition extract_name :: "(string \<times> json) list \<Rightarrow> (json \<times> json) result" where
  "extract_name body =
     bind_result (items_or_empty (field body ''name'')) (\<lambda>name.
       let first1 = dict_get_or name ''givenName'' (JStr []); last1 = dict_get_or name ''familyName'' (JStr [])
       in if \<not> truthy first1 \<and> \<not> truthy last1
          then
            (let display = dict_get_or body ''displayName'' (JStr [])
             in if truthy display
                then bind_result (as_str display) (\<lambda>d.
                       case split_once CHR '' '' d of
                         (a, r) \<Rightarrow> Ok (JStr a, JStr (case r of Some b \<Rightarrow> b | None \<Rightarrow> [])))
                else Ok (first1, last1))
          else Ok (first1, last1))"

text \<open>The part between the first two double quotes of \<open>userName eq "..."\<close>.\<close>

definition quoted_part :: "string \<Rightarrow> string \<Rightarrow> string option" where
  "quoted_part attribute filter_expr =
     (let expr = strip filter_expr
      in if str_contains attribute expr \<and> str_contains ''eq'' expr
         then (case split_on (CHR 0x22) expr of
                 _ # p # _ \<Rightarrow> Some (strip p)
               | _ \<Rightarrow> None)
         else None)"

definition parse_filter_email :: "string \<Rightarrow> string option" where
  "parse_filter_email filter_expr = map_option lower (quoted_part ''userName'' filter_expr)"

definition parse_filter_display_name :: "string \<Rightarrow> string option" where
  "parse_filter_display_name filter_expr = quoted_part ''displayName'' filter_expr"

text \<open>The values a \<open>for\<close> loop over a JSON value takes.\<close>

definition iterate_json :: "json \<Rightarrow> json list result" where
  "iterate_json v =
     (case v of
        JList xs \<Rightarrow> Ok xs
      | JObj d \<Rightarrow> Ok (map (\<lambda>kv. JStr (fst kv)) d)
      | JStr s \<Rightarrow> Ok (map (\<lambda>c. JStr [c]) s)
      | _ \<Rightarrow> Raise (TypeError ''not iterable''))"

text \<open>A primary key in a filter: Django's \<open>ValidationError\<close> is no \<open>ValueError\<close>.\<close>

definition filter_id :: "json \<Rightarrow> uuid result" where
  "filter_id v =
     (case uuid_of_json v of
        Inl _ \<Rightarrow> Raise (RuntimeError ''ValidationError: not a valid UUID'')
      | Inr u \<Rightarrow> Ok u)"

fun member_values :: "json list \<Rightarrow> json list result" where
  "member_values [] = Ok []"
| "member_values (m # ms) =
     (case m of
        JObj d \<Rightarrow>
          bind_result (member_values ms) (\<lambda>vs.
            let v = dict_get_or d ''value'' JNull in Ok (if truthy v then v # vs else vs))
      | _ \<Rightarrow> Raise (TypeError ''no attribute get''))"

definition member_ids :: "json \<Rightarrow> json list result" where
  "member_ids members =
     bind_result (case members of JObj d \<Rightarrow> Ok [members] | _ \<Rightarrow> iterate_json members) member_values"

fun filter_ids :: "json list \<Rightarrow> uuid list result" where
  "filter_ids [] = Ok []"
| "filter_ids (v # vs) = bind_result (filter_id v) (\<lambda>u. bind_result (filter_ids vs) (\<lambda>us. Ok (u # us)))"

section \<open>Users\<close>

definition SCIM_SCHEMA_USER :: string where
  "SCIM_SCHEMA_USER = ''urn:ietf:params:scim:schemas:core:2.0:User''"

definition SCIM_SCHEMA_GROUP :: string where
  "SCIM_SCHEMA_GROUP = ''urn:ietf:params:scim:schemas:core:2.0:Group''"

definition SCIM_LIST_SCHEMA :: string where
  "SCIM_LIST_SCHEMA = ''urn:ietf:params:scim:api:messages:2.0:ListResponse''"

definition scim_log ::
  "env \<Rightarrow> sso_config \<Rightarrow> scim_operation \<Rightarrow> scim_resource \<Rightarrow> string \<Rightarrow> json \<Rightarrow> string \<Rightarrow> string \<Rightarrow> world \<Rightarrow> world" where
  "scim_log e c operation resource external_id payload status error w =
     w\<lparr>w_scim_logs := w_scim_logs w @
         [\<lparr>sl_id = w_next w, sl_config = sc_id c, sl_operation = operation, sl_resource = resource,
           sl_external_id = external_id, sl_payload = payload, sl_status = status,
           sl_error_message = error, sl_created_at = e_now e\<rparr>],
       w_next := Suc (w_next w)\<rparr>"

definition project_users :: "world \<Rightarrow> sso_config \<Rightarrow> user list" where
  "project_users w c =
     filter (\<lambda>u. has_project_access w (usr_id u) (sc_project c) \<and> \<not> usr_is_erased u) (w_users w)"

definition user_to_scim :: "user \<Rightarrow> json" where
  "user_to_scim u =
     JObj
       [(''schemas'', JList [JStr SCIM_SCHEMA_USER]), (''id'', JUuid (usr_id u)),
        (''externalId'', JStr (usr_email u)), (''userName'', JStr (usr_email u)),
        (''name'', JObj [(''givenName'', JStr (usr_first_name u)), (''familyName'', JStr (usr_last_name u)),
                         (''formatted'', JStr (full_name u))]),
        (''displayName'', JStr (full_name u)),
        (''emails'', JList [JObj [(''value'', JStr (usr_email u)), (''primary'', JBool True)]]),
        (''active'', JBool (usr_is_active u)),
        (''meta'', JObj [(''resourceType'', JStr ''User''), (''created'', JTime (usr_created_at u))])]"

text \<open>Listing with a filter that finds nobody creates the user.\<close>

definition scim_list_users ::
  "env \<Rightarrow> sso_config \<Rightarrow> string option \<Rightarrow> world \<Rightarrow> json list result \<times> world" where
  "scim_list_users e c filter_expr w =
     (let qs = project_users w c;
          wanted = (case filter_expr of
                      Some x \<Rightarrow> (if x \<noteq> [] then parse_filter_email x else None) | None \<Rightarrow> None)
      in case wanted of
           Some email \<Rightarrow>
             (if email = [] then (Ok (map user_to_scim (order_by usr_email qs)), w)
              else
                (let found = filter (\<lambda>u. lower (usr_email u) = lower email) qs
                 in if found = [] \<and> sc_scim_auto_provision c
                    then (case provision_from_scim e c email (JStr []) (JStr []) None w of
                            (Inl x, w1) \<Rightarrow> (Raise x, w1)
                          | (Inr (u, _), w1) \<Rightarrow> (Ok [user_to_scim u], w1))
                    else (Ok (map user_to_scim (order_by usr_email found)), w)))
         | None \<Rightarrow> (Ok (map user_to_scim (order_by usr_email qs)), w))"

definition scim_get_user :: "world \<Rightarrow> sso_config \<Rightarrow> uuid \<Rightarrow> json option" where
  "scim_get_user w c i = map_option user_to_scim (find (\<lambda>u. usr_id u = i) (project_users w c))"

definition scim_create_user ::
  "env \<Rightarrow> sso_config \<Rightarrow> (string \<times> json) list \<Rightarrow> world \<Rightarrow> json result \<times> world" where
  "scim_create_user e c body w =
     (case extract_email body True of
        Inl x \<Rightarrow> (Raise x, w)
      | Inr email \<Rightarrow>
          (case extract_name body of
             Inl x \<Rightarrow> (Raise x, w)
           | Inr (first_name, last_name) \<Rightarrow>
               (case provision_from_scim e c email first_name last_name None w of
                  (Inl (ValueError m), w1) \<Rightarrow>
                    (Raise (ValueError m),
                     scim_log e c ScimCreate ScimUser email (JObj body) ''error'' m w1)
                | (Inl x, w1) \<Rightarrow> (Raise x, w1)
                | (Inr (u, created), w1) \<Rightarrow>
                    (Ok (user_to_scim u),
                     scim_log e c (if created then ScimCreate else ScimUpdate) ScimUser email (JObj body)
                       ''success'' [] w1))))"

text \<open>What the body of an update makes of a user, before anything is saved.\<close>

definition patched_user :: "(string \<times> json) list \<Rightarrow> user \<Rightarrow> user result" where
  "patched_user body u =
     bind_result
       (let user_name = field body ''userName''
        in if truthy user_name then Ok user_name
           else bind_result (extract_email body False) (\<lambda>s. Ok (JStr s)))
       (\<lambda>email.
     bind_result
       (if truthy email \<and> email \<noteq> JStr (usr_email u)
        then bind_result (as_str email) (\<lambda>s. Ok (lower s)) else Ok (usr_email u))
       (\<lambda>new_email.
     bind_result (items_or_empty (field body ''name'')) (\<lambda>name.
       let given = dict_get_or name ''givenName'' JNull; family = dict_get_or name ''familyName'' JNull
       in Ok (u\<lparr>usr_email := new_email,
                usr_first_name := (if truthy given then py_str given else usr_first_name u),
                usr_last_name := (if truthy family then py_str family else usr_last_name u)\<rparr>))))"

text \<open>\<open>User.objects.filter(id=user_id)\<close>: any user of the server, of whatever tenant.\<close>

definition scim_update_user ::
  "env \<Rightarrow> sso_config \<Rightarrow> uuid \<Rightarrow> (string \<times> json) list \<Rightarrow> world \<Rightarrow> json option result \<times> world" where
  "scim_update_user e c user_id body w =
     (case user_of w user_id of
        None \<Rightarrow> (Ok None, w)
      | Some u \<Rightarrow>
          (case patched_user body u of
             Inl x \<Rightarrow> (Raise x, w)
           | Inr u1 \<Rightarrow>
               (let active = field body ''active'';
                    (u2, w1) =
                      (if active \<noteq> JNull \<and> \<not> sc_scim_enable_push_groups c
                       then (u1\<lparr>usr_is_active := truthy active\<rparr>,
                             if \<not> truthy active then deprovision_from_scim c (usr_id u) w else w)
                       else (u1, w));
                    u3 = u2\<lparr>usr_updated_at := e_now e\<rparr>
                in if exists_row (\<lambda>r. usr_email r = usr_email u3 \<and> usr_id r \<noteq> usr_id u) (w_users w1)
                   then (Raise (IntegrityError ''accounts_user''), w1)
                   else
                     (let w2 = w1\<lparr>w_users := update_where (\<lambda>r. usr_id r = usr_id u) (\<lambda>_. u3) (w_users w1)\<rparr>
                      in (Ok (Some (user_to_scim u3)),
                          scim_log e c ScimUpdate ScimUser (string_of_nat (usr_id u)) (JObj body)
                            ''success'' [] w2)))))"

definition scim_delete_user :: "env \<Rightarrow> sso_config \<Rightarrow> uuid \<Rightarrow> world \<Rightarrow> bool \<times> world" where
  "scim_delete_user e c user_id w =
     (case user_of w user_id of
        None \<Rightarrow> (False, w)
      | Some u \<Rightarrow>
          (True, scim_log e c ScimDelete ScimUser (string_of_nat (usr_id u)) JNull ''success'' []
                   (deprovision_from_scim c (usr_id u) w)))"

section \<open>Groups\<close>

definition team_members :: "world \<Rightarrow> uuid \<Rightarrow> team_membership list" where
  "team_members w t = filter (\<lambda>m. mb_team m = t) (w_team_memberships w)"

definition team_to_scim :: "world \<Rightarrow> bool \<Rightarrow> team \<Rightarrow> json" where
  "team_to_scim w include_members t =
     JObj
       ([(''schemas'', JList [JStr SCIM_SCHEMA_GROUP]), (''id'', JUuid (tm_id t)),
         (''displayName'', JStr (tm_name t)),
         (''meta'', JObj [(''resourceType'', JStr ''Group''), (''created'', JTime (tm_created_at t))])]
        @ (if include_members
           then [(''members'', JList (map (\<lambda>m. JObj [(''value'', JUuid (mb_user m)),
                                                      (''display'', JStr (user_email_of w (mb_user m)))])
                                        (team_members w (tm_id t))))]
           else []))"

definition project_team :: "world \<Rightarrow> sso_config \<Rightarrow> uuid \<Rightarrow> team option" where
  "project_team w c i = find (\<lambda>t. tm_id t = i \<and> tm_project t = sc_project c) (w_teams w)"

text \<open>
  The loop of \<open>_sync_group_members\<close>; \<open>unassigned\<close> is the team it fetches at most once. An
  exception leaves what was done so far.
\<close>

fun sync_members ::
  "env \<Rightarrow> sso_config \<Rightarrow> team \<Rightarrow> role \<Rightarrow> team option \<Rightarrow> json list \<Rightarrow> world \<Rightarrow> unit result \<times> world" where
  "sync_members e c t role unassigned [] w = (Ok (), w)"
| "sync_members e c t role unassigned (m # ms) w =
     (let user_id = (case m of JObj d \<Rightarrow> dict_get_or d ''value'' JNull | _ \<Rightarrow> m)
      in if \<not> truthy user_id then sync_members e c t role unassigned ms w
         else (case filter_id user_id of
                 Inl x \<Rightarrow> (Raise x, w)
               | Inr i \<Rightarrow>
                   (case user_of w i of
                      None \<Rightarrow> sync_members e c t role unassigned ms w
                    | Some u \<Rightarrow>
                        (let w1 = snd (join_team e (tm_id t) (usr_id u) (ro_id role) None w)
                         in if sc_scim_enable_push_groups c
                            then
                              (let (un, w2) = (case unassigned of
                                                 Some x \<Rightarrow> (x, w1)
                                               | None \<Rightarrow> unassigned_team e (sc_tenant c) (sc_project c) w1)
                               in sync_members e c t role (Some un) ms
                                    (w2\<lparr>w_team_memberships := delete_where
                                         (\<lambda>x. mb_team x = tm_id un \<and> mb_user x = usr_id u)
                                         (w_team_memberships w2)\<rparr>))
                            else sync_members e c t role unassigned ms w1))))"

definition sync_group_members ::
  "env \<Rightarrow> sso_config \<Rightarrow> team \<Rightarrow> json \<Rightarrow> world \<Rightarrow> unit result \<times> world" where
  "sync_group_members e c t members w =
     (case default_role w c of
        None \<Rightarrow> (Raise (ValueError ''default_role must be set on SSO config for SCIM group sync''), w)
      | Some role \<Rightarrow>
          (case iterate_json members of
             Inl x \<Rightarrow> (Raise x, w)
           | Inr ms \<Rightarrow> sync_members e c t role None ms w))"

definition clear_team :: "uuid \<Rightarrow> world \<Rightarrow> world" where
  "clear_team t w =
     w\<lparr>w_team_memberships := delete_where (\<lambda>m. mb_team m = t) (w_team_memberships w)\<rparr>"

text \<open>\<open>team.save(update_fields=["name", "updated_at"])\<close>; a name is unique in its project.\<close>

definition rename_team :: "env \<Rightarrow> team \<Rightarrow> json \<Rightarrow> world \<Rightarrow> team result \<times> world" where
  "rename_team e t name w =
     (let t1 = t\<lparr>tm_name := py_str name, tm_updated_at := e_now e\<rparr>
      in if name = JNull then (Raise (IntegrityError ''rbac_team''), w)
         else if exists_row (\<lambda>x. tm_project x = tm_project t \<and> tm_name x = tm_name t1 \<and> tm_id x \<noteq> tm_id t) (w_teams w)
         then (Raise (IntegrityError ''unique_team_name_per_project''), w)
         else (Ok t1, w\<lparr>w_teams := update_where (\<lambda>x. tm_id x = tm_id t) (\<lambda>_. t1) (w_teams w)\<rparr>))"

definition scim_list_groups :: "world \<Rightarrow> sso_config \<Rightarrow> string option \<Rightarrow> json list" where
  "scim_list_groups w c filter_expr =
     (let qs = filter (\<lambda>t. tm_project t = sc_project c) (w_teams w);
          wanted = (case filter_expr of
                      Some x \<Rightarrow> (if x \<noteq> [] then parse_filter_display_name x else None) | None \<Rightarrow> None);
          qs1 = (case wanted of
                   Some n \<Rightarrow> (if n \<noteq> [] then filter (\<lambda>t. tm_name t = n) qs else qs) | None \<Rightarrow> qs)
      in map (team_to_scim w False) (order_by tm_name qs1))"

definition scim_get_group :: "world \<Rightarrow> sso_config \<Rightarrow> uuid \<Rightarrow> json option" where
  "scim_get_group w c i = map_option (team_to_scim w True) (project_team w c i)"

definition scim_create_group ::
  "env \<Rightarrow> sso_config \<Rightarrow> (string \<times> json) list \<Rightarrow> world \<Rightarrow> json result \<times> world" where
  "scim_create_group e c body w =
     (case as_str (dict_get_or body ''displayName'' (JStr [])) of
        Inl x \<Rightarrow> (Raise x, w)
      | Inr s \<Rightarrow>
          (let name = strip s
           in if name = [] then (Raise (ValueError ''displayName is required''), w)
              else
                (case team_get_or_create e (sc_tenant c) (sc_project c) name ''SCIM-provisioned group'' w of
                   (t, w1) \<Rightarrow>
                     (case sync_group_members e c t (json_or (field body ''members'') (JList [])) w1 of
                        (Inl x, w2) \<Rightarrow> (Raise x, w2)
                      | (Inr _, w2) \<Rightarrow>
                          (let w3 = scim_log e c ScimCreate ScimGroup name (JObj body) ''success'' [] w2
                           in (Ok (team_to_scim w3 True t), w3))))))"

definition scim_replace_group ::
  "env \<Rightarrow> sso_config \<Rightarrow> uuid \<Rightarrow> (string \<times> json) list \<Rightarrow> world \<Rightarrow> json option result \<times> world" where
  "scim_replace_group e c group_id body w =
     (case project_team w c group_id of
        None \<Rightarrow> (Ok None, w)
      | Some t \<Rightarrow>
          (case (if truthy (field body ''displayName'')
                 then rename_team e t (field body ''displayName'') w else (Ok t, w)) of
             (Inl x, w1) \<Rightarrow> (Raise x, w1)
           | (Inr t1, w1) \<Rightarrow>
               (case sync_group_members e c t1 (json_or (field body ''members'') (JList []))
                       (clear_team (tm_id t1) w1) of
                  (Inl x, w2) \<Rightarrow> (Raise x, w2)
                | (Inr _, w2) \<Rightarrow>
                    (let w3 = scim_log e c ScimUpdate ScimGroup (string_of_nat (tm_id t1)) (JObj body)
                                ''success'' [] w2
                     in (Ok (Some (team_to_scim w3 True t1)), w3)))))"

text \<open>One operation of a PATCH.\<close>

definition patch_operation ::
  "env \<Rightarrow> sso_config \<Rightarrow> team \<Rightarrow> json \<Rightarrow> world \<Rightarrow> team result \<times> world" where
  "patch_operation e c t op w =
     (case op of
        JObj d \<Rightarrow>
          (case (as_str (json_or (field d ''op'') (JStr [])), as_str (json_or (field d ''path'') (JStr []))) of
             (Inr a, Inr p) \<Rightarrow>
               (let action = lower a; path = lower p; value = field d ''value'';
                    kept = (\<lambda>r. case r of (Inl x, w1) \<Rightarrow> (Raise x, w1) | (Inr _, w1) \<Rightarrow> (Ok t, w1))
                in if path = ''displayname'' \<and> action \<in> {''replace'', ''add''} then rename_team e t value w
                   else if startswith path ''members''
                   then (if action = ''add''
                         then kept (sync_group_members e c t
                                (case value of JList _ \<Rightarrow> value | _ \<Rightarrow> JList [value]) w)
                         else if action = ''remove''
                         then (case bind_result (member_ids value) filter_ids of
                                 Inl x \<Rightarrow> (Raise x, w)
                               | Inr ids \<Rightarrow>
                                   (Ok t, w\<lparr>w_team_memberships := delete_where
                                            (\<lambda>m. mb_team m = tm_id t \<and> mb_user m \<in> set ids)
                                            (w_team_memberships w)\<rparr>))
                         else if action = ''replace''
                         then kept (sync_group_members e c t
                                (case value of JList _ \<Rightarrow> value | _ \<Rightarrow> JList []) (clear_team (tm_id t) w))
                         else (Ok t, w))
                   else (Ok t, w))
           | (Inl x, _) \<Rightarrow> (Raise x, w)
           | (_, Inl x) \<Rightarrow> (Raise x, w))
      | _ \<Rightarrow> (Raise (TypeError ''no attribute get''), w))"

fun patch_operations ::
  "env \<Rightarrow> sso_config \<Rightarrow> team \<Rightarrow> json list \<Rightarrow> world \<Rightarrow> team result \<times> world" where
  "patch_operations e c t [] w = (Ok t, w)"
| "patch_operations e c t (op # ops) w =
     (case patch_operation e c t op w of
        (Inl x, w1) \<Rightarrow> (Raise x, w1)
      | (Inr t1, w1) \<Rightarrow> patch_operations e c t1 ops w1)"

definition scim_patch_group ::
  "env \<Rightarrow> sso_config \<Rightarrow> uuid \<Rightarrow> json \<Rightarrow> world \<Rightarrow> json option result \<times> world" where
  "scim_patch_group e c group_id operations w =
     (case project_team w c group_id of
        None \<Rightarrow> (Ok None, w)
      | Some t \<Rightarrow>
          (case iterate_json operations of
             Inl x \<Rightarrow> (Raise x, w)
           | Inr ops \<Rightarrow>
               (case patch_operations e c t ops w of
                  (Inl x, w1) \<Rightarrow> (Raise x, w1)
                | (Inr t1, w1) \<Rightarrow>
                    (let w2 = scim_log e c ScimUpdate ScimGroup (string_of_nat (tm_id t1))
                                (JObj [(''operations'', operations)]) ''success'' [] w1
                     in (Ok (Some (team_to_scim w2 True t1)), w2)))))"

text \<open>Deleting a team: its memberships go, what it owned becomes shared.\<close>

definition delete_team :: "uuid \<Rightarrow> world \<Rightarrow> world" where
  "delete_team t w =
     (let gone = (\<lambda>x. if x = Some t then None else x)
      in w\<lparr>w_teams := delete_where (\<lambda>x. tm_id x = t) (w_teams w),
           w_team_memberships := delete_where (\<lambda>m. mb_team m = t) (w_team_memberships w),
           w_monitors := map (\<lambda>m. m\<lparr>mo_team := gone (mo_team m)\<rparr>) (w_monitors w),
           w_monitor_groups := map (\<lambda>g. g\<lparr>mg_team := gone (mg_team g)\<rparr>) (w_monitor_groups w),
           w_incidents := map (\<lambda>i. i\<lparr>ic_team := gone (ic_team i)\<rparr>) (w_incidents w),
           w_esc_policies := map (\<lambda>p. p\<lparr>ep_team := gone (ep_team p)\<rparr>) (w_esc_policies w),
           w_webhooks := map (\<lambda>h. h\<lparr>wh_team := gone (wh_team h)\<rparr>) (w_webhooks w),
           w_maintenances := map (\<lambda>m. m\<lparr>sm_team := gone (sm_team m)\<rparr>) (w_maintenances w),
           w_status_pages := map (\<lambda>p. p\<lparr>sp_team := gone (sp_team p)\<rparr>) (w_status_pages w),
           w_sso_configs := map (\<lambda>c. c\<lparr>sc_default_teams := filter (\<lambda>x. x \<noteq> t) (sc_default_teams c)\<rparr>)
                              (w_sso_configs w)\<rparr>)"

definition scim_delete_group :: "env \<Rightarrow> sso_config \<Rightarrow> uuid \<Rightarrow> world \<Rightarrow> bool \<times> world" where
  "scim_delete_group e c group_id w =
     (case project_team w c group_id of
        None \<Rightarrow> (False, w)
      | Some t \<Rightarrow>
          (if tm_name t = ''Unassigned'' then (False, w)
           else (True, scim_log e c ScimDelete ScimGroup (string_of_nat group_id) JNull ''success'' []
                         (delete_team (tm_id t) (clear_team (tm_id t) w)))))"

end
