(* ===== verification/SsoViews.thy ===== *)
theory SsoViews
  imports Saml Scim AccountsViews
begin

text \<open>
  \<open>apps/sso/views.py\<close>, \<open>authentication.py\<close> and \<open>serializers.py\<close>: the management of a project's
  single sign-on configurations, the public SAML endpoints and the SCIM 2.0 endpoints.
\<close>

section \<open>Helpers\<close>

definition get_enabled_sso_config :: "world \<Rightarrow> uuid \<Rightarrow> sso_config result" where
  "get_enabled_sso_config w project_id =
     (case filter (\<lambda>c. sc_project c = project_id \<and> sc_is_enabled c) (w_sso_configs w) of
        [] \<Rightarrow> NotFound
      | [c] \<Rightarrow> Ok c
      | _ \<Rightarrow> Raise (RuntimeError ''MultipleObjectsReturned''))"

definition sso_claims :: "user \<Rightarrow> uuid \<Rightarrow> jwt_claims" where
  "sso_claims u project_id =
     \<lparr>jc_user = usr_id u, jc_auth_method = Some ''sso'', jc_sso_projects = [project_id]\<rparr>"

definition issue_sso_tokens :: "env \<Rightarrow> user \<Rightarrow> uuid \<Rightarrow> (string \<times> json) list" where
  "issue_sso_tokens e u project_id =
     [(''access'', JStr (e_jwt_encode e (sso_claims u project_id))),
      (''refresh'', JStr (e_jwt_encode e (sso_claims u project_id)))]"

text \<open>\<open>urlencode\<close>\<close>

definition quote_plus :: "string \<Rightarrow> string" where
  "quote_plus s =
     concat (map (\<lambda>c. if c = CHR '' '' then ''+'' else if c = CHR ''/'' then ''%2F'' else quote_byte c) s)"

definition urlencode :: "(string \<times> string) list \<Rightarrow> string" where
  "urlencode kvs = join_with ''&'' (map (\<lambda>kv. quote_plus (fst kv) @ ''='' @ quote_plus (snd kv)) kvs)"

definition redirect :: "string \<Rightarrow> response" where
  "redirect url = Response 302 (JStr url)"

definition callback_url :: "env \<Rightarrow> (string \<times> string) list \<Rightarrow> string" where
  "callback_url e params = e_frontend_url e @ ''/sso/callback?'' @ urlencode params"

definition query_value :: "(string \<times> string) list \<Rightarrow> string \<Rightarrow> string" where
  "query_value kvs k = (case map_of kvs k of Some v \<Rightarrow> v | None \<Rightarrow> [])"

text \<open>The browser came with a SAML response, by POST or by redirect.\<close>

definition browser_flow :: "saml_http \<Rightarrow> bool" where
  "browser_flow h \<longleftrightarrow>
     query_value (sh_post h) ''SAMLResponse'' \<noteq> [] \<or> query_value (sh_get h) ''SAMLResponse'' \<noteq> []"

section \<open>Configurations\<close>

definition sso_permission_map :: "(string \<times> string) list" where
  "sso_permission_map =
     map (\<lambda>a. (a, ''project:manage_sso''))
       [''list'', ''retrieve'', ''create'', ''update'', ''partial_update'', ''destroy'',
        ''regenerate_scim_token'', ''scim_logs'', ''provider_presets'']"

definition sso_queryset :: "world \<Rightarrow> request \<Rightarrow> sso_config list" where
  "sso_queryset w rq =
     (case req_project rq of
        None \<Rightarrow> []
      | Some p \<Rightarrow> order_by_desc sc_created_at (filter (\<lambda>c. sc_project c = pj_id p) (w_sso_configs w)))"

text \<open>The serializer shows the service provider's addresses and so builds the SAML service.\<close>

fun sso_provider_value :: "sso_provider \<Rightarrow> string" where
  "sso_provider_value Okta = ''okta''"
| "sso_provider_value AzureAd = ''azure_ad''"
| "sso_provider_value Google = ''google''"
| "sso_provider_value CustomIdp = ''custom''"

definition sso_config_fields :: "env \<Rightarrow> sso_config \<Rightarrow> saml_service \<Rightarrow> (string \<times> json) list" where
  "sso_config_fields e c s =
     [(''id'', JUuid (sc_id c)), (''provider'', JStr (sso_provider_value (sc_provider c))),
      (''name'', JStr (sc_name c)), (''description'', JStr (sc_description c)),
      (''entity_id'', JStr (sc_entity_id c)), (''sso_url'', JStr (sc_sso_url c)),
      (''slo_url'', JStr (sc_slo_url c)),
      (''attribute_map'', JObj (map (\<lambda>kv. (fst kv, JStr (snd kv))) (sc_attribute_map c))),
      (''jit_enabled'', JBool (sc_jit_enabled c)),
      (''default_role_id'', json_opt_uuid (sc_default_role c)),
      (''default_team_ids'', JList (map JUuid (sc_default_teams c))),
      (''enforce_sso'', JBool (sc_enforce_sso c)),
      (''scim_auto_provision'', JBool (sc_scim_auto_provision c)),
      (''scim_auto_deprovision'', JBool (sc_scim_auto_deprovision c)),
      (''scim_enable_push_groups'', JBool (sc_scim_enable_push_groups c)),
      (''is_enabled'', JBool (sc_is_enabled c)),
      (''sp_metadata'', JObj (map (\<lambda>kv. (fst kv, JStr (snd kv))) (sp_info e s))),
      (''created_at'', JTime (sc_created_at c)), (''updated_at'', JTime (sc_updated_at c))]"

definition sso_config_json :: "env \<Rightarrow> sso_config \<Rightarrow> json result" where
  "sso_config_json e c =
     bind_result (saml_service_init e c) (\<lambda>s. Ok (JObj (sso_config_fields e c s)))"

text \<open>\<open>create\<close> adds the SCIM token; \<open>retrieve\<close> adds its first characters to that, not instead of it.\<close>

definition scim_token_prefix :: "sso_config \<Rightarrow> string" where
  "scim_token_prefix c = (if length (sc_scim_token c) > 8 then take 8 (sc_scim_token c) @ ''...'' else [])"

definition sso_created_json :: "env \<Rightarrow> sso_config \<Rightarrow> json result" where
  "sso_created_json e c =
     bind_result (saml_service_init e c) (\<lambda>s.
       Ok (JObj (sso_config_fields e c s @ [(''scim_token'', JStr (sc_scim_token c))])))"

definition sso_detail_json :: "env \<Rightarrow> sso_config \<Rightarrow> json result" where
  "sso_detail_json e c =
     bind_result (saml_service_init e c) (\<lambda>s.
       Ok (JObj (sso_config_fields e c s @
         [(''scim_token'', JStr (sc_scim_token c)), (''scim_token_prefix'', JStr (scim_token_prefix c))])))"

fun sso_configs_json :: "env \<Rightarrow> sso_config list \<Rightarrow> json list result" where
  "sso_configs_json e [] = Ok []"
| "sso_configs_json e (c # cs) =
     bind_result (sso_config_json e c) (\<lambda>j. bind_result (sso_configs_json e cs) (\<lambda>js. Ok (j # js)))"

text \<open>The fields of a payload.\<close>

record sso_input =
  si_provider :: sso_provider
  si_name :: string
  si_description :: string
  si_entity_id :: string
  si_sso_url :: string
  si_slo_url :: string
  si_x509_cert :: string
  si_attribute_map :: "(string \<times> string) list"
  si_jit_enabled :: bool
  si_default_role_id :: "uuid option"
  si_default_team_ids :: "uuid list"
  si_enforce_sso :: bool
  si_scim_auto_provision :: bool
  si_scim_auto_deprovision :: bool
  si_scim_enable_push_groups :: bool
  si_is_enabled :: bool

definition validate_default_team_ids :: "world \<Rightarrow> request \<Rightarrow> uuid list \<Rightarrow> unit result" where
  "validate_default_team_ids w rq ids =
     (if \<not> list_all (\<lambda>i. team_of w i \<noteq> None) ids then ValidationError ''default_team_ids''
      else case req_project rq of
             None \<Rightarrow> Ok ()
           | Some p \<Rightarrow>
               (case find (\<lambda>i. tm_project (the (team_of w i)) \<noteq> pj_id p) ids of
                  None \<Rightarrow> Ok ()
                | Some i \<Rightarrow> ValidationError (''Team '' @ tm_name (the (team_of w i))
                                            @ '' does not belong to this project.'')))"

definition validate_default_role_id :: "world \<Rightarrow> request \<Rightarrow> uuid option \<Rightarrow> unit result" where
  "validate_default_role_id w rq role =
     (case role of
        None \<Rightarrow> Ok ()
      | Some i \<Rightarrow>
          (case role_of w i of
             None \<Rightarrow> ValidationError ''default_role_id''
           | Some r \<Rightarrow>
               (case req_project rq of
                  None \<Rightarrow> Ok ()
                | Some p \<Rightarrow> (if ro_project r \<noteq> pj_id p
                            then ValidationError ''Role does not belong to this project.'' else Ok ()))))"

definition validate_sso :: "world \<Rightarrow> request \<Rightarrow> sso_input \<Rightarrow> unit result" where
  "validate_sso w rq inp =
     bind_result (validate_default_role_id w rq (si_default_role_id inp)) (\<lambda>_.
       validate_default_team_ids w rq (si_default_team_ids inp))"

definition put_sso_input :: "env \<Rightarrow> sso_input \<Rightarrow> sso_config \<Rightarrow> sso_config" where
  "put_sso_input e inp c =
     c\<lparr>sc_provider := si_provider inp, sc_name := si_name inp, sc_description := si_description inp,
       sc_entity_id := si_entity_id inp, sc_sso_url := si_sso_url inp, sc_slo_url := si_slo_url inp,
       sc_x509_cert := si_x509_cert inp, sc_attribute_map := si_attribute_map inp,
       sc_jit_enabled := si_jit_enabled inp, sc_default_role := si_default_role_id inp,
       sc_default_teams := si_default_team_ids inp, sc_enforce_sso := si_enforce_sso inp,
       sc_scim_auto_provision := si_scim_auto_provision inp,
       sc_scim_auto_deprovision := si_scim_auto_deprovision inp,
       sc_scim_enable_push_groups := si_scim_enable_push_groups inp,
       sc_is_enabled := si_is_enabled inp, sc_updated_at := e_now e\<rparr>"

text \<open>\<open>SSOConfig.save\<close> draws a SCIM token when there is none.\<close>

definition new_sso_config :: "env \<Rightarrow> uuid \<Rightarrow> uuid \<Rightarrow> uuid \<Rightarrow> sso_input \<Rightarrow> sso_config" where
  "new_sso_config e pk tenant project inp =
     put_sso_input e inp
       \<lparr>sc_id = pk, sc_tenant = tenant, sc_project = project, sc_provider = CustomIdp, sc_name = [],
        sc_description = [], sc_entity_id = [], sc_sso_url = [], sc_slo_url = [], sc_x509_cert = [],
        sc_attribute_map = [], sc_jit_enabled = True, sc_default_role = None, sc_default_teams = [],
        sc_enforce_sso = False, sc_scim_token = e_token e pk, sc_scim_auto_provision = True,
        sc_scim_auto_deprovision = True, sc_scim_enable_push_groups = False, sc_is_enabled = False,
        sc_created_at = e_now e, sc_updated_at = e_now e\<rparr>"

definition sso_name_taken :: "world \<Rightarrow> uuid \<Rightarrow> string \<Rightarrow> uuid option \<Rightarrow> bool" where
  "sso_name_taken w project name except =
     exists_row (\<lambda>c. sc_project c = project \<and> sc_name c = name \<and> Some (sc_id c) \<noteq> except) (w_sso_configs w)"

definition sso_create :: "env \<Rightarrow> request \<Rightarrow> sso_input \<Rightarrow> world \<Rightarrow> response result \<times> world" where
  "sso_create e rq inp w =
     (case require_permission w sso_permission_map ''create'' rq None of
        Inl x \<Rightarrow> (Raise x, w)
      | Inr _ \<Rightarrow>
          (case bind_result (validate_sso w rq inp) (\<lambda>_.
                  case req_project rq of
                    None \<Rightarrow> ValidationError ''No project context found. Send the X-Project-Id header.''
                  | Some p \<Rightarrow> Ok p) of
             Inl x \<Rightarrow> (Raise x, w)
           | Inr p \<Rightarrow>
               (if sso_name_taken w (pj_id p) (si_name inp) None
                then (Raise (IntegrityError ''unique_sso_config_name_per_project''), w)
                else
                  (let c = new_sso_config e (w_next w) (pj_tenant p) (pj_id p) inp;
                       w1 = w\<lparr>w_sso_configs := w_sso_configs w @ [c], w_next := Suc (w_next w)\<rparr>
                   in case sso_created_json e c of
                        Inl x \<Rightarrow> (Raise x, w1)
                      | Inr j \<Rightarrow> (Ok (Response 201 j), w1)))))"

definition sso_list :: "env \<Rightarrow> request \<Rightarrow> world \<Rightarrow> response result" where
  "sso_list e rq w =
     bind_result (require_permission w sso_permission_map ''list'' rq None) (\<lambda>_.
     bind_result (sso_configs_json e (sso_queryset w rq)) (\<lambda>js. Ok (Response 200 (JList js))))"

definition sso_get ::
  "world \<Rightarrow> request \<Rightarrow> string \<Rightarrow> uuid \<Rightarrow> sso_config result" where
  "sso_get w rq action pk =
     bind_result (require_permission w sso_permission_map action rq None) (\<lambda>_.
       get_object w sso_permission_map action rq sc_id (sso_queryset w rq) pk)"

definition sso_retrieve :: "env \<Rightarrow> request \<Rightarrow> uuid \<Rightarrow> world \<Rightarrow> response result" where
  "sso_retrieve e rq pk w =
     bind_result (sso_get w rq ''retrieve'' pk) (\<lambda>c.
     bind_result (sso_detail_json e c) (\<lambda>j. Ok (Response 200 j)))"

definition save_sso_config :: "sso_config \<Rightarrow> world \<Rightarrow> world" where
  "save_sso_config c w =
     w\<lparr>w_sso_configs := update_where (\<lambda>r. sc_id r = sc_id c) (\<lambda>_. c) (w_sso_configs w)\<rparr>"

definition sso_update :: "env \<Rightarrow> request \<Rightarrow> uuid \<Rightarrow> sso_input \<Rightarrow> world \<Rightarrow> response result \<times> world" where
  "sso_update e rq pk inp w =
     (case bind_result (sso_get w rq ''update'' pk) (\<lambda>c.
             bind_result (validate_sso w rq inp) (\<lambda>_. Ok c)) of
        Inl x \<Rightarrow> (Raise x, w)
      | Inr c \<Rightarrow>
          (if sso_name_taken w (sc_project c) (si_name inp) (Some (sc_id c))
           then (Raise (IntegrityError ''unique_sso_config_name_per_project''), w)
           else
             (let c1 = put_sso_input e inp c; w1 = save_sso_config c1 w
              in case sso_config_json e c1 of
                   Inl x \<Rightarrow> (Raise x, w1)
                 | Inr j \<Rightarrow> (Ok (Response 200 j), w1))))"

definition sso_destroy :: "request \<Rightarrow> uuid \<Rightarrow> world \<Rightarrow> response result \<times> world" where
  "sso_destroy rq pk w =
     (case sso_get w rq ''destroy'' pk of
        Inl x \<Rightarrow> (Raise x, w)
      | Inr c \<Rightarrow>
          (Ok (Response 204 JNull),
           w\<lparr>w_sso_configs := delete_where (\<lambda>r. sc_id r = sc_id c) (w_sso_configs w),
             w_scim_logs := delete_where (\<lambda>l. sl_config l = sc_id c) (w_scim_logs w)\<rparr>))"

definition regenerate_scim_token :: "env \<Rightarrow> request \<Rightarrow> uuid \<Rightarrow> world \<Rightarrow> response result \<times> world" where
  "regenerate_scim_token e rq pk w =
     (case sso_get w rq ''regenerate_scim_token'' pk of
        Inl x \<Rightarrow> (Raise x, w)
      | Inr c \<Rightarrow>
          (let token = e_token e (w_next w);
               w1 = save_sso_config (c\<lparr>sc_scim_token := token, sc_updated_at := e_now e\<rparr>) w
           in (Ok (Response 200 (JObj [(''scim_token'', JStr token)])), w1\<lparr>w_next := Suc (w_next w)\<rparr>)))"

definition scim_logs :: "request \<Rightarrow> uuid \<Rightarrow> world \<Rightarrow> scim_sync_log list result" where
  "scim_logs rq pk w =
     bind_result (sso_get w rq ''scim_logs'' pk) (\<lambda>c.
       Ok (take 100 (order_by_desc sl_created_at (filter (\<lambda>l. sl_config l = sc_id c) (w_scim_logs w)))))"

definition PROVIDER_PRESETS :: "(string \<times> (string \<times> string) list) list" where
  "PROVIDER_PRESETS =
     [(''okta'', [(''email'', ''email''), (''first_name'', ''firstName''), (''last_name'', ''lastName'')]),
      (''azure_ad'',
        [(''email'', ''http://schemas.xmlsoap.org/ws/2005/05/identity/claims/emailaddress''),
         (''first_name'', ''http://schemas.xmlsoap.org/ws/2005/05/identity/claims/givenname''),
         (''last_name'', ''http://schemas.xmlsoap.org/ws/2005/05/identity/claims/surname''),
         (''display_name'', ''http://schemas.microsoft.com/identity/claims/displayname'')]),
      (''google'', [(''email'', ''email''), (''first_name'', ''first_name''), (''last_name'', ''last_name'')])]"

section \<open>SAML endpoints\<close>

text \<open>\<open>except Exception\<close>: whatever goes wrong is answered with 500.\<close>

definition or_500 :: "string \<Rightarrow> string saml_result \<Rightarrow> (string \<Rightarrow> response) \<Rightarrow> response" where
  "or_500 what r f =
     (case r of
        Inl x \<Rightarrow> detail_response 500 (what @ error_text x)
      | Inr (Inl m) \<Rightarrow> detail_response 500 (what @ m)
      | Inr (Inr url) \<Rightarrow> f url)"

definition sso_metadata :: "env \<Rightarrow> saml_lib \<Rightarrow> uuid \<Rightarrow> world \<Rightarrow> response result" where
  "sso_metadata e l project_id w =
     bind_result (get_enabled_sso_config w project_id) (\<lambda>c.
       Ok (or_500 ''Cannot generate metadata: ''
             (bind_result (saml_service_init e c) (get_metadata_xml e l))
             (\<lambda>xml. Response 200 (JStr xml))))"

definition sso_login :: "env \<Rightarrow> saml_lib \<Rightarrow> saml_http \<Rightarrow> uuid \<Rightarrow> world \<Rightarrow> response result" where
  "sso_login e l h project_id w =
     bind_result (get_enabled_sso_config w project_id) (\<lambda>c.
       Ok (or_500 ''Cannot initiate SAML login: ''
             (bind_result (saml_service_init e c) (\<lambda>s. get_login_redirect_url e l s h))
             redirect))"

text \<open>An error goes to the single-page application when a browser is involved.\<close>

definition acs_failure :: "env \<Rightarrow> saml_http \<Rightarrow> nat \<Rightarrow> string \<Rightarrow> response" where
  "acs_failure e h status m =
     (if browser_flow h then redirect (callback_url e [(''error'', m)]) else detail_response status m)"

text \<open>The handler once the service is built: validate, provision, sign in.\<close>

definition acs_with ::
  "env \<Rightarrow> saml_lib \<Rightarrow> sso_config \<Rightarrow> saml_service \<Rightarrow> request \<Rightarrow> saml_http \<Rightarrow> uuid \<Rightarrow> world \<Rightarrow>
     response result \<times> world" where
  "acs_with e l config saml rq h project_id w =
     (case process_acs e l saml h of
        Inl x \<Rightarrow> (Raise x, w)
      | Inr (Inl m) \<Rightarrow> (Ok (acs_failure e h 400 m), w)
      | Inr (Inr attrs) \<Rightarrow>
          (case provision_from_saml e config (at_email attrs) (at_first_name attrs) (at_last_name attrs) w of
             (Inl (ValueError m), w1) \<Rightarrow> (Ok (acs_failure e h 403 m), w1)
           | (Inl x, w1) \<Rightarrow> (Raise x, w1)
           | (Inr u, w1) \<Rightarrow>
               (let u1 = touch_login e rq u;
                    w2 = save_user (touch_login e rq) (usr_id u) w1;
                    token = e_jwt_encode e (sso_claims u1 project_id)
                in (Ok (if browser_flow h
                        then redirect (callback_url e
                               [(''access'', token), (''refresh'', token), (''auth_method'', ''sso''),
                                (''project_id'', string_of_nat project_id)])
                        else Response 200 (JObj
                               ((''user'', user_json w2 u1) # issue_sso_tokens e u1 project_id
                                @ [(''auth_method'', JStr ''sso'')]))), w2))))"

definition sso_acs ::
  "env \<Rightarrow> saml_lib \<Rightarrow> request \<Rightarrow> saml_http \<Rightarrow> uuid \<Rightarrow> world \<Rightarrow> response result \<times> world" where
  "sso_acs e l rq h project_id w =
     (case bind_result (get_enabled_sso_config w project_id) (\<lambda>c.
             bind_result (saml_service_init e c) (\<lambda>s. Ok (c, s))) of
        Inl x \<Rightarrow> (Raise x, w)
      | Inr (c, s) \<Rightarrow> acs_with e l c s rq h project_id w)"

fun discover_results :: "env \<Rightarrow> world \<Rightarrow> sso_config list \<Rightarrow> json list result" where
  "discover_results e w [] = Ok []"
| "discover_results e w (c # cs) =
     bind_result (saml_service_init e c) (\<lambda>s.
     bind_result (discover_results e w cs) (\<lambda>rest.
       Ok (JObj
         [(''project_id'', JUuid (sc_project c)),
          (''project_name'', JStr (case project_of w (sc_project c) of Some p \<Rightarrow> pj_name p | None \<Rightarrow> [])),
          (''name'', JStr (sc_name c)),
          (''login_url'', JStr (''/api/v1/sso/login/'' @ string_of_nat (sc_project c) @ ''/'')),
          (''sp_entity_id'', JStr (sp_entity_id (ss_sp s)))] # rest)))"

definition sso_discover :: "env \<Rightarrow> string \<Rightarrow> world \<Rightarrow> response result" where
  "sso_discover e email w =
     (let users = map usr_id (filter (\<lambda>u. lower (usr_email u) = lower email) (w_users w));
          project_ids = concat (map (member_projects w) users);
          configs = order_by_desc sc_created_at
                      (filter (\<lambda>c. sc_project c \<in> set project_ids \<and> sc_is_enabled c) (w_sso_configs w))
      in bind_result (discover_results e w configs) (\<lambda>rs.
           Ok (Response 200 (JObj [(''email'', JStr email), (''sso_configs'', JList rs)]))))"

definition sso_slo :: "env \<Rightarrow> saml_lib \<Rightarrow> saml_http \<Rightarrow> uuid \<Rightarrow> world \<Rightarrow> response result" where
  "sso_slo e l h project_id w =
     bind_result (get_enabled_sso_config w project_id) (\<lambda>c.
     bind_result (saml_service_init e c) (\<lambda>s.
     bind_result (get_logout_redirect_url e l s h (query_value (sh_get h) ''name_id'')
                    (query_value (sh_get h) ''session_index'')) (\<lambda>r.
       case r of
         Inl m \<Rightarrow> Raise (RuntimeError m)
       | Inr (Some url) \<Rightarrow>
           Ok (if url \<noteq> [] then redirect url else detail_response 200 ''SLO not configured for this IdP.'')
       | Inr None \<Rightarrow> Ok (detail_response 200 ''SLO not configured for this IdP.''))))"

section \<open>SCIM endpoints\<close>

text \<open>
  \<open>SCIMAuthentication.authenticate\<close>; without a bearer header the request goes on, with no
  configuration attached. The scheme has no \<open>WWW-Authenticate\<close> header, so a failure is a 403.
\<close>

definition scim_authenticate :: "request \<Rightarrow> world \<Rightarrow> sso_config option result" where
  "scim_authenticate rq w =
     (let auth_header = req_authorization rq
      in if \<not> startswith auth_header ''Bearer '' then Ok None
         else
           (let token = strip (drop 7 auth_header)
            in if token = [] then Raise (ApiError 403 ''Invalid SCIM bearer token'')
               else case first_row (order_by_desc sc_created_at
                           (filter (\<lambda>c. sc_scim_token c = token \<and> sc_is_enabled c) (w_sso_configs w))) of
                      None \<Rightarrow> Raise (ApiError 403 ''Invalid SCIM bearer token'')
                    | Some c \<Rightarrow> Ok (Some c)))"

definition get_scim_service :: "request \<Rightarrow> world \<Rightarrow> sso_config result" where
  "get_scim_service rq w =
     bind_result (scim_authenticate rq w) (\<lambda>c.
       case c of
         Some x \<Rightarrow> Ok x
       | None \<Rightarrow> Raise (TypeError ''Request object has no attribute sso_config''))"

definition body_items :: "json \<Rightarrow> (string \<times> json) list result" where
  "body_items data = (case data of JObj d \<Rightarrow> Ok d | _ \<Rightarrow> Raise (TypeError ''no attribute get''))"

definition scim_list_response :: "json list \<Rightarrow> response" where
  "scim_list_response resources =
     Response 200 (JObj [(''schemas'', JList [JStr SCIM_LIST_SCHEMA]),
                         (''totalResults'', JInt (int (length resources))),
                         (''Resources'', JList resources)])"

definition found_or_404 :: "json option \<Rightarrow> response" where
  "found_or_404 r = (case r of Some d \<Rightarrow> Response 200 d | None \<Rightarrow> Response 404 JNull)"

definition deleted_or_404 :: "bool \<Rightarrow> response" where
  "deleted_or_404 b = (if b then Response 204 JNull else Response 404 JNull)"

definition scim_service_provider_config :: response where
  "scim_service_provider_config =
     Response 200 (JObj
       [(''schemas'', JList [JStr ''urn:ietf:params:scim:schemas:core:2.0:ServiceProviderConfig'']),
        (''patch'', JObj [(''supported'', JBool True)]), (''bulk'', JObj [(''supported'', JBool False)]),
        (''filter'', JObj [(''supported'', JBool True), (''maxResults'', JInt 200)]),
        (''changePassword'', JObj [(''supported'', JBool False)]),
        (''sort'', JObj [(''supported'', JBool False)]), (''etag'', JObj [(''supported'', JBool False)]),
        (''authenticationSchemes'',
          JList [JObj [(''type'', JStr ''oauthbearertoken''), (''name'', JStr ''Bearer Token''),
                       (''description'', JStr ''SCIM bearer token from SSO config'')]])])"

definition scim_schemas :: response where
  "scim_schemas =
     Response 200 (JObj
       [(''schemas'', JList [JStr SCIM_LIST_SCHEMA]), (''totalResults'', JInt 2),
        (''Resources'', JList [JObj [(''id'', JStr SCIM_SCHEMA_USER), (''name'', JStr ''User'')],
                              JObj [(''id'', JStr SCIM_SCHEMA_GROUP), (''name'', JStr ''Group'')]])])"

definition scim_users_get ::
  "env \<Rightarrow> request \<Rightarrow> uuid option \<Rightarrow> string option \<Rightarrow> world \<Rightarrow> response result \<times> world" where
  "scim_users_get e rq user_id filter_expr w =
     (case get_scim_service rq w of
        Inl x \<Rightarrow> (Raise x, w)
      | Inr c \<Rightarrow>
          (case user_id of
             Some i \<Rightarrow> (Ok (found_or_404 (scim_get_user w c i)), w)
           | None \<Rightarrow>
               (case scim_list_users e c filter_expr w of
                  (Inl x, w1) \<Rightarrow> (Raise x, w1)
                | (Inr users, w1) \<Rightarrow> (Ok (scim_list_response users), w1))))"

text \<open>A creation: \<open>except ValueError\<close> is a 400.\<close>

definition created_or_400 :: "json result \<times> world \<Rightarrow> response result \<times> world" where
  "created_or_400 r =
     (case r of
        (Inl (ValueError m), w1) \<Rightarrow> (Ok (detail_response 400 m), w1)
      | (Inl x, w1) \<Rightarrow> (Raise x, w1)
      | (Inr d, w1) \<Rightarrow> (Ok (Response 201 d), w1))"

definition scim_users_post :: "env \<Rightarrow> request \<Rightarrow> json \<Rightarrow> world \<Rightarrow> response result \<times> world" where
  "scim_users_post e rq data w =
     (case bind_result (get_scim_service rq w) (\<lambda>c. bind_result (body_items data) (\<lambda>d. Ok (c, d))) of
        Inl x \<Rightarrow> (Raise x, w)
      | Inr (c, d) \<Rightarrow> created_or_400 (scim_create_user e c d w))"

text \<open>\<open>put\<close> and \<open>patch\<close> do the same.\<close>

definition scim_users_put :: "env \<Rightarrow> request \<Rightarrow> uuid option \<Rightarrow> json \<Rightarrow> world \<Rightarrow> response result \<times> world" where
  "scim_users_put e rq user_id data w =
     (case user_id of
        None \<Rightarrow> (Ok (Response 405 JNull), w)
      | Some i \<Rightarrow>
          (case get_scim_service rq w of
             Inl x \<Rightarrow> (Raise x, w)
           | Inr c \<Rightarrow>
               (case (case user_of w i of None \<Rightarrow> Ok [] | Some _ \<Rightarrow> body_items data) of
                  Inl x \<Rightarrow> (Raise x, w)
                | Inr d \<Rightarrow>
                    (case scim_update_user e c i d w of
                       (Inl x, w1) \<Rightarrow> (Raise x, w1)
                     | (Inr r, w1) \<Rightarrow> (Ok (found_or_404 r), w1)))))"

definition scim_users_patch :: "env \<Rightarrow> request \<Rightarrow> uuid option \<Rightarrow> json \<Rightarrow> world \<Rightarrow> response result \<times> world" where
  "scim_users_patch e rq user_id data w = scim_users_put e rq user_id data w"

definition scim_users_delete :: "env \<Rightarrow> request \<Rightarrow> uuid option \<Rightarrow> world \<Rightarrow> response result \<times> world" where
  "scim_users_delete e rq user_id w =
     (case user_id of
        None \<Rightarrow> (Ok (Response 405 JNull), w)
      | Some i \<Rightarrow>
          (case get_scim_service rq w of
             Inl x \<Rightarrow> (Raise x, w)
           | Inr c \<Rightarrow> (case scim_delete_user e c i w of (b, w1) \<Rightarrow> (Ok (deleted_or_404 b), w1))))"

definition scim_groups_get :: "request \<Rightarrow> uuid option \<Rightarrow> string option \<Rightarrow> world \<Rightarrow> response result" where
  "scim_groups_get rq group_id filter_expr w =
     bind_result (get_scim_service rq w) (\<lambda>c.
       Ok (case group_id of
             Some i \<Rightarrow> found_or_404 (scim_get_group w c i)
           | None \<Rightarrow> scim_list_response (scim_list_groups w c filter_expr)))"

definition scim_groups_post :: "env \<Rightarrow> request \<Rightarrow> json \<Rightarrow> world \<Rightarrow> response result \<times> world" where
  "scim_groups_post e rq data w =
     (case bind_result (get_scim_service rq w) (\<lambda>c. bind_result (body_items data) (\<lambda>d. Ok (c, d))) of
        Inl x \<Rightarrow> (Raise x, w)
      | Inr (c, d) \<Rightarrow> created_or_400 (scim_create_group e c d w))"

definition scim_groups_put :: "env \<Rightarrow> request \<Rightarrow> uuid option \<Rightarrow> json \<Rightarrow> world \<Rightarrow> response result \<times> world" where
  "scim_groups_put e rq group_id data w =
     (case group_id of
        None \<Rightarrow> (Ok (Response 405 JNull), w)
      | Some i \<Rightarrow>
          (case get_scim_service rq w of
             Inl x \<Rightarrow> (Raise x, w)
           | Inr c \<Rightarrow>
               (case (case project_team w c i of None \<Rightarrow> Ok [] | Some _ \<Rightarrow> body_items data) of
                  Inl x \<Rightarrow> (Raise x, w)
                | Inr d \<Rightarrow>
                    (case scim_replace_group e c i d w of
                       (Inl x, w1) \<Rightarrow> (Raise x, w1)
                     | (Inr r, w1) \<Rightarrow> (Ok (found_or_404 r), w1)))))"

definition scim_groups_patch :: "env \<Rightarrow> request \<Rightarrow> uuid option \<Rightarrow> json \<Rightarrow> world \<Rightarrow> response result \<times> world" where
  "scim_groups_patch e rq group_id data w =
     (case group_id of
        None \<Rightarrow> (Ok (Response 405 JNull), w)
      | Some i \<Rightarrow>
          (case bind_result (get_scim_service rq w) (\<lambda>c. bind_result (body_items data) (\<lambda>d. Ok (c, d))) of
             Inl x \<Rightarrow> (Raise x, w)
           | Inr (c, d) \<Rightarrow>
               (case scim_patch_group e c i (dict_get_or d ''Operations'' (JList [])) w of
                  (Inl x, w1) \<Rightarrow> (Raise x, w1)
                | (Inr r, w1) \<Rightarrow> (Ok (found_or_404 r), w1))))"

definition scim_groups_delete :: "env \<Rightarrow> request \<Rightarrow> uuid option \<Rightarrow> world \<Rightarrow> response result \<times> world" where
  "scim_groups_delete e rq group_id w =
     (case group_id of
        None \<Rightarrow> (Ok (Response 405 JNull), w)
      | Some i \<Rightarrow>
          (case get_scim_service rq w of
             Inl x \<Rightarrow> (Raise x, w)
           | Inr c \<Rightarrow> (case scim_delete_group e c i w of (b, w1) \<Rightarrow> (Ok (deleted_or_404 b), w1))))"

end
