(* ===== verification/SsoFacts.thy ===== *)
theory SsoFacts
  imports SsoViews AccountsFacts
begin

text \<open>
  Single sign-on: what just-in-time provisioning gives a user, that no SAML endpoint can sign
  anybody in while enforcement locks passwords out, what SCIM makes of a group, and how far its
  user operations reach.
\<close>

section \<open>Teams and memberships\<close>

interpretation teams: keyed_table team_key mk_team
  by unfold_locales (simp add: team_key_def mk_team_def split: prod.splits)

interpretation team_joins: keyed_table team_membership_key mk_team_membership
  by unfold_locales (simp add: team_membership_key_def mk_team_membership_def split: prod.splits)

lemma join_team_cases:
  obtains ms where "snd (join_team e t u role g w) =
      w\<lparr>w_team_memberships := w_team_memberships w @ ms, w_next := Suc (w_next w)\<rparr>"
    "\<forall>m \<in> set ms. mb_team m = t \<and> mb_user m = u"
    "\<exists>m \<in> set (w_team_memberships w @ ms). mb_team m = t \<and> mb_user m = u"
proof -
  obtain m c rs where goc: "get_or_create team_membership_key (mk_team_membership (e, w_next w, role, g)) (t, u)
      (w_team_memberships w) = (m, c, rs)" by (metis prod_cases3)
  define ms where "ms = (if c then [mk_team_membership (e, w_next w, role, g) (t, u)] else [])"
  have rs: "rs = w_team_memberships w @ ms" using team_joins.goc_extends [OF goc] by (simp add: ms_def)
  show thesis
  proof (rule that [of ms])
    show "snd (join_team e t u role g w) =
        w\<lparr>w_team_memberships := w_team_memberships w @ ms, w_next := Suc (w_next w)\<rparr>"
      using goc rs by (simp add: join_team_def)
    show "\<forall>m \<in> set ms. mb_team m = t \<and> mb_user m = u" by (simp add: ms_def mk_team_membership_def)
    show "\<exists>m \<in> set (w_team_memberships w @ ms). mb_team m = t \<and> mb_user m = u"
      using team_joins.goc_member [OF goc] team_joins.goc_key [OF goc]
      by (auto simp: rs team_membership_key_def)
  qed
qed

text \<open>What joining teams leaves alone.\<close>

definition same_people :: "world \<Rightarrow> world \<Rightarrow> bool" where
  "same_people w w' \<longleftrightarrow> w_users w' = w_users w \<and> w_teams w' = w_teams w \<and> w_roles w' = w_roles w \<and>
     w_user_memberships w' = w_user_memberships w \<and> w_sso_configs w' = w_sso_configs w"

lemma same_people_refl [simp]: "same_people w w"
  by (simp add: same_people_def)

lemma same_people_trans: "same_people w w1 \<Longrightarrow> same_people w1 w2 \<Longrightarrow> same_people w w2"
  by (simp add: same_people_def)

lemma same_people_team_of: "same_people w w' \<Longrightarrow> team_of w' = team_of w" "same_people w w' \<Longrightarrow> user_of w' = user_of w"
  by (simp_all add: same_people_def team_of_def user_of_def fun_eq_iff)

lemma join_team_same_people: "same_people w (snd (join_team e t u role g w))"
  by (rule join_team_cases [of e t u role g w]) (simp add: same_people_def)

lemma join_teams_effect:
  "same_people w (join_teams e u role ts w) \<and>
   set (w_team_memberships w) \<subseteq> set (w_team_memberships (join_teams e u role ts w)) \<and>
   (\<forall>t \<in> set ts. \<exists>m \<in> set (w_team_memberships (join_teams e u role ts w)). mb_team m = tm_id t \<and> mb_user m = u)"
proof (induction ts arbitrary: w)
  case (Cons t ts)
  obtain ms where 1: "snd (join_team e (tm_id t) u role None w) =
      w\<lparr>w_team_memberships := w_team_memberships w @ ms, w_next := Suc (w_next w)\<rparr>"
    "\<exists>m \<in> set (w_team_memberships w @ ms). mb_team m = tm_id t \<and> mb_user m = u"
    by (rule join_team_cases)
  let ?w = "snd (join_team e (tm_id t) u role None w)"
  from Cons.IH [of ?w] have rec: "same_people ?w (join_teams e u role ts ?w)"
    "set (w_team_memberships ?w) \<subseteq> set (w_team_memberships (join_teams e u role ts ?w))"
    "\<forall>t \<in> set ts. \<exists>m \<in> set (w_team_memberships (join_teams e u role ts ?w)). mb_team m = tm_id t \<and> mb_user m = u"
    by blast+
  have "set (w_team_memberships ?w) = set (w_team_memberships w @ ms)" by (simp add: 1(1))
  with rec 1(2) same_people_trans [OF join_team_same_people rec(1)] show ?case by auto
qed simp

section \<open>Provisioning\<close>

lemma atomic_Ok: "atomic f w = (Ok r, w') \<longleftrightarrow> f w = (Ok r, w')"
  by (auto simp: atomic_def split: sum.splits prod.splits)

lemma atomic_Raise: "atomic f w = (Raise x, w') \<Longrightarrow> w' = w"
  by (auto simp: atomic_def split: sum.splits prod.splits)

lemma ensure_membership_frame:
  "w_users (ensure_membership e u t w) = w_users w" "w_teams (ensure_membership e u t w) = w_teams w"
  "w_roles (ensure_membership e u t w) = w_roles w"
  "w_team_memberships (ensure_membership e u t w) = w_team_memberships w"
  by (simp_all add: ensure_membership_def add_membership_frame)

lemma ensure_membership_member:
  "\<exists>m \<in> set (w_user_memberships (ensure_membership e u t w)). um_user m = u \<and> um_tenant m = t"
proof (cases "exists_row (\<lambda>m. um_user m = u \<and> um_tenant m = t) (w_user_memberships w)")
  case True
  then show ?thesis by (simp add: ensure_membership_def)
next
  case False
  let ?m = "new_membership e (w_next w) u t False None [] (Some (e_now e))"
  obtain ls where "add_membership e ?m w =
      audited (w\<lparr>w_user_memberships := w_user_memberships w @ [?m], w_next := Suc (w_next w)\<rparr>) ls"
    using on_membership_save_audited unfolding add_membership_def by blast
  with False show ?thesis by (simp add: ensure_membership_def audited_def new_membership_def)
qed

lemma project_access_joined:
  assumes "m \<in> set (w_team_memberships w)" "mb_user m = u" "team_of w (mb_team m) = Some t" "tm_project t = p"
  shows "has_project_access w u p"
  using assms by (auto simp: has_project_access_def)

lemma default_teams_iff: "t \<in> set (default_teams w c) \<longleftrightarrow> t \<in> set (w_teams w) \<and> tm_id t \<in> set (sc_default_teams c)"
  by (auto simp: default_teams_def)

lemma create_user_new:
  assumes "create_user e email pw fn ln active verified w = (Ok u, w')"
  shows "u = new_user e (w_next w) (normalize_email email) (Some (e_make_password e pw)) fn ln active verified"
    "w_users w' = w_users w @ [u]" "w_teams w' = w_teams w" "w_team_memberships w' = w_team_memberships w"
  using assms by (auto simp: create_user_def Let_def split: if_splits)

text \<open>Joining the default teams gives access to the project they are in.\<close>

lemma join_default_teams_access:
  assumes "distinct (map tm_id (w_teams w))" "\<forall>t \<in> set (default_teams w c). tm_project t = sc_project c"
    and "default_teams w c \<noteq> []"
  shows "has_project_access (join_teams e u role (default_teams w c) w) u (sc_project c)"
proof -
  let ?w = "join_teams e u role (default_teams w c) w"
  from assms(3) obtain t where t: "t \<in> set (default_teams w c)" by (cases "default_teams w c") auto
  note eff = join_teams_effect [of w e u role "default_teams w c"]
  from eff t obtain m where m: "m \<in> set (w_team_memberships ?w)" "mb_team m = tm_id t" "mb_user m = u" by blast
  from t have "t \<in> set (w_teams w)" by (simp add: default_teams_iff)
  from find_by_key [OF assms(1) this] have "team_of w (tm_id t) = Some t" by (simp add: team_of_def)
  with eff have "team_of ?w (mb_team m) = Some t" using same_people_team_of(1) [of w ?w] by (simp add: m(2))
  with m assms(2) t show ?thesis by (auto intro: project_access_joined)
qed

text \<open>The account a login works on: the one with the address, repaired, or a new one.\<close>

definition login_account ::
  "env \<Rightarrow> sso_config \<Rightarrow> string \<Rightarrow> string \<Rightarrow> string \<Rightarrow> world \<Rightarrow> user result \<times> world" where
  "login_account e c email fn ln w =
     (case find_email_nocase w email of
        None \<Rightarrow>
          (if \<not> sc_jit_enabled c
           then (Raise (ValueError ''User not found and JIT provisioning is disabled''), w)
           else provisioned_user e email fn ln w)
      | Some u \<Rightarrow>
          (Ok (refreshed_user fn ln u),
           w\<lparr>w_users := update_where (\<lambda>r. usr_id r = usr_id u) (refreshed_user fn ln) (w_users w)\<rparr>))"

lemma login_account_Ok:
  assumes "login_account e c email fn ln w = (Ok u, w1)"
  shows "usr_is_active u \<and> usr_is_email_verified u \<and> u \<in> set (w_users w1) \<and>
    w_teams w1 = w_teams w \<and> w_team_memberships w1 = w_team_memberships w \<and>
    length (w_users w1) = length (w_users w) + (if find_email_nocase w email = None then 1 else 0)"
proof (cases "find_email_nocase w email")
  case None
  with assms have cu: "create_user e email (e_token e (w_next w)) fn ln True True w = (Ok u, w1)"
    by (auto simp: login_account_def provisioned_user_def split: if_splits)
  from create_user_new [OF this] None show ?thesis by (simp add: new_user_def)
next
  case (Some x)
  then have "x \<in> set (w_users w)" by (auto simp: find_email_nocase_def dest: first_row_in)
  moreover have "u = refreshed_user fn ln x"
    "w1 = w\<lparr>w_users := update_where (\<lambda>r. usr_id r = usr_id x) (refreshed_user fn ln) (w_users w)\<rparr>"
    using assms Some by (simp_all add: login_account_def)
  ultimately show ?thesis using Some by (auto simp: in_update_where_iff refreshed_user_def)
qed

lemma provision_from_saml_unfold:
  "provision_from_saml e c email fn ln = atomic (\<lambda>w.
     case login_account e c email fn ln w of
       (Inl x, w1) \<Rightarrow> (Raise x, w1)
     | (Inr user, w1) \<Rightarrow>
         (let w2 = ensure_membership e (usr_id user) (sc_tenant c) w1
          in if has_project_access w2 (usr_id user) (sc_project c) then (Ok user, w2)
             else (case default_role w2 c of
                     Some role \<Rightarrow>
                       (if default_teams w2 c \<noteq> []
                        then (Ok user, join_teams e (usr_id user) (ro_id role) (default_teams w2 c) w2)
                        else (Raise (ValueError ''No project access for user. Configure default_teams and default_role on SSO config.''), w2))
                   | None \<Rightarrow> (Raise (ValueError ''No project access for user. Configure default_teams and default_role on SSO config.''), w2))))"
  unfolding provision_from_saml_def login_account_def Let_def ..

text \<open>
  Just-in-time provisioning is all or nothing, and what it grants is access: when it fails the
  database is as before; when it succeeds the user returned is stored, active and verified, is a
  member of the configuration's tenant, belongs to a team of its project, and exactly one account
  was added if none had the address, none otherwise.
\<close>

theorem jit_gives_access:
  assumes "distinct (map tm_id (w_teams w))" "\<forall>t \<in> set (default_teams w c). tm_project t = sc_project c"
    and run: "provision_from_saml e c email fn ln w = (r, w')"
  shows "case r of
      Inl x \<Rightarrow> w' = w
    | Inr u \<Rightarrow> u \<in> set (w_users w') \<and> usr_is_active u \<and> usr_is_email_verified u \<and>
        has_project_access w' (usr_id u) (sc_project c) \<and>
        (\<exists>m \<in> set (w_user_memberships w'). um_user m = usr_id u \<and> um_tenant m = sc_tenant c) \<and>
        length (w_users w') = length (w_users w) + (if find_email_nocase w email = None then 1 else 0)"
proof (cases r)
  case (Inl x)
  with run show ?thesis by (auto simp: provision_from_saml_def dest: atomic_Raise)
next
  case (Inr u)
  from run Inr obtain w1 where acc: "login_account e c email fn ln w = (Ok u, w1)"
    and rest: "(let w2 = ensure_membership e (usr_id u) (sc_tenant c) w1
       in if has_project_access w2 (usr_id u) (sc_project c) then w' = w2
          else default_teams w2 c \<noteq> [] \<and>
            (\<exists>rid. w' = join_teams e (usr_id u) rid (default_teams w2 c) w2))"
    by (auto simp: provision_from_saml_unfold atomic_Ok Let_def split: sum.splits prod.splits option.splits if_splits;
        blast)
  note acc = login_account_Ok [OF acc]
  define w2 where "w2 = ensure_membership e (usr_id u) (sc_tenant c) w1"
  have w2: "w_users w2 = w_users w1" "w_teams w2 = w_teams w" "w_team_memberships w2 = w_team_memberships w"
    using acc by (simp_all add: w2_def ensure_membership_frame)
  then have dt: "default_teams w2 c = default_teams w c" by (simp add: default_teams_def)
  have mem: "\<exists>m \<in> set (w_user_memberships w2). um_user m = usr_id u \<and> um_tenant m = sc_tenant c"
    unfolding w2_def by (rule ensure_membership_member)
  have "has_project_access w' (usr_id u) (sc_project c) \<and> same_people w2 w'"
  proof (cases "has_project_access w2 (usr_id u) (sc_project c)")
    case True
    with rest show ?thesis by (simp add: w2_def [symmetric] Let_def)
  next
    case False
    with rest obtain rid where "default_teams w2 c \<noteq> []"
      "w' = join_teams e (usr_id u) rid (default_teams w2 c) w2"
      by (auto simp: w2_def [symmetric] Let_def)
    with join_default_teams_access [of w2 c e "usr_id u" rid] assms(1,2) join_teams_effect
    show ?thesis by (simp add: w2(2) dt)
  qed
  with mem acc Inr w2(1) show ?thesis by (simp add: same_people_def)
qed

section \<open>A project with single sign-on\<close>

text \<open>Project 2 of tenant 1 with team 20, role 30 and an enabled configuration; Ann is user 5.\<close>

definition sample_team :: team where
  "sample_team =
     \<lparr>tm_id = 20, tm_tenant = 1, tm_project = 2, tm_name = ''ops'', tm_description = [],
      tm_created_at = 0, tm_updated_at = 0\<rparr>"

definition sample_sso :: sso_config where
  "sample_sso =
     \<lparr>sc_id = 40, sc_tenant = 1, sc_project = 2, sc_provider = Okta, sc_name = ''okta'', sc_description = [],
      sc_entity_id = ''https://idp'', sc_sso_url = ''https://idp/sso'', sc_slo_url = [], sc_x509_cert = ''cert'',
      sc_attribute_map = [], sc_jit_enabled = True, sc_default_role = Some 30, sc_default_teams = [20],
      sc_enforce_sso = True, sc_scim_token = ''secret'', sc_scim_auto_provision = True,
      sc_scim_auto_deprovision = True, sc_scim_enable_push_groups = False, sc_is_enabled = True,
      sc_created_at = 0, sc_updated_at = 0\<rparr>"

definition sso_world :: world where
  "sso_world = empty_world\<lparr>w_next := 100, w_users := [sample_user], w_teams := [sample_team],
     w_roles := [sample_role [''monitor:read'']], w_sso_configs := [sample_sso]\<rparr>"

lemma sample_sso_facts [simp]:
  "tm_id sample_team = 20" "tm_project sample_team = 2" "tm_name sample_team = ''ops''"
  "sc_id sample_sso = 40" "sc_tenant sample_sso = 1" "sc_project sample_sso = 2" "sc_jit_enabled sample_sso"
  "sc_default_role sample_sso = Some 30" "sc_default_teams sample_sso = [20]" "sc_enforce_sso sample_sso"
  "sc_scim_token sample_sso = ''secret''" "\<not> sc_scim_enable_push_groups sample_sso" "sc_is_enabled sample_sso"
  "sc_scim_auto_deprovision sample_sso"
  by (simp_all add: sample_team_def sample_sso_def)

lemma sso_world_facts [simp]:
  "w_users sso_world = [sample_user]" "w_teams sso_world = [sample_team]" "w_team_memberships sso_world = []"
  "w_roles sso_world = [sample_role [''monitor:read'']]" "w_sso_configs sso_world = [sample_sso]"
  "w_next sso_world = 100" "w_user_memberships sso_world = []"
  by (simp_all add: sso_world_def empty_world_def)

theorem jit_gives_access_witness:
  "\<exists>u w'. provision_from_saml sample_env sample_sso ''bob@x.org'' ''Bob'' [] sso_world = (Ok u, w') \<and>
     usr_is_active u \<and> has_project_access w' (usr_id u) 2 \<and> length (w_users w') = 2"
proof -
  have low: "lower ''bob@x.org'' = ''bob@x.org''" "lower (usr_email sample_user) = ''ann@x.org''"
    by (simp_all add: lower_def lower_char_def sample_user_def)
  have norm: "normalize_email ''bob@x.org'' = ''bob@x.org''"
    by (simp add: normalize_email_def rsplit_once_def strip_def is_space_def lower_def lower_char_def)
  have new: "find_email_nocase sso_world ''bob@x.org'' = None"
    by (simp add: find_email_nocase_def low)
  obtain r w' where run: "provision_from_saml sample_env sample_sso ''bob@x.org'' ''Bob'' [] sso_world = (r, w')"
    by force
  have teams: "default_teams v sample_sso = [sample_team]" if "w_teams v = [sample_team]" for v
    using that by (simp add: default_teams_def order_by_simps)
  have role: "default_role v sample_sso \<noteq> None" if "w_roles v = [sample_role [''monitor:read'']]" for v
    using that by (simp add: default_role_def role_of_def sample_role_def)
  obtain u where u: "r = Ok u"
  proof -
    obtain u0 w1 where "login_account sample_env sample_sso ''bob@x.org'' ''Bob'' [] sso_world = (Ok u0, w1)"
      "w_teams w1 = [sample_team]" "w_roles w1 = [sample_role [''monitor:read'']]"
      by (simp add: login_account_def new provisioned_user_def create_user_def norm Let_def sample_user_def)
    with run that role [of "ensure_membership sample_env (usr_id u0) 1 w1"] show ?thesis
      by (auto simp: provision_from_saml_unfold atomic_def Let_def teams ensure_membership_frame
          split: if_splits option.splits)
  qed
  have "\<forall>t \<in> set (default_teams sso_world sample_sso). tm_project t = sc_project sample_sso"
    by (simp add: teams)
  from jit_gives_access [OF _ this run] u new run show ?thesis by auto
qed

section \<open>Enforcement\<close>

lemma saml_service_never_built: "\<exists>x. saml_service_init e c = Raise x"
  by (simp add: saml_service_init_def call_sp_urls_def)

lemma sso_acs_never_signs_in: "\<exists>x. sso_acs e l rq h p w = (Raise x, w)"
proof (cases "get_enabled_sso_config w p")
  case (Inr c)
  with saml_service_never_built [of e c] show ?thesis by (auto simp: sso_acs_def)
qed (simp add: sso_acs_def)

text \<open>
  Enforced single sign-on locks its members out. Somebody with the right password whose project
  enforces SSO is sent to SAML by the login, which changes nothing; and the SAML assertion endpoint
  raises for every project, every request and whatever the SAML library answers, because the
  service's constructor calls \<open>_sp_urls()\<close> without its argument. There is no way left to sign in.
\<close>

theorem sso_enforcement_locks_out:
  assumes "validate_login e email pw w = Ok u" "user_requires_sso_login w u"
  shows "login e rq email pw w =
      (Ok (Response 403 (JObj
         [(''detail'', JStr ''SSO is required for your organization. Use SAML login.''),
          (''sso_required'', JBool True)])), w) \<and>
    (\<forall>l rq' h p. \<exists>x. sso_acs e l rq' h p w = (Raise x, w))"
  using assms sso_acs_never_signs_in by (simp add: login_def)

theorem sso_enforcement_locks_out_witness:
  "let w = sso_world\<lparr>w_team_memberships := [\<lparr>mb_id = 21, mb_team = 20, mb_user = 5, mb_role = 30,
             mb_granted_by = None, mb_created_at = 0\<rparr>]\<rparr>
   in \<exists>body. login sample_env bare_request ''ann@x.org'' ''pw'' w = (Ok (Response 403 body), w)"
proof -
  let ?w = "sso_world\<lparr>w_team_memberships := [\<lparr>mb_id = 21, mb_team = 20, mb_user = 5, mb_role = 30,
             mb_granted_by = None, mb_created_at = 0\<rparr>]\<rparr>"
  have "validate_login sample_env ''ann@x.org'' ''pw'' ?w = Ok sample_user"
    by (simp add: validate_login_def lower_def lower_char_def find_email_def check_password_def Let_def
        sample_env_def sample_user_def)
  moreover have "user_requires_sso_login ?w sample_user"
    by (simp add: user_requires_sso_login_def member_projects_def enforces_sso_def team_of_def)
  ultimately show ?thesis using sso_enforcement_locks_out [of sample_env "''ann@x.org''" "''pw''" ?w] by (simp add: Let_def)
qed

section \<open>SCIM groups\<close>

text \<open>The users of a team, and those a list of members names.\<close>

definition team_users :: "world \<Rightarrow> uuid \<Rightarrow> uuid set" where
  "team_users w t = mb_user ` set (team_members w t)"

definition member_id :: "json \<Rightarrow> json" where
  "member_id m = (case m of JObj d \<Rightarrow> dict_get_or d ''value'' JNull | _ \<Rightarrow> m)"

definition named_users :: "world \<Rightarrow> json list \<Rightarrow> uuid set" where
  "named_users w ms =
     {i. user_of w i \<noteq> None \<and> (\<exists>m \<in> set ms. truthy (member_id m) \<and> filter_id (member_id m) = Ok i)}"

lemma unique_keys_team: "team_joins.unique_keys ms \<longleftrightarrow> unique_user_per_team ms"
  unfolding team_joins.unique_keys_def by (simp add: unique_user_per_team_def team_membership_key_def [abs_def])

lemma join_team_members:
  shows "team_users (snd (join_team e t u role g w)) t = insert u (team_users w t)"
    and "t' \<noteq> t \<Longrightarrow> team_members (snd (join_team e t u role g w)) t' = team_members w t'"
    and "unique_user_per_team (w_team_memberships w) \<Longrightarrow>
      unique_user_per_team (w_team_memberships (snd (join_team e t u role g w)))"
proof -
  obtain ms where ms: "snd (join_team e t u role g w) =
      w\<lparr>w_team_memberships := w_team_memberships w @ ms, w_next := Suc (w_next w)\<rparr>"
    "\<forall>m \<in> set ms. mb_team m = t \<and> mb_user m = u"
    "\<exists>m \<in> set (w_team_memberships w @ ms). mb_team m = t \<and> mb_user m = u"
    by (rule join_team_cases)
  then show "team_users (snd (join_team e t u role g w)) t = insert u (team_users w t)"
    by (auto simp: team_users_def team_members_def image_iff)
  show "team_members (snd (join_team e t u role g w)) t' = team_members w t'" if "t' \<noteq> t"
    using ms that by (auto simp: team_members_def filter_empty_conv)
  show "unique_user_per_team (w_team_memberships (snd (join_team e t u role g w)))"
    if "unique_user_per_team (w_team_memberships w)"
    using that team_joins.goc_unique [where rs = "w_team_memberships w"]
    by (auto simp: join_team_def unique_keys_team split: prod.splits)
qed

lemma named_users_Nil [simp]: "named_users w [] = {}"
  by (simp add: named_users_def)

lemma named_users_Cons:
  "named_users w (m # ms) =
     (if truthy (member_id m)
      then (case filter_id (member_id m) of
              Inl _ \<Rightarrow> {} | Inr i \<Rightarrow> (if user_of w i = None then {} else {i}))
      else {}) \<union> named_users w ms"
  by (auto simp: named_users_def split: sum.splits)

lemma named_users_cong: "same_people w w' \<Longrightarrow> named_users w' ms = named_users w ms"
  by (simp add: named_users_def same_people_team_of)

lemma user_of_id: "user_of w i = Some u \<Longrightarrow> usr_id u = i"
  by (auto simp: user_of_def find_Some_iff)

text \<open>The invariant of the loop: the team gains the users named so far, other teams keep theirs.\<close>

lemma sync_members_effect:
  assumes "\<not> sc_scim_enable_push_groups c" "sync_members e c t role un ms w = (r, w')"
  shows "same_people w w' \<and> (\<forall>t'. t' \<noteq> tm_id t \<longrightarrow> team_members w' t' = team_members w t') \<and>
    (unique_user_per_team (w_team_memberships w) \<longrightarrow> unique_user_per_team (w_team_memberships w')) \<and>
    (r = Ok () \<longrightarrow> team_users w' (tm_id t) = team_users w (tm_id t) \<union> named_users w ms)"
  using assms(2)
proof (induction ms arbitrary: w)
  case Nil
  then show ?case by simp
next
  case (Cons m ms)
  show ?case
  proof (cases "\<exists>i u. truthy (member_id m) \<and> filter_id (member_id m) = Ok i \<and> user_of w i = Some u")
    case True
    then obtain i u where m: "truthy (member_id m)" "filter_id (member_id m) = Ok i" "user_of w i = Some u" by blast
    then have u: "usr_id u = i" by (simp add: user_of_id)
    let ?w = "snd (join_team e (tm_id t) i (ro_id role) None w)"
    from Cons.prems m assms(1) have "sync_members e c t role un ms ?w = (r, w')"
      by (simp add: member_id_def Let_def u)
    from Cons.IH [OF this] join_team_same_people [of w e "tm_id t" i "ro_id role" None]
      join_team_members [where e = e and t = "tm_id t" and u = i and role = "ro_id role" and g = None and w = w]
    show ?thesis
      by (auto simp: named_users_Cons m same_people_trans named_users_cong)
  next
    case False
    show ?thesis
    proof (cases "truthy (member_id m) \<and> (\<exists>x. filter_id (member_id m) = Raise x)")
      case True
      with Cons.prems show ?thesis by (auto simp: member_id_def Let_def)
    next
      case no: False
      with False Cons.prems have "sync_members e c t role un ms w = (r, w')"
        by (cases "truthy (member_id m)"; cases "filter_id (member_id m)") (auto simp: member_id_def Let_def split: option.splits)
      from Cons.IH [OF this] False no show ?thesis
        by (auto simp: named_users_Cons split: sum.splits)
    qed
  qed
qed

lemma rename_team_frame:
  assumes "rename_team e t n w = (Ok t1, w1)"
  shows "tm_id t1 = tm_id t \<and> w_users w1 = w_users w \<and> w_team_memberships w1 = w_team_memberships w \<and>
    w_sso_configs w1 = w_sso_configs w \<and> w_roles w1 = w_roles w"
  using assms by (auto simp: rename_team_def Let_def split: if_splits)

lemma clear_team_members:
  "team_users (clear_team t w) t = {}" "t' \<noteq> t \<Longrightarrow> team_members (clear_team t w) t' = team_members w t'"
  "w_users (clear_team t w) = w_users w" "w_roles (clear_team t w) = w_roles w"
  "unique_user_per_team (w_team_memberships w) \<Longrightarrow> unique_user_per_team (w_team_memberships (clear_team t w))"
  by (auto simp: team_users_def team_members_def clear_team_def delete_where_def unique_user_per_team_def
      distinct_map_filter intro!: arg_cong2 [of _ _ _ _ filter])

lemma named_users_users: "w_users w' = w_users w \<Longrightarrow> named_users w' ms = named_users w ms"
  by (simp add: named_users_def user_of_def)

lemma sync_group_Ok:
  assumes "sync_group_members e c t members w = (Ok (), w')"
  obtains role ms where "default_role w c = Some role" "iterate_json members = Ok ms"
    "sync_members e c t role None ms w = (Ok (), w')"
  using assms by (auto simp: sync_group_members_def split: option.splits sum.splits)

text \<open>What replacing a group leaves in the tables.\<close>

lemma replace_group_members:
  assumes run: "scim_replace_group e c g body w = (Ok (Some j), w')"
    and plain: "\<not> sc_scim_enable_push_groups c"
    and ms: "iterate_json (json_or (field body ''members'') (JList [])) = Ok ms"
  shows "team_users w' g = named_users w ms \<and> (\<forall>t. t \<noteq> g \<longrightarrow> team_members w' t = team_members w t) \<and>
    w_users w' = w_users w \<and>
    (unique_user_per_team (w_team_memberships w) \<longrightarrow> unique_user_per_team (w_team_memberships w'))"
proof -
  from run obtain t t1 w1 w2 where t: "project_team w c g = Some t"
    and ren: "(if truthy (field body ''displayName'') then rename_team e t (field body ''displayName'') w
       else (Ok t, w)) = (Ok t1, w1)"
    and sync: "sync_group_members e c t1 (json_or (field body ''members'') (JList [])) (clear_team (tm_id t1) w1) = (Ok (), w2)"
    and w': "w' = scim_log e c ScimUpdate ScimGroup (string_of_nat (tm_id t1)) (JObj body) ''success'' [] w2"
    by (auto simp: scim_replace_group_def Let_def split: option.splits sum.splits prod.splits)
  from t have "tm_id t = g" by (auto simp: project_team_def find_Some_iff)
  with ren have t1: "tm_id t1 = g" "w_users w1 = w_users w" "w_team_memberships w1 = w_team_memberships w"
    by (auto dest: rename_team_frame split: if_splits)
  from sync obtain role ms' where "iterate_json (json_or (field body ''members'') (JList [])) = Ok ms'"
    and loop: "sync_members e c t1 role None ms' (clear_team (tm_id t1) w1) = (Ok (), w2)"
    by (rule sync_group_Ok)
  with ms have "ms' = ms" by simp
  from t1(3) have same1: "team_members w1 t = team_members w t" for t by (simp add: team_members_def)
  have logged: "team_users w' t = team_users w2 t" "team_members w' t = team_members w2 t"
    "w_users w' = w_users w2" "w_team_memberships w' = w_team_memberships w2" for t
    by (simp_all add: w' scim_log_def team_users_def team_members_def)
  from sync_members_effect [OF plain loop] show ?thesis
    by (simp add: logged t1 \<open>ms' = ms\<close> clear_team_members same1 same_people_def
        named_users_users [of "clear_team g w1" w])
qed

text \<open>
  C21. SCIM group replacement implements the set it is given: after a successful PUT (without push
  groups) the team's members are exactly the users of the server that the body lists, whatever they
  were before; no other team's memberships change, no account changes, and a user still has at most
  one membership per team.
\<close>

theorem scim_put_sets_members:
  assumes "scim_groups_put e rq (Some g) (JObj body) w = (Ok (Response 200 j), w')"
    and "get_scim_service rq w = Ok c" "\<not> sc_scim_enable_push_groups c"
    and "iterate_json (json_or (field body ''members'') (JList [])) = Ok ms"
  shows "team_users w' g = named_users w ms \<and> (\<forall>t. t \<noteq> g \<longrightarrow> team_members w' t = team_members w t) \<and>
    w_users w' = w_users w \<and>
    (unique_user_per_team (w_team_memberships w) \<longrightarrow> unique_user_per_team (w_team_memberships w'))"
proof -
  from assms(1,2) have "scim_replace_group e c g body w = (Ok (Some j), w')"
    by (auto simp: scim_groups_put_def body_items_def found_or_404_def scim_replace_group_def
        split: sum.splits prod.splits option.splits if_splits)
  from replace_group_members [OF this assms(3,4)] show ?thesis .
qed

text \<open>A request with the sample configuration's SCIM token.\<close>

definition scim_request :: request where
  "scim_request = bare_request\<lparr>req_path := ''/scim/v2/'', req_authorization := ''Bearer secret''\<rparr>"

lemma scim_request_service:
  "w_sso_configs w = [sample_sso] \<Longrightarrow> get_scim_service scim_request w = Ok sample_sso"
  by (simp add: get_scim_service_def scim_authenticate_def scim_request_def startswith_def strip_def
      is_space_def Let_def order_by_simps)

theorem scim_put_sets_members_witness:
  "\<exists>j w'. scim_groups_put sample_env scim_request (Some 20)
       (JObj [(''members'', JList [JObj [(''value'', JUuid 5)], JObj [(''value'', JUuid 77)]])]) sso_world =
     (Ok (Response 200 j), w') \<and> team_users w' 20 = {5}"
proof -
  let ?ms = "[JObj [(''value'', JUuid 5)], JObj [(''value'', JUuid 77)]]"
  let ?body = "[(''members'', JList ?ms)]"
  have svc: "get_scim_service scim_request sso_world = Ok sample_sso" by (simp add: scim_request_service)
  have cw: "clear_team 20 sso_world = sso_world"
    by (simp add: clear_team_def delete_where_def sso_world_def empty_world_def)
  have role: "default_role sso_world sample_sso = Some (sample_role [''monitor:read''])"
    by (simp add: default_role_def role_of_def sample_role_def)
  have users: "user_of sso_world 5 = Some sample_user" "user_of (snd (join_team sample_env 20 5 30 None sso_world)) 77 = None"
    using same_people_team_of(2) [OF join_team_same_people [of sso_world sample_env 20 5 30 None]]
    by (simp_all add: user_of_def)
  have rid: "ro_id (sample_role ps) = 30" for ps by (simp add: sample_role_def)
  obtain j w' where run: "scim_groups_put sample_env scim_request (Some 20) (JObj ?body) sso_world =
      (Ok (Response 200 j), w')"
    by (simp add: scim_groups_put_def svc project_team_def body_items_def scim_replace_group_def dict_get_or_def
        json_or_def sync_group_members_def iterate_json_def role cw Let_def filter_id_def uuid_of_json_def users rid
        found_or_404_def)
  have "iterate_json (json_or (field ?body ''members'') (JList [])) = Ok ?ms"
    by (simp add: iterate_json_def json_or_def dict_get_or_def)
  from scim_put_sets_members [OF run svc _ this] have "team_users w' 20 = named_users sso_world ?ms" by simp
  also have "\<dots> = {5}"
    by (simp add: named_users_Cons member_id_def dict_get_or_def filter_id_def uuid_of_json_def user_of_def)
  finally show ?thesis using run by blast
qed

text \<open>
  The same PUT on a configuration without a default role empties the group: the old memberships
  are deleted before the missing role is noticed, nothing is rolled back, and the error is not the
  400 a creation gets but an unhandled exception.
\<close>

theorem scim_put_loses_members:
  assumes "get_scim_service rq w = Ok c" "project_team w c g = Some t" "default_role w c = None"
    and "\<not> truthy (field body ''displayName'')"
  shows "\<exists>w'. scim_groups_put e rq (Some g) (JObj body) w =
      (Raise (ValueError ''default_role must be set on SSO config for SCIM group sync''), w') \<and>
    team_members w' g = []"
proof -
  from assms(2) have "tm_id t = g" by (auto simp: project_team_def find_Some_iff)
  moreover have "default_role (clear_team g w) c = None"
    using assms(3) by (simp add: default_role_def role_of_def [abs_def] clear_team_members(4))
  moreover have "team_members (clear_team g w) g = []"
    by (simp add: team_members_def clear_team_def delete_where_def filter_empty_conv)
  ultimately show ?thesis using assms
    by (simp add: scim_groups_put_def body_items_def scim_replace_group_def sync_group_members_def)
qed

theorem scim_put_loses_members_witness:
  "\<exists>w'. scim_groups_put sample_env scim_request (Some 20) (JObj [])
      (sso_world\<lparr>w_sso_configs := [sample_sso\<lparr>sc_default_role := None\<rparr>],
         w_team_memberships := [\<lparr>mb_id = 21, mb_team = 20, mb_user = 5, mb_role = 30,
             mb_granted_by = None, mb_created_at = 0\<rparr>]\<rparr>) =
     (Raise (ValueError ''default_role must be set on SSO config for SCIM group sync''), w') \<and>
     team_members w' 20 = []"
proof (rule scim_put_loses_members)
  show "get_scim_service scim_request
      (sso_world\<lparr>w_sso_configs := [sample_sso\<lparr>sc_default_role := None\<rparr>],
         w_team_memberships := [\<lparr>mb_id = 21, mb_team = 20, mb_user = 5, mb_role = 30,
             mb_granted_by = None, mb_created_at = 0\<rparr>]\<rparr>) = Ok (sample_sso\<lparr>sc_default_role := None\<rparr>)"
    by (simp add: get_scim_service_def scim_authenticate_def scim_request_def startswith_def strip_def
        is_space_def Let_def order_by_simps)
qed (simp_all add: project_team_def default_role_def dict_get_or_def)

section \<open>SCIM users\<close>

text \<open>
  C22. The user operations of SCIM reach every account of the server: whoever holds the SCIM token of
  one project's configuration (without push groups) can switch off any user by id, of another tenant
  or a superuser; from then on that user's tokens are refused.
\<close>

theorem scim_deactivates_any_user:
  assumes "get_scim_service rq w = Ok c" "\<not> sc_scim_enable_push_groups c"
    and "user_of w i = Some u" "distinct (map usr_id (w_users w))" "distinct (map usr_email (w_users w))"
    and "e_jwt_decode e token = Some claims" "jc_user claims = i"
  shows "\<exists>j w'. scim_users_patch e rq (Some i) (JObj [(''active'', JBool False)]) w = (Ok (Response 200 j), w') \<and>
    authenticate_jwt e token rq' w' = (unauthorized ''Account is disabled.'', w')"
proof -
  let ?body = "[(''active'', JBool False)]"
  have u: "u \<in> set (w_users w)" "usr_id u = i" using assms(3) by (auto simp: user_of_def dest: find_SomeD)
  define u3 where "u3 = u\<lparr>usr_is_active := False, usr_updated_at := e_now e\<rparr>"
  define w1 where "w1 = deprovision_from_scim c i w"
  have w1: "w_users w1 = w_users w" by (simp add: w1_def deprovision_from_scim_def)
  have patched: "patched_user ?body u = Ok u"
    by (simp add: patched_user_def extract_email_def json_or_def dict_get_or_def items_or_empty_def as_str_def
        strip_def lower_def Let_def)
  have email: "usr_email u3 = usr_email u" by (simp add: u3_def)
  have unique: "\<not> exists_row (\<lambda>r. usr_email r = usr_email u3 \<and> usr_id r \<noteq> i) (w_users w1)"
    using assms(4,5) u by (auto simp: w1 email distinct_map inj_on_def)
  define w2 where "w2 = w1\<lparr>w_users := update_where (\<lambda>r. usr_id r = i) (\<lambda>_. u3) (w_users w1)\<rparr>"
  define w' where "w' = scim_log e c ScimUpdate ScimUser (string_of_nat i) (JObj ?body) ''success'' [] w2"
  have "scim_update_user e c i ?body w = (Ok (Some (user_to_scim u3)), w')"
    using unique by (simp add: scim_update_user_def assms(2,3) patched dict_get_or_def Let_def u email w1_def [symmetric]
        u3_def [symmetric] w2_def w'_def)
  then have "scim_users_patch e rq (Some i) (JObj ?body) w = (Ok (Response 200 (user_to_scim u3)), w')"
    by (simp add: scim_users_patch_def scim_users_put_def assms(1,3) body_items_def found_or_404_def)
  moreover have "user_of w' i = Some u3"
  proof -
    have "map usr_id (w_users w') = map usr_id (w_users w)"
      using map_update_where [of "\<lambda>r. usr_id r = i" usr_id "\<lambda>_. u3" "w_users w"] u(2)
      by (simp add: w'_def scim_log_def w2_def w1 u3_def)
    moreover have "u3 \<in> set (w_users w')"
      using u by (auto simp: w'_def scim_log_def w2_def w1 in_update_where_iff)
    moreover have "usr_id u3 = i" using u(2) by (simp add: u3_def)
    ultimately show ?thesis using find_by_key [of usr_id "w_users w'" u3] assms(4) by (simp add: user_of_def)
  qed
  then have "authenticate_jwt e token rq' w' = (unauthorized ''Account is disabled.'', w')"
    by (simp add: authenticate_jwt_def assms(6,7) jwt_user_def u3_def unauthorized_def)
  ultimately show ?thesis by blast
qed

theorem scim_deactivates_any_user_witness:
  "let e = sample_env\<lparr>e_jwt_decode := (\<lambda>_. Some (password_claims sample_user))\<rparr>;
       w = sso_world\<lparr>w_users := [sample_user\<lparr>usr_is_superuser := True\<rparr>], w_user_memberships := []\<rparr>
   in \<exists>j w'. scim_users_patch e scim_request (Some 5) (JObj [(''active'', JBool False)]) w = (Ok (Response 200 j), w') \<and>
        authenticate_jwt e ''t'' bare_request w' = (unauthorized ''Account is disabled.'', w')"
  unfolding Let_def
  by (rule scim_deactivates_any_user [where c = sample_sso and u = "sample_user\<lparr>usr_is_superuser := True\<rparr>"
        and claims = "password_claims sample_user"])
    (simp_all add: scim_request_service user_of_def password_claims_def)

end
