(* ===== verification/StatusPages.thy ===== *)
theory StatusPages
  imports MaintenanceRun
begin

text \<open>
  The application \<open>apps/status_pages\<close>: subscriptions with their verification by mail and SMS
  (\<open>services/subscribers.py\<close>, \<open>services/notifications.py\<close>), the serializers and the handlers
  of \<open>views.py\<close>, management and public. Addresses are valid already (DRF's \<open>EmailField\<close>), HTML
  bodies are left out, and white space and digits are ASCII.
\<close>

section \<open>Phone numbers\<close>

text \<open>\<open>re.sub(r"[\s\-().]", "", value.strip())\<close>\<close>

definition phone_noise :: "char \<Rightarrow> bool" where
  "phone_noise c \<longleftrightarrow> is_space c \<or> c \<in> {CHR ''-'', CHR ''('', CHR '')'', CHR ''.''}"

definition clean_phone :: "string \<Rightarrow> string" where
  "clean_phone value = filter (\<lambda>c. \<not> phone_noise c) (strip value)"

text \<open>\<open>PHONE_RE\<close>, \<open>^\+[1-9]\d{7,14}$\<close>\<close>

definition PHONE_RE :: "string \<Rightarrow> bool" where
  "PHONE_RE s =
     (case s of
        p # d # ds \<Rightarrow> p = CHR ''+'' \<and> is_digit d \<and> d \<noteq> CHR ''0'' \<and> list_all is_digit ds \<and>
          7 \<le> length ds \<and> length ds \<le> 14
      | _ \<Rightarrow> False)"

definition normalize_phone :: "string \<Rightarrow> string result" where
  "normalize_phone value =
     (if value = [] then Ok []
      else
        (let cleaned = clean_phone value
         in if cleaned = [] then Ok []
            else if \<not> startswith cleaned ''+'' then
              ValidationError ''Phone number must be in international E.164 format (e.g. +33612345678).''
            else if \<not> PHONE_RE cleaned then ValidationError ''Invalid phone number format.''
            else Ok cleaned))"

section \<open>Verification messages\<close>

definition verification_url :: "env \<Rightarrow> status_page \<Rightarrow> string \<Rightarrow> string \<Rightarrow> string" where
  "verification_url e page path token =
     rstrip_char CHR ''/'' (e_frontend_url e) @ ''/status/'' @ sp_slug page @ ''/'' @ path @ ''?token='' @ token"

definition send_email_verification ::
  "env \<Rightarrow> status_page \<Rightarrow> subscriber \<Rightarrow> world \<Rightarrow> unit result \<times> world" where
  "send_email_verification e page s w =
     send_html_email e (sb_email s)
       (''['' @ e_email_from_name e @ ''] Confirm your subscription to '' @ sp_name page)
       (''Confirm your subscription to '' @ sp_name page @ newline @ newline
        @ ''Open this link to verify your email:'' @ newline
        @ verification_url e page ''verify-email'' (sb_verification_token s) @ newline @ newline
        @ ''If you did not subscribe, you can ignore this message.'') w"

definition send_phone_verification ::
  "env \<Rightarrow> status_page \<Rightarrow> subscriber \<Rightarrow> world \<Rightarrow> unit result \<times> world" where
  "send_phone_verification e page s w =
     (if sb_phone s = [] then (Ok (), w)
      else
        (let (sent, w1) = sms_send e (sb_phone s)
               (''['' @ e_email_from_name e @ ''] Confirm SMS alerts for '' @ sp_name page @ ''. Open: ''
                @ verification_url e page ''verify-phone'' (sb_phone_verification_token s)) w
         in if sent then (Ok (), w1)
            else (Raise (RuntimeError ''SMS delivery failed or Twilio is not configured.''), w1)))"

section \<open>SubscriberService\<close>

record subscribe_result =
  ss_subscriber :: subscriber
  ss_created :: bool
  ss_email_sent :: bool
  ss_phone_sent :: bool

text \<open>\<open>get_or_create(status_page, email, defaults)\<close>\<close>

definition new_subscriber :: "env \<Rightarrow> status_page \<Rightarrow> string \<Rightarrow> string \<Rightarrow> world \<Rightarrow> subscriber" where
  "new_subscriber e page email phone w =
     \<lparr>sb_id = w_next w, sb_tenant = sp_tenant page, sb_status_page = sp_id page, sb_email = email,
      sb_phone = phone, sb_is_verified = False, sb_phone_verified = False,
      sb_verification_token = e_token e (w_next w),
      sb_phone_verification_token = (if phone \<noteq> [] then e_token e (Suc (w_next w)) else []),
      sb_subscribed_at = e_now e\<rparr>"

definition subscriber_get_or_create ::
  "env \<Rightarrow> status_page \<Rightarrow> string \<Rightarrow> string \<Rightarrow> world \<Rightarrow> subscriber \<times> bool \<times> world" where
  "subscriber_get_or_create e page email phone w =
     (case find (\<lambda>s. sb_status_page s = sp_id page \<and> sb_email s = email) (w_subscribers w) of
        Some s \<Rightarrow> (s, False, w)
      | None \<Rightarrow>
          (let s = new_subscriber e page email phone w
           in (s, True, w\<lparr>w_subscribers := w_subscribers w @ [s], w_next := w_next w + 2\<rparr>)))"

definition save_subscriber :: "subscriber \<Rightarrow> world \<Rightarrow> world" where
  "save_subscriber s w = w\<lparr>w_subscribers := update_where (\<lambda>r. sb_id r = sb_id s) (\<lambda>_. s) (w_subscribers w)\<rparr>"

text \<open>The three steps after \<open>get_or_create\<close>: another phone, the mail, the SMS. The flag is \<open>update_fields\<close>.\<close>

definition change_phone ::
  "env \<Rightarrow> string \<Rightarrow> subscriber \<times> bool \<times> world \<Rightarrow> subscriber \<times> bool \<times> world" where
  "change_phone e phone st =
     (case st of (s, dirty, w) \<Rightarrow>
        (if phone \<noteq> [] \<and> phone \<noteq> sb_phone s
         then (s\<lparr>sb_phone := phone, sb_phone_verified := False,
                 sb_phone_verification_token := e_token e (w_next w)\<rparr>, True, w\<lparr>w_next := Suc (w_next w)\<rparr>)
         else st))"

definition ask_email ::
  "env \<Rightarrow> status_page \<Rightarrow> subscriber \<times> bool \<times> world \<Rightarrow> bool \<times> subscriber \<times> bool \<times> world" where
  "ask_email e page st =
     (case st of (s, dirty, w) \<Rightarrow>
        (if sb_is_verified s then (False, st)
         else
           (let (s1, dirty1, w1) =
                  (if sb_verification_token s = []
                   then (s\<lparr>sb_verification_token := e_token e (w_next w)\<rparr>, True, w\<lparr>w_next := Suc (w_next w)\<rparr>)
                   else st)
            in case send_email_verification e page s1 w1 of
                 (Inl _, w2) \<Rightarrow> (False, s1, dirty1, w2)
               | (Inr _, w2) \<Rightarrow> (True, s1, dirty1, w2))))"

definition ask_phone ::
  "env \<Rightarrow> status_page \<Rightarrow> subscriber \<times> bool \<times> world \<Rightarrow> bool \<times> subscriber \<times> bool \<times> world" where
  "ask_phone e page st =
     (case st of (s, dirty, w) \<Rightarrow>
        (if sb_phone s = [] \<or> sb_phone_verified s then (False, st)
         else
           (let (s1, dirty1, w1) =
                  (if sb_phone_verification_token s = []
                   then (s\<lparr>sb_phone_verification_token := e_token e (w_next w)\<rparr>, True,
                         w\<lparr>w_next := Suc (w_next w)\<rparr>)
                   else st)
            in case send_phone_verification e page s1 w1 of
                 (Inl _, w2) \<Rightarrow> (False, s1, dirty1, w2)
               | (Inr _, w2) \<Rightarrow> (True, s1, dirty1, w2))))"

definition subscribe ::
  "env \<Rightarrow> status_page \<Rightarrow> string \<Rightarrow> string \<Rightarrow> world \<Rightarrow> subscribe_result result \<times> world" where
  "subscribe e page email phone w =
     (case normalize_phone phone of
        Inl x \<Rightarrow> (Raise x, w)
      | Inr number \<Rightarrow>
          (let (s, created, w1) = subscriber_get_or_create e page email number w;
               phone_unchanged = (number = [] \<or> number = sb_phone s)
           in if \<not> created \<and> sb_is_verified s \<and> phone_unchanged \<and> (number = [] \<or> sb_phone_verified s)
              then (Ok \<lparr>ss_subscriber = s, ss_created = False, ss_email_sent = False, ss_phone_sent = False\<rparr>, w1)
              else
                (let st = (s, False, w1);
                     st1 = (if \<not> created \<and> sb_is_verified s then change_phone e number st else st);
                     (email_sent, st2) = ask_email e page st1;
                     (phone_sent, s3, dirty, w3) = ask_phone e page st2;
                     w4 = (if dirty then save_subscriber s3 w3 else w3)
                 in (Ok \<lparr>ss_subscriber = s3, ss_created = created, ss_email_sent = email_sent,
                        ss_phone_sent = phone_sent\<rparr>, w4))))"

text \<open>\<open>objects.get\<close>\<close>

definition get_subscriber :: "(subscriber \<Rightarrow> bool) \<Rightarrow> string \<Rightarrow> world \<Rightarrow> subscriber result" where
  "get_subscriber p missing w =
     (case filter p (w_subscribers w) of
        [] \<Rightarrow> ValidationError missing
      | [s] \<Rightarrow> Ok s
      | _ \<Rightarrow> Raise (RuntimeError ''MultipleObjectsReturned''))"

definition verify_email :: "status_page \<Rightarrow> string \<Rightarrow> world \<Rightarrow> subscriber result \<times> world" where
  "verify_email page token w =
     (let t = strip token
      in if t = [] then (ValidationError ''Verification token is required.'', w)
         else
           (case get_subscriber (\<lambda>s. sb_status_page s = sp_id page \<and> sb_verification_token s = t)
                   ''Invalid or expired verification token.'' w of
              Inl x \<Rightarrow> (Raise x, w)
            | Inr s \<Rightarrow>
                (let s1 = s\<lparr>sb_is_verified := True, sb_verification_token := []\<rparr>
                 in (Ok s1, save_subscriber s1 w))))"

definition verify_phone :: "status_page \<Rightarrow> string \<Rightarrow> world \<Rightarrow> subscriber result \<times> world" where
  "verify_phone page token w =
     (let t = strip token
      in if t = [] then (ValidationError ''Verification token is required.'', w)
         else
           (case get_subscriber (\<lambda>s. sb_status_page s = sp_id page \<and> sb_phone_verification_token s = t)
                   ''Invalid or expired phone verification token.'' w of
              Inl x \<Rightarrow> (Raise x, w)
            | Inr s \<Rightarrow>
                (if sb_phone s = [] then (ValidationError ''No phone number on this subscription.'', w)
                 else
                   (let s1 = s\<lparr>sb_phone_verified := True, sb_phone_verification_token := []\<rparr>
                    in (Ok s1, save_subscriber s1 w)))))"

end
