(* ===== verification/StatusPageViews.thy ===== *)
theory StatusPageViews
  imports StatusPages AccountsViews
begin

text \<open>
  The serializers and the handlers of \<open>apps/status_pages\<close>: pages, their resources, announcements
  and subscribers for the project's users, and the public endpoints, which need no authentication.
\<close>

section \<open>Serializers\<close>

text \<open>\<open>get_display_status\<close>\<close>

definition display_status :: "world \<Rightarrow> status_page_resource \<Rightarrow> json" where
  "display_status w r =
     (case sr_monitor r of
        None \<Rightarrow> JNull
      | Some i \<Rightarrow>
          (case monitor_of w i of
             None \<Rightarrow> JNull
           | Some m \<Rightarrow> JStr (if is_monitor_under_maintenance w m then ''maintenance''
                              else monitor_status_value (mo_status m))))"

definition resource_json :: "world \<Rightarrow> status_page_resource \<Rightarrow> json" where
  "resource_json w r =
     (let monitor = (case sr_monitor r of None \<Rightarrow> None | Some i \<Rightarrow> monitor_of w i);
          grp = (case sr_monitor_group r of None \<Rightarrow> None | Some i \<Rightarrow> find (\<lambda>g. mg_id g = i) (w_monitor_groups w))
      in JObj
        [(''id'', JUuid (sr_id r)), (''monitor'', json_opt_uuid (sr_monitor r)),
         (''monitor_group'', json_opt_uuid (sr_monitor_group r)),
         (''display_name'', JStr (sr_display_name r)), (''order'', JInt (int (sr_order r))),
         (''monitor_name'', json_opt_str (map_option mo_name monitor)),
         (''monitor_status'', json_opt_str (map_option (\<lambda>m. monitor_status_value (mo_status m)) monitor)),
         (''display_status'', display_status w r),
         (''group_name'', json_opt_str (map_option mg_name grp)),
         (''created_at'', JTime (sr_created_at r))])"

definition page_resources :: "world \<Rightarrow> uuid \<Rightarrow> status_page_resource list" where
  "page_resources w page = order_by sr_order (filter (\<lambda>r. sr_status_page r = page) (w_page_resources w))"

definition resources_json :: "world \<Rightarrow> uuid \<Rightarrow> json" where
  "resources_json w page = JList (map (resource_json w) (page_resources w page))"

definition announcement_json :: "announcement \<Rightarrow> json" where
  "announcement_json a = JObj
     [(''id'', JUuid (an_id a)), (''title'', JStr (an_title a)), (''content'', JStr (an_content a)),
      (''starts_at'', JTime (an_starts_at a)), (''ends_at'', json_opt_time (an_ends_at a)),
      (''is_active'', JBool (an_is_active a)), (''created_at'', JTime (an_created_at a)),
      (''updated_at'', JTime (an_updated_at a))]"

definition subscriber_json :: "subscriber \<Rightarrow> json" where
  "subscriber_json s = JObj
     [(''id'', JUuid (sb_id s)), (''email'', JStr (sb_email s)), (''phone'', JStr (sb_phone s)),
      (''is_verified'', JBool (sb_is_verified s)), (''phone_verified'', JBool (sb_phone_verified s)),
      (''subscribed_at'', JTime (sb_subscribed_at s))]"

definition subscribers_count :: "world \<Rightarrow> uuid \<Rightarrow> nat" where
  "subscribers_count w page =
     length (filter (\<lambda>s. sb_status_page s = page \<and> sb_is_verified s) (w_subscribers w))"

definition status_page_json :: "world \<Rightarrow> status_page \<Rightarrow> json" where
  "status_page_json w p = JObj
     [(''id'', JUuid (sp_id p)), (''name'', JStr (sp_name p)), (''slug'', JStr (sp_slug p)),
      (''is_public'', JBool (sp_is_public p)), (''custom_domain'', json_opt_str (sp_custom_domain p)),
      (''logo_url'', json_opt_str (sp_logo_url p)), (''primary_color'', JStr (sp_primary_color p)),
      (''custom_css'', JStr (sp_custom_css p)), (''description'', JStr (sp_description p)),
      (''team_id'', json_opt_uuid (sp_team p)), (''team_name'', team_name_json w (sp_team p)),
      (''resources'', resources_json w (sp_id p)),
      (''subscribers_count'', JInt (int (subscribers_count w (sp_id p)))),
      (''created_at'', JTime (sp_created_at p)), (''updated_at'', JTime (sp_updated_at p))]"

definition public_announcements :: "datetime \<Rightarrow> world \<Rightarrow> uuid \<Rightarrow> announcement list" where
  "public_announcements now w page =
     order_by_desc an_starts_at
       (filter (\<lambda>a. an_status_page a = page \<and> an_is_active a \<and> an_starts_at a \<le> now \<and>
                    (case an_ends_at a of None \<Rightarrow> True | Some t \<Rightarrow> now \<le> t))
          (w_announcements w))"

definition public_maintenance_json :: "scheduled_maintenance \<Rightarrow> json" where
  "public_maintenance_json m = JObj
     [(''id'', JUuid (sm_id m)), (''title'', JStr (sm_title m)), (''description'', JStr (sm_description m)),
      (''starts_at'', JTime (sm_starts_at m)), (''ends_at'', JTime (sm_ends_at m)),
      (''monitors'', JList (map JUuid (sm_monitors m)))]"

definition public_page_json :: "env \<Rightarrow> world \<Rightarrow> status_page \<Rightarrow> json" where
  "public_page_json e w p = JObj
     [(''id'', JUuid (sp_id p)), (''name'', JStr (sp_name p)), (''slug'', JStr (sp_slug p)),
      (''description'', JStr (sp_description p)), (''logo_url'', json_opt_str (sp_logo_url p)),
      (''primary_color'', JStr (sp_primary_color p)), (''custom_css'', JStr (sp_custom_css p)),
      (''resources'', resources_json w (sp_id p)),
      (''announcements'', JList (map announcement_json (public_announcements (e_now e) w (sp_id p)))),
      (''scheduled_maintenances'',
         JList (map public_maintenance_json (visible_maintenances_for_status_page w p)))]"

text \<open>The payloads. A resource may name any monitor or group of the server.\<close>

record resource_input =
  ri_monitor :: "uuid option"
  ri_group :: "uuid option"
  ri_display_name :: string
  ri_order :: nat

definition validate_resource :: "world \<Rightarrow> resource_input \<Rightarrow> unit result" where
  "validate_resource w inp =
     (if (case ri_monitor inp of Some i \<Rightarrow> monitor_of w i = None | None \<Rightarrow> False)
         \<or> (case ri_group inp of Some i \<Rightarrow> \<not> exists_row (\<lambda>g. mg_id g = i) (w_monitor_groups w) | None \<Rightarrow> False)
      then ValidationError ''Invalid pk''
      else if ri_monitor inp = None \<and> ri_group inp = None
      then ValidationError ''Either monitor or monitor_group must be provided.''
      else if ri_monitor inp \<noteq> None \<and> ri_group inp \<noteq> None
      then ValidationError ''Provide either monitor or monitor_group, not both.''
      else Ok ())"

text \<open>\<open>message\<close> is another name of \<open>content\<close> and overrides it.\<close>

record announcement_input =
  ai_title :: string
  ai_content :: "string option"
  ai_message :: "string option"
  ai_starts_at :: "datetime option"
  ai_ends_at :: "datetime option"
  ai_is_active :: bool

definition validate_announcement :: "datetime \<Rightarrow> announcement_input \<Rightarrow> (string \<times> datetime) result" where
  "validate_announcement now inp =
     (let content = (case ai_message inp of Some m \<Rightarrow> Some m | None \<Rightarrow> ai_content inp);
          starts = (case ai_starts_at inp of Some t \<Rightarrow> t | None \<Rightarrow> now)
      in if ai_content inp = Some [] then ValidationError ''This field may not be blank.''
         else
           (case content of
              None \<Rightarrow> ValidationError ''This field is required.''
            | Some c \<Rightarrow>
                (if c = [] then ValidationError ''This field is required.''
                 else if (case ai_ends_at inp of Some t \<Rightarrow> t \<le> starts | None \<Rightarrow> False)
                 then ValidationError ''ends_at must be after starts_at.''
                 else Ok (c, starts))))"

section \<open>Management\<close>

definition status_page_permission_map :: "(string \<times> string) list" where
  "status_page_permission_map =
     [(''list'', ''status_page:read''), (''retrieve'', ''status_page:read''),
      (''create'', ''status_page:create''), (''update'', ''status_page:update''),
      (''partial_update'', ''status_page:update''), (''destroy'', ''status_page:delete''),
      (''resources'', ''status_page:read''), (''add_resource'', ''status_page:update''),
      (''remove_resource'', ''status_page:update''), (''announcements'', ''status_page:read''),
      (''add_announcement'', ''status_page:update''), (''subscribers'', ''status_page:read''),
      (''remove_subscriber'', ''status_page:manage_subscribers''),
      (''update_branding'', ''status_page:update''), (''update_domain'', ''status_page:update'')]"

definition status_page_queryset :: "world \<Rightarrow> request \<Rightarrow> uuid option \<Rightarrow> status_page list" where
  "status_page_queryset w rq team_id =
     (case req_project rq of
        None \<Rightarrow> []
      | Some p \<Rightarrow>
          order_by sp_name (scope_queryset_by_team w sp_team
            (filter (\<lambda>x. sp_project x = pj_id p) (w_status_pages w)) rq team_id))"

definition status_page_get :: "world \<Rightarrow> request \<Rightarrow> string \<Rightarrow> uuid \<Rightarrow> status_page result" where
  "status_page_get w rq action pk =
     bind_result (require_permission w status_page_permission_map action rq None) (\<lambda>_.
       get_object w status_page_permission_map action rq sp_id (status_page_queryset w rq None) pk)"

definition status_page_list :: "world \<Rightarrow> request \<Rightarrow> uuid option \<Rightarrow> json result" where
  "status_page_list w rq team_id =
     bind_result (require_permission w status_page_permission_map ''list'' rq None) (\<lambda>_.
       Ok (JList (map (status_page_json w) (status_page_queryset w rq team_id))))"

record status_page_input =
  pi_name :: string
  pi_slug :: string
  pi_is_public :: bool
  pi_custom_domain :: "string option"
  pi_logo_url :: "string option"
  pi_primary_color :: string
  pi_custom_css :: string
  pi_description :: string
  pi_team :: "uuid option"
  pi_team_null :: bool

text \<open>\<open>TeamScopeSerializerMixin\<close>: the team is one of the project, or of the server without a project.\<close>

definition validate_team :: "world \<Rightarrow> request \<Rightarrow> uuid option \<Rightarrow> unit result" where
  "validate_team w rq team =
     (case team of
        None \<Rightarrow> Ok ()
      | Some t \<Rightarrow>
          (case team_of w t of
             None \<Rightarrow> ValidationError ''team_id''
           | Some x \<Rightarrow>
               (case req_project rq of
                  Some p \<Rightarrow> if tm_project x = pj_id p then Ok () else ValidationError ''team_id''
                | None \<Rightarrow> Ok ())))"

definition slug_taken :: "world \<Rightarrow> uuid \<Rightarrow> uuid \<Rightarrow> string \<Rightarrow> bool" where
  "slug_taken w pk tenant slug \<longleftrightarrow>
     exists_row (\<lambda>p. sp_tenant p = tenant \<and> sp_slug p = slug \<and> sp_id p \<noteq> pk) (w_status_pages w)"

text \<open>The tenant is no field of the serializer, so a taken slug is found by the database only.\<close>

definition status_page_create ::
  "env \<Rightarrow> request \<Rightarrow> status_page_input \<Rightarrow> world \<Rightarrow> status_page result \<times> world" where
  "status_page_create e rq inp w =
     (case bind_result (require_permission w status_page_permission_map ''create'' rq None) (\<lambda>u.
             bind_result (validate_team w rq (pi_team inp)) (\<lambda>_.
               case req_project rq of
                 None \<Rightarrow> Raise (TypeError ''no attribute tenant'')
               | Some p \<Rightarrow>
                   bind_result (resolve_team_for_create w rq u (pi_team inp) None (pi_team_null inp))
                     (\<lambda>team. Ok (p, team)))) of
        Inl x \<Rightarrow> (Raise x, w)
      | Inr (p, team) \<Rightarrow>
          (if slug_taken w (w_next w) (pj_tenant p) (pi_slug inp)
           then (Raise (IntegrityError ''unique_status_page_slug_per_tenant''), w)
           else
             (let s = \<lparr>sp_id = w_next w, sp_tenant = pj_tenant p, sp_project = pj_id p, sp_team = team,
                       sp_name = pi_name inp, sp_slug = pi_slug inp, sp_is_public = pi_is_public inp,
                       sp_custom_domain = pi_custom_domain inp, sp_logo_url = pi_logo_url inp,
                       sp_primary_color = pi_primary_color inp, sp_custom_css = pi_custom_css inp,
                       sp_description = pi_description inp, sp_created_at = e_now e, sp_updated_at = e_now e\<rparr>
              in (Ok s, w\<lparr>w_status_pages := w_status_pages w @ [s], w_next := Suc (w_next w)\<rparr>))))"

definition save_status_page :: "status_page \<Rightarrow> world \<Rightarrow> world" where
  "save_status_page p w = w\<lparr>w_status_pages := update_where (\<lambda>r. sp_id r = sp_id p) (\<lambda>_. p) (w_status_pages w)\<rparr>"

definition status_page_update ::
  "env \<Rightarrow> request \<Rightarrow> uuid \<Rightarrow> status_page_input \<Rightarrow> world \<Rightarrow> status_page result \<times> world" where
  "status_page_update e rq pk inp w =
     (case bind_result (status_page_get w rq ''update'' pk) (\<lambda>p.
             bind_result (validate_team w rq (pi_team inp)) (\<lambda>_. Ok p)) of
        Inl x \<Rightarrow> (Raise x, w)
      | Inr p \<Rightarrow>
          (if slug_taken w (sp_id p) (sp_tenant p) (pi_slug inp)
           then (Raise (IntegrityError ''unique_status_page_slug_per_tenant''), w)
           else
             (let p1 = p\<lparr>sp_name := pi_name inp, sp_slug := pi_slug inp, sp_is_public := pi_is_public inp,
                         sp_custom_domain := pi_custom_domain inp, sp_logo_url := pi_logo_url inp,
                         sp_primary_color := pi_primary_color inp, sp_custom_css := pi_custom_css inp,
                         sp_description := pi_description inp,
                         sp_team := (if pi_team inp \<noteq> None \<or> pi_team_null inp then pi_team inp else sp_team p),
                         sp_updated_at := e_now e\<rparr>
              in (Ok p1, save_status_page p1 w))))"

text \<open>The rows of the page go with it.\<close>

definition delete_status_page :: "uuid \<Rightarrow> world \<Rightarrow> world" where
  "delete_status_page page w =
     w\<lparr>w_status_pages := delete_where (\<lambda>p. sp_id p = page) (w_status_pages w),
       w_page_resources := delete_where (\<lambda>r. sr_status_page r = page) (w_page_resources w),
       w_subscribers := delete_where (\<lambda>s. sb_status_page s = page) (w_subscribers w),
       w_announcements := delete_where (\<lambda>a. an_status_page a = page) (w_announcements w)\<rparr>"

definition status_page_destroy :: "request \<Rightarrow> uuid \<Rightarrow> world \<Rightarrow> response result \<times> world" where
  "status_page_destroy rq pk w =
     (case status_page_get w rq ''destroy'' pk of
        Inl x \<Rightarrow> (Raise x, w)
      | Inr p \<Rightarrow> (Ok (Response 204 JNull), delete_status_page (sp_id p) w))"

definition list_resources :: "world \<Rightarrow> request \<Rightarrow> uuid \<Rightarrow> response result" where
  "list_resources w rq pk =
     bind_result (status_page_get w rq ''resources'' pk) (\<lambda>p. Ok (Response 200 (resources_json w (sp_id p))))"

definition add_resource ::
  "env \<Rightarrow> request \<Rightarrow> uuid \<Rightarrow> resource_input \<Rightarrow> world \<Rightarrow> response result \<times> world" where
  "add_resource e rq pk inp w =
     (case bind_result (status_page_get w rq ''add_resource'' pk) (\<lambda>p.
             bind_result (validate_resource w inp) (\<lambda>_. Ok p)) of
        Inl x \<Rightarrow> (Raise x, w)
      | Inr p \<Rightarrow>
          (let r = \<lparr>sr_id = w_next w, sr_tenant = sp_tenant p, sr_status_page = sp_id p,
                    sr_monitor = ri_monitor inp, sr_monitor_group = ri_group inp,
                    sr_display_name = ri_display_name inp, sr_order = ri_order inp, sr_created_at = e_now e\<rparr>;
               w1 = w\<lparr>w_page_resources := w_page_resources w @ [r], w_next := Suc (w_next w)\<rparr>
           in (Ok (Response 201 (resource_json w1 r)), w1)))"

definition remove_resource :: "request \<Rightarrow> uuid \<Rightarrow> uuid \<Rightarrow> world \<Rightarrow> response result \<times> world" where
  "remove_resource rq pk resource w =
     (case status_page_get w rq ''remove_resource'' pk of
        Inl x \<Rightarrow> (Raise x, w)
      | Inr p \<Rightarrow>
          (if \<not> exists_row (\<lambda>r. sr_id r = resource \<and> sr_status_page r = sp_id p) (w_page_resources w)
           then (Ok (detail_response 404 ''Resource not found.''), w)
           else (Ok (Response 204 JNull),
                 w\<lparr>w_page_resources := delete_where (\<lambda>r. sr_id r = resource) (w_page_resources w)\<rparr>)))"

definition list_announcements :: "world \<Rightarrow> request \<Rightarrow> uuid \<Rightarrow> response result" where
  "list_announcements w rq pk =
     bind_result (status_page_get w rq ''announcements'' pk) (\<lambda>p.
       Ok (Response 200 (JList (map announcement_json (order_by_desc an_starts_at
         (filter (\<lambda>a. an_status_page a = sp_id p) (w_announcements w)))))))"

definition add_announcement ::
  "env \<Rightarrow> request \<Rightarrow> uuid \<Rightarrow> announcement_input \<Rightarrow> world \<Rightarrow> response result \<times> world" where
  "add_announcement e rq pk inp w =
     (case bind_result (status_page_get w rq ''add_announcement'' pk) (\<lambda>p.
             bind_result (validate_announcement (e_now e) inp) (\<lambda>(c, starts). Ok (p, c, starts))) of
        Inl x \<Rightarrow> (Raise x, w)
      | Inr (p, content, starts) \<Rightarrow>
          (let a = \<lparr>an_id = w_next w, an_tenant = sp_tenant p, an_status_page = sp_id p,
                    an_title = ai_title inp, an_content = content, an_starts_at = starts,
                    an_ends_at = ai_ends_at inp, an_is_active = ai_is_active inp,
                    an_created_at = e_now e, an_updated_at = e_now e\<rparr>
           in (Ok (Response 201 (announcement_json a)),
               w\<lparr>w_announcements := w_announcements w @ [a], w_next := Suc (w_next w)\<rparr>)))"

definition list_subscribers :: "world \<Rightarrow> request \<Rightarrow> uuid \<Rightarrow> response result" where
  "list_subscribers w rq pk =
     bind_result (status_page_get w rq ''subscribers'' pk) (\<lambda>p.
       Ok (Response 200 (JList (map subscriber_json
         (filter (\<lambda>s. sb_status_page s = sp_id p \<and> sb_is_verified s) (w_subscribers w))))))"

definition remove_subscriber :: "request \<Rightarrow> uuid \<Rightarrow> uuid \<Rightarrow> world \<Rightarrow> response result \<times> world" where
  "remove_subscriber rq pk subscriber w =
     (case status_page_get w rq ''remove_subscriber'' pk of
        Inl x \<Rightarrow> (Raise x, w)
      | Inr p \<Rightarrow>
          (if \<not> exists_row (\<lambda>s. sb_id s = subscriber \<and> sb_status_page s = sp_id p) (w_subscribers w)
           then (Ok (detail_response 404 ''Subscriber not found.''), w)
           else (Ok (Response 204 JNull),
                 w\<lparr>w_subscribers := delete_where (\<lambda>s. sb_id s = subscriber) (w_subscribers w)\<rparr>)))"

text \<open>
  The branding is stored as it comes, without the serializer's validation. Only strings and
  \<open>null\<close> are modelled; \<open>null\<close> is refused by the columns that do not allow it.
\<close>

definition set_branding :: "status_page \<Rightarrow> (string \<times> string option) list \<Rightarrow> status_page result" where
  "set_branding p data =
     (case (map_of data ''primary_color'', map_of data ''custom_css'') of
        (Some None, _) \<Rightarrow> Raise (IntegrityError ''primary_color'')
      | (_, Some None) \<Rightarrow> Raise (IntegrityError ''custom_css'')
      | (color, css) \<Rightarrow>
          Ok (p\<lparr>sp_logo_url := (case map_of data ''logo_url'' of Some v \<Rightarrow> v | None \<Rightarrow> sp_logo_url p),
                sp_primary_color := (case color of Some (Some c) \<Rightarrow> c | _ \<Rightarrow> sp_primary_color p),
                sp_custom_css := (case css of Some (Some c) \<Rightarrow> c | _ \<Rightarrow> sp_custom_css p)\<rparr>))"

definition update_branding ::
  "env \<Rightarrow> request \<Rightarrow> uuid \<Rightarrow> (string \<times> string option) list \<Rightarrow> world \<Rightarrow> response result \<times> world" where
  "update_branding e rq pk body w =
     (case status_page_get w rq ''update_branding'' pk of
        Inl x \<Rightarrow> (Raise x, w)
      | Inr p \<Rightarrow>
          (let data = filter (\<lambda>(k, v). k \<in> {''logo_url'', ''primary_color'', ''custom_css''}) body
           in if data = []
              then (Ok (detail_response 400 ''Provide at least one of: logo_url, primary_color, custom_css.''), w)
              else
                (case set_branding (p\<lparr>sp_updated_at := e_now e\<rparr>) data of
                   Inl x \<Rightarrow> (Raise x, w)
                 | Inr p1 \<Rightarrow>
                     (let w1 = save_status_page p1 w in (Ok (Response 200 (status_page_json w1 p1)), w1)))))"

definition update_domain ::
  "env \<Rightarrow> request \<Rightarrow> uuid \<Rightarrow> (string \<times> json) list \<Rightarrow> world \<Rightarrow> response result \<times> world" where
  "update_domain e rq pk body w =
     (case status_page_get w rq ''update_domain'' pk of
        Inl x \<Rightarrow> (Raise x, w)
      | Inr p \<Rightarrow>
          (case dict_get_or body ''custom_domain'' (JStr []) of
             JStr s \<Rightarrow>
               (let domain = (if strip s = [] then None else Some (strip s));
                    p1 = p\<lparr>sp_custom_domain := domain, sp_updated_at := e_now e\<rparr>
                in (Ok (Response 200 (JObj [(''custom_domain'', json_opt_str domain)])), save_status_page p1 w))
           | _ \<Rightarrow> (Raise (TypeError ''no attribute strip''), w)))"

section \<open>The public endpoints\<close>

text \<open>\<open>get_object\<close> with \<open>lookup_field = slug\<close>, over the public pages of every tenant.\<close>

definition public_page :: "world \<Rightarrow> string \<Rightarrow> status_page result" where
  "public_page w slug =
     (case filter (\<lambda>p. sp_is_public p \<and> sp_slug p = slug) (w_status_pages w) of
        [] \<Rightarrow> NotFound
      | [p] \<Rightarrow> Ok p
      | _ \<Rightarrow> Raise (RuntimeError ''MultipleObjectsReturned''))"

definition public_retrieve :: "env \<Rightarrow> world \<Rightarrow> string \<Rightarrow> response result" where
  "public_retrieve e w slug = bind_result (public_page w slug) (\<lambda>p. Ok (Response 200 (public_page_json e w p)))"

text \<open>\<open>validate_phone\<close>; a missing phone is the empty string.\<close>

definition validate_phone :: "string \<Rightarrow> string result" where
  "validate_phone value = (if strip value = [] then Ok [] else normalize_phone value)"

definition subscribe_detail :: "subscribe_result \<Rightarrow> string" where
  "subscribe_detail r =
     join_with '' '' ([''Subscribed.'']
       @ (if ss_email_sent r then [''Please check your email to verify.''] else [])
       @ (if ss_phone_sent r then [''Please check your phone for SMS verification.''] else []))"

definition public_subscribe ::
  "env \<Rightarrow> string \<Rightarrow> string \<Rightarrow> string \<Rightarrow> world \<Rightarrow> response result \<times> world" where
  "public_subscribe e slug email phone w =
     (case bind_result (public_page w slug) (\<lambda>p. bind_result (validate_phone phone) (\<lambda>ph. Ok (p, ph))) of
        Inl x \<Rightarrow> (Raise x, w)
      | Inr (p, ph) \<Rightarrow>
          (case subscribe e p email ph w of
             (Inl x, w1) \<Rightarrow> (Raise x, w1)
           | (Inr r, w1) \<Rightarrow>
               (if \<not> ss_created r \<and> \<not> ss_email_sent r \<and> \<not> ss_phone_sent r
                then (Ok (detail_response 200 ''This email is already subscribed.''), w1)
                else (Ok (detail_response (if ss_created r then 201 else 200) (subscribe_detail r)), w1))))"

text \<open>\<open>SubscriberVerifySerializer\<close> trims the token and bounds its length.\<close>

definition validate_token :: "string \<Rightarrow> string result" where
  "validate_token token =
     (let t = strip token
      in if t = [] then ValidationError ''This field may not be blank.''
         else if length t < 8 then ValidationError ''Ensure this field has at least 8 characters.''
         else if 64 < length t then ValidationError ''Ensure this field has no more than 64 characters.''
         else Ok t)"

definition public_verify_email :: "string \<Rightarrow> string \<Rightarrow> world \<Rightarrow> response result \<times> world" where
  "public_verify_email slug token w =
     (case bind_result (public_page w slug) (\<lambda>p. bind_result (validate_token token) (\<lambda>t. Ok (p, t))) of
        Inl x \<Rightarrow> (Raise x, w)
      | Inr (p, t) \<Rightarrow>
          (case verify_email p t w of
             (Inl x, w1) \<Rightarrow> (Raise x, w1)
           | (Inr _, w1) \<Rightarrow>
               (Ok (detail_response 200 ''Email verified. You will now receive status notifications.''), w1)))"

definition public_verify_phone :: "string \<Rightarrow> string \<Rightarrow> world \<Rightarrow> response result \<times> world" where
  "public_verify_phone slug token w =
     (case bind_result (public_page w slug) (\<lambda>p. bind_result (validate_token token) (\<lambda>t. Ok (p, t))) of
        Inl x \<Rightarrow> (Raise x, w)
      | Inr (p, t) \<Rightarrow>
          (case verify_phone p t w of
             (Inl x, w1) \<Rightarrow> (Raise x, w1)
           | (Inr _, w1) \<Rightarrow>
               (Ok (detail_response 200 ''Phone verified. You will now receive SMS notifications.''), w1)))"

end
