(* ===== verification/StatusPageFacts.thy ===== *)
theory StatusPageFacts
  imports StatusPageViews
begin

text \<open>
  Subscriptions: the invariant of their rows, what verification takes and gives, and what a
  stranger can do to a verified phone number.
\<close>

section \<open>Well-formed subscriptions\<close>

text \<open>
  A row of the table: verified addresses are the ones without an outstanding token; a phone number
  is in E.164 form; a phone token belongs to a number that is not verified.
\<close>

definition subscriber_ok :: "subscriber \<Rightarrow> bool" where
  "subscriber_ok s \<longleftrightarrow>
     (sb_is_verified s \<longleftrightarrow> sb_verification_token s = []) \<and>
     (sb_phone s = [] \<or> PHONE_RE (sb_phone s)) \<and>
     (sb_phone_verified s \<longrightarrow> sb_phone s \<noteq> [] \<and> sb_phone_verification_token s = []) \<and>
     (sb_phone s \<noteq> [] \<and> \<not> sb_phone_verified s \<longrightarrow> sb_phone_verification_token s \<noteq> [])"

definition subscribers_ok :: "world \<Rightarrow> bool" where
  "subscribers_ok w \<longleftrightarrow>
     (\<forall>s \<in> set (w_subscribers w). subscriber_ok s \<and> sb_id s < w_next w) \<and>
     distinct (map sb_id (w_subscribers w)) \<and> unique_subscriber_per_page (w_subscribers w)"

definition sub_key :: "subscriber \<Rightarrow> uuid \<times> string" where
  "sub_key s = (sb_status_page s, sb_email s)"

lemma unique_sub_key: "unique_subscriber_per_page ss \<longleftrightarrow> distinct (map sub_key ss)"
  by (simp add: unique_subscriber_per_page_def sub_key_def [abs_def])

lemma normalize_phone_form: "normalize_phone v = Ok s \<Longrightarrow> s = [] \<or> PHONE_RE s"
  by (auto simp: normalize_phone_def Let_def split: if_splits)

lemma send_email_verification_frame:
  "w_subscribers (snd (send_email_verification e p s w)) = w_subscribers w"
  "w_next (snd (send_email_verification e p s w)) = w_next w"
  by (simp_all add: send_email_verification_def send_html_email_def)

lemma send_phone_verification_frame:
  "w_subscribers (snd (send_phone_verification e p s w)) = w_subscribers w"
  "w_next (snd (send_phone_verification e p s w)) = w_next w"
  by (simp_all add: send_phone_verification_def sms_send_def)

text \<open>
  What the steps of a subscription do to the row in memory. The state is consistent when the row
  is either the stored one or marked for saving.
\<close>

definition in_step :: "uuid \<Rightarrow> uuid \<times> string \<Rightarrow> world \<Rightarrow> subscriber \<times> bool \<times> world \<Rightarrow> bool" where
  "in_step i k w0 st \<longleftrightarrow>
     (case st of (s, dirty, w) \<Rightarrow>
        subscriber_ok s \<and> sb_id s = i \<and> sub_key s = k \<and> w_subscribers w = w_subscribers w0 \<and>
        w_next w0 \<le> w_next w \<and> (dirty \<or> s \<in> set (w_subscribers w0)))"

lemma change_phone_step:
  assumes "in_step i k w0 st" "phone = [] \<or> PHONE_RE phone" "\<And>n. e_token e n \<noteq> []"
  shows "in_step i k w0 (change_phone e phone st)"
  using assms by (cases st) (auto simp: in_step_def change_phone_def subscriber_ok_def sub_key_def)

lemma ask_email_keeps:
  assumes "in_step i k w0 (s, dirty, w)"
  shows "\<exists>sent w'. ask_email e p (s, dirty, w) = (sent, s, dirty, w') \<and> in_step i k w0 (s, dirty, w')"
proof (cases "sb_is_verified s")
  case False
  with assms have "sb_verification_token s \<noteq> []" by (auto simp: in_step_def subscriber_ok_def)
  moreover obtain r w' where send: "send_email_verification e p s w = (r, w')" by force
  with send_email_verification_frame [of e p s w] have "w_subscribers w' = w_subscribers w" "w_next w' = w_next w"
    by simp_all
  ultimately show ?thesis using False assms send
    by (cases r) (auto simp: ask_email_def in_step_def)
qed (use assms in \<open>auto simp: ask_email_def\<close>)

lemma ask_phone_keeps:
  assumes "in_step i k w0 (s, dirty, w)"
  shows "\<exists>sent w'. ask_phone e p (s, dirty, w) = (sent, s, dirty, w') \<and> in_step i k w0 (s, dirty, w')"
proof (cases "sb_phone s = [] \<or> sb_phone_verified s")
  case False
  with assms have "sb_phone_verification_token s \<noteq> []" by (auto simp: in_step_def subscriber_ok_def)
  moreover obtain r w' where send: "send_phone_verification e p s w = (r, w')" by force
  with send_phone_verification_frame [of e p s w] have "w_subscribers w' = w_subscribers w" "w_next w' = w_next w"
    by simp_all
  ultimately show ?thesis using False assms send
    by (cases r) (auto simp: ask_phone_def in_step_def)
qed (use assms in \<open>auto simp: ask_phone_def\<close>)

text \<open>The new row, or the old one.\<close>

lemma get_or_create_step:
  assumes "subscribers_ok w" "number = [] \<or> PHONE_RE number" "\<And>n. e_token e n \<noteq> []"
    and "subscriber_get_or_create e p email number w = (s, created, w1)"
  shows "subscribers_ok w1" "in_step (sb_id s) (sp_id p, email) w1 (s, False, w1)"
    "created \<longrightarrow> \<not> sb_is_verified s \<and> w_subscribers w1 = w_subscribers w @ [s]"
    "\<not> created \<longrightarrow> w1 = w"
proof -
  have "subscribers_ok w1 \<and> in_step (sb_id s) (sp_id p, email) w1 (s, False, w1) \<and>
    (created \<longrightarrow> \<not> sb_is_verified s \<and> w_subscribers w1 = w_subscribers w @ [s]) \<and> (\<not> created \<longrightarrow> w1 = w)"
  proof (cases "find (\<lambda>s. sb_status_page s = sp_id p \<and> sb_email s = email) (w_subscribers w)")
    case None
    then have new: "\<forall>s \<in> set (w_subscribers w). \<not> (sb_status_page s = sp_id p \<and> sb_email s = email)"
      by (simp add: find_None_iff)
    from None assms(4) have eqs: "s = new_subscriber e p email number w" "created"
      "w1 = w\<lparr>w_subscribers := w_subscribers w @ [s], w_next := w_next w + 2\<rparr>"
      by (auto simp: subscriber_get_or_create_def Let_def)
    have s: "subscriber_ok s" "\<not> sb_is_verified s" "sb_id s = w_next w" "sub_key s = (sp_id p, email)"
      using assms(2,3) by (auto simp: eqs(1) new_subscriber_def subscriber_ok_def sub_key_def)
    have "subscribers_ok w1"
      using assms(1) s new by (auto simp: subscribers_ok_def eqs(3) unique_subscriber_per_page_def sub_key_def)
    then show ?thesis using s eqs by (simp add: in_step_def)
  next
    case (Some s0)
    with assms(4) have eqs: "s = s0" "\<not> created" "w1 = w" by (auto simp: subscriber_get_or_create_def)
    from Some have "s \<in> set (w_subscribers w)" "sub_key s = (sp_id p, email)"
      using find_SomeD [OF Some] by (simp_all add: eqs sub_key_def)
    then show ?thesis using eqs assms(1) by (auto simp: in_step_def subscribers_ok_def)
  qed
  then show "subscribers_ok w1" "in_step (sb_id s) (sp_id p, email) w1 (s, False, w1)"
    "created \<longrightarrow> \<not> sb_is_verified s \<and> w_subscribers w1 = w_subscribers w @ [s]" "\<not> created \<longrightarrow> w1 = w"
    by blast+
qed

lemma save_subscriber_ok:
  assumes "subscribers_ok w" "subscriber_ok s" "r \<in> set (w_subscribers w)" "sb_id r = sb_id s" "sub_key r = sub_key s"
  shows "subscribers_ok (save_subscriber s w)"
proof -
  let ?ss = "w_subscribers w" and ?new = "update_where (\<lambda>r. sb_id r = sb_id s) (\<lambda>_. s) (w_subscribers w)"
  have same: "x = r" if "x \<in> set ?ss" "sb_id x = sb_id s" for x
    using assms(1,3,4) that by (auto simp: subscribers_ok_def distinct_map inj_on_def)
  have "map sub_key ?new = map sub_key ?ss"
    unfolding update_where_def map_map comp_def
    by (rule map_cong [OF refl]) (use same assms(5) in auto)
  then have "unique_subscriber_per_page ?new"
    using assms(1) by (simp add: subscribers_ok_def unique_sub_key)
  moreover have "\<forall>x \<in> set ?new. subscriber_ok x \<and> sb_id x < w_next w"
    using assms unfolding subscribers_ok_def update_where_def by auto
  ultimately show ?thesis using assms(1) by (simp add: subscribers_ok_def save_subscriber_def)
qed

lemma in_step_ok:
  assumes "subscribers_ok w0" "in_step i k w0 (s, dirty, w)" "\<exists>r \<in> set (w_subscribers w0). sb_id r = i \<and> sub_key r = k"
  shows "subscribers_ok (if dirty then save_subscriber s w else w)"
proof -
  have w: "subscribers_ok w" using assms(1,2) by (fastforce simp: subscribers_ok_def in_step_def)
  with assms show ?thesis by (auto simp: in_step_def intro!: save_subscriber_ok)
qed

lemma subscribe_Raise: "subscribe e p email phone w = (Raise x, w') \<Longrightarrow> w' = w"
  by (cases "normalize_phone phone") (simp_all add: subscribe_def Let_def split_def split: if_splits)

text \<open>A subscription, taken apart: the stored row \<open>s\<close> and the row \<open>s'\<close> it ends with.\<close>

lemma subscribe_unfold:
  assumes "subscribers_ok w" "\<And>n. e_token e n \<noteq> []" "subscribe e p email phone w = (Ok r, w')"
  obtains number s created w1 dirty w2 where "normalize_phone phone = Ok number"
    "subscriber_get_or_create e p email number w = (s, created, w1)"
    "in_step (sb_id s) (sp_id p, email) w1 (ss_subscriber r, dirty, w2)"
    "w' = (if dirty then save_subscriber (ss_subscriber r) w2 else w2)"
    "ss_subscriber r = (if \<not> created \<and> sb_is_verified s \<and> number \<noteq> [] \<and> number \<noteq> sb_phone s
       then s\<lparr>sb_phone := number, sb_phone_verified := False,
              sb_phone_verification_token := e_token e (w_next w1)\<rparr> else s)"
    "dirty \<longleftrightarrow> \<not> created \<and> sb_is_verified s \<and> number \<noteq> [] \<and> number \<noteq> sb_phone s"
proof -
  obtain number where n: "normalize_phone phone = Ok number"
    using assms(3) by (cases "normalize_phone phone") (auto simp: subscribe_def)
  note form = normalize_phone_form [OF n]
  obtain s created w1 where g: "subscriber_get_or_create e p email number w = (s, created, w1)"
    by (metis prod_cases3)
  note step = get_or_create_step [OF assms(1) form assms(2) g]
  let ?early = "\<not> created \<and> sb_is_verified s \<and> (number = [] \<or> number = sb_phone s) \<and> (number = [] \<or> sb_phone_verified s)"
  show ?thesis
  proof (cases ?early)
    case True
    then have "r = \<lparr>ss_subscriber = s, ss_created = False, ss_email_sent = False, ss_phone_sent = False\<rparr>" "w' = w1"
      using assms(3) by (auto simp: subscribe_def n g Let_def)
    with True step(2) show ?thesis by (intro that [OF n g, of False w1]) auto
  next
    case False
    define st1 where "st1 = (if \<not> created \<and> sb_is_verified s then change_phone e number (s, False, w1) else (s, False, w1))"
    obtain s1 dirty w2 where st1: "st1 = (s1, dirty, w2)" by (metis prod_cases3)
    have in1: "in_step (sb_id s) (sp_id p, email) w1 (s1, dirty, w2)"
      using change_phone_step [OF step(2) form assms(2)] step(2) by (simp add: st1 [symmetric] st1_def)
    obtain sent w3 where mail: "ask_email e p (s1, dirty, w2) = (sent, s1, dirty, w3)"
      "in_step (sb_id s) (sp_id p, email) w1 (s1, dirty, w3)"
      using ask_email_keeps [OF in1] by blast
    obtain sent' w4 where sms: "ask_phone e p (s1, dirty, w3) = (sent', s1, dirty, w4)"
      "in_step (sb_id s) (sp_id p, email) w1 (s1, dirty, w4)"
      using ask_phone_keeps [OF mail(2)] by blast
    have r: "r = \<lparr>ss_subscriber = s1, ss_created = created, ss_email_sent = sent, ss_phone_sent = sent'\<rparr>"
      "w' = (if dirty then save_subscriber s1 w4 else w4)"
      using assms(3) False by (auto simp: subscribe_def n g Let_def st1 [unfolded st1_def] mail sms)
    have "s1 = (if \<not> created \<and> sb_is_verified s \<and> number \<noteq> [] \<and> number \<noteq> sb_phone s
       then s\<lparr>sb_phone := number, sb_phone_verified := False,
              sb_phone_verification_token := e_token e (w_next w1)\<rparr> else s)"
      "dirty \<longleftrightarrow> \<not> created \<and> sb_is_verified s \<and> number \<noteq> [] \<and> number \<noteq> sb_phone s"
      using st1 unfolding st1_def change_phone_def by (auto split: if_splits)
    with r sms(2) show ?thesis by (intro that [OF n g, of dirty w4]) simp_all
  qed
qed

section \<open>Verification\<close>

text \<open>The row a token verifies, and the rows afterwards.\<close>

definition email_verified :: "subscriber \<Rightarrow> subscriber" where
  "email_verified s = s\<lparr>sb_is_verified := True, sb_verification_token := []\<rparr>"

definition phone_verified :: "subscriber \<Rightarrow> subscriber" where
  "phone_verified s = s\<lparr>sb_phone_verified := True, sb_phone_verification_token := []\<rparr>"

lemma get_subscriber_Ok: "get_subscriber q m w = Ok s \<Longrightarrow> filter q (w_subscribers w) = [s]"
  by (auto simp: get_subscriber_def split: list.splits)

lemma filter_single: "filter q xs = [s] \<Longrightarrow> s \<in> set xs \<and> q s"
  by (auto simp: filter_eq_Cons_iff)

lemma verify_email_Ok:
  assumes "verify_email p token w = (Ok r, w')"
  obtains s where "filter (\<lambda>s. sb_status_page s = sp_id p \<and> sb_verification_token s = strip token)
      (w_subscribers w) = [s]" "strip token \<noteq> []" "r = email_verified s" "w' = save_subscriber r w"
  using assms by (auto simp: verify_email_def Let_def email_verified_def dest: get_subscriber_Ok
      split: if_splits sum.splits intro!: that)

lemma verify_phone_Ok:
  assumes "verify_phone p token w = (Ok r, w')"
  obtains s where "filter (\<lambda>s. sb_status_page s = sp_id p \<and> sb_phone_verification_token s = strip token)
      (w_subscribers w) = [s]" "strip token \<noteq> []" "sb_phone s \<noteq> []" "r = phone_verified s"
    "w' = save_subscriber r w"
  using assms by (auto simp: verify_phone_def Let_def phone_verified_def dest: get_subscriber_Ok
      split: if_splits sum.splits intro!: that)

lemma verify_Raise:
  "verify_email p token w = (Raise x, w') \<Longrightarrow> w' = w"
  "verify_phone p token w = (Raise x, w') \<Longrightarrow> w' = w"
  by (auto simp: verify_email_def verify_phone_def Let_def split: if_splits sum.splits)

lemma verified_key [simp]:
  "sb_id (email_verified s) = sb_id s" "sub_key (email_verified s) = sub_key s"
  "sb_id (phone_verified s) = sb_id s" "sub_key (phone_verified s) = sub_key s"
  by (simp_all add: email_verified_def phone_verified_def sub_key_def)

lemma verified_ok:
  "subscriber_ok s \<Longrightarrow> subscriber_ok (email_verified s)"
  "subscriber_ok s \<Longrightarrow> sb_phone s \<noteq> [] \<Longrightarrow> subscriber_ok (phone_verified s)"
  by (auto simp: email_verified_def phone_verified_def subscriber_ok_def)


text \<open>The rows after a save.\<close>

lemma in_saved:
  assumes "x \<in> set (w_subscribers (save_subscriber s w))"
  shows "x = s \<or> x \<in> set (w_subscribers w) \<and> sb_id x \<noteq> sb_id s"
  using assms by (auto simp: save_subscriber_def in_update_where_iff split: if_splits)

lemma subscribe_verifies_nobody:
  assumes "subscribers_ok w" "\<And>n. e_token e n \<noteq> []"
    and x: "x \<in> set (w_subscribers (snd (subscribe e p' email phone w)))" "sb_is_verified x"
  shows "\<exists>y \<in> set (w_subscribers w). sb_id y = sb_id x \<and> sb_is_verified y"
proof -
  obtain q w1 where sub: "subscribe e p' email phone w = (q, w1)" by force
  show "\<exists>y \<in> set (w_subscribers w). sb_id y = sb_id x \<and> sb_is_verified y"
  proof (cases q)
    case (Inl y)
    with sub have "w1 = w" by (simp add: subscribe_Raise)
    with sub x show ?thesis by auto
  next
    case (Inr y)
    obtain number s created w2 dirty w3 where u: "normalize_phone phone = Ok number"
      "subscriber_get_or_create e p' email number w = (s, created, w2)"
      "in_step (sb_id s) (sp_id p', email) w2 (ss_subscriber y, dirty, w3)"
      "w1 = (if dirty then save_subscriber (ss_subscriber y) w3 else w3)"
      "ss_subscriber y = (if \<not> created \<and> sb_is_verified s \<and> number \<noteq> [] \<and> number \<noteq> sb_phone s
       then s\<lparr>sb_phone := number, sb_phone_verified := False,
              sb_phone_verification_token := e_token e (w_next w2)\<rparr> else s)"
      "dirty \<longleftrightarrow> \<not> created \<and> sb_is_verified s \<and> number \<noteq> [] \<and> number \<noteq> sb_phone s"
      by (rule subscribe_unfold [OF assms(1,2) sub [unfolded Inr]])
    note g = get_or_create_step [OF assms(1) normalize_phone_form [OF u(1)] assms(2) u(2)]
    have rows: "w_subscribers w3 = w_subscribers w2" "sb_id (ss_subscriber y) = sb_id s"
      using u(3) by (auto simp: in_step_def)
    have x1: "x \<in> set (w_subscribers w1)" using x(1) sub by simp
    show ?thesis
    proof (cases dirty)
      case True
      with g(2,4) u(6) have "s \<in> set (w_subscribers w)" "sb_is_verified s" "w2 = w" by (auto simp: in_step_def)
      moreover have "x = ss_subscriber y \<or> x \<in> set (w_subscribers w3)"
        using x1 True in_saved [of x "ss_subscriber y" w3] by (auto simp: u(4))
      ultimately show ?thesis using rows x(2) by auto
    next
      case False
      with x1 rows have "x \<in> set (w_subscribers w2)" by (simp add: u(4))
      with g(3,4) x(2) show ?thesis by (cases created) auto
    qed
  qed
qed

lemma verify_email_by_token:
  assumes "verify_email p token w = (Ok r, w')" "x \<in> set (w_subscribers w')" "sb_is_verified x"
  shows "\<exists>y \<in> set (w_subscribers w). sb_id y = sb_id x \<and>
    (sb_is_verified y \<or> sb_status_page y = sp_id p \<and> sb_verification_token y = strip token)"
proof -
  obtain s where s: "filter (\<lambda>s. sb_status_page s = sp_id p \<and> sb_verification_token s = strip token)
      (w_subscribers w) = [s]" "strip token \<noteq> []" "r = email_verified s" "w' = save_subscriber r w"
    by (rule verify_email_Ok [OF assms(1)])
  note s_in = filter_single [OF s(1)]
  from assms(2,3) have "x = r \<or> x \<in> set (w_subscribers w)"
    using in_saved [of x r w] by (auto simp: s(4))
  then show ?thesis
  proof
    assume "x = r"
    with s_in s(3) show ?thesis by (intro bexI [of _ s]) auto
  qed (use assms(3) in auto)
qed

lemma token_spent:
  assumes "verify_email p token w = (Ok r, w')"
  shows "fst (verify_email p token w') = ValidationError ''Invalid or expired verification token.''"
proof -
  obtain s where s: "filter (\<lambda>s. sb_status_page s = sp_id p \<and> sb_verification_token s = strip token)
      (w_subscribers w) = [s]" "strip token \<noteq> []" "r = email_verified s" "w' = save_subscriber r w"
    by (rule verify_email_Ok [OF assms(1)])
  have "\<not> (sb_status_page x = sp_id p \<and> sb_verification_token x = strip token)"
    if "x \<in> set (w_subscribers w')" for x
  proof
    assume t: "sb_status_page x = sp_id p \<and> sb_verification_token x = strip token"
    from that consider "x = r" | "x \<in> set (w_subscribers w)" "sb_id x \<noteq> sb_id s"
      using in_saved [of x r w] by (auto simp: s(3,4))
    then show False
    proof cases
      case 1
      with t s(2,3) show False by (simp add: email_verified_def)
    next
      case 2
      with t have "x \<in> set [s]" unfolding s(1) [symmetric] by simp
      with 2 show False by simp
    qed
  qed
  then have "filter (\<lambda>s. sb_status_page s = sp_id p \<and> sb_verification_token s = strip token)
      (w_subscribers w') = []"
    by (simp add: filter_empty_conv)
  with s(2) show ?thesis
    by (simp add: verify_email_def get_subscriber_def)
qed

text \<open>
  Nobody is verified without the token of their own row: subscribing verifies no address, and
  after \<open>verify_email\<close> the verified subscribers are those from before and the one on that page
  whose token was presented. A token works once: presented again it is invalid.
\<close>

theorem verified_by_token_once:
  assumes "subscribers_ok w" "\<And>n. e_token e n \<noteq> []" "verify_email p token w = (Ok r, w')"
  shows "(\<forall>x \<in> set (w_subscribers (snd (subscribe e p' email phone w))). sb_is_verified x \<longrightarrow>
      (\<exists>y \<in> set (w_subscribers w). sb_id y = sb_id x \<and> sb_is_verified y)) \<and>
    (\<forall>x \<in> set (w_subscribers w'). sb_is_verified x \<longrightarrow>
      (\<exists>y \<in> set (w_subscribers w). sb_id y = sb_id x \<and>
         (sb_is_verified y \<or> sb_status_page y = sp_id p \<and> sb_verification_token y = strip token))) \<and>
    fst (verify_email p token w') = ValidationError ''Invalid or expired verification token.''"
  using subscribe_verifies_nobody [OF assms(1,2)] verify_email_by_token [OF assms(3)] token_spent [OF assms(3)]
  by blast

text \<open>
  A stranger can silence somebody's SMS alerts. Subscribing needs no authentication, and when it
  names the address of a verified subscriber with another number, the verified number is replaced
  by the stranger's and is no longer verified, before anybody has confirmed anything.
\<close>

theorem stranger_replaces_phone:
  assumes "subscribers_ok w" "\<And>n. e_token e n \<noteq> []" "s \<in> set (w_subscribers w)"
    and "sb_status_page s = sp_id p" "sb_is_verified s" "sb_phone_verified s"
    and "normalize_phone phone = Ok number" "number \<noteq> []" "number \<noteq> sb_phone s"
  shows "\<exists>s' \<in> set (w_subscribers (snd (subscribe e p (sb_email s) phone w))).
    sb_id s' = sb_id s \<and> sb_email s' = sb_email s \<and> sb_phone s' = number \<and> \<not> sb_phone_verified s'"
proof -
  have "distinct (map sub_key (w_subscribers w))"
    using assms(1) by (simp add: subscribers_ok_def unique_sub_key)
  from find_by_key [OF this assms(3)] assms(4)
  have "find (\<lambda>x. sb_status_page x = sp_id p \<and> sb_email x = sb_email s) (w_subscribers w) = Some s"
    by (simp add: sub_key_def)
  then have g: "subscriber_get_or_create e p (sb_email s) number w = (s, False, w)"
    by (simp add: subscriber_get_or_create_def)
  obtain q w' where sub: "subscribe e p (sb_email s) phone w = (q, w')" by force
  moreover obtain r where "q = Ok r"
    using sub assms(7-9) by (auto simp: subscribe_def g Let_def split: prod.splits)
  ultimately have sub': "subscribe e p (sb_email s) phone w = (Ok r, w')" by simp
  let ?new = "s\<lparr>sb_phone := number, sb_phone_verified := False, sb_phone_verification_token := e_token e (w_next w)\<rparr>"
  obtain w2 where u: "in_step (sb_id s) (sp_id p, sb_email s) w (?new, True, w2)" "w' = save_subscriber ?new w2"
    by (rule subscribe_unfold [OF assms(1,2) sub']) (use g assms(5-9) in auto)
  from u(1) assms(3) have "s \<in> set (w_subscribers w2)" by (simp add: in_step_def)
  then have "?new \<in> set (w_subscribers w')"
    by (auto simp: u(2) save_subscriber_def in_update_where_iff intro: bexI [of _ s])
  with sub show ?thesis by (intro bexI [of _ ?new]) simp_all
qed

section \<open>Witnesses\<close>

definition sample_page :: status_page where
  "sample_page =
     \<lparr>sp_id = 50, sp_tenant = 1, sp_project = 2, sp_team = None, sp_name = ''acme'', sp_slug = ''acme'',
      sp_is_public = True, sp_custom_domain = None, sp_logo_url = None, sp_primary_color = [],
      sp_custom_css = [], sp_description = [], sp_created_at = 0, sp_updated_at = 0\<rparr>"

text \<open>Ann has confirmed her address and her number, Bob nothing yet.\<close>

definition ann :: subscriber where
  "ann =
     \<lparr>sb_id = 51, sb_tenant = 1, sb_status_page = 50, sb_email = ''ann@x.org'', sb_phone = ''+33612345678'',
      sb_is_verified = True, sb_phone_verified = True, sb_verification_token = [],
      sb_phone_verification_token = [], sb_subscribed_at = 0\<rparr>"

definition bob :: subscriber where
  "bob = ann\<lparr>sb_id := 52, sb_email := ''bob@x.org'', sb_phone := [], sb_is_verified := False,
     sb_phone_verified := False, sb_verification_token := ''token-bob''\<rparr>"

definition subscribed :: world where
  "subscribed = empty_world\<lparr>w_subscribers := [ann, bob], w_next := 100\<rparr>"

lemma subscribed_rows [simp]: "w_subscribers subscribed = [ann, bob]" "w_next subscribed = 100"
  by (simp_all add: subscribed_def)

lemma sample_tokens: "e_token sample_env n \<noteq> []"
  by (simp add: sample_env_def)

lemma subscribed_ok: "subscribers_ok subscribed"
  by (simp add: subscribers_ok_def subscriber_ok_def unique_subscriber_per_page_def ann_def bob_def
      PHONE_RE_def is_digit_def)


lemma bob_verifies: "verify_email sample_page ''token-bob'' subscribed =
    (Ok (email_verified bob), save_subscriber (email_verified bob) subscribed)"
  by (simp add: verify_email_def Let_def get_subscriber_def strip_def is_space_def sample_page_def ann_def bob_def
      email_verified_def)

theorem verified_by_token_once_witness:
  "fst (verify_email sample_page ''token-bob'' (snd (verify_email sample_page ''token-bob'' subscribed))) =
     ValidationError ''Invalid or expired verification token.''"
  using verified_by_token_once [OF subscribed_ok sample_tokens bob_verifies] bob_verifies by simp

theorem stranger_replaces_phone_witness:
  "\<exists>s' \<in> set (w_subscribers (snd (subscribe sample_env sample_page ''ann@x.org'' ''+33 687-654-321'' subscribed))).
     sb_id s' = 51 \<and> sb_phone s' = ''+33687654321'' \<and> \<not> sb_phone_verified s'"
proof -
  have number: "normalize_phone ''+33 687-654-321'' = Ok ''+33687654321''"
    by (simp add: normalize_phone_def clean_phone_def phone_noise_def strip_def is_space_def startswith_def
        PHONE_RE_def is_digit_def)
  from stranger_replaces_phone [OF subscribed_ok sample_tokens _ _ _ _ number, of ann sample_page]
  show ?thesis by (auto simp: ann_def sample_page_def)
qed

end
