(* ===== verification/Retention.thy ===== *)
theory Retention
  imports ViewBase AuditTrail MonitorRunner AccountsViews
begin

text \<open>
  The rest of \<open>apps/audit\<close>: the commands \<open>purge_expired\<close> and \<open>verify_audit_chain\<close>, the handlers of
  the audit log and of the retention policies (\<open>views.py\<close>, \<open>serializers.py\<close>), and the rules that
  make the table \<open>audit_log\<close> immutable (migration 0002).
\<close>

section \<open>Purging\<close>

text \<open>\<open>CREATE RULE audit_no_delete AS ON DELETE TO audit_log DO INSTEAD NOTHING\<close>\<close>

definition delete_audit_logs :: "(audit_log \<Rightarrow> bool) \<Rightarrow> world \<Rightarrow> world" where
  "delete_audit_logs p w = w"

definition check_expired :: "retention_policy \<Rightarrow> datetime \<Rightarrow> world \<Rightarrow> monitor_check \<Rightarrow> bool" where
  "check_expired p cutoff w c \<longleftrightarrow>
     ck_tenant c = rt_tenant p \<and>
     (case monitor_of w (ck_monitor c) of Some m \<Rightarrow> mo_project m = rt_project p | None \<Rightarrow> False) \<and>
     ck_checked_at c < cutoff"

definition delivery_expired :: "retention_policy \<Rightarrow> datetime \<Rightarrow> world \<Rightarrow> delivery \<Rightarrow> bool" where
  "delivery_expired p cutoff w d \<longleftrightarrow>
     dl_tenant d = rt_tenant p \<and>
     (case webhook_of w (dl_webhook d) of Some h \<Rightarrow> wh_project h = rt_project p | None \<Rightarrow> False) \<and>
     dl_created_at d < cutoff"

definition incident_expired :: "retention_policy \<Rightarrow> datetime \<Rightarrow> world \<Rightarrow> incident \<Rightarrow> bool" where
  "incident_expired p cutoff w i \<longleftrightarrow>
     ic_tenant i = rt_tenant p \<and> ic_project i = rt_project p \<and> state_is_resolved w (ic_state i) \<and>
     (case ic_resolved_at i of Some t \<Rightarrow> t < cutoff | None \<Rightarrow> False)"

definition log_expired :: "retention_policy \<Rightarrow> datetime \<Rightarrow> audit_log \<Rightarrow> bool" where
  "log_expired p cutoff l \<longleftrightarrow>
     al_tenant l = rt_tenant p \<and> al_project l = Some (rt_project p) \<and> al_created_at l < cutoff"

text \<open>
  Deleting incidents: their notes, postmortem and escalation go with them; monitors and checks
  that point to them point to none.
\<close>

definition delete_incidents :: "(incident \<Rightarrow> bool) \<Rightarrow> world \<Rightarrow> world" where
  "delete_incidents p w =
     (let gone = map ic_id (filter p (w_incidents w));
          unset = (\<lambda>v. case v of Some i \<Rightarrow> if i \<in> set gone then None else Some i | None \<Rightarrow> None)
      in w\<lparr>w_incidents := delete_where p (w_incidents w),
           w_notes := delete_where (\<lambda>n. nt_incident n \<in> set gone) (w_notes w),
           w_postmortems := delete_where (\<lambda>n. pm_incident n \<in> set gone) (w_postmortems w),
           w_esc_states := delete_where (\<lambda>s. et_incident s \<in> set gone) (w_esc_states w),
           w_monitors := map (\<lambda>m. m\<lparr>mo_current_incident := unset (mo_current_incident m)\<rparr>) (w_monitors w),
           w_checks := map (\<lambda>c. c\<lparr>ck_triggered_incident := unset (ck_triggered_incident c)\<rparr>) (w_checks w)\<rparr>)"

text \<open>\<open>_purge\<close>: how many rows are reported, and the rows that are left.\<close>

definition purge :: "retention_policy \<Rightarrow> datetime \<Rightarrow> bool \<Rightarrow> world \<Rightarrow> nat \<times> world" where
  "purge p cutoff dry_run w =
     (case rt_data_type p of
        MonitorChecks \<Rightarrow>
          (let num = length (filter (check_expired p cutoff w) (w_checks w))
           in (num, if \<not> dry_run \<and> num \<noteq> 0
                    then w\<lparr>w_checks := delete_where (check_expired p cutoff w) (w_checks w)\<rparr> else w))
      | WebhookDeliveries \<Rightarrow>
          (let num = length (filter (delivery_expired p cutoff w) (w_deliveries w))
           in (num, if \<not> dry_run \<and> num \<noteq> 0
                    then w\<lparr>w_deliveries := delete_where (delivery_expired p cutoff w) (w_deliveries w)\<rparr> else w))
      | IncidentsResolved \<Rightarrow>
          (let num = length (filter (incident_expired p cutoff w) (w_incidents w))
           in (num, if \<not> dry_run \<and> num \<noteq> 0 then delete_incidents (incident_expired p cutoff w) w else w))
      | AuditLogs \<Rightarrow>
          (if 2555 \<le> rt_retention_days p then (0, w)
           else
             (let num = length (filter (log_expired p cutoff) (w_audit_logs w))
              in (num, if \<not> dry_run \<and> num \<noteq> 0 then delete_audit_logs (log_expired p cutoff) w else w))))"

fun purge_each :: "datetime \<Rightarrow> bool \<Rightarrow> retention_policy list \<Rightarrow> nat \<Rightarrow> world \<Rightarrow> nat \<times> world" where
  "purge_each now dry_run [] total_deleted w = (total_deleted, w)"
| "purge_each now dry_run (p # ps) total_deleted w =
     (case purge p (now - days (int (rt_retention_days p))) dry_run w of
        (deleted, w1) \<Rightarrow> purge_each now dry_run ps (total_deleted + deleted) w1)"

text \<open>The command; its result is the number it reports.\<close>

definition purge_expired :: "env \<Rightarrow> bool \<Rightarrow> world \<Rightarrow> nat \<times> world" where
  "purge_expired e dry_run w = purge_each (e_now e) dry_run (w_retention w) 0 w"

section \<open>Verification\<close>

text \<open>
  \<open>verify_audit_chain\<close>: \<open>since\<close> is the date given, read already. \<open>False\<close> is the exit status 1;
  \<open>None\<close> is a tenant that does not exist, which exits with 0.
\<close>

definition verify_audit_chain ::
  "env \<Rightarrow> uuid option \<Rightarrow> datetime option \<Rightarrow> world \<Rightarrow> bool option" where
  "verify_audit_chain e tenant_id since w =
     (let tenants = (case tenant_id of
                       Some i \<Rightarrow> filter (\<lambda>t. tn_id t = i) (w_tenants w) | None \<Rightarrow> w_tenants w)
      in if tenant_id \<noteq> None \<and> tenants = [] then None
         else Some (list_all (\<lambda>t. vf_valid (verify_chain e (tn_id t) since w)) tenants))"

section \<open>The audit log of a tenant\<close>

definition audit_permission_map :: "(string \<times> string) list" where
  "audit_permission_map =
     [(''list'', ''audit_log:read''), (''retrieve'', ''audit_log:read''),
      (''verify'', ''audit_log:verify''), (''export'', ''audit_log:export'')]"

text \<open>The query parameters; absent ones are empty, or \<open>None\<close>.\<close>

record audit_filter =
  af_project_scoped :: bool
  af_action :: string
  af_resource_type :: string
  af_actor_type :: string
  af_since :: "datetime option"
  af_until :: "datetime option"

definition no_audit_filter :: audit_filter where
  "no_audit_filter = \<lparr>af_project_scoped = True, af_action = [], af_resource_type = [], af_actor_type = [],
                      af_since = None, af_until = None\<rparr>"

definition audit_matches :: "audit_filter \<Rightarrow> audit_log \<Rightarrow> bool" where
  "audit_matches f l \<longleftrightarrow>
     (af_action f = [] \<or> str_contains (lower (af_action f)) (lower (al_action l))) \<and>
     (af_resource_type f = [] \<or> lower (al_resource_type l) = lower (af_resource_type f)) \<and>
     (af_actor_type f = [] \<or> actor_type_value (al_actor_type l) = af_actor_type f) \<and>
     (case af_since f of Some t \<Rightarrow> t \<le> al_created_at l | None \<Rightarrow> True) \<and>
     (case af_until f of Some t \<Rightarrow> al_created_at l \<le> t | None \<Rightarrow> True)"

definition audit_visible :: "request \<Rightarrow> audit_filter \<Rightarrow> audit_log \<Rightarrow> bool" where
  "audit_visible rq f l \<longleftrightarrow>
     (case req_tenant rq of Some t \<Rightarrow> al_tenant l = tn_id t | None \<Rightarrow> False) \<and>
     (case req_project rq of
        Some p \<Rightarrow> \<not> af_project_scoped f \<or> al_project l = Some (pj_id p) \<or> al_project l = None
      | None \<Rightarrow> True) \<and>
     audit_matches f l"

definition audit_queryset :: "world \<Rightarrow> request \<Rightarrow> audit_filter \<Rightarrow> audit_log list" where
  "audit_queryset w rq f = order_by_desc al_created_at (filter (audit_visible rq f) (w_audit_logs w))"

text \<open>\<open>get_actor_label\<close>\<close>

definition actor_label :: "world \<Rightarrow> audit_log \<Rightarrow> string" where
  "actor_label w l =
     (case al_actor_type l of
        ActUser \<Rightarrow>
          (case user_of w (al_actor_id l) of
             Some u \<Rightarrow> (if usr_email u \<noteq> [] then usr_email u else string_of_nat (al_actor_id l))
           | None \<Rightarrow> string_of_nat (al_actor_id l))
      | ActApiKey \<Rightarrow>
          (case find (\<lambda>k. ak_id k = al_actor_id l) (w_api_keys w) of
             Some k \<Rightarrow> (if ak_name k \<noteq> [] then ak_name k else ''API key '' @ take 8 (string_of_nat (al_actor_id l)))
           | None \<Rightarrow> ''API key '' @ take 8 (string_of_nat (al_actor_id l)))
      | ActSystem \<Rightarrow> ''Automatique (scheduler)''
      | ActScim \<Rightarrow> ''SCIM'')"

definition audit_list :: "world \<Rightarrow> request \<Rightarrow> audit_filter \<Rightarrow> audit_log list result" where
  "audit_list w rq f =
     bind_result (require_permission w audit_permission_map ''list'' rq None) (\<lambda>_. Ok (audit_queryset w rq f))"

definition audit_verify :: "env \<Rightarrow> world \<Rightarrow> request \<Rightarrow> verification option result" where
  "audit_verify e w rq =
     bind_result (require_permission w audit_permission_map ''verify'' rq None) (\<lambda>_.
       Ok (map_option (\<lambda>t. verify_chain e (tn_id t) None w) (req_tenant rq)))"

text \<open>The lines of the JSONL export, in the order of the keys.\<close>

definition export_line :: "audit_log \<Rightarrow> string" where
  "export_line l =
     print_json '', '' '': '' (JObj
       [(''id'', JInt (int (al_id l))), (''actor_id'', JStr (string_of_nat (al_actor_id l))),
        (''actor_type'', JStr (actor_type_value (al_actor_type l))), (''action'', JStr (al_action l)),
        (''resource_type'', JStr (al_resource_type l)),
        (''resource_id'', (case al_resource_id l of Some i \<Rightarrow> JStr (string_of_nat i) | None \<Rightarrow> JNull)),
        (''old_value'', al_old_value l), (''new_value'', al_new_value l),
        (''ip_address'', json_opt_str (al_ip_address l)), (''user_agent'', JStr (al_user_agent l)),
        (''record_hash'', JStr (al_record_hash l)), (''prev_hash'', JStr (al_prev_hash l)),
        (''created_at'', JTime (al_created_at l))]) @ [CHR 0x0A]"

definition audit_export_jsonl :: "world \<Rightarrow> request \<Rightarrow> audit_filter \<Rightarrow> string list result" where
  "audit_export_jsonl w rq f =
     bind_result (require_permission w audit_permission_map ''export'' rq None) (\<lambda>_.
       Ok (map export_line (order_by al_id (audit_queryset w rq f))))"

section \<open>Retention policies\<close>

definition retention_permission_map :: "(string \<times> string) list" where
  "retention_permission_map =
     [(''list'', ''retention_policy:read''), (''retrieve'', ''retention_policy:read''),
      (''create'', ''retention_policy:update''), (''update'', ''retention_policy:update''),
      (''partial_update'', ''retention_policy:update''), (''destroy'', ''retention_policy:update'')]"

fun data_type_value :: "data_type \<Rightarrow> string" where
  "data_type_value MonitorChecks = ''monitor_checks''"
| "data_type_value AuditLogs = ''audit_logs''"
| "data_type_value WebhookDeliveries = ''webhook_deliveries''"
| "data_type_value IncidentsResolved = ''incidents_resolved''"

fun data_type_display :: "data_type \<Rightarrow> string" where
  "data_type_display MonitorChecks = ''Monitor Checks''"
| "data_type_display AuditLogs = ''Audit Logs''"
| "data_type_display WebhookDeliveries = ''Webhook Deliveries''"
| "data_type_display IncidentsResolved = ''Resolved Incidents''"

definition retention_queryset :: "world \<Rightarrow> request \<Rightarrow> retention_policy list" where
  "retention_queryset w rq =
     (case req_project rq of
        None \<Rightarrow> []
      | Some p \<Rightarrow>
          order_by (\<lambda>r. data_type_value (rt_data_type r)) (filter (\<lambda>r. rt_project r = pj_id p) (w_retention w)))"

definition validate_retention_days :: "int \<Rightarrow> nat result" where
  "validate_retention_days n =
     (if n < 1 then ValidationError ''retention_days must be at least 1.'' else Ok (nat n))"

text \<open>The project is no field of the serializer, so a second policy of a type is found by the database only.\<close>

definition retention_taken :: "world \<Rightarrow> uuid \<Rightarrow> uuid \<Rightarrow> data_type \<Rightarrow> bool" where
  "retention_taken w pk project dt \<longleftrightarrow>
     exists_row (\<lambda>r. rt_project r = project \<and> rt_data_type r = dt \<and> rt_id r \<noteq> pk) (w_retention w)"

definition retention_create ::
  "env \<Rightarrow> request \<Rightarrow> data_type \<Rightarrow> int \<Rightarrow> bool \<Rightarrow> string option \<Rightarrow> world \<Rightarrow> retention_policy result \<times> world" where
  "retention_create e rq dt n archive bucket w =
     (case bind_result (require_permission w retention_permission_map ''create'' rq None) (\<lambda>_.
             bind_result (validate_retention_days n) (\<lambda>k.
               case req_project rq of
                 None \<Rightarrow> Raise (TypeError ''no attribute tenant'')
               | Some p \<Rightarrow> Ok (k, p))) of
        Inl x \<Rightarrow> (Raise x, w)
      | Inr (k, p) \<Rightarrow>
          (if retention_taken w (w_next w) (pj_id p) dt
           then (Raise (IntegrityError ''unique_retention_per_project_datatype''), w)
           else
             (let r = \<lparr>rt_id = w_next w, rt_tenant = pj_tenant p, rt_project = pj_id p, rt_data_type = dt,
                       rt_retention_days = k, rt_archive_to_s3 = archive, rt_s3_bucket = bucket,
                       rt_created_at = e_now e, rt_updated_at = e_now e\<rparr>
              in (Ok r, w\<lparr>w_retention := w_retention w @ [r], w_next := Suc (w_next w)\<rparr>))))"

definition retention_get :: "world \<Rightarrow> request \<Rightarrow> string \<Rightarrow> uuid \<Rightarrow> retention_policy result" where
  "retention_get w rq action pk =
     bind_result (require_permission w retention_permission_map action rq None) (\<lambda>_.
       get_object w retention_permission_map action rq rt_id (retention_queryset w rq) pk)"

definition retention_update ::
  "env \<Rightarrow> request \<Rightarrow> uuid \<Rightarrow> data_type \<Rightarrow> int \<Rightarrow> bool \<Rightarrow> string option \<Rightarrow> world \<Rightarrow> retention_policy result \<times> world" where
  "retention_update e rq pk dt n archive bucket w =
     (case bind_result (retention_get w rq ''update'' pk) (\<lambda>r.
             bind_result (validate_retention_days n) (\<lambda>k. Ok (r, k))) of
        Inl x \<Rightarrow> (Raise x, w)
      | Inr (r, k) \<Rightarrow>
          (if retention_taken w (rt_id r) (rt_project r) dt
           then (Raise (IntegrityError ''unique_retention_per_project_datatype''), w)
           else
             (let r1 = r\<lparr>rt_data_type := dt, rt_retention_days := k, rt_archive_to_s3 := archive,
                         rt_s3_bucket := bucket, rt_updated_at := e_now e\<rparr>
              in (Ok r1, w\<lparr>w_retention := update_where (\<lambda>x. rt_id x = rt_id r) (\<lambda>_. r1) (w_retention w)\<rparr>))))"

definition retention_destroy :: "request \<Rightarrow> uuid \<Rightarrow> world \<Rightarrow> response result \<times> world" where
  "retention_destroy rq pk w =
     (case retention_get w rq ''destroy'' pk of
        Inl x \<Rightarrow> (Raise x, w)
      | Inr r \<Rightarrow> (Ok (Response 204 JNull), w\<lparr>w_retention := delete_where (\<lambda>x. rt_id x = rt_id r) (w_retention w)\<rparr>))"

end
