(* ===== verification/RetentionFacts.thy ===== *)
theory RetentionFacts
  imports Retention AuditFacts MonitorFacts
begin

text \<open>
  What \<open>purge_expired\<close> deletes: of checks, deliveries and resolved incidents exactly what the
  retention policies say, of the audit log nothing.
\<close>

section \<open>Views of the tables\<close>

text \<open>A check, a delivery and an incident without the columns a purge may blank.\<close>

type_synonym check_core = "uuid \<times> uuid \<times> uuid \<times> datetime \<times> check_status"

definition check_core :: "monitor_check \<Rightarrow> check_core" where
  "check_core c = (ck_id c, ck_tenant c, ck_monitor c, ck_checked_at c, ck_status c)"

text \<open>The project of each monitor, which the deletion of incidents leaves alone.\<close>

definition monitor_projects :: "world \<Rightarrow> (uuid \<times> uuid) list" where
  "monitor_projects w = map (\<lambda>m. (mo_id m, mo_project m)) (w_monitors w)"

definition expired_core :: "(uuid \<times> uuid) list \<Rightarrow> retention_policy \<Rightarrow> datetime \<Rightarrow> check_core \<Rightarrow> bool" where
  "expired_core ps p now c =
     (case c of (i, t, m, at, s) \<Rightarrow>
        rt_data_type p = MonitorChecks \<and> t = rt_tenant p \<and> map_of ps m = Some (rt_project p) \<and>
        at < now - days (int (rt_retention_days p)))"

lemma map_option_find_key:
  "map_option f (find (\<lambda>r. k r = i) rs) = map_of (map (\<lambda>r. (k r, f r)) rs) i"
  by (induction rs) auto

lemma check_expired_core:
  assumes "rt_data_type p = MonitorChecks"
  shows "check_expired p (now - days (int (rt_retention_days p))) w c \<longleftrightarrow>
    expired_core (monitor_projects w) p now (check_core c)"
proof -
  have "(case monitor_of w (ck_monitor c) of Some m \<Rightarrow> mo_project m = rt_project p | None \<Rightarrow> False) \<longleftrightarrow>
      map_option mo_project (monitor_of w (ck_monitor c)) = Some (rt_project p)"
    by (cases "monitor_of w (ck_monitor c)") auto
  also have "\<dots> \<longleftrightarrow> map_of (monitor_projects w) (ck_monitor c) = Some (rt_project p)"
    by (simp add: monitor_of_def monitor_projects_def map_option_find_key)
  finally show ?thesis
    using assms by (auto simp: check_expired_def expired_core_def check_core_def)
qed

lemma delete_if_any:
  "(if length (filter p rs) \<noteq> 0 then delete_where p rs else rs) = filter (\<lambda>r. \<not> p r) rs"
  by (auto simp: delete_where_def filter_empty_conv intro: filter_True [symmetric])

lemma map_filter_not: "(\<And>r. p r \<longleftrightarrow> q (f r)) \<Longrightarrow> map f (filter (\<lambda>r. \<not> p r) rs) = filter (\<lambda>x. \<not> q x) (map f rs)"
  by (induction rs) auto

section \<open>One policy\<close>

text \<open>The reference: what one policy removes from each table.\<close>

definition hook_projects :: "world \<Rightarrow> (uuid \<times> uuid) list" where
  "hook_projects w = map (\<lambda>h. (wh_id h, wh_project h)) (w_webhooks w)"

definition expired_delivery :: "(uuid \<times> uuid) list \<Rightarrow> retention_policy \<Rightarrow> datetime \<Rightarrow> delivery \<Rightarrow> bool" where
  "expired_delivery hs p now d \<longleftrightarrow>
     rt_data_type p = WebhookDeliveries \<and> dl_tenant d = rt_tenant p \<and>
     map_of hs (dl_webhook d) = Some (rt_project p) \<and> dl_created_at d < now - days (int (rt_retention_days p))"

definition expired_incident :: "incident_state list \<Rightarrow> retention_policy \<Rightarrow> datetime \<Rightarrow> incident \<Rightarrow> bool" where
  "expired_incident sts p now i \<longleftrightarrow>
     rt_data_type p = IncidentsResolved \<and> ic_tenant i = rt_tenant p \<and> ic_project i = rt_project p \<and>
     (case find (\<lambda>s. st_id s = ic_state i) sts of Some s \<Rightarrow> st_is_resolved_state s | None \<Rightarrow> False) \<and>
     (case ic_resolved_at i of Some t \<Rightarrow> t < now - days (int (rt_retention_days p)) | None \<Rightarrow> False)"

lemma delivery_expired_ref:
  assumes "rt_data_type p = WebhookDeliveries"
  shows "delivery_expired p (now - days (int (rt_retention_days p))) w d \<longleftrightarrow> expired_delivery (hook_projects w) p now d"
proof -
  have "(case webhook_of w (dl_webhook d) of Some h \<Rightarrow> wh_project h = rt_project p | None \<Rightarrow> False) \<longleftrightarrow>
      map_option wh_project (webhook_of w (dl_webhook d)) = Some (rt_project p)"
    by (cases "webhook_of w (dl_webhook d)") auto
  also have "\<dots> \<longleftrightarrow> map_of (hook_projects w) (dl_webhook d) = Some (rt_project p)"
    by (simp add: webhook_of_def hook_projects_def map_option_find_key)
  finally show ?thesis
    using assms by (auto simp: delivery_expired_def expired_delivery_def)
qed

text \<open>What a purge may not touch at all.\<close>

definition kept :: "world \<Rightarrow> world \<Rightarrow> bool" where
  "kept w w' \<longleftrightarrow> monitor_projects w' = monitor_projects w \<and> w_webhooks w' = w_webhooks w \<and>
     w_states w' = w_states w \<and> w_audit_logs w' = w_audit_logs w \<and> w_retention w' = w_retention w"

lemma kept_trans: "kept w w1 \<Longrightarrow> kept w1 w2 \<Longrightarrow> kept w w2"
  by (simp add: kept_def)

lemma delete_incidents_view:
  "map check_core (w_checks (delete_incidents q w)) = map check_core (w_checks w)"
  "w_deliveries (delete_incidents q w) = w_deliveries w" "kept w (delete_incidents q w)"
  "w_incidents (delete_incidents q w) = delete_where q (w_incidents w)"
  by (simp_all add: delete_incidents_def Let_def check_core_def kept_def monitor_projects_def comp_def)

lemma purge_step:
  assumes "purge p (now - days (int (rt_retention_days p))) False w = (n, w')"
  shows "kept w w'"
    "map check_core (w_checks w') =
       filter (\<lambda>c. \<not> expired_core (monitor_projects w) p now c) (map check_core (w_checks w))"
    "w_deliveries w' = filter (\<lambda>d. \<not> expired_delivery (hook_projects w) p now d) (w_deliveries w)"
    "w_incidents w' = filter (\<lambda>i. \<not> expired_incident (w_states w) p now i) (w_incidents w)"
proof -
  let ?cut = "now - days (int (rt_retention_days p))"
  have "kept w w' \<and>
    map check_core (w_checks w') =
       filter (\<lambda>c. \<not> expired_core (monitor_projects w) p now c) (map check_core (w_checks w)) \<and>
    w_deliveries w' = filter (\<lambda>d. \<not> expired_delivery (hook_projects w) p now d) (w_deliveries w) \<and>
    w_incidents w' = filter (\<lambda>i. \<not> expired_incident (w_states w) p now i) (w_incidents w)"
  proof (cases "rt_data_type p")
    case MonitorChecks
    then have "w' = w\<lparr>w_checks := filter (\<lambda>c. \<not> check_expired p ?cut w c) (w_checks w)\<rparr>"
      using assms delete_if_any [of "check_expired p ?cut w" "w_checks w"]
      by (auto simp: purge_def Let_def split: if_splits)
    moreover have "map check_core (filter (\<lambda>c. \<not> check_expired p ?cut w c) (w_checks w)) =
        filter (\<lambda>c. \<not> expired_core (monitor_projects w) p now c) (map check_core (w_checks w))"
      by (rule map_filter_not) (rule check_expired_core [OF MonitorChecks])
    ultimately show ?thesis using MonitorChecks
      by (simp add: kept_def monitor_projects_def expired_delivery_def expired_incident_def)
  next
    case WebhookDeliveries
    then have "w' = w\<lparr>w_deliveries := filter (\<lambda>d. \<not> delivery_expired p ?cut w d) (w_deliveries w)\<rparr>"
      using assms delete_if_any [of "delivery_expired p ?cut w" "w_deliveries w"]
      by (auto simp: purge_def Let_def split: if_splits)
    then show ?thesis using WebhookDeliveries delivery_expired_ref [OF WebhookDeliveries]
      by (simp add: kept_def monitor_projects_def expired_core_def expired_incident_def split_def)
  next
    case IncidentsResolved
    have ref: "incident_expired p ?cut w = expired_incident (w_states w) p now"
      using IncidentsResolved by (auto simp: incident_expired_def expired_incident_def state_is_resolved_def
          state_of_def fun_eq_iff)
    have "w' = (if length (filter (incident_expired p ?cut w) (w_incidents w)) \<noteq> 0
        then delete_incidents (incident_expired p ?cut w) w else w)"
      using assms IncidentsResolved by (auto simp: purge_def Let_def split: if_splits)
    then show ?thesis using IncidentsResolved delete_if_any [of "incident_expired p ?cut w" "w_incidents w"]
      by (auto simp: delete_incidents_view ref kept_def expired_core_def expired_delivery_def split_def
          delete_incidents_view(3) [unfolded kept_def])
  next
    case AuditLogs
    then have "w' = w" using assms
      by (auto simp: purge_def Let_def delete_audit_logs_def split: if_splits)
    then show ?thesis using AuditLogs
      by (simp add: kept_def expired_core_def expired_delivery_def expired_incident_def split_def)
  qed
  then show "kept w w'"
    "map check_core (w_checks w') =
       filter (\<lambda>c. \<not> expired_core (monitor_projects w) p now c) (map check_core (w_checks w))"
    "w_deliveries w' = filter (\<lambda>d. \<not> expired_delivery (hook_projects w) p now d) (w_deliveries w)"
    "w_incidents w' = filter (\<lambda>i. \<not> expired_incident (w_states w) p now i) (w_incidents w)"
    by blast+
qed

section \<open>The command\<close>

lemma kept_views:
  assumes "kept w w'"
  shows "monitor_projects w' = monitor_projects w" "hook_projects w' = hook_projects w" "w_states w' = w_states w"
  using assms by (simp_all add: kept_def hook_projects_def)

lemma purge_each_exact:
  "purge_each now False ps k w = (n, w') \<Longrightarrow>
     kept w w' \<and>
     map check_core (w_checks w') =
       filter (\<lambda>c. \<not> (\<exists>p \<in> set ps. expired_core (monitor_projects w) p now c)) (map check_core (w_checks w)) \<and>
     w_deliveries w' = filter (\<lambda>d. \<not> (\<exists>p \<in> set ps. expired_delivery (hook_projects w) p now d)) (w_deliveries w) \<and>
     w_incidents w' = filter (\<lambda>i. \<not> (\<exists>p \<in> set ps. expired_incident (w_states w) p now i)) (w_incidents w)"
proof (induction ps arbitrary: k w)
  case (Cons p ps)
  obtain d w1 where d: "purge p (now - days (int (rt_retention_days p))) False w = (d, w1)" by force
  with Cons.prems have rest: "purge_each now False ps (k + d) w1 = (n, w')" by simp
  note step = purge_step [OF d] and views = kept_views [OF purge_step(1) [OF d]]
  from Cons.IH [OF rest] kept_trans [OF step(1)] show ?case
    unfolding views step(2-4) filter_filter by (simp add: conj_commute)
qed (simp add: kept_def)

text \<open>
  C38. A run of \<open>purge_expired\<close> deletes exactly what the retention policies say: a check, a delivery or a
  resolved incident is gone if and only if some policy of its project and type is older than its
  time; everything else stays, in its order, and the audit log, the policies and the projects of
  the monitors are as before.
\<close>

theorem purge_expired_exact:
  assumes "purge_expired e False w = (n, w')"
  shows "map check_core (w_checks w') =
      filter (\<lambda>c. \<not> (\<exists>p \<in> set (w_retention w). expired_core (monitor_projects w) p (e_now e) c))
        (map check_core (w_checks w)) \<and>
    w_deliveries w' =
      filter (\<lambda>d. \<not> (\<exists>p \<in> set (w_retention w). expired_delivery (hook_projects w) p (e_now e) d)) (w_deliveries w) \<and>
    w_incidents w' =
      filter (\<lambda>i. \<not> (\<exists>p \<in> set (w_retention w). expired_incident (w_states w) p (e_now e) i)) (w_incidents w) \<and>
    kept w w'"
  using purge_each_exact [OF assms [unfolded purge_expired_def]] by blast

lemma purge_each_total: "purge_each now dry ps k w = (n, w') \<Longrightarrow> k \<le> n"
  by (induction ps arbitrary: k w) (fastforce split: prod.splits)+

lemma purge_each_logs:
  assumes "p \<in> set ps" "rt_data_type p = AuditLogs" "rt_retention_days p < 2555"
    and "purge_each now False ps k w = (n, w')"
  shows "k + length (filter (log_expired p (now - days (int (rt_retention_days p)))) (w_audit_logs w)) \<le> n"
  using assms(1,4)
proof (induction ps arbitrary: k w)
  case (Cons q ps)
  obtain d w1 where d: "purge q (now - days (int (rt_retention_days q))) False w = (d, w1)" by force
  with Cons.prems have rest: "purge_each now False ps (k + d) w1 = (n, w')" by simp
  show ?case
  proof (cases "q = p")
    case True
    with d assms(2,3) have "d = length (filter (log_expired p (now - days (int (rt_retention_days p)))) (w_audit_logs w))"
      by (auto simp: purge_def Let_def)
    with purge_each_total [OF rest] show ?thesis by simp
  next
    case False
    with Cons.prems(1) Cons.IH [OF _ rest] purge_step(1) [OF d] show ?thesis by (simp add: kept_def)
  qed
qed simp

text \<open>
  A retention policy on the audit log has no effect, and the command claims otherwise: the rule
  \<open>audit_no_delete\<close> of the database turns the \<open>DELETE\<close> into nothing, yet every expired entry is
  counted as deleted, on this run and on each later one.
\<close>

theorem audit_purge_ineffective:
  assumes "p \<in> set (w_retention w)" "rt_data_type p = AuditLogs" "rt_retention_days p < 2555"
    and "purge_expired e False w = (n, w')" "purge_expired e False w' = (n', w'')"
  shows "w_audit_logs w'' = w_audit_logs w \<and>
    length (filter (log_expired p (e_now e - days (int (rt_retention_days p)))) (w_audit_logs w)) \<le> min n n'"
proof -
  have k: "kept w w'" "kept w' w''"
    using purge_each_exact assms(4,5) by (auto simp: purge_expired_def)
  with purge_each_logs [OF assms(1-3) assms(4) [unfolded purge_expired_def]]
    purge_each_logs [OF _ assms(2,3) assms(5) [unfolded purge_expired_def]] assms(1)
  show ?thesis by (simp add: kept_def)
qed

section \<open>Witnesses\<close>

definition checks_policy :: retention_policy where
  "checks_policy = \<lparr>rt_id = 1, rt_tenant = 1, rt_project = 2, rt_data_type = MonitorChecks,
     rt_retention_days = 30, rt_archive_to_s3 = False, rt_s3_bucket = None, rt_created_at = 0, rt_updated_at = 0\<rparr>"

definition check_at :: "uuid \<Rightarrow> datetime \<Rightarrow> monitor_check" where
  "check_at i t = \<lparr>ck_id = i, ck_tenant = 1, ck_monitor = 90, ck_probe = None, ck_checked_at = t,
     ck_status = Success, ck_response_status_code = None, ck_response_time_ms = None, ck_error_message = [],
     ck_triggered_incident = None\<rparr>"

text \<open>A check of 31 days ago and one of 29 days ago; only the first goes.\<close>

theorem purge_expired_exact_witness:
  "map ck_id (w_checks (snd (purge_expired (sample_env\<lparr>e_now := days 31\<rparr>) False
     (monitored sample_monitor\<lparr>w_retention := [checks_policy], w_checks := [check_at 7 0, check_at 8 (days 2)]\<rparr>)))) = [8]"
proof -
  let ?e = "sample_env\<lparr>e_now := days 31\<rparr>"
  let ?w = "monitored sample_monitor\<lparr>w_retention := [checks_policy], w_checks := [check_at 7 0, check_at 8 (days 2)]\<rparr>"
  obtain n w' where run: "purge_expired ?e False ?w = (n, w')" by force
  have owner: "map_of (monitor_projects (monitored sample_monitor)) 90 = Some 2"
    "monitor_projects ?w = monitor_projects (monitored sample_monitor)"
    by (simp_all add: monitor_projects_def sample_monitor_def)
  have "map check_core (w_checks w') = [check_core (check_at 8 (days 2))]"
    using purge_expired_exact [OF run] owner(1) unfolding owner(2)
    by (simp add: check_core_def check_at_def expired_core_def checks_policy_def time_unit_defs)
  then have "map fst (map check_core (w_checks w')) = [8]" by (simp add: check_core_def check_at_def)
  with run show ?thesis by (simp add: check_core_def comp_def)
qed

text \<open>An entry of the log, thirty days past a policy of one day: twice reported as deleted, still there.\<close>

theorem audit_purge_ineffective_witness:
  "\<exists>l w n n' w' w''.
     purge_expired (sample_env\<lparr>e_now := e_now sample_env + days 30\<rparr>) False w = (n, w') \<and>
     purge_expired (sample_env\<lparr>e_now := e_now sample_env + days 30\<rparr>) False w' = (n', w'') \<and>
     w_audit_logs w'' = [l] \<and> 1 \<le> n \<and> 1 \<le> n'"
proof -
  obtain l w1 where s: "sample_entry sample_env empty_world = (l, w1)" by force
  let ?e = "sample_env\<lparr>e_now := e_now sample_env + days 30\<rparr>"
  let ?p = "checks_policy\<lparr>rt_data_type := AuditLogs, rt_retention_days := 1\<rparr>"
  let ?l = "l\<lparr>al_tenant := 1, al_project := Some 2, al_created_at := e_now sample_env\<rparr>"
  let ?w = "empty_world\<lparr>w_retention := [?p], w_audit_logs := [?l]\<rparr>"
  obtain n w' where 1: "purge_expired ?e False ?w = (n, w')" by force
  obtain n' w'' where 2: "purge_expired ?e False w' = (n', w'')" by force
  have "log_expired ?p (e_now ?e - days 1) ?l"
    by (simp add: log_expired_def checks_policy_def time_unit_defs)
  with audit_purge_ineffective [OF _ _ _ 1 2, of ?p] have "w_audit_logs w'' = [?l]" "1 \<le> n" "1 \<le> n'"
    by (simp_all add: checks_policy_def)
  with 1 2 show ?thesis by blast
qed

end
