(* ===== verification/TenancyViews.thy ===== *)
theory TenancyViews
  imports AccountsViews
begin

text \<open>
  \<open>apps/tenancy\<close> (views, serializers) and \<open>apps/admin_api\<close>: tenants for the super administrator -
  suspension, deletion with everything that hangs on it, impersonation, usage and metrics - and
  the projects of a tenant.
\<close>

section \<open>Tenants\<close>

text \<open>\<open>IsSuperAdmin\<close>\<close>

definition require_super_admin :: "request \<Rightarrow> user result" where
  "require_super_admin rq =
     (case req_user rq of
        None \<Rightarrow> Raise (ApiError 401 ''Authentication credentials were not provided.'')
      | Some u \<Rightarrow>
          (if is_super_admin rq then Ok u
           else PermissionDenied ''You do not have permission to perform this action.''))"

fun tenant_status_value :: "tenant_status \<Rightarrow> string" where
  "tenant_status_value TenantActive = ''active''"
| "tenant_status_value TenantSuspended = ''suspended''"
| "tenant_status_value TenantDeleted = ''deleted''"

definition icontains_lower :: "string \<Rightarrow> string \<Rightarrow> bool" where
  "icontains_lower s sub = str_contains (lower sub) (lower s)"

definition tenant_queryset :: "world \<Rightarrow> string \<Rightarrow> string \<Rightarrow> tenant list" where
  "tenant_queryset w status search =
     order_by_desc tn_created_at
       (filter (\<lambda>t. (status = [] \<or> tenant_status_value (tn_status t) = status) \<and>
                    (search = [] \<or> icontains_lower (tn_name t) search \<or> icontains_lower (tn_slug t) search))
          (w_tenants w))"

definition tenant_get :: "world \<Rightarrow> request \<Rightarrow> uuid \<Rightarrow> tenant result" where
  "tenant_get w rq pk =
     bind_result (require_super_admin rq) (\<lambda>_. get_or_404 (find (\<lambda>t. tn_id t = pk) (tenant_queryset w [] [])))"

definition save_tenant :: "tenant \<Rightarrow> world \<Rightarrow> world" where
  "save_tenant t w = w\<lparr>w_tenants := update_where (\<lambda>r. tn_id r = tn_id t) (\<lambda>_. t) (w_tenants w)\<rparr>"

definition set_tenant_status ::
  "env \<Rightarrow> tenant_status \<Rightarrow> string \<Rightarrow> string \<Rightarrow> request \<Rightarrow> uuid \<Rightarrow> world \<Rightarrow> response result \<times> world" where
  "set_tenant_status e status already changed rq pk w =
     (case tenant_get w rq pk of
        Inl x \<Rightarrow> (Raise x, w)
      | Inr t \<Rightarrow>
          (if tn_status t = status then (Ok (detail_response 200 already), w)
           else (Ok (detail_response 200 changed),
                 save_tenant (t\<lparr>tn_status := status, tn_updated_at := e_now e\<rparr>) w)))"

definition tenant_suspend :: "env \<Rightarrow> request \<Rightarrow> uuid \<Rightarrow> world \<Rightarrow> response result \<times> world" where
  "tenant_suspend e =
     set_tenant_status e TenantSuspended ''Tenant is already suspended.'' ''Tenant suspended.''"

definition tenant_activate :: "env \<Rightarrow> request \<Rightarrow> uuid \<Rightarrow> world \<Rightarrow> response result \<times> world" where
  "tenant_activate e = set_tenant_status e TenantActive ''Tenant is already active.'' ''Tenant activated.''"

section \<open>Deleting a tenant\<close>

text \<open>
  Django collects every row that cascades from the tenant, and refuses when a \<open>PROTECT\<close> key
  points into them, even from a row that would go too: a membership to its role, an incident to
  its state and severity. The audit log is the next obstacle: the database ignores the deletion of
  its rows (\<open>0002_auditlog_immutability_rules\<close>), so their tenant cannot go.
\<close>

definition protected_by :: "uuid \<Rightarrow> world \<Rightarrow> bool" where
  "protected_by t w \<longleftrightarrow>
     exists_row (\<lambda>m. case role_of w (mb_role m) of Some r \<Rightarrow> ro_tenant r = t | None \<Rightarrow> False)
       (w_team_memberships w) \<or>
     exists_row (\<lambda>i. (case state_of w (ic_state i) of Some s \<Rightarrow> st_tenant s = t | None \<Rightarrow> False) \<or>
                     (case severity_of w (ic_severity i) of Some s \<Rightarrow> sv_tenant s = t | None \<Rightarrow> False))
       (w_incidents w)"

definition has_audit_log :: "uuid \<Rightarrow> world \<Rightarrow> bool" where
  "has_audit_log t w \<longleftrightarrow> exists_row (\<lambda>l. al_tenant l = t) (w_audit_logs w)"

text \<open>The deletion itself writes to the log: the signals of the monitors, the roles and the memberships.\<close>

definition deletion_recorded :: "uuid \<Rightarrow> world \<Rightarrow> bool" where
  "deletion_recorded t w \<longleftrightarrow>
     exists_row (\<lambda>m. mo_tenant m = t) (w_monitors w) \<or> exists_row (\<lambda>r. ro_tenant r = t) (w_roles w) \<or>
     exists_row (\<lambda>m. um_tenant m = t) (w_user_memberships w)"

text \<open>The cascade. Rows of other tenants that refer to rows of this one are not followed.\<close>

definition cascade_tenant :: "uuid \<Rightarrow> world \<Rightarrow> world" where
  "cascade_tenant t w =
     (let team_ids = map tm_id (filter (\<lambda>x. tm_tenant x = t) (w_teams w));
          policy_ids = map ep_id (filter (\<lambda>x. ep_tenant x = t) (w_esc_policies w));
          config_ids = map sc_id (filter (\<lambda>x. sc_tenant x = t) (w_sso_configs w))
      in w\<lparr>w_tenants := delete_where (\<lambda>x. tn_id x = t) (w_tenants w),
           w_projects := delete_where (\<lambda>x. pj_tenant x = t) (w_projects w),
           w_user_memberships := delete_where (\<lambda>x. um_tenant x = t) (w_user_memberships w),
           w_roles := delete_where (\<lambda>x. ro_tenant x = t) (w_roles w),
           w_teams := delete_where (\<lambda>x. tm_tenant x = t) (w_teams w),
           w_team_memberships := delete_where (\<lambda>x. mb_team x \<in> set team_ids) (w_team_memberships w),
           w_resource_policies := delete_where (\<lambda>x. rp_tenant x = t) (w_resource_policies w),
           w_api_keys := delete_where (\<lambda>x. ak_tenant x = t) (w_api_keys w),
           w_probes := delete_where (\<lambda>x. pb_tenant x = t) (w_probes w),
           w_monitors := delete_where (\<lambda>x. mo_tenant x = t) (w_monitors w),
           w_monitor_groups := delete_where (\<lambda>x. mg_tenant x = t) (w_monitor_groups w),
           w_checks := delete_where (\<lambda>x. ck_tenant x = t) (w_checks w),
           w_states := delete_where (\<lambda>x. st_tenant x = t) (w_states w),
           w_severities := delete_where (\<lambda>x. sv_tenant x = t) (w_severities w),
           w_incidents := delete_where (\<lambda>x. ic_tenant x = t) (w_incidents w),
           w_notes := delete_where (\<lambda>x. nt_tenant x = t) (w_notes w),
           w_postmortems := delete_where (\<lambda>x. pm_tenant x = t) (w_postmortems w),
           w_esc_policies := delete_where (\<lambda>x. ep_tenant x = t) (w_esc_policies w),
           w_esc_steps := delete_where (\<lambda>x. es_policy x \<in> set policy_ids) (w_esc_steps w),
           w_esc_states := delete_where (\<lambda>x. et_policy x \<in> set policy_ids) (w_esc_states w),
           w_rules := delete_where (\<lambda>x. wr_tenant x = t) (w_rules w),
           w_webhooks := delete_where (\<lambda>x. wh_tenant x = t) (w_webhooks w),
           w_deliveries := delete_where (\<lambda>x. dl_tenant x = t) (w_deliveries w),
           w_maintenances := delete_where (\<lambda>x. sm_tenant x = t) (w_maintenances w),
           w_status_pages := delete_where (\<lambda>x. sp_tenant x = t) (w_status_pages w),
           w_page_resources := delete_where (\<lambda>x. sr_tenant x = t) (w_page_resources w),
           w_subscribers := delete_where (\<lambda>x. sb_tenant x = t) (w_subscribers w),
           w_announcements := delete_where (\<lambda>x. an_tenant x = t) (w_announcements w),
           w_retention := delete_where (\<lambda>x. rt_tenant x = t) (w_retention w),
           w_sso_configs := delete_where (\<lambda>x. sc_tenant x = t) (w_sso_configs w),
           w_scim_logs := delete_where (\<lambda>x. sl_config x \<in> set config_ids) (w_scim_logs w)\<rparr>)"

definition delete_tenant :: "uuid \<Rightarrow> world \<Rightarrow> unit result \<times> world" where
  "delete_tenant t w =
     (if protected_by t w
      then (Raise (ProtectedError ''Cannot delete some instances because they are referenced through protected foreign keys''), w)
      else if has_audit_log t w \<or> deletion_recorded t w then (Raise (IntegrityError ''audit_log_tenant_id_fk''), w)
      else (Ok (), cascade_tenant t w))"

section \<open>The administrator's API\<close>

definition admin_tenant_queryset :: "world \<Rightarrow> string \<Rightarrow> string \<Rightarrow> string \<Rightarrow> tenant list" where
  "admin_tenant_queryset w status plan search =
     order_by_desc tn_created_at
       (filter (\<lambda>t. (status = [] \<or> tenant_status_value (tn_status t) = status) \<and>
                    (plan = [] \<or> tn_plan t = plan) \<and>
                    (search = [] \<or> icontains_lower (tn_name t) search \<or> icontains_lower (tn_slug t) search))
          (w_tenants w))"

definition admin_tenant_get :: "world \<Rightarrow> request \<Rightarrow> uuid \<Rightarrow> tenant result" where
  "admin_tenant_get w rq pk =
     bind_result (require_super_admin rq) (\<lambda>_.
       get_or_404 (find (\<lambda>t. tn_id t = pk) (admin_tenant_queryset w [] [] [])))"

definition quoted_name :: "string \<Rightarrow> string" where
  "quoted_name s = [CHR 0x27] @ s @ [CHR 0x27]"

definition admin_suspend :: "env \<Rightarrow> request \<Rightarrow> uuid \<Rightarrow> world \<Rightarrow> response result \<times> world" where
  "admin_suspend e rq pk w =
     (case admin_tenant_get w rq pk of
        Inl x \<Rightarrow> (Raise x, w)
      | Inr t \<Rightarrow> (Ok (detail_response 200 (''Tenant '' @ quoted_name (tn_name t) @ '' suspended.'')),
                  save_tenant (t\<lparr>tn_status := TenantSuspended, tn_updated_at := e_now e\<rparr>) w))"

definition admin_activate :: "env \<Rightarrow> request \<Rightarrow> uuid \<Rightarrow> world \<Rightarrow> response result \<times> world" where
  "admin_activate e rq pk w =
     (case admin_tenant_get w rq pk of
        Inl x \<Rightarrow> (Raise x, w)
      | Inr t \<Rightarrow> (Ok (detail_response 200 (''Tenant '' @ quoted_name (tn_name t) @ '' activated.'')),
                  save_tenant (t\<lparr>tn_status := TenantActive, tn_updated_at := e_now e\<rparr>) w))"

definition admin_destroy :: "request \<Rightarrow> uuid \<Rightarrow> world \<Rightarrow> response result \<times> world" where
  "admin_destroy rq pk w =
     (case admin_tenant_get w rq pk of
        Inl x \<Rightarrow> (Raise x, w)
      | Inr t \<Rightarrow>
          (case delete_tenant (tn_id t) w of
             (Inl x, w1) \<Rightarrow> (Raise x, w1)
           | (Inr _, w1) \<Rightarrow>
               (Ok (detail_response 200
                  (''Tenant '' @ quoted_name (tn_name t) @ '' and all associated data deleted.'')), w1)))"

text \<open>\<open>AdminTenantUpdateSerializer\<close>: an absent field stays.\<close>

record tenant_update =
  tu_plan :: "string option"
  tu_data_region :: "string option"
  tu_status :: "tenant_status option"
  tu_settings :: "json option"
  tu_stripe_id :: "string option option"

definition or_keep :: "'a option \<Rightarrow> 'a \<Rightarrow> 'a" where
  "or_keep v old = (case v of Some x \<Rightarrow> x | None \<Rightarrow> old)"

definition admin_update ::
  "env \<Rightarrow> request \<Rightarrow> uuid \<Rightarrow> tenant_update \<Rightarrow> world \<Rightarrow> tenant result \<times> world" where
  "admin_update e rq pk inp w =
     (case admin_tenant_get w rq pk of
        Inl x \<Rightarrow> (Raise x, w)
      | Inr t \<Rightarrow>
          (let t1 = t\<lparr>tn_plan := or_keep (tu_plan inp) (tn_plan t),
                      tn_data_region := or_keep (tu_data_region inp) (tn_data_region t),
                      tn_status := or_keep (tu_status inp) (tn_status t),
                      tn_settings := or_keep (tu_settings inp) (tn_settings t),
                      tn_stripe_id := or_keep (tu_stripe_id inp) (tn_stripe_id t),
                      tn_updated_at := e_now e\<rparr>
           in (Ok t1, save_tenant t1 w)))"

text \<open>The extra claims of the token (\<open>impersonated_by\<close>, \<open>impersonated_tenant\<close>) are read nowhere.\<close>

definition admin_impersonate ::
  "env \<Rightarrow> request \<Rightarrow> uuid \<Rightarrow> uuid option \<Rightarrow> world \<Rightarrow> response result \<times> world" where
  "admin_impersonate e rq pk user_id w =
     (case admin_tenant_get w rq pk of
        Inl x \<Rightarrow> (Raise x, w)
      | Inr t \<Rightarrow>
          (case user_id of
             None \<Rightarrow> (Ok (detail_response 400 ''user_id is required.''), w)
           | Some i \<Rightarrow>
               (case user_of w i of
                  None \<Rightarrow> (Ok (detail_response 404 ''User not found.''), w)
                | Some u \<Rightarrow>
                    (if \<not> exists_row (\<lambda>m. um_user m = usr_id u \<and> um_tenant m = tn_id t \<and> um_accepted_at m \<noteq> None)
                           (w_user_memberships w)
                     then (Ok (detail_response 400 ''User is not a member of this tenant.''), w)
                     else (Ok (Response 200 (JObj (issue_tokens e u @
                            [(''impersonated_user'', JUuid (usr_id u)),
                             (''impersonated_email'', JStr (usr_email u)),
                             (''tenant'', JUuid (tn_id t)),
                             (''warning'', JStr ''This token grants full access as the impersonated user. Use with care.'')]))), w)))))"

definition number_where :: "('r \<Rightarrow> bool) \<Rightarrow> 'r list \<Rightarrow> json" where
  "number_where p rs = JInt (int (length (filter p rs)))"

definition admin_usage :: "world \<Rightarrow> request \<Rightarrow> uuid \<Rightarrow> response result" where
  "admin_usage w rq pk =
     bind_result (admin_tenant_get w rq pk) (\<lambda>tenant.
       let t = tn_id tenant
       in Ok (Response 200 (JObj
         [(''tenant_id'', JUuid t),
          (''monitors'', number_where (\<lambda>m. mo_tenant m = t) (w_monitors w)),
          (''active_incidents'', number_where (\<lambda>i. ic_tenant i = t \<and> ic_resolved_at i = None) (w_incidents w)),
          (''members'', number_where (\<lambda>m. um_tenant m = t \<and> um_accepted_at m \<noteq> None) (w_user_memberships w)),
          (''webhooks'', number_where (\<lambda>h. wh_tenant h = t) (w_webhooks w)),
          (''pending_deliveries'', number_where (\<lambda>d. dl_tenant d = t \<and> dl_status d \<in> {Pending, Failed})
             (w_deliveries w)),
          (''audit_log_entries'', number_where (\<lambda>l. al_tenant l = t) (w_audit_logs w))])))"

text \<open>\<open>database\<close> is what the probe query of the connection says.\<close>

definition admin_health :: "env \<Rightarrow> string option \<Rightarrow> world \<Rightarrow> request \<Rightarrow> response result" where
  "admin_health e database_error w rq =
     bind_result (require_super_admin rq) (\<lambda>_.
       Ok (Response 200 (JObj
         [(''status'', JStr (if database_error = None then ''ok'' else ''degraded'')),
          (''timestamp'', JTime (e_now e)),
          (''checks'', JObj
             [(''database'', JStr (case database_error of None \<Rightarrow> ''ok'' | Some x \<Rightarrow> ''error: '' @ x)),
              (''webhook_queue'', JObj
                 [(''pending'', number_where (\<lambda>d. dl_status d \<in> {Pending, Failed}) (w_deliveries w)),
                  (''exhausted'', number_where (\<lambda>d. dl_status d = Exhausted) (w_deliveries w))])])])))"

definition admin_metrics :: "env \<Rightarrow> world \<Rightarrow> request \<Rightarrow> response result" where
  "admin_metrics e w rq =
     bind_result (require_super_admin rq) (\<lambda>_.
       Ok (Response 200 (JObj
         [(''tenants'', JObj
             [(''total'', number_where (\<lambda>_. True) (w_tenants w)),
              (''active'', number_where (\<lambda>t. tn_status t = TenantActive) (w_tenants w)),
              (''suspended'', number_where (\<lambda>t. tn_status t = TenantSuspended) (w_tenants w))]),
          (''projects'', number_where (\<lambda>_. True) (w_projects w)),
          (''monitors'', JObj
             [(''total'', number_where (\<lambda>_. True) (w_monitors w)),
              (''operational'', number_where (\<lambda>m. mo_status m = Operational) (w_monitors w)),
              (''offline'', number_where (\<lambda>m. mo_status m = Offline) (w_monitors w)),
              (''paused'', number_where mo_is_paused (w_monitors w))]),
          (''incidents'', JObj
             [(''total'', number_where (\<lambda>_. True) (w_incidents w)),
              (''active'', number_where (\<lambda>i. ic_resolved_at i = None) (w_incidents w))]),
          (''users'', number_where (\<lambda>_. True) (w_users w)),
          (''generated_at'', JTime (e_now e))])))"

section \<open>Projects\<close>

definition project_permission_map :: "(string \<times> string) list" where
  "project_permission_map =
     [(''list'', ''project:read''), (''retrieve'', ''project:read''), (''create'', ''project:create''),
      (''update'', ''project:update''), (''partial_update'', ''project:update''),
      (''destroy'', ''project:delete'')]"

text \<open>\<open>active\<close> is the query parameter; the empty string when it is absent.\<close>

definition project_queryset :: "world \<Rightarrow> request \<Rightarrow> string \<Rightarrow> project list" where
  "project_queryset w rq active =
     (case req_tenant rq of
        None \<Rightarrow> []
      | Some t \<Rightarrow>
          order_by pj_name
            (filter (\<lambda>p. pj_tenant p = tn_id t \<and> (active = [] \<or> pj_is_active p = (lower active = ''true'')))
               (w_projects w)))"

definition project_get :: "world \<Rightarrow> request \<Rightarrow> string \<Rightarrow> uuid \<Rightarrow> project result" where
  "project_get w rq action pk =
     bind_result (require_permission w project_permission_map action rq None) (\<lambda>_.
       get_object w project_permission_map action rq pj_id (project_queryset w rq []) pk)"

text \<open>\<open>validate_slug\<close>; without a tenant the filter is on a null tenant, which no project has.\<close>

definition validate_project_slug :: "world \<Rightarrow> request \<Rightarrow> uuid option \<Rightarrow> string \<Rightarrow> unit result" where
  "validate_project_slug w rq instance_pk slug =
     (if exists_row (\<lambda>p. (case req_tenant rq of Some t \<Rightarrow> pj_tenant p = tn_id t | None \<Rightarrow> False) \<and>
                         pj_slug p = slug \<and> Some (pj_id p) \<noteq> instance_pk) (w_projects w)
      then ValidationError ''A project with this slug already exists in this tenant.'' else Ok ())"

text \<open>The creator joins the administrators of the new project.\<close>

definition project_create ::
  "env \<Rightarrow> request \<Rightarrow> string \<Rightarrow> string \<Rightarrow> string \<Rightarrow> bool \<Rightarrow> world \<Rightarrow> project result \<times> world" where
  "project_create e rq name slug description is_active w =
     (case bind_result (require_permission w project_permission_map ''create'' rq None) (\<lambda>u.
             bind_result (validate_project_slug w rq None slug) (\<lambda>_.
               case req_tenant rq of
                 None \<Rightarrow> Raise (IntegrityError ''tenant'')
               | Some t \<Rightarrow> Ok (u, t))) of
        Inl x \<Rightarrow> (Raise x, w)
      | Inr (u, t) \<Rightarrow>
          (let p = \<lparr>pj_id = w_next w, pj_tenant = tn_id t, pj_name = name, pj_slug = slug,
                    pj_description = description, pj_is_active = is_active,
                    pj_created_at = e_now e, pj_updated_at = e_now e\<rparr>;
               w1 = w\<lparr>w_projects := w_projects w @ [p], w_next := Suc (w_next w)\<rparr>;
               (bootstrapped, w2) = bootstrap_project e (pj_id p) (tn_id t) w1
           in case map_of (bs_roles bootstrapped) ''admin'' of
                None \<Rightarrow> (Ok p, w2)
              | Some admin_role \<Rightarrow>
                  (let (admin_team, w3) = team_get_or_create e (tn_id t) (pj_id p)
                         ''Administrators'' ''Project owners and administrators'' w2
                   in (Ok p, snd (join_team e (tm_id admin_team) (usr_id u) (ro_id admin_role)
                               (Some (usr_id u)) w3)))))"

definition save_project :: "project \<Rightarrow> world \<Rightarrow> world" where
  "save_project p w = w\<lparr>w_projects := update_where (\<lambda>r. pj_id r = pj_id p) (\<lambda>_. p) (w_projects w)\<rparr>"

definition project_update ::
  "env \<Rightarrow> request \<Rightarrow> uuid \<Rightarrow> string \<Rightarrow> string \<Rightarrow> string \<Rightarrow> bool \<Rightarrow> world \<Rightarrow> project result \<times> world" where
  "project_update e rq pk name slug description is_active w =
     (case bind_result (project_get w rq ''update'' pk) (\<lambda>p.
             bind_result (validate_project_slug w rq (Some (pj_id p)) slug) (\<lambda>_. Ok p)) of
        Inl x \<Rightarrow> (Raise x, w)
      | Inr p \<Rightarrow>
          (let p1 = p\<lparr>pj_name := name, pj_slug := slug, pj_description := description,
                      pj_is_active := is_active, pj_updated_at := e_now e\<rparr>
           in (Ok p1, save_project p1 w)))"

text \<open>A soft deletion.\<close>

definition project_destroy :: "env \<Rightarrow> request \<Rightarrow> uuid \<Rightarrow> world \<Rightarrow> response result \<times> world" where
  "project_destroy e rq pk w =
     (case project_get w rq ''destroy'' pk of
        Inl x \<Rightarrow> (Raise x, w)
      | Inr p \<Rightarrow> (Ok (Response 204 JNull), save_project (p\<lparr>pj_is_active := False, pj_updated_at := e_now e\<rparr>) w))"

end
