(* ===== verification/TenancyFacts.thy ===== *)
theory TenancyFacts
  imports TenancyViews MiddlewareFacts MonitorViewFacts
begin

text \<open>
  What the administrator's operations on tenants achieve: suspension closes the API of a tenant,
  deletion never succeeds on a tenant that signed up, and a deleted project is out of reach of
  requests while its monitors run on.
\<close>

section \<open>Suspension\<close>

lemma find_order_by_desc_Some:
  "find q (order_by_desc k rs) = Some r \<Longrightarrow> r \<in> set rs \<and> q r"
  by (metis find_Some_iff nth_mem set_order_by_desc)

lemma find_key_update:
  assumes "distinct (map k rs)" "r \<in> set rs" "k r' = k r"
  shows "find (\<lambda>x. k x = k r) (update_where (\<lambda>x. k x = k r) (\<lambda>_. r') rs) = Some r'"
  using assms by (induction rs) (auto simp: update_where_def)

lemma find_key_in:
  "distinct (map k rs) \<Longrightarrow> r \<in> set rs \<Longrightarrow> find (\<lambda>x. k x = k r) rs = Some r"
  by (induction rs) auto

lemma suspendE:
  assumes "tenant_suspend e rq pk w = (Ok r, w')" "distinct (map tn_id (w_tenants w))"
  obtains t where "find (\<lambda>x. tn_id x = pk) (w_tenants w') = Some t" "tn_status t = TenantSuspended"
    "map tn_id (w_tenants w') = map tn_id (w_tenants w)"
proof -
  obtain t where g: "tenant_get w rq pk = Ok t"
    using assms(1) by (auto simp: tenant_suspend_def set_tenant_status_def split: sum.splits)
  then have t: "t \<in> set (w_tenants w)" "tn_id t = pk"
    by (auto simp: tenant_get_def tenant_queryset_def bind_result_def get_or_404_def
        dest!: find_order_by_desc_Some split: sum.splits option.splits)
  show ?thesis
  proof (cases "tn_status t = TenantSuspended")
    case True
    with assms(1) g have "w' = w" by (simp add: tenant_suspend_def set_tenant_status_def)
    with True t find_key_in [OF assms(2) t(1)] show ?thesis by (intro that [of t]) simp_all
  next
    case False
    let ?t = "t\<lparr>tn_status := TenantSuspended, tn_updated_at := e_now e\<rparr>"
    from False assms(1) g have "w' = save_tenant ?t w"
      by (simp add: tenant_suspend_def set_tenant_status_def)
    with t find_key_update [OF assms(2) t(1), of ?t] show ?thesis
      by (intro that [of ?t]) (auto simp: save_tenant_def update_where_def)
  qed
qed


section \<open>Deletion\<close>

lemma admin_destroy_refused:
  assumes "has_audit_log pk w"
  shows "\<exists>x. admin_destroy rq pk w = (Raise x, w)"
proof (cases "admin_tenant_get w rq pk")
  case (Inr t)
  then have "tn_id t = pk"
    by (auto simp: admin_tenant_get_def admin_tenant_queryset_def bind_result_def get_or_404_def
        dest!: find_order_by_desc_Some split: sum.splits option.splits)
  with Inr assms show ?thesis by (simp add: admin_destroy_def delete_tenant_def)
qed (simp add: admin_destroy_def)

lemma add_membership_logs:
  "\<exists>l. w_audit_logs (add_membership e m w) = w_audit_logs w @ [l] \<and> al_tenant l = um_tenant m"
proof -
  let ?w = "w\<lparr>w_user_memberships := w_user_memberships w @ [m], w_next := Suc (w_next w)\<rparr>"
  let ?old = "JNull" and ?new = "JObj [(''user_email'', JStr (user_email_of ?w (um_user m))),
      (''is_owner'', JBool (um_is_owner m))]"
  obtain l where "audit_record e (um_tenant m) ''user.invited'' None ''UserMembership'' (Some (um_id m)) ?old ?new None None ?w =
      (l, ?w\<lparr>w_audit_logs := w_audit_logs ?w @ [l], w_next := Suc (w_next ?w)\<rparr>)" "al_tenant l = um_tenant m"
    using audit_record_shape [of e "um_tenant m" "''user.invited''" None "''UserMembership''" "Some (um_id m)" ?old ?new None None ?w]
    by blast
  then show ?thesis
    by (simp add: add_membership_def on_membership_save_def signal_record_def record_auto_def)
qed

lemma bootstrap_logs: "bootstrap_project e prj tn w = (b, w') \<Longrightarrow> w_audit_logs w' = w_audit_logs w"
  by (auto simp: bootstrap_project_def create_system_roles_def create_system_incident_states_def
      create_system_incident_severities_def create_default_probes_def split: prod.splits)

lemma team_logs: "team_get_or_create e tn prj a b w = (r, w') \<Longrightarrow> w_audit_logs w' = w_audit_logs w"
  by (auto simp: team_get_or_create_def split: prod.splits)

lemma join_team_logs: "w_audit_logs (snd (join_team e tid uid rid by_whom w)) = w_audit_logs w"
  by (simp add: join_team_def split: prod.splits)

text \<open>The founder's membership is the first entry of the tenant's log.\<close>

lemma create_account_logged:
  assumes "create_account e email pw tn fn ln w = (Ok (u, t, p), w')"
  shows "has_audit_log (tn_id t) w'"
proof -
  obtain r w1 where r: "create_user e email pw fn ln False False w = (r, w1)" by force
  with assms have u: "create_user e email pw fn ln False False w = (Ok u, w1)"
    by (cases r) (auto simp: create_account_def Let_def split: prod.splits)
  define w3 where "w3 = w1\<lparr>w_tenants := w_tenants w1 @ [t], w_projects := w_projects w1 @ [p],
      w_next := Suc (Suc (w_next w1))\<rparr>"
  define m where "m = new_membership e (w_next w3) (usr_id u) (tn_id t) True None [] (Some (usr_created_at u))"
  obtain b w5 where b: "bootstrap_project e (pj_id p) (tn_id t) (add_membership e m w3) = (b, w5)" by force
  have rest: "w' = (case map_of (bs_roles b) ''admin'' of None \<Rightarrow> w5
      | Some r \<Rightarrow> (let (team, w6) = team_get_or_create e (tn_id t) (pj_id p)
                     ''Administrators'' ''Project owners and administrators'' w5
                  in snd (join_team e (tm_id team) (usr_id u) (ro_id r) (Some (usr_id u)) w6)))"
    using assms u b by (auto simp: create_account_def Let_def w3_def m_def split: prod.splits option.splits)
  have "w_audit_logs w' = w_audit_logs w5"
    unfolding rest by (auto simp: join_team_logs dest: team_logs split: option.splits prod.splits)
  also have "\<dots> = w_audit_logs (add_membership e m w3)" by (rule bootstrap_logs [OF b])
  finally obtain l where "w_audit_logs w' = w_audit_logs w3 @ [l]" "al_tenant l = um_tenant m"
    using add_membership_logs [of e m w3] by auto
  then show ?thesis by (simp add: has_audit_log_def m_def new_membership_def exists_row_def)
qed

text \<open>
  C39. A tenant that signed up can never be deleted. From the sign-up on, in every later world that
  has kept the audit log - and the log is append-only - whoever asks for the hard deletion gets an
  error and nothing is deleted: the log refers to the tenant and its rows cannot go.
\<close>

theorem signed_up_tenant_undeletable:
  assumes "create_account e email pw tn fn ln w = (Ok (u, t, p), w1)"
    and "set (w_audit_logs w1) \<subseteq> set (w_audit_logs w2)"
  shows "\<exists>x. admin_destroy rq (tn_id t) w2 = (Raise x, w2)"
proof (rule admin_destroy_refused)
  show "has_audit_log (tn_id t) w2"
    using create_account_logged [OF assms(1)] assms(2) by (auto simp: has_audit_log_def exists_row_def)
qed

section \<open>Deleted projects\<close>

lemma resolve_project_in:
  assumes "resolve_project w rq t = Some p"
  shows "p \<in> set (w_projects w)" "pj_is_active p"
proof -
  have "p \<in> set (w_projects w) \<and> pj_is_active p"
  proof (cases "req_x_project_id rq")
    case None
    with assms have "p \<in> set (order_by pj_created_at
        (filter (\<lambda>p. pj_tenant p = tn_id t \<and> pj_is_active p) (w_projects w)))"
      by (intro first_row_in) (simp add: resolve_project_def)
    then show ?thesis by simp
  next
    case (Some i)
    with assms show ?thesis by (auto simp: resolve_project_def find_Some_iff)
  qed
  then show "p \<in> set (w_projects w)" "pj_is_active p" by simp_all
qed

text \<open>
  Deleting a project hides it and stops nothing. After the deletion no request resolves to the
  project - not by its header, not as the default project of the tenant - but its monitors stay in
  the queue of the runner exactly as they were, and so do all its rows.
\<close>

theorem deleted_project_runs_on:
  assumes "project_destroy e rq pk w = (Ok r, w')" "distinct (map pj_id (w_projects w))"
  shows "(\<forall>rq' t p. resolve_project w' rq' t = Some p \<longrightarrow> pj_id p \<noteq> pk) \<and>
    due_monitors now i w' = due_monitors now i w \<and> map pj_id (w_projects w') = map pj_id (w_projects w)"
proof -
  obtain p where g: "project_get w rq ''destroy'' pk = Ok p"
    using assms(1) by (auto simp: project_destroy_def split: sum.splits)
  then have id: "pj_id p = pk"
    by (auto simp: project_get_def get_object_def bind_result_def get_or_404_def find_Some_iff
        split: sum.splits option.splits)
  let ?p = "p\<lparr>pj_is_active := False, pj_updated_at := e_now e\<rparr>"
  have w': "w' = save_project ?p w" using assms(1) g by (simp add: project_destroy_def)
  have rows: "w_projects w' = map (\<lambda>q. if pj_id q = pk then ?p else q) (w_projects w)"
    by (simp add: w' save_project_def update_where_def id)
  have "pj_id q \<noteq> pk" if "resolve_project w' rq' t = Some q" for rq' t q
  proof -
    from resolve_project_in [OF that]
    show ?thesis unfolding rows by auto
  qed
  moreover have "due_monitors now i w' = due_monitors now i w"
    by (simp add: w' save_project_def due_monitors_def)
  moreover have "map pj_id (w_projects w') = map pj_id (w_projects w)"
    unfolding rows by (simp add: id)
  ultimately show ?thesis by blast
qed

section \<open>Witnesses\<close>

text \<open>The superuser of the monitoring samples, in the shop's world.\<close>

lemma root_tenant [simp]: "req_tenant root_request = Some sample_tenant"
  by (simp add: root_request_def sample_request_def)

lemma root_gets_tenant: "tenant_get shop_world root_request 1 = Ok sample_tenant"
  by (simp add: tenant_get_def require_super_admin_def is_super_admin_def root_request_def sample_user_def
      tenant_queryset_def sample_tenant_def shop_world_def empty_world_def order_by_simps bind_result_def)


theorem signed_up_tenant_undeletable_witness:
  "\<exists>u t p w x. create_account sample_env ''ann@x.org'' ''secret-99'' ''Acme'' [] [] empty_world = (Ok (u, t, p), w) \<and>
     admin_destroy root_request (tn_id t) w = (Raise x, w)"
proof -
  obtain u w1 where "create_user sample_env ''ann@x.org'' ''secret-99'' [] [] False False empty_world = (Ok u, w1)"
    by (simp add: create_user_def Let_def empty_world_def)
  from create_account_ok [OF this] obtain t p w
    where c: "create_account sample_env ''ann@x.org'' ''secret-99'' ''Acme'' [] [] empty_world = (Ok (u, t, p), w)"
    by blast
  from signed_up_tenant_undeletable [OF c order_refl, of root_request] c show ?thesis by blast
qed

theorem deleted_project_runs_on_witness:
  "\<exists>r w'. project_destroy sample_env root_request 2
       (monitored sample_monitor\<lparr>w_projects := [sample_project]\<rparr>) = (Ok r, w') \<and>
     map mo_id (due_monitors 5 None w') = [90] \<and> resolve_project w' root_request sample_tenant = None"
proof -
  let ?w = "monitored sample_monitor\<lparr>w_projects := [sample_project]\<rparr>"
  have "project_get ?w root_request ''destroy'' 2 = Ok sample_project"
    by (simp add: project_get_def root_permission get_object_def bind_result_def project_queryset_def
        order_by_simps sample_project_def sample_tenant_def)
  then obtain r w' where run: "project_destroy sample_env root_request 2 ?w = (Ok r, w')"
    by (simp add: project_destroy_def)
  have "distinct (map pj_id (w_projects ?w))" by simp
  note facts = deleted_project_runs_on [OF run this, of 5 None]
  have "map mo_id (due_monitors 5 None w') = [90]"
    using facts by (simp add: due_monitors_def order_by_simps batch_size_def)
  moreover have "resolve_project w' root_request sample_tenant = None"
  proof (cases "resolve_project w' root_request sample_tenant")
    case (Some p)
    with facts have "pj_id p \<noteq> 2" by blast
    moreover have "pj_id p \<in> set (map pj_id (w_projects w'))"
      using resolve_project_in(1) [OF Some] by simp
    ultimately show ?thesis using facts by (simp add: sample_project_def)
  qed
  ultimately show ?thesis using run by (intro exI conjI)
qed

end
