(* ===== verification/WebhookViews.thy ===== *)
theory WebhookViews
  imports Webhooks ViewBase AccountsViews
begin

text \<open>
  \<open>apps/webhooks/views.py\<close> and \<open>serializers.py\<close>, and what the command
  \<open>process_webhook_deliveries\<close> runs: the subscriptions of a project, the history of their
  deliveries and the manual retry.
\<close>

definition webhook_permission_map :: "(string \<times> string) list" where
  "webhook_permission_map =
     [(''list'', ''webhook:read''), (''retrieve'', ''webhook:read''), (''create'', ''webhook:create''),
      (''update'', ''webhook:update''), (''partial_update'', ''webhook:update''),
      (''destroy'', ''webhook:delete''), (''deliveries'', ''webhook:read''), (''retry'', ''webhook:update'')]"

definition webhook_queryset :: "world \<Rightarrow> request \<Rightarrow> string \<Rightarrow> uuid option \<Rightarrow> webhook list" where
  "webhook_queryset w rq active team_id =
     (case req_project rq of
        None \<Rightarrow> []
      | Some p \<Rightarrow>
          order_by_desc wh_created_at (scope_queryset_by_team w wh_team
            (filter (\<lambda>h. wh_project h = pj_id p \<and> (active = [] \<or> wh_is_active h = (lower active = ''true'')))
               (w_webhooks w)) rq team_id))"

definition webhook_get :: "world \<Rightarrow> request \<Rightarrow> string \<Rightarrow> uuid \<Rightarrow> webhook result" where
  "webhook_get w rq action pk =
     bind_result (require_permission w webhook_permission_map action rq None) (\<lambda>_.
       get_object w webhook_permission_map action rq wh_id (webhook_queryset w rq [] None) pk)"

text \<open>The payload; an absent secret is empty.\<close>

record webhook_input =
  wi_name :: string
  wi_url :: string
  wi_secret :: string
  wi_payload_format :: payload_format
  wi_event_types :: "string list"
  wi_is_active :: bool
  wi_headers :: "(string \<times> string) list"
  wi_timeout_seconds :: nat
  wi_max_retries :: nat
  wi_team :: "uuid option"
  wi_team_null :: bool

definition validate_webhook_team :: "world \<Rightarrow> request \<Rightarrow> uuid option \<Rightarrow> unit result" where
  "validate_webhook_team w rq team =
     (case team of
        None \<Rightarrow> Ok ()
      | Some t \<Rightarrow>
          (case (team_of w t, req_project rq) of
             (None, _) \<Rightarrow> ValidationError ''team_id''
           | (Some x, Some p) \<Rightarrow> if tm_project x = pj_id p then Ok () else ValidationError ''team_id''
           | (Some _, None) \<Rightarrow> Ok ()))"

text \<open>A secret is drawn when none is given.\<close>

definition webhook_create ::
  "env \<Rightarrow> request \<Rightarrow> webhook_input \<Rightarrow> world \<Rightarrow> webhook result \<times> world" where
  "webhook_create e rq inp w =
     (case bind_result (require_permission w webhook_permission_map ''create'' rq None) (\<lambda>u.
             bind_result (validate_webhook_team w rq (wi_team inp)) (\<lambda>_.
               case req_project rq of
                 None \<Rightarrow> Raise (TypeError ''no attribute tenant'')
               | Some p \<Rightarrow>
                   bind_result (resolve_team_for_create w rq u (wi_team inp) None (wi_team_null inp))
                     (\<lambda>team. Ok (p, team)))) of
        Inl x \<Rightarrow> (Raise x, w)
      | Inr (p, team) \<Rightarrow>
          (let h = \<lparr>wh_id = w_next w, wh_tenant = pj_tenant p, wh_project = pj_id p, wh_team = team,
                    wh_name = wi_name inp, wh_url = wi_url inp,
                    wh_secret = (if wi_secret inp = [] then e_token e (Suc (w_next w)) else wi_secret inp),
                    wh_payload_format = wi_payload_format inp, wh_event_types = wi_event_types inp,
                    wh_is_active = wi_is_active inp, wh_headers = wi_headers inp,
                    wh_timeout_seconds = wi_timeout_seconds inp, wh_max_retries = wi_max_retries inp,
                    wh_created_at = e_now e, wh_updated_at = e_now e\<rparr>
           in (Ok h, w\<lparr>w_webhooks := w_webhooks w @ [h], w_next := w_next w + 2\<rparr>)))"

definition webhook_update ::
  "env \<Rightarrow> request \<Rightarrow> uuid \<Rightarrow> webhook_input \<Rightarrow> world \<Rightarrow> webhook result \<times> world" where
  "webhook_update e rq pk inp w =
     (case bind_result (webhook_get w rq ''update'' pk) (\<lambda>h.
             bind_result (validate_webhook_team w rq (wi_team inp)) (\<lambda>_. Ok h)) of
        Inl x \<Rightarrow> (Raise x, w)
      | Inr h \<Rightarrow>
          (let h1 = h\<lparr>wh_name := wi_name inp, wh_url := wi_url inp,
                      wh_secret := (if wi_secret inp = [] then wh_secret h else wi_secret inp),
                      wh_payload_format := wi_payload_format inp, wh_event_types := wi_event_types inp,
                      wh_is_active := wi_is_active inp, wh_headers := wi_headers inp,
                      wh_timeout_seconds := wi_timeout_seconds inp, wh_max_retries := wi_max_retries inp,
                      wh_team := (if wi_team inp \<noteq> None \<or> wi_team_null inp then wi_team inp else wh_team h),
                      wh_updated_at := e_now e\<rparr>
           in (Ok h1, w\<lparr>w_webhooks := update_where (\<lambda>r. wh_id r = wh_id h) (\<lambda>_. h1) (w_webhooks w)\<rparr>)))"

text \<open>The deliveries go with their webhook; escalation steps keep none.\<close>

definition webhook_destroy :: "request \<Rightarrow> uuid \<Rightarrow> world \<Rightarrow> response result \<times> world" where
  "webhook_destroy rq pk w =
     (case webhook_get w rq ''destroy'' pk of
        Inl x \<Rightarrow> (Raise x, w)
      | Inr h \<Rightarrow>
          (Ok (Response 204 JNull),
           w\<lparr>w_webhooks := delete_where (\<lambda>r. wh_id r = wh_id h) (w_webhooks w),
             w_deliveries := delete_where (\<lambda>d. dl_webhook d = wh_id h) (w_deliveries w),
             w_esc_steps := update_where (\<lambda>s. es_webhook s = Some (wh_id h)) (\<lambda>s. s\<lparr>es_webhook := None\<rparr>) (w_esc_steps w)\<rparr>))"

text \<open>The last hundred deliveries.\<close>

definition webhook_deliveries :: "world \<Rightarrow> request \<Rightarrow> uuid \<Rightarrow> delivery list result" where
  "webhook_deliveries w rq pk =
     bind_result (webhook_get w rq ''deliveries'' pk) (\<lambda>h.
       Ok (take 100 (order_by_desc dl_created_at (filter (\<lambda>d. dl_webhook d = wh_id h) (w_deliveries w)))))"

definition webhook_retry ::
  "env \<Rightarrow> request \<Rightarrow> uuid \<Rightarrow> uuid \<Rightarrow> world \<Rightarrow> response result \<times> world" where
  "webhook_retry e rq pk delivery_id w =
     (case webhook_get w rq ''retry'' pk of
        Inl x \<Rightarrow> (Raise x, w)
      | Inr h \<Rightarrow>
          (case find (\<lambda>d. dl_id d = delivery_id \<and> dl_webhook d = wh_id h) (w_deliveries w) of
             None \<Rightarrow> (Ok (detail_response 404 ''Delivery not found.''), w)
           | Some d \<Rightarrow>
               (if dl_status d \<notin> {Exhausted, Failed}
                then (Ok (detail_response 400 ''Only exhausted or failed deliveries can be retried.''), w)
                else (Ok (detail_response 200 ''Delivery reset to pending.''),
                      w\<lparr>w_deliveries := update_where (\<lambda>r. dl_id r = dl_id d)
                          (\<lambda>r. r\<lparr>dl_status := Pending, dl_next_retry_at := Some (e_now e), dl_attempt_count := 0,
                                 dl_updated_at := e_now e\<rparr>) (w_deliveries w)\<rparr>))))"

end
