(* ===== verification/RowSecurity.thy ===== *)
theory RowSecurity
  imports Middleware
begin

text \<open>
  Row-level security: the policies migration \<open>tenancy/0002_rls_policies\<close> creates, and what a query
  sees under the tenant \<open>TenantMiddleware\<close> has set on the connection. Policies bind a database user
  that neither owns the tables nor is a superuser; the model is of such a user.
\<close>

section \<open>The policies\<close>

definition TENANT_SCOPED_TABLES :: "string list" where
  "TENANT_SCOPED_TABLES =
     [''tenancy_project'',
      ''rbac_role'', ''rbac_team'', ''rbac_team_membership'', ''rbac_api_key'', ''rbac_resource_policy'',
      ''monitoring_probe'', ''monitoring_monitor'', ''monitoring_monitorgroup'', ''monitoring_monitorcheck'',
      ''incidents_incident'', ''incidents_incidentnote'', ''incidents_incidentpostmortem'',
      ''incidents_incidentstate'', ''incidents_incidentseverity'',
      ''maintenance_scheduledmaintenance'',
      ''status_pages_page'', ''status_pages_resource'', ''status_pages_subscriber'', ''status_pages_announcement'',
      ''webhooks_webhook'', ''webhooks_delivery'',
      ''audit_log'', ''audit_retention_policy'']"

text \<open>The schema the migration finds: the tables with their columns.\<close>

type_synonym schema = "(string \<times> string list) list"

text \<open>
  One table. The statements fail when the table or its column \<open>tenant_id\<close> is missing; the
  exception is caught and both statements of the table are rolled back.
\<close>

definition enable_rls :: "schema \<Rightarrow> string list \<Rightarrow> string \<Rightarrow> string list" where
  "enable_rls schema policies table =
     (case map_of schema table of
        None \<Rightarrow> policies
      | Some columns \<Rightarrow> if ''tenant_id'' \<in> set columns then policies @ [table] else policies)"

definition apply_rls :: "schema \<Rightarrow> string list \<Rightarrow> string list" where
  "apply_rls schema policies = foldl (enable_rls schema) policies TENANT_SCOPED_TABLES"

definition revert_rls :: "string list \<Rightarrow> string list" where
  "revert_rls policies = foldl (\<lambda>ps table. removeAll table ps) policies TENANT_SCOPED_TABLES"

text \<open>\<open>current_setting('app.current_tenant', true)\<close>\<close>

definition current_setting :: "world \<Rightarrow> string option" where
  "current_setting w = map_option string_of_nat (w_rls_tenant w)"

text \<open>The condition of the policy \<open>tenant_isolation\<close>.\<close>

definition tenant_isolation :: "string option \<Rightarrow> uuid \<Rightarrow> bool" where
  "tenant_isolation setting tenant_id =
     (case setting of
        None \<Rightarrow> True
      | Some s \<Rightarrow> (s \<noteq> [] \<and> string_of_nat tenant_id = s) \<or> s = [])"

text \<open>The rows of a table that a query of the connection sees.\<close>

definition visible_rows :: "string list \<Rightarrow> world \<Rightarrow> string \<Rightarrow> ('r \<Rightarrow> uuid) \<Rightarrow> 'r list \<Rightarrow> 'r list" where
  "visible_rows policies w table tenant_of_row rows =
     (if table \<in> set policies then filter (\<lambda>r. tenant_isolation (current_setting w) (tenant_of_row r)) rows
      else rows)"

section \<open>The names of the tables\<close>

text \<open>\<open>Meta.db_table\<close> of the models whose name the list has differently.\<close>

definition state_table :: string where
  "state_table = ''incidents_state''"

definition severity_table :: string where
  "severity_table = ''incidents_severity''"

definition note_table :: string where
  "note_table = ''incidents_note''"

definition postmortem_table :: string where
  "postmortem_table = ''incidents_postmortem''"

definition monitor_group_table :: string where
  "monitor_group_table = ''monitoring_monitor_group''"

definition monitor_check_table :: string where
  "monitor_check_table = ''monitoring_monitor_check''"

definition maintenance_table :: string where
  "maintenance_table = ''maintenance_scheduled''"

definition monitor_table :: string where
  "monitor_table = ''monitoring_monitor''"

section \<open>Which tables are protected\<close>

lemma foldl_enable_rls:
  "set (foldl (enable_rls schema) ps ts) =
     set ps \<union> {t \<in> set ts. \<exists>cs. map_of schema t = Some cs \<and> ''tenant_id'' \<in> set cs}"
  by (induction ts arbitrary: ps) (auto simp: enable_rls_def split: option.splits)

lemma apply_rls_iff:
  "t \<in> set (apply_rls schema ps) \<longleftrightarrow>
     t \<in> set ps \<or> t \<in> set TENANT_SCOPED_TABLES \<and> (\<exists>cs. map_of schema t = Some cs \<and> ''tenant_id'' \<in> set cs)"
  by (auto simp: apply_rls_def foldl_enable_rls)

lemma revert_rls_iff: "t \<in> set (revert_rls ps) \<longleftrightarrow> t \<in> set ps \<and> t \<notin> set TENANT_SCOPED_TABLES"
proof -
  have "set (foldl (\<lambda>ps t. removeAll t ps) ps ts) = set ps - set ts" for ts
    by (induction ts arbitrary: ps) auto
  then show ?thesis by (simp add: revert_rls_def)
qed

lemma tenant_isolation_set: "tenant_isolation (Some (string_of_nat t)) i \<longleftrightarrow> i = t"
  using string_of_nat_inj string_of_nat_nonempty by (auto simp: tenant_isolation_def)

lemma tenant_isolation_unset: "tenant_isolation None i"
  by (simp add: tenant_isolation_def)



section \<open>The tenant of the connection\<close>

lemma rls_tables [simp]:
  "w_rls_tenant (set_current_actor a m w) = w_rls_tenant w" "w_rls_tenant (clear_current_actor w) = w_rls_tenant w"
  "w_rls_tenant (snd (count_request e up k w)) = w_rls_tenant w"
  by (simp_all add: set_current_actor_def clear_current_actor_def count_request_def cache_set_def Let_def)

lemma rate_limit_keeps_rls:
  assumes "\<And>rq v. w_rls_tenant (snd (view rq v)) = w_rls_tenant v"
  shows "w_rls_tenant (snd (rate_limit_middleware e up view rq w)) = w_rls_tenant w"
  by (simp add: rate_limit_middleware_def split_def Let_def assms)

lemma project_keeps_rls:
  assumes "\<And>rq v. w_rls_tenant (snd (view rq v)) = w_rls_tenant v"
  shows "w_rls_tenant (snd (project_middleware view rq w)) = w_rls_tenant w"
  by (simp add: project_middleware_def Let_def assms split: option.splits)

lemma tenant_sets_rls:
  assumes "\<And>rq v. w_rls_tenant (snd (view rq v)) = w_rls_tenant v"
    and "\<not> should_skip (req_path rq)" "resolve_tenant w rq = Some t" "tn_status t = TenantActive"
  shows "w_rls_tenant (snd (tenant_middleware view rq w)) = Some (tn_id t)"
  using assms(2-4)
  by (simp add: tenant_middleware_def set_rls_context_def split_def Let_def assms(1) split: option.splits)

text \<open>
  The tenant stays set on the connection. After any request of a tenant, refused or not, a
  request that names none - a public status page, a login, the SCIM API - goes straight to the
  rate limit and the view, with the old tenant: on a protected table its queries see the rows of
  that tenant alone.
\<close>

theorem rls_tenant_outlives_request:
  assumes "\<not> should_skip (req_path rq1)" "resolve_tenant w rq1 = Some t" "tn_status t = TenantActive"
    and "\<And>rq v. w_rls_tenant (snd (view1 rq v)) = w_rls_tenant v"
    and "snd (serve e up view1 rq1 w) = w'" "should_skip (req_path rq2)" "table \<in> set policies"
  shows "serve e up view2 rq2 w' = rate_limit_middleware e up view2 rq2 w' \<and>
    (\<forall>key. visible_rows policies (snd (count_request e up key w')) table f rows =
       filter (\<lambda>r. f r = tn_id t) rows)"
proof -
  have "w_rls_tenant w' = Some (tn_id t)"
    unfolding assms(5) [symmetric] serve_def
    by (rule tenant_sets_rls [OF project_keeps_rls [OF rate_limit_keeps_rls [OF assms(4)]] assms(1-3)])
  with assms(6,7) show ?thesis
    by (simp add: serve_def tenant_middleware_def project_middleware_def visible_rows_def current_setting_def
        tenant_isolation_set)
qed

section \<open>Witnesses\<close>


text \<open>A page of tenant 2 is gone for the visitor who comes after a request of tenant 1.\<close>

theorem rls_tenant_outlives_request_witness:
  "\<exists>w'. visible_rows [''status_pages_page''] (snd (count_request sample_env True ''k'' w'))
     ''status_pages_page'' fst [(2, ''shop'')] = []"
proof -
  let ?w = "empty_world\<lparr>w_tenants := [sample_tenant]\<rparr>"
  let ?rq = "bare_request\<lparr>req_path := ''/api/v1/monitors/'', req_x_tenant_id := Some 1\<rparr>"
  let ?rq2 = "bare_request\<lparr>req_path := ''/status/shop/''\<rparr>"
  have 1: "\<not> should_skip (req_path ?rq)" "resolve_tenant ?w ?rq = Some sample_tenant" "tn_status sample_tenant = TenantActive"
    by (simp_all add: should_skip_def SKIP_PATHS_def SKIP_PREFIXES_def startswith_def resolve_tenant_def
        sample_tenant_def)
  have 2: "should_skip (req_path ?rq2)"
    by (simp add: should_skip_def startswith_def)
  let ?w' = "snd (serve sample_env True (\<lambda>rq w. (Response 200 JNull, w)) ?rq ?w)"
  from rls_tenant_outlives_request [OF 1 _ refl 2, of "\<lambda>rq w. (Response 200 JNull, w)" "''status_pages_page''"
      "[''status_pages_page'']" sample_env True "\<lambda>rq w. (Response 200 JNull, w)" fst "[(2, ''shop'')]"]
  have "visible_rows [''status_pages_page''] (snd (count_request sample_env True ''k'' ?w'))
      ''status_pages_page'' fst [(2, ''shop'')] = filter (\<lambda>r. fst r = tn_id sample_tenant) [(2, ''shop'')]"
    by (simp only: snd_conv list.set insertI1 simp_thms)
  then show ?thesis by (intro exI) (simp add: sample_tenant_def)
qed

end
