(* ===== verification/Evolution.thy ===== *)
theory Evolution
  imports AuditFacts WebhookFacts
begin

text \<open>
  How a world may change as far as its audit log, its queue of deliveries and its superusers go:
  the log grows by \<open>AuditService.record\<close>, the queue by \<open>WebhookService.emit\<close>; deliveries are
  attempted, deleted, or put back by hand; nobody becomes a superuser. The relation \<open>evolves\<close> is
  the abstract specification that every operation of the server is shown to refine, and its
  invariants hold in every state the server can reach.
\<close>

section \<open>The relation\<close>

text \<open>\<open>retry\<close> of a delivery (\<open>apps/webhooks/views.py\<close>).\<close>

definition requeued :: "datetime \<Rightarrow> delivery \<Rightarrow> delivery" where
  "requeued now r = r\<lparr>dl_status := Pending, dl_next_retry_at := Some now, dl_attempt_count := 0,
                     dl_updated_at := now\<rparr>"

definition superusers :: "world \<Rightarrow> uuid set" where
  "superusers w = usr_id ` {u \<in> set (w_users w). usr_is_superuser u}"

definition same_records :: "world \<Rightarrow> world \<Rightarrow> bool" where
  "same_records w w' \<longleftrightarrow> w_audit_logs w' = w_audit_logs w \<and> w_deliveries w' = w_deliveries w \<and>
     w_next w \<le> w_next w' \<and> superusers w' \<subseteq> superusers w"

inductive evolves :: "(string \<Rightarrow> string) \<Rightarrow> world \<Rightarrow> world \<Rightarrow> bool" for sha w where
  evolves_start: "evolves sha w w"
| evolves_quiet: "evolves sha w v \<Longrightarrow> same_records v v' \<Longrightarrow> evolves sha w v'"
| evolves_record: "evolves sha w v \<Longrightarrow> e_sha256 e = sha \<Longrightarrow>
    evolves sha w (snd (audit_record e t a ac rt rid old new rq pj v))"
| evolves_emit: "evolves sha w v \<Longrightarrow> evolves sha w (webhook_emit e t p ev d v)"
| evolves_attempt: "evolves sha w v \<Longrightarrow> d \<in> set (w_deliveries v) \<Longrightarrow> delivery_open d \<Longrightarrow>
    evolves sha w (save_delivery (snd (deliver_one e h d)) v)"
| evolves_requeue: "evolves sha w v \<Longrightarrow> d \<in> set (w_deliveries v) \<Longrightarrow> dl_status d \<in> {Exhausted, Failed} \<Longrightarrow>
    evolves sha w (v\<lparr>w_deliveries := update_where (\<lambda>r. dl_id r = dl_id d) (requeued now) (w_deliveries v)\<rparr>)"
| evolves_purge: "evolves sha w v \<Longrightarrow> evolves sha w (v\<lparr>w_deliveries := delete_where P (w_deliveries v)\<rparr>)"

lemma evolves_trans:
  assumes "evolves sha w1 w2" "evolves sha w w1"
  shows "evolves sha w w2"
  using assms by (induction rule: evolves.induct) (blast intro: evolves.intros)+

section \<open>Invariants\<close>

text \<open>The log only grows, and the chain of every tenant stays valid.\<close>

lemma verify_loop_hash: "e_sha256 e = e_sha256 e' \<Longrightarrow> verify_loop e p n b ls = verify_loop e' p n b ls"
  by (induction ls arbitrary: p n b) (simp_all add: recompute_hash_def Let_def)

lemma verify_chain_hash: "e_sha256 e = e_sha256 e' \<Longrightarrow> verify_chain e t s w = verify_chain e' t s w"
  by (simp add: verify_chain_def verify_loop_hash [of e e'])

definition trail_ok :: "env \<Rightarrow> world \<Rightarrow> bool" where
  "trail_ok e w \<longleftrightarrow> audit_wf w \<and> (\<forall>t. vf_valid (verify_chain e t None w))"

lemma trail_ok_record:
  assumes "trail_ok e' v" "e_sha256 e = e_sha256 e'"
  shows "trail_ok e' (snd (audit_record e t a ac rt rid old new rq pj v))"
proof -
  obtain l v' where r: "audit_record e t a ac rt rid old new rq pj v = (l, v')" by force
  from audit_record_wf [OF _ r] audit_record_chain_step [OF _ _ r] assms show ?thesis
    by (simp add: trail_ok_def r verify_chain_hash [of e' e])
qed

lemma emit_same_log:
  "w_audit_logs (webhook_emit e t p ev d v) = w_audit_logs v" "w_next v \<le> w_next (webhook_emit e t p ev d v)"
proof -
  obtain ds n where "webhook_emit e t p ev d v = noted [] ds n v"
    using webhook_sink.emit_noted by blast
  then show "w_audit_logs (webhook_emit e t p ev d v) = w_audit_logs v"
    "w_next v \<le> w_next (webhook_emit e t p ev d v)" by simp_all
qed

lemma trail_ok_cong: "w_audit_logs v' = w_audit_logs v \<Longrightarrow> w_next v \<le> w_next v' \<Longrightarrow> trail_ok e v \<Longrightarrow> trail_ok e v'"
  by (auto simp: trail_ok_def audit_wf_def verify_chain_def tenant_logs_def dest: less_le_trans)

lemma evolves_trail_ok:
  assumes "evolves sha w w'" "e_sha256 e = sha" "trail_ok e w"
  shows "trail_ok e w'"
  using assms(1)
proof (induction rule: evolves.induct)
  case evolves_start
  show ?case by (rule assms(3))
next
  case (evolves_quiet v v')
  show ?case by (rule trail_ok_cong [OF _ _ evolves_quiet.IH]) (use evolves_quiet.hyps in \<open>simp_all add: same_records_def\<close>)
next
  case (evolves_record v e' t a ac rt rid old new rq pj)
  show ?case by (rule trail_ok_record [OF evolves_record.IH]) (simp add: evolves_record.hyps assms(2))
next
  case (evolves_emit v e' t p ev d)
  show ?case by (rule trail_ok_cong [OF emit_same_log evolves_emit.IH])
next
  case (evolves_attempt v d e' h)
  show ?case by (rule trail_ok_cong [OF _ _ evolves_attempt.IH]) (simp_all add: save_delivery_def)
next
  case (evolves_requeue v d now)
  show ?case by (rule trail_ok_cong [OF _ _ evolves_requeue.IH]) simp_all
next
  case (evolves_purge v P)
  show ?case by (rule trail_ok_cong [OF _ _ evolves_purge.IH]) simp_all
qed

lemma evolves_appends: "evolves sha w w' \<Longrightarrow> \<exists>ls. w_audit_logs w' = w_audit_logs w @ ls"
proof (induction rule: evolves.induct)
  case (evolves_record v e t a ac rt rid old new rq pj)
  with audit_record_shape [of e t a ac rt rid old new rq pj v] show ?case by auto
qed (auto simp: same_records_def emit_same_log save_delivery_def)

text \<open>
  The queue: ids are distinct and taken from the counter, a delivery that waits has a time to be
  sent at, a failed one was attempted, and \<open>delivered_at\<close> is set on delivered ones alone.
\<close>

definition delivery_ok :: "delivery \<Rightarrow> bool" where
  "delivery_ok d \<longleftrightarrow>
     (dl_status d = Pending \<longrightarrow> dl_attempt_count d = 0 \<and> dl_next_retry_at d \<noteq> None) \<and>
     (dl_status d = Failed \<longrightarrow> 0 < dl_attempt_count d \<and> dl_next_retry_at d \<noteq> None) \<and>
     (dl_status d = Delivered \<longrightarrow> 0 < dl_attempt_count d \<and> dl_next_retry_at d = None) \<and>
     (dl_delivered_at d \<noteq> None \<longleftrightarrow> dl_status d = Delivered)"

definition queue_ok :: "world \<Rightarrow> bool" where
  "queue_ok w \<longleftrightarrow> distinct (map dl_id (w_deliveries w)) \<and>
     (\<forall>d \<in> set (w_deliveries w). dl_id d < w_next w \<and> delivery_ok d)"

lemma queue_ok_cong:
  "w_deliveries v' = w_deliveries v \<Longrightarrow> w_next v \<le> w_next v' \<Longrightarrow> queue_ok v \<Longrightarrow> queue_ok v'"
  by (auto simp: queue_ok_def dest: less_le_trans)

text \<open>Rewriting rows that have an id, with the id kept.\<close>

lemma queue_ok_update:
  assumes "queue_ok v" "\<And>r. r \<in> set (w_deliveries v) \<Longrightarrow> dl_id r = i \<Longrightarrow> delivery_ok (f r) \<and> dl_id (f r) = i"
  shows "queue_ok (v\<lparr>w_deliveries := update_where (\<lambda>r. dl_id r = i) f (w_deliveries v)\<rparr>)"
proof -
  have "map dl_id (update_where (\<lambda>r. dl_id r = i) f (w_deliveries v)) = map dl_id (w_deliveries v)"
    using assms(2) by (auto simp: update_where_def)
  moreover have "dl_id x < w_next v \<and> delivery_ok x" if "x \<in> set (update_where (\<lambda>r. dl_id r = i) f (w_deliveries v))" for x
    using that assms by (auto simp: queue_ok_def update_where_def split: if_splits)
  ultimately show ?thesis using assms(1) by (simp add: queue_ok_def)
qed

lemma schedule_retry_delivered_at: "dl_delivered_at (schedule_retry e m msg d) = dl_delivered_at d"
  by (simp add: schedule_retry_def Let_def)

lemma deliver_one_delivered_at:
  "dl_delivered_at (snd (deliver_one e h d)) =
     (if wh_is_active h \<and> http_success (e_http e (delivery_request e h d)) then Some (e_now e) else dl_delivered_at d)"
  by (simp add: deliver_one_def http_success_def Let_def schedule_retry_delivered_at split: http_outcome.splits)

lemma deliver_one_ok: "delivery_ok d \<Longrightarrow> delivery_open d \<Longrightarrow> delivery_ok (snd (deliver_one e h d))"
  using deliver_one_success [of h e d] deliver_one_failure [of h e d] deliver_one_delivered_at [of e h d]
  by (cases "wh_is_active h"; cases "http_success (e_http e (delivery_request e h d))")
    (auto simp: deliver_one_inactive delivery_ok_def delivery_open_def)

lemma same_row: "queue_ok v \<Longrightarrow> r \<in> set (w_deliveries v) \<Longrightarrow> d \<in> set (w_deliveries v) \<Longrightarrow> dl_id r = dl_id d \<Longrightarrow> r = d"
  by (auto simp: queue_ok_def distinct_map inj_on_def)

lemma queue_deliveries_ids:
  "queue_deliveries e t p ev i d n hs = Ok ds \<Longrightarrow> map dl_id ds = [n..<n + length ds]"
proof (induction hs arbitrary: n ds)
  case (Cons h hs)
  then show ?case by (auto simp: bind_result_def upt_rec [of n] split: sum.splits)
qed simp

lemma queue_deliveries_ok: "queue_deliveries e t p ev i d n hs = Ok ds \<Longrightarrow> x \<in> set ds \<Longrightarrow> delivery_ok x"
  by (induction hs arbitrary: n ds) (auto simp: bind_result_def delivery_ok_def split: sum.splits)

lemma emit_queue_ok: "queue_ok v \<Longrightarrow> queue_ok (webhook_emit e t p ev d v)"
proof (cases "webhook_emit e t p ev d v = v")
  case False
  assume ok: "queue_ok v"
  from False obtain ds where q: "queue_deliveries e t p ev (''evt_'' @ e_token e (w_next v)) d (Suc (w_next v))
        (subscribed_webhooks v t p ev) = Ok ds"
    and w: "webhook_emit e t p ev d v = v\<lparr>w_deliveries := w_deliveries v @ ds, w_next := Suc (w_next v) + length ds\<rparr>"
    by (auto simp: webhook_emit_def Let_def split: sum.splits if_splits)
  have ids: "dl_id ` set ds = {Suc (w_next v)..<Suc (w_next v) + length ds}" "distinct (map dl_id ds)"
    using arg_cong [OF queue_deliveries_ids [OF q], of set] arg_cong [OF queue_deliveries_ids [OF q], of distinct]
    by (simp_all del: upt_Suc)
  moreover have "dl_id x < w_next v" if "x \<in> set (w_deliveries v)" for x
    using ok that by (simp add: queue_ok_def)
  ultimately show ?thesis
    using ok queue_deliveries_ok [OF q] unfolding w
    by (auto simp: queue_ok_def) (force dest: less_imp_le)+
qed simp

lemma evolves_queue_ok:
  assumes "evolves sha w w'" "queue_ok w"
  shows "queue_ok w'"
  using assms(1)
proof (induction rule: evolves.induct)
  case evolves_start
  show ?case by (rule assms(2))
next
  case (evolves_quiet v v')
  show ?case by (rule queue_ok_cong [OF _ _ evolves_quiet.IH]) (use evolves_quiet.hyps in \<open>simp_all add: same_records_def\<close>)
next
  case (evolves_record v e t a ac rt rid old new rq pj)
  show ?case using audit_record_shape [of e t a ac rt rid old new rq pj v]
    by (intro queue_ok_cong [OF _ _ evolves_record.IH]) auto
next
  case (evolves_emit v e t p ev d)
  show ?case by (rule emit_queue_ok [OF evolves_emit.IH])
next
  case (evolves_attempt v d e h)
  have "delivery_ok d" using evolves_attempt.IH evolves_attempt.hyps by (simp add: queue_ok_def)
  then have "delivery_ok (snd (deliver_one e h d))" using evolves_attempt.hyps by (intro deliver_one_ok)
  then show ?case unfolding save_delivery_def deliver_one_id
    by (intro queue_ok_update [OF evolves_attempt.IH]) simp
next
  case (evolves_requeue v d now)
  have "delivery_ok d" using evolves_requeue.IH evolves_requeue.hyps by (simp add: queue_ok_def)
  with evolves_requeue.hyps have "delivery_ok (requeued now d)" by (auto simp: requeued_def delivery_ok_def)
  then show ?case using same_row [OF evolves_requeue.IH _ evolves_requeue.hyps(2)]
    by (intro queue_ok_update [OF evolves_requeue.IH]) (auto simp: requeued_def)
next
  case (evolves_purge v P)
  then show ?case by (auto simp: queue_ok_def delete_where_def intro: distinct_map_filter)
qed

text \<open>The superusers.\<close>

lemma emit_users: "w_users (webhook_emit e t p ev d v) = w_users v"
proof -
  obtain ds n where "webhook_emit e t p ev d v = noted [] ds n v"
    using webhook_sink.emit_noted by blast
  then show ?thesis by simp
qed

lemma evolves_superusers: "evolves sha w w' \<Longrightarrow> superusers w' \<subseteq> superusers w"
proof (induction rule: evolves.induct)
  case (evolves_record v e t a ac rt rid old new rq pj)
  with audit_record_shape [of e t a ac rt rid old new rq pj v] show ?case
    by (auto simp: superusers_def)
next
  case (evolves_quiet v v')
  then show ?case unfolding same_records_def by blast
next
  case (evolves_emit v e t p ev d)
  then show ?case by (simp add: superusers_def emit_users)
next
  case (evolves_attempt v d e h)
  then show ?case by (simp add: superusers_def save_delivery_def)
qed (simp_all add: superusers_def)

section \<open>Composing steps\<close>

text \<open>
  Rules in continuation form, one for each construct the operations are written with; a lemma
  for an operation unfolds it and follows its structure.
\<close>

named_theorems evolve \<open>operations and constructs that evolve the world\<close>

lemmas [evolve] = evolves_start evolves_emit

lemma evolves_tables [evolve]:
  assumes "evolves sha w v"
  shows
    "evolves sha w (w_tenants_update f0 v)"
    "evolves sha w (w_projects_update f1 v)"
    "evolves sha w (w_user_memberships_update f2 v)"
    "evolves sha w (w_otp_challenges_update f3 v)"
    "evolves sha w (w_mfa_sessions_update f4 v)"
    "evolves sha w (w_roles_update f5 v)"
    "evolves sha w (w_teams_update f6 v)"
    "evolves sha w (w_team_memberships_update f7 v)"
    "evolves sha w (w_resource_policies_update f8 v)"
    "evolves sha w (w_api_keys_update f9 v)"
    "evolves sha w (w_probes_update f10 v)"
    "evolves sha w (w_monitors_update f11 v)"
    "evolves sha w (w_monitor_groups_update f12 v)"
    "evolves sha w (w_checks_update f13 v)"
    "evolves sha w (w_states_update f14 v)"
    "evolves sha w (w_severities_update f15 v)"
    "evolves sha w (w_incidents_update f16 v)"
    "evolves sha w (w_notes_update f17 v)"
    "evolves sha w (w_postmortems_update f18 v)"
    "evolves sha w (w_esc_policies_update f19 v)"
    "evolves sha w (w_esc_steps_update f20 v)"
    "evolves sha w (w_esc_states_update f21 v)"
    "evolves sha w (w_rules_update f22 v)"
    "evolves sha w (w_webhooks_update f23 v)"
    "evolves sha w (w_maintenances_update f24 v)"
    "evolves sha w (w_status_pages_update f25 v)"
    "evolves sha w (w_page_resources_update f26 v)"
    "evolves sha w (w_subscribers_update f27 v)"
    "evolves sha w (w_announcements_update f28 v)"
    "evolves sha w (w_retention_update f29 v)"
    "evolves sha w (w_sso_configs_update f30 v)"
    "evolves sha w (w_scim_logs_update f31 v)"
    "evolves sha w (w_actor_update f32 v)"
    "evolves sha w (w_request_update f33 v)"
    "evolves sha w (w_cache_update f34 v)"
    "evolves sha w (w_outbox_update f35 v)"
    "evolves sha w (w_rls_tenant_update f36 v)"
  by (rule evolves_quiet [OF assms], simp add: same_records_def superusers_def)+

lemma evolves_next [evolve]:
  "evolves sha w v \<Longrightarrow> w_next v \<le> f (w_next v) \<Longrightarrow> evolves sha w (w_next_update f v)"
  by (erule evolves_quiet) (simp add: same_records_def superusers_def)

lemma evolves_new_user [evolve]:
  "evolves sha w v \<Longrightarrow> us = w_users v \<Longrightarrow> \<not> usr_is_superuser u \<Longrightarrow> evolves sha w (v\<lparr>w_users := us @ [u]\<rparr>)"
  by (erule evolves_quiet) (auto simp: same_records_def superusers_def)

lemma evolves_user [evolve]:
  assumes "evolves sha w v" "us = w_users v"
    and "\<And>r. usr_id (f r) = usr_id r" "\<And>r. usr_is_superuser (f r) \<Longrightarrow> usr_is_superuser r"
  shows "evolves sha w (v\<lparr>w_users := update_where p f us\<rparr>)"
  using assms(1)
proof (rule evolves_quiet)
  have "superusers (v\<lparr>w_users := update_where p f us\<rparr>) \<subseteq> superusers v"
    using assms(2-4) by (force simp: superusers_def update_where_def)
  then show "same_records v (v\<lparr>w_users := update_where p f us\<rparr>)"
    by (simp add: same_records_def)
qed

text \<open>A row replaced by one made from it.\<close>

lemma evolves_user_row:
  assumes "evolves sha w v" "u \<in> set (w_users v)" "usr_id u' = usr_id u"
    and "usr_is_superuser u' = usr_is_superuser u"
  shows "evolves sha w (v\<lparr>w_users := update_where (\<lambda>r. usr_id r = usr_id u) (\<lambda>_. u') (w_users v)\<rparr>)"
  using assms(1)
proof (rule evolves_quiet)
  have "superusers (v\<lparr>w_users := update_where (\<lambda>r. usr_id r = usr_id u) (\<lambda>_. u') (w_users v)\<rparr>) \<subseteq> superusers v"
    using assms(2-4) by (force simp: superusers_def update_where_def)
  then show "same_records v (v\<lparr>w_users := update_where (\<lambda>r. usr_id r = usr_id u) (\<lambda>_. u') (w_users v)\<rparr>)"
    by (simp add: same_records_def)
qed

lemma evolves_signal [evolve]: "evolves (e_sha256 e) w v \<Longrightarrow> evolves (e_sha256 e) w (signal_record e t a rt rid old new pj v)"
  unfolding signal_record_def record_auto_def by (erule evolves_record) simp

lemma evolves_if [evolve]:
  "evolves sha w v \<Longrightarrow> evolves sha w v' \<Longrightarrow> evolves sha w (if c then v else v')"
  "evolves sha w (snd p) \<Longrightarrow> evolves sha w (snd p') \<Longrightarrow> evolves sha w (snd (if c then p else p'))"
  "evolves sha w (snd (snd q)) \<Longrightarrow> evolves sha w (snd (snd q')) \<Longrightarrow> evolves sha w (snd (snd (if c then q else q')))"
  "evolves sha w (snd (snd (snd r))) \<Longrightarrow> evolves sha w (snd (snd (snd r'))) \<Longrightarrow>
     evolves sha w (snd (snd (snd (if c then r else r'))))"
  by simp_all

lemma evolves_option [evolve]:
  "evolves sha w v \<Longrightarrow> (\<And>x. evolves sha w (f x)) \<Longrightarrow> evolves sha w (case_option v f o1)"
  "evolves sha w (snd p) \<Longrightarrow> (\<And>x. evolves sha w (snd (g x))) \<Longrightarrow> evolves sha w (snd (case_option p g o1))"
  "evolves sha w (snd (snd q)) \<Longrightarrow> (\<And>x. evolves sha w (snd (snd (h x)))) \<Longrightarrow>
     evolves sha w (snd (snd (case_option q h o1)))"
  by (simp_all split: option.split)

lemma evolves_sum [evolve]:
  "(\<And>x. evolves sha w (f x)) \<Longrightarrow> (\<And>y. evolves sha w (f' y)) \<Longrightarrow> evolves sha w (case_sum f f' s)"
  "(\<And>x. evolves sha w (snd (g x))) \<Longrightarrow> (\<And>y. evolves sha w (snd (g' y))) \<Longrightarrow> evolves sha w (snd (case_sum g g' s))"
  "(\<And>x. evolves sha w (snd (snd (h x)))) \<Longrightarrow> (\<And>y. evolves sha w (snd (snd (h' y)))) \<Longrightarrow>
     evolves sha w (snd (snd (case_sum h h' s)))"
  "(\<And>x. evolves sha w (snd (snd (snd (k x))))) \<Longrightarrow> (\<And>y. evolves sha w (snd (snd (snd (k' y))))) \<Longrightarrow>
     evolves sha w (snd (snd (snd (case_sum k k' s))))"
  by (simp_all split: sum.split)

lemma evolves_list [evolve]:
  "evolves sha w v \<Longrightarrow> (\<And>x xs. evolves sha w (f x xs)) \<Longrightarrow> evolves sha w (case_list v f l)"
  "evolves sha w (snd p) \<Longrightarrow> (\<And>x xs. evolves sha w (snd (g x xs))) \<Longrightarrow> evolves sha w (snd (case_list p g l))"
  "evolves sha w (snd (snd q)) \<Longrightarrow> (\<And>x xs. evolves sha w (snd (snd (h x xs)))) \<Longrightarrow>
     evolves sha w (snd (snd (case_list q h l)))"
  by (simp_all split: list.split)

lemma evolves_pair [evolve]:
  "evolves sha w v \<Longrightarrow> evolves sha w (snd (a, v))"
  "evolves sha w (snd q) \<Longrightarrow> evolves sha w (snd (snd (a, q)))"
  "evolves sha w (snd (snd q')) \<Longrightarrow> evolves sha w (snd (snd (snd (a, q'))))"
  by simp_all

lemma evolves_purged [evolve]:
  "evolves sha w v \<Longrightarrow> ds = w_deliveries v \<Longrightarrow> evolves sha w (v\<lparr>w_deliveries := delete_where P ds\<rparr>)"
  by (simp add: evolves_purge)

lemma evolves_bool [evolve]:
  "evolves sha w v \<Longrightarrow> evolves sha w v' \<Longrightarrow> evolves sha w (case_bool v v' c)"
  "evolves sha w (snd p) \<Longrightarrow> evolves sha w (snd p') \<Longrightarrow> evolves sha w (snd (case_bool p p' c))"
  "evolves sha w (snd (snd q)) \<Longrightarrow> evolves sha w (snd (snd q')) \<Longrightarrow> evolves sha w (snd (snd (case_bool q q' c)))"
  by (simp_all split: bool.split)

lemma evolves_json_object [evolve]:
  "(\<And>x. evolves sha w (snd (snd (h x)))) \<Longrightarrow> evolves sha w (snd (snd q)) \<Longrightarrow>
     evolves sha w (snd (snd (case j of JObj x \<Rightarrow> h x | _ \<Rightarrow> q)))"
  "(\<And>x. evolves sha w (snd (h' x))) \<Longrightarrow> evolves sha w (snd q') \<Longrightarrow>
     evolves sha w (snd (case j of JObj x \<Rightarrow> h' x | _ \<Rightarrow> q'))"
  by (simp_all split: json.split)

lemma evolves_foldl [evolve]:
  "(\<And>v x. evolves sha w v \<Longrightarrow> evolves sha w (f v x)) \<Longrightarrow> evolves sha w v \<Longrightarrow> evolves sha w (foldl f v xs)"
  by (induction xs arbitrary: v) auto

lemma evolves_cache [evolve]: "evolves sha w v \<Longrightarrow> evolves sha w (cache_set now k c t v)"
  unfolding cache_set_def by (intro evolve)

lemma evolves_data_type [evolve]:
  assumes "evolves sha w (snd a)" "evolves sha w (snd b)" "evolves sha w (snd c)" "evolves sha w (snd d)"
  shows "evolves sha w (snd (case_data_type a b c d t))"
  using assms by (simp split: data_type.split)

lemma evolves_py_error [evolve]:
  assumes "\<And>m. evolves sha w (snd (f1 m))" "\<And>m. evolves sha w (snd (f2 m))" "\<And>m. evolves sha w (snd (f3 m))"
    "\<And>m. evolves sha w (snd (f4 m))" "\<And>m. evolves sha w (snd (f5 m))" "\<And>m. evolves sha w (snd (f6 m))"
    "\<And>c m. evolves sha w (snd (f7 c m))"
  shows "evolves sha w (snd (case_py_error f1 f2 f3 f4 f5 f6 f7 x))"
  using assms by (simp split: py_error.split)

lemma evolves_json_string [evolve]:
  "(\<And>x. evolves sha w (snd (h x))) \<Longrightarrow> evolves sha w (snd q) \<Longrightarrow> evolves sha w (snd (case j of JStr x \<Rightarrow> h x | _ \<Rightarrow> q))"
  by (simp split: json.split)

end
