(* ===== verification/EvolutionServices.thy ===== *)
theory EvolutionServices
  imports Evolution Incidents MaintenanceRun MonitorRunner Retention Accounts StatusPages Scim
begin

text \<open>
  The services refine \<open>evolves\<close>: every operation of the service layer, from the signal handlers to
  the SCIM endpoints, changes the log, the queue and the superusers only in the ways of that
  relation. One lemma per operation, in continuation form.
\<close>

section \<open>Audit signals, roles, accounts\<close>

lemma set_current_actor_evolves [evolve]:
  "evolves sha w v \<Longrightarrow> evolves sha w (set_current_actor a rq v)"
  unfolding set_current_actor_def split_def Let_def by (intro evolve; simp)

lemma clear_current_actor_evolves [evolve]:
  "evolves sha w v \<Longrightarrow> evolves sha w (clear_current_actor v)"
  unfolding clear_current_actor_def split_def Let_def by (intro evolve; simp)

lemma on_monitor_save_evolves [evolve]:
  "evolves (e_sha256 e) w v \<Longrightarrow> evolves (e_sha256 e) w (on_monitor_save e m created v)"
  unfolding on_monitor_save_def split_def Let_def by (intro evolve; simp)

lemma on_monitor_delete_evolves [evolve]:
  "evolves (e_sha256 e) w v \<Longrightarrow> evolves (e_sha256 e) w (on_monitor_delete e m v)"
  unfolding on_monitor_delete_def split_def Let_def by (intro evolve; simp)

lemma on_incident_save_evolves [evolve]:
  "evolves (e_sha256 e) w v \<Longrightarrow> evolves (e_sha256 e) w (on_incident_save e i created v)"
  unfolding on_incident_save_def split_def Let_def by (intro evolve; simp)

lemma on_apikey_save_evolves [evolve]:
  "evolves (e_sha256 e) w v \<Longrightarrow> evolves (e_sha256 e) w (on_apikey_save e k created v)"
  unfolding on_apikey_save_def split_def Let_def by (intro evolve; simp)

lemma on_role_save_evolves [evolve]:
  "evolves (e_sha256 e) w v \<Longrightarrow> evolves (e_sha256 e) w (on_role_save e r created v)"
  unfolding on_role_save_def split_def Let_def by (intro evolve; simp)

lemma on_role_delete_evolves [evolve]:
  "evolves (e_sha256 e) w v \<Longrightarrow> evolves (e_sha256 e) w (on_role_delete e r v)"
  unfolding on_role_delete_def split_def Let_def by (intro evolve; simp)

lemma on_membership_save_evolves [evolve]:
  "evolves (e_sha256 e) w v \<Longrightarrow> evolves (e_sha256 e) w (on_membership_save e m created v)"
  unfolding on_membership_save_def split_def Let_def by (intro evolve; simp)

lemma on_membership_delete_evolves [evolve]:
  "evolves (e_sha256 e) w v \<Longrightarrow> evolves (e_sha256 e) w (on_membership_delete e m v)"
  unfolding on_membership_delete_def split_def Let_def by (intro evolve; simp)

lemma create_key_evolves [evolve]:
  "evolves (e_sha256 e) w v \<Longrightarrow> evolves (e_sha256 e) w (snd (create_key e tenant project name permissions created_by expires_at v))"
  unfolding create_key_def split_def Let_def by (intro evolve; simp)

lemma create_system_roles_evolves [evolve]:
  "evolves (e_sha256 e) w v \<Longrightarrow> evolves (e_sha256 e) w (snd (create_system_roles e project tenant v))"
  unfolding create_system_roles_def split_def Let_def by (intro evolve; simp)

lemma create_system_incident_states_evolves [evolve]:
  "evolves (e_sha256 e) w v \<Longrightarrow> evolves (e_sha256 e) w (snd (create_system_incident_states e project tenant v))"
  unfolding create_system_incident_states_def split_def Let_def by (intro evolve; simp)

lemma create_system_incident_severities_evolves [evolve]:
  "evolves (e_sha256 e) w v \<Longrightarrow> evolves (e_sha256 e) w (snd (create_system_incident_severities e project tenant v))"
  unfolding create_system_incident_severities_def split_def Let_def by (intro evolve; simp)

lemma create_default_probes_evolves [evolve]:
  "evolves (e_sha256 e) w v \<Longrightarrow> evolves (e_sha256 e) w (snd (create_default_probes e project tenant v))"
  unfolding create_default_probes_def split_def Let_def by (intro evolve; simp)

lemma bootstrap_project_evolves [evolve]:
  "evolves (e_sha256 e) w v \<Longrightarrow> evolves (e_sha256 e) w (snd (bootstrap_project e project tenant v))"
  unfolding bootstrap_project_def split_def Let_def by (intro evolve; simp)

lemma create_challenge_evolves [evolve]:
  "evolves (e_sha256 e) w v \<Longrightarrow> evolves (e_sha256 e) w (snd (create_challenge e u purpose v))"
  unfolding create_challenge_def split_def Let_def by (intro evolve; simp)

lemma save_challenge_evolves [evolve]:
  "evolves sha w v \<Longrightarrow> evolves sha w (save_challenge i put v)"
  unfolding save_challenge_def split_def Let_def by (intro evolve; simp)

lemma otp_verify_evolves [evolve]:
  "evolves (e_sha256 e) w v \<Longrightarrow> evolves (e_sha256 e) w (snd (otp_verify e u purpose code v))"
  unfolding otp_verify_def split_def Let_def by (intro evolve; simp)

lemma create_login_session_evolves [evolve]:
  "evolves (e_sha256 e) w v \<Longrightarrow> evolves (e_sha256 e) w (snd (create_login_session e u v))"
  unfolding create_login_session_def split_def Let_def by (intro evolve; simp)

lemma consume_login_session_evolves [evolve]:
  "evolves (e_sha256 e) w v \<Longrightarrow> evolves (e_sha256 e) w (snd (consume_login_session e token v))"
  unfolding consume_login_session_def split_def Let_def by (intro evolve; simp)

lemma send_html_email_evolves [evolve]:
  "evolves (e_sha256 e) w v \<Longrightarrow> evolves (e_sha256 e) w (snd (send_html_email e recipient subject body v))"
  unfolding send_html_email_def split_def Let_def by (intro evolve; simp)

lemma send_activation_otp_evolves [evolve]:
  "evolves (e_sha256 e) w v \<Longrightarrow> evolves (e_sha256 e) w (snd (send_activation_otp e email code v))"
  unfolding send_activation_otp_def split_def Let_def by (intro evolve; simp)

lemma send_password_reset_otp_evolves [evolve]:
  "evolves (e_sha256 e) w v \<Longrightarrow> evolves (e_sha256 e) w (snd (send_password_reset_otp e email code v))"
  unfolding send_password_reset_otp_def split_def Let_def by (intro evolve; simp)

lemma send_invitation_evolves [evolve]:
  "evolves (e_sha256 e) w v \<Longrightarrow> evolves (e_sha256 e) w (snd (send_invitation e email tenant_name inviter_name token expiry_days v))"
  unfolding send_invitation_def split_def Let_def by (intro evolve; simp)

lemma created_superuser [simp]: "\<not> usr_is_superuser (new_user e i em pw fn ln ac ve)"
  by (simp add: new_user_def)

lemma create_user_evolves [evolve]:
  "evolves (e_sha256 e) w v \<Longrightarrow>
     evolves (e_sha256 e) w (snd (create_user e email password first_name last_name active verified v))"
  unfolding create_user_def split_def Let_def by (intro evolve; simp)

lemma team_get_or_create_evolves [evolve]:
  "evolves (e_sha256 e) w v \<Longrightarrow> evolves (e_sha256 e) w (snd (team_get_or_create e tenant project name desc v))"
  unfolding team_get_or_create_def split_def Let_def by (intro evolve; simp)

lemma join_team_evolves [evolve]:
  "evolves (e_sha256 e) w v \<Longrightarrow> evolves (e_sha256 e) w (snd (join_team e team u role granted_by v))"
  unfolding join_team_def split_def Let_def by (intro evolve; simp)

lemma add_membership_evolves [evolve]:
  "evolves (e_sha256 e) w v \<Longrightarrow> evolves (e_sha256 e) w (add_membership e m v)"
  unfolding add_membership_def split_def Let_def by (intro evolve; simp)

lemma create_account_evolves [evolve]:
  "evolves (e_sha256 e) w v \<Longrightarrow> evolves (e_sha256 e) w (snd (create_account e email password tenant_name first_name last_name v))"
  unfolding create_account_def split_def Let_def by (intro evolve; simp)

lemma authenticate_jwt_evolves [evolve]:
  "evolves (e_sha256 e) w v \<Longrightarrow> evolves (e_sha256 e) w (snd (authenticate_jwt e raw_token rq v))"
  unfolding authenticate_jwt_def split_def Let_def by (intro evolve; simp)

lemma authenticate_api_key_evolves [evolve]:
  "evolves (e_sha256 e) w v \<Longrightarrow> evolves (e_sha256 e) w (snd (authenticate_api_key e raw_token rq v))"
  unfolding authenticate_api_key_def split_def Let_def by (intro evolve; simp)

lemma authenticate_evolves [evolve]:
  "evolves (e_sha256 e) w v \<Longrightarrow> evolves (e_sha256 e) w (snd (authenticate e rq v))"
  unfolding authenticate_def split_def Let_def by (intro evolve; simp)

section \<open>Incidents, monitoring, maintenance\<close>

lemma emit_incident_evolves [evolve]:
  "evolves (e_sha256 e) w v \<Longrightarrow> evolves (e_sha256 e) w (emit_incident e event_type i v)"
  unfolding emit_incident_def split_def Let_def by (intro evolve; simp)

lemma save_incident_evolves [evolve]:
  "evolves (e_sha256 e) w v \<Longrightarrow> evolves (e_sha256 e) w (save_incident e put i v)"
  unfolding save_incident_def split_def Let_def by (intro evolve; simp)

lemma assign_incident_evolves [evolve]:
  "evolves (e_sha256 e) w v \<Longrightarrow> evolves (e_sha256 e) w (snd (assign_incident e i assignee v))"
  unfolding assign_incident_def split_def Let_def by (intro evolve; simp)

lemma notify_user_evolves [evolve]:
  "evolves (e_sha256 e) w v \<Longrightarrow> evolves (e_sha256 e) w (notify_user e i u v)"
  unfolding notify_user_def split_def Let_def by (intro evolve; simp)

lemma fire_webhook_evolves [evolve]:
  "evolves (e_sha256 e) w v \<Longrightarrow> evolves (e_sha256 e) w (fire_webhook e i webhook_id rule_name v)"
  unfolding fire_webhook_def split_def Let_def by (intro evolve; simp)

lemma execute_action_evolves [evolve]:
  "evolves (e_sha256 e) w v \<Longrightarrow> evolves (e_sha256 e) w (snd (execute_action e rule action i v))"
  unfolding execute_action_def split_def Let_def by (intro evolve; simp)

lemma execute_actions_evolves [evolve]:
  "evolves (e_sha256 e) w v \<Longrightarrow> evolves (e_sha256 e) w (snd (snd (execute_actions e x1 x2 x3 v)))"
proof (induction x2 arbitrary: x1 x3 v)
  case (Cons x2a x2s)
  show ?case unfolding execute_actions.simps split_def Let_def by (intro evolve Cons.IH; simp add: Cons.prems)
qed simp

lemma run_rules_evolves [evolve]:
  "evolves (e_sha256 e) w v \<Longrightarrow> evolves (e_sha256 e) w (snd (snd (run_rules e x1 x2 x3 v)))"
proof (induction x1 arbitrary: x2 x3 v)
  case (Cons x1a x1s)
  show ?case unfolding run_rules.simps split_def Let_def by (intro evolve Cons.IH; simp add: Cons.prems)
qed simp

lemma run_workflow_rules_evolves [evolve]:
  "evolves (e_sha256 e) w v \<Longrightarrow> evolves (e_sha256 e) w (snd (snd (run_workflow_rules e trigger i v)))"
  unfolding run_workflow_rules_def split_def Let_def by (intro evolve; simp)

lemma mark_workflow_fired_evolves [evolve]:
  "evolves (e_sha256 e) w v \<Longrightarrow> evolves (e_sha256 e) w (mark_workflow_fired e k v)"
  unfolding mark_workflow_fired_def split_def Let_def by (intro evolve; simp)

lemma unacknowledged_rules_evolves [evolve]:
  "evolves (e_sha256 e) w v \<Longrightarrow> evolves (e_sha256 e) w (snd (snd (unacknowledged_rules e x1 x2 x3 v)))"
proof (induction x1 arbitrary: x2 x3 v)
  case (Cons x1a x1s)
  show ?case unfolding unacknowledged_rules.simps split_def Let_def by (intro evolve Cons.IH; simp add: Cons.prems)
qed simp

lemma unacknowledged_incidents_evolves [evolve]:
  "evolves (e_sha256 e) w v \<Longrightarrow> evolves (e_sha256 e) w (snd (unacknowledged_incidents e x1 x2 v))"
proof (induction x1 arbitrary: x2 v)
  case (Cons x1a x1s)
  show ?case unfolding unacknowledged_incidents.simps split_def Let_def by (intro evolve Cons.IH; simp add: Cons.prems)
qed simp

lemma process_unacknowledged_workflows_evolves [evolve]:
  "evolves (e_sha256 e) w v \<Longrightarrow> evolves (e_sha256 e) w (snd (process_unacknowledged_workflows e v))"
  unfolding process_unacknowledged_workflows_def split_def Let_def by (intro evolve; simp)

lemma attach_escalation_policy_evolves [evolve]:
  "evolves (e_sha256 e) w v \<Longrightarrow> evolves (e_sha256 e) w (snd (attach_escalation_policy e i v))"
  unfolding attach_escalation_policy_def split_def Let_def by (intro evolve; simp)

lemma emit_escalation_webhook_evolves [evolve]:
  "evolves (e_sha256 e) w v \<Longrightarrow> evolves (e_sha256 e) w (emit_escalation_webhook e i step v)"
  unfolding emit_escalation_webhook_def split_def Let_def by (intro evolve; simp)

lemma save_esc_state_evolves [evolve]:
  "evolves sha w v \<Longrightarrow> evolves sha w (save_esc_state s v)"
  unfolding save_esc_state_def split_def Let_def by (intro evolve; simp)

lemma step_effect_evolves [evolve]:
  "evolves (e_sha256 e) w v \<Longrightarrow> evolves (e_sha256 e) w (snd (step_effect e i step v))"
  unfolding step_effect_def split_def Let_def by (intro evolve; simp)

lemma execute_escalation_step_evolves [evolve]:
  "evolves (e_sha256 e) w v \<Longrightarrow> evolves (e_sha256 e) w (execute_escalation_step e i s step v)"
  unfolding execute_escalation_step_def split_def Let_def by (intro evolve; simp)

lemma escalate_one_evolves [evolve]:
  "evolves (e_sha256 e) w v \<Longrightarrow> evolves (e_sha256 e) w (snd (escalate_one e i s v))"
  unfolding escalate_one_def split_def Let_def by (intro evolve; simp)

lemma escalate_all_evolves [evolve]:
  "evolves (e_sha256 e) w v \<Longrightarrow> evolves (e_sha256 e) w (snd (escalate_all e x1 x2 v))"
proof (induction x1 arbitrary: x2 v)
  case (Cons p ps)
  obtain i s where p: "p = (i, s)" by force
  show ?case unfolding p escalate_all.simps split_def Let_def
    by (cases "fst (escalate_one e i s v)"; simp only: escalation_outcome.case; intro evolve Cons.IH; simp add: Cons.prems)
qed simp

lemma process_escalations_evolves [evolve]:
  "evolves (e_sha256 e) w v \<Longrightarrow> evolves (e_sha256 e) w (snd (process_escalations e v))"
  unfolding process_escalations_def split_def Let_def by (intro evolve; simp)

lemma emit_incident_created_evolves [evolve]:
  "evolves (e_sha256 e) w v \<Longrightarrow> evolves (e_sha256 e) w (snd (emit_incident_created e i v))"
  unfolding emit_incident_created_def split_def Let_def by (intro evolve; simp)

lemma complete_escalation_evolves [evolve]:
  "evolves sha w v \<Longrightarrow> evolves sha w (complete_escalation i v)"
  unfolding complete_escalation_def split_def Let_def by (intro evolve; simp)

lemma acknowledge_incident_evolves [evolve]:
  "evolves (e_sha256 e) w v \<Longrightarrow> evolves (e_sha256 e) w (snd (acknowledge_incident e i user v))"
  unfolding acknowledge_incident_def split_def Let_def by (intro evolve; simp)

lemma clear_current_incident_evolves [evolve]:
  "evolves sha w v \<Longrightarrow> evolves sha w (clear_current_incident i v)"
  unfolding clear_current_incident_def split_def Let_def by (intro evolve; simp)

lemma resolve_incident_evolves [evolve]:
  "evolves (e_sha256 e) w v \<Longrightarrow> evolves (e_sha256 e) w (snd (resolve_incident e i user v))"
  unfolding resolve_incident_def split_def Let_def by (intro evolve; simp)

lemma add_note_evolves [evolve]:
  "evolves (e_sha256 e) w v \<Longrightarrow> evolves (e_sha256 e) w (snd (add_note e i author content is_public v))"
  unfolding add_note_def split_def Let_def by (intro evolve; simp)

lemma emit_maintenance_webhook_evolves [evolve]:
  "evolves (e_sha256 e) w v \<Longrightarrow> evolves (e_sha256 e) w (emit_maintenance_webhook e event_type m v)"
  unfolding emit_maintenance_webhook_def split_def Let_def by (intro evolve; simp)

lemma save_maintenance_evolves [evolve]:
  "evolves sha w v \<Longrightarrow> evolves sha w (save_maintenance put now i v)"
  unfolding save_maintenance_def split_def Let_def by (intro evolve; simp)

lemma ensure_series_id_evolves [evolve]:
  "evolves (e_sha256 e) w v \<Longrightarrow> evolves (e_sha256 e) w (snd (snd (ensure_series_id e m v)))"
  unfolding ensure_series_id_def split_def Let_def by (intro evolve; simp)

lemma schedule_next_occurrence_evolves [evolve]:
  "evolves (e_sha256 e) w v \<Longrightarrow> evolves (e_sha256 e) w (snd (schedule_next_occurrence e m v))"
  unfolding schedule_next_occurrence_def split_def Let_def by (intro evolve; simp)

lemma emit_monitor_status_changed_evolves [evolve]:
  "evolves (e_sha256 e) w v \<Longrightarrow> evolves (e_sha256 e) w (emit_monitor_status_changed e m previous_status v)"
  unfolding emit_monitor_status_changed_def split_def Let_def by (intro evolve; simp)

lemma update_monitor_evolves [evolve]:
  "evolves sha w v \<Longrightarrow> evolves sha w (update_monitor i f v)"
  unfolding update_monitor_def split_def Let_def by (intro evolve; simp)

lemma open_incident_evolves [evolve]:
  "evolves (e_sha256 e) w v \<Longrightarrow> evolves (e_sha256 e) w (open_incident e m ck v)"
  unfolding open_incident_def split_def Let_def by (intro evolve; simp)

lemma close_incident_evolves [evolve]:
  "evolves (e_sha256 e) w v \<Longrightarrow> evolves (e_sha256 e) w (close_incident e m v)"
  unfolding close_incident_def split_def Let_def by (intro evolve; simp)

lemma update_monitor_status_evolves [evolve]:
  "evolves (e_sha256 e) w v \<Longrightarrow> evolves (e_sha256 e) w (snd (update_monitor_status e m ck v))"
  unfolding update_monitor_status_def split_def Let_def by (intro evolve; simp)

lemma execute_check_evolves [evolve]:
  "evolves (e_sha256 e) w v \<Longrightarrow> evolves (e_sha256 e) w (snd (execute_check e n m v))"
  unfolding execute_check_def split_def Let_def by (intro evolve; simp)

lemma reevaluate_monitor_incident_evolves [evolve]:
  "evolves (e_sha256 e) w v \<Longrightarrow> evolves (e_sha256 e) w (reevaluate_monitor_incident e m v)"
  unfolding reevaluate_monitor_incident_def split_def Let_def by (intro evolve; simp)

lemma reevaluate_monitors_after_maintenance_evolves [evolve]:
  "evolves (e_sha256 e) w v \<Longrightarrow> evolves (e_sha256 e) w (reevaluate_monitors_after_maintenance e mw v)"
  unfolding reevaluate_monitors_after_maintenance_def split_def Let_def by (intro evolve; simp)

lemma check_each_evolves [evolve]:
  "evolves (e_sha256 e) w v \<Longrightarrow> evolves (e_sha256 e) w (snd (check_each e x1 x2 x3 v))"
proof (induction x2 arbitrary: x3 v)
  case (Cons m ms)
  obtain ok failed where c: "x3 = (ok, failed)" by force
  show ?case unfolding c check_each.simps split_def Let_def by (intro evolve Cons.IH; simp add: Cons.prems)
qed simp

lemma run_checks_evolves [evolve]:
  "evolves (e_sha256 e) w v \<Longrightarrow> evolves (e_sha256 e) w (snd (run_checks e n dry_run monitor_id v))"
  unfolding run_checks_def split_def Let_def by (intro evolve; simp)

lemma sms_send_evolves [evolve]:
  "evolves (e_sha256 e) w v \<Longrightarrow> evolves (e_sha256 e) w (snd (sms_send e to body v))"
  unfolding sms_send_def split_def Let_def by (intro evolve; simp)

lemma send_each_evolves [evolve]:
  "evolves (e_sha256 e) w v \<Longrightarrow> evolves (e_sha256 e) w (snd (send_each e x1 x2 x3 v))"
proof (induction x3 arbitrary: x1 x2 v)
  case (Cons x3a x3s)
  show ?case unfolding send_each.simps split_def Let_def by (intro evolve Cons.IH; simp add: Cons.prems)
qed simp

lemma notify_sms_evolves [evolve]:
  "evolves (e_sha256 e) w v \<Longrightarrow> evolves (e_sha256 e) w (notify_sms e m message v)"
  unfolding notify_sms_def split_def Let_def by (intro evolve; simp)

lemma notify_started_evolves [evolve]:
  "evolves (e_sha256 e) w v \<Longrightarrow> evolves (e_sha256 e) w (snd (notify_started e m v))"
  unfolding notify_started_def split_def Let_def by (intro evolve; simp)

lemma notify_ended_evolves [evolve]:
  "evolves (e_sha256 e) w v \<Longrightarrow> evolves (e_sha256 e) w (snd (notify_ended e m v))"
  unfolding notify_ended_def split_def Let_def by (intro evolve; simp)

lemma handle_maintenance_started_evolves [evolve]:
  "evolves (e_sha256 e) w v \<Longrightarrow> evolves (e_sha256 e) w (handle_maintenance_started e m v)"
  unfolding handle_maintenance_started_def split_def Let_def by (intro evolve; simp)

lemma handle_maintenance_ended_evolves [evolve]:
  "evolves (e_sha256 e) w v \<Longrightarrow> evolves (e_sha256 e) w (handle_maintenance_ended e m v)"
  unfolding handle_maintenance_ended_def split_def Let_def by (intro evolve; simp)

lemma set_maintenance_status_evolves [evolve]:
  "evolves (e_sha256 e) w v \<Longrightarrow> evolves (e_sha256 e) w (set_maintenance_status e i status v)"
  unfolding set_maintenance_status_def split_def Let_def by (intro evolve; simp)

lemma start_window_evolves [evolve]:
  "evolves (e_sha256 e) w v \<Longrightarrow> evolves (e_sha256 e) w (start_window e v m)"
  unfolding start_window_def split_def Let_def by (intro evolve; simp)

lemma end_window_evolves [evolve]:
  "evolves (e_sha256 e) w v \<Longrightarrow> evolves (e_sha256 e) w (end_window e v m)"
  unfolding end_window_def split_def Let_def by (intro evolve; simp)

lemma process_maintenance_evolves [evolve]:
  "evolves (e_sha256 e) w v \<Longrightarrow> evolves (e_sha256 e) w (snd (process_maintenance e v))"
  unfolding process_maintenance_def split_def Let_def by (intro evolve; simp)

lemma maintenance_create_evolves [evolve]:
  "evolves (e_sha256 e) w v \<Longrightarrow> evolves (e_sha256 e) w (snd (maintenance_create e rq inp v))"
  unfolding maintenance_create_def split_def Let_def by (intro evolve; simp)

lemma maintenance_update_evolves [evolve]:
  "evolves (e_sha256 e) w v \<Longrightarrow> evolves (e_sha256 e) w (snd (maintenance_update e rq pk inp v))"
  unfolding maintenance_update_def split_def Let_def by (intro evolve; simp)

lemma maintenance_cancel_evolves [evolve]:
  "evolves (e_sha256 e) w v \<Longrightarrow> evolves (e_sha256 e) w (snd (maintenance_cancel e rq pk v))"
  unfolding maintenance_cancel_def split_def Let_def by (intro evolve; simp)

lemma maintenance_destroy_evolves [evolve]:
  "evolves sha w v \<Longrightarrow> evolves sha w (snd (maintenance_destroy rq pk v))"
  unfolding maintenance_destroy_def split_def Let_def by (intro evolve; simp)

section \<open>Retention\<close>

lemma delete_audit_logs_evolves [evolve]: "evolves sha w v \<Longrightarrow> evolves sha w (delete_audit_logs p v)"
  by (simp add: delete_audit_logs_def)

lemma delete_incidents_evolves [evolve]:
  "evolves sha w v \<Longrightarrow> evolves sha w (delete_incidents p v)"
  unfolding delete_incidents_def split_def Let_def by (intro evolve; simp)

lemma purge_evolves [evolve]:
  "evolves sha w v \<Longrightarrow> evolves sha w (snd (purge p cutoff dry_run v))"
  unfolding purge_def split_def Let_def by (intro evolve; simp)

lemma purge_each_evolves [evolve]:
  "evolves sha w v \<Longrightarrow> evolves sha w (snd (purge_each x0 x1 x2 x3 v))"
proof (induction x2 arbitrary: x0 x1 x3 v)
  case (Cons x2a x2s)
  show ?case unfolding purge_each.simps split_def Let_def by (intro evolve Cons.IH; simp add: Cons.prems)
qed simp

lemma purge_expired_evolves [evolve]:
  "evolves (e_sha256 e) w v \<Longrightarrow> evolves (e_sha256 e) w (snd (purge_expired e dry_run v))"
  unfolding purge_expired_def split_def Let_def by (intro evolve; simp)

lemma retention_create_evolves [evolve]:
  "evolves (e_sha256 e) w v \<Longrightarrow> evolves (e_sha256 e) w (snd (retention_create e rq dt n archive bucket v))"
  unfolding retention_create_def split_def Let_def by (intro evolve; simp)

lemma retention_update_evolves [evolve]:
  "evolves (e_sha256 e) w v \<Longrightarrow> evolves (e_sha256 e) w (snd (retention_update e rq pk dt n archive bucket v))"
  unfolding retention_update_def split_def Let_def by (intro evolve; simp)

lemma retention_destroy_evolves [evolve]:
  "evolves sha w v \<Longrightarrow> evolves sha w (snd (retention_destroy rq pk v))"
  unfolding retention_destroy_def split_def Let_def by (intro evolve; simp)

section \<open>Status pages\<close>

lemma send_email_verification_evolves [evolve]:
  "evolves (e_sha256 e) w v \<Longrightarrow> evolves (e_sha256 e) w (snd (send_email_verification e page s v))"
  unfolding send_email_verification_def split_def Let_def by (intro evolve; simp)

lemma send_phone_verification_evolves [evolve]:
  "evolves (e_sha256 e) w v \<Longrightarrow> evolves (e_sha256 e) w (snd (send_phone_verification e page s v))"
  unfolding send_phone_verification_def split_def Let_def by (intro evolve; simp)

lemma subscriber_get_or_create_evolves [evolve]:
  "evolves (e_sha256 e) w v \<Longrightarrow> evolves (e_sha256 e) w (snd (snd (subscriber_get_or_create e page email phone v)))"
  unfolding subscriber_get_or_create_def split_def Let_def by (intro evolve; simp)

lemma save_subscriber_evolves [evolve]:
  "evolves sha w v \<Longrightarrow> evolves sha w (save_subscriber s v)"
  unfolding save_subscriber_def split_def Let_def by (intro evolve; simp)

lemma change_phone_evolves [evolve]:
  "evolves (e_sha256 e) w (snd (snd st)) \<Longrightarrow> evolves (e_sha256 e) w (snd (snd (change_phone e p st)))"
  unfolding change_phone_def split_def by (intro evolve; simp)

lemma ask_email_evolves [evolve]:
  "evolves (e_sha256 e) w (snd (snd st)) \<Longrightarrow> evolves (e_sha256 e) w (snd (snd (snd (ask_email e p st))))"
  unfolding ask_email_def split_def Let_def by (intro evolve; simp)

lemma ask_phone_evolves [evolve]:
  "evolves (e_sha256 e) w (snd (snd st)) \<Longrightarrow> evolves (e_sha256 e) w (snd (snd (snd (ask_phone e p st))))"
  unfolding ask_phone_def split_def Let_def by (intro evolve; simp)

lemma subscribe_evolves [evolve]:
  "evolves (e_sha256 e) w v \<Longrightarrow> evolves (e_sha256 e) w (snd (subscribe e page email phone v))"
  unfolding subscribe_def split_def Let_def by (intro evolve; simp)

lemma verify_email_evolves [evolve]:
  "evolves sha w v \<Longrightarrow> evolves sha w (snd (verify_email page token v))"
  unfolding verify_email_def split_def Let_def by (intro evolve; simp)

lemma verify_phone_evolves [evolve]:
  "evolves sha w v \<Longrightarrow> evolves sha w (snd (verify_phone page token v))"
  unfolding verify_phone_def split_def Let_def by (intro evolve; simp)

section \<open>SCIM\<close>

lemma atomic_evolves [evolve]:
  "(\<And>v. evolves sha w v \<Longrightarrow> evolves sha w (snd (f v))) \<Longrightarrow> evolves sha w v \<Longrightarrow> evolves sha w (snd (atomic f v))"
  unfolding atomic_def split_def by (cases "fst (f v)") simp_all

lemma ensure_membership_evolves [evolve]:
  "evolves (e_sha256 e) w v \<Longrightarrow> evolves (e_sha256 e) w (ensure_membership e u tenant v)"
  unfolding ensure_membership_def split_def Let_def by (intro evolve; simp)

lemma join_teams_evolves [evolve]:
  "evolves (e_sha256 e) w v \<Longrightarrow> evolves (e_sha256 e) w (join_teams e x1 x2 x3 v)"
proof (induction x3 arbitrary: x1 x2 v)
  case (Cons x3a x3s)
  show ?case unfolding join_teams.simps split_def Let_def by (intro evolve Cons.IH; simp add: Cons.prems)
qed simp

lemma provisioned_user_evolves [evolve]:
  "evolves (e_sha256 e) w v \<Longrightarrow> evolves (e_sha256 e) w (snd (provisioned_user e email first_name last_name v))"
  unfolding provisioned_user_def split_def Let_def by (intro evolve; simp)

lemma refreshed_user_same [simp]:
  "usr_id (refreshed_user fn ln u) = usr_id u" "usr_is_superuser (refreshed_user fn ln u) = usr_is_superuser u"
  by (simp_all add: refreshed_user_def)

lemma provision_from_saml_evolves [evolve]:
  "evolves (e_sha256 e) w v \<Longrightarrow> evolves (e_sha256 e) w (snd (provision_from_saml e c email first_name last_name v))"
  unfolding provision_from_saml_def split_def Let_def by (intro evolve; simp)

lemma unassigned_team_evolves [evolve]:
  "evolves (e_sha256 e) w v \<Longrightarrow> evolves (e_sha256 e) w (snd (unassigned_team e tenant project v))"
  unfolding unassigned_team_def split_def Let_def by (intro evolve; simp)

lemma provisioned_scim_user_evolves [evolve]:
  "evolves (e_sha256 e) w v \<Longrightarrow> evolves (e_sha256 e) w (snd (provisioned_scim_user e email first_name last_name v))"
  unfolding provisioned_scim_user_def split_def Let_def by (intro evolve; simp)

lemma provision_from_scim_evolves [evolve]:
  "evolves (e_sha256 e) w v \<Longrightarrow> evolves (e_sha256 e) w (snd (provision_from_scim e x1 x2 x3 x4 x5 v))"
  unfolding provision_from_scim_def split_def Let_def by (intro evolve; simp)

lemma deprovision_from_scim_evolves [evolve]:
  "evolves sha w v \<Longrightarrow> evolves sha w (deprovision_from_scim c u v)"
  unfolding deprovision_from_scim_def split_def Let_def by (intro evolve; simp)

lemma scim_log_evolves [evolve]:
  "evolves (e_sha256 e) w v \<Longrightarrow> evolves (e_sha256 e) w (scim_log e c operation resource external_id payload status error v)"
  unfolding scim_log_def split_def Let_def by (intro evolve; simp)

lemma scim_list_users_evolves [evolve]:
  "evolves (e_sha256 e) w v \<Longrightarrow> evolves (e_sha256 e) w (snd (scim_list_users e c filter_expr v))"
  unfolding scim_list_users_def split_def Let_def by (intro evolve; simp)

lemma scim_create_user_evolves [evolve]:
  "evolves (e_sha256 e) w v \<Longrightarrow> evolves (e_sha256 e) w (snd (scim_create_user e c body v))"
  unfolding scim_create_user_def split_def Let_def by (intro evolve; simp)

lemma patched_user_same:
  "patched_user body u = Ok u1 \<Longrightarrow> usr_id u1 = usr_id u \<and> usr_is_superuser u1 = usr_is_superuser u"
  by (auto simp: patched_user_def bind_result_def Let_def split: sum.splits if_splits)

lemma scim_update_user_evolves [evolve]:
  assumes "evolves (e_sha256 e) w v"
  shows "evolves (e_sha256 e) w (snd (scim_update_user e c user_id body v))"
proof (cases "user_of v user_id")
  case (Some u)
  show ?thesis
  proof (cases "patched_user body u")
    case (Inr u1)
    define p where "p = (if field body ''active'' \<noteq> JNull \<and> \<not> sc_scim_enable_push_groups c
      then (u1\<lparr>usr_is_active := truthy (field body ''active'')\<rparr>,
            if \<not> truthy (field body ''active'') then deprovision_from_scim c (usr_id u) v else v)
      else (u1, v))"
    have "u \<in> set (w_users v)" using Some by (auto simp: user_of_def find_Some_iff)
    then have p: "evolves (e_sha256 e) w (snd p)" "u \<in> set (w_users (snd p))" "usr_id (fst p) = usr_id u"
      "usr_is_superuser (fst p) = usr_is_superuser u"
      using assms patched_user_same [OF Inr] deprovision_from_scim_evolves [OF assms]
      by (simp_all add: p_def deprovision_from_scim_def)
    show ?thesis
      unfolding scim_update_user_def Some Inr Let_def split_def option.case sum.case p_def [symmetric]
      by (intro evolve(4-) evolves_user_row p scim_log_evolves; simp add: p)
  qed (simp add: scim_update_user_def Some assms)
qed (simp add: scim_update_user_def assms)

lemma scim_delete_user_evolves [evolve]:
  "evolves (e_sha256 e) w v \<Longrightarrow> evolves (e_sha256 e) w (snd (scim_delete_user e c user_id v))"
  unfolding scim_delete_user_def split_def Let_def by (intro evolve; simp)

lemma sync_members_evolves [evolve]:
  "evolves (e_sha256 e) w v \<Longrightarrow> evolves (e_sha256 e) w (snd (sync_members e x1 x2 x3 x4 x5 v))"
proof (induction x5 arbitrary: x1 x2 x3 x4 v)
  case (Cons x5a x5s)
  show ?case unfolding sync_members.simps split_def Let_def by (intro evolve Cons.IH; simp add: Cons.prems)
qed simp

lemma sync_group_members_evolves [evolve]:
  "evolves (e_sha256 e) w v \<Longrightarrow> evolves (e_sha256 e) w (snd (sync_group_members e c t members v))"
  unfolding sync_group_members_def split_def Let_def by (intro evolve; simp)

lemma clear_team_evolves [evolve]:
  "evolves sha w v \<Longrightarrow> evolves sha w (clear_team t v)"
  unfolding clear_team_def split_def Let_def by (intro evolve; simp)

lemma rename_team_evolves [evolve]:
  "evolves (e_sha256 e) w v \<Longrightarrow> evolves (e_sha256 e) w (snd (rename_team e t name v))"
  unfolding rename_team_def split_def Let_def by (intro evolve; simp)

lemma scim_create_group_evolves [evolve]:
  "evolves (e_sha256 e) w v \<Longrightarrow> evolves (e_sha256 e) w (snd (scim_create_group e c body v))"
  unfolding scim_create_group_def split_def Let_def by (intro evolve; simp)

lemma scim_replace_group_evolves [evolve]:
  "evolves (e_sha256 e) w v \<Longrightarrow> evolves (e_sha256 e) w (snd (scim_replace_group e c group_id body v))"
  unfolding scim_replace_group_def split_def Let_def by (intro evolve; simp)

lemma patch_operation_evolves [evolve]:
  "evolves (e_sha256 e) w v \<Longrightarrow> evolves (e_sha256 e) w (snd (patch_operation e c t op v))"
  unfolding patch_operation_def split_def Let_def by (intro evolve; simp)

lemma patch_operations_evolves [evolve]:
  "evolves (e_sha256 e) w v \<Longrightarrow> evolves (e_sha256 e) w (snd (patch_operations e x1 x2 x3 v))"
proof (induction x3 arbitrary: x1 x2 v)
  case (Cons x3a x3s)
  show ?case unfolding patch_operations.simps split_def Let_def by (intro evolve Cons.IH; simp add: Cons.prems)
qed simp

lemma scim_patch_group_evolves [evolve]:
  "evolves (e_sha256 e) w v \<Longrightarrow> evolves (e_sha256 e) w (snd (scim_patch_group e c group_id operations v))"
  unfolding scim_patch_group_def split_def Let_def by (intro evolve; simp)

lemma delete_team_evolves [evolve]:
  "evolves sha w v \<Longrightarrow> evolves sha w (delete_team t v)"
  unfolding delete_team_def split_def Let_def by (intro evolve; simp)

lemma scim_delete_group_evolves [evolve]:
  "evolves (e_sha256 e) w v \<Longrightarrow> evolves (e_sha256 e) w (snd (scim_delete_group e c group_id v))"
  unfolding scim_delete_group_def split_def Let_def by (intro evolve; simp)

section \<open>The delivery queue\<close>

text \<open>A run of the queue takes a snapshot of the rows due; each is still as it was when its turn comes.\<close>

lemma process_due_evolves:
  assumes "evolves sha w v" "set ds \<subseteq> set (w_deliveries v)" "distinct (map dl_id ds)" "\<forall>d \<in> set ds. delivery_open d"
  shows "evolves sha w (snd (process_due e ds s v))"
  using assms
proof (induction ds arbitrary: s v)
  case (Cons d ds)
  show ?case
  proof (cases "webhook_of v (dl_webhook d)")
    case None
    with Cons show ?thesis by simp
  next
    case (Some h)
    let ?v = "save_delivery (snd (deliver_one e h d)) v"
    have "x \<in> set (w_deliveries ?v)" if "x \<in> set ds" for x
    proof -
      have "x \<in> set (w_deliveries v)" "dl_id x \<noteq> dl_id d"
        using that Cons.prems(2,3) by (auto simp: image_iff)
      then show ?thesis by (simp add: in_update_where_iff bexI [of _ x])
    qed
    with Cons.prems have "evolves sha w (snd (process_due e ds (count_result (fst (deliver_one e h d)) s) ?v))"
      by (intro Cons.IH evolves_attempt) auto
    with Some show ?thesis by (simp add: split_def)
  qed
qed simp

lemma distinct_order_by: "distinct (map f rs) \<Longrightarrow> distinct (map f (order_by k rs))"
  by (simp add: order_by_def distinct_map)

lemma distinct_by_next_retry:
  assumes "distinct (map dl_id ds)"
  shows "distinct (map dl_id (by_next_retry ds))"
proof -
  have "x = y" if "x \<in> set ds" "y \<in> set ds" "dl_id x = dl_id y" for x y
    using assms that by (auto simp: distinct_map dest: inj_onD)
  then have "dl_id ` {x \<in> set ds. P x} \<inter> dl_id ` {x \<in> set ds. \<not> P x} = {}" for P
    by blast
  from this [of "\<lambda>x. dl_next_retry_at x \<noteq> None"] show ?thesis
    using assms by (simp add: by_next_retry_def distinct_order_by distinct_map_filter)
qed

lemma process_pending_evolves:
  assumes "queue_ok w"
  shows "evolves sha w (snd (process_pending e n w))"
  unfolding process_pending_def
proof (rule process_due_evolves [OF evolves_start])
  show "set (due_deliveries (e_now e) n w) \<subseteq> set (w_deliveries w)"
    "\<forall>d \<in> set (due_deliveries (e_now e) n w). delivery_open d"
    using due_deliveries_due delivery_due_open by blast+
  show "distinct (map dl_id (due_deliveries (e_now e) n w))"
    using assms by (auto simp: due_deliveries_def queue_ok_def take_map [symmetric]
        intro!: distinct_take distinct_by_next_retry distinct_order_by distinct_map_filter)
qed

end
