(* ===== verification/EvolutionViews.thy ===== *)
theory EvolutionViews
  imports EvolutionServices WebhookViews IncidentViews RbacViews MonitorViews StatusPageViews SsoViews TenancyViews
    Middleware
begin

text \<open>
  The handlers refine \<open>evolves\<close>: one lemma per endpoint, and the middleware chain around any view
  that does.
\<close>

section \<open>Webhooks\<close>

lemma webhook_create_evolves [evolve]:
  "evolves (e_sha256 e) w v \<Longrightarrow> evolves (e_sha256 e) w (snd (webhook_create e rq inp v))"
  unfolding webhook_create_def split_def Let_def by (intro evolve; simp)

lemma webhook_update_evolves [evolve]:
  "evolves (e_sha256 e) w v \<Longrightarrow> evolves (e_sha256 e) w (snd (webhook_update e rq pk inp v))"
  unfolding webhook_update_def split_def Let_def by (intro evolve; simp)

lemma webhook_destroy_evolves [evolve]:
  "evolves sha w v \<Longrightarrow> evolves sha w (snd (webhook_destroy rq pk v))"
  unfolding webhook_destroy_def split_def Let_def by (intro evolve; simp)

lemma webhook_retry_evolves [evolve]:
  assumes "evolves sha w v"
  shows "evolves sha w (snd (webhook_retry e rq pk delivery_id v))"
proof (cases "webhook_get v rq ''retry'' pk")
  case (Inr h)
  show ?thesis
  proof (cases "find (\<lambda>d. dl_id d = delivery_id \<and> dl_webhook d = wh_id h) (w_deliveries v)")
    case (Some d)
    then have "d \<in> set (w_deliveries v)" by (auto simp: find_Some_iff)
    from evolves_requeue [OF assms this] show ?thesis
      using assms by (auto simp: webhook_retry_def Inr Some requeued_def [abs_def])
  qed (simp add: webhook_retry_def Inr assms)
qed (simp add: webhook_retry_def assms)

section \<open>Incidents\<close>

lemma state_create_evolves [evolve]:
  "evolves (e_sha256 e) w v \<Longrightarrow> evolves (e_sha256 e) w (snd (state_create e rq name color ord resolved v))"
  unfolding state_create_def split_def Let_def by (intro evolve; simp)

lemma state_update_evolves [evolve]:
  "evolves (e_sha256 e) w v \<Longrightarrow> evolves (e_sha256 e) w (snd (state_update e rq pk name color ord resolved v))"
  unfolding state_update_def split_def Let_def by (intro evolve; simp)

lemma state_destroy_evolves [evolve]:
  "evolves sha w v \<Longrightarrow> evolves sha w (snd (state_destroy rq pk v))"
  unfolding state_destroy_def split_def Let_def by (intro evolve; simp)

lemma severity_destroy_evolves [evolve]:
  "evolves sha w v \<Longrightarrow> evolves sha w (snd (severity_destroy rq pk v))"
  unfolding severity_destroy_def split_def Let_def by (intro evolve; simp)

lemma incident_create_evolves [evolve]:
  "evolves (e_sha256 e) w v \<Longrightarrow> evolves (e_sha256 e) w (snd (incident_create e rq inp v))"
  unfolding incident_create_def split_def Let_def by (intro evolve; simp)

lemma incident_acknowledge_evolves [evolve]:
  "evolves (e_sha256 e) w v \<Longrightarrow> evolves (e_sha256 e) w (snd (incident_acknowledge e rq pk v))"
  unfolding incident_acknowledge_def split_def Let_def by (intro evolve; simp)

lemma incident_resolve_evolves [evolve]:
  "evolves (e_sha256 e) w v \<Longrightarrow> evolves (e_sha256 e) w (snd (incident_resolve e rq pk v))"
  unfolding incident_resolve_def split_def Let_def by (intro evolve; simp)

lemma incident_assign_evolves [evolve]:
  "evolves (e_sha256 e) w v \<Longrightarrow> evolves (e_sha256 e) w (snd (incident_assign e rq pk user_id v))"
  unfolding incident_assign_def split_def Let_def by (intro evolve; simp)

lemma incident_add_note_evolves [evolve]:
  "evolves (e_sha256 e) w v \<Longrightarrow> evolves (e_sha256 e) w (snd (incident_add_note e rq pk content is_public is_internal v))"
  unfolding incident_add_note_def split_def Let_def by (intro evolve; simp)

lemma incident_timeline_post_evolves [evolve]:
  "evolves (e_sha256 e) w v \<Longrightarrow> evolves (e_sha256 e) w (snd (incident_timeline_post e rq pk message v))"
  unfolding incident_timeline_post_def split_def Let_def by (intro evolve; simp)

lemma incident_postmortem_put_evolves [evolve]:
  "evolves (e_sha256 e) w v \<Longrightarrow> evolves (e_sha256 e) w (snd (incident_postmortem_put e rq pk inp v))"
  unfolding incident_postmortem_put_def split_def Let_def by (intro evolve; simp)

lemma add_step_evolves [evolve]:
  "evolves (e_sha256 e) w v \<Longrightarrow> evolves (e_sha256 e) w (snd (add_step e rq pk inp v))"
  unfolding add_step_def split_def Let_def by (intro evolve; simp)

lemma remove_step_evolves [evolve]:
  "evolves sha w v \<Longrightarrow> evolves sha w (snd (remove_step rq pk step_id v))"
  unfolding remove_step_def split_def Let_def by (intro evolve; simp)

section \<open>Roles, teams, keys\<close>

lemma save_new_role_evolves [evolve]:
  "evolves (e_sha256 e) w v \<Longrightarrow> evolves (e_sha256 e) w (snd (save_new_role e r v))"
  unfolding save_new_role_def split_def Let_def by (intro evolve; simp)

lemma role_create_evolves [evolve]:
  "evolves (e_sha256 e) w v \<Longrightarrow> evolves (e_sha256 e) w (snd (role_create e rq name description permissions v))"
  unfolding role_create_def split_def Let_def by (intro evolve; simp)

lemma role_update_evolves [evolve]:
  "evolves (e_sha256 e) w v \<Longrightarrow> evolves (e_sha256 e) w (snd (role_update e rq pk name description permissions v))"
  unfolding role_update_def split_def Let_def by (intro evolve; simp)

lemma delete_role_evolves [evolve]:
  "evolves (e_sha256 e) w v \<Longrightarrow> evolves (e_sha256 e) w (snd (delete_role e r v))"
  unfolding delete_role_def split_def Let_def by (intro evolve; simp)

lemma role_destroy_evolves [evolve]:
  "evolves (e_sha256 e) w v \<Longrightarrow> evolves (e_sha256 e) w (snd (role_destroy e rq pk v))"
  unfolding role_destroy_def split_def Let_def by (intro evolve; simp)

lemma add_team_member_evolves [evolve]:
  "evolves (e_sha256 e) w v \<Longrightarrow> evolves (e_sha256 e) w (snd (add_team_member e rq pk email role_id v))"
  unfolding add_team_member_def split_def Let_def by (intro evolve; simp)

lemma remove_team_member_evolves [evolve]:
  "evolves sha w v \<Longrightarrow> evolves sha w (snd (remove_team_member rq pk user_id v))"
  unfolding remove_team_member_def split_def Let_def by (intro evolve; simp)

lemma api_key_create_evolves [evolve]:
  "evolves (e_sha256 e) w v \<Longrightarrow> evolves (e_sha256 e) w (snd (api_key_create e rq name permissions expires_at v))"
  unfolding api_key_create_def split_def Let_def by (intro evolve; simp)

lemma api_key_destroy_evolves [evolve]:
  "evolves (e_sha256 e) w v \<Longrightarrow> evolves (e_sha256 e) w (snd (api_key_destroy e rq pk v))"
  unfolding api_key_destroy_def split_def Let_def by (intro evolve; simp)

section \<open>Monitors\<close>

lemma insert_monitor_evolves [evolve]:
  "evolves (e_sha256 e) w v \<Longrightarrow> evolves (e_sha256 e) w (snd (insert_monitor e p team inp v))"
  unfolding insert_monitor_def split_def Let_def by (intro evolve; simp)

lemma monitor_create_evolves [evolve]:
  "evolves (e_sha256 e) w v \<Longrightarrow> evolves (e_sha256 e) w (snd (monitor_create e rq inp v))"
  unfolding monitor_create_def split_def Let_def by (intro evolve; simp)

lemma save_monitor_evolves [evolve]:
  "evolves (e_sha256 e) w v \<Longrightarrow> evolves (e_sha256 e) w (save_monitor e m v)"
  unfolding save_monitor_def split_def Let_def by (intro evolve; simp)

lemma monitor_update_evolves [evolve]:
  "evolves (e_sha256 e) w v \<Longrightarrow> evolves (e_sha256 e) w (snd (monitor_update e rq pk inp v))"
  unfolding monitor_update_def split_def Let_def by (intro evolve; simp)

lemma delete_monitor_evolves [evolve]:
  "evolves (e_sha256 e) w v \<Longrightarrow> evolves (e_sha256 e) w (delete_monitor e m v)"
  unfolding delete_monitor_def split_def Let_def by (intro evolve; simp)

lemma monitor_destroy_evolves [evolve]:
  "evolves (e_sha256 e) w v \<Longrightarrow> evolves (e_sha256 e) w (snd (monitor_destroy e rq pk v))"
  unfolding monitor_destroy_def split_def Let_def by (intro evolve; simp)

lemma monitor_pause_evolves [evolve]:
  "evolves (e_sha256 e) w v \<Longrightarrow> evolves (e_sha256 e) w (snd (monitor_pause e rq pk v))"
  unfolding monitor_pause_def split_def Let_def by (intro evolve; simp)

lemma monitor_resume_evolves [evolve]:
  "evolves (e_sha256 e) w v \<Longrightarrow> evolves (e_sha256 e) w (snd (monitor_resume e rq pk v))"
  unfolding monitor_resume_def split_def Let_def by (intro evolve; simp)

lemma create_each_evolves [evolve]:
  "evolves (e_sha256 e) w v \<Longrightarrow> evolves (e_sha256 e) w (snd (create_each e x1 x2 x3 x4 v))"
proof (induction x4 arbitrary: x1 x2 x3 v)
  case (Cons x4a x4s)
  show ?case unfolding create_each.simps split_def Let_def by (intro evolve Cons.IH; simp add: Cons.prems)
qed simp

lemma monitor_bulk_evolves [evolve]:
  "evolves (e_sha256 e) w v \<Longrightarrow> evolves (e_sha256 e) w (snd (monitor_bulk e rq inps v))"
  unfolding monitor_bulk_def split_def Let_def by (intro evolve; simp)

lemma group_create_evolves [evolve]:
  "evolves (e_sha256 e) w v \<Longrightarrow> evolves (e_sha256 e) w (snd (group_create e rq name description monitors team team_null v))"
  unfolding group_create_def split_def Let_def by (intro evolve; simp)

lemma group_destroy_evolves [evolve]:
  "evolves sha w v \<Longrightarrow> evolves sha w (snd (group_destroy rq pk v))"
  unfolding group_destroy_def split_def Let_def by (intro evolve; simp)

section \<open>Accounts\<close>

lemma save_user_evolves [evolve]:
  assumes "evolves sha w v" "\<And>r. usr_id (put r) = usr_id r" "\<And>r. usr_is_superuser (put r) \<Longrightarrow> usr_is_superuser r"
  shows "evolves sha w (save_user put i v)"
  unfolding save_user_def by (rule evolves_user [OF assms(1) refl assms(2,3)])

lemma register_evolves [evolve]:
  "evolves (e_sha256 e) w v \<Longrightarrow> evolves (e_sha256 e) w (snd (register e email password tenant_name first_name last_name v))"
  unfolding register_def split_def Let_def by (intro evolve; simp)

lemma activate_evolves [evolve]:
  "evolves (e_sha256 e) w v \<Longrightarrow> evolves (e_sha256 e) w (snd (activate e email code v))"
  unfolding activate_def split_def Let_def by (intro evolve; simp)

lemma resend_activation_evolves [evolve]:
  "evolves (e_sha256 e) w v \<Longrightarrow> evolves (e_sha256 e) w (snd (resend_activation e email v))"
  unfolding resend_activation_def split_def Let_def by (intro evolve; simp)

lemma touch_login_same [simp]:
  "usr_id (touch_login e rq r) = usr_id r" "usr_is_superuser (touch_login e rq r) = usr_is_superuser r"
  by (simp_all add: touch_login_def)

lemma login_evolves [evolve]:
  "evolves (e_sha256 e) w v \<Longrightarrow> evolves (e_sha256 e) w (snd (login e rq email password v))"
  unfolding login_def split_def Let_def by (intro evolve; simp)

lemma mfa_verify_login_evolves [evolve]:
  "evolves (e_sha256 e) w v \<Longrightarrow> evolves (e_sha256 e) w (snd (mfa_verify_login e rq mfa_token code v))"
  unfolding mfa_verify_login_def split_def Let_def by (intro evolve; simp)

lemma mfa_setup_evolves [evolve]:
  "evolves (e_sha256 e) w v \<Longrightarrow> evolves (e_sha256 e) w (snd (mfa_setup e secret rq v))"
  unfolding mfa_setup_def split_def Let_def by (intro evolve; simp)

lemma mfa_confirm_evolves [evolve]:
  "evolves (e_sha256 e) w v \<Longrightarrow> evolves (e_sha256 e) w (snd (mfa_confirm e rq code v))"
  unfolding mfa_confirm_def split_def Let_def by (intro evolve; simp)

lemma mfa_disable_evolves [evolve]:
  "evolves (e_sha256 e) w v \<Longrightarrow> evolves (e_sha256 e) w (snd (mfa_disable e rq password code v))"
  unfolding mfa_disable_def split_def Let_def by (intro evolve; simp)

lemma password_reset_request_evolves [evolve]:
  "evolves (e_sha256 e) w v \<Longrightarrow> evolves (e_sha256 e) w (snd (password_reset_request e email v))"
  unfolding password_reset_request_def split_def Let_def by (intro evolve; simp)

lemma password_reset_confirm_evolves [evolve]:
  "evolves (e_sha256 e) w v \<Longrightarrow> evolves (e_sha256 e) w (snd (password_reset_confirm e email code new_password v))"
  unfolding password_reset_confirm_def split_def Let_def by (intro evolve; simp)

lemma change_password_evolves [evolve]:
  "evolves (e_sha256 e) w v \<Longrightarrow> evolves (e_sha256 e) w (snd (change_password e rq old_password new_password v))"
  unfolding change_password_def split_def Let_def by (intro evolve; simp)

lemma me_update_evolves [evolve]:
  "evolves (e_sha256 e) w v \<Longrightarrow> evolves (e_sha256 e) w (snd (me_update e rq first_name last_name timeout v))"
  unfolding me_update_def split_def Let_def by (intro evolve; simp)

lemma erase_my_account_evolves [evolve]:
  "evolves (e_sha256 e) w v \<Longrightarrow> evolves (e_sha256 e) w (snd (erase_my_account e hex8 rq password v))"
  unfolding erase_my_account_def split_def Let_def by (intro evolve; simp add: erased_user_def)

lemma save_membership_evolves [evolve]:
  "evolves (e_sha256 e) w v \<Longrightarrow> evolves (e_sha256 e) w (save_membership e put m v)"
  unfolding save_membership_def split_def Let_def by (intro evolve; simp)

lemma accept_invite_evolves [evolve]:
  "evolves (e_sha256 e) w v \<Longrightarrow> evolves (e_sha256 e) w (snd (accept_invite e token email password v))"
  unfolding accept_invite_def split_def Let_def by (intro evolve; simp)

lemma invite_evolves [evolve]:
  "evolves (e_sha256 e) w v \<Longrightarrow> evolves (e_sha256 e) w (snd (invite e rq email0 first_name last_name v))"
  unfolding invite_def split_def Let_def by (intro evolve; simp)

lemma deactivate_evolves [evolve]:
  "evolves (e_sha256 e) w v \<Longrightarrow> evolves (e_sha256 e) w (snd (deactivate e rq pk v))"
  unfolding deactivate_def split_def Let_def by (intro evolve; simp)

section \<open>Status pages\<close>

lemma status_page_create_evolves [evolve]:
  "evolves (e_sha256 e) w v \<Longrightarrow> evolves (e_sha256 e) w (snd (status_page_create e rq inp v))"
  unfolding status_page_create_def split_def Let_def by (intro evolve; simp)

lemma save_status_page_evolves [evolve]:
  "evolves sha w v \<Longrightarrow> evolves sha w (save_status_page p v)"
  unfolding save_status_page_def split_def Let_def by (intro evolve; simp)

lemma status_page_update_evolves [evolve]:
  "evolves (e_sha256 e) w v \<Longrightarrow> evolves (e_sha256 e) w (snd (status_page_update e rq pk inp v))"
  unfolding status_page_update_def split_def Let_def by (intro evolve; simp)

lemma delete_status_page_evolves [evolve]:
  "evolves sha w v \<Longrightarrow> evolves sha w (delete_status_page page v)"
  unfolding delete_status_page_def split_def Let_def by (intro evolve; simp)

lemma status_page_destroy_evolves [evolve]:
  "evolves sha w v \<Longrightarrow> evolves sha w (snd (status_page_destroy rq pk v))"
  unfolding status_page_destroy_def split_def Let_def by (intro evolve; simp)

lemma add_resource_evolves [evolve]:
  "evolves (e_sha256 e) w v \<Longrightarrow> evolves (e_sha256 e) w (snd (add_resource e rq pk inp v))"
  unfolding add_resource_def split_def Let_def by (intro evolve; simp)

lemma remove_resource_evolves [evolve]:
  "evolves sha w v \<Longrightarrow> evolves sha w (snd (remove_resource rq pk resource v))"
  unfolding remove_resource_def split_def Let_def by (intro evolve; simp)

lemma add_announcement_evolves [evolve]:
  "evolves (e_sha256 e) w v \<Longrightarrow> evolves (e_sha256 e) w (snd (add_announcement e rq pk inp v))"
  unfolding add_announcement_def split_def Let_def by (intro evolve; simp)

lemma remove_subscriber_evolves [evolve]:
  "evolves sha w v \<Longrightarrow> evolves sha w (snd (remove_subscriber rq pk subscriber v))"
  unfolding remove_subscriber_def split_def Let_def by (intro evolve; simp)

lemma update_branding_evolves [evolve]:
  "evolves (e_sha256 e) w v \<Longrightarrow> evolves (e_sha256 e) w (snd (update_branding e rq pk body v))"
  unfolding update_branding_def split_def Let_def by (intro evolve; simp)

lemma update_domain_evolves [evolve]:
  "evolves (e_sha256 e) w v \<Longrightarrow> evolves (e_sha256 e) w (snd (update_domain e rq pk body v))"
  unfolding update_domain_def split_def Let_def by (intro evolve; simp)

lemma public_subscribe_evolves [evolve]:
  "evolves (e_sha256 e) w v \<Longrightarrow> evolves (e_sha256 e) w (snd (public_subscribe e slug email phone v))"
  unfolding public_subscribe_def split_def Let_def by (intro evolve; simp)

lemma public_verify_email_evolves [evolve]:
  "evolves sha w v \<Longrightarrow> evolves sha w (snd (public_verify_email slug token v))"
  unfolding public_verify_email_def split_def Let_def by (intro evolve; simp)

lemma public_verify_phone_evolves [evolve]:
  "evolves sha w v \<Longrightarrow> evolves sha w (snd (public_verify_phone slug token v))"
  unfolding public_verify_phone_def split_def Let_def by (intro evolve; simp)

section \<open>Single sign-on\<close>

lemma sso_create_evolves [evolve]:
  "evolves (e_sha256 e) w v \<Longrightarrow> evolves (e_sha256 e) w (snd (sso_create e rq inp v))"
  unfolding sso_create_def split_def Let_def by (intro evolve; simp)

lemma save_sso_config_evolves [evolve]:
  "evolves sha w v \<Longrightarrow> evolves sha w (save_sso_config c v)"
  unfolding save_sso_config_def split_def Let_def by (intro evolve; simp)

lemma sso_update_evolves [evolve]:
  "evolves (e_sha256 e) w v \<Longrightarrow> evolves (e_sha256 e) w (snd (sso_update e rq pk inp v))"
  unfolding sso_update_def split_def Let_def by (intro evolve; simp)

lemma sso_destroy_evolves [evolve]:
  "evolves sha w v \<Longrightarrow> evolves sha w (snd (sso_destroy rq pk v))"
  unfolding sso_destroy_def split_def Let_def by (intro evolve; simp)

lemma regenerate_scim_token_evolves [evolve]:
  "evolves (e_sha256 e) w v \<Longrightarrow> evolves (e_sha256 e) w (snd (regenerate_scim_token e rq pk v))"
  unfolding regenerate_scim_token_def Let_def by (intro evolve; simp add: save_sso_config_def)

lemma acs_with_evolves [evolve]:
  "evolves (e_sha256 e) w v \<Longrightarrow> evolves (e_sha256 e) w (snd (acs_with e l config saml rq h project_id v))"
  unfolding acs_with_def split_def Let_def by (intro evolve; simp)

lemma sso_acs_evolves [evolve]:
  "evolves (e_sha256 e) w v \<Longrightarrow> evolves (e_sha256 e) w (snd (sso_acs e l rq h project_id v))"
  unfolding sso_acs_def split_def Let_def by (intro evolve; simp)

lemma scim_users_get_evolves [evolve]:
  "evolves (e_sha256 e) w v \<Longrightarrow> evolves (e_sha256 e) w (snd (scim_users_get e rq user_id filter_expr v))"
  unfolding scim_users_get_def split_def Let_def by (intro evolve; simp)

lemma created_or_400_evolves [evolve]:
  "evolves sha w (snd r) \<Longrightarrow> evolves sha w (snd (created_or_400 r))"
  unfolding created_or_400_def split_def by (intro evolve; simp)

lemma scim_users_post_evolves [evolve]:
  "evolves (e_sha256 e) w v \<Longrightarrow> evolves (e_sha256 e) w (snd (scim_users_post e rq data v))"
  unfolding scim_users_post_def split_def Let_def by (intro evolve; simp)

lemma scim_users_put_evolves [evolve]:
  "evolves (e_sha256 e) w v \<Longrightarrow> evolves (e_sha256 e) w (snd (scim_users_put e rq user_id data v))"
  unfolding scim_users_put_def split_def Let_def by (intro evolve; simp)

lemma scim_users_patch_evolves [evolve]:
  "evolves (e_sha256 e) w v \<Longrightarrow> evolves (e_sha256 e) w (snd (scim_users_patch e rq user_id data v))"
  unfolding scim_users_patch_def split_def Let_def by (intro evolve; simp)

lemma scim_users_delete_evolves [evolve]:
  "evolves (e_sha256 e) w v \<Longrightarrow> evolves (e_sha256 e) w (snd (scim_users_delete e rq user_id v))"
  unfolding scim_users_delete_def split_def Let_def by (intro evolve; simp)

lemma scim_groups_post_evolves [evolve]:
  "evolves (e_sha256 e) w v \<Longrightarrow> evolves (e_sha256 e) w (snd (scim_groups_post e rq data v))"
  unfolding scim_groups_post_def split_def Let_def by (intro evolve; simp)

lemma scim_groups_put_evolves [evolve]:
  "evolves (e_sha256 e) w v \<Longrightarrow> evolves (e_sha256 e) w (snd (scim_groups_put e rq group_id data v))"
  unfolding scim_groups_put_def split_def Let_def by (intro evolve; simp)

lemma scim_groups_patch_evolves [evolve]:
  "evolves (e_sha256 e) w v \<Longrightarrow> evolves (e_sha256 e) w (snd (scim_groups_patch e rq group_id data v))"
  unfolding scim_groups_patch_def split_def Let_def by (intro evolve; simp)

lemma scim_groups_delete_evolves [evolve]:
  "evolves (e_sha256 e) w v \<Longrightarrow> evolves (e_sha256 e) w (snd (scim_groups_delete e rq group_id v))"
  unfolding scim_groups_delete_def split_def Let_def by (intro evolve; simp)

section \<open>Tenants and projects\<close>

lemma save_tenant_evolves [evolve]:
  "evolves sha w v \<Longrightarrow> evolves sha w (save_tenant t v)"
  unfolding save_tenant_def split_def Let_def by (intro evolve; simp)

lemma set_tenant_status_evolves [evolve]:
  "evolves (e_sha256 e) w v \<Longrightarrow> evolves (e_sha256 e) w (snd (set_tenant_status e status already changed rq pk v))"
  unfolding set_tenant_status_def split_def Let_def by (intro evolve; simp)

lemma tenant_suspend_evolves [evolve]:
  "evolves (e_sha256 e) w v \<Longrightarrow> evolves (e_sha256 e) w (snd (tenant_suspend e x1 x2 v))"
  unfolding tenant_suspend_def split_def Let_def by (intro evolve; simp)

lemma tenant_activate_evolves [evolve]:
  "evolves (e_sha256 e) w v \<Longrightarrow> evolves (e_sha256 e) w (snd (tenant_activate e x1 x2 v))"
  unfolding tenant_activate_def split_def Let_def by (intro evolve; simp)

lemma cascade_tenant_evolves [evolve]:
  "evolves sha w v \<Longrightarrow> evolves sha w (cascade_tenant t v)"
  unfolding cascade_tenant_def split_def Let_def by (intro evolve; simp)

lemma delete_tenant_evolves [evolve]:
  "evolves sha w v \<Longrightarrow> evolves sha w (snd (delete_tenant t v))"
  unfolding delete_tenant_def split_def Let_def by (intro evolve; simp)

lemma admin_suspend_evolves [evolve]:
  "evolves (e_sha256 e) w v \<Longrightarrow> evolves (e_sha256 e) w (snd (admin_suspend e rq pk v))"
  unfolding admin_suspend_def split_def Let_def by (intro evolve; simp)

lemma admin_activate_evolves [evolve]:
  "evolves (e_sha256 e) w v \<Longrightarrow> evolves (e_sha256 e) w (snd (admin_activate e rq pk v))"
  unfolding admin_activate_def split_def Let_def by (intro evolve; simp)

lemma admin_destroy_evolves [evolve]:
  "evolves sha w v \<Longrightarrow> evolves sha w (snd (admin_destroy rq pk v))"
  unfolding admin_destroy_def split_def Let_def by (intro evolve; simp)

lemma admin_update_evolves [evolve]:
  "evolves (e_sha256 e) w v \<Longrightarrow> evolves (e_sha256 e) w (snd (admin_update e rq pk inp v))"
  unfolding admin_update_def split_def Let_def by (intro evolve; simp)

lemma admin_impersonate_evolves [evolve]:
  "evolves (e_sha256 e) w v \<Longrightarrow> evolves (e_sha256 e) w (snd (admin_impersonate e rq pk user_id v))"
  unfolding admin_impersonate_def split_def Let_def by (intro evolve; simp)

lemma project_create_evolves [evolve]:
  "evolves (e_sha256 e) w v \<Longrightarrow> evolves (e_sha256 e) w (snd (project_create e rq name slug description is_active v))"
  unfolding project_create_def split_def Let_def by (intro evolve; simp)

lemma save_project_evolves [evolve]:
  "evolves sha w v \<Longrightarrow> evolves sha w (save_project p v)"
  unfolding save_project_def split_def Let_def by (intro evolve; simp)

lemma project_update_evolves [evolve]:
  "evolves (e_sha256 e) w v \<Longrightarrow> evolves (e_sha256 e) w (snd (project_update e rq pk name slug description is_active v))"
  unfolding project_update_def split_def Let_def by (intro evolve; simp)

lemma project_destroy_evolves [evolve]:
  "evolves (e_sha256 e) w v \<Longrightarrow> evolves (e_sha256 e) w (snd (project_destroy e rq pk v))"
  unfolding project_destroy_def split_def Let_def by (intro evolve; simp)

section \<open>Middleware\<close>

lemma set_rls_context_evolves [evolve]:
  "evolves sha w v \<Longrightarrow> evolves sha w (set_rls_context t v)"
  unfolding set_rls_context_def split_def Let_def by (intro evolve; simp)

lemma count_request_evolves [evolve]:
  "evolves (e_sha256 e) w v \<Longrightarrow> evolves (e_sha256 e) w (snd (count_request e cache_up key v))"
  unfolding count_request_def split_def Let_def by (intro evolve; simp)

lemma rate_limit_evolves:
  assumes view: "\<And>rq v. evolves sha w v \<Longrightarrow> evolves sha w (snd (view rq v))" and "evolves sha w v"
  shows "evolves sha w (snd (rate_limit_middleware e up view rq v))"
  unfolding rate_limit_middleware_def count_request_def split_def Let_def by (intro evolve view assms(2); simp)

lemma project_evolves:
  assumes view: "\<And>rq v. evolves sha w v \<Longrightarrow> evolves sha w (snd (view rq v))" and "evolves sha w v"
  shows "evolves sha w (snd (project_middleware view rq v))"
  unfolding project_middleware_def split_def Let_def by (intro evolve view assms(2); simp)

lemma tenant_evolves:
  assumes view: "\<And>rq v. evolves sha w v \<Longrightarrow> evolves sha w (snd (view rq v))" and "evolves sha w v"
  shows "evolves sha w (snd (tenant_middleware view rq v))"
  unfolding tenant_middleware_def split_def Let_def by (intro evolve view assms(2); simp)

lemma serve_evolves:
  assumes "\<And>rq v. evolves sha w v \<Longrightarrow> evolves sha w (snd (view rq v))" "evolves sha w v"
  shows "evolves sha w (snd (serve e up view rq v))"
  unfolding serve_def by (intro tenant_evolves project_evolves rate_limit_evolves assms)

end
