(* ===== verification/IncidentEdits.thy ===== *)
theory IncidentEdits
  imports IncidentViews Retention
begin

text \<open>
  The generic endpoints of the incident viewsets that \<open>ModelViewSet\<close> provides: creating, replacing
  (PUT), changing (PATCH) and deleting severities, states, incidents, escalation policies and
  workflow rules, through the serializers of \<open>apps/incidents/serializers.py\<close>. A field a payload
  does not have is \<open>None\<close>; \<open>partial\<close> tells PATCH from PUT. Payload fields have their types and
  lengths already.
\<close>

section \<open>States and severities\<close>

definition save_state :: "incident_state \<Rightarrow> world \<Rightarrow> incident_state result \<times> world" where
  "save_state s w =
     (if exists_row (\<lambda>x. st_project x = st_project s \<and> st_name x = st_name s \<and> st_id x \<noteq> st_id s) (w_states w)
      then (Raise (IntegrityError ''unique_incident_state_per_project''), w)
      else (Ok s, w\<lparr>w_states := update_where (\<lambda>x. st_id x = st_id s) (\<lambda>_. s) (w_states w)\<rparr>))"

definition state_partial_update ::
  "env \<Rightarrow> request \<Rightarrow> uuid \<Rightarrow> string option \<Rightarrow> string option \<Rightarrow> nat option \<Rightarrow> bool option \<Rightarrow> world \<Rightarrow>
     incident_state result \<times> world" where
  "state_partial_update e rq pk name color ord resolved w =
     proceed w
       (bind_result (viewset_get w state_permission_map ''partial_update'' rq st_id (state_queryset w rq) pk) (\<lambda>s.
          if st_is_system s
          then ValidationError ''System states cannot be modified. Create a custom state instead.'' else Ok s))
       (\<lambda>s. save_state
          (s\<lparr>st_name := given name (st_name s), st_color := given color (st_color s),
             st_order := given ord (st_order s),
             st_is_resolved_state := given resolved (st_is_resolved_state s), st_updated_at := e_now e\<rparr>) w)"

definition severity_create ::
  "env \<Rightarrow> request \<Rightarrow> string \<Rightarrow> string option \<Rightarrow> nat option \<Rightarrow> world \<Rightarrow> incident_severity result \<times> world" where
  "severity_create e rq name color ord w =
     proceed w
       (bind_result (require_permission w severity_permission_map ''create'' rq None) (\<lambda>_.
          case req_project rq of None \<Rightarrow> Raise (TypeError ''no attribute tenant'') | Some p \<Rightarrow> Ok p))
       (\<lambda>p. if exists_row (\<lambda>s. sv_project s = pj_id p \<and> sv_name s = name) (w_severities w)
            then (Raise (IntegrityError ''unique_incident_severity_per_project''), w)
            else
              (let s = \<lparr>sv_id = w_next w, sv_tenant = pj_tenant p, sv_project = pj_id p, sv_name = name,
                        sv_color = given color ''#6b7280'', sv_order = given ord 0, sv_is_system = False,
                        sv_created_at = e_now e, sv_updated_at = e_now e\<rparr>
               in (Ok s, w\<lparr>w_severities := w_severities w @ [s], w_next := Suc (w_next w)\<rparr>)))"

definition save_severity :: "incident_severity \<Rightarrow> world \<Rightarrow> incident_severity result \<times> world" where
  "save_severity s w =
     (if exists_row (\<lambda>x. sv_project x = sv_project s \<and> sv_name x = sv_name s \<and> sv_id x \<noteq> sv_id s) (w_severities w)
      then (Raise (IntegrityError ''unique_incident_severity_per_project''), w)
      else (Ok s, w\<lparr>w_severities := update_where (\<lambda>x. sv_id x = sv_id s) (\<lambda>_. s) (w_severities w)\<rparr>))"

definition severity_update ::
  "env \<Rightarrow> request \<Rightarrow> bool \<Rightarrow> uuid \<Rightarrow> string option \<Rightarrow> string option \<Rightarrow> nat option \<Rightarrow> world \<Rightarrow>
     incident_severity result \<times> world" where
  "severity_update e rq partial pk name color ord w =
     proceed w
       (bind_result (viewset_get w severity_permission_map (put_action partial) rq sv_id (severity_queryset w rq) pk) (\<lambda>s.
        bind_result (required partial [name \<noteq> None]) (\<lambda>_.
          if sv_is_system s
          then ValidationError ''System severities cannot be modified. Create a custom severity instead.'' else Ok s)))
       (\<lambda>s. save_severity
          (s\<lparr>sv_name := given name (sv_name s), sv_color := given color (sv_color s),
             sv_order := given ord (sv_order s), sv_updated_at := e_now e\<rparr>) w)"

section \<open>Incidents\<close>

record incident_patch =
  ip_title :: "string option"
  ip_description :: "string option"
  ip_severity :: "uuid option"
  ip_state :: "uuid option"
  ip_monitor :: "uuid option option"
  ip_assigned_to :: "uuid option option"
  ip_team :: "uuid option option"
  ip_visible :: "bool option"

definition no_change :: incident_patch where
  "no_change = \<lparr>ip_title = None, ip_description = None, ip_severity = None, ip_state = None,
                ip_monitor = None, ip_assigned_to = None, ip_team = None, ip_visible = None\<rparr>"

text \<open>The teams a payload may name are those of the request's project.\<close>

definition valid_team :: "world \<Rightarrow> request \<Rightarrow> uuid option option \<Rightarrow> unit result" where
  "valid_team w rq team =
     valid_pk tm_id
       (case req_project rq of
          Some p \<Rightarrow> filter (\<lambda>t. tm_project t = pj_id p) (w_teams w)
        | None \<Rightarrow> w_teams w)
       (given team None)"

definition validate_incident_patch ::
  "world \<Rightarrow> request \<Rightarrow> bool \<Rightarrow> incident \<Rightarrow> incident_patch \<Rightarrow> unit result" where
  "validate_incident_patch w rq partial i inp =
     bind_result (required partial [ip_title inp \<noteq> None, ip_severity inp \<noteq> None, ip_state inp \<noteq> None]) (\<lambda>_.
     bind_result (valid_pk sv_id (w_severities w) (ip_severity inp)) (\<lambda>_.
     bind_result (valid_pk st_id (w_states w) (ip_state inp)) (\<lambda>_.
     bind_result (valid_pk mo_id (w_monitors w) (given (ip_monitor inp) None)) (\<lambda>_.
     bind_result (valid_pk usr_id (w_users w) (given (ip_assigned_to inp) None)) (\<lambda>_.
     bind_result (valid_team w rq (ip_team inp)) (\<lambda>_.
       validate_incident w rq (Some (given (ip_severity inp) (ic_severity i)))
         (Some (given (ip_state inp) (ic_state i)))))))))"

definition patched_incident :: "env \<Rightarrow> incident_patch \<Rightarrow> incident \<Rightarrow> incident" where
  "patched_incident e inp i =
     i\<lparr>ic_title := given (ip_title inp) (ic_title i),
       ic_description := given (ip_description inp) (ic_description i),
       ic_severity := given (ip_severity inp) (ic_severity i),
       ic_state := given (ip_state inp) (ic_state i),
       ic_monitor := given (ip_monitor inp) (ic_monitor i),
       ic_assigned_to := given (ip_assigned_to inp) (ic_assigned_to i),
       ic_team := given (ip_team inp) (ic_team i),
       ic_is_visible_on_status_page := given (ip_visible inp) (ic_is_visible_on_status_page i),
       ic_updated_at := e_now e\<rparr>"

text \<open>No event, no workflow rule, no time of resolution: the row and its audit entry only.\<close>

definition incident_update ::
  "env \<Rightarrow> request \<Rightarrow> bool \<Rightarrow> uuid \<Rightarrow> incident_patch \<Rightarrow> world \<Rightarrow> incident result \<times> world" where
  "incident_update e rq partial pk inp w =
     proceed w
       (bind_result (incident_get w rq (put_action partial) (if partial then PATCH else PUT) pk) (\<lambda>(u, i).
        bind_result (validate_incident_patch w rq partial i inp) (\<lambda>_. Ok i)))
       (\<lambda>i. let i1 = patched_incident e inp i
            in (Ok i1, on_incident_save e i1 False
                  (w\<lparr>w_incidents := update_where (\<lambda>x. ic_id x = ic_id i) (\<lambda>_. i1) (w_incidents w)\<rparr>)))"

definition incident_destroy :: "request \<Rightarrow> uuid \<Rightarrow> world \<Rightarrow> response result \<times> world" where
  "incident_destroy rq pk w =
     proceed w (incident_get w rq ''destroy'' DELETE pk)
       (\<lambda>(u, i). (Ok (Response 204 JNull), delete_incidents (\<lambda>x. ic_id x = ic_id i) w))"

section \<open>Escalation policies\<close>

record policy_input =
  pp_name :: "string option"
  pp_description :: "string option"
  pp_is_default :: "bool option"
  pp_is_active :: "bool option"
  pp_severity_names :: "string list option"
  pp_team :: "uuid option option"

text \<open>A new policy takes the team \<open>resolve_team_for_create\<close> finds for it.\<close>

definition policy_create ::
  "env \<Rightarrow> request \<Rightarrow> policy_input \<Rightarrow> world \<Rightarrow> escalation_policy result \<times> world" where
  "policy_create e rq inp w =
     proceed w
       (bind_result (require_permission w escalation_permission_map ''create'' rq None) (\<lambda>u.
        bind_result (required False [pp_name inp \<noteq> None]) (\<lambda>_.
        bind_result (valid_team w rq (pp_team inp)) (\<lambda>_.
          case req_project rq of
            None \<Rightarrow> Raise (TypeError ''no attribute tenant'')
          | Some p \<Rightarrow>
              bind_result (resolve_team_for_create w rq u (given (pp_team inp) None) None (pp_team inp = Some None))
                (\<lambda>team. Ok (p, team))))))
       (\<lambda>(p, team).
          let x = \<lparr>ep_id = w_next w, ep_tenant = pj_tenant p, ep_project = pj_id p, ep_team = team,
                   ep_name = given (pp_name inp) [], ep_description = given (pp_description inp) [],
                   ep_is_default = given (pp_is_default inp) False, ep_is_active = given (pp_is_active inp) True,
                   ep_severity_names = given (pp_severity_names inp) [],
                   ep_created_at = e_now e, ep_updated_at = e_now e\<rparr>
          in (Ok x, w\<lparr>w_esc_policies := w_esc_policies w @ [x], w_next := Suc (w_next w)\<rparr>))"

definition policy_update ::
  "env \<Rightarrow> request \<Rightarrow> bool \<Rightarrow> uuid \<Rightarrow> policy_input \<Rightarrow> world \<Rightarrow> escalation_policy result \<times> world" where
  "policy_update e rq partial pk inp w =
     proceed w
       (bind_result (viewset_get w escalation_permission_map (put_action partial) rq ep_id
                       (escalation_policy_queryset w rq None) pk) (\<lambda>x.
        bind_result (required partial [pp_name inp \<noteq> None]) (\<lambda>_.
        bind_result (valid_team w rq (pp_team inp)) (\<lambda>_. Ok x))))
       (\<lambda>x. let x1 = x\<lparr>ep_name := given (pp_name inp) (ep_name x),
                      ep_description := given (pp_description inp) (ep_description x),
                      ep_is_default := given (pp_is_default inp) (ep_is_default x),
                      ep_is_active := given (pp_is_active inp) (ep_is_active x),
                      ep_severity_names := given (pp_severity_names inp) (ep_severity_names x),
                      ep_team := given (pp_team inp) (ep_team x), ep_updated_at := e_now e\<rparr>
            in (Ok x1, w\<lparr>w_esc_policies := update_where (\<lambda>y. ep_id y = ep_id x) (\<lambda>_. x1) (w_esc_policies w)\<rparr>))"

text \<open>Its steps and the escalations under way by it go with a policy.\<close>

definition policy_destroy :: "request \<Rightarrow> uuid \<Rightarrow> world \<Rightarrow> response result \<times> world" where
  "policy_destroy rq pk w =
     proceed w
       (viewset_get w escalation_permission_map ''destroy'' rq ep_id (escalation_policy_queryset w rq None) pk)
       (\<lambda>x. (Ok (Response 204 JNull),
             w\<lparr>w_esc_policies := delete_where (\<lambda>y. ep_id y = ep_id x) (w_esc_policies w),
               w_esc_steps := delete_where (\<lambda>s. es_policy s = ep_id x) (w_esc_steps w),
               w_esc_states := delete_where (\<lambda>s. et_policy s = ep_id x) (w_esc_states w)\<rparr>))"

definition list_steps :: "world \<Rightarrow> request \<Rightarrow> uuid \<Rightarrow> escalation_step list result" where
  "list_steps w rq pk =
     bind_result (viewset_get w escalation_permission_map ''steps'' rq ep_id (escalation_policy_queryset w rq None) pk)
       (\<lambda>x. Ok (order_by es_order (filter (\<lambda>s. es_policy s = ep_id x) (w_esc_steps w))))"

section \<open>Workflow rules\<close>

definition rule_permission_map :: "(string \<times> string) list" where
  "rule_permission_map =
     [(''list'', ''incident:read''), (''retrieve'', ''incident:read''), (''create'', ''incident:update''),
      (''update'', ''incident:update''), (''partial_update'', ''incident:update''), (''destroy'', ''incident:update'')]"

definition rule_queryset :: "world \<Rightarrow> request \<Rightarrow> workflow_rule list" where
  "rule_queryset w rq =
     (case req_project rq of
        None \<Rightarrow> []
      | Some p \<Rightarrow> order_by wr_name (filter (\<lambda>r. wr_project r = pj_id p) (w_rules w)))"

record rule_input =
  ri_name :: "string option"
  ri_trigger :: "rule_trigger option"
  ri_conditions :: "json option"
  ri_actions :: "json option"
  ri_is_active :: "bool option"

definition validate_rule :: "bool \<Rightarrow> rule_input \<Rightarrow> json list option result" where
  "validate_rule partial inp =
     bind_result (required partial [ri_name inp \<noteq> None, ri_trigger inp \<noteq> None]) (\<lambda>_.
       case ri_actions inp of
         None \<Rightarrow> Ok None
       | Some v \<Rightarrow> bind_result (validate_actions v) (\<lambda>xs. Ok (Some xs)))"

definition rule_create :: "env \<Rightarrow> request \<Rightarrow> rule_input \<Rightarrow> world \<Rightarrow> workflow_rule result \<times> world" where
  "rule_create e rq inp w =
     proceed w
       (bind_result (require_permission w rule_permission_map ''create'' rq None) (\<lambda>_.
        bind_result (validate_rule False inp) (\<lambda>actions.
          case req_project rq of None \<Rightarrow> Raise (TypeError ''no attribute tenant'') | Some p \<Rightarrow> Ok (p, actions))))
       (\<lambda>(p, actions).
          let r = \<lparr>wr_id = w_next w, wr_tenant = pj_tenant p, wr_project = pj_id p,
                   wr_name = given (ri_name inp) [], wr_trigger = given (ri_trigger inp) IncidentCreated,
                   wr_conditions = given (ri_conditions inp) (JObj []), wr_actions = given actions [],
                   wr_is_active = given (ri_is_active inp) True,
                   wr_created_at = e_now e, wr_updated_at = e_now e\<rparr>
          in (Ok r, w\<lparr>w_rules := w_rules w @ [r], w_next := Suc (w_next w)\<rparr>))"

definition rule_update ::
  "env \<Rightarrow> request \<Rightarrow> bool \<Rightarrow> uuid \<Rightarrow> rule_input \<Rightarrow> world \<Rightarrow> workflow_rule result \<times> world" where
  "rule_update e rq partial pk inp w =
     proceed w
       (bind_result (viewset_get w rule_permission_map (put_action partial) rq wr_id (rule_queryset w rq) pk) (\<lambda>r.
        bind_result (validate_rule partial inp) (\<lambda>actions. Ok (r, actions))))
       (\<lambda>(r, actions).
          let r1 = r\<lparr>wr_name := given (ri_name inp) (wr_name r), wr_trigger := given (ri_trigger inp) (wr_trigger r),
                     wr_conditions := given (ri_conditions inp) (wr_conditions r),
                     wr_actions := given actions (wr_actions r),
                     wr_is_active := given (ri_is_active inp) (wr_is_active r), wr_updated_at := e_now e\<rparr>
          in (Ok r1, w\<lparr>w_rules := update_where (\<lambda>x. wr_id x = wr_id r) (\<lambda>_. r1) (w_rules w)\<rparr>))"

definition rule_destroy :: "request \<Rightarrow> uuid \<Rightarrow> world \<Rightarrow> response result \<times> world" where
  "rule_destroy rq pk w =
     proceed w (viewset_get w rule_permission_map ''destroy'' rq wr_id (rule_queryset w rq) pk)
       (\<lambda>r. (Ok (Response 204 JNull),
             w\<lparr>w_rules := delete_where (\<lambda>x. wr_id x = wr_id r) (w_rules w)\<rparr>))"

end
