(* ===== verification/MonitorEdits.thy ===== *)
theory MonitorEdits
  imports MonitorViews
begin

text \<open>
  The generic endpoints of \<open>apps/monitoring/views.py\<close> that \<open>ModelViewSet\<close> provides: changing some
  fields of a monitor (PATCH), and replacing or changing a group. The monitor of a field that is not
  given keeps its value, and is validated with it where the serializer falls back to the instance.
\<close>

record monitor_patch =
  mp_name :: "string option"
  mp_type :: "monitor_type option"
  mp_url :: "string option"
  mp_method :: "string option"
  mp_interval_seconds :: "nat option"
  mp_timeout_seconds :: "nat option"
  mp_retries :: "nat option"
  mp_probe_locations :: "string list option"
  mp_criteria :: "json option"
  mp_steps :: "json list option"
  mp_headers :: "(string \<times> json) list option"
  mp_body :: "string option"
  mp_alert_on_failure :: "bool option"
  mp_is_paused :: "bool option"
  mp_tags :: "string list option"
  mp_team :: "uuid option option"

text \<open>\<open>validate\<close> sees the payload over the instance; the method comes back in capitals when given.\<close>

definition validate_monitor_patch ::
  "world \<Rightarrow> request \<Rightarrow> monitor \<Rightarrow> monitor_patch \<Rightarrow> string option result" where
  "validate_monitor_patch w rq m inp =
     bind_result (case mp_method inp of
                    None \<Rightarrow> Ok None
                  | Some v \<Rightarrow> bind_result (validate_method v) (\<lambda>meth. Ok (Some meth))) (\<lambda>meth.
       if \<not> team_in_project w rq (given (mp_team inp) None) then ValidationError ''team_id''
       else bind_result (validate_target (given (mp_type inp) (mo_type m)) (given (mp_url inp) (mo_url m))
                           (given (mp_steps inp) (mo_steps m))) (\<lambda>_. Ok meth))"

definition patched_monitor :: "env \<Rightarrow> string option \<Rightarrow> monitor_patch \<Rightarrow> monitor \<Rightarrow> monitor" where
  "patched_monitor e meth inp m =
     m\<lparr>mo_name := given (mp_name inp) (mo_name m), mo_type := given (mp_type inp) (mo_type m),
       mo_url := given (mp_url inp) (mo_url m), mo_method := given meth (mo_method m),
       mo_interval_seconds := given (mp_interval_seconds inp) (mo_interval_seconds m),
       mo_timeout_seconds := given (mp_timeout_seconds inp) (mo_timeout_seconds m),
       mo_retries := given (mp_retries inp) (mo_retries m),
       mo_probe_locations := given (mp_probe_locations inp) (mo_probe_locations m),
       mo_criteria := given (mp_criteria inp) (mo_criteria m), mo_steps := given (mp_steps inp) (mo_steps m),
       mo_headers := given (mp_headers inp) (mo_headers m), mo_body := given (mp_body inp) (mo_body m),
       mo_alert_on_failure := given (mp_alert_on_failure inp) (mo_alert_on_failure m),
       mo_is_paused := given (mp_is_paused inp) (mo_is_paused m), mo_tags := given (mp_tags inp) (mo_tags m),
       mo_team := given (mp_team inp) (mo_team m), mo_updated_at := e_now e\<rparr>"

definition monitor_partial_update ::
  "env \<Rightarrow> request \<Rightarrow> uuid \<Rightarrow> monitor_patch \<Rightarrow> world \<Rightarrow> monitor result \<times> world" where
  "monitor_partial_update e rq pk inp w =
     proceed w
       (bind_result (monitor_get w rq ''partial_update'' no_filter pk) (\<lambda>m.
        bind_result (validate_monitor_patch w rq m inp) (\<lambda>meth. Ok (m, meth))))
       (\<lambda>(m, meth). let m1 = patched_monitor e meth inp m in (Ok m1, save_monitor e m1 w))"

record group_input =
  gi_name :: "string option"
  gi_description :: "string option"
  gi_monitors :: "uuid list option"
  gi_team :: "uuid option option"

text \<open>The team of the payload must be the project's, but the caller need not be a member of it.\<close>

definition validate_group :: "world \<Rightarrow> request \<Rightarrow> bool \<Rightarrow> group_input \<Rightarrow> unit result" where
  "validate_group w rq partial inp =
     bind_result (required partial [gi_name inp \<noteq> None]) (\<lambda>_.
       if \<not> list_all (\<lambda>i. monitor_of w i \<noteq> None) (given (gi_monitors inp) []) then ValidationError ''monitors''
       else if \<not> team_in_project w rq (given (gi_team inp) None) then ValidationError ''team_id''
       else Ok ())"

definition group_update ::
  "env \<Rightarrow> request \<Rightarrow> bool \<Rightarrow> uuid \<Rightarrow> group_input \<Rightarrow> world \<Rightarrow> monitor_group result \<times> world" where
  "group_update e rq partial pk inp w =
     proceed w
       (bind_result (group_get w rq (put_action partial) pk) (\<lambda>g.
        bind_result (validate_group w rq partial inp) (\<lambda>_. Ok g)))
       (\<lambda>g. let g1 = g\<lparr>mg_name := given (gi_name inp) (mg_name g),
                      mg_description := given (gi_description inp) (mg_description g),
                      mg_monitors := given (gi_monitors inp) (mg_monitors g),
                      mg_team := given (gi_team inp) (mg_team g), mg_updated_at := e_now e\<rparr>
            in (Ok g1, w\<lparr>w_monitor_groups := update_where (\<lambda>x. mg_id x = mg_id g) (\<lambda>_. g1) (w_monitor_groups w)\<rparr>))"

definition group_json :: "world \<Rightarrow> monitor_group \<Rightarrow> json" where
  "group_json w g = JObj
     [(''id'', JUuid (mg_id g)), (''name'', JStr (mg_name g)), (''description'', JStr (mg_description g)),
      (''monitors'', JList (map JUuid (mg_monitors g))), (''monitor_count'', JInt (int (length (mg_monitors g)))),
      (''team_id'', json_opt_uuid (mg_team g)), (''team_name'', team_name_json w (mg_team g)),
      (''created_at'', JTime (mg_created_at g)), (''updated_at'', JTime (mg_updated_at g))]"

end
