(* ===== verification/RbacEdits.thy ===== *)
theory RbacEdits
  imports RbacViews Scim MonitorViews
begin

text \<open>
  The generic endpoints of the viewsets of \<open>apps/rbac/views.py\<close>: changing a role (PATCH), teams and
  resource policies from creation to deletion, and the listings.
\<close>

section \<open>Roles\<close>

definition validate_role_patch :: "string list option \<Rightarrow> role \<Rightarrow> unit result" where
  "validate_role_patch permissions r =
     bind_result (case permissions of Some ps \<Rightarrow> validate_permissions ps | None \<Rightarrow> Ok ()) (\<lambda>_.
       if ro_is_system r
       then ValidationError ''System roles cannot be modified. Create a custom role instead.'' else Ok ())"

definition role_partial_update ::
  "env \<Rightarrow> request \<Rightarrow> uuid \<Rightarrow> string option \<Rightarrow> string option \<Rightarrow> string list option \<Rightarrow> world \<Rightarrow> role result \<times> world" where
  "role_partial_update e rq pk name description permissions w =
     proceed w
       (bind_result (viewset_get w role_permission_map ''partial_update'' rq ro_id (role_queryset w rq) pk) (\<lambda>r.
        bind_result (validate_role_patch permissions r) (\<lambda>_. Ok r)))
       (\<lambda>r. let r1 = r\<lparr>ro_name := given name (ro_name r), ro_description := given description (ro_description r),
                     ro_permissions := given permissions (ro_permissions r), ro_updated_at := e_now e\<rparr>
            in if exists_row (\<lambda>x. ro_project x = ro_project r \<and> ro_name x = ro_name r1 \<and> ro_id x \<noteq> ro_id r) (w_roles w)
               then (Raise (IntegrityError ''unique_role_name_per_project''), w)
               else (Ok r1, on_role_save e r1 False
                       (w\<lparr>w_roles := update_where (\<lambda>x. ro_id x = ro_id r) (\<lambda>_. r1) (w_roles w)\<rparr>)))"

text \<open>\<open>permissions_list\<close> has no entry in the permission map: any authenticated caller may read it.\<close>

definition permissions_list :: "world \<Rightarrow> request \<Rightarrow> string list result" where
  "permissions_list w rq =
     bind_result (require_permission w role_permission_map ''permissions_list'' rq None) (\<lambda>_. Ok ALL_PERMISSIONS)"

section \<open>Teams\<close>

definition team_name_taken :: "world \<Rightarrow> uuid \<Rightarrow> string \<Rightarrow> uuid option \<Rightarrow> bool" where
  "team_name_taken w project name except =
     exists_row (\<lambda>t. tm_project t = project \<and> tm_name t = name \<and> Some (tm_id t) \<noteq> except) (w_teams w)"

definition team_create ::
  "env \<Rightarrow> request \<Rightarrow> string \<Rightarrow> string option \<Rightarrow> world \<Rightarrow> team result \<times> world" where
  "team_create e rq name description w =
     proceed w
       (bind_result (require_permission w team_permission_map ''create'' rq None) (\<lambda>_. require_project rq))
       (\<lambda>p. if team_name_taken w (pj_id p) name None
            then (Raise (IntegrityError ''unique_team_name_per_project''), w)
            else
              (let t = \<lparr>tm_id = w_next w, tm_tenant = pj_tenant p, tm_project = pj_id p, tm_name = name,
                        tm_description = given description [], tm_created_at = e_now e, tm_updated_at = e_now e\<rparr>
               in (Ok t, w\<lparr>w_teams := w_teams w @ [t], w_next := Suc (w_next w)\<rparr>)))"

definition team_update ::
  "env \<Rightarrow> request \<Rightarrow> bool \<Rightarrow> uuid \<Rightarrow> string option \<Rightarrow> string option \<Rightarrow> world \<Rightarrow> team result \<times> world" where
  "team_update e rq partial pk name description w =
     proceed w
       (bind_result (viewset_get w team_permission_map (put_action partial) rq tm_id (team_queryset w rq) pk) (\<lambda>t.
        bind_result (required partial [name \<noteq> None]) (\<lambda>_. Ok t)))
       (\<lambda>t. let t1 = t\<lparr>tm_name := given name (tm_name t), tm_description := given description (tm_description t),
                     tm_updated_at := e_now e\<rparr>
            in if team_name_taken w (tm_project t) (tm_name t1) (Some (tm_id t))
               then (Raise (IntegrityError ''unique_team_name_per_project''), w)
               else (Ok t1, w\<lparr>w_teams := update_where (\<lambda>x. tm_id x = tm_id t) (\<lambda>_. t1) (w_teams w)\<rparr>))"

text \<open>
  \<open>delete_team\<close> (of \<open>Scim\<close>, which deletes teams as groups): the memberships go with the team, and what
  belonged to it belongs to no team afterwards, which is how the resources every member of the
  project sees are marked.
\<close>

definition team_destroy :: "request \<Rightarrow> uuid \<Rightarrow> world \<Rightarrow> response result \<times> world" where
  "team_destroy rq pk w =
     proceed w (viewset_get w team_permission_map ''destroy'' rq tm_id (team_queryset w rq) pk)
       (\<lambda>t. (Ok (Response 204 JNull), delete_team (tm_id t) w))"

text \<open>The GET branch of \<open>members\<close>.\<close>

definition team_member_json :: "world \<Rightarrow> team_membership \<Rightarrow> json" where
  "team_member_json w m = JObj
     [(''id'', JUuid (mb_id m)),
      (''user'', (case user_of w (mb_user m) of
                    Some u \<Rightarrow> JObj [(''id'', JUuid (usr_id u)), (''email'', JStr (usr_email u)),
                                    (''full_name'', JStr (full_name u))]
                  | None \<Rightarrow> JNull)),
      (''role'', (case role_of w (mb_role m) of
                    Some r \<Rightarrow> JObj [(''id'', JUuid (ro_id r)), (''name'', JStr (ro_name r))]
                  | None \<Rightarrow> JNull)),
      (''granted_by'', (case mb_granted_by m of
                          None \<Rightarrow> JNull
                        | Some g \<Rightarrow>
                            (case user_of w g of
                               Some u \<Rightarrow> JObj [(''id'', JUuid (usr_id u)), (''email'', JStr (usr_email u))]
                             | None \<Rightarrow> JNull))),
      (''created_at'', JTime (mb_created_at m))]"

definition list_team_members :: "world \<Rightarrow> request \<Rightarrow> uuid \<Rightarrow> json result" where
  "list_team_members w rq pk =
     bind_result (viewset_get w team_permission_map ''members'' rq tm_id (team_queryset w rq) pk) (\<lambda>t.
       Ok (JList (map (team_member_json w) (filter (\<lambda>m. mb_team m = tm_id t) (w_team_memberships w)))))"

section \<open>API keys\<close>

text \<open>The document of a key has its prefix; neither the key nor its hash is in it.\<close>

definition api_key_json :: "env \<Rightarrow> api_key \<Rightarrow> json" where
  "api_key_json e k = JObj
     [(''id'', JUuid (ak_id k)), (''name'', JStr (ak_name k)), (''key_prefix'', JStr (ak_key_prefix k)),
      (''permissions'', JList (map JStr (ak_permissions k))),
      (''is_active'', JBool (api_key_is_active (e_now e) k)),
      (''last_used_at'', json_opt_time (ak_last_used_at k)), (''expires_at'', json_opt_time (ak_expires_at k)),
      (''revoked_at'', json_opt_time (ak_revoked_at k)), (''created_at'', JTime (ak_created_at k))]"

definition api_key_list :: "env \<Rightarrow> world \<Rightarrow> request \<Rightarrow> json result" where
  "api_key_list e w rq =
     bind_result (require_permission w api_key_permission_map ''list'' rq None) (\<lambda>_.
       Ok (JList (map (api_key_json e) (api_key_queryset w rq))))"

section \<open>Resource policies\<close>

record resource_policy_input =
  yi_role :: "uuid option"
  yi_resource_type :: "string option"
  yi_resource_id :: "uuid option option"
  yi_effect :: "policy_effect option"
  yi_conditions :: "json option"

text \<open>The role may be any role of the server.\<close>

definition validate_policy :: "world \<Rightarrow> bool \<Rightarrow> resource_policy_input \<Rightarrow> unit result" where
  "validate_policy w partial inp =
     bind_result (required partial [yi_role inp \<noteq> None, yi_resource_type inp \<noteq> None]) (\<lambda>_.
       valid_pk ro_id (w_roles w) (yi_role inp))"

definition resource_policy_create ::
  "env \<Rightarrow> request \<Rightarrow> resource_policy_input \<Rightarrow> world \<Rightarrow> resource_policy result \<times> world" where
  "resource_policy_create e rq inp w =
     proceed w
       (bind_result (require_permission w resource_policy_permission_map ''create'' rq None) (\<lambda>_.
        bind_result (validate_policy w False inp) (\<lambda>_. require_project rq)))
       (\<lambda>p. let x = \<lparr>rp_id = w_next w, rp_tenant = pj_tenant p, rp_project = pj_id p,
                     rp_role = given (yi_role inp) 0, rp_resource_type = given (yi_resource_type inp) [],
                     rp_resource_id = given (yi_resource_id inp) None,
                     rp_effect = given (yi_effect inp) EffectAllow,
                     rp_conditions = given (yi_conditions inp) (JObj []),
                     rp_created_at = e_now e, rp_updated_at = e_now e\<rparr>
            in (Ok x, w\<lparr>w_resource_policies := w_resource_policies w @ [x], w_next := Suc (w_next w)\<rparr>))"

definition resource_policy_update ::
  "env \<Rightarrow> request \<Rightarrow> bool \<Rightarrow> uuid \<Rightarrow> resource_policy_input \<Rightarrow> world \<Rightarrow> resource_policy result \<times> world" where
  "resource_policy_update e rq partial pk inp w =
     proceed w
       (bind_result (viewset_get w resource_policy_permission_map (put_action partial) rq rp_id
                       (resource_policy_queryset w rq None None) pk) (\<lambda>x.
        bind_result (validate_policy w partial inp) (\<lambda>_. Ok x)))
       (\<lambda>x. let x1 = x\<lparr>rp_role := given (yi_role inp) (rp_role x),
                      rp_resource_type := given (yi_resource_type inp) (rp_resource_type x),
                      rp_resource_id := given (yi_resource_id inp) (rp_resource_id x),
                      rp_effect := given (yi_effect inp) (rp_effect x),
                      rp_conditions := given (yi_conditions inp) (rp_conditions x), rp_updated_at := e_now e\<rparr>
            in (Ok x1, w\<lparr>w_resource_policies :=
                          update_where (\<lambda>y. rp_id y = rp_id x) (\<lambda>_. x1) (w_resource_policies w)\<rparr>))"

definition resource_policy_destroy :: "request \<Rightarrow> uuid \<Rightarrow> world \<Rightarrow> response result \<times> world" where
  "resource_policy_destroy rq pk w =
     proceed w (viewset_get w resource_policy_permission_map ''destroy'' rq rp_id
                  (resource_policy_queryset w rq None None) pk)
       (\<lambda>x. (Ok (Response 204 JNull),
             w\<lparr>w_resource_policies := delete_where (\<lambda>y. rp_id y = rp_id x) (w_resource_policies w)\<rparr>))"

end
