(* ===== verification/ServiceEdits.thy ===== *)
theory ServiceEdits
  imports WebhookViews MaintenanceRun StatusPageViews SsoViews Retention
begin

text \<open>
  PATCH on the viewsets of webhooks, maintenance windows, status pages, SSO configurations and
  retention policies: the fields given are validated, with the row's values where a serializer falls
  back to its instance, and written; the others stay. A team is checked to be the project's, never
  against the memberships of the caller, which only creation looks at.
\<close>

section \<open>Webhooks\<close>

record webhook_patch =
  wp_name :: "string option"
  wp_url :: "string option"
  wp_secret :: "string option"
  wp_payload_format :: "payload_format option"
  wp_event_types :: "string list option"
  wp_is_active :: "bool option"
  wp_headers :: "(string \<times> string) list option"
  wp_timeout_seconds :: "nat option"
  wp_max_retries :: "nat option"
  wp_team :: "uuid option option"

definition webhook_partial_update ::
  "env \<Rightarrow> request \<Rightarrow> uuid \<Rightarrow> webhook_patch \<Rightarrow> world \<Rightarrow> webhook result \<times> world" where
  "webhook_partial_update e rq pk inp w =
     proceed w
       (bind_result (webhook_get w rq ''partial_update'' pk) (\<lambda>h.
        bind_result (validate_webhook_team w rq (given (wp_team inp) None)) (\<lambda>_. Ok h)))
       (\<lambda>h. let h1 = h\<lparr>wh_name := given (wp_name inp) (wh_name h), wh_url := given (wp_url inp) (wh_url h),
                      wh_secret := given (wp_secret inp) (wh_secret h),
                      wh_payload_format := given (wp_payload_format inp) (wh_payload_format h),
                      wh_event_types := given (wp_event_types inp) (wh_event_types h),
                      wh_is_active := given (wp_is_active inp) (wh_is_active h),
                      wh_headers := given (wp_headers inp) (wh_headers h),
                      wh_timeout_seconds := given (wp_timeout_seconds inp) (wh_timeout_seconds h),
                      wh_max_retries := given (wp_max_retries inp) (wh_max_retries h),
                      wh_team := given (wp_team inp) (wh_team h), wh_updated_at := e_now e\<rparr>
            in (Ok h1, w\<lparr>w_webhooks := update_where (\<lambda>r. wh_id r = wh_id h) (\<lambda>_. h1) (w_webhooks w)\<rparr>))"

section \<open>Maintenance windows\<close>

record maintenance_patch =
  mw_title :: "string option"
  mw_description :: "string option"
  mw_starts_at :: "datetime option"
  mw_ends_at :: "datetime option"
  mw_monitors :: "uuid list option"
  mw_visible :: "bool option"
  mw_notify :: "bool option"
  mw_frequency :: "recurrence_frequency option"
  mw_interval :: "nat option"
  mw_weekdays :: "int list option"
  mw_until :: "datetime option option"
  mw_team :: "uuid option option"

text \<open>The payload over the instance, as \<open>validate\<close> sees it.\<close>

definition maintenance_over :: "scheduled_maintenance \<Rightarrow> maintenance_patch \<Rightarrow> maintenance_input" where
  "maintenance_over m inp =
     \<lparr>mi_title = given (mw_title inp) (sm_title m), mi_description = given (mw_description inp) (sm_description m),
      mi_starts_at = given (mw_starts_at inp) (sm_starts_at m), mi_ends_at = given (mw_ends_at inp) (sm_ends_at m),
      mi_monitors = given (mw_monitors inp) [],
      mi_visible = given (mw_visible inp) (sm_is_visible_on_status_page m),
      mi_notify = given (mw_notify inp) (sm_notify_subscribers m),
      mi_frequency = given (mw_frequency inp) (sm_recurrence_frequency m),
      mi_interval = given (mw_interval inp) (sm_recurrence_interval m),
      mi_weekdays = given (mw_weekdays inp) (sm_recurrence_weekdays m),
      mi_until = given (mw_until inp) (sm_recurrence_until m),
      mi_team = given (mw_team inp) None, mi_team_null = (mw_team inp = Some None)\<rparr>"

definition maintenance_partial_update ::
  "env \<Rightarrow> request \<Rightarrow> uuid \<Rightarrow> maintenance_patch \<Rightarrow> world \<Rightarrow> scheduled_maintenance result \<times> world" where
  "maintenance_partial_update e rq pk inp w =
     proceed w
       (bind_result (maintenance_get w rq ''partial_update'' pk) (\<lambda>m.
        bind_result (validate_maintenance w rq (maintenance_over m inp)) (\<lambda>_. Ok m)))
       (\<lambda>m. let v = maintenance_over m inp;
                m1 = m\<lparr>sm_title := mi_title v, sm_description := mi_description v,
                      sm_starts_at := mi_starts_at v, sm_ends_at := mi_ends_at v,
                      sm_monitors := given (mw_monitors inp) (sm_monitors m),
                      sm_is_visible_on_status_page := mi_visible v, sm_notify_subscribers := mi_notify v,
                      sm_recurrence_frequency := mi_frequency v, sm_recurrence_interval := mi_interval v,
                      sm_recurrence_weekdays := mi_weekdays v, sm_recurrence_until := mi_until v,
                      sm_team := given (mw_team inp) (sm_team m), sm_updated_at := e_now e\<rparr>
            in (Ok m1, w\<lparr>w_maintenances := update_where (\<lambda>r. sm_id r = sm_id m) (\<lambda>_. m1) (w_maintenances w)\<rparr>))"

section \<open>Status pages\<close>

record status_page_patch =
  pg_name :: "string option"
  pg_slug :: "string option"
  pg_is_public :: "bool option"
  pg_custom_domain :: "string option option"
  pg_logo_url :: "string option option"
  pg_primary_color :: "string option"
  pg_custom_css :: "string option"
  pg_description :: "string option"
  pg_team :: "uuid option option"

definition status_page_partial_update ::
  "env \<Rightarrow> request \<Rightarrow> uuid \<Rightarrow> status_page_patch \<Rightarrow> world \<Rightarrow> status_page result \<times> world" where
  "status_page_partial_update e rq pk inp w =
     proceed w
       (bind_result (status_page_get w rq ''partial_update'' pk) (\<lambda>p.
        bind_result (validate_team w rq (given (pg_team inp) None)) (\<lambda>_. Ok p)))
       (\<lambda>p. let p1 = p\<lparr>sp_name := given (pg_name inp) (sp_name p), sp_slug := given (pg_slug inp) (sp_slug p),
                      sp_is_public := given (pg_is_public inp) (sp_is_public p),
                      sp_custom_domain := given (pg_custom_domain inp) (sp_custom_domain p),
                      sp_logo_url := given (pg_logo_url inp) (sp_logo_url p),
                      sp_primary_color := given (pg_primary_color inp) (sp_primary_color p),
                      sp_custom_css := given (pg_custom_css inp) (sp_custom_css p),
                      sp_description := given (pg_description inp) (sp_description p),
                      sp_team := given (pg_team inp) (sp_team p), sp_updated_at := e_now e\<rparr>
            in if slug_taken w (sp_id p) (sp_tenant p) (sp_slug p1)
               then (Raise (IntegrityError ''unique_status_page_slug_per_tenant''), w)
               else (Ok p1, save_status_page p1 w))"

section \<open>SSO configurations\<close>

record sso_patch =
  sx_provider :: "sso_provider option"
  sx_name :: "string option"
  sx_description :: "string option"
  sx_entity_id :: "string option"
  sx_sso_url :: "string option"
  sx_slo_url :: "string option"
  sx_x509_cert :: "string option"
  sx_attribute_map :: "(string \<times> string) list option"
  sx_jit_enabled :: "bool option"
  sx_default_role_id :: "uuid option option"
  sx_default_team_ids :: "uuid list option"
  sx_enforce_sso :: "bool option"
  sx_scim_auto_provision :: "bool option"
  sx_scim_auto_deprovision :: "bool option"
  sx_scim_enable_push_groups :: "bool option"
  sx_is_enabled :: "bool option"

definition patched_sso_config :: "env \<Rightarrow> sso_patch \<Rightarrow> sso_config \<Rightarrow> sso_config" where
  "patched_sso_config e inp c =
     c\<lparr>sc_provider := given (sx_provider inp) (sc_provider c), sc_name := given (sx_name inp) (sc_name c),
       sc_description := given (sx_description inp) (sc_description c),
       sc_entity_id := given (sx_entity_id inp) (sc_entity_id c),
       sc_sso_url := given (sx_sso_url inp) (sc_sso_url c), sc_slo_url := given (sx_slo_url inp) (sc_slo_url c),
       sc_x509_cert := given (sx_x509_cert inp) (sc_x509_cert c),
       sc_attribute_map := given (sx_attribute_map inp) (sc_attribute_map c),
       sc_jit_enabled := given (sx_jit_enabled inp) (sc_jit_enabled c),
       sc_default_role := given (sx_default_role_id inp) (sc_default_role c),
       sc_default_teams := given (sx_default_team_ids inp) (sc_default_teams c),
       sc_enforce_sso := given (sx_enforce_sso inp) (sc_enforce_sso c),
       sc_scim_auto_provision := given (sx_scim_auto_provision inp) (sc_scim_auto_provision c),
       sc_scim_auto_deprovision := given (sx_scim_auto_deprovision inp) (sc_scim_auto_deprovision c),
       sc_scim_enable_push_groups := given (sx_scim_enable_push_groups inp) (sc_scim_enable_push_groups c),
       sc_is_enabled := given (sx_is_enabled inp) (sc_is_enabled c), sc_updated_at := e_now e\<rparr>"

definition sso_partial_update ::
  "env \<Rightarrow> request \<Rightarrow> uuid \<Rightarrow> sso_patch \<Rightarrow> world \<Rightarrow> response result \<times> world" where
  "sso_partial_update e rq pk inp w =
     proceed w
       (bind_result (sso_get w rq ''partial_update'' pk) (\<lambda>c.
        bind_result (validate_default_role_id w rq (given (sx_default_role_id inp) None)) (\<lambda>_.
        bind_result (validate_default_team_ids w rq (given (sx_default_team_ids inp) [])) (\<lambda>_. Ok c))))
       (\<lambda>c. let c1 = patched_sso_config e inp c; w1 = save_sso_config c1 w
            in if sso_name_taken w (sc_project c) (sc_name c1) (Some (sc_id c))
               then (Raise (IntegrityError ''unique_sso_config_name_per_project''), w)
               else (case sso_config_json e c1 of
                       Inl x \<Rightarrow> (Raise x, w1)
                     | Inr j \<Rightarrow> (Ok (Response 200 j), w1)))"

section \<open>Retention policies\<close>

definition retention_partial_update ::
  "env \<Rightarrow> request \<Rightarrow> uuid \<Rightarrow> data_type option \<Rightarrow> int option \<Rightarrow> bool option \<Rightarrow> string option option \<Rightarrow> world \<Rightarrow>
     retention_policy result \<times> world" where
  "retention_partial_update e rq pk dt n archive bucket w =
     proceed w
       (bind_result (retention_get w rq ''partial_update'' pk) (\<lambda>r.
        bind_result (case n of None \<Rightarrow> Ok (rt_retention_days r) | Some d \<Rightarrow> validate_retention_days d) (\<lambda>k. Ok (r, k))))
       (\<lambda>(r, k).
          let r1 = r\<lparr>rt_data_type := given dt (rt_data_type r), rt_retention_days := k,
                     rt_archive_to_s3 := given archive (rt_archive_to_s3 r),
                     rt_s3_bucket := given bucket (rt_s3_bucket r), rt_updated_at := e_now e\<rparr>
          in if retention_taken w (rt_id r) (rt_project r) (rt_data_type r1)
             then (Raise (IntegrityError ''unique_retention_per_project_datatype''), w)
             else (Ok r1, w\<lparr>w_retention := update_where (\<lambda>x. rt_id x = rt_id r) (\<lambda>_. r1) (w_retention w)\<rparr>))"

end
