(* ===== verification/TenancyEdits.thy ===== *)
theory TenancyEdits
  imports TenancyViews
begin

text \<open>
  The generic endpoints of \<open>apps/tenancy/views.py\<close> and \<open>apps/admin_api/views.py\<close>: tenants created,
  replaced, changed and deleted by a super administrator, and PATCH on projects. The documents of
  \<open>TenantSerializer\<close>, \<open>TenantDetailSerializer\<close> and \<open>AdminTenantSerializer\<close>.
\<close>

section \<open>Tenants\<close>

record tenant_input =
  ti_name :: "string option"
  ti_slug :: "string option"
  ti_domain :: "string option option"
  ti_logo_url :: "string option option"
  ti_plan :: "string option"
  ti_data_region :: "string option"
  ti_status :: "tenant_status option"
  ti_settings :: "json option"
  ti_stripe_id :: "string option option"

text \<open>The slug is unique among all tenants, and the serializer checks that.\<close>

definition validate_tenant :: "world \<Rightarrow> bool \<Rightarrow> uuid option \<Rightarrow> tenant_input \<Rightarrow> unit result" where
  "validate_tenant w partial instance_pk inp =
     bind_result (required partial [ti_name inp \<noteq> None, ti_slug inp \<noteq> None]) (\<lambda>_.
       case ti_slug inp of
         None \<Rightarrow> Ok ()
       | Some s \<Rightarrow>
           (if exists_row (\<lambda>t. tn_slug t = s \<and> Some (tn_id t) \<noteq> instance_pk) (w_tenants w)
            then ValidationError ''tenant with this slug already exists.'' else Ok ()))"

text \<open>\<open>TenantSerializer\<close> does not write the Stripe id, \<open>AdminTenantSerializer\<close> does: \<open>with_stripe\<close>.\<close>

definition tenant_create ::
  "env \<Rightarrow> bool \<Rightarrow> request \<Rightarrow> tenant_input \<Rightarrow> world \<Rightarrow> tenant result \<times> world" where
  "tenant_create e with_stripe rq inp w =
     proceed w
       (bind_result (require_super_admin rq) (\<lambda>_. validate_tenant w False None inp))
       (\<lambda>_. let t = \<lparr>tn_id = w_next w, tn_name = given (ti_name inp) [], tn_slug = given (ti_slug inp) [],
                     tn_domain = given (ti_domain inp) None, tn_logo_url = given (ti_logo_url inp) None,
                     tn_plan = given (ti_plan inp) ''free'', tn_data_region = given (ti_data_region inp) ''us-east-1'',
                     tn_status = given (ti_status inp) TenantActive,
                     tn_stripe_id = (if with_stripe then given (ti_stripe_id inp) None else None),
                     tn_settings = given (ti_settings inp) (JObj []),
                     tn_created_at = e_now e, tn_updated_at = e_now e\<rparr>
            in (Ok t, w\<lparr>w_tenants := w_tenants w @ [t], w_next := Suc (w_next w)\<rparr>))"

definition tenant_viewset_update ::
  "env \<Rightarrow> request \<Rightarrow> bool \<Rightarrow> uuid \<Rightarrow> tenant_input \<Rightarrow> world \<Rightarrow> tenant result \<times> world" where
  "tenant_viewset_update e rq partial pk inp w =
     proceed w
       (bind_result (tenant_get w rq pk) (\<lambda>t.
        bind_result (validate_tenant w partial (Some (tn_id t)) inp) (\<lambda>_. Ok t)))
       (\<lambda>t. let t1 = t\<lparr>tn_name := given (ti_name inp) (tn_name t), tn_slug := given (ti_slug inp) (tn_slug t),
                      tn_domain := given (ti_domain inp) (tn_domain t),
                      tn_logo_url := given (ti_logo_url inp) (tn_logo_url t),
                      tn_plan := given (ti_plan inp) (tn_plan t),
                      tn_data_region := given (ti_data_region inp) (tn_data_region t),
                      tn_status := given (ti_status inp) (tn_status t),
                      tn_settings := given (ti_settings inp) (tn_settings t), tn_updated_at := e_now e\<rparr>
            in (Ok t1, save_tenant t1 w))"

text \<open>\<open>TenantViewSet\<close> keeps the inherited \<open>destroy\<close>.\<close>

definition tenant_destroy :: "request \<Rightarrow> uuid \<Rightarrow> world \<Rightarrow> response result \<times> world" where
  "tenant_destroy rq pk w =
     proceed w (tenant_get w rq pk)
       (\<lambda>t. case delete_tenant (tn_id t) w of
              (Inl x, w1) \<Rightarrow> (Raise x, w1)
            | (Inr _, w1) \<Rightarrow> (Ok (Response 204 JNull), w1))"

section \<open>Documents\<close>

definition project_json :: "project \<Rightarrow> json" where
  "project_json p = JObj
     [(''id'', JUuid (pj_id p)), (''name'', JStr (pj_name p)), (''slug'', JStr (pj_slug p)),
      (''description'', JStr (pj_description p)), (''is_active'', JBool (pj_is_active p)),
      (''created_at'', JTime (pj_created_at p)), (''updated_at'', JTime (pj_updated_at p))]"

definition tenant_fields :: "tenant \<Rightarrow> (string \<times> json) list" where
  "tenant_fields t =
     [(''id'', JUuid (tn_id t)), (''name'', JStr (tn_name t)), (''slug'', JStr (tn_slug t)),
      (''domain'', json_opt_str (tn_domain t)), (''logo_url'', json_opt_str (tn_logo_url t)),
      (''plan'', JStr (tn_plan t)), (''data_region'', JStr (tn_data_region t)),
      (''status'', JStr (tenant_status_value (tn_status t))), (''settings'', tn_settings t)]"

definition tenant_times :: "tenant \<Rightarrow> (string \<times> json) list" where
  "tenant_times t = [(''created_at'', JTime (tn_created_at t)), (''updated_at'', JTime (tn_updated_at t))]"

definition tenant_json :: "world \<Rightarrow> tenant \<Rightarrow> json" where
  "tenant_json w t = JObj
     (tenant_fields t @
      [(''projects_count'', number_where (\<lambda>p. pj_tenant p = tn_id t \<and> pj_is_active p) (w_projects w))] @
      tenant_times t)"

definition tenant_detail_json :: "world \<Rightarrow> tenant \<Rightarrow> json" where
  "tenant_detail_json w t = JObj
     (tenant_fields t @
      [(''projects_count'', number_where (\<lambda>p. pj_tenant p = tn_id t \<and> pj_is_active p) (w_projects w))] @
      tenant_times t @
      [(''projects'', JList (map project_json
          (order_by_desc pj_created_at (filter (\<lambda>p. pj_tenant p = tn_id t) (w_projects w)))))])"

definition admin_tenant_json :: "world \<Rightarrow> tenant \<Rightarrow> json" where
  "admin_tenant_json w t = JObj
     (tenant_fields t @
      [(''stripe_id'', json_opt_str (tn_stripe_id t)),
       (''projects_count'', number_where (\<lambda>p. pj_tenant p = tn_id t) (w_projects w)),
       (''members_count'', number_where (\<lambda>m. um_tenant m = tn_id t \<and> um_accepted_at m \<noteq> None)
                             (w_user_memberships w))] @
      tenant_times t)"

definition tenant_retrieve :: "world \<Rightarrow> request \<Rightarrow> uuid \<Rightarrow> json result" where
  "tenant_retrieve w rq pk = bind_result (tenant_get w rq pk) (\<lambda>t. Ok (tenant_detail_json w t))"

section \<open>Projects\<close>

definition project_partial_update ::
  "env \<Rightarrow> request \<Rightarrow> uuid \<Rightarrow> string option \<Rightarrow> string option \<Rightarrow> string option \<Rightarrow> bool option \<Rightarrow> world \<Rightarrow>
     project result \<times> world" where
  "project_partial_update e rq pk name slug description is_active w =
     proceed w
       (bind_result (project_get w rq ''partial_update'' pk) (\<lambda>p.
        bind_result (case slug of
                       None \<Rightarrow> Ok ()
                     | Some s \<Rightarrow> validate_project_slug w rq (Some (pj_id p)) s) (\<lambda>_. Ok p)))
       (\<lambda>p. let p1 = p\<lparr>pj_name := given name (pj_name p), pj_slug := given slug (pj_slug p),
                      pj_description := given description (pj_description p),
                      pj_is_active := given is_active (pj_is_active p), pj_updated_at := e_now e\<rparr>
            in (Ok p1, save_project p1 w))"

end
