(* ===== verification/SeedDemo.thy ===== *)
theory SeedDemo
  imports TenancyViews
begin

text \<open>
  The commands an operator runs by hand: \<open>seed_demo\<close> with its \<open>--clean\<close>, \<open>send_test_email\<close>, and
  \<open>createsuperuser\<close>, which comes down to the user manager. What the commands print is left out.
\<close>

section \<open>Deleting users\<close>

definition forget_user :: "uuid set \<Rightarrow> uuid option \<Rightarrow> uuid option" where
  "forget_user ids r = (case r of Some i \<Rightarrow> (if i \<in> ids then None else r) | None \<Rightarrow> None)"

text \<open>
  \<open>User.objects.filter(...).delete()\<close>: optional references are cleared, memberships, codes and
  sessions go with the users; the signal of a membership runs while the user is still there.
\<close>

definition delete_users :: "env \<Rightarrow> (user \<Rightarrow> bool) \<Rightarrow> world \<Rightarrow> world" where
  "delete_users e p w =
     (let ids = usr_id ` set (filter p (w_users w));
          gone = filter (\<lambda>m. um_user m \<in> ids) (w_user_memberships w);
          w1 = w\<lparr>w_user_memberships :=
                   map (\<lambda>m. m\<lparr>um_invited_by := forget_user ids (um_invited_by m)\<rparr>)
                     (delete_where (\<lambda>m. um_user m \<in> ids) (w_user_memberships w)),
                 w_otp_challenges := delete_where (\<lambda>c. otp_user c \<in> ids) (w_otp_challenges w),
                 w_mfa_sessions := delete_where (\<lambda>s. ms_user s \<in> ids) (w_mfa_sessions w),
                 w_team_memberships :=
                   map (\<lambda>m. m\<lparr>mb_granted_by := forget_user ids (mb_granted_by m)\<rparr>)
                     (delete_where (\<lambda>m. mb_user m \<in> ids) (w_team_memberships w)),
                 w_api_keys := map (\<lambda>k. k\<lparr>ak_created_by := forget_user ids (ak_created_by k)\<rparr>) (w_api_keys w),
                 w_incidents :=
                   map (\<lambda>i. i\<lparr>ic_assigned_to := forget_user ids (ic_assigned_to i),
                             ic_acknowledged_by := forget_user ids (ic_acknowledged_by i),
                             ic_resolved_by := forget_user ids (ic_resolved_by i)\<rparr>) (w_incidents w),
                 w_notes := map (\<lambda>n. n\<lparr>nt_author := forget_user ids (nt_author n)\<rparr>) (w_notes w),
                 w_esc_steps := map (\<lambda>s. s\<lparr>es_user := forget_user ids (es_user s)\<rparr>) (w_esc_steps w)\<rparr>;
          w2 = fold (on_membership_delete e) gone w1
      in w2\<lparr>w_users := delete_where p (w_users w2)\<rparr>)"

section \<open>The demo data\<close>

definition DEMO_EMAIL :: string where
  "DEMO_EMAIL = ''demo@oneuptime.local''"

definition DEMO_PASSWORD :: string where
  "DEMO_PASSWORD = ''DemoPass123!''"

definition DEMO_TENANT_NAME :: string where
  "DEMO_TENANT_NAME = ''Demo Corp''"

definition DEMO_TENANT_SLUG :: string where
  "DEMO_TENANT_SLUG = ''demo''"

text \<open>\<open>_clean\<close>. Nothing makes the two deletions one transaction; slugs of tenants are unique.\<close>

definition clean_demo :: "env \<Rightarrow> world \<Rightarrow> nat result \<times> world" where
  "clean_demo e w =
     (let tenants = filter (\<lambda>t. tn_slug t = DEMO_TENANT_SLUG) (w_tenants w);
          w1 = delete_users e (\<lambda>u. usr_email u = DEMO_EMAIL) w
      in case tenants of
           [] \<Rightarrow> (Ok 0, w1)
         | t # _ \<Rightarrow>
             (case delete_tenant (tn_id t) w1 of
                (Inl x, w2) \<Rightarrow> (Raise x, w2)
              | (Inr _, w2) \<Rightarrow> (Ok (length tenants), w2)))"

text \<open>\<open>get_or_create\<close> of a monitor by its name in the project, which at this point has none.\<close>

definition demo_monitor :: "env \<Rightarrow> project \<Rightarrow> string \<times> string \<times> nat \<times> json \<Rightarrow> world \<Rightarrow> world" where
  "demo_monitor e p spec w =
     (case spec of (name, url, interval, criteria) \<Rightarrow>
        (if exists_row (\<lambda>m. mo_project m = pj_id p \<and> mo_name m = name) (w_monitors w) then w
         else
           (let m = \<lparr>mo_id = w_next w, mo_tenant = pj_tenant p, mo_project = pj_id p, mo_team = None, mo_name = name,
                     mo_type = TyApi, mo_url = url, mo_method = ''GET'', mo_interval_seconds = interval,
                     mo_timeout_seconds = 30, mo_retries = 3, mo_probe_locations = [], mo_criteria = criteria,
                     mo_steps = [], mo_headers = [], mo_body = [], mo_alert_on_failure = True, mo_is_paused = False,
                     mo_status = Operational, mo_tags = [], mo_current_incident = None, mo_last_check_at = None,
                     mo_next_check_at = Some (e_now e), mo_created_at = e_now e, mo_updated_at = e_now e\<rparr>
            in on_monitor_save e m True (w\<lparr>w_monitors := w_monitors w @ [m], w_next := Suc (w_next w)\<rparr>))))"

definition demo_monitors :: "(string \<times> string \<times> nat \<times> json) list" where
  "demo_monitors =
     [(''Public Status API'', ''https://httpbin.org/status/200'', 60, JObj []),
      (''Slow Endpoint (degraded test)'', ''https://httpbin.org/delay/3'', 120,
       JObj [(''response_time_ms'', JObj [(''operator'', JStr ''lt''), (''value'', JInt 2000)])])]"

definition demo_webhook :: "env \<Rightarrow> project \<Rightarrow> world \<Rightarrow> world" where
  "demo_webhook e p w =
     (if exists_row (\<lambda>h. wh_project h = pj_id p \<and> wh_name h = ''Demo Webhook (noop)'') (w_webhooks w) then w
      else
        (let h = \<lparr>wh_id = w_next w, wh_tenant = pj_tenant p, wh_project = pj_id p, wh_team = None,
                  wh_name = ''Demo Webhook (noop)'', wh_url = ''https://httpbin.org/post'',
                  wh_secret = ''demo_webhook_secret_change_me'', wh_payload_format = FmtJson,
                  wh_event_types = [''*''], wh_is_active = False, wh_headers = [], wh_timeout_seconds = 5,
                  wh_max_retries = 4, wh_created_at = e_now e, wh_updated_at = e_now e\<rparr>
         in w\<lparr>w_webhooks := w_webhooks w @ [h], w_next := Suc (w_next w)\<rparr>))"

definition demo_retention :: "env \<Rightarrow> project \<Rightarrow> data_type \<times> nat \<Rightarrow> world \<Rightarrow> world" where
  "demo_retention e p spec w =
     (case spec of (dt, n) \<Rightarrow>
        (if exists_row (\<lambda>r. rt_project r = pj_id p \<and> rt_data_type r = dt) (w_retention w) then w
         else
           (let r = \<lparr>rt_id = w_next w, rt_tenant = pj_tenant p, rt_project = pj_id p, rt_data_type = dt,
                     rt_retention_days = n, rt_archive_to_s3 = False, rt_s3_bucket = None,
                     rt_created_at = e_now e, rt_updated_at = e_now e\<rparr>
            in w\<lparr>w_retention := w_retention w @ [r], w_next := Suc (w_next w)\<rparr>)))"

text \<open>The account is created in one transaction; everything after it is saved row by row.\<close>

definition demo_account :: "env \<Rightarrow> user \<Rightarrow> tenant \<Rightarrow> world \<Rightarrow> world" where
  "demo_account e u t w =
     w\<lparr>w_users := update_where (\<lambda>r. usr_id r = usr_id u)
                    (\<lambda>r. r\<lparr>usr_is_active := True, usr_is_email_verified := True, usr_updated_at := e_now e\<rparr>)
                    (w_users w),
       w_tenants := update_where (\<lambda>r. tn_id r = tn_id t)
                      (\<lambda>r. r\<lparr>tn_slug := DEMO_TENANT_SLUG, tn_updated_at := e_now e\<rparr>) (w_tenants w)\<rparr>"

definition demo_project :: "env \<Rightarrow> user \<Rightarrow> project \<Rightarrow> role \<Rightarrow> world \<Rightarrow> world" where
  "demo_project e u p admin_role w =
     (let (team, w1) = team_get_or_create e (pj_tenant p) (pj_id p) ''Platform'' ''Demo platform team'' w;
          w2 = snd (join_team e (tm_id team) (usr_id u) (ro_id admin_role) None w1);
          w3 = fold (demo_monitor e p) demo_monitors w2;
          w4 = demo_webhook e p w3
      in fold (demo_retention e p) [(MonitorChecks, 30), (WebhookDeliveries, 14)] w4)"

definition seed_demo :: "env \<Rightarrow> bool \<Rightarrow> world \<Rightarrow> unit result \<times> world" where
  "seed_demo e clean w =
     (case (if clean then clean_demo e w else (Ok 0, w)) of
        (Inl x, w1) \<Rightarrow> (Raise x, w1)
      | (Inr _, w1) \<Rightarrow>
          (if exists_row (\<lambda>t. tn_slug t = DEMO_TENANT_SLUG) (w_tenants w1) then (Ok (), w1)
           else (case create_account e DEMO_EMAIL DEMO_PASSWORD DEMO_TENANT_NAME ''Demo'' ''User'' w1 of
                   (Inl x, w2) \<Rightarrow> (Raise x, w2)
                 | (Inr (u, t, p), w2) \<Rightarrow>
                     (let w3 = demo_account e u t w2;
                          (rows, w4) = bootstrap_project e (pj_id p) (tn_id t) w3
                      in case map_of (bs_roles rows) ''admin'' of
                           None \<Rightarrow> (Raise (KeyError ''admin''), w4)
                         | Some admin_role \<Rightarrow> (Ok (), demo_project e u p admin_role w4)))))"

section \<open>The other commands\<close>

definition send_test_email :: "env \<Rightarrow> string \<Rightarrow> world \<Rightarrow> unit result \<times> world" where
  "send_test_email e email w = send_activation_otp e email (generate_code e None) w"

definition create_superuser :: "env \<Rightarrow> string \<Rightarrow> string \<Rightarrow> world \<Rightarrow> user result \<times> world" where
  "create_superuser e email password w =
     (case create_user e email password [] [] True True w of
        (Inl x, w1) \<Rightarrow> (Raise x, w1)
      | (Inr u, w1) \<Rightarrow>
          (Ok (u\<lparr>usr_is_staff := True, usr_is_superuser := True\<rparr>),
           w1\<lparr>w_users := update_where (\<lambda>r. usr_id r = usr_id u)
                (\<lambda>r. r\<lparr>usr_is_staff := True, usr_is_superuser := True\<rparr>) (w_users w1)\<rparr>))"

end
