(* ===== verification/EvolutionEdits.thy ===== *)
theory EvolutionEdits
  imports EvolutionViews IncidentEdits MonitorEdits RbacEdits ServiceEdits TenancyEdits SeedDemo
begin

text \<open>The generic endpoints of the viewsets refine \<open>evolves\<close>, one lemma each.\<close>

lemma evolves_proceed [evolve]:
  "evolves sha w v \<Longrightarrow> (\<And>a. r = Inr a \<Longrightarrow> evolves sha w (snd (f a))) \<Longrightarrow> evolves sha w (snd (proceed v r f))"
  by (cases r) simp_all

section \<open>Incidents\<close>

lemma save_state_evolves [evolve]:
  "evolves sha w v \<Longrightarrow> evolves sha w (snd (save_state s v))"
  unfolding save_state_def split_def Let_def by (intro evolve; simp)

lemma state_partial_update_evolves [evolve]:
  "evolves (e_sha256 e) w v \<Longrightarrow> evolves (e_sha256 e) w (snd (state_partial_update e rq pk name color ord resolved v))"
  unfolding state_partial_update_def split_def Let_def by (intro evolve; simp)

lemma severity_create_evolves [evolve]:
  "evolves (e_sha256 e) w v \<Longrightarrow> evolves (e_sha256 e) w (snd (severity_create e rq name color ord v))"
  unfolding severity_create_def split_def Let_def by (intro evolve; simp)

lemma save_severity_evolves [evolve]:
  "evolves sha w v \<Longrightarrow> evolves sha w (snd (save_severity s v))"
  unfolding save_severity_def split_def Let_def by (intro evolve; simp)

lemma severity_update_evolves [evolve]:
  "evolves (e_sha256 e) w v \<Longrightarrow> evolves (e_sha256 e) w (snd (severity_update e rq partial pk name color ord v))"
  unfolding severity_update_def split_def Let_def by (intro evolve; simp)

lemma incident_update_evolves [evolve]:
  "evolves (e_sha256 e) w v \<Longrightarrow> evolves (e_sha256 e) w (snd (incident_update e rq partial pk inp v))"
  unfolding incident_update_def split_def Let_def by (intro evolve; simp)

lemma incident_destroy_evolves [evolve]:
  "evolves sha w v \<Longrightarrow> evolves sha w (snd (incident_destroy rq pk v))"
  unfolding incident_destroy_def split_def Let_def by (intro evolve; simp)

lemma policy_create_evolves [evolve]:
  "evolves (e_sha256 e) w v \<Longrightarrow> evolves (e_sha256 e) w (snd (policy_create e rq inp v))"
  unfolding policy_create_def split_def Let_def by (intro evolve; simp)

lemma policy_update_evolves [evolve]:
  "evolves (e_sha256 e) w v \<Longrightarrow> evolves (e_sha256 e) w (snd (policy_update e rq partial pk inp v))"
  unfolding policy_update_def split_def Let_def by (intro evolve; simp)

lemma policy_destroy_evolves [evolve]:
  "evolves sha w v \<Longrightarrow> evolves sha w (snd (policy_destroy rq pk v))"
  unfolding policy_destroy_def split_def Let_def by (intro evolve; simp)

lemma rule_create_evolves [evolve]:
  "evolves (e_sha256 e) w v \<Longrightarrow> evolves (e_sha256 e) w (snd (rule_create e rq inp v))"
  unfolding rule_create_def split_def Let_def by (intro evolve; simp)

lemma rule_update_evolves [evolve]:
  "evolves (e_sha256 e) w v \<Longrightarrow> evolves (e_sha256 e) w (snd (rule_update e rq partial pk inp v))"
  unfolding rule_update_def split_def Let_def by (intro evolve; simp)

lemma rule_destroy_evolves [evolve]:
  "evolves sha w v \<Longrightarrow> evolves sha w (snd (rule_destroy rq pk v))"
  unfolding rule_destroy_def split_def Let_def by (intro evolve; simp)

section \<open>Monitors\<close>

lemma monitor_partial_update_evolves [evolve]:
  "evolves (e_sha256 e) w v \<Longrightarrow> evolves (e_sha256 e) w (snd (monitor_partial_update e rq pk inp v))"
  unfolding monitor_partial_update_def split_def Let_def by (intro evolve; simp)

lemma group_update_evolves [evolve]:
  "evolves (e_sha256 e) w v \<Longrightarrow> evolves (e_sha256 e) w (snd (group_update e rq partial pk inp v))"
  unfolding group_update_def split_def Let_def by (intro evolve; simp)

section \<open>Roles, teams and policies\<close>

lemma role_partial_update_evolves [evolve]:
  "evolves (e_sha256 e) w v \<Longrightarrow> evolves (e_sha256 e) w (snd (role_partial_update e rq pk name description permissions v))"
  unfolding role_partial_update_def split_def Let_def by (intro evolve; simp)

lemma team_create_evolves [evolve]:
  "evolves (e_sha256 e) w v \<Longrightarrow> evolves (e_sha256 e) w (snd (team_create e rq name description v))"
  unfolding team_create_def split_def Let_def by (intro evolve; simp)

lemma team_update_evolves [evolve]:
  "evolves (e_sha256 e) w v \<Longrightarrow> evolves (e_sha256 e) w (snd (team_update e rq partial pk name description v))"
  unfolding team_update_def split_def Let_def by (intro evolve; simp)

lemma team_destroy_evolves [evolve]:
  "evolves sha w v \<Longrightarrow> evolves sha w (snd (team_destroy rq pk v))"
  unfolding team_destroy_def split_def Let_def by (intro evolve; simp)

lemma resource_policy_create_evolves [evolve]:
  "evolves (e_sha256 e) w v \<Longrightarrow> evolves (e_sha256 e) w (snd (resource_policy_create e rq inp v))"
  unfolding resource_policy_create_def split_def Let_def by (intro evolve; simp)

lemma resource_policy_update_evolves [evolve]:
  "evolves (e_sha256 e) w v \<Longrightarrow> evolves (e_sha256 e) w (snd (resource_policy_update e rq partial pk inp v))"
  unfolding resource_policy_update_def split_def Let_def by (intro evolve; simp)

lemma resource_policy_destroy_evolves [evolve]:
  "evolves sha w v \<Longrightarrow> evolves sha w (snd (resource_policy_destroy rq pk v))"
  unfolding resource_policy_destroy_def split_def Let_def by (intro evolve; simp)

section \<open>Webhooks, maintenance, status pages, SSO, retention\<close>

lemma webhook_partial_update_evolves [evolve]:
  "evolves (e_sha256 e) w v \<Longrightarrow> evolves (e_sha256 e) w (snd (webhook_partial_update e rq pk inp v))"
  unfolding webhook_partial_update_def split_def Let_def by (intro evolve; simp)

lemma maintenance_partial_update_evolves [evolve]:
  "evolves (e_sha256 e) w v \<Longrightarrow> evolves (e_sha256 e) w (snd (maintenance_partial_update e rq pk inp v))"
  unfolding maintenance_partial_update_def split_def Let_def by (intro evolve; simp)

lemma status_page_partial_update_evolves [evolve]:
  "evolves (e_sha256 e) w v \<Longrightarrow> evolves (e_sha256 e) w (snd (status_page_partial_update e rq pk inp v))"
  unfolding status_page_partial_update_def split_def Let_def by (intro evolve; simp)

lemma sso_partial_update_evolves [evolve]:
  "evolves (e_sha256 e) w v \<Longrightarrow> evolves (e_sha256 e) w (snd (sso_partial_update e rq pk inp v))"
  unfolding sso_partial_update_def split_def Let_def by (intro evolve; simp)

lemma retention_partial_update_evolves [evolve]:
  "evolves (e_sha256 e) w v \<Longrightarrow> evolves (e_sha256 e) w (snd (retention_partial_update e rq pk dt n archive bucket v))"
  unfolding retention_partial_update_def split_def Let_def by (intro evolve; simp)

section \<open>Tenants and projects\<close>

lemma tenant_create_evolves [evolve]:
  "evolves (e_sha256 e) w v \<Longrightarrow> evolves (e_sha256 e) w (snd (tenant_create e with_stripe rq inp v))"
  unfolding tenant_create_def split_def Let_def by (intro evolve; simp)

lemma tenant_viewset_update_evolves [evolve]:
  "evolves (e_sha256 e) w v \<Longrightarrow> evolves (e_sha256 e) w (snd (tenant_viewset_update e rq partial pk inp v))"
  unfolding tenant_viewset_update_def split_def Let_def by (intro evolve; simp)

lemma tenant_destroy_evolves [evolve]:
  "evolves sha w v \<Longrightarrow> evolves sha w (snd (tenant_destroy rq pk v))"
  unfolding tenant_destroy_def split_def Let_def by (intro evolve; simp)

lemma project_partial_update_evolves [evolve]:
  "evolves (e_sha256 e) w v \<Longrightarrow> evolves (e_sha256 e) w (snd (project_partial_update e rq pk name slug description is_active v))"
  unfolding project_partial_update_def split_def Let_def by (intro evolve; simp)

section \<open>Demo data\<close>

lemma evolves_fold [evolve]:
  assumes "evolves sha w v" "\<And>x v. evolves sha w v \<Longrightarrow> evolves sha w (f x v)"
  shows "evolves sha w (fold f xs v)"
  using assms(1) by (induction xs arbitrary: v) (auto intro: assms(2))

lemma evolves_delete_users [evolve]:
  "evolves sha w v \<Longrightarrow> us = w_users v \<Longrightarrow> evolves sha w (v\<lparr>w_users := delete_where p us\<rparr>)"
  by (erule evolves_quiet) (auto simp: same_records_def superusers_def delete_where_def)

lemma delete_users_evolves [evolve]:
  "evolves (e_sha256 e) w v \<Longrightarrow> evolves (e_sha256 e) w (delete_users e p v)"
  unfolding delete_users_def split_def Let_def by (intro evolve; simp)

lemma clean_demo_evolves [evolve]:
  "evolves (e_sha256 e) w v \<Longrightarrow> evolves (e_sha256 e) w (snd (clean_demo e v))"
  unfolding clean_demo_def split_def Let_def by (intro evolve; simp)

lemma demo_monitor_evolves [evolve]:
  "evolves (e_sha256 e) w v \<Longrightarrow> evolves (e_sha256 e) w (demo_monitor e p spec v)"
  unfolding demo_monitor_def split_def Let_def by (intro evolve; simp)

lemma demo_webhook_evolves [evolve]:
  "evolves (e_sha256 e) w v \<Longrightarrow> evolves (e_sha256 e) w (demo_webhook e p v)"
  unfolding demo_webhook_def split_def Let_def by (intro evolve; simp)

lemma demo_retention_evolves [evolve]:
  "evolves (e_sha256 e) w v \<Longrightarrow> evolves (e_sha256 e) w (demo_retention e p spec v)"
  unfolding demo_retention_def split_def Let_def by (intro evolve; simp)

lemma demo_account_evolves [evolve]:
  "evolves (e_sha256 e) w v \<Longrightarrow> evolves (e_sha256 e) w (demo_account e u t v)"
  unfolding demo_account_def by (intro evolve; simp)

lemma demo_project_evolves [evolve]:
  "evolves (e_sha256 e) w v \<Longrightarrow> evolves (e_sha256 e) w (demo_project e u p r v)"
  unfolding demo_project_def split_def Let_def by (intro evolve; simp)

lemma seed_demo_evolves [evolve]:
  "evolves (e_sha256 e) w v \<Longrightarrow> evolves (e_sha256 e) w (snd (seed_demo e clean v))"
  unfolding seed_demo_def split_def Let_def by (intro evolve; simp)

lemma send_test_email_evolves [evolve]:
  "evolves (e_sha256 e) w v \<Longrightarrow> evolves (e_sha256 e) w (snd (send_test_email e email v))"
  unfolding send_test_email_def by (intro evolve; simp)

end
