(* ===== verification/ServerRun.thy ===== *)
theory ServerRun
  imports EvolutionEdits
begin

text \<open>
  The server as a transition system: a step is a handler run to its end, or a management command;
  a request may run any of it behind the middleware. Whatever the steps and their order, the
  audit chain of every tenant stays valid, the queue of deliveries stays consistent, and nobody
  becomes a superuser. \<open>sha\<close> is the hash the server is deployed with; clock, randomness and the
  answers of other servers differ from step to step.
\<close>

section \<open>Steps\<close>

text \<open>Accounts: sign-up, login, the second factor, invitations, the account itself.\<close>

inductive account_step :: "(string \<Rightarrow> string) \<Rightarrow> world \<Rightarrow> world \<Rightarrow> bool" for sha where
  "e_sha256 e = sha \<Longrightarrow> account_step sha w (snd (register e email password tenant_name first_name last_name w))"
| "e_sha256 e = sha \<Longrightarrow> account_step sha w (snd (activate e email code w))"
| "e_sha256 e = sha \<Longrightarrow> account_step sha w (snd (resend_activation e email w))"
| "e_sha256 e = sha \<Longrightarrow> account_step sha w (snd (login e rq email password w))"
| "e_sha256 e = sha \<Longrightarrow> account_step sha w (snd (mfa_verify_login e rq mfa_token code w))"
| "e_sha256 e = sha \<Longrightarrow> account_step sha w (snd (mfa_setup e secret rq w))"
| "e_sha256 e = sha \<Longrightarrow> account_step sha w (snd (mfa_confirm e rq code w))"
| "e_sha256 e = sha \<Longrightarrow> account_step sha w (snd (mfa_disable e rq password code w))"
| "e_sha256 e = sha \<Longrightarrow> account_step sha w (snd (password_reset_request e email w))"
| "e_sha256 e = sha \<Longrightarrow> account_step sha w (snd (password_reset_confirm e email code new_password w))"
| "e_sha256 e = sha \<Longrightarrow> account_step sha w (snd (change_password e rq old_password new_password w))"
| "e_sha256 e = sha \<Longrightarrow> account_step sha w (snd (me_update e rq first_name last_name timeout w))"
| "e_sha256 e = sha \<Longrightarrow> account_step sha w (snd (erase_my_account e hex8 rq password w))"
| "e_sha256 e = sha \<Longrightarrow> account_step sha w (snd (accept_invite e token email password w))"
| "e_sha256 e = sha \<Longrightarrow> account_step sha w (snd (invite e rq email0 first_name last_name w))"
| "e_sha256 e = sha \<Longrightarrow> account_step sha w (snd (deactivate e rq pk w))"

lemma account_step_evolves: "account_step sha w w' \<Longrightarrow> evolves sha w w'"
  by (erule account_step.cases; hypsubst; intro evolve)

text \<open>Roles, teams and their members, API keys, resource policies.\<close>

inductive rbac_step :: "(string \<Rightarrow> string) \<Rightarrow> world \<Rightarrow> world \<Rightarrow> bool" for sha where
  "e_sha256 e = sha \<Longrightarrow> rbac_step sha w (snd (role_create e rq name description permissions w))"
| "e_sha256 e = sha \<Longrightarrow> rbac_step sha w (snd (role_update e rq pk name description permissions w))"
| "e_sha256 e = sha \<Longrightarrow> rbac_step sha w (snd (role_destroy e rq pk w))"
| "e_sha256 e = sha \<Longrightarrow> rbac_step sha w (snd (add_team_member e rq pk email role_id w))"
| "rbac_step sha w (snd (remove_team_member rq pk user_id w))"
| "e_sha256 e = sha \<Longrightarrow> rbac_step sha w (snd (api_key_create e rq name permissions expires_at w))"
| "e_sha256 e = sha \<Longrightarrow> rbac_step sha w (snd (api_key_destroy e rq pk w))"
| "e_sha256 e = sha \<Longrightarrow> rbac_step sha w (snd (role_partial_update e rq pk name description permissions w))"
| "e_sha256 e = sha \<Longrightarrow> rbac_step sha w (snd (team_create e rq name description w))"
| "e_sha256 e = sha \<Longrightarrow> rbac_step sha w (snd (team_update e rq partial pk name description w))"
| "rbac_step sha w (snd (team_destroy rq pk w))"
| "e_sha256 e = sha \<Longrightarrow> rbac_step sha w (snd (resource_policy_create e rq inp w))"
| "e_sha256 e = sha \<Longrightarrow> rbac_step sha w (snd (resource_policy_update e rq partial pk inp w))"
| "rbac_step sha w (snd (resource_policy_destroy rq pk w))"

lemma rbac_step_evolves: "rbac_step sha w w' \<Longrightarrow> evolves sha w w'"
  by (erule rbac_step.cases; hypsubst; intro evolve)

text \<open>Incidents, their states and severities, escalation policies, workflow rules.\<close>

inductive incident_step :: "(string \<Rightarrow> string) \<Rightarrow> world \<Rightarrow> world \<Rightarrow> bool" for sha where
  "e_sha256 e = sha \<Longrightarrow> incident_step sha w (snd (state_create e rq name color ord resolved w))"
| "e_sha256 e = sha \<Longrightarrow> incident_step sha w (snd (state_update e rq pk name color ord resolved w))"
| "incident_step sha w (snd (state_destroy rq pk w))"
| "incident_step sha w (snd (severity_destroy rq pk w))"
| "e_sha256 e = sha \<Longrightarrow> incident_step sha w (snd (incident_create e rq inp w))"
| "e_sha256 e = sha \<Longrightarrow> incident_step sha w (snd (incident_acknowledge e rq pk w))"
| "e_sha256 e = sha \<Longrightarrow> incident_step sha w (snd (incident_resolve e rq pk w))"
| "e_sha256 e = sha \<Longrightarrow> incident_step sha w (snd (incident_assign e rq pk user_id w))"
| "e_sha256 e = sha \<Longrightarrow> incident_step sha w (snd (incident_add_note e rq pk content is_public is_internal w))"
| "e_sha256 e = sha \<Longrightarrow> incident_step sha w (snd (incident_timeline_post e rq pk message w))"
| "e_sha256 e = sha \<Longrightarrow> incident_step sha w (snd (incident_postmortem_put e rq pk inp w))"
| "e_sha256 e = sha \<Longrightarrow> incident_step sha w (snd (add_step e rq pk inp w))"
| "incident_step sha w (snd (remove_step rq pk step_id w))"
| "e_sha256 e = sha \<Longrightarrow> incident_step sha w (snd (state_partial_update e rq pk name color ord resolved w))"
| "e_sha256 e = sha \<Longrightarrow> incident_step sha w (snd (severity_create e rq name color ord w))"
| "e_sha256 e = sha \<Longrightarrow> incident_step sha w (snd (severity_update e rq partial pk name color ord w))"
| "e_sha256 e = sha \<Longrightarrow> incident_step sha w (snd (incident_update e rq partial pk inp w))"
| "incident_step sha w (snd (incident_destroy rq pk w))"
| "e_sha256 e = sha \<Longrightarrow> incident_step sha w (snd (policy_create e rq inp w))"
| "e_sha256 e = sha \<Longrightarrow> incident_step sha w (snd (policy_update e rq partial pk inp w))"
| "incident_step sha w (snd (policy_destroy rq pk w))"
| "e_sha256 e = sha \<Longrightarrow> incident_step sha w (snd (rule_create e rq inp w))"
| "e_sha256 e = sha \<Longrightarrow> incident_step sha w (snd (rule_update e rq partial pk inp w))"
| "incident_step sha w (snd (rule_destroy rq pk w))"

lemma incident_step_evolves: "incident_step sha w w' \<Longrightarrow> evolves sha w w'"
  by (erule incident_step.cases; hypsubst; intro evolve)

text \<open>Monitors and their groups.\<close>

inductive monitor_step :: "(string \<Rightarrow> string) \<Rightarrow> world \<Rightarrow> world \<Rightarrow> bool" for sha where
  "e_sha256 e = sha \<Longrightarrow> monitor_step sha w (snd (monitor_create e rq inp w))"
| "e_sha256 e = sha \<Longrightarrow> monitor_step sha w (snd (monitor_update e rq pk inp w))"
| "e_sha256 e = sha \<Longrightarrow> monitor_step sha w (snd (monitor_destroy e rq pk w))"
| "e_sha256 e = sha \<Longrightarrow> monitor_step sha w (snd (monitor_pause e rq pk w))"
| "e_sha256 e = sha \<Longrightarrow> monitor_step sha w (snd (monitor_resume e rq pk w))"
| "e_sha256 e = sha \<Longrightarrow> monitor_step sha w (snd (monitor_bulk e rq inps w))"
| "e_sha256 e = sha \<Longrightarrow> monitor_step sha w (snd (group_create e rq name description monitors team team_null w))"
| "monitor_step sha w (snd (group_destroy rq pk w))"
| "e_sha256 e = sha \<Longrightarrow> monitor_step sha w (snd (monitor_partial_update e rq pk inp w))"
| "e_sha256 e = sha \<Longrightarrow> monitor_step sha w (snd (group_update e rq partial pk inp w))"

lemma monitor_step_evolves: "monitor_step sha w w' \<Longrightarrow> evolves sha w w'"
  by (erule monitor_step.cases; hypsubst; intro evolve)

text \<open>Scheduled maintenance.\<close>

inductive maintenance_step :: "(string \<Rightarrow> string) \<Rightarrow> world \<Rightarrow> world \<Rightarrow> bool" for sha where
  "e_sha256 e = sha \<Longrightarrow> maintenance_step sha w (snd (maintenance_create e rq inp w))"
| "e_sha256 e = sha \<Longrightarrow> maintenance_step sha w (snd (maintenance_update e rq pk inp w))"
| "e_sha256 e = sha \<Longrightarrow> maintenance_step sha w (snd (maintenance_cancel e rq pk w))"
| "maintenance_step sha w (snd (maintenance_destroy rq pk w))"
| "e_sha256 e = sha \<Longrightarrow> maintenance_step sha w (snd (maintenance_partial_update e rq pk inp w))"

lemma maintenance_step_evolves: "maintenance_step sha w w' \<Longrightarrow> evolves sha w w'"
  by (erule maintenance_step.cases; hypsubst; intro evolve)

text \<open>Status pages, and the public subscriptions.\<close>

inductive page_step :: "(string \<Rightarrow> string) \<Rightarrow> world \<Rightarrow> world \<Rightarrow> bool" for sha where
  "e_sha256 e = sha \<Longrightarrow> page_step sha w (snd (status_page_create e rq inp w))"
| "e_sha256 e = sha \<Longrightarrow> page_step sha w (snd (status_page_update e rq pk inp w))"
| "page_step sha w (snd (status_page_destroy rq pk w))"
| "e_sha256 e = sha \<Longrightarrow> page_step sha w (snd (add_resource e rq pk inp w))"
| "page_step sha w (snd (remove_resource rq pk resource w))"
| "e_sha256 e = sha \<Longrightarrow> page_step sha w (snd (add_announcement e rq pk inp w))"
| "page_step sha w (snd (remove_subscriber rq pk subscriber w))"
| "e_sha256 e = sha \<Longrightarrow> page_step sha w (snd (update_branding e rq pk body w))"
| "e_sha256 e = sha \<Longrightarrow> page_step sha w (snd (update_domain e rq pk body w))"
| "e_sha256 e = sha \<Longrightarrow> page_step sha w (snd (public_subscribe e slug email phone w))"
| "page_step sha w (snd (public_verify_email slug token w))"
| "page_step sha w (snd (public_verify_phone slug token w))"
| "e_sha256 e = sha \<Longrightarrow> page_step sha w (snd (status_page_partial_update e rq pk inp w))"

lemma page_step_evolves: "page_step sha w w' \<Longrightarrow> evolves sha w w'"
  by (erule page_step.cases; hypsubst; intro evolve)

text \<open>Single sign-on and SCIM.\<close>

inductive sso_step :: "(string \<Rightarrow> string) \<Rightarrow> world \<Rightarrow> world \<Rightarrow> bool" for sha where
  "e_sha256 e = sha \<Longrightarrow> sso_step sha w (snd (sso_create e rq inp w))"
| "e_sha256 e = sha \<Longrightarrow> sso_step sha w (snd (sso_update e rq pk inp w))"
| "sso_step sha w (snd (sso_destroy rq pk w))"
| "e_sha256 e = sha \<Longrightarrow> sso_step sha w (snd (regenerate_scim_token e rq pk w))"
| "e_sha256 e = sha \<Longrightarrow> sso_step sha w (snd (sso_acs e l rq h project_id w))"
| "e_sha256 e = sha \<Longrightarrow> sso_step sha w (snd (scim_users_get e rq user_id filter_expr w))"
| "e_sha256 e = sha \<Longrightarrow> sso_step sha w (snd (scim_users_post e rq data w))"
| "e_sha256 e = sha \<Longrightarrow> sso_step sha w (snd (scim_users_put e rq user_id data w))"
| "e_sha256 e = sha \<Longrightarrow> sso_step sha w (snd (scim_users_patch e rq user_id data w))"
| "e_sha256 e = sha \<Longrightarrow> sso_step sha w (snd (scim_users_delete e rq user_id w))"
| "e_sha256 e = sha \<Longrightarrow> sso_step sha w (snd (scim_groups_post e rq data w))"
| "e_sha256 e = sha \<Longrightarrow> sso_step sha w (snd (scim_groups_put e rq group_id data w))"
| "e_sha256 e = sha \<Longrightarrow> sso_step sha w (snd (scim_groups_patch e rq group_id data w))"
| "e_sha256 e = sha \<Longrightarrow> sso_step sha w (snd (scim_groups_delete e rq group_id w))"
| "e_sha256 e = sha \<Longrightarrow> sso_step sha w (snd (sso_partial_update e rq pk inp w))"

lemma sso_step_evolves: "sso_step sha w w' \<Longrightarrow> evolves sha w w'"
  by (erule sso_step.cases; hypsubst; intro evolve)

text \<open>Tenants and projects.\<close>

inductive tenant_step :: "(string \<Rightarrow> string) \<Rightarrow> world \<Rightarrow> world \<Rightarrow> bool" for sha where
  "e_sha256 e = sha \<Longrightarrow> tenant_step sha w (snd (tenant_suspend e rq pk w))"
| "e_sha256 e = sha \<Longrightarrow> tenant_step sha w (snd (tenant_activate e rq pk w))"
| "e_sha256 e = sha \<Longrightarrow> tenant_step sha w (snd (admin_suspend e rq pk w))"
| "e_sha256 e = sha \<Longrightarrow> tenant_step sha w (snd (admin_activate e rq pk w))"
| "tenant_step sha w (snd (admin_destroy rq pk w))"
| "e_sha256 e = sha \<Longrightarrow> tenant_step sha w (snd (admin_update e rq pk inp w))"
| "e_sha256 e = sha \<Longrightarrow> tenant_step sha w (snd (admin_impersonate e rq pk user_id w))"
| "e_sha256 e = sha \<Longrightarrow> tenant_step sha w (snd (project_create e rq name slug description is_active w))"
| "e_sha256 e = sha \<Longrightarrow> tenant_step sha w (snd (project_update e rq pk name slug description is_active w))"
| "e_sha256 e = sha \<Longrightarrow> tenant_step sha w (snd (project_destroy e rq pk w))"
| "e_sha256 e = sha \<Longrightarrow> tenant_step sha w (snd (tenant_create e with_stripe rq inp w))"
| "e_sha256 e = sha \<Longrightarrow> tenant_step sha w (snd (tenant_viewset_update e rq partial pk inp w))"
| "tenant_step sha w (snd (tenant_destroy rq pk w))"
| "e_sha256 e = sha \<Longrightarrow> tenant_step sha w (snd (project_partial_update e rq pk name slug description is_active w))"

lemma tenant_step_evolves: "tenant_step sha w w' \<Longrightarrow> evolves sha w w'"
  by (erule tenant_step.cases; hypsubst; intro evolve)

text \<open>Webhooks and retention policies.\<close>

inductive integration_step :: "(string \<Rightarrow> string) \<Rightarrow> world \<Rightarrow> world \<Rightarrow> bool" for sha where
  "e_sha256 e = sha \<Longrightarrow> integration_step sha w (snd (webhook_create e rq inp w))"
| "e_sha256 e = sha \<Longrightarrow> integration_step sha w (snd (webhook_update e rq pk inp w))"
| "integration_step sha w (snd (webhook_destroy rq pk w))"
| "e_sha256 e = sha \<Longrightarrow> integration_step sha w (snd (webhook_retry e rq pk delivery_id w))"
| "e_sha256 e = sha \<Longrightarrow> integration_step sha w (snd (retention_create e rq dt n archive bucket w))"
| "e_sha256 e = sha \<Longrightarrow> integration_step sha w (snd (retention_update e rq pk dt n archive bucket w))"
| "integration_step sha w (snd (retention_destroy rq pk w))"
| "e_sha256 e = sha \<Longrightarrow> integration_step sha w (snd (webhook_partial_update e rq pk inp w))"
| "e_sha256 e = sha \<Longrightarrow> integration_step sha w (snd (retention_partial_update e rq pk dt n archive bucket w))"

lemma integration_step_evolves: "integration_step sha w w' \<Longrightarrow> evolves sha w w'"
  by (erule integration_step.cases; hypsubst; intro evolve)

text \<open>The management commands, and the authentication of a request.\<close>

inductive command_step :: "(string \<Rightarrow> string) \<Rightarrow> world \<Rightarrow> world \<Rightarrow> bool" for sha where
  "e_sha256 e = sha \<Longrightarrow> command_step sha w (snd (run_checks e n dry_run monitor_id w))"
| "e_sha256 e = sha \<Longrightarrow> command_step sha w (snd (process_escalations e w))"
| "e_sha256 e = sha \<Longrightarrow> command_step sha w (snd (process_unacknowledged_workflows e w))"
| "e_sha256 e = sha \<Longrightarrow> command_step sha w (snd (process_maintenance e w))"
| "e_sha256 e = sha \<Longrightarrow> command_step sha w (snd (purge_expired e dry_run w))"
| "command_step sha w (snd (process_pending e limit w))"
| "e_sha256 e = sha \<Longrightarrow> command_step sha w (snd (authenticate e rq w))"
| "e_sha256 e = sha \<Longrightarrow> command_step sha w (snd (seed_demo e clean w))"
| "e_sha256 e = sha \<Longrightarrow> command_step sha w (snd (send_test_email e email w))"

lemma command_step_evolves:
  assumes "queue_ok w" "command_step sha w w'"
  shows "evolves sha w w'"
  using assms(2) by (cases rule: command_step.cases; hypsubst; intro evolve process_pending_evolves assms(1))

inductive server_step :: "(string \<Rightarrow> string) \<Rightarrow> world \<Rightarrow> world \<Rightarrow> bool" for sha where
  command: "command_step sha w w' \<Longrightarrow> server_step sha w w'"
| account: "account_step sha w w' \<Longrightarrow> server_step sha w w'"
| rbac: "rbac_step sha w w' \<Longrightarrow> server_step sha w w'"
| incident: "incident_step sha w w' \<Longrightarrow> server_step sha w w'"
| monitor: "monitor_step sha w w' \<Longrightarrow> server_step sha w w'"
| maintenance: "maintenance_step sha w w' \<Longrightarrow> server_step sha w w'"
| page: "page_step sha w w' \<Longrightarrow> server_step sha w w'"
| sso: "sso_step sha w w' \<Longrightarrow> server_step sha w w'"
| tenant: "tenant_step sha w w' \<Longrightarrow> server_step sha w w'"
| integration: "integration_step sha w w' \<Longrightarrow> server_step sha w w'"

lemma server_step_evolves: "queue_ok w \<Longrightarrow> server_step sha w w' \<Longrightarrow> evolves sha w w'"
  by (erule server_step.cases)
    (simp_all add: command_step_evolves account_step_evolves rbac_step_evolves incident_step_evolves monitor_step_evolves maintenance_step_evolves page_step_evolves sso_step_evolves tenant_step_evolves integration_step_evolves)

section \<open>Runs\<close>

text \<open>A view behind the middleware may run any number of steps of its own.\<close>

inductive reaches :: "(string \<Rightarrow> string) \<Rightarrow> world \<Rightarrow> world \<Rightarrow> bool" for sha where
  reaches_start: "reaches sha w w"
| reaches_step: "reaches sha w v \<Longrightarrow> server_step sha v v' \<Longrightarrow> reaches sha w v'"
| reaches_request: "reaches sha w v \<Longrightarrow> (\<And>rq u. reaches sha u (snd (view rq u))) \<Longrightarrow>
    reaches sha w (snd (serve e up view rq v))"

lemma reaches_evolves: "reaches sha w w' \<Longrightarrow> queue_ok w \<Longrightarrow> evolves sha w w'"
proof (induction rule: reaches.induct)
  case (reaches_start w)
  show ?case by (rule evolves_start)
next
  case (reaches_step w v v')
  then have v: "evolves sha w v" "queue_ok w" by simp_all
  then have "queue_ok v" by (rule evolves_queue_ok)
  from server_step_evolves [OF this reaches_step.hyps(2)] v(1) show ?case by (rule evolves_trans)
next
  case (reaches_request w v view e up rq)
  then have w: "evolves sha w v" "queue_ok w" by simp_all
  show ?case
  proof (rule serve_evolves [OF _ w(1)])
    fix rq u assume u: "evolves sha w u"
    have "evolves sha u (snd (view rq u))"
      by (rule reaches_request.IH(2) [OF evolves_queue_ok [OF u w(2)]])
    then show "evolves sha w (snd (view rq u))" by (rule evolves_trans [OF _ u])
  qed
qed

section \<open>Properties\<close>

text \<open>
  C1. The audit trail of a running server holds. From a state whose chains all verify, whatever
  requests, commands and SCIM or SAML calls follow, in whatever order and with whatever outcome,
  the chain of every tenant still verifies, and the log is the old one with entries appended:
  no operation of the server alters, reorders or deletes an entry.
\<close>

theorem running_server_keeps_trail:
  assumes "reaches sha w w'" "e_sha256 e = sha" "queue_ok w" "audit_wf w" "\<forall>t. vf_valid (verify_chain e t None w)"
  shows "(\<forall>t. vf_valid (verify_chain e t None w')) \<and> (\<exists>ls. w_audit_logs w' = w_audit_logs w @ ls)"
proof -
  have "evolves sha w w'" by (rule reaches_evolves [OF assms(1,3)])
  with evolves_trail_ok [OF this assms(2)] evolves_appends [OF this] assms(4,5)
  show ?thesis by (simp add: trail_ok_def)
qed

text \<open>
  C7. The delivery queue of a running server is consistent. In every state reached from a
  consistent one, delivery ids are unique and below the counter, a pending delivery has not been
  attempted and has a time to be sent at, a failed one was attempted and has a time for the retry,
  a delivered one was attempted and will not be sent again, and \<open>delivered_at\<close> is set on exactly the
  delivered ones - manual retries, purges and deletions of hooks included.
\<close>

theorem running_server_keeps_queue:
  assumes "reaches sha w w'" "queue_ok w"
  shows "queue_ok w'"
  by (rule evolves_queue_ok [OF reaches_evolves [OF assms] assms(2)])

text \<open>
  C27. No request makes a superuser. Whatever runs - sign-up, invitations, SCIM, SAML, profile
  updates, the administrator's API - the superusers of the server are among those it had before;
  only \<open>createsuperuser\<close> and the Django admin, which are outside the API, make one.
\<close>

theorem running_server_makes_no_superuser:
  assumes "reaches sha w w'" "queue_ok w"
  shows "superusers w' \<subseteq> superusers w"
  by (rule evolves_superusers [OF reaches_evolves [OF assms]])

section \<open>Witnesses\<close>

text \<open>A sign-up, a login behind the middleware, and a run of the queue.\<close>

definition login_view :: handler where
  "login_view rq w = (Response 200 JNull, snd (login sample_env rq ''ann@x.org'' ''secret-99'' w))"

definition sample_run :: world where
  "sample_run =
     snd (process_pending sample_env 50
       (snd (serve sample_env True login_view bare_request
          (snd (register sample_env ''ann@x.org'' ''secret-99'' ''Acme'' [] [] empty_world)))))"

lemma login_view_step: "reaches (e_sha256 sample_env) u (snd (login_view rq u))"
  unfolding login_view_def snd_conv
  by (intro reaches_step [OF reaches_start] server_step.account account_step.intros refl)

lemma sample_run_reached: "reaches (e_sha256 sample_env) empty_world sample_run"
proof -
  let ?sha = "e_sha256 sample_env"
  let ?w = "snd (register sample_env ''ann@x.org'' ''secret-99'' ''Acme'' [] [] empty_world)"
  have "reaches ?sha empty_world ?w"
    by (intro reaches_step [OF reaches_start] server_step.account account_step.intros refl)
  then have "reaches ?sha empty_world (snd (serve sample_env True login_view bare_request ?w))"
    by (rule reaches_request) (rule login_view_step)
  then show ?thesis unfolding sample_run_def
    by (rule reaches_step) (rule server_step.command, rule command_step.intros(6))
qed

lemma empty_world_starts: "queue_ok empty_world" "audit_wf empty_world" "vf_valid (verify_chain e t None empty_world)"
  "superusers empty_world = {}"
  by (simp_all add: queue_ok_def audit_wf_def verify_chain_def tenant_logs_def superusers_def empty_world_def)

theorem running_server_keeps_trail_witness: "vf_valid (verify_chain sample_env 1 None sample_run)"
  using running_server_keeps_trail [OF sample_run_reached refl] empty_world_starts by blast

theorem running_server_keeps_queue_witness: "queue_ok sample_run"
  by (rule running_server_keeps_queue [OF sample_run_reached empty_world_starts(1)])

theorem running_server_makes_no_superuser_witness: "superusers sample_run = {}"
  using running_server_makes_no_superuser [OF sample_run_reached empty_world_starts(1)] empty_world_starts(4) by simp

end
