(* ===== verification/Scheduler.thy ===== *)
theory Scheduler
  imports ServerRun
begin

text \<open>
  \<open>apps/scheduler/jobs.py\<close>: which management command runs when, and how. The library starts the jobs
  that are due at the same minute in threads of a pool; the order in which they get through is a
  parameter.
\<close>

section \<open>Jobs\<close>

datatype job = JobRunChecks | JobProcessMaintenance | JobProcessIncidentEscalations | JobProcessWebhooks
  | JobPurgeExpired

definition scheduler_jobs :: "job list" where
  "scheduler_jobs = [JobRunChecks, JobProcessMaintenance, JobProcessIncidentEscalations, JobProcessWebhooks,
     JobPurgeExpired]"

text \<open>The triggers: every minute, or at 03:00.\<close>

fun cron_matches :: "job \<Rightarrow> nat \<Rightarrow> nat \<Rightarrow> bool" where
  "cron_matches JobPurgeExpired hour minute = (hour = 3 \<and> minute = 0)"
| "cron_matches _ hour minute = True"

section \<open>Commands\<close>

text \<open>\<open>process_incident_escalations\<close>: an exception of the workflow rules ends it after the escalations.\<close>

definition process_incident_escalations :: "env \<Rightarrow> world \<Rightarrow> nat result \<times> world" where
  "process_incident_escalations e w =
     (case process_escalations e w of (stats, w1) \<Rightarrow> process_unacknowledged_workflows e w1)"

text \<open>\<open>process_webhook_deliveries\<close> with its default batch.\<close>

definition process_webhook_deliveries :: "env \<Rightarrow> world \<Rightarrow> delivery_stats \<times> world" where
  "process_webhook_deliveries e w = process_pending e 50 w"

text \<open>\<open>_run_command\<close>: an exception is logged; what was written before it stays.\<close>

fun run_command :: "env \<Rightarrow> net \<Rightarrow> job \<Rightarrow> world \<Rightarrow> world" where
  "run_command e n JobRunChecks w = snd (run_checks e n False None w)"
| "run_command e n JobProcessMaintenance w = snd (process_maintenance e w)"
| "run_command e n JobProcessIncidentEscalations w = snd (process_incident_escalations e w)"
| "run_command e n JobProcessWebhooks w = snd (process_webhook_deliveries e w)"
| "run_command e n JobPurgeExpired w = snd (purge_expired e False w)"

text \<open>The jobs due at a minute, one after the other; each with the environment it meets.\<close>

fun run_jobs :: "(env \<times> net \<times> job) list \<Rightarrow> world \<Rightarrow> world" where
  "run_jobs [] w = w"
| "run_jobs ((e, n, j) # js) w = run_jobs js (run_command e n j w)"

definition scheduler_tick :: "nat \<Rightarrow> nat \<Rightarrow> (job \<Rightarrow> env \<times> net) \<Rightarrow> job list \<Rightarrow> world \<Rightarrow> world" where
  "scheduler_tick hour minute at jobs w =
     run_jobs (map (\<lambda>j. (fst (at j), snd (at j), j)) (filter (\<lambda>j. cron_matches j hour minute) jobs)) w"

section \<open>The scheduler is a run of the server\<close>

lemma reaches_command: "reaches sha w v \<Longrightarrow> command_step sha v v' \<Longrightarrow> reaches sha w v'"
  by (erule reaches_step) (rule server_step.command)

lemma run_command_reaches:
  assumes "reaches sha w v" "e_sha256 e = sha"
  shows "reaches sha w (run_command e n j v)"
proof (cases j)
  case JobProcessIncidentEscalations
  have "reaches sha w (snd (process_escalations e v))"
    by (rule reaches_command [OF assms(1)]) (rule command_step.intros(2) [OF assms(2)])
  then have "reaches sha w (snd (process_unacknowledged_workflows e (snd (process_escalations e v))))"
    by (rule reaches_command) (rule command_step.intros(3) [OF assms(2)])
  then show ?thesis by (simp add: JobProcessIncidentEscalations process_incident_escalations_def split_def)
next
  case JobRunChecks
  then show ?thesis using reaches_command [OF assms(1) command_step.intros(1) [OF assms(2)]] by simp
next
  case JobProcessMaintenance
  then show ?thesis using reaches_command [OF assms(1) command_step.intros(4) [OF assms(2)]] by simp
next
  case JobProcessWebhooks
  then show ?thesis using reaches_command [OF assms(1) command_step.intros(6)]
    by (simp add: process_webhook_deliveries_def)
next
  case JobPurgeExpired
  then show ?thesis using reaches_command [OF assms(1) command_step.intros(5) [OF assms(2)]] by simp
qed

lemma run_jobs_reaches:
  "reaches sha w v \<Longrightarrow> \<forall>(e, n, j) \<in> set js. e_sha256 e = sha \<Longrightarrow> reaches sha w (run_jobs js v)"
proof (induction js arbitrary: v)
  case (Cons x js)
  obtain e n j where x: "x = (e, n, j)" by (cases x)
  with Cons.prems have "reaches sha w (run_command e n j v)" by (intro run_command_reaches) simp_all
  with Cons x show ?case by simp
qed simp

end
