(* ===== verification/EditFacts.thy ===== *)
theory EditFacts
  imports IncidentEdits RbacEdits MonitorEdits RbacFacts TenancyFacts
begin

text \<open>
  What the generic endpoints let a caller do that the dedicated ones refuse: resolve an incident
  without a trace, give a resource to a foreign team, promote oneself through one's own role; and
  what the deletion of a team does to the resources it kept to itself.
\<close>

section \<open>Incidents\<close>

lemma incident_update_Ok:
  assumes "incident_update e rq partial pk inp w = (Ok i1, w1)"
  obtains u i ls where
    "incident_get w rq (put_action partial) (if partial then PATCH else PUT) pk = Ok (u, i)"
    "validate_incident_patch w rq partial i inp = Ok ()" "i1 = patched_incident e inp i"
    "w1 = audited (w\<lparr>w_incidents := update_where (\<lambda>x. ic_id x = pk) (\<lambda>_. i1) (w_incidents w)\<rparr>) ls"
proof -
  obtain u i where g: "incident_get w rq (put_action partial) (if partial then PATCH else PUT) pk = Ok (u, i)"
    "validate_incident_patch w rq partial i inp = Ok ()" "i1 = patched_incident e inp i"
    "w1 = on_incident_save e i1 False
      (w\<lparr>w_incidents := update_where (\<lambda>x. ic_id x = ic_id i) (\<lambda>_. i1) (w_incidents w)\<rparr>)"
    using assms
    by (auto simp: incident_update_def proceed_def bind_result_def Let_def split: sum.splits prod.splits)
  from incident_get_scoped [OF g(1)] have "ic_id i = pk" by simp
  with g on_incident_save_audited [of e i1 False "w\<lparr>w_incidents := update_where (\<lambda>x. ic_id x = pk) (\<lambda>_. i1) (w_incidents w)\<rparr>"]
  show ?thesis by (metis that)
qed

lemma audited_tables [simp]:
  "w_incidents (audited w ls) = w_incidents w" "w_states (audited w ls) = w_states w"
  "w_deliveries (audited w ls) = w_deliveries w" "w_monitors (audited w ls) = w_monitors w"
  "w_esc_states (audited w ls) = w_esc_states w" "w_roles (audited w ls) = w_roles w"
  "w_teams (audited w ls) = w_teams w" "w_team_memberships (audited w ls) = w_team_memberships w"
  "w_notes (audited w ls) = w_notes w"
  by (simp_all add: audited_def)

lemma resolve_resolved:
  assumes "\<And>i. i \<in> set (w_incidents w) \<Longrightarrow> ic_id i = pk \<Longrightarrow> incident_is_resolved w i"
  shows "snd (incident_resolve e rq pk w) = w"
  using assms
  by (auto simp: incident_resolve_def dest!: incident_get_scoped split: sum.splits prod.splits)

text \<open>
  C4. An incident can be resolved without a trace. A PUT or PATCH that names a resolved state puts the
  incident into it, but sets neither \<open>resolved_at\<close> nor \<open>resolved_by\<close>, queues no event, adds no note
  and leaves the escalation and the monitor's link as they were; and since the incident counts as
  resolved, the \<open>resolve\<close> endpoint, which would record all that, does nothing from then on.
\<close>

theorem patch_resolves_silently:
  assumes "incident_update e rq partial pk inp w = (Ok i1, w1)" "ip_state inp = Some s" "state_is_resolved w s"
  shows "incident_is_resolved w1 i1 \<and>
    (\<exists>i \<in> set (w_incidents w). ic_id i = pk \<and> ic_resolved_at i1 = ic_resolved_at i \<and> ic_resolved_by i1 = ic_resolved_by i) \<and>
    w_deliveries w1 = w_deliveries w \<and> w_notes w1 = w_notes w \<and> w_esc_states w1 = w_esc_states w \<and>
    w_monitors w1 = w_monitors w \<and> (\<forall>e' rq'. snd (incident_resolve e' rq' pk w1) = w1)"
proof -
  from incident_update_Ok [OF assms(1)] obtain u i ls where
    g: "incident_get w rq (put_action partial) (if partial then PATCH else PUT) pk = Ok (u, i)"
    and i1: "i1 = patched_incident e inp i"
    and w1: "w1 = audited (w\<lparr>w_incidents := update_where (\<lambda>x. ic_id x = pk) (\<lambda>_. i1) (w_incidents w)\<rparr>) ls" .
  have "state_is_resolved w1 s" using assms(3) by (simp add: w1 state_is_resolved_def state_of_def)
  then have r: "incident_is_resolved w1 i1"
    by (simp add: incident_is_resolved_def i1 patched_incident_def assms(2))
  have "x = i1" if "x \<in> set (w_incidents w1)" "ic_id x = pk" for x
    using that by (auto simp: w1 in_update_where_iff split: if_splits)
  with r have "snd (incident_resolve e' rq' pk w1) = w1" for e' rq' by (intro resolve_resolved) metis
  moreover from incident_get_scoped [OF g] have "i \<in> set (w_incidents w)" "ic_id i = pk" by auto
  ultimately show ?thesis using r by (auto simp: w1 i1 patched_incident_def)
qed

section \<open>Teams\<close>

text \<open>Shared rows are visible to anybody who asks for the project.\<close>

lemma monitor_queryset_iff:
  assumes "req_user rq = Some u" "req_project rq = Some p"
  shows "m \<in> set (monitor_queryset w rq no_filter) \<longleftrightarrow>
    m \<in> set (w_monitors w) \<and> mo_project m = pj_id p \<and>
    (user_sees_all_teams w u (pj_id p) \<or> mo_team m = None \<or>
     (\<exists>t \<in> set (get_user_team_ids w u (pj_id p)). mo_team m = Some t))"
  using assms
  by (auto simp: monitor_queryset_def scope_queryset_by_team_def apply_team_param_def apply_team_scope_iff
      monitor_matches_def no_filter_def)

lemma incident_queryset_iff:
  assumes "req_user rq = Some u" "req_project rq = Some p"
  shows "i \<in> set (incident_queryset w rq no_filters) \<longleftrightarrow>
    i \<in> set (w_incidents w) \<and> ic_project i = pj_id p \<and>
    (user_sees_all_teams w u (pj_id p) \<or> ic_team i = None \<or>
     (\<exists>t \<in> set (get_user_team_ids w u (pj_id p)). ic_team i = Some t))"
  using assms
  by (auto simp: incident_queryset_def no_filters_def scope_queryset_by_team_def apply_team_param_def
      apply_team_scope_iff Let_def)

lemma team_destroy_Ok:
  assumes "team_destroy rq pk w = (Ok r, w1)"
  shows "w1 = delete_team pk w"
  using assms by (auto simp: team_destroy_def proceed_def dest!: viewset_get_Ok split: sum.splits)

text \<open>
  Deleting a team publishes what it kept to itself. After a successful deletion of a team, every
  monitor and every incident of the team belongs to no team, and so every user asking for the project
  sees it, whatever teams they are in: before, only the members and the administrators did.
\<close>

theorem deleted_team_shares_resources:
  assumes "team_destroy rq t w = (Ok r, w1)" "req_user rq' = Some u" "req_project rq' = Some p"
  shows "(\<forall>m \<in> set (w_monitors w). mo_team m = Some t \<longrightarrow> mo_project m = pj_id p \<longrightarrow>
            m\<lparr>mo_team := None\<rparr> \<in> set (monitor_queryset w1 rq' no_filter)) \<and>
         (\<forall>i \<in> set (w_incidents w). ic_team i = Some t \<longrightarrow> ic_project i = pj_id p \<longrightarrow>
            i\<lparr>ic_team := None\<rparr> \<in> set (incident_queryset w1 rq' no_filters))"
  unfolding team_destroy_Ok [OF assms(1)] monitor_queryset_iff [OF assms(2,3)] incident_queryset_iff [OF assms(2,3)]
  by (auto simp: delete_team_def Let_def image_iff intro!: bexI)

text \<open>A PATCH with nothing but \<open>team_id\<close>.\<close>

definition team_patch :: "uuid option \<Rightarrow> monitor_patch" where
  "team_patch team =
     \<lparr>mp_name = None, mp_type = None, mp_url = None, mp_method = None, mp_interval_seconds = None,
      mp_timeout_seconds = None, mp_retries = None, mp_probe_locations = None, mp_criteria = None,
      mp_steps = None, mp_headers = None, mp_body = None, mp_alert_on_failure = None, mp_is_paused = None,
      mp_tags = None, mp_team = Some team\<rparr>"

lemma create_in_foreign_team:
  assumes "req_user rq = Some u" "req_project rq = Some p" "\<not> user_sees_all_teams w u (pj_id p)"
    "\<not> exists_row (\<lambda>m. mb_user m = usr_id u \<and> mb_team m = t) (w_team_memberships w)" "mn_team inp = Some t"
  shows "\<exists>x. monitor_create e rq inp w = (Raise x, w)"
proof (cases "require_permission w monitor_permission_map ''create'' rq None")
  case (Inr a)
  with assms(1) have a: "require_permission w monitor_permission_map ''create'' rq None = Ok u"
    by (auto simp: require_permission_Ok_iff)
  show ?thesis
  proof (cases "validate_monitor w rq inp")
    case (Inr v)
    with assms(5) have "mn_team v = Some t"
      by (auto simp: validate_monitor_def bind_result_Inr_iff split: if_splits)
    with assms(2-4) show ?thesis by (simp add: monitor_create_def a Inr resolve_team_for_create_def)
  qed (simp add: monitor_create_def a)
qed (simp add: monitor_create_def)

text \<open>
  Only creation asks whether the caller is in the team. A caller without \<open>*\<close> who is no member of a
  team of the project may not create a monitor in it (403 or an earlier refusal), but may give a monitor
  they can edit to that team, by a PATCH with nothing but \<open>team_id\<close>, and so put it out of their
  own sight, and into the sight of the team.
\<close>

theorem update_skips_membership:
  assumes "req_user rq = Some u" "req_project rq = Some p" "\<not> user_sees_all_teams w u (pj_id p)"
    "team_of w t = Some x" "tm_project x = pj_id p"
    "\<not> exists_row (\<lambda>m. mb_user m = usr_id u \<and> mb_team m = t) (w_team_memberships w)"
    "monitor_get w rq ''partial_update'' no_filter pk = Ok m" "validate_target (mo_type m) (mo_url m) (mo_steps m) = Ok ()"
  shows "(\<forall>inp. mn_team inp = Some t \<longrightarrow> (\<exists>y. monitor_create e rq inp w = (Raise y, w))) \<and>
    (\<exists>m1 w1. monitor_partial_update e rq pk (team_patch (Some t)) w = (Ok m1, w1) \<and> mo_team m1 = Some t \<and>
       pk \<notin> mo_id ` set (monitor_queryset w1 rq no_filter))"
proof -
  let ?m = "patched_monitor e None (team_patch (Some t)) m"
  have pu: "monitor_partial_update e rq pk (team_patch (Some t)) w = (Ok ?m, save_monitor e ?m w)"
    using assms(2,4,5,7,8)
    by (simp add: monitor_partial_update_def validate_monitor_patch_def team_patch_def team_in_project_def Let_def)
  obtain ls where s: "save_monitor e ?m w = audited (update_monitor (mo_id ?m) (\<lambda>_. ?m) w) ls"
    unfolding save_monitor_def using on_monitor_save_audited by blast
  have "mo_id m = pk" using assms(7) by (auto simp: monitor_get_def bind_result_Inr_iff dest: get_object_Ok)
  then have ids: "mo_id ?m = pk" "mo_team ?m = Some t" by (simp_all add: patched_monitor_def team_patch_def)
  define w1 where "w1 = save_monitor e ?m w"
  have mons: "w_monitors w1 = update_where (\<lambda>r. mo_id r = pk) (\<lambda>_. ?m) (w_monitors w)"
    using ids(1) by (simp add: w1_def s update_monitor_def)
  have same: "get_user_team_ids w1 u q = get_user_team_ids w u q" "user_sees_all_teams w1 u q = user_sees_all_teams w u q" for q
    by (simp_all add: w1_def s audited_def update_monitor_def get_user_team_ids_def project_memberships_def team_of_def
        user_sees_all_teams_def get_user_permissions_def role_permissions_of_def role_of_def)
  have "x \<notin> set (monitor_queryset w1 rq no_filter)" if "mo_id x = pk" for x
    using assms(3,6) ids(2) that
    by (auto simp: monitor_queryset_iff [OF assms(1,2)] same mons in_update_where_iff user_team_ids_iff exists_row_iff
        split: if_splits)
  then have "pk \<notin> mo_id ` set (monitor_queryset (save_monitor e ?m w) rq no_filter)" by (auto simp: w1_def)
  with pu ids(2) create_in_foreign_team [OF assms(1-3,6)] show ?thesis by blast
qed

section \<open>Roles\<close>

text \<open>
  C6. Who may edit roles is an administrator. A member whose own role is not a system role and who is
  allowed to update roles can PATCH that role's permissions to \<open>*\<close> - nothing compares the new
  permissions with the caller's - and from then on has every permission in the project and sees the
  resources of all its teams.
\<close>

theorem role_editor_becomes_admin:
  assumes "req_user rq = Some u" "req_project rq = Some p" "distinct (map ro_id (w_roles w))"
    "unique_role_name_per_project (w_roles w)" "m \<in> set (project_memberships w (usr_id u) (pj_id p))"
    "viewset_get w role_permission_map ''partial_update'' rq ro_id (role_queryset w rq) (mb_role m) = Ok r"
    "\<not> ro_is_system r"
  shows "\<exists>r1 w1. role_partial_update e rq (mb_role m) None None (Some [''*'']) w = (Ok r1, w1) \<and>
    ''*'' \<in> get_user_permissions w1 u (pj_id p) \<and> user_sees_all_teams w1 u (pj_id p)"
proof -
  define r1 where "r1 = r\<lparr>ro_permissions := [''*''], ro_updated_at := e_now e\<rparr>"
  from viewset_get_Ok [OF assms(6)] have r: "r \<in> set (w_roles w)" "ro_id r = mb_role m"
    using assms(2) by (auto simp: role_queryset_def)
  have free: "\<not> exists_row (\<lambda>x. ro_project x = ro_project r \<and> ro_name x = ro_name r \<and> ro_id x \<noteq> ro_id r) (w_roles w)"
    using assms(4) r(1) unfolding unique_role_name_per_project_def exists_row_iff distinct_map inj_on_def by auto
  obtain ls where a: "on_role_save e r1 False (w\<lparr>w_roles := update_where (\<lambda>x. ro_id x = ro_id r) (\<lambda>_. r1) (w_roles w)\<rparr>) =
      audited (w\<lparr>w_roles := update_where (\<lambda>x. ro_id x = ro_id r) (\<lambda>_. r1) (w_roles w)\<rparr>) ls" (is "_ = ?w1")
    using on_role_save_audited by blast
  have upd: "role_partial_update e rq (mb_role m) None None (Some [''*'']) w = (Ok r1, ?w1)"
    using assms(6,7) free
    by (simp add: role_partial_update_def validate_role_patch_def Let_def a [unfolded r1_def] r1_def)
  have "role_of ?w1 (mb_role m) = Some r1"
    using find_key_update [OF assms(3) r(1), of r1] r(2) by (simp add: role_of_def r1_def)
  then have "''*'' \<in> role_permissions_of ?w1 (mb_role m)" by (simp add: role_permissions_of_def r1_def)
  moreover have "m \<in> set (project_memberships ?w1 (usr_id u) (pj_id p))"
    using assms(5) by (simp add: project_memberships_def team_of_def)
  ultimately have "''*'' \<in> get_user_permissions ?w1 u (pj_id p)"
    unfolding get_user_permissions_iff by (simp only: refl if_True if_False split: if_split) blast
  with upd show ?thesis by (auto simp: user_sees_all_teams_def)
qed

section \<open>Witnesses\<close>

text \<open>Ann (5) is in team 20 of project 2 with role 30; a monitor, an incident, an open and a resolved state.\<close>

definition boss_request :: request where
  "boss_request = sample_request\<lparr>req_user := Some (sample_user\<lparr>usr_is_superuser := True\<rparr>)\<rparr>"

definition other_team :: team where
  "other_team = \<lparr>tm_id = 22, tm_tenant = 1, tm_project = 2, tm_name = ''DBA'', tm_description = [],
                 tm_created_at = 0, tm_updated_at = 0\<rparr>"

definition edit_world :: "string list \<Rightarrow> uuid option \<Rightarrow> team list \<Rightarrow> world" where
  "edit_world perms team teams =
     (rbac_world perms EffectAllow)
       \<lparr>w_teams := w_teams (rbac_world perms EffectAllow) @ teams, w_resource_policies := [], w_severities := [],
        w_monitors := [sample_monitor\<lparr>mo_team := team\<rparr>], w_incidents := [sample_incident\<lparr>ic_team := team\<rparr>],
        w_states := [mk_system_state (sample_env, 80, 1, ''#'', 1, False) (2, ''triggered''),
                     mk_system_state (sample_env, 81, 1, ''#'', 2, True) (2, ''resolved'')]\<rparr>"

lemma boss_simps [simp]:
  "req_user boss_request = Some (sample_user\<lparr>usr_is_superuser := True\<rparr>)" "req_api_key boss_request = None"
  "req_project boss_request = Some sample_project"
  by (simp_all add: boss_request_def)

lemma boss_permitted: "require_permission w pm a boss_request obj = Ok (sample_user\<lparr>usr_is_superuser := True\<rparr>)"
  by (simp add: require_permission_def check_permissions_def evaluate_def split: option.splits)

lemma boss_sees_all: "user_sees_all_teams w (sample_user\<lparr>usr_is_superuser := True\<rparr>) p"
  by (simp add: user_sees_all_teams_def)

theorem patch_resolves_silently_witness:
  "\<exists>i1 w1. incident_update sample_env boss_request True 60 (no_change\<lparr>ip_state := Some 81\<rparr>) (edit_world [] None []) = (Ok i1, w1) \<and>
     ic_resolved_at i1 = None \<and> snd (incident_resolve sample_env boss_request 60 w1) = w1"
proof -
  let ?w = "edit_world [] None []" and ?p = "no_change\<lparr>ip_state := Some 81\<rparr>"
  have "\<exists>i1 w1. incident_update sample_env boss_request True 60 ?p ?w = (Ok i1, w1)"
    by (simp add: incident_update_def incident_get_def boss_permitted get_object_def incident_queryset_def no_filters_def
        scope_queryset_by_team_def apply_team_param_def apply_team_scope_def boss_sees_all edit_world_def rbac_world_def
        sample_incident_def order_by_simps validate_incident_patch_def required_def no_change_def valid_pk_def
        valid_team_def validate_incident_def mk_system_state_def exists_row_def severity_of_def state_of_def Let_def)
  then obtain i1 w1 where u: "incident_update sample_env boss_request True 60 ?p ?w = (Ok i1, w1)" by blast
  have "state_is_resolved ?w 81"
    by (simp add: state_is_resolved_def state_of_def edit_world_def rbac_world_def mk_system_state_def)
  from patch_resolves_silently [OF u _ this] u show ?thesis
    by (auto simp: edit_world_def rbac_world_def sample_incident_def)
qed

theorem deleted_team_shares_resources_witness:
  "\<exists>r w1. team_destroy boss_request 20 (edit_world [] (Some 20) []) = (Ok r, w1) \<and>
     sample_monitor \<in> set (monitor_queryset w1 (sample_request\<lparr>req_user := Some (sample_user\<lparr>usr_id := 6\<rparr>)\<rparr>) no_filter)"
proof -
  let ?w = "edit_world [] (Some 20) []"
  have "\<exists>r w1. team_destroy boss_request 20 ?w = (Ok r, w1)"
    by (simp add: team_destroy_def viewset_get_def boss_permitted get_object_def team_queryset_def edit_world_def
        rbac_world_def order_by_simps)
  then obtain r w1 where d: "team_destroy boss_request 20 ?w = (Ok r, w1)" by blast
  have "sample_monitor\<lparr>mo_team := None\<rparr> = sample_monitor" by (simp add: sample_monitor_def)
  with deleted_team_shares_resources [OF d, of "sample_request\<lparr>req_user := Some (sample_user\<lparr>usr_id := 6\<rparr>)\<rparr>"
      "sample_user\<lparr>usr_id := 6\<rparr>" sample_project] d
  show ?thesis by (auto simp: edit_world_def rbac_world_def sample_monitor_def)
qed

lemma edit_world_memberships:
  "project_memberships (edit_world perms team teams) 5 2 =
     [\<lparr>mb_id = 21, mb_team = 20, mb_user = 5, mb_role = 30, mb_granted_by = None, mb_created_at = 0\<rparr>]"
  by (simp add: project_memberships_def edit_world_def rbac_world_def team_of_def)

lemma edit_world_role: "role_permissions_of (edit_world perms team teams) 30 = set perms"
  by (simp add: role_permissions_of_def role_of_def edit_world_def rbac_world_def sample_role_def)

lemma ann_permitted:
  assumes "has_permission (set perms) perm" "map_of pm a = Some perm" "resource_type_of perm \<noteq> []"
  shows "require_permission (edit_world perms team teams) pm a sample_request obj = Ok sample_user"
proof -
  have "p \<in> get_user_permissions (edit_world perms team teams) sample_user 2 \<longleftrightarrow> p \<in> set perms" for p
    by (simp add: get_user_permissions_iff edit_world_memberships edit_world_role)
  then have "get_user_permissions (edit_world perms team teams) sample_user 2 = set perms" by blast
  moreover have "check_resource_policy (edit_world perms team teams) sample_user 2 rt obj = None" for rt
    by (simp add: check_resource_policy_def edit_world_def Let_def split: option.split)
  ultimately have "evaluate (edit_world perms team teams) perm sample_request obj"
    using assms(1,3) evaluate_user [of sample_request sample_user sample_project perm] by simp
  then show ?thesis using assms(2) by (simp add: require_permission_def check_permissions_def)
qed

lemma ann_sees_all: "user_sees_all_teams (edit_world perms team teams) sample_user 2 \<longleftrightarrow> ''*'' \<in> set perms"
  by (simp add: user_sees_all_teams_def get_user_permissions_iff edit_world_memberships edit_world_role)

theorem update_skips_membership_witness:
  "\<exists>m1 w1. monitor_partial_update sample_env sample_request 90 (team_patch (Some 22))
     (edit_world [''monitor:update''] None [other_team]) = (Ok m1, w1) \<and> mo_team m1 = Some 22"
proof -
  let ?w = "edit_world [''monitor:update''] None [other_team]"
  have p: "require_permission ?w monitor_permission_map ''partial_update'' sample_request obj = Ok sample_user" for obj
    by (rule ann_permitted [where perm = "''monitor:update''"])
      (simp_all add: has_permission_def monitor_permission_map_def resource_type_of_def)
  have "monitor_get ?w sample_request ''partial_update'' no_filter 90 = Ok sample_monitor"
    by (simp add: monitor_get_def p get_object_def monitor_queryset_def scope_queryset_by_team_def apply_team_param_def
        apply_team_scope_def ann_sees_all monitor_matches_def no_filter_def order_by_simps)
      (simp add: edit_world_def sample_monitor_def order_by_simps)
  moreover have "team_of ?w 22 = Some other_team" "\<not> exists_row (\<lambda>m. mb_user m = usr_id sample_user \<and> mb_team m = 22) (w_team_memberships ?w)"
    by (simp_all add: team_of_def edit_world_def rbac_world_def other_team_def exists_row_def)
  moreover have "validate_target (mo_type sample_monitor) (mo_url sample_monitor) (mo_steps sample_monitor) = Ok ()"
    by (simp add: validate_target_def sample_monitor_def)
  moreover have "\<not> user_sees_all_teams ?w sample_user 2" "tm_project other_team = 2"
    by (simp_all add: ann_sees_all other_team_def)
  ultimately show ?thesis
    using update_skips_membership [of sample_request sample_user sample_project ?w 22 other_team 90 sample_monitor sample_env]
    by simp blast
qed

theorem role_editor_becomes_admin_witness:
  "\<exists>r1 w1. role_partial_update sample_env sample_request 30 None None (Some [''*''])
     (edit_world [''role:update''] None []) = (Ok r1, w1) \<and> user_sees_all_teams w1 sample_user 2"
proof -
  let ?w = "edit_world [''role:update''] None []"
  have p: "require_permission ?w role_permission_map ''partial_update'' sample_request obj = Ok sample_user" for obj
    by (rule ann_permitted [where perm = "''role:update''"])
      (simp_all add: has_permission_def role_permission_map_def resource_type_of_def)
  have "viewset_get ?w role_permission_map ''partial_update'' sample_request ro_id (role_queryset ?w sample_request) 30 =
      Ok (sample_role [''role:update''])"
    by (simp add: viewset_get_def p get_object_def role_queryset_def order_by_simps)
      (simp add: edit_world_def rbac_world_def sample_role_def order_by_simps)
  moreover have "distinct (map ro_id (w_roles ?w))" "unique_role_name_per_project (w_roles ?w)"
    by (simp_all add: edit_world_def rbac_world_def unique_role_name_per_project_def)
  moreover have "\<not> ro_is_system (sample_role [''role:update''])" by (simp add: sample_role_def)
  ultimately show ?thesis
    using role_editor_becomes_admin [of sample_request sample_user sample_project ?w
      "\<lparr>mb_id = 21, mb_team = 20, mb_user = 5, mb_role = 30, mb_granted_by = None, mb_created_at = 0\<rparr>"
      "sample_role [''role:update'']" sample_env]
    by (simp add: edit_world_memberships) blast
qed

end
