(* ===== verification/AuditExport.thy ===== *)
theory AuditExport
  imports Retention
begin

text \<open>
  The exports of the audit log (\<open>AuditLogViewSet.export\<close>): CSV as \<open>csv.DictWriter\<close> of the standard
  library writes it (minimal quoting), and the choice of the format. An RFC 4180 reader that gets the
  cells back is the reference the writer is compared with.
\<close>

section \<open>Writing\<close>

text \<open>A cell with a comma, a quote or a line break is quoted, its quotes doubled.\<close>

definition csv_special :: "char \<Rightarrow> bool" where
  "csv_special c \<longleftrightarrow> c \<in> {CHR '','', CHR 0x22, CHR 0x0D, CHR 0x0A}"

fun double_quotes :: "string \<Rightarrow> string" where
  "double_quotes [] = []"
| "double_quotes (c # cs) = (if c = CHR 0x22 then [c, c] else [c]) @ double_quotes cs"

definition csv_cell :: "string \<Rightarrow> string" where
  "csv_cell s = (if list_ex csv_special s then CHR 0x22 # double_quotes s @ [CHR 0x22] else s)"

fun csv_row :: "string list \<Rightarrow> string" where
  "csv_row [] = [CHR 0x0D, CHR 0x0A]"
| "csv_row [s] = csv_cell s @ [CHR 0x0D, CHR 0x0A]"
| "csv_row (s # t # ss) = csv_cell s @ CHR '','' # csv_row (t # ss)"

definition csv_fields :: "string list" where
  "csv_fields = [''id'', ''actor_id'', ''actor_type'', ''action'', ''resource_type'', ''resource_id'',
                 ''ip_address'', ''user_agent'', ''record_hash'', ''created_at'']"

definition audit_cells :: "audit_log \<Rightarrow> string list" where
  "audit_cells l =
     [string_of_nat (al_id l), string_of_nat (al_actor_id l), actor_type_value (al_actor_type l), al_action l,
      al_resource_type l, (case al_resource_id l of Some i \<Rightarrow> string_of_nat i | None \<Rightarrow> []),
      (case al_ip_address l of Some s \<Rightarrow> s | None \<Rightarrow> []), al_user_agent l, al_record_hash l,
      string_of_int (al_created_at l)]"

text \<open>\<open>_iter_csv\<close>: the chunks of the stream, the header first.\<close>

definition iter_csv :: "audit_log list \<Rightarrow> string list" where
  "iter_csv logs = csv_row csv_fields # map (\<lambda>l. csv_row (audit_cells l)) logs"

definition quoted_text :: "string \<Rightarrow> string" where
  "quoted_text s = [CHR 0x27] @ s @ [CHR 0x27]"

text \<open>\<open>export\<close>: \<open>fmt\<close> is the query parameter, \<open>None\<close> when absent; the stream, or the answer 400.\<close>

definition audit_export ::
  "world \<Rightarrow> request \<Rightarrow> audit_filter \<Rightarrow> string option \<Rightarrow> (response + string list) result" where
  "audit_export w rq f fmt =
     bind_result (require_permission w audit_permission_map ''export'' rq None) (\<lambda>_.
       let format = lower (case fmt of Some s \<Rightarrow> s | None \<Rightarrow> ''jsonl'');
           logs = order_by al_id (audit_queryset w rq f)
       in if format = ''jsonl'' then Ok (Inr (map export_line logs))
          else if format = ''csv'' then Ok (Inr (iter_csv logs))
          else Ok (Inl (detail_response 400 (''format must be '' @ quoted_text ''csv'' @ '' or '' @ quoted_text ''jsonl'' @ ''.''))))"

section \<open>Reading\<close>

text \<open>A cell and what follows it; \<open>read_quoted\<close> starts behind the opening quote.\<close>

fun read_quoted :: "string \<Rightarrow> string \<times> string" where
  "read_quoted [] = ([], [])"
| "read_quoted [c] = (if c = CHR 0x22 then ([], []) else ([c], []))"
| "read_quoted (c # d # cs) =
     (if c = CHR 0x22
      then (if d = CHR 0x22 then (case read_quoted cs of (s, r) \<Rightarrow> (c # s, r)) else ([], d # cs))
      else (case read_quoted (d # cs) of (s, r) \<Rightarrow> (c # s, r)))"

definition read_cell :: "string \<Rightarrow> string \<times> string" where
  "read_cell s =
     (case s of
        [] \<Rightarrow> ([], [])
      | c # cs \<Rightarrow>
          (if c = CHR 0x22 then read_quoted cs
           else (takeWhile (\<lambda>x. \<not> csv_special x) s, dropWhile (\<lambda>x. \<not> csv_special x) s)))"

lemma read_quoted_shorter: "length (snd (read_quoted s)) \<le> length s"
  by (induction s rule: read_quoted.induct) (auto split: prod.splits)

lemma read_cell_shorter: "read_cell s = (x, y) \<Longrightarrow> length y \<le> length s"
  using read_quoted_shorter [of "tl s"] length_dropWhile_le [of "\<lambda>x. \<not> csv_special x" s]
  by (auto simp: read_cell_def simp del: dropWhile.simps split: list.splits if_splits)

text \<open>The rows of a text. A cell is followed by a comma, the end of its row, or nothing.\<close>

function read_csv :: "string list \<Rightarrow> string \<Rightarrow> string list list" where
  "read_csv cells s =
     (case read_cell s of
        (x, y) \<Rightarrow>
          (case y of
             [] \<Rightarrow> [cells @ [x]]
           | c # r \<Rightarrow>
               (if c = CHR '','' then read_csv (cells @ [x]) r
                else if c = CHR 0x0D \<and> r \<noteq> [] \<and> hd r = CHR 0x0A
                then (cells @ [x]) # (if tl r = [] then [] else read_csv [] (tl r))
                else [cells @ [x]])))"
  by pat_completeness auto

termination
proof (relation "measure (\<lambda>(cells, s). length s)")
  show "wf (measure (\<lambda>(cells :: string list, s :: string). length s))" by simp
qed (auto dest!: sym [of _ "read_cell _"] read_cell_shorter)

declare read_csv.simps [simp del]

lemma read_quoted_doubled:
  "r = [] \<or> hd r \<noteq> CHR 0x22 \<Longrightarrow> read_quoted (double_quotes s @ CHR 0x22 # r) = (s, r)"
proof (induction s)
  case Nil
  then show ?case by (cases r) auto
next
  case (Cons c s)
  show ?case
  proof (cases "c = CHR 0x22")
    case False
    obtain d ds where "double_quotes s @ CHR 0x22 # r = d # ds" by (cases "double_quotes s") auto
    with Cons False show ?thesis by simp
  qed (use Cons in simp)
qed

lemma read_cell_csv_cell:
  assumes "c = CHR '','' \<or> c = CHR 0x0D"
  shows "read_cell (csv_cell s @ c # r) = (s, c # r)"
proof (cases "list_ex csv_special s")
  case True
  with assms read_quoted_doubled [of "c # r" s] show ?thesis by (auto simp: read_cell_def csv_cell_def)
next
  case False
  then have n: "\<not> csv_special d" if "d \<in> set s" for d using that by (simp add: list_ex_iff)
  have c: "csv_special c" "c \<noteq> CHR 0x22" using assms by (auto simp: csv_special_def)
  have "takeWhile (\<lambda>x. \<not> csv_special x) (s @ c # r) = s" "dropWhile (\<lambda>x. \<not> csv_special x) (s @ c # r) = c # r"
    using n c(1) by (simp_all add: takeWhile_append2 dropWhile_append2)
  moreover have "s = [] \<or> hd s \<noteq> CHR 0x22" using n [of "hd s"] by (cases s) (auto simp: csv_special_def)
  ultimately show ?thesis using False c(2) by (cases s) (auto simp: read_cell_def csv_cell_def)
qed

lemma read_csv_row:
  "read_csv cells (csv_row (t # ts) @ r) = (cells @ t # ts) # (if r = [] then [] else read_csv [] r)"
proof (induction ts arbitrary: cells t)
  case Nil
  show ?case by (subst read_csv.simps) (simp add: read_cell_csv_cell)
next
  case (Cons u us)
  show ?case by (subst read_csv.simps) (simp add: read_cell_csv_cell Cons)
qed

lemma csv_row_Cons: "csv_row (t # ts) \<noteq> []"
  by (cases ts) (simp_all add: csv_cell_def)

lemma read_csv_rows:
  assumes "rows \<noteq> []" "\<And>x. x \<in> set rows \<Longrightarrow> x \<noteq> []"
  shows "read_csv [] (concat (map csv_row rows)) = rows"
  using assms
proof (induction rows)
  case (Cons row rows)
  obtain t ts where row: "row = t # ts" using Cons.prems(2) [of row] by (cases row) auto
  show ?case
  proof (cases "rows = []")
    case True
    then show ?thesis using read_csv_row [of "[]" t ts "[]"] by (simp add: row)
  next
    case False
    then obtain u us rest where rows: "rows = (u # us) # rest"
      using Cons.prems(2) by (cases rows; cases "hd rows") auto
    then have "concat (map csv_row rows) \<noteq> []" by (simp add: csv_row_Cons)
    with False Cons show ?thesis by (simp add: row read_csv_row)
  qed
qed simp

section \<open>Properties\<close>


definition hostile_entry :: audit_log where
  "hostile_entry =
     \<lparr>al_id = 7, al_tenant = 1, al_project = None, al_actor_id = 5, al_actor_type = ActUser,
      al_action = ''role.update'', al_resource_type = ''Role'', al_resource_id = None, al_old_value = JNull,
      al_new_value = JNull, al_ip_address = None,
      al_user_agent = [CHR ''a'', CHR 0x22, CHR '','', CHR 0x0D, CHR 0x0A, CHR ''8''],
      al_prev_hash = [], al_record_hash = ''ff'', al_created_at = 0\<rparr>"


end
