(* ===== verification/Documents.thy ===== *)
theory Documents
  imports IncidentEdits MonitorEdits RbacEdits ServiceEdits TenancyEdits AuditExport WebhookFacts
begin

text \<open>
  The documents the serializers make of rows where no other theory needs them, and the listings that
  show them. What a listing shows does not depend on the secrets the rows hold.
\<close>

section \<open>Access control\<close>

definition role_json :: "role \<Rightarrow> json" where
  "role_json r = JObj
     [(''id'', JUuid (ro_id r)), (''name'', JStr (ro_name r)), (''description'', JStr (ro_description r)),
      (''is_system'', JBool (ro_is_system r)), (''permissions'', JList (map JStr (ro_permissions r))),
      (''created_at'', JTime (ro_created_at r)), (''updated_at'', JTime (ro_updated_at r))]"

definition team_json :: "world \<Rightarrow> team \<Rightarrow> json" where
  "team_json w t = JObj
     [(''id'', JUuid (tm_id t)), (''name'', JStr (tm_name t)), (''description'', JStr (tm_description t)),
      (''member_count'', JInt (int (length (filter (\<lambda>m. mb_team m = tm_id t) (w_team_memberships w))))),
      (''created_at'', JTime (tm_created_at t)), (''updated_at'', JTime (tm_updated_at t))]"

fun effect_value :: "policy_effect \<Rightarrow> string" where
  "effect_value EffectAllow = ''allow''"
| "effect_value EffectDeny = ''deny''"

fun effect_display :: "policy_effect \<Rightarrow> string" where
  "effect_display EffectAllow = ''Allow''"
| "effect_display EffectDeny = ''Deny''"

definition resource_policy_json :: "world \<Rightarrow> resource_policy \<Rightarrow> json" where
  "resource_policy_json w p = JObj
     [(''id'', JUuid (rp_id p)), (''role'', JUuid (rp_role p)),
      (''role_name'', (case role_of w (rp_role p) of Some r \<Rightarrow> JStr (ro_name r) | None \<Rightarrow> JNull)),
      (''resource_type'', JStr (rp_resource_type p)), (''resource_id'', json_opt_uuid (rp_resource_id p)),
      (''effect'', JStr (effect_value (rp_effect p))), (''effect_display'', JStr (effect_display (rp_effect p))),
      (''conditions'', rp_conditions p),
      (''created_at'', JTime (rp_created_at p)), (''updated_at'', JTime (rp_updated_at p))]"

section \<open>Incidents\<close>

definition state_json :: "incident_state \<Rightarrow> json" where
  "state_json s = JObj
     [(''id'', JUuid (st_id s)), (''name'', JStr (st_name s)), (''color'', JStr (st_color s)),
      (''order'', JInt (int (st_order s))), (''is_resolved_state'', JBool (st_is_resolved_state s)),
      (''is_system'', JBool (st_is_system s)),
      (''created_at'', JTime (st_created_at s)), (''updated_at'', JTime (st_updated_at s))]"

definition severity_json :: "incident_severity \<Rightarrow> json" where
  "severity_json s = JObj
     [(''id'', JUuid (sv_id s)), (''name'', JStr (sv_name s)), (''color'', JStr (sv_color s)),
      (''order'', JInt (int (sv_order s))), (''is_system'', JBool (sv_is_system s)),
      (''created_at'', JTime (sv_created_at s)), (''updated_at'', JTime (sv_updated_at s))]"

definition note_json :: "world \<Rightarrow> incident_note \<Rightarrow> json" where
  "note_json w n = JObj
     [(''id'', JUuid (nt_id n)), (''content'', JStr (nt_content n)), (''is_public'', JBool (nt_is_public n)),
      (''author_email'', (case Option.bind (nt_author n) (user_of w) of
                            Some u \<Rightarrow> JStr (usr_email u) | None \<Rightarrow> JNull)),
      (''created_at'', JTime (nt_created_at n)), (''updated_at'', JTime (nt_updated_at n))]"

text \<open>The GET branch of \<open>notes\<close>.\<close>

definition list_notes :: "world \<Rightarrow> request \<Rightarrow> uuid \<Rightarrow> json result" where
  "list_notes w rq pk =
     bind_result (incident_get w rq ''notes'' GET pk) (\<lambda>(u, i).
       Ok (JList (map (note_json w)
         (order_by nt_created_at (filter (\<lambda>n. nt_incident n = ic_id i) (w_notes w))))))"

definition postmortem_json :: "incident_postmortem \<Rightarrow> json" where
  "postmortem_json p = JObj
     [(''id'', JUuid (pm_id p)), (''summary'', JStr (pm_summary p)), (''impact'', JStr (pm_impact p)),
      (''root_cause'', JStr (pm_root_cause p)), (''timeline'', JStr (pm_timeline p)),
      (''action_items'', pm_action_items p), (''published_at'', json_opt_time (pm_published_at p)),
      (''published'', JBool (pm_published_at p \<noteq> None)),
      (''created_at'', JTime (pm_created_at p)), (''updated_at'', JTime (pm_updated_at p))]"

text \<open>The GET branch of \<open>postmortem\<close>.\<close>

definition get_postmortem :: "world \<Rightarrow> request \<Rightarrow> uuid \<Rightarrow> response result" where
  "get_postmortem w rq pk =
     bind_result (incident_get w rq ''postmortem'' GET pk) (\<lambda>(u, i).
       case find (\<lambda>p. pm_incident p = ic_id i) (w_postmortems w) of
         None \<Rightarrow> Ok (detail_response 404 ''No postmortem for this incident.'')
       | Some p \<Rightarrow> Ok (Response 200 (postmortem_json p)))"

definition step_json :: "escalation_step \<Rightarrow> json" where
  "step_json s = JObj
     [(''id'', JUuid (es_id s)), (''order'', JInt (int (es_order s))),
      (''delay_minutes'', JInt (int (es_delay_minutes s))), (''action'', JStr (step_action_value (es_action s))),
      (''webhook'', json_opt_uuid (es_webhook s)), (''user'', json_opt_uuid (es_user s)),
      (''target_severity'', json_opt_uuid (es_target_severity s)), (''created_at'', JTime (es_created_at s))]"

definition policy_json :: "world \<Rightarrow> escalation_policy \<Rightarrow> json" where
  "policy_json w p =
     (let steps = order_by es_order (filter (\<lambda>s. es_policy s = ep_id p) (w_esc_steps w))
      in JObj
        [(''id'', JUuid (ep_id p)), (''name'', JStr (ep_name p)), (''description'', JStr (ep_description p)),
         (''is_default'', JBool (ep_is_default p)), (''is_active'', JBool (ep_is_active p)),
         (''severity_names'', JList (map JStr (ep_severity_names p))),
         (''team_id'', json_opt_uuid (ep_team p)), (''team_name'', team_name_json w (ep_team p)),
         (''steps'', JList (map step_json steps)), (''step_count'', JInt (int (length steps))),
         (''created_at'', JTime (ep_created_at p)), (''updated_at'', JTime (ep_updated_at p))])"

fun rule_trigger_value :: "rule_trigger \<Rightarrow> string" where
  "rule_trigger_value IncidentCreated = ''incident_created''"
| "rule_trigger_value IncidentUnacknowledged = ''incident_unacknowledged''"
| "rule_trigger_value IncidentResolved = ''incident_resolved''"

definition rule_json :: "workflow_rule \<Rightarrow> json" where
  "rule_json r = JObj
     [(''id'', JUuid (wr_id r)), (''name'', JStr (wr_name r)), (''trigger'', JStr (rule_trigger_value (wr_trigger r))),
      (''conditions'', wr_conditions r), (''actions'', JList (wr_actions r)), (''is_active'', JBool (wr_is_active r)),
      (''created_at'', JTime (wr_created_at r)), (''updated_at'', JTime (wr_updated_at r))]"

section \<open>Webhooks\<close>

fun payload_format_value :: "payload_format \<Rightarrow> string" where
  "payload_format_value FmtJson = ''json''"
| "payload_format_value FmtSlack = ''slack''"
| "payload_format_value FmtTeams = ''teams''"
| "payload_format_value FmtDiscord = ''discord''"

text \<open>The secret is \<open>write_only\<close>.\<close>

definition webhook_json :: "world \<Rightarrow> webhook \<Rightarrow> json" where
  "webhook_json w h = JObj
     [(''id'', JUuid (wh_id h)), (''name'', JStr (wh_name h)), (''url'', JStr (wh_url h)),
      (''payload_format'', JStr (payload_format_value (wh_payload_format h))),
      (''event_types'', JList (map JStr (wh_event_types h))), (''is_active'', JBool (wh_is_active h)),
      (''headers'', JObj (map (\<lambda>kv. (fst kv, JStr (snd kv))) (wh_headers h))),
      (''timeout_seconds'', JInt (int (wh_timeout_seconds h))), (''max_retries'', JInt (int (wh_max_retries h))),
      (''team_id'', json_opt_uuid (wh_team h)), (''team_name'', team_name_json w (wh_team h)),
      (''created_at'', JTime (wh_created_at h)), (''updated_at'', JTime (wh_updated_at h))]"

definition webhook_list :: "world \<Rightarrow> request \<Rightarrow> string \<Rightarrow> uuid option \<Rightarrow> json result" where
  "webhook_list w rq active team_id =
     bind_result (require_permission w webhook_permission_map ''list'' rq None) (\<lambda>_.
       Ok (JList (map (webhook_json w) (webhook_queryset w rq active team_id))))"

fun delivery_status_value :: "delivery_status \<Rightarrow> string" where
  "delivery_status_value Pending = ''pending''"
| "delivery_status_value Delivered = ''success''"
| "delivery_status_value Failed = ''failed''"
| "delivery_status_value Exhausted = ''exhausted''"

definition delivery_json :: "delivery \<Rightarrow> json" where
  "delivery_json d = JObj
     [(''id'', JUuid (dl_id d)), (''event_id'', JStr (dl_event_id d)), (''event_type'', JStr (dl_event_type d)),
      (''payload'', dl_payload d), (''response_status'', json_opt_int (dl_response_status d)),
      (''response_body'', JStr (dl_response_body d)), (''attempt_count'', JInt (int (dl_attempt_count d))),
      (''status'', JStr (delivery_status_value (dl_status d))), (''next_retry_at'', json_opt_time (dl_next_retry_at d)),
      (''delivered_at'', json_opt_time (dl_delivered_at d)), (''duration_ms'', json_opt_int (dl_duration_ms d)),
      (''created_at'', JTime (dl_created_at d)), (''updated_at'', JTime (dl_updated_at d))]"

section \<open>Audit and retention\<close>

definition audit_log_json :: "world \<Rightarrow> audit_log \<Rightarrow> json" where
  "audit_log_json w l = JObj
     [(''id'', JInt (int (al_id l))), (''actor_id'', JUuid (al_actor_id l)),
      (''actor_type'', JStr (actor_type_value (al_actor_type l))), (''actor_label'', JStr (actor_label w l)),
      (''action'', JStr (al_action l)), (''resource_type'', JStr (al_resource_type l)),
      (''resource_id'', json_opt_uuid (al_resource_id l)),
      (''old_value'', al_old_value l), (''new_value'', al_new_value l),
      (''ip_address'', json_opt_str (al_ip_address l)), (''user_agent'', JStr (al_user_agent l)),
      (''prev_hash'', JStr (al_prev_hash l)), (''record_hash'', JStr (al_record_hash l)),
      (''hash'', JStr (al_record_hash l)),
      (''project_name'', (case Option.bind (al_project l) (project_of w) of
                            Some p \<Rightarrow> JStr (pj_name p) | None \<Rightarrow> JNull)),
      (''created_at'', JTime (al_created_at l))]"

text \<open>\<open>AdminAuditLogViewSet.list_logs\<close>: the latest 200 entries of all tenants.\<close>

definition admin_list_logs ::
  "world \<Rightarrow> request \<Rightarrow> uuid option \<Rightarrow> string \<Rightarrow> string \<Rightarrow> datetime option \<Rightarrow> datetime option \<Rightarrow> json result" where
  "admin_list_logs w rq tenant_id action resource_type since till =
     bind_result (require_super_admin rq) (\<lambda>_.
       Ok (JList (map (audit_log_json w) (take 200 (order_by_desc al_created_at
         (filter (\<lambda>l. (case tenant_id of Some t \<Rightarrow> al_tenant l = t | None \<Rightarrow> True) \<and>
                       (action = [] \<or> icontains_lower (al_action l) action) \<and>
                       (resource_type = [] \<or> al_resource_type l = resource_type) \<and>
                       (case since of Some t \<Rightarrow> t \<le> al_created_at l | None \<Rightarrow> True) \<and>
                       (case till of Some t \<Rightarrow> al_created_at l \<le> t | None \<Rightarrow> True))
            (w_audit_logs w)))))))"

definition retention_json :: "retention_policy \<Rightarrow> json" where
  "retention_json r = JObj
     [(''id'', JUuid (rt_id r)), (''data_type'', JStr (data_type_value (rt_data_type r))),
      (''data_type_display'', JStr (data_type_display (rt_data_type r))),
      (''retention_days'', JInt (int (rt_retention_days r))), (''archive_to_s3'', JBool (rt_archive_to_s3 r)),
      (''s3_bucket'', json_opt_str (rt_s3_bucket r)),
      (''created_at'', JTime (rt_created_at r)), (''updated_at'', JTime (rt_updated_at r))]"

section \<open>Accounts\<close>

definition user_list :: "world \<Rightarrow> request \<Rightarrow> json result" where
  "user_list w rq =
     bind_result (require_permission w user_permission_map ''list'' rq None) (\<lambda>u.
       Ok (JList (map (user_json w) (user_queryset w u))))"

definition user_retrieve :: "world \<Rightarrow> request \<Rightarrow> uuid \<Rightarrow> json result" where
  "user_retrieve w rq pk =
     bind_result (require_permission w user_permission_map ''retrieve'' rq None) (\<lambda>u.
     bind_result (get_object w user_permission_map ''retrieve'' rq usr_id (user_queryset w u) pk) (\<lambda>r.
       Ok (user_json w r)))"

section \<open>Secrets\<close>

text \<open>
  The world without its secrets: password hashes and TOTP seeds, one-time passwords and login sessions,
  invitation tokens, the hashes of API keys, the signing secrets of webhooks, SCIM tokens and
  certificates, the verification tokens of subscribers.
\<close>

definition redact :: "world \<Rightarrow> world" where
  "redact w =
     w\<lparr>w_users := map (\<lambda>u. u\<lparr>usr_password := None, usr_mfa_secret := []\<rparr>) (w_users w),
       w_user_memberships := map (\<lambda>m. m\<lparr>um_invitation_token := []\<rparr>) (w_user_memberships w),
       w_otp_challenges := [], w_mfa_sessions := [],
       w_api_keys := map (\<lambda>k. k\<lparr>ak_key_hash := []\<rparr>) (w_api_keys w),
       w_webhooks := map (\<lambda>h. h\<lparr>wh_secret := []\<rparr>) (w_webhooks w),
       w_sso_configs := map (\<lambda>c. c\<lparr>sc_scim_token := [], sc_x509_cert := []\<rparr>) (w_sso_configs w),
       w_subscribers := map (\<lambda>s. s\<lparr>sb_verification_token := [], sb_phone_verification_token := []\<rparr>) (w_subscribers w)\<rparr>"

lemma find_map: "find p (map f xs) = map_option f (find (\<lambda>x. p (f x)) xs)"
  by (induction xs) auto

lemma insort_key_map: "insort_key k (f x) (map f xs) = map f (insort_key (\<lambda>y. k (f y)) x xs)"
  by (induction xs) auto

lemma sort_key_map: "sort_key k (map f xs) = map f (sort_key (\<lambda>y. k (f y)) xs)"
  by (induction xs) (simp_all add: insort_key_map)

lemma order_by_map: "order_by k (map f xs) = map f (order_by (\<lambda>y. k (f y)) xs)"
  "order_by_desc k' (map f xs) = map f (order_by_desc (\<lambda>y. k' (f y)) xs)"
  by (simp_all add: order_by_def order_by_desc_def sort_key_map)

lemma redact_lookups [simp]:
  "w_teams (redact w) = w_teams w" "w_team_memberships (redact w) = w_team_memberships w" "w_roles (redact w) = w_roles w" "w_status_pages (redact w) = w_status_pages w"
  "team_of (redact w) = team_of w" "role_of (redact w) = role_of w" "tenant_of (redact w) = tenant_of w"
  "default_project (redact w) = default_project w"
  by (simp_all add: fun_eq_iff redact_def team_of_def role_of_def tenant_of_def default_project_def)

lemma redact_team_name [simp]: "team_name_json (redact w) t = team_name_json w t"
  by (simp add: team_name_json_def cong: option.case_cong)

lemma redact_permissions [simp]:
  "project_memberships (redact w) = project_memberships w"
  "get_user_permissions (redact w) = get_user_permissions w"
  "check_permissions (redact w) = check_permissions w"
  "require_permission (redact w) = require_permission w"
  "get_object (redact w) = get_object w"
  "user_sees_all_teams (redact w) = user_sees_all_teams w"
  "get_user_team_ids (redact w) = get_user_team_ids w"
  "scope_queryset_by_team (redact w) = scope_queryset_by_team w"
proof -
  show m: "project_memberships (redact w) = project_memberships w"
    by (simp add: fun_eq_iff project_memberships_def)
  have r: "role_permissions_of (redact w) = role_permissions_of w"
    by (simp add: fun_eq_iff role_permissions_of_def)
  show p: "get_user_permissions (redact w) = get_user_permissions w"
    by (simp add: fun_eq_iff get_user_permissions_def m r)
  have a: "check_resource_policy (redact w) = check_resource_policy w"
    by (simp add: fun_eq_iff check_resource_policy_def m) (simp add: redact_def)
  have b: "get_request_permissions (redact w) = get_request_permissions w"
    by (simp add: fun_eq_iff get_request_permissions_def p cong: option.case_cong)
  have "evaluate (redact w) perm rq obj = evaluate w perm rq obj" for perm rq obj
    unfolding evaluate_def a b ..
  then have "evaluate (redact w) = evaluate w" by blast
  then show c: "check_permissions (redact w) = check_permissions w" by (simp add: fun_eq_iff check_permissions_def cong: option.case_cong)
  show q: "require_permission (redact w) = require_permission w" by (simp add: fun_eq_iff require_permission_def c cong: option.case_cong)
  show "get_object (redact w) = get_object w" by (simp add: fun_eq_iff get_object_def q)
  show u: "user_sees_all_teams (redact w) = user_sees_all_teams w" by (simp add: fun_eq_iff user_sees_all_teams_def p)
  show t: "get_user_team_ids (redact w) = get_user_team_ids w" by (simp add: fun_eq_iff get_user_team_ids_def m)
  show "scope_queryset_by_team (redact w) = scope_queryset_by_team w"
    by (intro ext) (unfold scope_queryset_by_team_def apply_team_scope_def u t, rule refl)
qed

text \<open>Users: the memberships without their tokens decide the same, and the document has no secret.\<close>

lemma redact_user_of [simp]:
  "user_of (redact w) i = map_option (\<lambda>u. u\<lparr>usr_password := None, usr_mfa_secret := []\<rparr>) (user_of w i)"
  by (simp add: user_of_def redact_def find_map)

lemma redact_full_name [simp]: "full_name (u\<lparr>usr_password := p, usr_mfa_secret := x\<rparr>) = full_name u"
  by (simp add: full_name_def Let_def)

lemma redact_owner [simp]:
  "owner_membership (redact w) i = map_option (\<lambda>m. m\<lparr>um_invitation_token := []\<rparr>) (owner_membership w i)"
  by (simp add: owner_membership_def redact_def find_map split: option.split)

lemma redact_user_json [simp]: "user_json (redact w) (u\<lparr>usr_password := p, usr_mfa_secret := x\<rparr>) = user_json w u"
  by (cases "owner_membership w (usr_id u)") (simp_all add: user_json_def Let_def)

lemma redact_user_queryset:
  "user_queryset (redact w) u = map (\<lambda>u. u\<lparr>usr_password := None, usr_mfa_secret := []\<rparr>) (user_queryset w u)"
  by (simp add: user_queryset_def redact_def exists_row_def filter_map comp_def list_ex_iff Let_def)

lemma redact_user_list: "user_list (redact w) rq = user_list w rq"
  by (simp add: user_list_def redact_user_queryset comp_def)

lemma redact_get_object:
  assumes "\<And>r. key (f r) = key r"
  shows "get_object w pm a rq key (map f rs) pk = map_sum id f (get_object w pm a rq key rs pk)"
  by (cases "find (\<lambda>r. key r = pk) rs")
    (simp_all add: get_object_def find_map assms bind_result_def split: sum.split)

lemma redact_user_retrieve: "user_retrieve (redact w) rq pk = user_retrieve w rq pk"
  by (simp add: user_retrieve_def redact_user_queryset redact_get_object bind_result_def split: sum.split)

text \<open>Webhooks, API keys, team members, subscribers.\<close>

lemma redact_scope:
  assumes "\<And>r. team (f r) = team r"
  shows "scope_queryset_by_team w team (map f rs) rq t = map f (scope_queryset_by_team w team rs rq t)"
  by (simp add: scope_queryset_by_team_def apply_team_param_def apply_team_scope_def assms filter_map comp_def Let_def
      split: option.split)

lemma redact_webhook_list: "webhook_list (redact w) rq active t = webhook_list w rq active t"
proof -
  let ?f = "\<lambda>h. h\<lparr>wh_secret := []\<rparr>"
  have "w_webhooks (redact w) = map ?f (w_webhooks w)" by (simp add: redact_def)
  then have "webhook_queryset (redact w) rq active t = map ?f (webhook_queryset w rq active t)"
    by (simp add: webhook_queryset_def filter_map comp_def redact_scope order_by_map split: option.split)
  moreover have "webhook_json (redact w) (?f h) = webhook_json w h" for h by (simp add: webhook_json_def)
  ultimately show ?thesis by (simp add: webhook_list_def comp_def)
qed

lemma redact_api_key_list: "api_key_list e (redact w) rq = api_key_list e w rq"
proof -
  let ?f = "\<lambda>k. k\<lparr>ak_key_hash := []\<rparr>"
  have "w_api_keys (redact w) = map ?f (w_api_keys w)" by (simp add: redact_def)
  then have "api_key_queryset (redact w) rq = map ?f (api_key_queryset w rq)"
    by (simp add: api_key_queryset_def filter_map comp_def order_by_map split: option.split)
  moreover have "api_key_json e (?f k) = api_key_json e k" for k by (simp add: api_key_json_def api_key_is_active_def)
  ultimately show ?thesis by (simp add: api_key_list_def comp_def)
qed

lemma redact_team_members: "list_team_members (redact w) rq pk = list_team_members w rq pk"
proof -
  have "team_member_json (redact w) = team_member_json w"
    by (rule ext) (simp add: team_member_json_def split: option.split)
  moreover have "team_queryset (redact w) = team_queryset w" by (simp add: fun_eq_iff team_queryset_def cong: option.case_cong)
  ultimately show ?thesis by (simp add: list_team_members_def viewset_get_def)
qed

lemma redact_subscribers: "list_subscribers (redact w) rq pk = list_subscribers w rq pk"
proof -
  let ?f = "\<lambda>s. s\<lparr>sb_verification_token := [], sb_phone_verification_token := []\<rparr>"
  have "status_page_queryset (redact w) = status_page_queryset w" by (simp add: fun_eq_iff status_page_queryset_def cong: option.case_cong)
  then have "status_page_get (redact w) = status_page_get w" by (simp add: fun_eq_iff status_page_get_def)
  moreover have "w_subscribers (redact w) = map ?f (w_subscribers w)" by (simp add: redact_def)
  moreover have "subscriber_json (?f s) = subscriber_json s" for s by (simp add: subscriber_json_def)
  ultimately show ?thesis by (simp add: list_subscribers_def filter_map comp_def)
qed

text \<open>
  C20. Listings do not give secrets away. Two servers that differ only in their secrets - password
  hashes, TOTP seeds, pending codes and sessions, invitation tokens, hashes of API keys, signing
  secrets of webhooks, verification tokens of subscribers - answer every request for the listings of
  webhooks, API keys, users, team members and subscribers alike: whoever asks, and whatever the
  permissions, teams and filters, nothing of a secret can be read off the answers.
\<close>

theorem listings_hide_secrets:
  assumes "redact w = redact w'"
  shows "webhook_list w rq active t = webhook_list w' rq active t \<and> api_key_list e w rq = api_key_list e w' rq \<and>
    user_list w rq = user_list w' rq \<and> user_retrieve w rq pk = user_retrieve w' rq pk \<and>
    list_team_members w rq pk = list_team_members w' rq pk \<and> list_subscribers w rq pk = list_subscribers w' rq pk"
  by (metis assms redact_webhook_list redact_api_key_list redact_user_list redact_user_retrieve redact_team_members
      redact_subscribers)

theorem listings_hide_secrets_witness:
  "webhook_list (empty_world\<lparr>w_webhooks := [sample_hook]\<rparr>) sample_request [] None =
   webhook_list (empty_world\<lparr>w_webhooks := [sample_hook\<lparr>wh_secret := ''guess''\<rparr>]\<rparr>) sample_request [] None"
proof -
  have "redact (empty_world\<lparr>w_webhooks := [sample_hook]\<rparr>) = redact (empty_world\<lparr>w_webhooks := [sample_hook\<lparr>wh_secret := ''guess''\<rparr>]\<rparr>)"
    by (simp add: redact_def)
  from listings_hide_secrets [OF this] show ?thesis by blast
qed

end
