(* ===== verification/SeedFacts.thy ===== *)
theory SeedFacts
  imports SeedDemo AccountsFacts TenancyFacts
begin

text \<open>
  What \<open>seed_demo\<close> leaves behind: an account one can log in to, nothing more on a second run, and a
  \<open>--clean\<close> that fails half-way.
\<close>

section \<open>Frames\<close>

text \<open>The tables the facts below are about: seeding the project and its rows does not touch them.\<close>

definition same_logins :: "world \<Rightarrow> world \<Rightarrow> bool" where
  "same_logins w w' \<longleftrightarrow> w_users w' = w_users w \<and> w_tenants w' = w_tenants w \<and>
     set (w_audit_logs w) \<subseteq> set (w_audit_logs w')"

lemma same_logins_refl [simp, intro]: "same_logins w w"
  by (simp add: same_logins_def)

lemma same_logins_trans [trans]: "same_logins w w1 \<Longrightarrow> same_logins w1 w2 \<Longrightarrow> same_logins w w2"
  by (auto simp: same_logins_def)

lemma same_logins_fold:
  assumes "\<And>x v. same_logins v (f x v)"
  shows "same_logins w (fold f xs w)"
  using assms by (induction xs arbitrary: w) (auto intro: same_logins_trans)

lemma same_logins_audited: "same_logins w (audited w ls)"
  by (auto simp: same_logins_def audited_def)

lemma team_same_logins: "same_logins w (snd (team_get_or_create e tn prj a b w))"
  by (simp add: team_get_or_create_def same_logins_def split: prod.splits)

lemma join_same_logins: "same_logins w (snd (join_team e tid uid rid by_whom w))"
  by (simp add: join_team_def same_logins_def split: prod.splits)

lemma bootstrap_same_logins: "same_logins w (snd (bootstrap_project e prj tn w))"
  by (auto simp: bootstrap_project_def create_system_roles_def create_system_incident_states_def
      create_system_incident_severities_def create_default_probes_def same_logins_def split: prod.splits)

lemma monitor_same_logins: "same_logins w (demo_monitor e p spec w)"
proof (cases spec)
  case (fields name url interval criteria)
  have "same_logins v (on_monitor_save e m True (v\<lparr>w_monitors := ms, w_next := n\<rparr>))" for v m ms n
    using on_monitor_save_audited [of e m True "v\<lparr>w_monitors := ms, w_next := n\<rparr>"]
    by (auto simp: same_logins_def audited_def)
  then show ?thesis by (simp add: demo_monitor_def fields Let_def)
qed

lemma webhook_same_logins: "same_logins w (demo_webhook e p w)"
  by (simp add: demo_webhook_def same_logins_def Let_def)

lemma retention_same_logins: "same_logins w (demo_retention e p spec w)"
  by (simp add: demo_retention_def same_logins_def Let_def split: prod.split)

lemma project_same_logins: "same_logins w (demo_project e u p r w)"
proof -
  obtain team w1 where t: "team_get_or_create e (pj_tenant p) (pj_id p) ''Platform'' ''Demo platform team'' w = (team, w1)"
    by force
  define w2 where "w2 = snd (join_team e (tm_id team) (usr_id u) (ro_id r) None w1)"
  define w3 where "w3 = fold (demo_monitor e p) demo_monitors w2"
  have "same_logins w w1" using team_same_logins [of w] t by (metis snd_conv)
  also have "same_logins w1 w2" unfolding w2_def by (rule join_same_logins)
  also have "same_logins w2 w3" unfolding w3_def by (rule same_logins_fold) (rule monitor_same_logins)
  also have "same_logins w3 (demo_webhook e p w3)" by (rule webhook_same_logins)
  also have "same_logins (demo_webhook e p w3)
      (fold (demo_retention e p) [(MonitorChecks, 30), (WebhookDeliveries, 14)] (demo_webhook e p w3))"
    by (rule same_logins_fold) (rule retention_same_logins)
  finally show ?thesis
    by (simp only: demo_project_def t prod.case Let_def w2_def w3_def)
qed

section \<open>Account, tenant and the way back\<close>

lemma add_membership_tenants: "w_tenants (add_membership e m w) = w_tenants w"
proof -
  obtain ls where "add_membership e m w =
      audited (w\<lparr>w_user_memberships := w_user_memberships w @ [m], w_next := Suc (w_next w)\<rparr>) ls"
    using on_membership_save_audited unfolding add_membership_def by blast
  then show ?thesis by (simp add: audited_def)
qed

lemma create_account_tenants:
  assumes "create_account e email pw tn fn ln w = (Ok (u, t, p), w')"
  shows "w_tenants w' = w_tenants w @ [t]"
proof -
  obtain r w1 where r: "create_user e email pw fn ln False False w = (r, w1)" by force
  with assms have u: "create_user e email pw fn ln False False w = (Ok u, w1)"
    by (cases r) (auto simp: create_account_def Let_def split: prod.splits)
  then have w1: "w_tenants w1 = w_tenants w" by (auto simp: create_user_def Let_def split: if_splits)
  define w3 where "w3 = w1\<lparr>w_tenants := w_tenants w1 @ [t], w_projects := w_projects w1 @ [p],
      w_next := Suc (Suc (w_next w1))\<rparr>"
  define w4 where "w4 = add_membership e (new_membership e (w_next w3) (usr_id u) (tn_id t) True None []
      (Some (usr_created_at u))) w3"
  obtain b w5 where b: "bootstrap_project e (pj_id p) (tn_id t) w4 = (b, w5)" by force
  have "w' = (case map_of (bs_roles b) ''admin'' of None \<Rightarrow> w5
      | Some r \<Rightarrow> (let (team, w6) = team_get_or_create e (tn_id t) (pj_id p)
                     ''Administrators'' ''Project owners and administrators'' w5
                  in snd (join_team e (tm_id team) (usr_id u) (ro_id r) (Some (usr_id u)) w6)))"
    using assms u b by (auto simp: create_account_def Let_def w3_def w4_def split: prod.splits option.splits)
  then have "same_logins w5 w'"
    by (auto simp: split_def Let_def intro: same_logins_trans [OF team_same_logins join_same_logins] split: option.splits)
  then have "w_tenants w' = w_tenants w5" by (simp add: same_logins_def)
  moreover have "w_tenants w5 = w_tenants w4" using bootstrap_same_logins [of w4 e "pj_id p" "tn_id t"] by (simp add: b same_logins_def)
  moreover have "w_tenants w4 = w_tenants w3" unfolding w4_def by (rule add_membership_tenants)
  ultimately show ?thesis by (simp add: w3_def w1)
qed

text \<open>A first run succeeds when nobody has the address.\<close>

lemma bootstrap_admin: "\<exists>r. map_of (bs_roles (fst (bootstrap_project e prj tn w))) ''admin'' = Some r"
proof -
  obtain b w' where b: "bootstrap_project e prj tn w = (b, w')" by force
  obtain rs where g: "goc_each role_key mk_system_role (role_defaults e tn prj (w_next w)) (w_roles w) = (rs, w_roles w')"
    and z: "bs_roles b = zip (map fst SYSTEM_ROLES) rs"
    by (rule bootstrap_projectE [OF b]) auto
  have "length rs = 3" using roles.goc_each_length [OF g] by (simp add: role_defaults_def SYSTEM_ROLES_def with_fresh_def)
  then show ?thesis by (auto simp: b z SYSTEM_ROLES_def length_Suc_conv numeral_3_eq_3)
qed

lemma seed_demo_succeeds:
  assumes "\<forall>t \<in> set (w_tenants w). tn_slug t \<noteq> DEMO_TENANT_SLUG"
    "\<forall>r \<in> set (w_users w). usr_email r \<noteq> DEMO_EMAIL \<and> usr_username r \<noteq> DEMO_EMAIL"
  shows "\<exists>w1. seed_demo e False w = (Ok (), w1)"
proof -
  have em: "normalize_email DEMO_EMAIL = DEMO_EMAIL" by code_simp
  obtain u v where "create_user e DEMO_EMAIL DEMO_PASSWORD ''Demo'' ''User'' False False w = (Ok u, v)"
  proof -
    have "DEMO_EMAIL \<noteq> []" by (simp add: DEMO_EMAIL_def)
    moreover have "\<not> exists_row (\<lambda>r. usr_email r = DEMO_EMAIL \<or> usr_username r = DEMO_EMAIL) (w_users w)"
      using assms(2) by (auto simp: exists_row_def)
    ultimately show ?thesis using that by (simp add: create_user_def Let_def em)
  qed
  from create_account_ok [OF this] obtain t p w2
    where c: "create_account e DEMO_EMAIL DEMO_PASSWORD DEMO_TENANT_NAME ''Demo'' ''User'' w = (Ok (u, t, p), w2)" by metis
  obtain b w4 where b: "bootstrap_project e (pj_id p) (tn_id t) (demo_account e u t w2) = (b, w4)" by force
  then obtain r where "map_of (bs_roles b) ''admin'' = Some r" by (metis bootstrap_admin fst_conv)
  moreover have "\<not> exists_row (\<lambda>t. tn_slug t = DEMO_TENANT_SLUG) (w_tenants w)"
    using assms(1) by (auto simp: exists_row_def)
  ultimately show ?thesis by (simp add: seed_demo_def c b)
qed

text \<open>The first run, on a server without the demo tenant.\<close>

lemma seed_demo_first:
  assumes "seed_demo e False w = (Ok (), w1)" "\<forall>t \<in> set (w_tenants w). tn_slug t \<noteq> DEMO_TENANT_SLUG"
  obtains us u t ts where "w_users w1 = us @ [u]" "\<forall>r \<in> set us. usr_email r \<noteq> DEMO_EMAIL" "usr_email u = DEMO_EMAIL"
    "usr_is_active u" "usr_is_email_verified u" "usr_password u = Some (e_make_password e DEMO_PASSWORD)"
    "t \<in> set (w_tenants w1)" "tn_slug t = DEMO_TENANT_SLUG"
    "\<forall>x \<in> set (w_tenants w1). tn_slug x = DEMO_TENANT_SLUG \<longrightarrow> has_audit_log (tn_id x) w1"
proof -
  have no: "\<not> exists_row (\<lambda>t. tn_slug t = DEMO_TENANT_SLUG) (w_tenants w)"
    using assms(2) by (auto simp: exists_row_def)
  obtain u t p w2 where c: "create_account e DEMO_EMAIL DEMO_PASSWORD DEMO_TENANT_NAME ''Demo'' ''User'' w = (Ok (u, t, p), w2)"
  proof (cases "create_account e DEMO_EMAIL DEMO_PASSWORD DEMO_TENANT_NAME ''Demo'' ''User'' w")
    case (Pair r v)
    with assms that show ?thesis by (cases r) (auto simp: seed_demo_def split: if_splits)
  qed
  let ?w3 = "demo_account e u t w2"
  obtain rows w4 where b: "bootstrap_project e (pj_id p) (tn_id t) ?w3 = (rows, w4)" by force
  obtain r where "w1 = demo_project e u p r w4"
    using assms by (auto simp: seed_demo_def c b split: option.splits if_splits)
  then have s: "same_logins ?w3 w1"
    using bootstrap_same_logins [of ?w3 e "pj_id p" "tn_id t"] project_same_logins [of w4 e u p r]
    by (auto simp: b intro: same_logins_trans)
  have em: "normalize_email DEMO_EMAIL = DEMO_EMAIL" by code_simp
  from create_accountE [OF c] have users: "\<forall>x \<in> set (w_users w). usr_email x \<noteq> DEMO_EMAIL" "w_users w2 = w_users w @ [u]"
    and u: "u = new_user e (w_next w) DEMO_EMAIL (Some (e_make_password e DEMO_PASSWORD)) ''Demo'' ''User'' False False"
    unfolding em by metis+
  let ?f = "\<lambda>r. r\<lparr>usr_is_active := True, usr_is_email_verified := True, usr_updated_at := e_now e\<rparr>"
  have "w_users w1 = update_where (\<lambda>r. usr_id r = usr_id u) ?f (w_users w) @ [?f u]"
    using s by (simp add: same_logins_def demo_account_def users(2) update_where_def)
  moreover have "\<forall>r \<in> set (update_where (\<lambda>r. usr_id r = usr_id u) ?f (w_users w)). usr_email r \<noteq> DEMO_EMAIL"
    by (rule emails_after_save [OF _ users(1)]) simp
  moreover have "usr_email (?f u) = DEMO_EMAIL" "usr_is_active (?f u)" "usr_is_email_verified (?f u)"
    "usr_password (?f u) = Some (e_make_password e DEMO_PASSWORD)" by (simp_all add: u)
  moreover
  let ?g = "\<lambda>r. r\<lparr>tn_slug := DEMO_TENANT_SLUG, tn_updated_at := e_now e\<rparr>"
  have ts: "w_tenants w1 = update_where (\<lambda>r. tn_id r = tn_id t) ?g (w_tenants w) @ [?g t]"
    using s create_account_tenants [OF c] by (simp add: same_logins_def demo_account_def update_where_def)
  then have "?g t \<in> set (w_tenants w1)" "tn_slug (?g t) = DEMO_TENANT_SLUG" by simp_all
  moreover
  have "has_audit_log (tn_id t) w1"
    using create_account_logged [OF c] s by (auto simp: has_audit_log_def same_logins_def demo_account_def exists_row_def)
  then have "\<forall>x \<in> set (w_tenants w1). tn_slug x = DEMO_TENANT_SLUG \<longrightarrow> has_audit_log (tn_id x) w1"
    using assms(2) unfolding ts by (auto simp: update_where_def)
  ultimately show ?thesis by (intro that)
qed

lemma membership_signals_same_logins: "same_logins w (fold (on_membership_delete e) ms w)"
  by (rule same_logins_fold) (metis on_membership_delete_def signal_record_audited same_logins_audited)

lemma membership_signals_logs:
  "w_audit_logs w = ls \<Longrightarrow> set ls \<subseteq> set (w_audit_logs (fold (on_membership_delete e) ms w))"
  using membership_signals_same_logins [of w e ms] by (simp add: same_logins_def)

lemma delete_users_facts:
  "w_tenants (delete_users e p w) = w_tenants w" "set (w_audit_logs w) \<subseteq> set (w_audit_logs (delete_users e p w))"
  "u \<in> set (w_users (delete_users e p w)) \<Longrightarrow> \<not> p u"
proof -
  note same = membership_signals_same_logins [unfolded same_logins_def]
  show "w_tenants (delete_users e p w) = w_tenants w" by (simp add: delete_users_def Let_def same)
  show "set (w_audit_logs w) \<subseteq> set (w_audit_logs (delete_users e p w))"
    by (simp add: delete_users_def Let_def) (rule membership_signals_logs, simp)
  show "u \<in> set (w_users (delete_users e p w)) \<Longrightarrow> \<not> p u" by (simp add: delete_users_def Let_def delete_where_def)
qed

lemma clean_demo_fails:
  assumes "t \<in> set (w_tenants w)" "tn_slug t = DEMO_TENANT_SLUG"
    "\<forall>x \<in> set (w_tenants w). tn_slug x = DEMO_TENANT_SLUG \<longrightarrow> has_audit_log (tn_id x) w"
  shows "\<exists>x. seed_demo e True w = (Raise x, delete_users e (\<lambda>u. usr_email u = DEMO_EMAIL) w)"
proof -
  let ?w = "delete_users e (\<lambda>u. usr_email u = DEMO_EMAIL) w"
  obtain s ss where ss: "filter (\<lambda>t. tn_slug t = DEMO_TENANT_SLUG) (w_tenants w) = s # ss"
    using assms(1,2) by (metis (mono_tags, lifting) filter_empty_conv list.exhaust)
  then have "s \<in> set (filter (\<lambda>t. tn_slug t = DEMO_TENANT_SLUG) (w_tenants w))" by simp
  with assms(3) have "has_audit_log (tn_id s) w" by simp
  then have "has_audit_log (tn_id s) ?w" using delete_users_facts(2) [of w e "\<lambda>u. usr_email u = DEMO_EMAIL"]
    by (auto simp: has_audit_log_def exists_row_def)
  then show ?thesis by (simp add: seed_demo_def clean_demo_def ss delete_tenant_def Let_def)
qed

section \<open>The property\<close>

text \<open>
  The demo data can be seeded once and never again. The first run of \<open>seed_demo\<close> leaves an
  account that logs in with the advertised address and password, and a second run changes nothing.
  But \<open>seed_demo --clean\<close> always fails, half-way: the user is deleted, the tenant, which the audit log
  refers to, stays; and since the tenant exists, no later run creates the user again.
\<close>

theorem demo_seeded_once:
  assumes "seed_demo e False w = (Ok (), w1)" "\<forall>t \<in> set (w_tenants w). tn_slug t \<noteq> DEMO_TENANT_SLUG"
    and hasher: "e_check_password e' DEMO_PASSWORD (e_make_password e DEMO_PASSWORD)"
  shows "(\<exists>u. validate_login e' DEMO_EMAIL DEMO_PASSWORD w1 = Ok u) \<and> seed_demo e' False w1 = (Ok (), w1) \<and>
    (\<exists>x w2. seed_demo e' True w1 = (Raise x, w2) \<and> (\<forall>p. \<exists>y. validate_login e' DEMO_EMAIL p w2 = Raise y) \<and>
       seed_demo e' False w2 = (Ok (), w2))"
proof -
  obtain us u t where u: "w_users w1 = us @ [u]" "\<forall>r \<in> set us. usr_email r \<noteq> DEMO_EMAIL" "usr_email u = DEMO_EMAIL"
      "usr_is_active u" "usr_is_email_verified u" "usr_password u = Some (e_make_password e DEMO_PASSWORD)"
    and t: "t \<in> set (w_tenants w1)" "tn_slug t = DEMO_TENANT_SLUG"
      "\<forall>x \<in> set (w_tenants w1). tn_slug x = DEMO_TENANT_SLUG \<longrightarrow> has_audit_log (tn_id x) w1"
    by (rule seed_demo_first [OF assms(1,2)])
  have low: "lower DEMO_EMAIL = DEMO_EMAIL" by code_simp
  have "find_email w1 DEMO_EMAIL = Some u" using find_email_snoc [OF u(2,3)] by (simp add: find_email_def u(1))
  moreover have "\<not> exists_row (\<lambda>r. usr_email r = DEMO_EMAIL \<and> \<not> usr_is_email_verified r) (w_users w1)"
    using u(1,2,5) by (auto simp: exists_row_def)
  ultimately have "validate_login e' DEMO_EMAIL DEMO_PASSWORD w1 = Ok u"
    by (simp add: validate_login_def low check_password_def u(4,6) hasher)
  moreover have again: "seed_demo e' False v = (Ok (), v)" if "w_tenants v = w_tenants w1" for v
    using t(1,2) that by (auto simp: seed_demo_def exists_row_def)
  let ?w2 = "delete_users e' (\<lambda>u. usr_email u = DEMO_EMAIL) w1"
  have "\<exists>y. validate_login e' DEMO_EMAIL p ?w2 = Raise y" for p
  proof -
    have "find_email ?w2 DEMO_EMAIL = None" using delete_users_facts(3) by (auto simp: find_email_def find_None_iff)
    then show ?thesis by (simp add: validate_login_def low Let_def)
  qed
  moreover obtain x where "seed_demo e' True w1 = (Raise x, ?w2)" using clean_demo_fails [OF t] by blast
  ultimately show ?thesis using again [of w1] again [OF delete_users_facts(1)] by blast
qed

theorem demo_seeded_once_witness:
  "\<exists>w1 x w2. seed_demo sample_env False empty_world = (Ok (), w1) \<and> seed_demo sample_env True w1 = (Raise x, w2) \<and>
     seed_demo sample_env False w2 = (Ok (), w2)"
proof -
  have none: "\<forall>t \<in> set (w_tenants empty_world). tn_slug t \<noteq> DEMO_TENANT_SLUG" by (simp add: empty_world_def)
  obtain w1 where w1: "seed_demo sample_env False empty_world = (Ok (), w1)"
    using seed_demo_succeeds [OF none, of sample_env] by (auto simp: empty_world_def)
  moreover have "e_check_password sample_env DEMO_PASSWORD (e_make_password sample_env DEMO_PASSWORD)"
    by (simp add: sample_env_def)
  from demo_seeded_once [OF w1 none this] obtain x w2
    where "seed_demo sample_env True w1 = (Raise x, w2)" "seed_demo sample_env False w2 = (Ok (), w2)" by blast
  ultimately show ?thesis by blast
qed

end
