(* ===== verification/Isolation.thy ===== *)
theory Isolation
  imports IncidentEdits RbacEdits MonitorEdits ServiceEdits RbacFacts EditFacts StatusPageFacts
begin

text \<open>
  Isolation of projects. What the queryset of a view shows is of the request's project; the PUT and
  PATCH endpoints write rows of that project only, and so no other project sees any sequence of
  them. Where a payload names a row by its key alone, the isolation ends: a status page can publish
  a monitor of any tenant.
\<close>

section \<open>Querysets\<close>

text \<open>The rows a request may see at all: those of its project.\<close>

definition in_project :: "request \<Rightarrow> uuid \<Rightarrow> bool" where
  "in_project rq project \<longleftrightarrow> (case req_project rq of Some p \<Rightarrow> project = pj_id p | None \<Rightarrow> False)"

lemma scope_subset: "r \<in> set (scope_queryset_by_team w team qs rq t) \<Longrightarrow> r \<in> set qs"
  by (auto simp: scope_queryset_by_team_def apply_team_param_def apply_team_scope_def Let_def
      split: option.splits if_splits)

lemma monitor_scoped:
  "m \<in> set (monitor_queryset w rq f) \<Longrightarrow> m \<in> set (w_monitors w) \<and> in_project rq (mo_project m)"
  by (cases "req_project rq") (auto simp: monitor_queryset_def in_project_def dest!: scope_subset)

lemma group_scoped:
  "g \<in> set (group_queryset w rq t) \<Longrightarrow> g \<in> set (w_monitor_groups w) \<and> in_project rq (mg_project g)"
  by (cases "req_project rq") (auto simp: group_queryset_def in_project_def dest!: scope_subset)

lemma incident_scoped:
  "i \<in> set (incident_queryset w rq f) \<Longrightarrow> i \<in> set (w_incidents w) \<and> in_project rq (ic_project i)"
  by (cases "req_project rq"; cases "if_monitor f"; cases "if_assignee f") (auto simp: incident_queryset_def in_project_def Let_def dest!: scope_subset split: if_splits)

lemma state_scoped:
  "s \<in> set (state_queryset w rq) \<Longrightarrow> s \<in> set (w_states w) \<and> in_project rq (st_project s)"
  by (cases "req_project rq") (auto simp: state_queryset_def in_project_def)

lemma severity_scoped:
  "s \<in> set (severity_queryset w rq) \<Longrightarrow> s \<in> set (w_severities w) \<and> in_project rq (sv_project s)"
  by (cases "req_project rq") (auto simp: severity_queryset_def in_project_def)

lemma policy_scoped:
  "x \<in> set (escalation_policy_queryset w rq t) \<Longrightarrow> x \<in> set (w_esc_policies w) \<and> in_project rq (ep_project x)"
  by (cases "req_project rq") (auto simp: escalation_policy_queryset_def in_project_def dest!: scope_subset)

lemma rule_scoped:
  "r \<in> set (rule_queryset w rq) \<Longrightarrow> r \<in> set (w_rules w) \<and> in_project rq (wr_project r)"
  by (cases "req_project rq") (auto simp: rule_queryset_def in_project_def)

lemma maintenance_scoped:
  "m \<in> set (maintenance_queryset w rq s t) \<Longrightarrow> m \<in> set (w_maintenances w) \<and> in_project rq (sm_project m)"
  by (cases "req_project rq") (auto simp: maintenance_queryset_def in_project_def Let_def dest!: scope_subset split: if_splits)

lemma status_page_scoped:
  "p \<in> set (status_page_queryset w rq t) \<Longrightarrow> p \<in> set (w_status_pages w) \<and> in_project rq (sp_project p)"
  by (cases "req_project rq") (auto simp: status_page_queryset_def in_project_def dest!: scope_subset)

lemma webhook_scoped:
  "h \<in> set (webhook_queryset w rq a t) \<Longrightarrow> h \<in> set (w_webhooks w) \<and> in_project rq (wh_project h)"
  by (cases "req_project rq") (auto simp: webhook_queryset_def in_project_def dest!: scope_subset)

lemma role_scoped:
  "r \<in> set (role_queryset w rq) \<Longrightarrow> r \<in> set (w_roles w) \<and> in_project rq (ro_project r)"
  by (cases "req_project rq") (auto simp: role_queryset_def in_project_def)

lemma team_scoped:
  "t \<in> set (team_queryset w rq) \<Longrightarrow> t \<in> set (w_teams w) \<and> in_project rq (tm_project t)"
  by (cases "req_project rq") (auto simp: team_queryset_def in_project_def)

lemma resource_policy_scoped:
  "x \<in> set (resource_policy_queryset w rq t i) \<Longrightarrow> x \<in> set (w_resource_policies w) \<and> in_project rq (rp_project x)"
  by (cases "req_project rq"; cases t; cases i) (auto simp: resource_policy_queryset_def in_project_def Let_def split: if_splits)

lemma retention_scoped:
  "r \<in> set (retention_queryset w rq) \<Longrightarrow> r \<in> set (w_retention w) \<and> in_project rq (rt_project r)"
  by (cases "req_project rq") (auto simp: retention_queryset_def in_project_def)

lemma sso_scoped:
  "c \<in> set (sso_queryset w rq) \<Longrightarrow> c \<in> set (w_sso_configs w) \<and> in_project rq (sc_project c)"
  by (cases "req_project rq") (auto simp: sso_queryset_def in_project_def)

section \<open>The views of a project\<close>

text \<open>
  What every viewset of a project's rows has: a table with its keys, the project of a row, and a
  queryset (with its filters \<open>'f\<close>) that shows rows of the request's project only. Then replacing a row
  a request can see keeps the keys and every row of another project.
\<close>

definition same_rows :: "uuid \<Rightarrow> ('r \<Rightarrow> uuid) \<Rightarrow> ('r \<Rightarrow> uuid) \<Rightarrow> 'r list \<Rightarrow> 'r list \<Rightarrow> bool" where
  "same_rows p key project rows rows' \<longleftrightarrow>
     map key rows' = map key rows \<and> filter (\<lambda>r. project r \<noteq> p) rows' = filter (\<lambda>r. project r \<noteq> p) rows"

lemma same_rows_refl [simp]: "same_rows p key project rows rows"
  by (simp add: same_rows_def)

lemma same_rows_trans:
  "same_rows p key project r1 r2 \<Longrightarrow> same_rows p key project r2 r3 \<Longrightarrow> same_rows p key project r1 r3"
  by (simp add: same_rows_def)

lemma same_rows_update:
  assumes "distinct (map key rows)" "r \<in> set rows" "project r = p" "project r' = p" "key r' = key r"
  shows "same_rows p key project rows (update_where (\<lambda>x. key x = key r) (\<lambda>_. r') rows)"
  using assms(1,2)
proof (induction rows)
  case (Cons x xs)
  show ?case
  proof (cases "x = r")
    case True
    then have "key r \<notin> key ` set xs" using Cons.prems(1) by simp
    then have "update_where (\<lambda>x. key x = key r) (\<lambda>_. r') xs = xs"
      by (intro update_where_id) (metis image_eqI)
    with True assms(3-5) show ?thesis by (simp add: same_rows_def update_where_def)
  next
    case False
    with Cons.prems have "r \<in> set xs" "key x \<noteq> key r" by (auto simp: image_iff)
    with Cons.prems(1) Cons.IH show ?thesis by (simp add: same_rows_def update_where_def)
  qed
qed simp

text \<open>A request of the project (or of none, which sees nothing).\<close>

definition project_request :: "uuid \<Rightarrow> request \<Rightarrow> bool" where
  "project_request p rq \<longleftrightarrow> (case req_project rq of Some x \<Rightarrow> pj_id x = p | None \<Rightarrow> True)"

lemma in_project_request: "in_project rq x \<Longrightarrow> project_request p rq \<Longrightarrow> x = p"
  by (simp add: in_project_def project_request_def split: option.splits)

locale project_view =
  fixes rows :: "world \<Rightarrow> 'r list" and key :: "'r \<Rightarrow> uuid" and project :: "'r \<Rightarrow> uuid"
    and queryset :: "'f \<Rightarrow> world \<Rightarrow> request \<Rightarrow> 'r list"
  assumes scoped: "r \<in> set (queryset f w rq) \<Longrightarrow> r \<in> set (rows w) \<and> in_project rq (project r)"
begin

lemma replaced:
  assumes "r \<in> set (queryset f w rq)" "project_request p rq" "distinct (map key (rows w))"
    "project r' = project r" "key r' = key r"
  shows "same_rows p key project (rows w) (update_where (\<lambda>x. key x = key r) (\<lambda>_. r') (rows w))"
  using scoped [OF assms(1)] assms(2-5) by (intro same_rows_update) (auto dest: in_project_request)

end

interpretation monitors: project_view w_monitors mo_id mo_project "\<lambda>f w rq. monitor_queryset w rq f"
  by unfold_locales (rule monitor_scoped)

interpretation groups: project_view w_monitor_groups mg_id mg_project "\<lambda>t w rq. group_queryset w rq t"
  by unfold_locales (rule group_scoped)

interpretation incidents: project_view w_incidents ic_id ic_project "\<lambda>f w rq. incident_queryset w rq f"
  by unfold_locales (rule incident_scoped)

interpretation incident_states: project_view w_states st_id st_project "\<lambda>_ w rq. state_queryset w rq"
  by unfold_locales (rule state_scoped)

interpretation incident_severities: project_view w_severities sv_id sv_project "\<lambda>_ w rq. severity_queryset w rq"
  by unfold_locales (rule severity_scoped)

interpretation policies: project_view w_esc_policies ep_id ep_project "\<lambda>t w rq. escalation_policy_queryset w rq t"
  by unfold_locales (rule policy_scoped)

interpretation workflow_rules: project_view w_rules wr_id wr_project "\<lambda>_ w rq. rule_queryset w rq"
  by unfold_locales (rule rule_scoped)

interpretation maintenance_windows: project_view w_maintenances sm_id sm_project
  "\<lambda>(s, t) w rq. maintenance_queryset w rq s t"
  by unfold_locales (auto dest: maintenance_scoped)

interpretation status_pages: project_view w_status_pages sp_id sp_project "\<lambda>t w rq. status_page_queryset w rq t"
  by unfold_locales (rule status_page_scoped)

interpretation hooks: project_view w_webhooks wh_id wh_project "\<lambda>(a, t) w rq. webhook_queryset w rq a t"
  by unfold_locales (auto dest: webhook_scoped)

interpretation project_roles: project_view w_roles ro_id ro_project "\<lambda>_ w rq. role_queryset w rq"
  by unfold_locales (rule role_scoped)

interpretation project_teams: project_view w_teams tm_id tm_project "\<lambda>_ w rq. team_queryset w rq"
  by unfold_locales (rule team_scoped)

interpretation resource_rules: project_view w_resource_policies rp_id rp_project
  "\<lambda>(t, i) w rq. resource_policy_queryset w rq t i"
  by unfold_locales (auto dest: resource_policy_scoped)

interpretation retention_rules: project_view w_retention rt_id rt_project "\<lambda>_ w rq. retention_queryset w rq"
  by unfold_locales (rule retention_scoped)

interpretation sso_configs: project_view w_sso_configs sc_id sc_project "\<lambda>_ w rq. sso_queryset w rq"
  by unfold_locales (rule sso_scoped)

section \<open>Changing rows\<close>

text \<open>
  The tables the PUT and PATCH endpoints write: keys, and the rows of other projects, stay; tenants,
  projects, users, memberships, API keys, checks, notes, deliveries and messages stay altogether.
\<close>

definition edits :: "uuid \<Rightarrow> world \<Rightarrow> world \<Rightarrow> bool" where
  "edits p w w' \<longleftrightarrow>
     same_rows p mo_id mo_project (w_monitors w) (w_monitors w') \<and>
     same_rows p mg_id mg_project (w_monitor_groups w) (w_monitor_groups w') \<and>
     same_rows p ic_id ic_project (w_incidents w) (w_incidents w') \<and>
     same_rows p st_id st_project (w_states w) (w_states w') \<and>
     same_rows p sv_id sv_project (w_severities w) (w_severities w') \<and>
     same_rows p ep_id ep_project (w_esc_policies w) (w_esc_policies w') \<and>
     same_rows p wr_id wr_project (w_rules w) (w_rules w') \<and>
     same_rows p sm_id sm_project (w_maintenances w) (w_maintenances w') \<and>
     same_rows p sp_id sp_project (w_status_pages w) (w_status_pages w') \<and>
     same_rows p wh_id wh_project (w_webhooks w) (w_webhooks w') \<and>
     same_rows p ro_id ro_project (w_roles w) (w_roles w') \<and>
     same_rows p tm_id tm_project (w_teams w) (w_teams w') \<and>
     same_rows p rp_id rp_project (w_resource_policies w) (w_resource_policies w') \<and>
     same_rows p rt_id rt_project (w_retention w) (w_retention w') \<and>
     same_rows p sc_id sc_project (w_sso_configs w) (w_sso_configs w') \<and>
     w_tenants w' = w_tenants w \<and> w_projects w' = w_projects w \<and> w_users w' = w_users w \<and>
     w_user_memberships w' = w_user_memberships w \<and> w_team_memberships w' = w_team_memberships w \<and>
     w_api_keys w' = w_api_keys w \<and> w_checks w' = w_checks w \<and> w_notes w' = w_notes w \<and>
     w_deliveries w' = w_deliveries w \<and> w_outbox w' = w_outbox w"

text \<open>Primary keys.\<close>

definition keys_unique :: "world \<Rightarrow> bool" where
  "keys_unique w \<longleftrightarrow>
     distinct (map mo_id (w_monitors w)) \<and> distinct (map mg_id (w_monitor_groups w)) \<and>
     distinct (map ic_id (w_incidents w)) \<and> distinct (map st_id (w_states w)) \<and>
     distinct (map sv_id (w_severities w)) \<and> distinct (map ep_id (w_esc_policies w)) \<and>
     distinct (map wr_id (w_rules w)) \<and> distinct (map sm_id (w_maintenances w)) \<and>
     distinct (map sp_id (w_status_pages w)) \<and> distinct (map wh_id (w_webhooks w)) \<and>
     distinct (map ro_id (w_roles w)) \<and> distinct (map tm_id (w_teams w)) \<and>
     distinct (map rp_id (w_resource_policies w)) \<and> distinct (map rt_id (w_retention w)) \<and>
     distinct (map sc_id (w_sso_configs w))"

lemma edits_refl [simp]: "edits p w w"
  by (simp add: edits_def)

lemma edits_trans: "edits p w1 w2 \<Longrightarrow> edits p w2 w3 \<Longrightarrow> edits p w1 w3"
  unfolding edits_def by (elim conjE) (intro conjI; (erule (1) same_rows_trans | simp))

lemma edits_keys_unique: "edits p w w' \<Longrightarrow> keys_unique w \<Longrightarrow> keys_unique w'"
  by (simp add: edits_def keys_unique_def same_rows_def)

lemma edits_audited [simp]: "edits p w (audited w' ls) = edits p w w'"
  by (simp add: edits_def audited_def)

lemma edits_signals [simp]:
  "edits p w (on_monitor_save e m c w') = edits p w w'"
  "edits p w (on_incident_save e i c w') = edits p w w'"
  "edits p w (on_role_save e r c w') = edits p w w'"
  by (metis edits_audited on_monitor_save_audited, metis edits_audited on_incident_save_audited,
      metis edits_audited on_role_save_audited)

lemma edits_one_table [simp]:
  "edits p w (w\<lparr>w_monitors := a1\<rparr>) = same_rows p mo_id mo_project (w_monitors w) a1"
  "edits p w (w\<lparr>w_monitor_groups := a2\<rparr>) = same_rows p mg_id mg_project (w_monitor_groups w) a2"
  "edits p w (w\<lparr>w_incidents := a3\<rparr>) = same_rows p ic_id ic_project (w_incidents w) a3"
  "edits p w (w\<lparr>w_states := a4\<rparr>) = same_rows p st_id st_project (w_states w) a4"
  "edits p w (w\<lparr>w_severities := a5\<rparr>) = same_rows p sv_id sv_project (w_severities w) a5"
  "edits p w (w\<lparr>w_esc_policies := a6\<rparr>) = same_rows p ep_id ep_project (w_esc_policies w) a6"
  "edits p w (w\<lparr>w_rules := a7\<rparr>) = same_rows p wr_id wr_project (w_rules w) a7"
  "edits p w (w\<lparr>w_maintenances := a8\<rparr>) = same_rows p sm_id sm_project (w_maintenances w) a8"
  "edits p w (w\<lparr>w_status_pages := a9\<rparr>) = same_rows p sp_id sp_project (w_status_pages w) a9"
  "edits p w (w\<lparr>w_webhooks := b1\<rparr>) = same_rows p wh_id wh_project (w_webhooks w) b1"
  "edits p w (w\<lparr>w_roles := b2\<rparr>) = same_rows p ro_id ro_project (w_roles w) b2"
  "edits p w (w\<lparr>w_teams := b3\<rparr>) = same_rows p tm_id tm_project (w_teams w) b3"
  "edits p w (w\<lparr>w_resource_policies := b4\<rparr>) = same_rows p rp_id rp_project (w_resource_policies w) b4"
  "edits p w (w\<lparr>w_retention := b5\<rparr>) = same_rows p rt_id rt_project (w_retention w) b5"
  "edits p w (w\<lparr>w_sso_configs := b6\<rparr>) = same_rows p sc_id sc_project (w_sso_configs w) b6"
  by (simp_all add: edits_def)

text \<open>Each endpoint; a refused request changes nothing.\<close>

named_theorems edit \<open>what the endpoints change\<close>

lemma role_update_edits [edit]:
  "project_request p rq \<Longrightarrow> keys_unique w \<Longrightarrow> edits p w (snd (role_update e rq pk name description permissions w))"
  by (auto simp: role_update_def Let_def keys_unique_def intro!: project_roles.replaced
      dest: viewset_get_Ok get_object_Ok split: sum.splits prod.splits if_splits)

lemma role_partial_update_edits [edit]:
  "project_request p rq \<Longrightarrow> keys_unique w \<Longrightarrow> edits p w (snd (role_partial_update e rq pk name description permissions w))"
  by (auto simp: role_partial_update_def proceed_def bind_result_Inr_iff Let_def keys_unique_def intro!: project_roles.replaced
      dest: viewset_get_Ok get_object_Ok split: sum.splits prod.splits if_splits)

lemma team_update_edits [edit]:
  "project_request p rq \<Longrightarrow> keys_unique w \<Longrightarrow> edits p w (snd (team_update e rq partial pk name description w))"
  by (auto simp: team_update_def proceed_def bind_result_Inr_iff Let_def keys_unique_def intro!: project_teams.replaced
      dest: viewset_get_Ok get_object_Ok split: sum.splits prod.splits if_splits)

lemma resource_policy_update_edits [edit]:
  "project_request p rq \<Longrightarrow> keys_unique w \<Longrightarrow> edits p w (snd (resource_policy_update e rq partial pk inp w))"
  by (auto simp: resource_policy_update_def proceed_def bind_result_Inr_iff Let_def keys_unique_def intro!: resource_rules.replaced [of _ "(None, None)", simplified]
      dest: viewset_get_Ok get_object_Ok split: sum.splits prod.splits if_splits)

lemma monitor_update_edits [edit]:
  "project_request p rq \<Longrightarrow> keys_unique w \<Longrightarrow> edits p w (snd (monitor_update e rq pk inp w))"
  by (auto simp: monitor_update_def monitor_get_def save_monitor_def update_monitor_def put_monitor_input_def proceed_def bind_result_Inr_iff Let_def keys_unique_def intro!: monitors.replaced
      dest: viewset_get_Ok get_object_Ok split: sum.splits prod.splits if_splits)

lemma monitor_partial_update_edits [edit]:
  "project_request p rq \<Longrightarrow> keys_unique w \<Longrightarrow> edits p w (snd (monitor_partial_update e rq pk inp w))"
  by (auto simp: monitor_partial_update_def monitor_get_def save_monitor_def update_monitor_def patched_monitor_def proceed_def bind_result_Inr_iff Let_def keys_unique_def intro!: monitors.replaced
      dest: viewset_get_Ok get_object_Ok split: sum.splits prod.splits if_splits)

lemma group_update_edits [edit]:
  "project_request p rq \<Longrightarrow> keys_unique w \<Longrightarrow> edits p w (snd (group_update e rq partial pk inp w))"
  by (auto simp: group_update_def group_get_def proceed_def bind_result_Inr_iff Let_def keys_unique_def intro!: groups.replaced
      dest: viewset_get_Ok get_object_Ok split: sum.splits prod.splits if_splits)

lemma webhook_update_edits [edit]:
  "project_request p rq \<Longrightarrow> keys_unique w \<Longrightarrow> edits p w (snd (webhook_update e rq pk inp w))"
  by (auto simp: webhook_update_def webhook_get_def proceed_def bind_result_Inr_iff Let_def keys_unique_def intro!: hooks.replaced [of _ "([], None)", simplified]
      dest: viewset_get_Ok get_object_Ok split: sum.splits prod.splits if_splits)

lemma webhook_partial_update_edits [edit]:
  "project_request p rq \<Longrightarrow> keys_unique w \<Longrightarrow> edits p w (snd (webhook_partial_update e rq pk inp w))"
  by (auto simp: webhook_partial_update_def webhook_get_def proceed_def bind_result_Inr_iff Let_def keys_unique_def intro!: hooks.replaced [of _ "([], None)", simplified]
      dest: viewset_get_Ok get_object_Ok split: sum.splits prod.splits if_splits)

lemma maintenance_update_edits [edit]:
  "project_request p rq \<Longrightarrow> keys_unique w \<Longrightarrow> edits p w (snd (maintenance_update e rq pk inp w))"
  by (auto simp: maintenance_update_def maintenance_get_def proceed_def bind_result_Inr_iff Let_def keys_unique_def intro!: maintenance_windows.replaced [of _ "([], None)", simplified]
      dest: viewset_get_Ok get_object_Ok split: sum.splits prod.splits if_splits)

lemma maintenance_partial_update_edits [edit]:
  "project_request p rq \<Longrightarrow> keys_unique w \<Longrightarrow> edits p w (snd (maintenance_partial_update e rq pk inp w))"
  by (auto simp: maintenance_partial_update_def maintenance_get_def proceed_def bind_result_Inr_iff Let_def keys_unique_def intro!: maintenance_windows.replaced [of _ "([], None)", simplified]
      dest: viewset_get_Ok get_object_Ok split: sum.splits prod.splits if_splits)

lemma status_page_update_edits [edit]:
  "project_request p rq \<Longrightarrow> keys_unique w \<Longrightarrow> edits p w (snd (status_page_update e rq pk inp w))"
  by (auto simp: status_page_update_def status_page_get_def save_status_page_def proceed_def bind_result_Inr_iff Let_def keys_unique_def intro!: status_pages.replaced
      dest: viewset_get_Ok get_object_Ok split: sum.splits prod.splits if_splits)

lemma status_page_partial_update_edits [edit]:
  "project_request p rq \<Longrightarrow> keys_unique w \<Longrightarrow> edits p w (snd (status_page_partial_update e rq pk inp w))"
  by (auto simp: status_page_partial_update_def status_page_get_def save_status_page_def proceed_def bind_result_Inr_iff Let_def keys_unique_def intro!: status_pages.replaced
      dest: viewset_get_Ok get_object_Ok split: sum.splits prod.splits if_splits)

lemma sso_update_edits [edit]:
  "project_request p rq \<Longrightarrow> keys_unique w \<Longrightarrow> edits p w (snd (sso_update e rq pk inp w))"
  by (auto simp: sso_update_def sso_get_def save_sso_config_def put_sso_input_def proceed_def bind_result_Inr_iff Let_def keys_unique_def intro!: sso_configs.replaced
      dest: viewset_get_Ok get_object_Ok split: sum.splits prod.splits if_splits)

lemma sso_partial_update_edits [edit]:
  "project_request p rq \<Longrightarrow> keys_unique w \<Longrightarrow> edits p w (snd (sso_partial_update e rq pk inp w))"
  by (auto simp: sso_partial_update_def sso_get_def save_sso_config_def patched_sso_config_def proceed_def bind_result_Inr_iff Let_def keys_unique_def intro!: sso_configs.replaced
      dest: viewset_get_Ok get_object_Ok split: sum.splits prod.splits if_splits)

lemma retention_update_edits [edit]:
  "project_request p rq \<Longrightarrow> keys_unique w \<Longrightarrow> edits p w (snd (retention_update e rq pk dt n archive bucket w))"
  by (auto simp: retention_update_def retention_get_def proceed_def bind_result_Inr_iff Let_def keys_unique_def intro!: retention_rules.replaced
      dest: viewset_get_Ok get_object_Ok split: sum.splits prod.splits if_splits)

lemma retention_partial_update_edits [edit]:
  "project_request p rq \<Longrightarrow> keys_unique w \<Longrightarrow> edits p w (snd (retention_partial_update e rq pk dt n archive bucket w))"
  by (auto simp: retention_partial_update_def retention_get_def proceed_def bind_result_Inr_iff Let_def keys_unique_def intro!: retention_rules.replaced
      dest: viewset_get_Ok get_object_Ok split: sum.splits prod.splits if_splits option.splits)

lemma state_update_edits [edit]:
  "project_request p rq \<Longrightarrow> keys_unique w \<Longrightarrow> edits p w (snd (state_update e rq pk name color ord resolved w))"
  by (auto simp: state_update_def Let_def keys_unique_def intro!: incident_states.replaced
      dest: viewset_get_Ok get_object_Ok split: sum.splits prod.splits if_splits)

lemma state_partial_update_edits [edit]:
  "project_request p rq \<Longrightarrow> keys_unique w \<Longrightarrow> edits p w (snd (state_partial_update e rq pk name color ord resolved w))"
  by (auto simp: state_partial_update_def save_state_def proceed_def bind_result_Inr_iff Let_def keys_unique_def intro!: incident_states.replaced
      dest: viewset_get_Ok get_object_Ok split: sum.splits prod.splits if_splits)

lemma severity_update_edits [edit]:
  "project_request p rq \<Longrightarrow> keys_unique w \<Longrightarrow> edits p w (snd (severity_update e rq partial pk name color ord w))"
  by (auto simp: severity_update_def save_severity_def proceed_def bind_result_Inr_iff Let_def keys_unique_def intro!: incident_severities.replaced
      dest: viewset_get_Ok get_object_Ok split: sum.splits prod.splits if_splits)

lemma incident_update_edits [edit]:
  "project_request p rq \<Longrightarrow> keys_unique w \<Longrightarrow> edits p w (snd (incident_update e rq partial pk inp w))"
  by (auto simp: incident_update_def incident_get_def patched_incident_def proceed_def bind_result_Inr_iff Let_def keys_unique_def intro!: incidents.replaced
      dest: viewset_get_Ok get_object_Ok split: sum.splits prod.splits if_splits)

lemma policy_update_edits [edit]:
  "project_request p rq \<Longrightarrow> keys_unique w \<Longrightarrow> edits p w (snd (policy_update e rq partial pk inp w))"
  by (auto simp: policy_update_def proceed_def bind_result_Inr_iff Let_def keys_unique_def intro!: policies.replaced
      dest: viewset_get_Ok get_object_Ok split: sum.splits prod.splits if_splits)

lemma rule_update_edits [edit]:
  "project_request p rq \<Longrightarrow> keys_unique w \<Longrightarrow> edits p w (snd (rule_update e rq partial pk inp w))"
  by (auto simp: rule_update_def proceed_def bind_result_Inr_iff Let_def keys_unique_def intro!: workflow_rules.replaced
      dest: viewset_get_Ok get_object_Ok split: sum.splits prod.splits if_splits)


section \<open>Any sequence of changes\<close>

text \<open>
  One request that changes a row by PUT or PATCH, made for the project \<open>p\<close> by any caller with any
  payload.
\<close>

inductive edit_step :: "uuid \<Rightarrow> world \<Rightarrow> world \<Rightarrow> bool" for p where
  step_role_update: "project_request p rq \<Longrightarrow> edit_step p w (snd (role_update e rq pk name description permissions w))"
| step_role_partial_update: "project_request p rq \<Longrightarrow> edit_step p w (snd (role_partial_update e rq pk name description permissions w))"
| step_team_update: "project_request p rq \<Longrightarrow> edit_step p w (snd (team_update e rq partial pk name description w))"
| step_resource_policy_update: "project_request p rq \<Longrightarrow> edit_step p w (snd (resource_policy_update e rq partial pk inp w))"
| step_monitor_update: "project_request p rq \<Longrightarrow> edit_step p w (snd (monitor_update e rq pk inp w))"
| step_monitor_partial_update: "project_request p rq \<Longrightarrow> edit_step p w (snd (monitor_partial_update e rq pk inp w))"
| step_group_update: "project_request p rq \<Longrightarrow> edit_step p w (snd (group_update e rq partial pk inp w))"
| step_webhook_update: "project_request p rq \<Longrightarrow> edit_step p w (snd (webhook_update e rq pk inp w))"
| step_webhook_partial_update: "project_request p rq \<Longrightarrow> edit_step p w (snd (webhook_partial_update e rq pk inp w))"
| step_maintenance_update: "project_request p rq \<Longrightarrow> edit_step p w (snd (maintenance_update e rq pk inp w))"
| step_maintenance_partial_update: "project_request p rq \<Longrightarrow> edit_step p w (snd (maintenance_partial_update e rq pk inp w))"
| step_status_page_update: "project_request p rq \<Longrightarrow> edit_step p w (snd (status_page_update e rq pk inp w))"
| step_status_page_partial_update: "project_request p rq \<Longrightarrow> edit_step p w (snd (status_page_partial_update e rq pk inp w))"
| step_sso_update: "project_request p rq \<Longrightarrow> edit_step p w (snd (sso_update e rq pk inp w))"
| step_sso_partial_update: "project_request p rq \<Longrightarrow> edit_step p w (snd (sso_partial_update e rq pk inp w))"
| step_retention_update: "project_request p rq \<Longrightarrow> edit_step p w (snd (retention_update e rq pk dt n archive bucket w))"
| step_retention_partial_update: "project_request p rq \<Longrightarrow> edit_step p w (snd (retention_partial_update e rq pk dt n archive bucket w))"
| step_state_update: "project_request p rq \<Longrightarrow> edit_step p w (snd (state_update e rq pk name color ord resolved w))"
| step_state_partial_update: "project_request p rq \<Longrightarrow> edit_step p w (snd (state_partial_update e rq pk name color ord resolved w))"
| step_severity_update: "project_request p rq \<Longrightarrow> edit_step p w (snd (severity_update e rq partial pk name color ord w))"
| step_incident_update: "project_request p rq \<Longrightarrow> edit_step p w (snd (incident_update e rq partial pk inp w))"
| step_policy_update: "project_request p rq \<Longrightarrow> edit_step p w (snd (policy_update e rq partial pk inp w))"
| step_rule_update: "project_request p rq \<Longrightarrow> edit_step p w (snd (rule_update e rq partial pk inp w))"

lemma edit_step_edits: "edit_step p w w' \<Longrightarrow> keys_unique w \<Longrightarrow> edits p w w'"
  by (cases rule: edit_step.cases) (auto intro: edit)

lemma edit_steps_edits: "(edit_step p)\<^sup>*\<^sup>* w w' \<Longrightarrow> keys_unique w \<Longrightarrow> edits p w w'"
  by (induction rule: rtranclp_induct) (blast intro: edits_refl edits_trans edit_step_edits edits_keys_unique)+

lemma same_rows_filter:
  assumes "same_rows p key project rows rows'" "\<And>r. P r \<Longrightarrow> project r \<noteq> p"
  shows "filter P rows' = filter P rows"
proof -
  have "filter P rs = filter P (filter (\<lambda>r. project r \<noteq> p) rs)" for rs
    using assms(2) by (induction rs) auto
  with assms(1) show ?thesis by (metis same_rows_def)
qed

lemma same_rows_project:
  assumes "same_rows p key project rows rows'" "q \<noteq> p"
  shows "filter (\<lambda>r. project r = q) rows' = filter (\<lambda>r. project r = q) rows"
    "filter (\<lambda>r. project r = q \<and> P r) rows' = filter (\<lambda>r. project r = q \<and> P r) rows"
  by (rule same_rows_filter [OF assms(1)], simp add: assms(2))+

lemma find_key_iff:
  "distinct (map key rows) \<Longrightarrow> find (\<lambda>r. key r = i) rows = Some r \<longleftrightarrow> r \<in> set rows \<and> key r = i"
  by (induction rows) auto

lemma same_rows_find_Some:
  assumes "same_rows p key project rows rows'" "distinct (map key rows)" "project r \<noteq> p"
  shows "find (\<lambda>r. key r = i) rows' = Some r \<longleftrightarrow> find (\<lambda>r. key r = i) rows = Some r"
proof -
  from assms(1,2) have "distinct (map key rows')" by (simp add: same_rows_def)
  moreover from assms(1) have "set (filter (\<lambda>r. project r \<noteq> p) rows') = set (filter (\<lambda>r. project r \<noteq> p) rows)"
    by (simp add: same_rows_def)
  with assms(3) have "r \<in> set rows' \<longleftrightarrow> r \<in> set rows" by auto
  ultimately show ?thesis using assms(2) by (simp add: find_key_iff)
qed

lemma same_rows_find:
  assumes "same_rows p key project rows rows'" "distinct (map key rows)"
    "\<And>r. find (\<lambda>r. key r = i) rows = Some r \<Longrightarrow> project r \<noteq> p"
  shows "find (\<lambda>r. key r = i) rows' = find (\<lambda>r. key r = i) rows"
proof (cases "find (\<lambda>r. key r = i) rows")
  case None
  then have "i \<notin> set (map key rows)" by (auto simp: find_None_iff)
  moreover from assms(1) have "map key rows' = map key rows" by (simp add: same_rows_def)
  ultimately have "i \<notin> set (map key rows')" by simp
  then have "find (\<lambda>r. key r = i) rows' = None" by (auto simp: find_None_iff)
  with None show ?thesis by simp
next
  case (Some r)
  with assms show ?thesis by (simp add: same_rows_find_Some)
qed

section \<open>What the others see\<close>

text \<open>A member's role is a role of the team's project: adding a member looks for it there.\<close>

definition roles_local :: "world \<Rightarrow> bool" where
  "roles_local w \<longleftrightarrow>
     (\<forall>m \<in> set (w_team_memberships w). \<forall>t r.
        team_of w (mb_team m) = Some t \<longrightarrow> role_of w (mb_role m) = Some r \<longrightarrow> ro_project r = tm_project t)"

lemma memberships_kept:
  assumes "edits p w w'" "keys_unique w" "q \<noteq> p"
  shows "project_memberships w' user q = project_memberships w user q"
proof -
  have teams: "same_rows p tm_id tm_project (w_teams w) (w_teams w')" "distinct (map tm_id (w_teams w))"
    using assms(1,2) by (simp_all add: edits_def keys_unique_def)
  have *: "team_of w' t = Some x \<longleftrightarrow> team_of w t = Some x" if "tm_project x = q" for t x
    unfolding team_of_def using same_rows_find_Some [OF teams] that assms(3) by simp
  have "(case team_of w' t of Some x \<Rightarrow> tm_project x = q | None \<Rightarrow> False) =
      (case team_of w t of Some x \<Rightarrow> tm_project x = q | None \<Rightarrow> False)" for t
    using * [of _ t] by (cases "team_of w' t"; cases "team_of w t") fastforce+
  moreover have "w_team_memberships w' = w_team_memberships w" using assms by (simp add: edits_def)
  ultimately show ?thesis by (simp add: project_memberships_def)
qed

lemma role_kept:
  assumes "edits p w w'" "keys_unique w" "q \<noteq> p" "roles_local w" "m \<in> set (project_memberships w user q)"
  shows "role_of w' (mb_role m) = role_of w (mb_role m)"
proof -
  have roles: "same_rows p ro_id ro_project (w_roles w) (w_roles w')" "distinct (map ro_id (w_roles w))"
    using assms(1,2) by (simp_all add: edits_def keys_unique_def)
  from assms(5) obtain t where "m \<in> set (w_team_memberships w)" "team_of w (mb_team m) = Some t" "tm_project t = q"
    by (auto simp: project_memberships_def split: option.splits)
  with assms(3,4) have "role_of w (mb_role m) = Some r \<Longrightarrow> ro_project r \<noteq> p" for r
    by (fastforce simp: roles_local_def)
  then show ?thesis unfolding role_of_def by (intro same_rows_find [OF roles]) simp
qed

lemma permissions_kept:
  assumes "edits p w w'" "keys_unique w" "q \<noteq> p" "roles_local w"
  shows "get_user_permissions w' u q = get_user_permissions w u q"
  using assms
  by (intro set_eqI) (auto simp: get_user_permissions_iff memberships_kept role_permissions_of_def role_kept)

lemma team_scope_kept:
  assumes "edits p w w'" "keys_unique w" "pj_id x \<noteq> p" "roles_local w" "req_project rq = Some x"
  shows "scope_queryset_by_team w' team qs rq t = scope_queryset_by_team w team qs rq t"
  using assms permissions_kept [OF assms(1-4)] memberships_kept [OF assms(1-3)]
  by (simp add: scope_queryset_by_team_def apply_team_scope_def user_sees_all_teams_def
      get_user_team_ids_def split: option.split)

lemma edits_same:
  assumes "edits p w w'"
  shows "same_rows p mo_id mo_project (w_monitors w) (w_monitors w')"
    "same_rows p mg_id mg_project (w_monitor_groups w) (w_monitor_groups w')"
    "same_rows p ic_id ic_project (w_incidents w) (w_incidents w')"
    "same_rows p st_id st_project (w_states w) (w_states w')"
    "same_rows p sv_id sv_project (w_severities w) (w_severities w')"
    "same_rows p ep_id ep_project (w_esc_policies w) (w_esc_policies w')"
    "same_rows p wr_id wr_project (w_rules w) (w_rules w')"
    "same_rows p sm_id sm_project (w_maintenances w) (w_maintenances w')"
    "same_rows p sp_id sp_project (w_status_pages w) (w_status_pages w')"
    "same_rows p wh_id wh_project (w_webhooks w) (w_webhooks w')"
    "same_rows p ro_id ro_project (w_roles w) (w_roles w')"
    "same_rows p tm_id tm_project (w_teams w) (w_teams w')"
    "same_rows p rp_id rp_project (w_resource_policies w) (w_resource_policies w')"
    "same_rows p rt_id rt_project (w_retention w) (w_retention w')"
    "same_rows p sc_id sc_project (w_sso_configs w) (w_sso_configs w')"
  using assms by (simp_all add: edits_def)

lemma querysets_kept:
  assumes "edits p w w'" "keys_unique w" "roles_local w" "req_project rq = Some x" "pj_id x \<noteq> p"
  shows "monitor_queryset w' rq mf = monitor_queryset w rq mf"
    "group_queryset w' rq t = group_queryset w rq t"
    "incident_queryset w' rq no_filters = incident_queryset w rq no_filters"
    "state_queryset w' rq = state_queryset w rq"
    "severity_queryset w' rq = severity_queryset w rq"
    "escalation_policy_queryset w' rq t = escalation_policy_queryset w rq t"
    "rule_queryset w' rq = rule_queryset w rq"
    "maintenance_queryset w' rq s t = maintenance_queryset w rq s t"
    "status_page_queryset w' rq t = status_page_queryset w rq t"
    "webhook_queryset w' rq a t = webhook_queryset w rq a t"
    "role_queryset w' rq = role_queryset w rq"
    "team_queryset w' rq = team_queryset w rq"
    "api_key_queryset w' rq = api_key_queryset w rq"
    "resource_policy_queryset w' rq rt i = resource_policy_queryset w rq rt i"
    "retention_queryset w' rq = retention_queryset w rq"
    "sso_queryset w' rq = sso_queryset w rq"
proof -
  note rows = edits_same [OF assms(1), THEN same_rows_project(1), OF assms(5)]
    edits_same [OF assms(1), THEN same_rows_project(2), OF assms(5)]
  note scope = team_scope_kept [OF assms(1,2,5,3,4)]
  have keys: "w_api_keys w' = w_api_keys w" using assms(1) by (simp add: edits_def)
  show "monitor_queryset w' rq mf = monitor_queryset w rq mf"
    "group_queryset w' rq t = group_queryset w rq t"
    "incident_queryset w' rq no_filters = incident_queryset w rq no_filters"
    "state_queryset w' rq = state_queryset w rq"
    "severity_queryset w' rq = severity_queryset w rq"
    "escalation_policy_queryset w' rq t = escalation_policy_queryset w rq t"
    "rule_queryset w' rq = rule_queryset w rq"
    "maintenance_queryset w' rq s t = maintenance_queryset w rq s t"
    "status_page_queryset w' rq t = status_page_queryset w rq t"
    "webhook_queryset w' rq a t = webhook_queryset w rq a t"
    "role_queryset w' rq = role_queryset w rq"
    "team_queryset w' rq = team_queryset w rq"
    "api_key_queryset w' rq = api_key_queryset w rq"
    "resource_policy_queryset w' rq rt i = resource_policy_queryset w rq rt i"
    "retention_queryset w' rq = retention_queryset w rq"
    "sso_queryset w' rq = sso_queryset w rq"
    using assms(4,5)
    by (simp_all add: monitor_queryset_def group_queryset_def incident_queryset_def state_queryset_def
        severity_queryset_def escalation_policy_queryset_def rule_queryset_def maintenance_queryset_def
        status_page_queryset_def webhook_queryset_def role_queryset_def team_queryset_def api_key_queryset_def
        resource_policy_queryset_def retention_queryset_def sso_queryset_def no_filters_def rows scope keys Let_def)
qed


text \<open>Two projects, each with a team; a caller of the first renames its team.\<close>

definition far_project :: project where
  "far_project = sample_project\<lparr>pj_id := 3\<rparr>"

definition far_request :: request where
  "far_request = boss_request\<lparr>req_project := Some far_project\<rparr>"

definition far_team :: team where
  "far_team = other_team\<lparr>tm_id := 23, tm_project := 3\<rparr>"

definition near_far_world :: world where
  "near_far_world = edit_world [] None [far_team]"

lemma far_simps [simp]: "req_project far_request = Some far_project" "pj_id far_project = 3"
  by (simp_all add: far_request_def far_project_def)


section \<open>Where the isolation ends\<close>

text \<open>The reader of a JSON object.\<close>

definition field_of :: "json \<Rightarrow> string \<Rightarrow> json option" where
  "field_of j k = (case j of JObj kvs \<Rightarrow> map_of kvs k | _ \<Rightarrow> None)"

text \<open>
  C23. A status page can publish a monitor its owners may not see. Whoever may add resources to a public
  page of their project can name any monitor of the server by its key: the request succeeds although
  the monitor is of another project and in no queryset of the caller, and from then on the page shows
  the monitor's name and status to everybody.
\<close>

theorem foreign_monitor_published:
  assumes "status_page_get w rq ''add_resource'' pk = Ok p" "public_page w slug = Ok p"
    "monitor_of w i = Some m" "ri_monitor inp = Some i" "ri_group inp = None"
    "req_project rq = Some q" "mo_project m \<noteq> pj_id q"
  shows "m \<notin> set (monitor_queryset w rq f) \<and>
    (\<exists>j w1 page rs. add_resource e rq pk inp w = (Ok (Response 201 j), w1) \<and>
       public_retrieve e' w1 slug = Ok (Response 200 page) \<and> field_of page ''resources'' = Some (JList rs) \<and>
       j \<in> set rs \<and> field_of j ''monitor_name'' = Some (JStr (mo_name m)) \<and>
       field_of j ''monitor_status'' = Some (JStr (monitor_status_value (mo_status m))))"
proof -
  have "validate_resource w inp = Ok ()" using assms(3-5) by (simp add: validate_resource_def)
  with assms(1) obtain r w1 where add: "add_resource e rq pk inp w = (Ok (Response 201 (resource_json w1 r)), w1)"
    and r: "sr_status_page r = sp_id p" "sr_monitor r = Some i"
    and w1: "w1 = w\<lparr>w_page_resources := w_page_resources w @ [r], w_next := Suc (w_next w)\<rparr>"
    using assms(4) by (simp add: add_resource_def Let_def)
  have "monitor_of w1 i = Some m" using assms(3) by (simp add: w1 monitor_of_def)
  then have j: "field_of (resource_json w1 r) ''monitor_name'' = Some (JStr (mo_name m))"
    "field_of (resource_json w1 r) ''monitor_status'' = Some (JStr (monitor_status_value (mo_status m)))"
    by (simp_all add: field_of_def resource_json_def r Let_def json_opt_str_def)
  have "public_page w1 slug = Ok p" using assms(2) by (simp add: w1 public_page_def)
  then have page: "public_retrieve e' w1 slug = Ok (Response 200 (public_page_json e' w1 p))"
    by (simp add: public_retrieve_def)
  have "r \<in> set (page_resources w1 (sp_id p))" by (simp add: page_resources_def w1 r)
  then have "resource_json w1 r \<in> set (map (resource_json w1) (page_resources w1 (sp_id p)))" by simp
  moreover have "field_of (public_page_json e' w1 p) ''resources'' =
      Some (JList (map (resource_json w1) (page_resources w1 (sp_id p))))"
    by (simp add: field_of_def public_page_json_def resources_json_def)
  moreover have "m \<notin> set (monitor_queryset w rq f)" using assms(6,7) by (auto dest!: monitor_scoped simp: in_project_def)
  ultimately show ?thesis using add page j by blast
qed

definition publishing_world :: world where
  "publishing_world = near_far_world
     \<lparr>w_monitors := [sample_monitor\<lparr>mo_project := 3\<rparr>], w_status_pages := [sample_page]\<rparr>"

theorem foreign_monitor_published_witness:
  "\<exists>j w1 page rs. add_resource sample_env boss_request 50
       \<lparr>ri_monitor = Some 90, ri_group = None, ri_display_name = [], ri_order = 0\<rparr> publishing_world =
       (Ok (Response 201 j), w1) \<and>
     public_retrieve sample_env w1 ''acme'' = Ok (Response 200 page) \<and> field_of page ''resources'' = Some (JList rs) \<and>
     j \<in> set rs \<and> field_of j ''monitor_name'' = Some (JStr (mo_name sample_monitor))"
proof -
  let ?m = "sample_monitor\<lparr>mo_project := 3\<rparr>"
  have "status_page_get publishing_world boss_request ''add_resource'' 50 = Ok sample_page"
    by (simp add: status_page_get_def boss_permitted get_object_def status_page_queryset_def scope_queryset_by_team_def
        apply_team_param_def apply_team_scope_def boss_sees_all publishing_world_def sample_page_def order_by_simps)
  moreover have "public_page publishing_world ''acme'' = Ok sample_page"
    by (simp add: public_page_def publishing_world_def sample_page_def)
  moreover have "monitor_of publishing_world 90 = Some ?m"
    by (simp add: monitor_of_def publishing_world_def sample_monitor_def)
  ultimately show ?thesis
    using foreign_monitor_published [of publishing_world boss_request 50 sample_page "''acme''" 90 ?m
      "\<lparr>ri_monitor = Some 90, ri_group = None, ri_display_name = [], ri_order = 0\<rparr>" sample_project no_filter
      sample_env sample_env]
    by simp blast
qed

end
