(* ===== verification/Routing.thy ===== *)
theory Routing
  imports Middleware IncidentViews
begin

text \<open>
  The URLs of the server: the table of \<open>oneuptime/urls.py\<close> and of the \<open>urls.py\<close> of every application,
  with the views and the \<open>@action\<close>s they name, and which view method a path and an HTTP method
  reach. Patterns are matched segment by segment, the first that matches decides, and its methods
  are the only ones allowed. In which order the framework's router lists the URLs of a viewset is
  an argument (\<open>arrange\<close>): only that it lists each of them is used. HEAD, OPTIONS and the redirect
  of a path without its final slash are left out.
\<close>

section \<open>Patterns\<close>

text \<open>
  Keys are \<open>[^/.]+\<close> (the router's default for a key), the regular expression of
  \<open>UserViewSet\<close>, and \<open><uuid:...>\<close>; a \<open>Suffix\<close> is a format like \<open>.json\<close>, and \<open>Rest\<close> whatever
  follows, for the admin site.
\<close>

datatype piece = Lit string | Key | HexKey | UuidKey | Suffix | Rest

definition is_format :: "string \<Rightarrow> bool" where
  "is_format s \<longleftrightarrow> s \<noteq> [] \<and> list_all (\<lambda>c. c \<in> set ''abcdefghijklmnopqrstuvwxyz0123456789'') s"

definition is_lower_hex :: "char \<Rightarrow> bool" where
  "is_lower_hex c \<longleftrightarrow> c \<in> set ''0123456789abcdef''"

definition uuid_form :: "string \<Rightarrow> bool" where
  "uuid_form s \<longleftrightarrow>
     (case split_on CHR ''-'' s of
        [a, b, c, d, e] \<Rightarrow>
          map length [a, b, c, d, e] = [8, 4, 4, 4, 12] \<and> list_all is_lower_hex (a @ b @ c @ d @ e)
      | _ \<Rightarrow> False)"

fun piece_matches :: "piece \<Rightarrow> string \<Rightarrow> bool" where
  "piece_matches (Lit l) s = (s = l)"
| "piece_matches Key s = (s \<noteq> [] \<and> CHR ''.'' \<notin> set s \<and> CHR ''/'' \<notin> set s)"
| "piece_matches HexKey s = (s \<noteq> [] \<and> list_all (\<lambda>c. is_lower_hex c \<or> c = CHR ''-'') s)"
| "piece_matches UuidKey s = uuid_form s"
| "piece_matches Suffix s = (case s of [] \<Rightarrow> False | c # fmt \<Rightarrow> c = CHR ''.'' \<and> is_format fmt)"
| "piece_matches Rest s = True"

fun pattern_matches :: "piece list \<Rightarrow> string list \<Rightarrow> bool" where
  "pattern_matches [Rest] (s # ss) = True"
| "pattern_matches (p # ps) (s # ss) = (piece_matches p s \<and> pattern_matches ps ss)"
| "pattern_matches [] [] = True"
| "pattern_matches _ _ = False"

text \<open>
  A router also takes \<open>.json\<close>-style suffixes: the last segment (before a final slash, if there is
  one) may carry a format of small letters and digits.
\<close>

definition without_format :: "string list \<Rightarrow> string list option" where
  "without_format segs =
     (let bare = (if segs \<noteq> [] \<and> last segs = [] then butlast segs else segs)
      in if bare = [] then None
         else (case rsplit_once CHR ''.'' (last bare) of
                 None \<Rightarrow> None
               | Some (base, fmt) \<Rightarrow>
                   if base \<noteq> [] \<and> is_format fmt then Some (butlast bare @ [base, []]) else None))"

record route =
  rt_pattern :: "piece list"
  rt_view :: string
  rt_actions :: "(http_method \<times> string) list"
  rt_formats :: bool

definition met :: "string \<Rightarrow> route \<Rightarrow> bool" where
  "met path r \<longleftrightarrow>
     (let segs = split_on CHR ''/'' path
      in pattern_matches (rt_pattern r) segs \<or>
         (rt_formats r \<and>
            (case without_format segs of Some s \<Rightarrow> pattern_matches (rt_pattern r) s | None \<Rightarrow> False)))"

text \<open>\<open>path(...)\<close>: the route as it is written below the root, keys as \<open><...>\<close>.\<close>

definition piece_of :: "string \<Rightarrow> piece" where
  "piece_of s = (if startswith s ''<uuid:'' then UuidKey else Lit s)"

definition url_path :: "string \<Rightarrow> string \<Rightarrow> (http_method \<times> string) list \<Rightarrow> route" where
  "url_path url view actions =
     \<lparr>rt_pattern = map piece_of (split_on CHR ''/'' url), rt_view = view, rt_actions = actions, rt_formats = False\<rparr>"

section \<open>Viewsets and the router\<close>

text \<open>A method with \<open>@action\<close>: its name, whether it is of one object, its methods and URL path.\<close>

record extra_action =
  xa_name :: string
  xa_detail :: bool
  xa_methods :: "http_method list"
  xa_path :: "piece list"

record viewset =
  vs_name :: string
  vs_lookup :: piece
  vs_collection :: "(http_method \<times> string) list"
  vs_object :: "(http_method \<times> string) list"
  vs_extra :: "extra_action list"

definition detail_action :: "string \<Rightarrow> http_method list \<Rightarrow> piece list \<Rightarrow> extra_action" where
  "detail_action name ms path = \<lparr>xa_name = name, xa_detail = True, xa_methods = ms, xa_path = path\<rparr>"

definition list_action :: "string \<Rightarrow> http_method list \<Rightarrow> piece list \<Rightarrow> extra_action" where
  "list_action name ms path = \<lparr>xa_name = name, xa_detail = False, xa_methods = ms, xa_path = path\<rparr>"

text \<open>What the classes of the framework bring along.\<close>

definition model_viewset :: "string \<Rightarrow> extra_action list \<Rightarrow> viewset" where
  "model_viewset name extra =
     \<lparr>vs_name = name, vs_lookup = Key, vs_collection = [(GET, ''list''), (POST, ''create'')],
      vs_object = [(GET, ''retrieve''), (PUT, ''update''), (PATCH, ''partial_update''), (DELETE, ''destroy'')],
      vs_extra = extra\<rparr>"

definition read_only_viewset :: "string \<Rightarrow> extra_action list \<Rightarrow> viewset" where
  "read_only_viewset name extra =
     \<lparr>vs_name = name, vs_lookup = Key, vs_collection = [(GET, ''list'')], vs_object = [(GET, ''retrieve'')],
      vs_extra = extra\<rparr>"

text \<open>The URLs of a registered viewset: one for each standard group that has a method, one for each action.\<close>

definition viewset_routes :: "string \<Rightarrow> string \<Rightarrow> viewset \<Rightarrow> route list" where
  "viewset_routes root pfx vs =
     (let base = map Lit (split_on CHR ''/'' root @ (if pfx = [] then [] else split_on CHR ''/'' pfx));
          mk = (\<lambda>pieces actions. \<lparr>rt_pattern = base @ pieces @ [Lit []], rt_view = vs_name vs,
                                   rt_actions = actions, rt_formats = True\<rparr>);
          extra = (\<lambda>x. mk ((if xa_detail x then [vs_lookup vs] else []) @ xa_path x)
                         (map (\<lambda>m. (m, xa_name x)) (xa_methods x)))
      in (if vs_collection vs \<noteq> [] then [mk [] (vs_collection vs)] else [])
         @ (if vs_object vs \<noteq> [] then [mk [vs_lookup vs] (vs_object vs)] else [])
         @ map extra (vs_extra vs))"

text \<open>The page at the root of a router, with its formats.\<close>

definition api_roots :: "string \<Rightarrow> route list" where
  "api_roots root =
     map (\<lambda>ps. \<lparr>rt_pattern = map Lit (split_on CHR ''/'' root) @ ps, rt_view = ''APIRootView'',
                rt_actions = [(GET, ''get'')], rt_formats = False\<rparr>)
       [[Lit []], [Suffix], [Suffix, Lit []]]"

type_synonym arrangement = "route list \<Rightarrow> route list"

definition router_urls :: "arrangement \<Rightarrow> string \<Rightarrow> (string \<times> viewset) list \<Rightarrow> route list" where
  "router_urls arrange root regs =
     arrange (concat (map (\<lambda>(pfx, vs). viewset_routes root pfx vs) regs) @ api_roots root)"

text \<open>What the framework's documentation says of a router.\<close>

definition lists_each :: "arrangement \<Rightarrow> bool" where
  "lists_each arrange \<longleftrightarrow> (\<forall>rs. set (arrange rs) = set rs)"

section \<open>The table\<close>

definition auth_urls :: "route list" where
  "auth_urls =
     [url_path ''/api/v1/auth/register/'' ''RegisterView'' [(POST, ''post'')],
      url_path ''/api/v1/auth/activate/'' ''ActivateAccountView'' [(POST, ''post'')],
      url_path ''/api/v1/auth/resend-activation/'' ''ResendActivationView'' [(POST, ''post'')],
      url_path ''/api/v1/auth/accept-invite/'' ''AcceptInviteView'' [(POST, ''post'')],
      url_path ''/api/v1/auth/login/'' ''LoginView'' [(POST, ''post'')],
      url_path ''/api/v1/auth/refresh/'' ''RefreshView'' [(POST, ''post'')],
      url_path ''/api/v1/auth/token/verify/'' ''TokenVerifyAPIView'' [(POST, ''post'')],
      url_path ''/api/v1/auth/logout/'' ''LogoutView'' [(POST, ''post'')],
      url_path ''/api/v1/auth/mfa/verify-login/'' ''MfaVerifyLoginView'' [(POST, ''post'')],
      url_path ''/api/v1/auth/mfa/setup/'' ''MfaSetupView'' [(POST, ''post'')],
      url_path ''/api/v1/auth/mfa/confirm/'' ''MfaConfirmView'' [(POST, ''post'')],
      url_path ''/api/v1/auth/mfa/disable/'' ''MfaDisableView'' [(POST, ''post'')],
      url_path ''/api/v1/auth/change-password/'' ''ChangePasswordView'' [(POST, ''post'')],
      url_path ''/api/v1/auth/password-reset/'' ''PasswordResetRequestView'' [(POST, ''post'')],
      url_path ''/api/v1/auth/password-reset/confirm/'' ''PasswordResetConfirmView'' [(POST, ''post'')],
      url_path ''/api/v1/auth/me/'' ''MeView'' [(GET, ''get''), (PUT, ''put''), (PATCH, ''patch'')],
      url_path ''/api/v1/auth/me/permissions/'' ''MePermissionsView'' [(GET, ''get'')],
      url_path ''/api/v1/auth/erase-account/'' ''EraseMyAccountView'' [(POST, ''post'')]]"

definition accounts_viewsets :: "(string \<times> viewset) list" where
  "accounts_viewsets =
       [(''users'', (read_only_viewset ''UserViewSet''
           [list_action ''invite'' [POST] [Lit ''invite''], detail_action ''deactivate'' [POST] [Lit ''deactivate'']])
             \<lparr>vs_lookup := HexKey\<rparr>)]"

definition accounts_urls :: "arrangement \<Rightarrow> route list" where
  "accounts_urls arrange = auth_urls @ router_urls arrange ''/api/v1'' accounts_viewsets"

definition rbac_viewsets :: "(string \<times> viewset) list" where
  "rbac_viewsets =
       [(''roles'', model_viewset ''RoleViewSet'' [list_action ''permissions_list'' [GET] [Lit ''permissions'']]),
        (''teams'', model_viewset ''TeamViewSet''
           [detail_action ''members'' [GET, POST] [Lit ''members''],
            detail_action ''remove_member'' [DELETE] [Lit ''members'', Key]]),
        (''api-keys'', \<lparr>vs_name = ''ApiKeyViewSet'', vs_lookup = Key,
           vs_collection = [(GET, ''list''), (POST, ''create'')], vs_object = [(DELETE, ''destroy'')], vs_extra = []\<rparr>),
        (''resource-policies'', model_viewset ''ResourcePolicyViewSet'' [])]"

definition rbac_urls :: "arrangement \<Rightarrow> route list" where
  "rbac_urls arrange = router_urls arrange ''/api/v1'' rbac_viewsets"

definition monitoring_viewsets :: "(string \<times> viewset) list" where
  "monitoring_viewsets =
       [(''monitors'', model_viewset ''MonitorViewSet''
           [detail_action ''pause'' [POST] [Lit ''pause''], detail_action ''resume'' [POST] [Lit ''resume''],
            detail_action ''logs'' [GET] [Lit ''logs''], detail_action ''uptime'' [GET] [Lit ''uptime''],
            detail_action ''status_timeline'' [GET] [Lit ''status-timeline''], list_action ''bulk'' [POST] [Lit ''bulk'']]),
        (''monitor-groups'', model_viewset ''MonitorGroupViewSet'' []),
        (''probes'', read_only_viewset ''ProbeViewSet'' [detail_action ''health'' [GET] [Lit ''health'']])]"

definition monitoring_urls :: "arrangement \<Rightarrow> route list" where
  "monitoring_urls arrange = router_urls arrange ''/api/v1'' monitoring_viewsets"

definition incidents_viewsets :: "(string \<times> viewset) list" where
  "incidents_viewsets =
       [(''incidents'', model_viewset ''IncidentViewSet''
           [detail_action ''acknowledge'' [POST] [Lit ''acknowledge''], detail_action ''resolve'' [POST] [Lit ''resolve''],
            detail_action ''assign'' [POST] [Lit ''assign''], detail_action ''notes'' [GET, POST] [Lit ''notes''],
            detail_action ''timeline'' [GET, POST] [Lit ''timeline''],
            detail_action ''postmortem'' [GET, POST, PUT] [Lit ''postmortem'']]),
        (''incident-states'', model_viewset ''IncidentStateViewSet'' []),
        (''incident-severities'', model_viewset ''IncidentSeverityViewSet'' []),
        (''escalation-policies'', model_viewset ''EscalationPolicyViewSet''
           [detail_action ''steps'' [GET] [Lit ''steps''], detail_action ''add_step'' [POST] [Lit ''steps''],
            detail_action ''remove_step'' [DELETE] [Lit ''steps'', Key]]),
        (''incident-workflows'', model_viewset ''IncidentWorkflowRuleViewSet'' [])]"

definition incidents_urls :: "arrangement \<Rightarrow> route list" where
  "incidents_urls arrange = router_urls arrange ''/api/v1'' incidents_viewsets"

definition maintenance_viewsets :: "(string \<times> viewset) list" where
  "maintenance_viewsets =
       [(''scheduled-maintenance'', model_viewset ''ScheduledMaintenanceViewSet''
           [detail_action ''cancel'' [POST] [Lit ''cancel'']])]"

definition maintenance_urls :: "arrangement \<Rightarrow> route list" where
  "maintenance_urls arrange = router_urls arrange ''/api/v1'' maintenance_viewsets"

definition webhooks_viewsets :: "(string \<times> viewset) list" where
  "webhooks_viewsets =
       [(''webhooks'', model_viewset ''WebhookViewSet''
           [detail_action ''deliveries'' [GET] [Lit ''deliveries''],
            detail_action ''retry'' [POST] [Lit ''deliveries'', Key, Lit ''retry'']])]"

definition webhooks_urls :: "arrangement \<Rightarrow> route list" where
  "webhooks_urls arrange = router_urls arrange ''/api/v1'' webhooks_viewsets"

definition tenancy_viewsets :: "(string \<times> viewset) list" where
  "tenancy_viewsets =
       [(''tenants'', model_viewset ''TenantViewSet''
           [detail_action ''suspend'' [POST] [Lit ''suspend''], detail_action ''activate'' [POST] [Lit ''activate'']]),
        (''projects'', model_viewset ''ProjectViewSet'' [])]"

definition tenancy_urls :: "arrangement \<Rightarrow> route list" where
  "tenancy_urls arrange = router_urls arrange ''/api/v1'' tenancy_viewsets"

definition audit_viewsets :: "(string \<times> viewset) list" where
  "audit_viewsets =
       [(''audit-log'', read_only_viewset ''AuditLogViewSet''
           [list_action ''verify'' [GET] [Lit ''verify''], list_action ''export'' [GET] [Lit ''export'']]),
        (''retention-policies'', model_viewset ''RetentionPolicyViewSet'' [])]"

definition audit_urls :: "arrangement \<Rightarrow> route list" where
  "audit_urls arrange = router_urls arrange ''/api/v1'' audit_viewsets"

definition status_pages_viewsets :: "(string \<times> viewset) list" where
  "status_pages_viewsets =
       [(''status-pages'', model_viewset ''StatusPageViewSet''
           [detail_action ''resources'' [GET] [Lit ''resources''],
            detail_action ''add_resource'' [POST] [Lit ''resources''],
            detail_action ''remove_resource'' [DELETE] [Lit ''resources'', Key],
            detail_action ''announcements'' [GET] [Lit ''announcements''],
            detail_action ''add_announcement'' [POST] [Lit ''announcements''],
            detail_action ''subscribers'' [GET] [Lit ''subscribers''],
            detail_action ''remove_subscriber'' [DELETE] [Lit ''subscribers'', Key],
            detail_action ''update_branding'' [PUT, PATCH] [Lit ''branding''],
            detail_action ''update_domain'' [PUT] [Lit ''domain'']])]"

text \<open>The public router is registered with an empty prefix below \<open>status/\<close>.\<close>

definition public_viewsets :: "(string \<times> viewset) list" where
  "public_viewsets =
       [([], \<lparr>vs_name = ''StatusPagePublicViewSet'', vs_lookup = Key, vs_collection = [],
              vs_object = [(GET, ''retrieve'')],
              vs_extra = [detail_action ''subscribe'' [POST] [Lit ''subscribe''],
                          detail_action ''verify_email'' [POST] [Lit ''verify-email''],
                          detail_action ''verify_phone'' [POST] [Lit ''verify-phone'']]\<rparr>)]"

definition status_pages_urls :: "arrangement \<Rightarrow> route list" where
  "status_pages_urls arrange =
     router_urls arrange ''/api/v1'' status_pages_viewsets @ router_urls arrange ''/api/v1/status'' public_viewsets"

definition admin_api_viewsets :: "(string \<times> viewset) list" where
  "admin_api_viewsets =
       [(''admin/tenants'', model_viewset ''AdminTenantViewSet''
           [detail_action ''suspend'' [POST] [Lit ''suspend''], detail_action ''activate'' [POST] [Lit ''activate''],
            detail_action ''impersonate'' [POST] [Lit ''impersonate''], detail_action ''usage'' [GET] [Lit ''usage'']])]"

definition system_urls :: "route list" where
  "system_urls =
     [url_path ''/api/v1/admin/system/'' ''AdminSystemViewSet'' [(GET, ''health'')],
      url_path ''/api/v1/admin/system/health'' ''AdminSystemViewSet'' [(GET, ''health'')],
      url_path ''/api/v1/admin/system/metrics'' ''AdminSystemViewSet'' [(GET, ''metrics'')],
      url_path ''/api/v1/admin/audit-log'' ''AdminAuditLogViewSet'' [(GET, ''list_logs'')]]"

definition admin_api_urls :: "arrangement \<Rightarrow> route list" where
  "admin_api_urls arrange = router_urls arrange ''/api/v1'' admin_api_viewsets @ system_urls"

definition saml_urls :: "route list" where
  "saml_urls =
     [url_path ''/api/v1/sso/discover/'' ''SSODiscoverView'' [(GET, ''get'')],
      url_path ''/api/v1/sso/metadata/<uuid:project_id>/'' ''SSOMetadataView'' [(GET, ''get'')],
      url_path ''/api/v1/sso/login/<uuid:project_id>/'' ''SSOLoginView'' [(GET, ''get'')],
      url_path ''/api/v1/sso/acs/<uuid:project_id>/'' ''SSOACSView'' [(GET, ''get''), (POST, ''post'')],
      url_path ''/api/v1/sso/slo/<uuid:project_id>/'' ''SSOSLOView'' [(GET, ''get'')]]"

definition sso_viewsets :: "(string \<times> viewset) list" where
  "sso_viewsets =
       [(''sso/config'', model_viewset ''SSOConfigViewSet''
           [detail_action ''regenerate_scim_token'' [POST] [Lit ''regenerate-scim-token''],
            detail_action ''scim_logs'' [GET] [Lit ''scim-logs''],
            list_action ''provider_presets'' [GET] [Lit ''provider-presets'']])]"

definition sso_urls :: "arrangement \<Rightarrow> route list" where
  "sso_urls arrange = saml_urls @ router_urls arrange ''/api/v1'' sso_viewsets"

definition crud :: "(http_method \<times> string) list" where
  "crud = [(GET, ''get''), (POST, ''post''), (PUT, ''put''), (PATCH, ''patch''), (DELETE, ''delete'')]"

definition scim_urls :: "route list" where
  "scim_urls =
     [url_path ''/scim/v2/ServiceProviderConfig'' ''SCIMServiceProviderConfigView'' [(GET, ''get'')],
      url_path ''/scim/v2/Schemas'' ''SCIMSchemasView'' [(GET, ''get'')],
      url_path ''/scim/v2/Users'' ''SCIMUsersView'' crud,
      url_path ''/scim/v2/Users/<uuid:user_id>'' ''SCIMUsersView'' crud,
      url_path ''/scim/v2/Groups'' ''SCIMGroupsView'' crud,
      url_path ''/scim/v2/Groups/<uuid:group_id>'' ''SCIMGroupsView'' crud]"

text \<open>The root: the admin site answers for everything below \<open>/admin/\<close>.\<close>

definition root_urls :: "route list" where
  "root_urls =
     [\<lparr>rt_pattern = [Lit [], Lit ''admin'', Rest], rt_view = ''admin.site'', rt_actions = crud, rt_formats = False\<rparr>,
      url_path ''/healthz'' ''healthz'' crud,
      url_path ''/api/v1/openapi.json'' ''SpectacularAPIView'' [(GET, ''get'')],
      url_path ''/api/v1/docs'' ''SpectacularSwaggerView'' [(GET, ''get'')],
      url_path ''/api/v1/redoc'' ''SpectacularRedocView'' [(GET, ''get'')]]"

definition urlpatterns :: "arrangement \<Rightarrow> route list" where
  "urlpatterns arrange =
     root_urls @
     accounts_urls arrange @ rbac_urls arrange @ monitoring_urls arrange @ incidents_urls arrange @
     maintenance_urls arrange @ webhooks_urls arrange @ tenancy_urls arrange @ audit_urls arrange @
     status_pages_urls arrange @ admin_api_urls arrange @ sso_urls arrange @ scim_urls"

section \<open>Dispatch\<close>

definition resolve :: "arrangement \<Rightarrow> string \<Rightarrow> route option" where
  "resolve arrange path = find (met path) (urlpatterns arrange)"

text \<open>404, 405, or the method of a view.\<close>

datatype dispatched = NoRoute | NotAllowed | Calls string string

definition dispatch :: "arrangement \<Rightarrow> http_method \<Rightarrow> string \<Rightarrow> dispatched" where
  "dispatch arrange meth path =
     (case resolve arrange path of
        None \<Rightarrow> NoRoute
      | Some r \<Rightarrow> (case map_of (rt_actions r) meth of None \<Rightarrow> NotAllowed | Some a \<Rightarrow> Calls (rt_view r) a))"

end
