(* ===== verification/RoutingFacts.thy ===== *)
theory RoutingFacts
  imports Routing
begin

text \<open>
  What the URL table says of the middlewares' list of exempt paths, and which view methods no request
  can reach.
\<close>

section \<open>The table as a set\<close>

definition viewsets :: "(string \<times> viewset) list" where
  "viewsets =
     accounts_viewsets @ rbac_viewsets @ monitoring_viewsets @ incidents_viewsets @ maintenance_viewsets @
     webhooks_viewsets @ tenancy_viewsets @ audit_viewsets @ status_pages_viewsets @ admin_api_viewsets @ sso_viewsets"

text \<open>The routes that are written out, and those of the routers.\<close>

definition direct_urls :: "route list" where
  "direct_urls = root_urls @ auth_urls @ system_urls @ saml_urls @ scim_urls"

definition routed_urls :: "string \<Rightarrow> (string \<times> viewset) list \<Rightarrow> route set" where
  "routed_urls root regs = set (api_roots root) \<union> (\<Union>(pfx, vs) \<in> set regs. set (viewset_routes root pfx vs))"

lemma set_router_urls: "lists_each arrange \<Longrightarrow> set (router_urls arrange root regs) = routed_urls root regs"
  by (auto simp: router_urls_def lists_each_def routed_urls_def)

lemma routed_urls_append: "routed_urls root (xs @ ys) = routed_urls root xs \<union> routed_urls root ys"
  by (auto simp: routed_urls_def)

lemma set_urlpatterns:
  assumes "lists_each arrange"
  shows "set (urlpatterns arrange) =
    set direct_urls \<union> routed_urls ''/api/v1'' viewsets \<union> routed_urls ''/api/v1/status'' public_viewsets"
  using set_router_urls [OF assms]
  by (auto simp: urlpatterns_def accounts_urls_def rbac_urls_def monitoring_urls_def incidents_urls_def
      maintenance_urls_def webhooks_urls_def tenancy_urls_def audit_urls_def status_pages_urls_def
      admin_api_urls_def sso_urls_def direct_urls_def viewsets_def routed_urls_append)

lemma resolve_Some: "resolve arrange path = Some r \<Longrightarrow> r \<in> set (urlpatterns arrange) \<and> met path r"
  by (auto simp: resolve_def dest: find_SomeD)

lemma resolve_exists:
  "r \<in> set (urlpatterns arrange) \<Longrightarrow> met path r \<Longrightarrow> \<exists>r'. resolve arrange path = Some r'"
  by (auto simp: resolve_def find_None_iff not_None_eq [symmetric])

lemma viewset_routes_start:
  assumes "r \<in> set (viewset_routes root pfx vs)"
  shows "rt_view r = vs_name vs \<and> (\<exists>ps. ps \<noteq> [] \<and>
    rt_pattern r = map Lit (split_on CHR ''/'' root @ (if pfx = [] then [] else split_on CHR ''/'' pfx)) @ ps)"
  using assms by (auto simp: viewset_routes_def Let_def split: if_splits)

section \<open>Paths\<close>

lemma split_on_append_sep: "split_on c (a @ c # b) = split_on c a @ split_on c b"
  by (induction a) (auto split: list.splits)

lemma split_on_chars: "w \<in> set (split_on c s) \<Longrightarrow> x \<in> set w \<Longrightarrow> x \<in> set s"
  by (induction s arbitrary: w) (fastforce split: if_splits list.splits)+

lemma rsplit_once_Some: "rsplit_once c s = Some (a, b) \<Longrightarrow> s = a @ c # b"
  by (auto simp: rsplit_once_def dest!: split_once_Some split: prod.splits option.splits)
    (metis append.assoc append_Cons append_Nil rev.simps(2) rev_append rev_rev_ident)

text \<open>A format is at the end: what is left without it are segments, or starts of segments.\<close>

lemma format_starts:
  assumes "without_format segs = Some s" "n < length s"
  shows "n \<le> length segs \<and> list_all2 startswith (take n segs) (take n s)"
proof -
  define bare where "bare = (if segs \<noteq> [] \<and> last segs = [] then butlast segs else segs)"
  obtain base fmt where b: "bare \<noteq> []" "rsplit_once CHR ''.'' (last bare) = Some (base, fmt)"
    and s: "s = butlast bare @ [base, []]"
    using assms(1) by (auto simp: without_format_def bare_def [symmetric] Let_def split: if_splits option.splits)
  then obtain ini where bare: "bare = ini @ [base @ CHR ''.'' # fmt]"
    by (metis append_butlast_last_id rsplit_once_Some)
  then obtain rest where segs: "segs = ini @ (base @ CHR ''.'' # fmt) # rest"
    by (auto simp: bare_def split: if_splits) (metis append.assoc append_Cons append_Nil append_butlast_last_id)
  have same: "list_all2 startswith xs xs" for xs by (simp add: list_all2_refl)
  have "n \<le> Suc (length ini)" using assms(2) by (simp add: s bare)
  then show ?thesis
    by (cases "n \<le> length ini") (auto simp: segs s bare same list_all2_append le_Suc_eq Suc_le_eq)
qed

lemma pattern_matches_lits:
  "pattern_matches (map Lit pre @ ps) s \<Longrightarrow> ps \<noteq> [] \<Longrightarrow>
     length pre < length s \<and> take (length pre) s = pre \<and> pattern_matches ps (drop (length pre) s)"
proof (induction pre arbitrary: s)
  case Nil then show ?case by (cases s; cases ps) auto
next
  case (Cons l pre) then show ?case by (cases s) auto
qed

text \<open>The literal start of a pattern is the start of the segments, up to a format.\<close>

lemma met_start:
  assumes "met path r" "rt_pattern r = map Lit pre @ ps" "ps \<noteq> []"
  obtains xs rest where "split_on CHR ''/'' path = xs @ rest" "list_all2 startswith xs pre"
proof -
  from assms(1) consider "pattern_matches (rt_pattern r) (split_on CHR ''/'' path)"
    | s where "without_format (split_on CHR ''/'' path) = Some s" "pattern_matches (rt_pattern r) s"
    by (auto simp: met_def Let_def split: option.splits)
  then have "list_all2 startswith (take (length pre) (split_on CHR ''/'' path)) pre"
  proof cases
    case 1
    with pattern_matches_lits [of pre ps "split_on CHR ''/'' path"] assms(2,3) show ?thesis by (simp add: list_all2_refl)
  next
    case 2
    with pattern_matches_lits [of pre ps s] assms(2,3) format_starts [of "split_on CHR ''/'' path" s "length pre"]
    show ?thesis by auto
  qed
  then show ?thesis using append_take_drop_id [of "length pre" "split_on CHR ''/'' path"] by (metis that)
qed

text \<open>A route without keys is met by its own path only.\<close>

lemma lits_match: "pattern_matches (map Lit xs) ys \<longleftrightarrow> ys = xs"
  by (induction xs arbitrary: ys) (case_tac ys; auto)+

lemma met_url_path:
  assumes "CHR ''<'' \<notin> set url"
  shows "met path (url_path url v a) \<longleftrightarrow> path = url"
proof -
  have "piece_of w = Lit w" if "w \<in> set (split_on CHR ''/'' url)" for w
    using assms split_on_chars [OF that, of "CHR ''<''"] by (auto simp: piece_of_def startswith_iff)
  then have "map piece_of (split_on CHR ''/'' url) = map Lit (split_on CHR ''/'' url)" by simp
  then have "rt_pattern (url_path url v a) = map Lit (split_on CHR ''/'' url)" by (simp add: url_path_def)
  moreover have "\<not> rt_formats (url_path url v a)" by (simp add: url_path_def)
  moreover have "split_on CHR ''/'' path = split_on CHR ''/'' url \<longleftrightarrow> path = url" using join_split_on by metis
  ultimately show ?thesis by (simp add: met_def lits_match Let_def)
qed

section \<open>Where the routers' URLs start\<close>

lemma prefixes:
  "map fst viewsets =
     [''users'', ''roles'', ''teams'', ''api-keys'', ''resource-policies'', ''monitors'', ''monitor-groups'', ''probes'',
      ''incidents'', ''incident-states'', ''incident-severities'', ''escalation-policies'', ''incident-workflows'',
      ''scheduled-maintenance'', ''webhooks'', ''tenants'', ''projects'', ''audit-log'', ''retention-policies'',
      ''status-pages'', ''admin/tenants'', ''sso/config'']"
  by (simp add: viewsets_def accounts_viewsets_def rbac_viewsets_def monitoring_viewsets_def incidents_viewsets_def
      maintenance_viewsets_def webhooks_viewsets_def tenancy_viewsets_def audit_viewsets_def
      status_pages_viewsets_def admin_api_viewsets_def sso_viewsets_def)

text \<open>The first segment of a registered prefix, and the second if there is one.\<close>

definition heads :: "(string \<times> string list) list" where
  "heads = map (\<lambda>(pfx, vs). (hd (split_on CHR ''/'' pfx), tl (split_on CHR ''/'' pfx))) viewsets"

lemma heads_simp:
  "heads = map (\<lambda>h. (h, []))
     [''users'', ''roles'', ''teams'', ''api-keys'', ''resource-policies'', ''monitors'', ''monitor-groups'', ''probes'',
      ''incidents'', ''incident-states'', ''incident-severities'', ''escalation-policies'', ''incident-workflows'',
      ''scheduled-maintenance'', ''webhooks'', ''tenants'', ''projects'', ''audit-log'', ''retention-policies'',
      ''status-pages''] @ [(''admin'', [''tenants'']), (''sso'', [''config''])]"
proof -
  have "heads = map ((\<lambda>p. (hd (split_on CHR ''/'' p), tl (split_on CHR ''/'' p)))) (map fst viewsets)"
    by (simp add: heads_def comp_def case_prod_beta)
  then show ?thesis unfolding prefixes by simp
qed

lemma api_root_split: "split_on CHR ''/'' ''/api/v1'' = [[], ''api'', ''v1'']"
    "split_on CHR ''/'' ''/api/v1/status'' = [[], ''api'', ''v1'', ''status'']"
  by simp_all

text \<open>
  A path that meets a router's URL is below \<open>/api\<close>, and its third segment is empty, a format, or
  starts with a registered prefix; after a prefix of two segments the next starts with the second.
\<close>

definition below_router :: "string \<Rightarrow> string list \<Rightarrow> bool" where
  "below_router seg rest \<longleftrightarrow>
     piece_matches Suffix seg \<or> seg = [] \<or>
     list_ex (\<lambda>(h, t). startswith seg h \<and> (t = [] \<or> rest \<noteq> [] \<and> startswith (hd rest) (hd t))) heads"

lemma met_api_roots:
  assumes "met path r" "r \<in> set (api_roots root)"
  shows "\<exists>seg rest. split_on CHR ''/'' path = split_on CHR ''/'' root @ seg # rest \<and>
    (piece_matches Suffix seg \<or> seg = [])"
proof -
  from assms(2) obtain ps where p: "rt_pattern r = map Lit (split_on CHR ''/'' root) @ ps" "\<not> rt_formats r"
    "ps = [Lit []] \<or> ps = [Suffix] \<or> ps = [Suffix, Lit []]"
    by (auto simp: api_roots_def)
  with assms(1) pattern_matches_lits [of "split_on CHR ''/'' root" ps "split_on CHR ''/'' path"]
  have m: "take (length (split_on CHR ''/'' root)) (split_on CHR ''/'' path) = split_on CHR ''/'' root"
    "pattern_matches ps (drop (length (split_on CHR ''/'' root)) (split_on CHR ''/'' path))"
    by (auto simp: met_def)
  then obtain seg rest where d: "drop (length (split_on CHR ''/'' root)) (split_on CHR ''/'' path) = seg # rest"
    using p(3) by (cases "drop (length (split_on CHR ''/'' root)) (split_on CHR ''/'' path)") auto
  with m p(3) have "piece_matches Suffix seg \<or> seg = []" by (auto simp del: piece_matches.simps(5))
  moreover have "split_on CHR ''/'' path = split_on CHR ''/'' root @ seg # rest"
    using d m(1) by (metis append_take_drop_id)
  ultimately show ?thesis by blast
qed

lemma router_path:
  assumes "met path r" "r \<in> routed_urls ''/api/v1'' viewsets"
  obtains a b c seg rest where "split_on CHR ''/'' path = a # b # c # seg # rest" "startswith b ''api''"
    "below_router seg rest"
proof (cases "r \<in> set (api_roots ''/api/v1'')")
  case True
  from met_api_roots [OF assms(1) True] obtain seg rest where
    "split_on CHR ''/'' path = [] # ''api'' # ''v1'' # seg # rest" "piece_matches Suffix seg \<or> seg = []"
    unfolding api_root_split append.simps by blast
  then show ?thesis by (intro that) (auto simp: below_router_def simp del: piece_matches.simps)
next
  case False
  with assms(2) obtain pfx vs where v: "(pfx, vs) \<in> set viewsets" "r \<in> set (viewset_routes ''/api/v1'' pfx vs)"
    by (auto simp: routed_urls_def)
  have "list_all (\<lambda>p. p \<noteq> []) (map fst viewsets)" by (simp add: prefixes)
  with v(1) have "pfx \<noteq> []" by (auto simp: list_all_iff)
  define h where "h = hd (split_on CHR ''/'' pfx)"
  define t where "t = tl (split_on CHR ''/'' pfx)"
  have ht: "split_on CHR ''/'' pfx = h # t" by (simp add: h_def t_def)
  with viewset_routes_start [OF v(2)] \<open>pfx \<noteq> []\<close> obtain ps where
    "ps \<noteq> []" "rt_pattern r = map Lit ([[], ''api'', ''v1'', h] @ t) @ ps" by auto
  then obtain xs ys where "split_on CHR ''/'' path = xs @ ys" "list_all2 startswith xs ([[], ''api'', ''v1'', h] @ t)"
    using met_start [OF assms(1)] by blast
  then obtain a b c seg zs where
    s: "split_on CHR ''/'' path = a # b # c # seg # zs @ ys" "startswith b ''api''" "startswith seg h"
    "list_all2 startswith zs t"
    by (auto simp: list_all2_Cons2)
  have "(h, t) \<in> set heads" using v(1) by (force simp: heads_def h_def t_def)
  moreover have "t = [] \<or> zs @ ys \<noteq> [] \<and> startswith (hd (zs @ ys)) (hd t)"
    using s(4) by (cases t; cases zs) auto
  ultimately have "below_router seg (zs @ ys)" using s(3) by (auto simp: below_router_def list_ex_iff)
  with s(1,2) show ?thesis by (rule that)
qed

lemma public_path:
  assumes "met path r" "r \<in> routed_urls ''/api/v1/status'' public_viewsets"
  obtains a b c seg rest where "split_on CHR ''/'' path = a # b # c # seg # rest" "startswith b ''api''"
    "startswith seg ''status''"
proof (cases "r \<in> set (api_roots ''/api/v1/status'')")
  case True
  from met_api_roots [OF assms(1) True] obtain seg rest where
    "split_on CHR ''/'' path = [] # ''api'' # ''v1'' # ''status'' # seg # rest"
    unfolding api_root_split append.simps by blast
  then show ?thesis by (rule that) simp_all
next
  case False
  with assms(2) obtain vs where "r \<in> set (viewset_routes ''/api/v1/status'' [] vs)"
    by (auto simp: routed_urls_def public_viewsets_def)
  from viewset_routes_start [OF this] obtain ps where
    "ps \<noteq> []" "rt_pattern r = map Lit [[], ''api'', ''v1'', ''status''] @ ps" by auto
  then obtain xs ys where "split_on CHR ''/'' path = xs @ ys" "list_all2 startswith xs [[], ''api'', ''v1'', ''status'']"
    using met_start [OF assms(1)] by blast
  then obtain a b c seg where
    "split_on CHR ''/'' path = a # b # c # seg # ys" "startswith b ''api''" "startswith seg ''status''"
    by (auto simp: list_all2_Cons2)
  then show ?thesis by (rule that)
qed

section \<open>The exempt paths\<close>

definition AUTH_PATHS :: "string list" where
  "AUTH_PATHS = filter (\<lambda>p. startswith p ''/api/v1/auth/'') SKIP_PATHS"

lemma AUTH_PATHS_simp:
  "AUTH_PATHS = [''/api/v1/auth/register'', ''/api/v1/auth/login'', ''/api/v1/auth/activate'',
     ''/api/v1/auth/resend-activation'', ''/api/v1/auth/refresh'', ''/api/v1/auth/token/verify'',
     ''/api/v1/auth/password-reset'', ''/api/v1/auth/password-reset/confirm'', ''/api/v1/auth/accept-invite'']"
  by (simp add: AUTH_PATHS_def SKIP_PATHS_def startswith_def)

lemma auth_urls_unskipped: "list_all (\<lambda>r. \<forall>path. met path r \<longrightarrow> \<not> should_skip path) (auth_urls @ system_urls)"
  by (simp add: auth_urls_def system_urls_def met_url_path should_skip_def SKIP_PATHS_def SKIP_PREFIXES_def
      startswith_def)

text \<open>Where an exempt path is.\<close>

fun exempt_segments :: "string list \<Rightarrow> bool" where
  "exempt_segments (a # b # c # seg # rest) \<longleftrightarrow>
     \<not> startswith b ''api'' \<or> seg \<in> {''auth'', ''openapi.json'', ''docs'', ''redoc''} \<or>
     seg = ''sso'' \<and> rest \<noteq> [] \<and> hd rest \<in> {''discover'', ''metadata'', ''login'', ''acs'', ''slo''}"
| "exempt_segments _ \<longleftrightarrow> True"

lemma skip_paths_segments: "list_all (\<lambda>p. exempt_segments (split_on CHR ''/'' p)) SKIP_PATHS"
  by (simp add: SKIP_PATHS_def startswith_def)

lemma skip_prefixes_segments:
  "list_all (\<lambda>p. exempt_segments (split_on CHR ''/'' (butlast p) @ split_on CHR ''/'' s) \<and> last p = CHR ''/'')
     (''/status/'' # SKIP_PREFIXES)"
  by (cases "split_on CHR ''/'' s"; cases "tl (split_on CHR ''/'' s)") (auto simp: SKIP_PREFIXES_def startswith_def)

lemma exempt_path_segments:
  assumes "should_skip path"
  shows "exempt_segments (split_on CHR ''/'' path)"
proof -
  from assms consider "path \<in> set SKIP_PATHS" | p where "p \<in> set (''/status/'' # SKIP_PREFIXES)" "startswith path p"
    by (auto simp: should_skip_def list_ex_iff split: if_splits)
  then show ?thesis
  proof cases
    case 1 with skip_paths_segments show ?thesis by (simp add: list_all_iff)
  next
    case 2
    then obtain s where path: "path = p @ s" by (auto simp: startswith_iff)
    from 2(1) skip_prefixes_segments [of s]
    have p: "exempt_segments (split_on CHR ''/'' (butlast p) @ split_on CHR ''/'' s)" "last p = CHR ''/''"
      by (simp_all only: list_all_iff)
    from 2(1) have "p \<noteq> []" by (auto simp: SKIP_PREFIXES_def)
    with p(2) have "path = butlast p @ CHR ''/'' # s" by (simp add: path) (metis append_butlast_last_id)
    with p(1) show ?thesis by (simp add: split_on_append_sep)
  qed
qed

lemma exempt_not_routed:
  assumes "exempt_segments (a # b # c # seg # rest)" "startswith b ''api''"
  shows "\<not> below_router seg rest" "\<not> startswith seg ''status''"
  using assms by (auto simp: below_router_def heads_simp startswith_def)

lemma exempt_resolve:
  assumes "lists_each arrange" "should_skip path" "resolve arrange path = Some r"
  shows "r \<in> set (root_urls @ saml_urls @ scim_urls)"
proof -
  have r: "r \<in> set (urlpatterns arrange)" "met path r" using resolve_Some [OF assms(3)] by auto
  have e: "exempt_segments (split_on CHR ''/'' path)" by (rule exempt_path_segments [OF assms(2)])
  from r(1) consider "r \<in> set direct_urls" | "r \<in> routed_urls ''/api/v1'' viewsets"
    | "r \<in> routed_urls ''/api/v1/status'' public_viewsets"
    by (auto simp: set_urlpatterns [OF assms(1)])
  then show ?thesis
  proof cases
    case 1
    moreover have "r \<notin> set (auth_urls @ system_urls)"
      using auth_urls_unskipped r(2) assms(2) by (auto simp only: list_all_iff)
    ultimately show ?thesis by (auto simp: direct_urls_def)
  next
    case 2
    from router_path [OF r(2) this] e exempt_not_routed(1) show ?thesis by metis
  next
    case 3
    from public_path [OF r(2) this] e exempt_not_routed(2) show ?thesis by metis
  qed
qed

text \<open>
  C31. What the tenant and project checks are skipped for. Whatever path \<open>should_skip\<close> exempts, if it has a
  view at all, that is one of the admin site, the health and documentation pages, the SAML endpoints or
  SCIM: no view of the REST API that works on a tenant's data is reached without the middlewares, in
  whatever order the routers list their URLs.
\<close>

theorem exempt_views:
  assumes "lists_each arrange" "should_skip path" "resolve arrange path = Some r"
  shows "r \<in> set (root_urls @ saml_urls @ scim_urls)"
  using assms by (rule exempt_resolve)

section \<open>The public views are not exempt\<close>

lemma pattern_matches_Lit:
  "pattern_matches (Lit l # ps) ss \<longleftrightarrow> (\<exists>t. ss = l # t \<and> pattern_matches ps t)"
  by (cases ss) auto

lemma met_url: "met path (url_path url v a) \<longleftrightarrow>
    pattern_matches (map piece_of (split_on CHR ''/'' url)) (split_on CHR ''/'' path)"
  by (simp add: met_def url_path_def Let_def)

lemma met_unformatted: "met path \<lparr>rt_pattern = ps, rt_view = v, rt_actions = a, rt_formats = False\<rparr> \<longleftrightarrow>
    pattern_matches ps (split_on CHR ''/'' path)"
  by (simp add: met_def Let_def)

definition section_of :: "string list \<Rightarrow> string" where
  "section_of segs = (if take 3 segs = [[], ''api'', ''v1''] then segs ! 3 else segs ! 1)"

lemma exempt_meets:
  "list_all (\<lambda>r. \<forall>path. met path r \<longrightarrow> section_of (split_on CHR ''/'' path) \<in>
      set [''admin'', ''healthz'', ''scim'', ''openapi.json'', ''docs'', ''redoc'', ''sso''])
    (root_urls @ saml_urls @ scim_urls)"
  by (auto simp: root_urls_def saml_urls_def scim_urls_def met_url met_unformatted piece_of_def startswith_def
      pattern_matches_Lit section_of_def split: if_splits)

lemma auth_meets:
  "list_all (\<lambda>r. \<forall>path. met path r \<longrightarrow> section_of (split_on CHR ''/'' path) = ''auth'') auth_urls"
  by (simp add: auth_urls_def met_url_path section_of_def)

lemma system_meets:
  "list_all (\<lambda>r. \<forall>path. met path r \<longrightarrow> section_of (split_on CHR ''/'' path) = ''admin'') system_urls"
  by (simp add: system_urls_def met_url_path section_of_def)

lemma direct_section:
  assumes "r \<in> set direct_urls" "met path r"
  shows "section_of (split_on CHR ''/'' path) \<in>
    set [''admin'', ''healthz'', ''scim'', ''openapi.json'', ''docs'', ''redoc'', ''sso''] \<or>
    r \<in> set auth_urls \<and> section_of (split_on CHR ''/'' path) = ''auth''"
proof (cases "r \<in> set (root_urls @ saml_urls @ scim_urls)")
  case True
  with exempt_meets assms(2) show ?thesis unfolding list_all_iff by blast
next
  case False
  with assms(1) have "r \<in> set auth_urls \<or> r \<in> set system_urls" by (auto simp: direct_urls_def)
  then show ?thesis using auth_meets system_meets assms(2) by (fastforce simp: list_all_iff)
qed

text \<open>Below \<open>/status/\<close> there is nothing, below \<open>/api/v1/auth/\<close> only what the accounts list.\<close>

lemma resolve_status:
  assumes "lists_each arrange" "startswith path ''/status/''"
  shows "resolve arrange path = None"
proof (rule ccontr)
  assume "resolve arrange path \<noteq> None"
  then obtain r where "resolve arrange path = Some r" by blast
  then have r: "r \<in> set (urlpatterns arrange)" "met path r" using resolve_Some by auto
  from assms(2) obtain s where "path = ''/status'' @ CHR ''/'' # s" by (auto simp: startswith_iff)
  then have p: "split_on CHR ''/'' path = [] # ''status'' # split_on CHR ''/'' s" by (simp only: split_on_append_sep) simp
  from r(1) consider "r \<in> set direct_urls" | "r \<in> routed_urls ''/api/v1'' viewsets"
    | "r \<in> routed_urls ''/api/v1/status'' public_viewsets"
    by (auto simp: set_urlpatterns [OF assms(1)])
  then show False
  proof cases
    case 1 from direct_section [OF this r(2)] show False by (simp add: p section_of_def)
  next
    case 2 from router_path [OF r(2) this] show False by (auto simp: p startswith_def)
  next
    case 3 from public_path [OF r(2) this] show False by (auto simp: p startswith_def)
  qed
qed

lemma resolve_auth:
  assumes "lists_each arrange" "split_on CHR ''/'' path = [] # ''api'' # ''v1'' # ''auth'' # rest"
    "resolve arrange path = Some r"
  shows "r \<in> set auth_urls \<and> met path r"
proof -
  have r: "r \<in> set (urlpatterns arrange)" "met path r" using resolve_Some [OF assms(3)] by auto
  from r(1) consider "r \<in> set direct_urls" | "r \<in> routed_urls ''/api/v1'' viewsets"
    | "r \<in> routed_urls ''/api/v1/status'' public_viewsets"
    by (auto simp: set_urlpatterns [OF assms(1)])
  then show ?thesis
  proof cases
    case 1 from direct_section [OF this r(2)] r(2) show ?thesis by (simp add: assms(2) section_of_def)
  next
    case 2 from router_path [OF r(2) this] assms(2) show ?thesis by (auto simp: below_router_def heads_simp startswith_def)
  next
    case 3 from public_path [OF r(2) this] assms(2) show ?thesis by (auto simp: startswith_def)
  qed
qed

lemma auth_unrouted:
  assumes "lists_each arrange" "p \<in> set AUTH_PATHS"
  shows "resolve arrange p = None"
proof -
  have "list_all (\<lambda>p. (\<exists>rest. split_on CHR ''/'' p = [] # ''api'' # ''v1'' # ''auth'' # rest) \<and>
      list_all (\<lambda>r. \<not> met p r) auth_urls) AUTH_PATHS"
    by (simp add: AUTH_PATHS_simp auth_urls_def met_url_path)
  with assms(2) obtain rest where "split_on CHR ''/'' p = [] # ''api'' # ''v1'' # ''auth'' # rest"
    "list_all (\<lambda>r. \<not> met p r) auth_urls"
    by (auto simp: list_all_iff)
  with resolve_auth [OF assms(1)] show ?thesis by (cases "resolve arrange p") (auto simp: list_all_iff)
qed

definition AUTH_VIEWS :: "string list" where
  "AUTH_VIEWS = [''RegisterView'', ''LoginView'', ''ActivateAccountView'', ''ResendActivationView'', ''RefreshView'',
     ''TokenVerifyAPIView'', ''PasswordResetRequestView'', ''PasswordResetConfirmView'', ''AcceptInviteView'']"

lemma auth_routed:
  assumes "lists_each arrange"
  shows "list_all2 (\<lambda>p v. map_option rt_view (resolve arrange (p @ ''/'')) = Some v \<and> \<not> should_skip (p @ ''/''))
    AUTH_PATHS AUTH_VIEWS"
proof -
  have "list_all2 (\<lambda>p v. (\<exists>rest. split_on CHR ''/'' (p @ ''/'') = [] # ''api'' # ''v1'' # ''auth'' # rest) \<and>
      list_ex (met (p @ ''/'')) auth_urls \<and> list_all (\<lambda>r. met (p @ ''/'') r \<longrightarrow> rt_view r = v) auth_urls)
      AUTH_PATHS AUTH_VIEWS"
    by (simp add: AUTH_PATHS_simp AUTH_VIEWS_def auth_urls_def met_url_path) (simp add: url_path_def)
  then show ?thesis
  proof (rule list.rel_mono_strong)
    fix p v
    assume a: "(\<exists>rest. split_on CHR ''/'' (p @ ''/'') = [] # ''api'' # ''v1'' # ''auth'' # rest) \<and>
      list_ex (met (p @ ''/'')) auth_urls \<and> list_all (\<lambda>r. met (p @ ''/'') r \<longrightarrow> rt_view r = v) auth_urls"
    then obtain r0 where r0: "r0 \<in> set auth_urls" "met (p @ ''/'') r0" by (auto simp: list_ex_iff)
    then have "r0 \<in> set (urlpatterns arrange)" by (simp add: set_urlpatterns [OF assms] direct_urls_def)
    from resolve_exists [OF this r0(2)] obtain r where r: "resolve arrange (p @ ''/'') = Some r" by blast
    with a resolve_auth [OF assms] have "r \<in> set auth_urls" "met (p @ ''/'') r" by blast+
    with a r have "map_option rt_view (resolve arrange (p @ ''/'')) = Some v" by (simp add: list_all_iff)
    moreover have "\<not> should_skip (p @ ''/'')" using auth_urls_unskipped r0 unfolding list_all_iff by auto
    ultimately show "map_option rt_view (resolve arrange (p @ ''/'')) = Some v \<and> \<not> should_skip (p @ ''/'')" ..
  qed
qed

text \<open>The path of a public page.\<close>

definition public_url :: "string \<Rightarrow> string" where
  "public_url slug = ''/api/v1/status/'' @ slug @ ''/''"

lemma split_on_single: "c \<notin> set s \<Longrightarrow> split_on c s = [s]"
  by (induction s) auto

lemma public_url_split:
  assumes "piece_matches Key slug"
  shows "split_on CHR ''/'' (public_url slug) = [] # ''api'' # ''v1'' # ''status'' # slug # [[]]"
proof -
  have e: "public_url slug = ''/api/v1/status'' @ CHR ''/'' # slug @ CHR ''/'' # []" by (simp add: public_url_def)
  show ?thesis unfolding e split_on_append_sep using assms by (simp add: split_on_single)
qed

lemma public_routed:
  assumes "lists_each arrange" "piece_matches Key slug"
  shows "map_option rt_view (resolve arrange (public_url slug)) = Some ''StatusPagePublicViewSet''"
proof -
  let ?s = "split_on CHR ''/'' (public_url slug)"
  note s = public_url_split [OF assms(2)]
  have not: "slug \<noteq> []" "\<not> piece_matches Suffix slug" using assms(2) by (auto split: list.splits)
  obtain vs where vs: "public_viewsets = [([], vs)]" "vs_name vs = ''StatusPagePublicViewSet''" "vs_lookup vs = Key"
    "vs_object vs \<noteq> []"
    by (simp add: public_viewsets_def)
  let ?r0 = "\<lparr>rt_pattern = map Lit [[], ''api'', ''v1'', ''status''] @ [Key, Lit []], rt_view = vs_name vs,
    rt_actions = vs_object vs, rt_formats = True\<rparr>"
  have "?r0 \<in> set (viewset_routes ''/api/v1/status'' [] vs)" using vs(3,4) by (simp add: viewset_routes_def Let_def)
  then have "?r0 \<in> set (urlpatterns arrange)" by (auto simp: set_urlpatterns [OF assms(1)] routed_urls_def vs(1))
  moreover have "met (public_url slug) ?r0" using assms(2) by (simp add: met_def s Let_def)
  ultimately obtain r where res: "resolve arrange (public_url slug) = Some r" using resolve_exists by blast
  then have r: "r \<in> set (urlpatterns arrange)" "met (public_url slug) r" using resolve_Some by auto
  from r(1) consider "r \<in> set direct_urls" | "r \<in> routed_urls ''/api/v1'' viewsets"
    | "r \<in> set (api_roots ''/api/v1/status'')" | "r \<in> set (viewset_routes ''/api/v1/status'' [] vs)"
    by (auto simp: set_urlpatterns [OF assms(1)] routed_urls_def vs(1))
  then have "rt_view r = ''StatusPagePublicViewSet''"
  proof cases
    case 1 from direct_section [OF this r(2)] show ?thesis by (simp add: s section_of_def)
  next
    case 2 from router_path [OF r(2) this] show ?thesis by (auto simp: s below_router_def heads_simp startswith_def)
  next
    case 3 from met_api_roots [OF r(2) this] not show ?thesis unfolding s api_root_split by auto
  next
    case 4 from viewset_routes_start [OF this] vs(2) show ?thesis by simp
  qed
  with res show ?thesis by simp
qed

lemma public_unskipped: "piece_matches Key slug \<Longrightarrow> \<not> should_skip (public_url slug)"
  using exempt_path_segments [of "public_url slug"] by (auto simp: public_url_split startswith_def)

text \<open>
  C34. The list of exempt paths misses the public views it names. In whatever order the routers list their
  URLs: none of its nine \<open>/api/v1/auth/\<close> entries leads to a view, because they lack the final slash of the
  routes, and the paths that do lead to the login, the registration and the other seven are not exempt;
  nothing at all is served below \<open>/status/\<close>, and the public status pages, which are below
  \<open>/api/v1/status/\<close>, are not exempt either.
\<close>

theorem exemptions_miss:
  assumes "lists_each arrange"
  shows "(\<forall>p \<in> set AUTH_PATHS. should_skip p \<and> resolve arrange p = None) \<and>
    list_all2 (\<lambda>p v. map_option rt_view (resolve arrange (p @ ''/'')) = Some v \<and> \<not> should_skip (p @ ''/''))
      AUTH_PATHS AUTH_VIEWS \<and>
    (\<forall>path. startswith path ''/status/'' \<longrightarrow> should_skip path \<and> resolve arrange path = None) \<and>
    (\<forall>slug. piece_matches Key slug \<longrightarrow>
       map_option rt_view (resolve arrange (public_url slug)) = Some ''StatusPagePublicViewSet'' \<and>
       \<not> should_skip (public_url slug))"
  using auth_unrouted [OF assms] auth_routed [OF assms] resolve_status [OF assms] public_routed [OF assms]
    public_unskipped
  by (auto simp: AUTH_PATHS_def should_skip_def)

section \<open>Two actions with one URL\<close>

definition calls :: "string \<Rightarrow> string \<Rightarrow> route \<Rightarrow> bool" where
  "calls view name r \<longleftrightarrow> rt_view r = view \<and> name \<in> snd ` set (rt_actions r)"

lemma routed_view:
  assumes "r \<in> routed_urls root regs"
  shows "rt_view r = ''APIRootView'' \<or>
    (\<exists>(pfx, vs) \<in> set regs. r \<in> set (viewset_routes root pfx vs) \<and> rt_view r = vs_name vs)"
  using assms viewset_routes_start by (fastforce simp: routed_urls_def api_roots_def)

lemma public_view: "r \<in> routed_urls ''/api/v1/status'' public_viewsets \<Longrightarrow>
    rt_view r \<in> {''APIRootView'', ''StatusPagePublicViewSet''}"
  using routed_view [of r "''/api/v1/status''" public_viewsets] by (auto simp: public_viewsets_def)

lemma dispatch_Calls:
  "dispatch arrange meth path = Calls view name \<Longrightarrow> \<exists>r. resolve arrange path = Some r \<and> calls view name r"
  by (auto simp: dispatch_def calls_def image_iff split: option.splits dest!: map_of_SomeD intro!: bexI)

lemma met_cong: "rt_pattern r = rt_pattern r' \<Longrightarrow> rt_formats r = rt_formats r' \<Longrightarrow> met path r = met path r'"
  by (simp add: met_def Let_def split: option.split)

text \<open>Of the routes with one pattern only the first in the list is ever taken.\<close>

lemma first_pattern_wins:
  assumes "\<And>r. r \<in> set rs \<Longrightarrow> A r \<or> B r \<Longrightarrow> rt_pattern r = ps \<and> rt_formats r" "\<And>r. \<not> (A r \<and> B r)"
  shows "(\<forall>path r. find (met path) rs = Some r \<longrightarrow> \<not> A r) \<or> (\<forall>path r. find (met path) rs = Some r \<longrightarrow> \<not> B r)"
  using assms(1)
proof (induction rs)
  case (Cons r rs)
  have same: "met path r' = met path r" if "A r \<or> B r" "r' \<in> set rs" "A r' \<or> B r'" for r' path
    using Cons.prems [of r] Cons.prems [of r'] that by (intro met_cong) simp_all
  have later: "find (met path) rs = Some r' \<Longrightarrow> r' \<in> set rs \<and> met path r'" for path r'
    by (auto dest: find_SomeD)
  consider "A r" | "B r" | "\<not> A r" "\<not> B r" by blast
  then show ?case
  proof cases
    case 1
    with same later assms(2) have "\<forall>path r'. find (met path) (r # rs) = Some r' \<longrightarrow> \<not> B r'"
      by (auto split: if_splits)
    then show ?thesis ..
  next
    case 2
    with same later assms(2) have "\<forall>path r'. find (met path) (r # rs) = Some r' \<longrightarrow> \<not> A r'"
      by (auto split: if_splits)
    then show ?thesis ..
  next
    case 3
    with Cons show ?thesis by (auto split: if_splits)
  qed
qed simp

definition doubled :: "(string \<times> string \<times> string) list" where
  "doubled = [(''StatusPageViewSet'', ''resources'', ''add_resource''),
              (''StatusPageViewSet'', ''announcements'', ''add_announcement''),
              (''EscalationPolicyViewSet'', ''steps'', ''add_step'')]"

lemma doubled_direct: "list_all (\<lambda>(view, a, b). list_all (\<lambda>r. rt_view r \<noteq> view) direct_urls) doubled"
  by (simp add: doubled_def direct_urls_def root_urls_def auth_urls_def system_urls_def saml_urls_def scim_urls_def
      url_path_def)

lemma doubled_routed:
  "list_all (\<lambda>(view, a, b). a \<noteq> b \<and> (\<exists>ps. list_all (\<lambda>(pfx, vs). vs_name vs = view \<longrightarrow>
     list_all (\<lambda>r. (a \<in> snd ` set (rt_actions r) \<or> b \<in> snd ` set (rt_actions r)) \<longrightarrow> rt_pattern r = ps \<and> rt_formats r \<and>
       \<not> (a \<in> snd ` set (rt_actions r) \<and> b \<in> snd ` set (rt_actions r))) (viewset_routes ''/api/v1'' pfx vs)) viewsets)) doubled"
  by (simp add: doubled_def viewsets_def accounts_viewsets_def rbac_viewsets_def monitoring_viewsets_def incidents_viewsets_def
      maintenance_viewsets_def webhooks_viewsets_def tenancy_viewsets_def audit_viewsets_def
      status_pages_viewsets_def admin_api_viewsets_def sso_viewsets_def model_viewset_def read_only_viewset_def
      viewset_routes_def Let_def detail_action_def list_action_def)

text \<open>
  C36. Some actions can never be called. Where two actions of a viewset have one URL but are separate methods,
  the router makes two routes of the same pattern, and the first of them answers every request for it:
  reading and adding the resources of a status page, its announcements, and the steps of an escalation
  policy; of each pair one method is reached by no HTTP method and no path, whichever route comes first.
\<close>

theorem doubled_actions_unreachable:
  assumes "lists_each arrange" "(view, a, b) \<in> set doubled"
  shows "(\<forall>meth path. dispatch arrange meth path \<noteq> Calls view a) \<or>
    (\<forall>meth path. dispatch arrange meth path \<noteq> Calls view b)"
proof -
  from doubled_routed assms(2) obtain ps where ps: "a \<noteq> b" "list_all (\<lambda>(pfx, vs). vs_name vs = view \<longrightarrow>
     list_all (\<lambda>r. (a \<in> snd ` set (rt_actions r) \<or> b \<in> snd ` set (rt_actions r)) \<longrightarrow> rt_pattern r = ps \<and> rt_formats r \<and>
       \<not> (a \<in> snd ` set (rt_actions r) \<and> b \<in> snd ` set (rt_actions r))) (viewset_routes ''/api/v1'' pfx vs)) viewsets"
    unfolding list_all_iff by fast
  have r: "rt_pattern r = ps \<and> rt_formats r \<and> \<not> (calls view a r \<and> calls view b r)"
    if "r \<in> set (urlpatterns arrange)" "calls view a r \<or> calls view b r" for r
  proof -
    have v: "rt_view r = view" using that(2) by (auto simp: calls_def)
    have "view \<noteq> ''APIRootView''" "view \<noteq> ''StatusPagePublicViewSet''" using assms(2) by (auto simp: doubled_def)
    moreover have "r \<notin> set direct_urls" using doubled_direct assms(2) v by (auto simp: list_all_iff)
    ultimately have "r \<in> routed_urls ''/api/v1'' viewsets"
      using that(1) v public_view [of r] by (auto simp: set_urlpatterns [OF assms(1)])
    with routed_view [OF this] \<open>view \<noteq> ''APIRootView''\<close> v obtain pfx vs where
      "(pfx, vs) \<in> set viewsets" "r \<in> set (viewset_routes ''/api/v1'' pfx vs)" by auto
    with ps(2) that(2) viewset_routes_start [OF this(2)] v show ?thesis by (fastforce simp: list_all_iff calls_def)
  qed
  have "(\<forall>path r. find (met path) (urlpatterns arrange) = Some r \<longrightarrow> \<not> calls view a r) \<or>
    (\<forall>path r. find (met path) (urlpatterns arrange) = Some r \<longrightarrow> \<not> calls view b r)"
  proof (rule first_pattern_wins [where A = "\<lambda>r. r \<in> set (urlpatterns arrange) \<and> calls view a r"
        and B = "\<lambda>r. r \<in> set (urlpatterns arrange) \<and> calls view b r" and ps = ps and rs = "urlpatterns arrange",
        THEN disj_forward])
  qed (use r in \<open>auto dest: find_SomeD\<close>)
  then show ?thesis using dispatch_Calls [of arrange _ _ view] by (fastforce simp: resolve_def)
qed

section \<open>Witnesses\<close>

lemma lists_each_id: "lists_each id"
  by (simp add: lists_each_def)

theorem exempt_views_witness:
  "\<exists>r. resolve id ''/api/v1/sso/discover/'' = Some r \<and> r \<in> set (root_urls @ saml_urls @ scim_urls)"
proof -
  have "should_skip ''/api/v1/sso/discover/''" by (simp add: should_skip_def SKIP_PATHS_def)
  moreover have "url_path ''/api/v1/sso/discover/'' ''SSODiscoverView'' [(GET, ''get'')] \<in> set (urlpatterns id)"
    by (simp add: set_urlpatterns [OF lists_each_id] direct_urls_def saml_urls_def)
  from resolve_exists [OF this, of "''/api/v1/sso/discover/''"] obtain r where
    "resolve id ''/api/v1/sso/discover/'' = Some r" by (auto simp: met_url_path)
  ultimately show ?thesis using exempt_views [OF lists_each_id] by blast
qed

theorem exemptions_miss_witness:
  "resolve id ''/api/v1/auth/login'' = None \<and> \<not> should_skip (''/api/v1/auth/login'' @ ''/'') \<and>
   map_option rt_view (resolve id (public_url ''acme'')) = Some ''StatusPagePublicViewSet'' \<and>
   \<not> should_skip (public_url ''acme'')"
  using exemptions_miss [OF lists_each_id] by (simp add: AUTH_PATHS_simp AUTH_VIEWS_def)

theorem doubled_actions_unreachable_witness:
  "(\<forall>meth path. dispatch id meth path \<noteq> Calls ''EscalationPolicyViewSet'' ''steps'') \<or>
   (\<forall>meth path. dispatch id meth path \<noteq> Calls ''EscalationPolicyViewSet'' ''add_step'')"
  by (rule doubled_actions_unreachable [OF lists_each_id]) (simp add: doubled_def)

end
