(* ===== verification/Spec2Isabelle.thy ===== *)
theory Spec2Isabelle
  imports AuditFacts WebhookFacts RbacFacts RbacViews IncidentFacts IncidentViews JsonLoads MonitorFacts MonitorViewFacts
    MaintenanceFacts MaintenanceRunFacts AccountsFacts MiddlewareFacts SsoFacts StatusPageFacts RetentionFacts
    TenancyFacts WebhookViews RowSecurity Scheduler EditFacts Documents SeedFacts Isolation
    RoutingFacts
begin

text \<open>
  A model of the OneUptime API server, a multi-tenant Django project under src/: the tables of its
  eleven applications, the services and the handlers of its REST API, the middlewares, the
  management commands and the scheduler that runs them, as executable functions on an explicit
  world; and the theorems that make them correct.

  THE PROGRAM. A tenant has projects; users are members of tenants and hold roles, through teams
  or directly, in projects (\<open>apps/tenancy\<close>, \<open>apps/accounts\<close>, \<open>apps/rbac\<close>). Monitors of a
  project are checked periodically and open and resolve incidents (\<open>apps/monitoring\<close>,
  \<open>apps/incidents\<close>), unless a maintenance window covers them (\<open>apps/maintenance\<close>). Incidents
  escalate along a policy and trigger workflow rules. Status pages publish all that and notify
  subscribers (\<open>apps/status_pages\<close>); outbound webhooks carry the events to third parties
  (\<open>apps/webhooks\<close>). The save signals of most models append to a hash-chained audit log
  (\<open>apps/audit\<close>). Users log in by password with a second factor, by SAML, or are provisioned by
  SCIM (\<open>apps/sso\<close>). A request passes three middlewares (\<open>core/middleware.py\<close>), the authentication
  and permission classes, and its view; commands run from a scheduler (\<open>apps/scheduler\<close>).

  THE STATE. World.thy has the record \<open>world\<close>: one list of rows per table (rows are records with
  the source's columns, in the theories called ...Models, in the order of insertion), the cache, the
  thread-local audit actor, the tenant the database connection is set to, the mails and SMS handed
  to the gateways, and the counter \<open>w_next\<close> that fresh keys come from (a UUID or serial key is a
  natural number; the code only compares them). Prelude.thy has the row operations of a Django
  table (filter, first, update, delete, get or create), Python's exceptions and the result type
  \<open>py_error + 'a\<close>, and collections of rewrite rules. An instant is an integer count of
  microseconds; Calendar.thy computes dates and weekdays from it. A Python string is a list of
  characters, which confines texts to Latin-1 (PyStr.thy has the methods used). Json.thy and
  JsonLoads.thy have \<open>json.dumps\<close> and \<open>json.loads\<close>. What the program calls but does not contain
  (clock, hashes, random tokens, HTTP and DNS, TLS certificates, the SAML library, mail and SMS
  gateways, the TOTP library) is a field of a record of parameters (World.thy and the theories
  that use it) or an argument; no property assumes more of it than its statement says.

  THE COMPONENTS, each with the theory of its operations and the theory of its lemmas:
  \<^item> Audit: AuditTrail (\<open>audit/services.py\<close>, \<open>signals.py\<close>), Effects (the two side effects every
    handler has: an audit entry and an event), Retention (\<open>views.py\<close>, the commands
    \<open>purge_expired\<close> and \<open>verify_audit_chain\<close>). AuditFacts: every operation keeps the chain of every
    tenant valid, tampering with a logged entry is detected when the last hash is known;
    RetentionFacts: the purge deletes exactly what the configured age says, and nothing of the
    log.
  \<^item> Webhooks: Webhooks (\<open>webhooks/services.py\<close>), WebhookViews (\<open>views.py\<close>, \<open>serializers.py\<close>,
    the command). WebhookFacts: matching, one delivery per subscribed hook of the project, at
    most so many attempts, finished deliveries stay as they are.
  \<^item> Permissions: Rbac (\<open>rbac/permissions.py\<close>, \<open>services.py\<close>, \<open>core/team_scoping.py\<close>), RbacViews
    (\<open>views.py\<close>, \<open>serializers.py\<close>), ViewBase (what every view does first). RbacFacts: deny
    policies win, team scoping isolates, which permission strings grant what.
  \<^item> Incidents: Incidents (\<open>services/lifecycle.py\<close>, \<open>escalation.py\<close>, \<open>workflows.py\<close>),
    IncidentViews (\<open>views.py\<close>, \<open>views_escalation.py\<close>, \<open>serializers.py\<close>). IncidentFacts:
    acknowledging, resolving, rules and escalation on every branch, escalation as a refinement
    of a small machine.
  \<^item> Monitoring: Checks (\<open>services/checks.py\<close>: one function per type of monitor), MonitorRunner
    (\<open>runner.py\<close>, \<open>webhooks.py\<close>, \<open>uptime.py\<close>, the command \<open>run_checks\<close>), MonitorViews.
    MonitorFacts and MonitorViewFacts: the status machine of a monitor, incidents that follow it,
    suppression by maintenance, a timeline that counts each check once.
  \<^item> Maintenance: Maintenance (\<open>services.py\<close>: coverage, recurrence), MaintenanceRun
    (\<open>notifications.py\<close>, the command \<open>process_maintenance\<close>). MaintenanceFacts: recurring series
    end; MaintenanceRunFacts: the command refines the life cycle, a started window takes effect.
  \<^item> Status pages: StatusPages (\<open>services/subscribers.py\<close>, \<open>notifications.py\<close>), StatusPageViews.
    StatusPageFacts: the invariant of subscriptions, verification by token, what a stranger can do.
  \<^item> Accounts: Accounts (\<open>services/otp.py\<close>, \<open>mfa.py\<close>, \<open>email.py\<close>, \<open>onboarding.py\<close>),
    AccountsViews. AccountsFacts: one-time passwords and login sessions admit a bounded number
    of guesses, a signed-up user can log in, an invited newcomer cannot.
  \<^item> Single sign-on: Saml, Scim (\<open>services/saml.py\<close>, \<open>jit.py\<close>, \<open>scim.py\<close>), SsoEnforcement,
    SsoViews. SsoFacts: what provisioning gives and how far SCIM reaches.
  \<^item> Requests: Requests, Middleware (\<open>core/middleware.py\<close>); MiddlewareFacts: which requests reach
    the view, with which tenant and project, how many per window. Routing: the URL table of
    \<open>oneuptime/urls.py\<close> and the \<open>urls.py\<close> of the applications, and dispatch; RoutingFacts: what the
    middlewares' list of exempt paths covers and what it misses, and which actions no request
    reaches, for any order in which the routers list their URLs. RowSecurity: the policies of the
    migration \<open>tenancy/0002_rls_policies.py\<close>, what they hide and what they miss.
  \<^item> Tenancy: TenancyViews (\<open>tenancy/views.py\<close>, \<open>admin_api\<close>); TenancyFacts: suspension, deletion.
  \<^item> Generic endpoints: what a view inherits from the framework's ModelViewSet (creation, PUT, PATCH,
    deletion, with the serializer's fields and checks) is in IncidentEdits, MonitorEdits, RbacEdits,
    ServiceEdits (maintenance, status pages, webhooks, SSO configurations) and TenancyEdits. A partial update
    is a record with an optional value per field; a missing field is not touched. EditFacts:
    what these updates skip that the dedicated endpoints do. Isolation: any sequence of them in one
    project is invisible in every other (a contract \<open>project_view\<close> of table and queryset, interpreted on
    fifteen views), and where the isolation ends.
  \<^item> Commands run by hand: SeedDemo (\<open>seed_demo\<close>, \<open>send_test_email\<close>, the superuser of the user
    manager); SeedFacts: the demo account works, and \<open>--clean\<close> fails half-way.
  \<^item> Answers: Documents has the JSON documents of the serializers, and shows that the listings
    depend on no secret; AuditExport has the CSV and JSON lines of the audit log, and a reader of
    CSV that recovers the exported cells.
  \<^item> The server as a whole: Evolution has a relation between worlds (the audit log grows by
    \<open>record\<close> only, deliveries are queued by \<open>emit\<close> and attempted by the queue only, no superuser
    appears), closed under composition; EvolutionServices, EvolutionViews and EvolutionEdits
    show, operation by operation, that every service and handler refines it; ServerRun has the server as a
    transition system whose steps are the handlers and commands, behind the middlewares, in any
    order, and derives invariants of every reachable world. Scheduler has the timetable and shows
    that what it runs are runs of that system.

  Interfaces.thy and Budgets.thy hold the contracts components share, as locales: tables with a
  natural key filled by \<open>get_or_create\<close>, machines whose steps keep an invariant (and, extended by a
  measure, end), and answers charged to a budget. Each is interpreted on the operations of the
  program, in the theory that provides them.

  ERRORS. A raised exception is \<open>Inl\<close> of its class and message, and what the database had
  committed before is kept or rolled back as the source has it: an operation inside
  \<open>transaction.atomic\<close> returns the world it began with, any other the world so far. A handler's
  exception becomes the error document of \<open>core/exceptions.py\<close> in ViewBase and Requests.

  BOUNDS. Recursion is structural or has a proved measure. A next weekday is searched among the 366
  days the source's loop tries; when there is none (a list without any weekday) the source falls
  back to whole weeks, and so does the model. A free slug is found because the taken ones are finitely many, which the termination
  proof says; \<open>run_checks\<close> takes 200 monitors and the delivery queue its batch, as the source
  does; the rate limiter counts per window of 60 seconds. \<open>json.loads\<close> runs on fuel, twice the
  length of the text plus one: a recursive call that consumes no character is followed by one that
  does.

  NOT MODELLED: the migrations other than the policies above (generated; their tables are the
  models'), settings, admin site, API schema and HTML templates (declarations
  the framework interprets); pagination and the ordering parameters of
  the generic list views; JWT signing, refresh and blacklists (a library); the bodies of mails
  beyond the parameters the program chooses; floating point (a rate the source rounds is rounded
  from the exact quotient here); and interleavings inside one handler: a step
  of the server is one handler run to its end, so what two concurrent transactions may do to each
  other is outside.
\<close>

end
